(* ===== verification/Prelude.thy ===== *)
theory Prelude
  imports
    Main
    "HOL-Library.Word"
    "HOL-Library.Char_ord"
    "HOL-Library.List_Lexorder"
    "HOL-Library.Product_Lexorder"
    "HOL-Library.AList"
begin

unbundle bit_operations_syntax

text \<open>
  Shared vocabulary of the development: the machine types of the router, the
  outcome of a Go expression that can return an error or panic, Go's slice
  operations, big-endian 16-bit integers, the conversion between Go strings and
  byte slices, counting loops over 16-bit network numbers, and sorting with a
  Go comparison function.  Everything here models the language and its standard
  library; the program's own definitions are in the component theories.
\<close>

named_theorems go_simps \<open>evaluation of Go slice operations and of the error monad\<close>
named_theorems wire_simps \<open>layout of the wire formats as explicit byte lists\<close>

type_synonym byte = "8 word"
type_synonym u16 = "16 word"
type_synonym network = "16 word"
type_synonym time = int


section \<open>Outcomes of Go expressions\<close>

text \<open>
  A Go function of type \<open>(T, error)\<close> either returns a value or an error, and an
  index or slice expression out of range panics.  Both are values here, so that
  the absence of panics is a theorem and not an assumption of the model.
\<close>

datatype 'e fault = Panic | Err 'e

type_synonym ('a, 'e) go = "'e fault + 'a"

definition go_err :: "'e \<Rightarrow> ('a, 'e) go" where
  "go_err e = Inl (Err e)"

definition go_bind :: "('a, 'e) go \<Rightarrow> ('a \<Rightarrow> ('b, 'e) go) \<Rightarrow> ('b, 'e) go" where
  "go_bind m f = (case m of Inl e \<Rightarrow> Inl e | Inr x \<Rightarrow> f x)"

text \<open>\<open>fmt.Errorf("...: %w", err)\<close> wraps an error and leaves a panic a panic.\<close>

definition go_wrap :: "('e \<Rightarrow> 'f) \<Rightarrow> ('a, 'e) go \<Rightarrow> ('a, 'f) go" where
  "go_wrap f m = (case m of Inl Panic \<Rightarrow> Inl Panic | Inl (Err e) \<Rightarrow> Inl (Err (f e)) | Inr x \<Rightarrow> Inr x)"

text \<open>\<open>safe m\<close>: evaluating \<open>m\<close> does not panic.\<close>

definition safe :: "('a, 'e) go \<Rightarrow> bool" where
  "safe m \<longleftrightarrow> m \<noteq> Inl Panic"

lemma go_bind_simps [simp, go_simps]:
  "go_bind (Inr x) f = f x"
  "go_bind (Inl e) f = Inl e"
  "go_bind (go_err e') f = go_err e'"
  by (simp_all add: go_bind_def go_err_def)

lemma go_bind_cong [fundef_cong]:
  "m = m' \<Longrightarrow> (\<And>x. m' = Inr x \<Longrightarrow> f x = g x) \<Longrightarrow> go_bind m f = go_bind m' g"
  by (auto simp: go_bind_def split: sum.splits)

lemma go_bind_eq_Inr:
  "go_bind m f = Inr y \<longleftrightarrow> (\<exists>x. m = Inr x \<and> f x = Inr y)"
  by (auto simp: go_bind_def split: sum.splits)

lemma go_err_neq_Inr [simp]: "go_err e \<noteq> Inr x" "Inr x \<noteq> go_err e"
  by (simp_all add: go_err_def)

lemma go_wrap_eq_Inr [simp]: "go_wrap f m = Inr x \<longleftrightarrow> m = Inr x"
  by (auto simp: go_wrap_def split: sum.splits fault.splits)

lemma go_wrap_Inr [simp]: "go_wrap f (Inr x) = Inr x"
  by (simp add: go_wrap_def)

lemma safe_simps [simp]:
  "safe (Inr x)" "safe (go_err e)" "safe (Inl (Err e))" "\<not> safe (Inl Panic)"
  by (simp_all add: safe_def go_err_def)

lemma safe_go_wrap [simp]: "safe (go_wrap f m) \<longleftrightarrow> safe m"
  by (auto simp: go_wrap_def safe_def split: sum.splits fault.splits)

lemma safe_bind [intro!]:
  "safe m \<Longrightarrow> (\<And>x. m = Inr x \<Longrightarrow> safe (f x)) \<Longrightarrow> safe (go_bind m f)"
  by (auto simp: go_bind_def safe_def split: sum.splits)


section \<open>Slices\<close>

definition go_index :: "'a list \<Rightarrow> nat \<Rightarrow> ('a, 'e) go" where
  "go_index p i = (if i < length p then Inr (p ! i) else Inl Panic)"

definition go_from :: "'a list \<Rightarrow> nat \<Rightarrow> ('a list, 'e) go" where
  "go_from p i = (if i \<le> length p then Inr (drop i p) else Inl Panic)"

definition go_upto :: "'a list \<Rightarrow> nat \<Rightarrow> ('a list, 'e) go" where
  "go_upto p j = (if j \<le> length p then Inr (take j p) else Inl Panic)"

definition go_slice :: "'a list \<Rightarrow> nat \<Rightarrow> nat \<Rightarrow> ('a list, 'e) go" where
  "go_slice p i j = (if i \<le> j \<and> j \<le> length p then Inr (take (j - i) (drop i p)) else Inl Panic)"

lemma go_slices_in_range [simp]:
  "i < length p \<Longrightarrow> go_index p i = Inr (p ! i)"
  "i \<le> length p \<Longrightarrow> go_from p i = Inr (drop i p)"
  "j \<le> length p \<Longrightarrow> go_upto p j = Inr (take j p)"
  "i \<le> j \<Longrightarrow> j \<le> length p \<Longrightarrow> go_slice p i j = Inr (take (j - i) (drop i p))"
  by (simp_all add: go_index_def go_from_def go_upto_def go_slice_def)

lemma Suc_0_le_length [simp]: "Suc 0 \<le> length p \<longleftrightarrow> p \<noteq> []"
  by (cases p) simp_all

lemma go_from_length: "go_from p i = Inr q \<Longrightarrow> length q = length p - i"
  by (auto simp: go_from_def split: if_splits)

lemma safe_slices [simp]:
  "safe (go_index p i) \<longleftrightarrow> i < length p"
  "safe (go_from p i) \<longleftrightarrow> i \<le> length p"
  "safe (go_upto p j) \<longleftrightarrow> j \<le> length p"
  "safe (go_slice p i j) \<longleftrightarrow> i \<le> j \<and> j \<le> length p"
  by (auto simp: safe_def go_index_def go_from_def go_upto_def go_slice_def)


section \<open>Big-endian integers\<close>

definition byte_hi :: "u16 \<Rightarrow> byte" where
  "byte_hi x = ucast (drop_bit 8 x)"

definition byte_lo :: "u16 \<Rightarrow> byte" where
  "byte_lo x = ucast (x AND 0xff)"

definition be16 :: "byte \<Rightarrow> byte \<Rightarrow> u16" where
  "be16 a b = push_bit 8 (ucast a) OR ucast b"

text \<open>\<open>binary.BigEndian.Uint16\<close> reads the first two bytes and panics on fewer.\<close>

definition BigEndian_Uint16 :: "byte list \<Rightarrow> (u16, 'e) go" where
  "BigEndian_Uint16 b = (case b of b0 # b1 # _ \<Rightarrow> Inr (be16 b0 b1) | _ \<Rightarrow> Inl Panic)"

lemma byte_lo_ucast: "byte_lo x = ucast x"
proof -
  have ff: "(0xff :: u16) = mask 8"
    by (simp add: mask_eq_exp_minus_1)
  show ?thesis
    unfolding byte_lo_def ff by (rule bit_eqI) (auto simp: bit_simps)
qed

lemma bit_byte_less: "bit (b :: byte) n \<Longrightarrow> n < 8"
  using bit_imp_le_length [of b n] by simp

lemma be16_bytes [simp]: "be16 (byte_hi x) (byte_lo x) = x"
  by (rule bit_eqI) (auto simp: be16_def byte_hi_def byte_lo_ucast bit_simps)

lemma byte_hi_be16 [simp]: "byte_hi (be16 a b) = a"
  by (rule bit_eqI) (auto simp: be16_def byte_hi_def bit_simps dest: bit_byte_less)

lemma byte_lo_be16 [simp]: "byte_lo (be16 a b) = b"
  by (rule bit_eqI) (auto simp: be16_def byte_lo_ucast bit_simps)

lemma BigEndian_Uint16_Cons [simp]: "BigEndian_Uint16 (a # b # r) = Inr (be16 a b)"
  by (simp add: BigEndian_Uint16_def)

lemma BigEndian_Uint16_in_range [simp]:
  "2 \<le> length b \<Longrightarrow> BigEndian_Uint16 b = Inr (be16 (b ! 0) (b ! 1))"
  by (auto simp: BigEndian_Uint16_def split: list.splits)

lemma safe_BigEndian_Uint16 [simp]: "safe (BigEndian_Uint16 b) \<longleftrightarrow> 2 \<le> length b"
  by (auto simp: BigEndian_Uint16_def safe_def split: list.splits)


text \<open>\<open>w16\<close>: the two bytes that \<open>write16\<close> emits.\<close>

definition w16 :: "u16 \<Rightarrow> byte list" where
  "w16 x = [byte_hi x, byte_lo x]"

lemma length_w16 [simp]: "length (w16 x) = 2"
  by (simp add: w16_def)

lemma w16_read [simp]:
  "BigEndian_Uint16 (w16 x) = Inr x" "BigEndian_Uint16 (w16 x @ r) = Inr x"
  "take 2 (w16 x @ r) = w16 x" "drop 2 (w16 x @ r) = r"
  by (simp_all add: w16_def)

lemma unat_of_nat_byte [simp]: "n < 256 \<Longrightarrow> unat (of_nat n :: byte) = n"
  by (simp add: unat_of_nat)

lemma unat_Suc_byte [simp]: "n < 255 \<Longrightarrow> unat (1 + of_nat n :: byte) = Suc n"
  using unat_of_nat_byte [of "Suc n"] by simp

lemma flag_clear: "d AND m = 0 \<Longrightarrow> (d OR m) AND NOT m = (d :: 'a::len word)"
proof (rule bit_eqI)
  fix n
  assume "d AND m = 0"
  then have "\<not> (bit d n \<and> bit m n)"
    by (metis bit_and_iff bit_0_eq bot_apply bot_bool_def)
  moreover assume "possible_bit TYPE('a word) n"
  ultimately show "bit ((d OR m) AND NOT m) n \<longleftrightarrow> bit d n"
    by (auto simp: bit_simps)
qed

lemma flag_set: "(d OR m) AND m = (m :: 'a::len word)"
  by (rule bit_eqI) (auto simp: bit_simps)

lemmas flag_bit7 = flag_clear [where m = "0x80 :: byte"] flag_set [where m = "0x80 :: byte"]

lemma byte_bit7_clear: "unat (b :: byte) < 128 \<Longrightarrow> b AND 0x80 = 0"
proof -
  assume "unat b < 128"
  then have "\<not> bit (unat b) 7"
    by (simp add: bit_iff_odd)
  then have "\<not> bit b 7"
    by (simp add: bit_unsigned_iff)
  then have "b AND 2 ^ 7 = 0"
    using and_exp_eq_0_iff_not_bit [of b 7] by blast
  then show ?thesis by simp
qed



section \<open>Strings and bytes\<close>

text \<open>
  A Go string is an immutable byte sequence.  It is an HOL \<open>string\<close> here; the
  conversions \<open>[]byte(s)\<close> and \<open>string(b)\<close> are \<open>str_bytes\<close> and \<open>bytes_str\<close>.
\<close>

definition str_bytes :: "string \<Rightarrow> byte list" where
  "str_bytes s = map of_char s"

definition bytes_str :: "byte list \<Rightarrow> string" where
  "bytes_str b = map (\<lambda>x. char_of (unat x)) b"

lemma unat_byte_less: "unat (b :: byte) < 256"
proof -
  have "unat b < 2 ^ LENGTH(8)"
    by (rule unsigned_less)
  then show ?thesis by simp
qed

lemma of_char_of_byte [simp]: "of_char (char_of (unat (b :: byte))) = b"
proof -
  have "of_char (char_of (unat b)) = (of_nat (of_char (char_of (unat b))) :: byte)"
    by (simp only: of_nat_of_char)
  also have "\<dots> = of_nat (unat b mod 256)"
    by (simp only: of_char_of)
  also have "\<dots> = b"
    using unat_byte_less [of b] by simp
  finally show ?thesis .
qed

lemma char_of_of_char_byte [simp]: "char_of (unat (of_char c :: byte)) = c"
proof -
  have "(of_char c :: byte) = of_nat (of_char c)"
    by (simp only: of_nat_of_char)
  then have "unat (of_char c :: byte) = (of_char c :: nat)"
    using nat_of_char_less_256 [of c] by (simp add: unat_of_nat)
  then show ?thesis
    by (simp only: char_of_char)
qed

lemma bytes_str_bytes [simp]: "bytes_str (str_bytes s) = s"
  by (simp add: bytes_str_def str_bytes_def comp_def map_idI)

lemma str_bytes_str [simp]: "str_bytes (bytes_str b) = b"
  by (simp add: bytes_str_def str_bytes_def comp_def map_idI)

lemma length_str_bytes [simp]:
  "length (str_bytes s) = length s" "length (bytes_str b) = length b"
  by (simp_all add: str_bytes_def bytes_str_def)


section \<open>Counting loops over network numbers\<close>

text \<open>
  \<open>for n := start; n <= end; n++\<close> over the 16-bit type \<open>ddp.Network\<close>: the
  increment wraps around at 65535, so the loop is a partial function and \<open>None\<close>
  stands for a loop that never ends.
\<close>

partial_function (option) net_for ::
  "network \<Rightarrow> network \<Rightarrow> (network \<Rightarrow> 's \<Rightarrow> 's) \<Rightarrow> 's \<Rightarrow> 's option" where
  "net_for n e body s =
     (if n \<le> e then net_for (n + 1) e body (body n s) else Some s)"

declare net_for.simps [code]

definition net_range :: "network \<Rightarrow> network \<Rightarrow> network list" where
  "net_range a b = map of_nat [unat a ..< Suc (unat b)]"

lemma unat_u16_less: "unat (n :: u16) < 65536"
proof -
  have "unat n < 2 ^ LENGTH(16)"
    by (rule unsigned_less)
  then show ?thesis by simp
qed

lemma u16_le_max [simp]: "(n :: u16) \<le> 65535"
  using unat_u16_less [of n] by (simp add: word_le_nat_alt)

lemma u16_less_max: "n \<noteq> 65535 \<Longrightarrow> (n :: u16) < 65535"
  by (simp add: order_le_neq_trans)

lemma unat_Suc_u16: "n < (65535 :: u16) \<Longrightarrow> unat (n + 1) = Suc (unat n)"
  by (simp add: unat_word_ariths word_less_nat_alt)

lemma set_net_range [simp]: "set (net_range a b) = {a..b}"
proof (intro set_eqI iffI)
  fix n :: network
  assume "n \<in> set (net_range a b)"
  then obtain k where "n = of_nat k" "unat a \<le> k" "k \<le> unat b"
    by (auto simp: net_range_def)
  then show "n \<in> {a..b}"
    using unat_u16_less [of b]
    by (simp add: word_le_nat_alt unat_of_nat)
next
  fix n :: network
  assume "n \<in> {a..b}"
  then have "unat n \<in> set [unat a ..< Suc (unat b)]"
    by (auto simp: word_le_nat_alt)
  moreover have "n = of_nat (unat n)" by simp
  ultimately show "n \<in> set (net_range a b)"
    unfolding net_range_def set_map by (rule rev_image_eqI)
qed

lemma net_range_empty: "b < a \<Longrightarrow> net_range a b = []"
  by (simp add: net_range_def word_less_nat_alt)

lemma net_range_Cons: "a \<le> b \<Longrightarrow> a < 65535 \<Longrightarrow> net_range a b = a # net_range (a + 1) b"
  by (simp add: net_range_def word_le_nat_alt unat_Suc_u16 upt_conv_Cons del: upt_Suc)

lemma distinct_net_range [simp]: "distinct (net_range a b)"
proof -
  have "inj_on (of_nat :: nat \<Rightarrow> network) (set [unat a ..< Suc (unat b)])"
  proof (rule inj_onI)
    fix x y
    assume "x \<in> set [unat a ..< Suc (unat b)]" "y \<in> set [unat a ..< Suc (unat b)]"
      and eq: "(of_nat x :: network) = of_nat y"
    then have "x < 65536" "y < 65536"
      using unat_u16_less [of b] by auto
    then show "x = y"
      using arg_cong [OF eq, of unat] by (simp add: unat_of_nat)
  qed
  then show ?thesis
    by (simp add: net_range_def distinct_map del: upt_Suc)
qed

text \<open>The loop runs its body once for every number of the range, in order, ...\<close>

lemma net_for_eq_fold:
  assumes "e \<noteq> 65535"
  shows "net_for n e body s = Some (fold body (net_range n e) s)"
proof -
  have e: "e < 65535"
    using assms by (rule u16_less_max)
  have "net_for n e body s = Some (fold body (net_range n e) s)"
    if "k = Suc (unat e) - unat n" for k
    using that
  proof (induction k arbitrary: n s)
    case 0
    then have "e < n" by (simp add: word_less_nat_alt)
    then have "\<not> n \<le> e" "net_range n e = []"
      by (simp_all add: net_range_empty not_le)
    then show ?case
      by (subst net_for.simps) simp
  next
    case (Suc k)
    then have le: "n \<le> e" by (simp add: word_le_nat_alt)
    with e have lt: "n < 65535" by simp
    with Suc.prems have "k = Suc (unat e) - unat (n + 1)"
      by (simp add: unat_Suc_u16)
    with Suc.IH [of "n + 1"] le lt show ?case
      by (subst net_for.simps) (simp add: net_range_Cons)
  qed
  then show ?thesis by simp
qed

text \<open>... unless the range ends at 65535, where the counter wraps and the loop never ends.\<close>

lemma net_for_65535:
  fixes s :: 's
  shows "net_for n 65535 body s = None"
proof (rule ccontr)
  assume "net_for n 65535 body s \<noteq> None"
  then obtain r where r: "net_for n 65535 body s = Some r" by auto
  have "e \<noteq> 65535" if "net_for n e body s = Some r"
    for n e :: network and body and s r :: 's
  proof (rule net_for.raw_induct [where P = "\<lambda>n e body s r. e \<noteq> 65535", OF _ that])
    fix f :: "network \<Rightarrow> network \<Rightarrow> (network \<Rightarrow> 's \<Rightarrow> 's) \<Rightarrow> 's \<Rightarrow> 's option"
      and n e :: network and body and s r :: 's
    assume IH: "\<And>n e body s r. f n e body s = Some r \<Longrightarrow> e \<noteq> 65535"
      and step: "(if n \<le> e then f (n + 1) e body (body n s) else Some s) = Some r"
    show "e \<noteq> 65535"
    proof (cases "n \<le> e")
      case True
      with step IH show ?thesis by simp
    next
      case False
      then show ?thesis using u16_le_max [of n] by metis
    qed
  qed
  with r show False by blast
qed


section \<open>Sorting with a comparison function\<close>

text \<open>
  \<open>slices.SortFunc\<close> with a Go comparison (negative, zero or positive).  The
  model is the stable insertion sort that the Go runtime uses for short slices.
\<close>

fun insort_func :: "('a \<Rightarrow> 'a \<Rightarrow> int) \<Rightarrow> 'a \<Rightarrow> 'a list \<Rightarrow> 'a list" where
  "insort_func cmp x [] = [x]"
| "insort_func cmp x (y # ys) =
     (if cmp x y \<le> 0 then x # y # ys else y # insort_func cmp x ys)"

fun sort_func :: "('a \<Rightarrow> 'a \<Rightarrow> int) \<Rightarrow> 'a list \<Rightarrow> 'a list" where
  "sort_func cmp [] = []"
| "sort_func cmp (x # xs) = insort_func cmp x (sort_func cmp xs)"

text \<open>\<open>cmp.Compare\<close> and \<open>cmp.Or\<close> of the standard library.\<close>

definition cmp_compare :: "'a::linorder \<Rightarrow> 'a \<Rightarrow> int" where
  "cmp_compare a b = (if a < b then -1 else if b < a then 1 else 0)"

definition cmp_or :: "int list \<Rightarrow> int" where
  "cmp_or xs = (case dropWhile (\<lambda>x. x = 0) xs of [] \<Rightarrow> 0 | x # _ \<Rightarrow> x)"

lemma set_insort_func [simp]: "set (insort_func cmp x xs) = insert x (set xs)"
  by (induction xs) auto

lemma set_sort_func [simp]: "set (sort_func cmp xs) = set xs"
  by (induction xs) auto

lemma distinct_insort_func: "distinct (insort_func cmp x xs) \<longleftrightarrow> x \<notin> set xs \<and> distinct xs"
  by (induction xs) auto

lemma distinct_sort_func [simp]: "distinct (sort_func cmp xs) \<longleftrightarrow> distinct xs"
  by (induction xs) (auto simp: distinct_insort_func)

end
