(* ===== verification/AurpWire.thy ===== *)
theory AurpWire
  imports Prelude
begin

text \<open>
  The lower layers of the AURP packet format: the error values of package
  \<open>aurp\<close>, the writing accumulator \<open>wtacc\<close> (\<open>src/aurp/wtacc.go\<close>), domain
  identifiers and the domain header (\<open>src/aurp/domain.go\<close>), the AURP-Tr header
  (\<open>src/aurp/transport.go\<close>) and the AURP header (\<open>src/aurp/aurp.go\<close>).

  A \<open>WriteTo\<close> method is a function from the bytes already in the buffer to the
  new buffer, the number of bytes written and the error.  Every caller in the
  program writes to a \<open>bytes.Buffer\<close>, whose \<open>Write\<close> never fails.  Next to each
  method stands the wire layout it must produce, as a plain byte list; the
  lemmas show that the method produces it and that the parser inverts it.
\<close>

section \<open>Errors\<close>

text \<open>
  Most parsers fail with ``insufficient input length n for x''; that is
  \<open>ErrShort x n\<close>.  \<open>ErrAt i e\<close> is an error wrapped with the index of the
  element that caused it.
\<close>

datatype aurp_error =
    ErrShort string nat
  | ErrTruncated string nat nat
  | ErrBadLength string nat
  | ErrTrailing nat
  | ErrTooMany nat
  | ErrNotIPv4 "byte list"
  | ErrNameTooLong string
  | ErrUnknown string u16
  | ErrOptimizedTuple
  | ErrMixedNetworks network network
  | ErrAt nat aurp_error

type_synonym 'a aurp_result = "('a, aurp_error) go"


section \<open>The writing accumulator\<close>

record wtacc =
  acc_w :: "byte list"
  acc_n :: nat
  acc_err :: "aurp_error option"

type_synonym writer_to = "byte list \<Rightarrow> byte list \<times> nat \<times> aurp_error option"

definition acc :: "byte list \<Rightarrow> wtacc" where
  "acc w = \<lparr>acc_w = w, acc_n = 0, acc_err = None\<rparr>"

definition ret :: "wtacc \<Rightarrow> byte list \<times> nat \<times> aurp_error option" where
  "ret a = (acc_w a, acc_n a, acc_err a)"

definition acc_write :: "byte list \<Rightarrow> wtacc \<Rightarrow> wtacc" where
  "acc_write b a =
     (if acc_err a \<noteq> None then a
      else a\<lparr>acc_w := acc_w a @ b, acc_n := acc_n a + length b, acc_err := None\<rparr>)"

definition write8 :: "byte \<Rightarrow> wtacc \<Rightarrow> wtacc" where
  "write8 x a = acc_write [x] a"

definition write16 :: "u16 \<Rightarrow> wtacc \<Rightarrow> wtacc" where
  "write16 x a = acc_write [byte_hi x, byte_lo x] a"

definition writeTo :: "writer_to \<Rightarrow> wtacc \<Rightarrow> wtacc" where
  "writeTo wt a =
     (if acc_err a \<noteq> None then a
      else case wt (acc_w a) of
        (w, n, e) \<Rightarrow> a\<lparr>acc_w := w, acc_n := acc_n a + n, acc_err := e\<rparr>)"

text \<open>\<open>emits wt b\<close>: the method appends exactly \<open>b\<close> to any buffer and succeeds.\<close>

definition emits :: "writer_to \<Rightarrow> byte list \<Rightarrow> bool" where
  "emits wt b \<longleftrightarrow> (\<forall>w. wt w = (w @ b, length b, None))"

text \<open>\<open>wrote w b\<close>: the accumulator after \<open>b\<close> was written to the buffer \<open>w\<close>.\<close>

definition wrote :: "byte list \<Rightarrow> byte list \<Rightarrow> wtacc" where
  "wrote w b = \<lparr>acc_w = w @ b, acc_n = length b, acc_err = None\<rparr>"

lemma acc_wrote: "acc w = wrote w []"
  by (simp add: acc_def wrote_def)

lemma write_wrote [simp]:
  "acc_write c (wrote w b) = wrote w (b @ c)"
  "write8 x (wrote w b) = wrote w (b @ [x])"
  "write16 y (wrote w b) = wrote w (b @ w16 y)"
  by (simp_all add: acc_write_def write8_def write16_def w16_def wrote_def)

lemma writeTo_wrote: "emits wt c \<Longrightarrow> writeTo wt (wrote w b) = wrote w (b @ c)"
  by (simp add: writeTo_def wrote_def emits_def)

lemma ret_wrote [simp]: "ret (wrote w b) = (w @ b, length b, None)"
  by (simp add: ret_def wrote_def)

lemma acc_n_wrote [simp]: "acc_n (wrote w b) = length b"
  by (simp add: wrote_def)

lemma emitsI: "(\<And>w. wt w = ret (wrote w b)) \<Longrightarrow> emits wt b"
  by (simp add: emits_def)

lemma emitsD: "emits wt b \<Longrightarrow> wt [] = (b, length b, None)"
  by (simp add: emits_def)

text \<open>An error of a nested method is kept and nothing is written after it.\<close>

lemma write_failed [simp]:
  assumes "acc_err a = Some e"
  shows "acc_write c a = a" "write8 x a = a" "write16 y a = a" "writeTo wt a = a"
  using assms by (simp_all add: acc_write_def write8_def write16_def writeTo_def)

definition encode :: "writer_to \<Rightarrow> aurp_error + byte list" where
  "encode wt = (case wt [] of (w, n, None) \<Rightarrow> Inr w | (w, n, Some e) \<Rightarrow> Inl e)"

lemma encode_emits: "emits wt b \<Longrightarrow> encode wt = Inr b"
  by (simp add: encode_def emits_def)


section \<open>Domain identifiers\<close>

datatype DomainIdentifier =
    NullDomainIdentifier
  | IPDomainIdentifier "byte list"

text \<open>\<open>net.IP.To4\<close> of the standard library.\<close>

definition To4 :: "byte list \<Rightarrow> byte list option" where
  "To4 ip =
     (if length ip = 4 then Some ip
      else if length ip = 16 \<and> take 10 ip = replicate 10 0 \<and> ip ! 10 = 0xff \<and> ip ! 11 = 0xff
      then Some (drop 12 ip) else None)"

abbreviation AuthorityNull :: byte where "AuthorityNull \<equiv> 0"
abbreviation AuthorityIP :: byte where "AuthorityIP \<equiv> 1"

definition NullDomainIdentifier_WriteTo :: writer_to where
  "NullDomainIdentifier_WriteTo w = (w @ [0x01, 0x00], 2, None)"

definition IPDomainIdentifier_WriteTo :: "byte list \<Rightarrow> writer_to" where
  "IPDomainIdentifier_WriteTo i w =
     (case To4 i of
        None \<Rightarrow> (w, 0, Some (ErrNotIPv4 i))
      | Some v4 \<Rightarrow> ret (acc_write v4 (acc_write [0x07, 0x01, 0x00, 0x00] (acc w))))"

fun DomainIdentifier_WriteTo :: "DomainIdentifier \<Rightarrow> writer_to" where
  "DomainIdentifier_WriteTo NullDomainIdentifier = NullDomainIdentifier_WriteTo"
| "DomainIdentifier_WriteTo (IPDomainIdentifier i) = IPDomainIdentifier_WriteTo i"

definition parseDomainIdentifier :: "byte list \<Rightarrow> (DomainIdentifier \<times> byte list) aurp_result" where
  "parseDomainIdentifier b =
     (if length b < 2 then go_err (ErrShort ''domain identifier'' (length b))
      else go_bind (go_index b 0) (\<lambda>l.
        let lf = unat l in
        if length b < 1 + lf then go_err (ErrTruncated ''domain identifier'' (length b) lf)
        else go_bind (go_index b 1) (\<lambda>auth.
          if auth = AuthorityNull then
            go_bind (go_from b 2) (\<lambda>r. Inr (NullDomainIdentifier, r))
          else if auth = AuthorityIP then
            (if lf \<noteq> 7 then go_err (ErrBadLength ''IP domain identifier'' lf)
             else go_bind (go_slice b 4 8) (\<lambda>ip.
               go_bind (go_from b 8) (\<lambda>r. Inr (IPDomainIdentifier ip, r))))
          else go_err (ErrUnknown ''authority'' (ucast auth)))))"

text \<open>The layout, and the identifiers that have one: an IP identifier must be IPv4.\<close>

fun di_ok :: "DomainIdentifier \<Rightarrow> bool" where
  "di_ok NullDomainIdentifier \<longleftrightarrow> True"
| "di_ok (IPDomainIdentifier i) \<longleftrightarrow> length i = 4"

fun di_bytes :: "DomainIdentifier \<Rightarrow> byte list" where
  "di_bytes NullDomainIdentifier = [1, 0]"
| "di_bytes (IPDomainIdentifier i) = [7, 1, 0, 0] @ i"

lemma di_emits: "di_ok d \<Longrightarrow> emits (DomainIdentifier_WriteTo d) (di_bytes d)"
  by (cases d)
    (auto simp: emits_def NullDomainIdentifier_WriteTo_def IPDomainIdentifier_WriteTo_def
      To4_def acc_wrote)

lemma length_di_bytes: "di_ok d \<Longrightarrow> length (di_bytes d) \<le> 8"
  by (cases d) auto

lemma parse_di: "di_ok d \<Longrightarrow> parseDomainIdentifier (di_bytes d @ r) = Inr (d, r)"
  by (cases d) (auto simp: parseDomainIdentifier_def)

lemma safe_parseDomainIdentifier [simp]: "safe (parseDomainIdentifier b)"
  by (auto simp: parseDomainIdentifier_def Let_def)


section \<open>Headers\<close>

record DomainHeader =
  DestinationDI :: DomainIdentifier
  SourceDI :: DomainIdentifier
  DHVersion :: u16
  Reserved :: u16
  PacketType :: u16

abbreviation PacketTypeAppleTalk :: u16 where "PacketTypeAppleTalk \<equiv> 0x0002"
abbreviation PacketTypeRouting :: u16 where "PacketTypeRouting \<equiv> 0x0003"

definition DomainHeader_WriteTo :: "DomainHeader \<Rightarrow> writer_to" where
  "DomainHeader_WriteTo dh w =
     ret (write16 (PacketType dh)
         (write16 (Reserved dh)
         (write16 (DHVersion dh)
         (writeTo (DomainIdentifier_WriteTo (SourceDI dh))
         (writeTo (DomainIdentifier_WriteTo (DestinationDI dh)) (acc w))))))"

definition ParseDomainHeader :: "byte list \<Rightarrow> (DomainHeader \<times> byte list) aurp_result" where
  "ParseDomainHeader b0 =
     go_bind (parseDomainIdentifier b0) (\<lambda>(ddi, b1).
     go_bind (parseDomainIdentifier b1) (\<lambda>(sdi, b).
     if length b < 6 then go_err (ErrShort ''domain header'' (length b))
     else
       go_bind (go_bind (go_upto b 2) BigEndian_Uint16) (\<lambda>v.
       go_bind (go_bind (go_slice b 2 4) BigEndian_Uint16) (\<lambda>r.
       go_bind (go_bind (go_slice b 4 6) BigEndian_Uint16) (\<lambda>pt.
       go_bind (go_from b 6) (\<lambda>rest.
       Inr (\<lparr>DestinationDI = ddi, SourceDI = sdi, DHVersion = v, Reserved = r,
             PacketType = pt\<rparr>, rest)))))))"

record TrHeader =
  TrDomainHeader :: DomainHeader
  ConnectionID :: u16
  Sequence :: u16

definition TrHeader_WriteTo :: "TrHeader \<Rightarrow> writer_to" where
  "TrHeader_WriteTo th w =
     ret (write16 (Sequence th)
         (write16 (ConnectionID th)
         (writeTo (DomainHeader_WriteTo (TrDomainHeader th)) (acc w))))"

text \<open>The parsers of the outer layers return the fields; \<open>ParsePacket\<close> nests them.\<close>

definition parseTrHeader :: "byte list \<Rightarrow> ((u16 \<times> u16) \<times> byte list) aurp_result" where
  "parseTrHeader p =
     (if length p < 4 then go_err (ErrShort ''tr header'' (length p))
      else
        go_bind (go_bind (go_upto p 2) BigEndian_Uint16) (\<lambda>c.
        go_bind (go_bind (go_slice p 2 4) BigEndian_Uint16) (\<lambda>s.
        go_bind (go_from p 4) (\<lambda>r. Inr ((c, s), r)))))"

record Header =
  HTrHeader :: TrHeader
  CommandCode :: u16
  Flags :: u16

definition Header_WriteTo :: "Header \<Rightarrow> writer_to" where
  "Header_WriteTo h w =
     ret (write16 (Flags h)
         (write16 (CommandCode h)
         (writeTo (TrHeader_WriteTo (HTrHeader h)) (acc w))))"

definition parseHeader :: "byte list \<Rightarrow> ((u16 \<times> u16) \<times> byte list) aurp_result" where
  "parseHeader p =
     (if length p < 4 then go_err (ErrShort ''header'' (length p))
      else
        go_bind (go_bind (go_upto p 2) BigEndian_Uint16) (\<lambda>c.
        go_bind (go_bind (go_slice p 2 4) BigEndian_Uint16) (\<lambda>f.
        go_bind (go_from p 4) (\<lambda>r. Inr ((c, f), r)))))"

definition dh_ok :: "DomainHeader \<Rightarrow> bool" where
  "dh_ok dh \<longleftrightarrow> di_ok (DestinationDI dh) \<and> di_ok (SourceDI dh)"

definition dh_bytes :: "DomainHeader \<Rightarrow> byte list" where
  "dh_bytes dh =
     di_bytes (DestinationDI dh) @ di_bytes (SourceDI dh) @
     w16 (DHVersion dh) @ w16 (Reserved dh) @ w16 (PacketType dh)"

definition tr_bytes :: "TrHeader \<Rightarrow> byte list" where
  "tr_bytes th = dh_bytes (TrDomainHeader th) @ w16 (ConnectionID th) @ w16 (Sequence th)"

definition header_ok :: "Header \<Rightarrow> bool" where
  "header_ok h \<longleftrightarrow> dh_ok (TrDomainHeader (HTrHeader h))"

definition header_bytes :: "Header \<Rightarrow> byte list" where
  "header_bytes h = tr_bytes (HTrHeader h) @ w16 (CommandCode h) @ w16 (Flags h)"

lemma dh_emits: "dh_ok dh \<Longrightarrow> emits (DomainHeader_WriteTo dh) (dh_bytes dh)"
  by (rule emitsI)
    (simp add: DomainHeader_WriteTo_def dh_ok_def dh_bytes_def acc_wrote
      writeTo_wrote [OF di_emits])

lemma tr_emits:
  "dh_ok (TrDomainHeader th) \<Longrightarrow> emits (TrHeader_WriteTo th) (tr_bytes th)"
  by (rule emitsI)
    (simp add: TrHeader_WriteTo_def tr_bytes_def acc_wrote writeTo_wrote [OF dh_emits])

lemma header_emits: "header_ok h \<Longrightarrow> emits (Header_WriteTo h) (header_bytes h)"
  by (rule emitsI)
    (simp add: Header_WriteTo_def header_bytes_def header_ok_def acc_wrote
      writeTo_wrote [OF tr_emits])

lemma parse_dh: "dh_ok dh \<Longrightarrow> ParseDomainHeader (dh_bytes dh @ r) = Inr (dh, r)"
  by (simp add: ParseDomainHeader_def dh_ok_def dh_bytes_def parse_di w16_def)

lemma parse_tr [simp]: "parseTrHeader (w16 c @ w16 s @ r) = Inr ((c, s), r)"
  by (simp add: parseTrHeader_def w16_def)

lemma parse_header [simp]: "parseHeader (w16 c @ w16 s @ r) = Inr ((c, s), r)"
  by (simp add: parseHeader_def w16_def)

lemma safe_ParseDomainHeader [simp]: "safe (ParseDomainHeader b)"
  by (auto simp: ParseDomainHeader_def)

lemma safe_parseTrHeader [simp]: "safe (parseTrHeader b)"
  by (auto simp: parseTrHeader_def)

lemma safe_parseHeader [simp]: "safe (parseHeader b)"
  by (auto simp: parseHeader_def)

text \<open>The header is at most 30 bytes, so a datagram always has room for a payload.\<close>

lemma length_header_bytes: "header_ok h \<Longrightarrow> length (header_bytes h) \<le> 30"
  using length_di_bytes [of "DestinationDI (TrDomainHeader (HTrHeader h))"]
    length_di_bytes [of "SourceDI (TrDomainHeader (HTrHeader h))"]
  by (simp add: header_bytes_def header_ok_def tr_bytes_def dh_bytes_def dh_ok_def)

end
