(* ===== verification/AurpTuples.thy ===== *)
theory AurpTuples
  imports AurpWire
begin

text \<open>
  The repeated elements of AURP packets: option tuples (\<open>src/aurp/open.go\<close>),
  network and event tuples (\<open>src/aurp/routing_info.go\<close>) and zone tuples
  (\<open>src/aurp/zone_info.go\<close>), each with its writer and its parser.

  The locale \<open>tuple_codec\<close> is the contract of one element: its parser inverts its
  layout, consumes input and does not panic.  \<open>tuple_list_codec\<close> adds the loop
  that parses a whole payload; its lemmas are proved once and interpreted for
  the network and the event tuples.
\<close>

section \<open>Contracts\<close>

locale tuple_codec =
  fixes enc :: "'a \<Rightarrow> byte list"
    and dec :: "byte list \<Rightarrow> ('a \<times> byte list) aurp_result"
    and ok :: "'a \<Rightarrow> bool"
  assumes dec_enc: "ok x \<Longrightarrow> dec (enc x @ r) = Inr (x, r)"
    and dec_shorter: "dec p = Inr (x, r) \<Longrightarrow> length r < length p"
    and dec_safe: "safe (dec p)"
begin

lemma enc_nonempty: "ok x \<Longrightarrow> enc x \<noteq> []"
  using dec_enc [of x "[]"] dec_shorter [of "enc x" x "[]"] by auto

lemma enc_inj: "ok x \<Longrightarrow> ok y \<Longrightarrow> enc x = enc y \<Longrightarrow> x = y"
  using dec_enc [of x "[]"] dec_enc [of y "[]"] by simp

end

locale tuple_list_codec = tuple_codec +
  fixes decs :: "'a list \<Rightarrow> byte list \<Rightarrow> 'a list aurp_result"
  assumes decs_unfold:
    "decs ys p =
       (if length p > 0
        then go_bind (go_wrap (ErrAt (length ys)) (dec p)) (\<lambda>(x, q). decs (ys @ [x]) q)
        else Inr ys)"
begin

lemma decs_encs:
  "\<forall>x\<in>set xs. ok x \<Longrightarrow> decs ys (concat (map enc xs)) = Inr (ys @ xs)"
proof (induction xs arbitrary: ys)
  case Nil
  then show ?case by (subst decs_unfold) simp
next
  case (Cons x xs)
  then show ?case
    by (subst decs_unfold) (simp add: dec_enc enc_nonempty)
qed

lemma decs_safe: "safe (decs ys p)"
proof (induction p arbitrary: ys rule: length_induct)
  case (1 p)
  then show ?case
    by (subst decs_unfold) (auto simp: dec_safe dest!: dec_shorter)
qed

end


section \<open>Option tuples\<close>

record OptionTuple =
  ot_Type :: byte
  ot_Data :: "byte list"

definition OptionTuple_WriteTo :: "OptionTuple \<Rightarrow> writer_to" where
  "OptionTuple_WriteTo ot w =
     (if length (ot_Data ot) > 254 then (w, 0, Some (ErrBadLength ''option tuple data'' (length (ot_Data ot))))
      else ret (acc_write (ot_Data ot)
               (acc_write [of_nat (length (ot_Data ot) + 1), ot_Type ot] (acc w))))"

definition parseOptionTuple :: "byte list \<Rightarrow> (OptionTuple \<times> byte list) aurp_result" where
  "parseOptionTuple p0 =
     (if length p0 < 2 then go_err (ErrShort ''option tuple'' (length p0))
      else
        go_bind (go_index p0 0) (\<lambda>l.
        go_bind (go_from p0 1) (\<lambda>p.
        let olen = unat l in
        if olen < 1 then go_err (ErrBadLength ''option tuple'' olen)
        else if length p < olen then go_err (ErrTruncated ''option tuple'' (length p) olen)
        else
          go_bind (go_index p 0) (\<lambda>t.
          go_bind (go_slice p 1 olen) (\<lambda>d.
          go_bind (go_from p olen) (\<lambda>r. Inr (\<lparr>ot_Type = t, ot_Data = d\<rparr>, r)))))))"

type_synonym Options = "OptionTuple list"

definition Options_WriteTo :: "Options \<Rightarrow> writer_to" where
  "Options_WriteTo opts w =
     (if length opts > 255 then (w, 0, Some (ErrTooMany (length opts)))
      else ret (fold (\<lambda>ot. writeTo (OptionTuple_WriteTo ot)) opts
                 (write8 (of_nat (length opts)) (acc w))))"

text \<open>\<open>parseOptions_loop k opts p\<close>: \<open>k\<close> options are still to be read after \<open>opts\<close>.\<close>

primrec parseOptions_loop :: "nat \<Rightarrow> Options \<Rightarrow> byte list \<Rightarrow> (Options \<times> byte list) aurp_result" where
  "parseOptions_loop 0 opts p = Inr (opts, p)"
| "parseOptions_loop (Suc k) opts p =
     go_bind (go_wrap (ErrAt (length opts)) (parseOptionTuple p)) (\<lambda>(ot, np).
       parseOptions_loop k (opts @ [ot]) np)"

definition parseOptions :: "byte list \<Rightarrow> Options aurp_result" where
  "parseOptions p0 =
     (if length p0 < 1 then go_err (ErrShort ''options'' (length p0))
      else
        go_bind (go_index p0 0) (\<lambda>optc.
        go_bind (go_from p0 1) (\<lambda>p.
        go_bind (parseOptions_loop (unat optc) [] p) (\<lambda>(opts, r).
        if length r \<noteq> 0 then go_err (ErrTrailing (length r)) else Inr opts))))"

definition ot_ok :: "OptionTuple \<Rightarrow> bool" where
  "ot_ok ot \<longleftrightarrow> length (ot_Data ot) \<le> 254"

definition ot_bytes :: "OptionTuple \<Rightarrow> byte list" where
  "ot_bytes ot = of_nat (length (ot_Data ot) + 1) # ot_Type ot # ot_Data ot"

definition opts_ok :: "Options \<Rightarrow> bool" where
  "opts_ok opts \<longleftrightarrow> length opts \<le> 255 \<and> (\<forall>ot\<in>set opts. ot_ok ot)"

definition opts_bytes :: "Options \<Rightarrow> byte list" where
  "opts_bytes opts = of_nat (length opts) # concat (map ot_bytes opts)"

lemma ot_emits: "ot_ok ot \<Longrightarrow> emits (OptionTuple_WriteTo ot) (ot_bytes ot)"
  by (rule emitsI) (simp add: OptionTuple_WriteTo_def ot_ok_def ot_bytes_def acc_wrote)

lemma opts_bytes_nonempty [simp]: "opts_bytes opts \<noteq> []"
  by (simp add: opts_bytes_def)

lemma fold_writeTo_wrote:
  "\<forall>x\<in>set xs. emits (wt x) (f x) \<Longrightarrow>
   fold (\<lambda>x. writeTo (wt x)) xs (wrote w b) = wrote w (b @ concat (map f xs))"
  by (induction xs arbitrary: b) (auto simp: writeTo_wrote)

lemma opts_emits: "opts_ok opts \<Longrightarrow> emits (Options_WriteTo opts) (opts_bytes opts)"
  by (rule emitsI)
    (simp add: Options_WriteTo_def opts_ok_def opts_bytes_def acc_wrote
      fold_writeTo_wrote [where f = ot_bytes] ot_emits)

interpretation ot: tuple_codec ot_bytes parseOptionTuple ot_ok
proof
  show "ot_ok x \<Longrightarrow> parseOptionTuple (ot_bytes x @ r) = Inr (x, r)" for x r
    by (simp add: parseOptionTuple_def ot_ok_def ot_bytes_def Let_def)
  show "parseOptionTuple p = Inr (x, r) \<Longrightarrow> length r < length p" for p x r
    by (auto simp: parseOptionTuple_def go_bind_eq_Inr Let_def
      dest!: go_from_length split: if_splits)
  show "safe (parseOptionTuple p)" for p
    by (auto simp: parseOptionTuple_def Let_def)
qed

lemma parse_opts_loop:
  "\<forall>ot\<in>set xs. ot_ok ot \<Longrightarrow>
   parseOptions_loop (length xs) ys (concat (map ot_bytes xs) @ r) = Inr (ys @ xs, r)"
  by (induction xs arbitrary: ys) (simp_all add: ot.dec_enc)

lemma parse_opts: "opts_ok opts \<Longrightarrow> parseOptions (opts_bytes opts) = Inr opts"
  using parse_opts_loop [of opts "[]" "[]"]
  by (simp add: parseOptions_def opts_ok_def opts_bytes_def)

lemma safe_parseOptions_loop [simp]: "safe (parseOptions_loop k opts p)"
  by (induction k arbitrary: opts p) (auto simp: ot.dec_safe)

lemma safe_parseOptions [simp]: "safe (parseOptions p)"
  by (auto simp: parseOptions_def)


section \<open>Network tuples\<close>

record NetworkTuple =
  nt_Extended :: bool
  nt_RangeStart :: network
  nt_Distance :: byte
  nt_RangeEnd :: network

type_synonym NetworkTuples = "NetworkTuple list"

definition NetworkTuple_WriteTo :: "NetworkTuple \<Rightarrow> writer_to" where
  "NetworkTuple_WriteTo nt w =
     (let a = write16 (nt_RangeStart nt) (acc w) in
      if \<not> nt_Extended nt then ret (write8 (nt_Distance nt) a)
      else ret (write8 0x00
               (write16 (nt_RangeEnd nt)
               (write8 (nt_Distance nt OR 0x80) a))))"

definition NetworkTuples_WriteTo :: "NetworkTuples \<Rightarrow> writer_to" where
  "NetworkTuples_WriteTo n w = ret (fold (\<lambda>nt. writeTo (NetworkTuple_WriteTo nt)) n (acc w))"

definition parseNetworkTuple :: "byte list \<Rightarrow> (NetworkTuple \<times> byte list) aurp_result" where
  "parseNetworkTuple p =
     (if length p < 3 then go_err (ErrShort ''network tuple'' (length p))
      else
        go_bind (go_bind (go_upto p 2) BigEndian_Uint16) (\<lambda>s.
        go_bind (go_index p 2) (\<lambda>d.
        let nt = \<lparr>nt_Extended = d AND 0x80 \<noteq> 0, nt_RangeStart = s, nt_Distance = d,
                  nt_RangeEnd = s\<rparr> in
        if \<not> nt_Extended nt then go_bind (go_from p 3) (\<lambda>r. Inr (nt, r))
        else if length p < 6 then go_err (ErrShort ''extended network tuple'' (length p))
        else
          go_bind (go_bind (go_slice p 3 5) BigEndian_Uint16) (\<lambda>e.
          go_bind (go_from p 6) (\<lambda>r.
          Inr (nt\<lparr>nt_Distance := d AND NOT 0x80, nt_RangeEnd := e\<rparr>, r))))))"

lemma parseNetworkTuple_shorter:
  "parseNetworkTuple p = Inr (nt, r) \<Longrightarrow> length r < length p"
  by (auto simp: parseNetworkTuple_def go_bind_eq_Inr Let_def split: if_splits)

function parseNetworkTuples_loop :: "NetworkTuples \<Rightarrow> byte list \<Rightarrow> NetworkTuples aurp_result" where
  "parseNetworkTuples_loop n p =
     (if length p > 0
      then go_bind (go_wrap (ErrAt (length n)) (parseNetworkTuple p)) (\<lambda>(nt, nextp).
             parseNetworkTuples_loop (n @ [nt]) nextp)
      else Inr n)"
  by pat_completeness auto
termination
  by (relation "measure (\<lambda>(n, p). length p)") (auto dest: parseNetworkTuple_shorter)

declare parseNetworkTuples_loop.simps [simp del]

definition parseNetworkTuples :: "byte list \<Rightarrow> NetworkTuples aurp_result" where
  "parseNetworkTuples p = parseNetworkTuples_loop [] p"

text \<open>
  The tuples that survive a trip over the wire: bit 7 of the distance is the
  extended flag, and a non-extended network has a one-number range.
\<close>

definition nt_ok :: "NetworkTuple \<Rightarrow> bool" where
  "nt_ok nt \<longleftrightarrow> nt_Distance nt AND 0x80 = 0 \<and>
     (nt_Extended nt \<or> nt_RangeEnd nt = nt_RangeStart nt)"

definition nt_bytes :: "NetworkTuple \<Rightarrow> byte list" where
  "nt_bytes nt =
     (if nt_Extended nt
      then w16 (nt_RangeStart nt) @ [nt_Distance nt OR 0x80] @ w16 (nt_RangeEnd nt) @ [0]
      else w16 (nt_RangeStart nt) @ [nt_Distance nt])"

lemma nt_emits: "emits (NetworkTuple_WriteTo nt) (nt_bytes nt)"
  by (rule emitsI) (simp add: NetworkTuple_WriteTo_def nt_bytes_def acc_wrote Let_def)

lemma nts_emits: "emits (NetworkTuples_WriteTo n) (concat (map nt_bytes n))"
  by (rule emitsI)
    (simp add: NetworkTuples_WriteTo_def acc_wrote nt_emits
      fold_writeTo_wrote [where f = nt_bytes])

interpretation nt: tuple_list_codec nt_bytes parseNetworkTuple nt_ok parseNetworkTuples_loop
proof
  show "nt_ok x \<Longrightarrow> parseNetworkTuple (nt_bytes x @ r) = Inr (x, r)" for x r
    using flag_bit7 [of "nt_Distance x"]
    by (cases "nt_Extended x")
      (simp_all add: parseNetworkTuple_def nt_ok_def nt_bytes_def Let_def w16_def)
  show "safe (parseNetworkTuple p)" for p
    by (auto simp: parseNetworkTuple_def Let_def)
  show "parseNetworkTuples_loop ys p =
     (if 0 < length p
      then go_bind (go_wrap (ErrAt (length ys)) (parseNetworkTuple p))
             (\<lambda>(x, q). parseNetworkTuples_loop (ys @ [x]) q)
      else Inr ys)" for ys p
    by (rule parseNetworkTuples_loop.simps)
qed (rule parseNetworkTuple_shorter)

lemma parse_nts:
  "\<forall>nt\<in>set n. nt_ok nt \<Longrightarrow> parseNetworkTuples (concat (map nt_bytes n)) = Inr n"
  using nt.decs_encs [of n "[]"] by (simp add: parseNetworkTuples_def)

lemma safe_parseNetworkTuples [simp]: "safe (parseNetworkTuples p)"
  by (simp add: parseNetworkTuples_def nt.decs_safe)


section \<open>Event tuples\<close>

type_synonym EventCode = byte

abbreviation EventCodeNull :: EventCode where "EventCodeNull \<equiv> 0"
abbreviation EventCodeNA :: EventCode where "EventCodeNA \<equiv> 1"
abbreviation EventCodeND :: EventCode where "EventCodeND \<equiv> 2"
abbreviation EventCodeNRC :: EventCode where "EventCodeNRC \<equiv> 3"
abbreviation EventCodeNDC :: EventCode where "EventCodeNDC \<equiv> 4"
abbreviation EventCodeZC :: EventCode where "EventCodeZC \<equiv> 5"

record EventTuple =
  et_EventCode :: EventCode
  et_Extended :: bool
  et_RangeStart :: network
  et_Distance :: byte
  et_RangeEnd :: network

type_synonym EventTuples = "EventTuple list"

definition EventTuple_WriteTo :: "EventTuple \<Rightarrow> writer_to" where
  "EventTuple_WriteTo et w =
     (let a = write8 (et_EventCode et) (acc w) in
      if et_EventCode et = EventCodeNull then ret a
      else let a = write16 (et_RangeStart et) a in
        if \<not> et_Extended et then ret (write8 (et_Distance et) a)
        else ret (write16 (et_RangeEnd et) (write8 (et_Distance et OR 0x80) a)))"

definition EventTuples_WriteTo :: "EventTuples \<Rightarrow> writer_to" where
  "EventTuples_WriteTo e w = ret (fold (\<lambda>et. writeTo (EventTuple_WriteTo et)) e (acc w))"

definition parseEventTuple :: "byte list \<Rightarrow> (EventTuple \<times> byte list) aurp_result" where
  "parseEventTuple p =
     (if length p < 1 then go_err (ErrShort ''any network event tuple'' (length p))
      else go_bind (go_index p 0) (\<lambda>c.
        let et = \<lparr>et_EventCode = c, et_Extended = False, et_RangeStart = 0, et_Distance = 0,
                  et_RangeEnd = 0\<rparr> in
        if c = EventCodeNull then go_bind (go_from p 1) (\<lambda>r. Inr (et, r))
        else if length p < 4 then go_err (ErrShort ''non-Null network event tuple'' (length p))
        else
          go_bind (go_bind (go_slice p 1 3) BigEndian_Uint16) (\<lambda>s.
          go_bind (go_index p 3) (\<lambda>d.
          let et = et\<lparr>et_RangeStart := s, et_RangeEnd := s, et_Distance := d,
                      et_Extended := (d AND 0x80 \<noteq> 0)\<rparr> in
          if \<not> et_Extended et then go_bind (go_from p 4) (\<lambda>r. Inr (et, r))
          else if length p < 6 then go_err (ErrShort ''extended network event tuple'' (length p))
          else
            go_bind (go_bind (go_slice p 4 6) BigEndian_Uint16) (\<lambda>e.
            go_bind (go_from p 6) (\<lambda>r.
            Inr (et\<lparr>et_Distance := d AND NOT 0x80, et_RangeEnd := e\<rparr>, r)))))))"

lemma parseEventTuple_shorter: "parseEventTuple p = Inr (et, r) \<Longrightarrow> length r < length p"
  by (auto simp: parseEventTuple_def go_bind_eq_Inr Let_def
    dest!: go_from_length split: if_splits)

function parseEventTuples_loop :: "EventTuples \<Rightarrow> byte list \<Rightarrow> EventTuples aurp_result" where
  "parseEventTuples_loop e p =
     (if length p > 0
      then go_bind (go_wrap (ErrAt (length e)) (parseEventTuple p)) (\<lambda>(et, nextp).
             parseEventTuples_loop (e @ [et]) nextp)
      else Inr e)"
  by pat_completeness auto
termination
  by (relation "measure (\<lambda>(e, p). length p)") (auto dest: parseEventTuple_shorter)

declare parseEventTuples_loop.simps [simp del]

definition parseEventTuples :: "byte list \<Rightarrow> EventTuples aurp_result" where
  "parseEventTuples p = parseEventTuples_loop [] p"

text \<open>A Null event carries nothing but its code.\<close>

definition et_ok :: "EventTuple \<Rightarrow> bool" where
  "et_ok et \<longleftrightarrow>
     (if et_EventCode et = EventCodeNull
      then \<not> et_Extended et \<and> et_RangeStart et = 0 \<and> et_Distance et = 0 \<and> et_RangeEnd et = 0
      else et_Distance et AND 0x80 = 0 \<and> (et_Extended et \<or> et_RangeEnd et = et_RangeStart et))"

definition et_bytes :: "EventTuple \<Rightarrow> byte list" where
  "et_bytes et =
     et_EventCode et #
     (if et_EventCode et = EventCodeNull then []
      else if et_Extended et
      then w16 (et_RangeStart et) @ [et_Distance et OR 0x80] @ w16 (et_RangeEnd et)
      else w16 (et_RangeStart et) @ [et_Distance et])"

lemma et_emits: "emits (EventTuple_WriteTo et) (et_bytes et)"
  by (rule emitsI) (simp add: EventTuple_WriteTo_def et_bytes_def acc_wrote Let_def)

lemma ets_emits: "emits (EventTuples_WriteTo e) (concat (map et_bytes e))"
  by (rule emitsI)
    (simp add: EventTuples_WriteTo_def acc_wrote et_emits
      fold_writeTo_wrote [where f = et_bytes])

interpretation et: tuple_list_codec et_bytes parseEventTuple et_ok parseEventTuples_loop
proof
  show "et_ok x \<Longrightarrow> parseEventTuple (et_bytes x @ r) = Inr (x, r)" for x r
    using flag_bit7 [of "et_Distance x"]
    by (cases "et_EventCode x = EventCodeNull"; cases "et_Extended x")
      (simp_all add: parseEventTuple_def et_ok_def et_bytes_def Let_def w16_def)
  show "safe (parseEventTuple p)" for p
    by (auto simp: parseEventTuple_def Let_def)
  show "parseEventTuples_loop ys p =
     (if 0 < length p
      then go_bind (go_wrap (ErrAt (length ys)) (parseEventTuple p))
             (\<lambda>(x, q). parseEventTuples_loop (ys @ [x]) q)
      else Inr ys)" for ys p
    by (rule parseEventTuples_loop.simps)
qed (rule parseEventTuple_shorter)

lemma parse_ets:
  "\<forall>et\<in>set e. et_ok et \<Longrightarrow> parseEventTuples (concat (map et_bytes e)) = Inr e"
  using et.decs_encs [of e "[]"] by (simp add: parseEventTuples_def)

lemma safe_parseEventTuples [simp]: "safe (parseEventTuples p)"
  by (simp add: parseEventTuples_def et.decs_safe)

end
