(* ===== verification/AurpZones.thy ===== *)
theory AurpZones
  imports AurpTuples
begin

text \<open>
  Zone tuples of ZI-Rsp packets (\<open>src/aurp/zone_info.go\<close>).  In a non-extended
  ZI-Rsp a zone name that was already written is replaced by the offset of its
  first occurrence; the parser resolves the offset in the bytes that start at
  the first name.  The main lemma shows that the parser inverts the writer as
  long as the offsets fit in 15 bits.
\<close>

record ZoneTuple =
  zt_Network :: network
  zt_Name :: string

lemma ZoneTuple_eta [simp]: "\<lparr>zt_Network = zt_Network zt, zt_Name = zt_Name zt\<rparr> = zt"
  by simp

type_synonym ZoneTuples = "ZoneTuple list"

fun ZoneTuples_WriteTo_step ::
  "ZoneTuple \<Rightarrow> wtacc \<times> (string \<rightharpoonup> u16) \<Rightarrow> wtacc \<times> (string \<rightharpoonup> u16)" where
  "ZoneTuples_WriteTo_step zt (a0, offsets) =
     (let a = write16 (zt_Network zt) a0 in
      case offsets (zt_Name zt) of
        Some offset \<Rightarrow> (write16 (0x8000 OR offset) a, offsets)
      | None \<Rightarrow>
          (acc_write (str_bytes (zt_Name zt)) (write8 (of_nat (length (zt_Name zt))) a),
           offsets(zt_Name zt \<mapsto> of_nat (acc_n a - 4))))"

definition ZoneTuples_WriteTo :: "ZoneTuples \<Rightarrow> writer_to" where
  "ZoneTuples_WriteTo zs w =
     (if length zs > 65535 then (w, 0, Some (ErrTooMany (length zs)))
      else case find (\<lambda>zt. length (zt_Name zt) > 127) zs of
        Some zt \<Rightarrow> (w, 0, Some (ErrNameTooLong (zt_Name zt)))
      | None \<Rightarrow>
          ret (fst (fold ZoneTuples_WriteTo_step zs
                     (write16 (of_nat (length zs)) (acc w), Map.empty))))"

function parseZoneTuples_loop ::
  "ZoneTuples \<Rightarrow> byte list option \<Rightarrow> byte list \<Rightarrow> ZoneTuples aurp_result" where
  "parseZoneTuples_loop zs fromFirst p0 =
     (if length p0 > 0 then
        if length p0 < 3 then go_err (ErrShort ''another zone tuple'' (length p0))
        else
          go_bind (go_bind (go_upto p0 2) BigEndian_Uint16) (\<lambda>network.
          go_bind (go_from p0 2) (\<lambda>p.
          go_bind (go_index p 0) (\<lambda>nameLen.
          if nameLen AND 0x80 = 0 then
            let fromFirst = (case fromFirst of None \<Rightarrow> Some p | Some f \<Rightarrow> Some f) in
            go_bind (go_from p 1) (\<lambda>p.
            if length p < unat nameLen
            then go_err (ErrTruncated ''zone name'' (length p) (unat nameLen))
            else
              go_bind (go_upto p (unat nameLen)) (\<lambda>name.
              go_bind (go_from p (unat nameLen)) (\<lambda>p.
              parseZoneTuples_loop
                (zs @ [\<lparr>zt_Network = network, zt_Name = bytes_str name\<rparr>]) fromFirst p)))
          else if length p < 2 then go_err (ErrShort ''offset'' (length p))
          else
            go_bind (go_bind (go_upto p 2) BigEndian_Uint16) (\<lambda>raw.
            let offset = raw AND NOT 0x8000;
                first = (case fromFirst of None \<Rightarrow> [] | Some f \<Rightarrow> f) in
            go_bind (go_from p 2) (\<lambda>p.
            if unat offset \<ge> length first then go_err (ErrUnknown ''zone tuple offset'' offset)
            else
              go_bind (go_index first (unat offset)) (\<lambda>nameLen.
              go_bind (go_from first (unat (offset + 1))) (\<lambda>q.
              if length q < unat nameLen
              then go_err (ErrTruncated ''zone name'' (length p) (unat nameLen))
              else
                go_bind (go_upto q (unat nameLen)) (\<lambda>name.
                parseZoneTuples_loop
                  (zs @ [\<lparr>zt_Network = network, zt_Name = bytes_str name\<rparr>])
                  fromFirst p))))))))
      else Inr zs)"
  by pat_completeness auto
termination
  by (relation "measure (\<lambda>(zs, f, p). length p)") (auto dest!: go_from_length)

declare parseZoneTuples_loop.simps [simp del]

definition parseZoneTuples :: "byte list \<Rightarrow> ZoneTuples aurp_result" where
  "parseZoneTuples p0 =
     (if length p0 < 2 then go_err (ErrShort ''zone tuples'' (length p0))
      else go_bind (go_from p0 2) (\<lambda>p. parseZoneTuples_loop [] None p))"

text \<open>The layout: \<open>n\<close> is the number of bytes already written by the method.\<close>

fun zone_bytes :: "(string \<rightharpoonup> u16) \<Rightarrow> nat \<Rightarrow> ZoneTuples \<Rightarrow> byte list" where
  "zone_bytes offsets n [] = []"
| "zone_bytes offsets n (zt # zs) =
     w16 (zt_Network zt) @
     (case offsets (zt_Name zt) of
        Some offset \<Rightarrow> w16 (0x8000 OR offset) @ zone_bytes offsets (n + 4) zs
      | None \<Rightarrow>
          of_nat (length (zt_Name zt)) # str_bytes (zt_Name zt) @
          zone_bytes (offsets(zt_Name zt \<mapsto> of_nat (n + 2 - 4)))
            (n + 3 + length (zt_Name zt)) zs)"

definition zts_bytes :: "ZoneTuples \<Rightarrow> byte list" where
  "zts_bytes zs = w16 (of_nat (length zs)) @ zone_bytes Map.empty 2 zs"

text \<open>
  Names have at most 127 bytes and every name starts within the first 32768
  bytes, so that its offset does not run into the flag bit.
\<close>

definition zts_ok :: "ZoneTuples \<Rightarrow> bool" where
  "zts_ok zs \<longleftrightarrow>
     length zs \<le> 65535 \<and> (\<forall>zt\<in>set zs. length (zt_Name zt) \<le> 127) \<and>
     length (zts_bytes zs) \<le> 0x8000"

lemma fold_zone_step:
  "fst (fold ZoneTuples_WriteTo_step zs (wrote w b, offs)) =
   wrote w (b @ zone_bytes offs (length b) zs)"
proof (induction zs arbitrary: b offs)
  case Nil
  then show ?case by simp
next
  case (Cons zt zs)
  then show ?case
    by (cases "offs (zt_Name zt)") (simp_all add: Let_def fun_upd_def eval_nat_numeral cong: if_cong)
qed

lemma find_long_None:
  "\<forall>zt\<in>set zs. length (zt_Name zt) \<le> 127 \<Longrightarrow> find (\<lambda>zt. length (zt_Name zt) > 127) zs = None"
  by (auto simp: find_None_iff)

lemma zts_emits: "zts_ok zs \<Longrightarrow> emits (ZoneTuples_WriteTo zs) (zts_bytes zs)"
  by (rule emitsI)
    (simp add: ZoneTuples_WriteTo_def zts_ok_def zts_bytes_def acc_wrote
      fold_zone_step find_long_None)

section \<open>Parsing back\<close>

lemma parse_long_tuple:
  assumes "length nm \<le> 127"
  shows "parseZoneTuples_loop ys ff (w16 net @ of_nat (length nm) # str_bytes nm @ r) =
    parseZoneTuples_loop (ys @ [\<lparr>zt_Network = net, zt_Name = nm\<rparr>])
      (Some (case ff of None \<Rightarrow> of_nat (length nm) # str_bytes nm @ r | Some f \<Rightarrow> f)) r"
proof -
  have "unat (of_nat (length nm) :: byte) = length nm"
    using assms by simp
  with assms show ?thesis
    by (subst parseZoneTuples_loop.simps)
      (simp add: w16_def Let_def byte_bit7_clear split: option.split)
qed

lemma offset_bytes:
  assumes "unat (off :: u16) < 0x8000"
  shows "(0x8000 OR off) AND NOT 0x8000 = off"
    and "byte_hi (0x8000 OR off) AND 0x80 \<noteq> 0"
    and "unat (off + 1) = unat off + 1"
proof -
  have nb: "\<not> bit off 15"
  proof -
    have "\<not> bit (unat off) 15"
      using assms by (simp add: bit_iff_odd)
    then show ?thesis by (simp add: bit_unsigned_iff)
  qed
  then have "off AND 2 ^ 15 = 0"
    using and_exp_eq_0_iff_not_bit [of off 15] by blast
  then have "off AND 0x8000 = 0"
    by simp
  then show "(0x8000 OR off) AND NOT 0x8000 = off"
    using flag_clear [of off "0x8000"] by (simp only: or.commute)
  have "bit (byte_hi x) 7 \<longleftrightarrow> bit x 15" for x
    by (simp add: byte_hi_def bit_simps)
  moreover have "bit (2 ^ 15 OR off) 15"
    by (simp only: bit_or_iff bit_exp_iff) simp
  ultimately have "bit (byte_hi (2 ^ 15 OR off)) 7"
    by blast
  then have "byte_hi (2 ^ 15 OR off) AND 2 ^ 7 \<noteq> 0"
    using and_exp_eq_0_iff_not_bit [of "byte_hi (2 ^ 15 OR off)" 7] by blast
  then show "byte_hi (0x8000 OR off) AND 0x80 \<noteq> 0"
    by simp
  show "unat (off + 1) = unat off + 1"
    using assms by (simp add: unat_Suc_u16 word_less_nat_alt)
qed

lemma parse_optimised_tuple:
  assumes "unat off < 0x8000" "length nm \<le> 127"
    and D: "drop (unat off) D = of_nat (length nm) # str_bytes nm @ t"
  shows "parseZoneTuples_loop ys (Some D) (w16 net @ w16 (0x8000 OR off) @ r) =
    parseZoneTuples_loop (ys @ [\<lparr>zt_Network = net, zt_Name = nm\<rparr>]) (Some D) r"
proof -
  have len: "unat off < length D"
    using D by (metis drop_all list.distinct(1) not_le)
  then have nth: "D ! unat off = of_nat (length nm)"
    using D by (metis Cons_nth_drop_Suc list.inject)
  have tl: "drop (Suc (unat off)) D = str_bytes nm @ t"
    using D len by (metis Cons_nth_drop_Suc list.inject)
  have n: "unat (of_nat (length nm) :: byte) = length nm"
    using assms(2) by simp
  have fits: "length nm \<le> length D - Suc (unat off)"
    using arg_cong [OF tl, of length] by simp
  show ?thesis
    using len nth tl n fits offset_bytes [OF assms(1)]
    by (subst parseZoneTuples_loop.simps) (simp add: w16_def Let_def)
qed

definition offsets_ok :: "(string \<rightharpoonup> u16) \<Rightarrow> byte list \<Rightarrow> bool" where
  "offsets_ok offs D \<longleftrightarrow>
     (\<forall>nm off. offs nm = Some off \<longrightarrow>
        length nm \<le> 127 \<and> unat off < 0x8000 \<and>
        (\<exists>t. drop (unat off) D = of_nat (length nm) # str_bytes nm @ t))"

lemma parse_zone_bytes:
  assumes "offsets_ok offs D" "D = pre @ zone_bytes offs n zs" "length pre + 4 = n"
    and "length D \<le> 0x8000" "\<forall>zt\<in>set zs. length (zt_Name zt) \<le> 127"
  shows "parseZoneTuples_loop ys (Some D) (zone_bytes offs n zs) = Inr (ys @ zs)"
  using assms
proof (induction zs arbitrary: ys offs n pre)
  case Nil
  then show ?case by (subst parseZoneTuples_loop.simps) simp
next
  case (Cons zt zs)
  note D = Cons.prems(2)
  define nm where "nm = zt_Name zt"
  have nm: "length nm \<le> 127" and zs: "\<forall>zt\<in>set zs. length (zt_Name zt) \<le> 127"
    using Cons.prems(5) by (simp_all add: nm_def)
  have zt: "\<lparr>zt_Network = zt_Network zt, zt_Name = nm\<rparr> = zt"
    by (simp add: nm_def)
  show ?case
  proof (cases "offs nm")
    case (Some off)
    then have D': "D = (pre @ w16 (zt_Network zt) @ w16 (0x8000 OR off)) @ zone_bytes offs (n + 4) zs"
      using D by (simp add: nm_def)
    have IH: "parseZoneTuples_loop ys (Some D) (zone_bytes offs (n + 4) zs) = Inr (ys @ zs)" for ys
      using Cons.prems(3,4) by (intro Cons.IH [OF Cons.prems(1) D'] zs) auto
    obtain t where "unat off < 0x8000" "drop (unat off) D = of_nat (length nm) # str_bytes nm @ t"
      using Cons.prems(1) Some by (auto simp: offsets_ok_def)
    then show ?thesis
      using parse_optimised_tuple [OF _ nm] Some IH zt by (simp add: nm_def)
  next
    case None
    define offs' where "offs' = offs(nm \<mapsto> of_nat (n + 2 - 4))"
    define rest where "rest = zone_bytes offs' (n + 3 + length nm) zs"
    have D': "D = (pre @ w16 (zt_Network zt) @ of_nat (length nm) # str_bytes nm) @ rest"
      using D None by (simp add: rest_def offs'_def nm_def)
    have pos: "n + 2 - 4 = length pre + 2"
      using Cons.prems(3) by simp
    have "length pre + 2 < 0x8000"
      using D' Cons.prems(4) by simp
    then have off: "unat (of_nat (n + 2 - 4) :: u16) = length pre + 2"
      unfolding pos by (subst unat_of_nat) simp
    have "offsets_ok offs' D"
      using Cons.prems(1) nm off \<open>length pre + 2 < 0x8000\<close>
      by (auto simp: offsets_ok_def offs'_def D')
    then have IH: "parseZoneTuples_loop ys (Some D) rest = Inr (ys @ zs)" for ys
      unfolding rest_def using Cons.prems(3,4) D'
      by (intro Cons.IH [OF _ D' [unfolded rest_def]] zs) auto
    show ?thesis
      using parse_long_tuple [OF nm, of ys "Some D" "zt_Network zt" rest] None IH zt
      by (simp add: nm_def rest_def offs'_def)
  qed
qed

lemma parse_zts:
  assumes "zts_ok zs"
  shows "parseZoneTuples (zts_bytes zs) = Inr zs"
proof (cases zs)
  case Nil
  then show ?thesis
    by (simp add: parseZoneTuples_def zts_bytes_def w16_def parseZoneTuples_loop.simps)
next
  case (Cons zt zs')
  define nm where "nm = zt_Name zt"
  define offs where "offs = [nm \<mapsto> 0 :: u16]"
  define D where "D = of_nat (length nm) # str_bytes nm @ zone_bytes offs (5 + length nm) zs'"
  have nm: "length nm \<le> 127"
    using assms Cons by (simp add: zts_ok_def nm_def)
  have zt: "\<lparr>zt_Network = zt_Network zt, zt_Name = zt_Name zt\<rparr> = zt"
    by simp
  have bytes: "zone_bytes Map.empty 2 zs = w16 (zt_Network zt) @ D"
    using Cons by (simp add: D_def nm_def offs_def add.commute)
  have "parseZoneTuples (zts_bytes zs) =
      parseZoneTuples_loop [] None (zone_bytes Map.empty 2 zs)"
    by (simp add: parseZoneTuples_def zts_bytes_def w16_def)
  also have "\<dots> = parseZoneTuples_loop [zt] (Some D) (zone_bytes offs (5 + length nm) zs')"
    unfolding bytes D_def
    using parse_long_tuple [OF nm, of "[]" None "zt_Network zt"
        "zone_bytes offs (5 + length nm) zs'"]
    by (simp add: nm_def zt)
  also have "\<dots> = Inr ([zt] @ zs')"
  proof (rule parse_zone_bytes)
    show "offsets_ok offs D"
      using nm by (simp add: offsets_ok_def offs_def D_def)
    show "D = (of_nat (length nm) # str_bytes nm) @ zone_bytes offs (5 + length nm) zs'"
      by (simp add: D_def)
  qed (use assms Cons bytes in \<open>auto simp: zts_ok_def zts_bytes_def\<close>)
  finally show ?thesis
    using Cons by simp
qed

text \<open>Clearing the flag leaves a 15-bit offset, so \<open>offset+1\<close> does not wrap.\<close>

lemma unat_offset_Suc:
  fixes x :: u16
  shows "unat ((x AND - 32769) + 1) = Suc (unat (x AND - 32769))"
proof (rule unat_Suc_u16)
  have "x AND - 32769 \<le> - 32769"
    by (rule word_and_le1)
  also have "(- 32769 :: u16) < 65535"
    by simp
  finally show "x AND - 32769 < 65535" .
qed

lemma safe_parseZoneTuples_loop [simp]: "safe (parseZoneTuples_loop zs f p)"
  by (induction zs f p rule: parseZoneTuples_loop.induct)
    (subst parseZoneTuples_loop.simps, auto simp: Let_def unat_offset_Suc Suc_le_eq)

lemma safe_parseZoneTuples [simp]: "safe (parseZoneTuples p)"
  by (auto simp: parseZoneTuples_def)

end
