(* ===== verification/AurpPackets.thy ===== *)
theory AurpPackets
  imports AurpZones
begin

text \<open>
  The packets of package \<open>aurp\<close>: one record per packet type
  (\<open>src/aurp/open.go\<close>, \<open>routing_info.go\<close>, \<open>zone_info.go\<close>, \<open>router_down.go\<close>,
  \<open>tickle.go\<close>, \<open>atalk.go\<close>), its \<open>WriteTo\<close> method and its parser, and
  \<open>ParsePacket\<close> (\<open>src/aurp/aurp.go\<close>), which dispatches on the packet type, the
  command code and the subcode.

  In the source every parser leaves the embedded header zero and \<open>ParsePacket\<close>
  stores it afterwards; here the parser takes the header as its first argument.
\<close>

section \<open>Codes\<close>

abbreviation CmdCodeRIReq :: u16 where "CmdCodeRIReq \<equiv> 0x0001"
abbreviation CmdCodeRIRsp :: u16 where "CmdCodeRIRsp \<equiv> 0x0002"
abbreviation CmdCodeRIAck :: u16 where "CmdCodeRIAck \<equiv> 0x0003"
abbreviation CmdCodeRIUpd :: u16 where "CmdCodeRIUpd \<equiv> 0x0004"
abbreviation CmdCodeRD :: u16 where "CmdCodeRD \<equiv> 0x0005"
abbreviation CmdCodeZoneReq :: u16 where "CmdCodeZoneReq \<equiv> 0x0006"
abbreviation CmdCodeZoneRsp :: u16 where "CmdCodeZoneRsp \<equiv> 0x0007"
abbreviation CmdCodeOpenReq :: u16 where "CmdCodeOpenReq \<equiv> 0x0008"
abbreviation CmdCodeOpenRsp :: u16 where "CmdCodeOpenRsp \<equiv> 0x0009"
abbreviation CmdCodeTickle :: u16 where "CmdCodeTickle \<equiv> 0x000e"
abbreviation CmdCodeTickleAck :: u16 where "CmdCodeTickleAck \<equiv> 0x000f"

abbreviation RoutingFlagSUINA :: u16 where "RoutingFlagSUINA \<equiv> 0x4000"
abbreviation RoutingFlagSUINDOrNRC :: u16 where "RoutingFlagSUINDOrNRC \<equiv> 0x2000"
abbreviation RoutingFlagSUINDC :: u16 where "RoutingFlagSUINDC \<equiv> 0x1000"
abbreviation RoutingFlagSUIZC :: u16 where "RoutingFlagSUIZC \<equiv> 0x0800"
abbreviation RoutingFlagAllSUI :: u16 where "RoutingFlagAllSUI \<equiv> 0x7800"
abbreviation RoutingFlagLast :: u16 where "RoutingFlagLast \<equiv> 0x8000"
abbreviation RoutingFlagRemappingActive :: u16 where "RoutingFlagRemappingActive \<equiv> 0x4000"
abbreviation RoutingFlagHopCountReduction :: u16 where "RoutingFlagHopCountReduction \<equiv> 0x2000"
abbreviation RoutingFlagSendZoneInfo :: u16 where "RoutingFlagSendZoneInfo \<equiv> 0x4000"

abbreviation SubcodeZoneInfoReq :: u16 where "SubcodeZoneInfoReq \<equiv> 0x0001"
abbreviation SubcodeZoneInfoNonExt :: u16 where "SubcodeZoneInfoNonExt \<equiv> 0x0001"
abbreviation SubcodeZoneInfoExt :: u16 where "SubcodeZoneInfoExt \<equiv> 0x0002"
abbreviation SubcodeGetZonesNet :: u16 where "SubcodeGetZonesNet \<equiv> 0x0003"
abbreviation SubcodeGetDomainZoneList :: u16 where "SubcodeGetDomainZoneList \<equiv> 0x0004"

text \<open>\<open>int16\<close> error codes, at their width.\<close>

abbreviation ErrCodeNormalClose :: u16 where "ErrCodeNormalClose \<equiv> - 1"
abbreviation ErrCodeRoutingLoop :: u16 where "ErrCodeRoutingLoop \<equiv> - 2"
abbreviation ErrCodeOutOfSync :: u16 where "ErrCodeOutOfSync \<equiv> - 3"
abbreviation ErrCodeOptionNegotiation :: u16 where "ErrCodeOptionNegotiation \<equiv> - 4"
abbreviation ErrCodeInvalidVersion :: u16 where "ErrCodeInvalidVersion \<equiv> - 5"
abbreviation ErrCodeInsufficientResources :: u16 where "ErrCodeInsufficientResources \<equiv> - 6"
abbreviation ErrCodeAuthentication :: u16 where "ErrCodeAuthentication \<equiv> - 7"


section \<open>Open packets\<close>

record OpenReqPacket =
  oreq_Header :: Header
  oreq_Version :: u16
  oreq_Options :: Options

definition OpenReqPacket_WriteTo :: "OpenReqPacket \<Rightarrow> writer_to" where
  "OpenReqPacket_WriteTo p w =
     ret (writeTo (Options_WriteTo (oreq_Options p))
         (write16 (oreq_Version p)
         (writeTo (Header_WriteTo (oreq_Header p)) (acc w))))"

definition parseOpenReq :: "Header \<Rightarrow> byte list \<Rightarrow> OpenReqPacket aurp_result" where
  "parseOpenReq h p =
     (if length p < 3 then go_err (ErrShort ''Open-Req packet'' (length p))
      else
        go_bind (go_bind (go_from p 2) parseOptions) (\<lambda>opts.
        go_bind (go_bind (go_upto p 2) BigEndian_Uint16) (\<lambda>v.
        Inr \<lparr>oreq_Header = h, oreq_Version = v, oreq_Options = opts\<rparr>)))"

record OpenRspPacket =
  orsp_Header :: Header
  orsp_RateOrErrCode :: u16
  orsp_Options :: Options

definition OpenRspPacket_WriteTo :: "OpenRspPacket \<Rightarrow> writer_to" where
  "OpenRspPacket_WriteTo p w =
     ret (writeTo (Options_WriteTo (orsp_Options p))
         (write16 (orsp_RateOrErrCode p)
         (writeTo (Header_WriteTo (orsp_Header p)) (acc w))))"

definition parseOpenRsp :: "Header \<Rightarrow> byte list \<Rightarrow> OpenRspPacket aurp_result" where
  "parseOpenRsp h p =
     (if length p < 3 then go_err (ErrShort ''Open-Rsp packet'' (length p))
      else
        go_bind (go_bind (go_from p 2) parseOptions) (\<lambda>opts.
        go_bind (go_bind (go_upto p 2) BigEndian_Uint16) (\<lambda>v.
        Inr \<lparr>orsp_Header = h, orsp_RateOrErrCode = v, orsp_Options = opts\<rparr>)))"


section \<open>Routing information packets\<close>

record RIReqPacket =
  rireq_Header :: Header

record RIRspPacket =
  rirsp_Header :: Header
  rirsp_Networks :: NetworkTuples

record RIAckPacket =
  riack_Header :: Header

record RIUpdPacket =
  riupd_Header :: Header
  riupd_Events :: EventTuples

record RDPacket =
  rd_Header :: Header
  rd_ErrorCode :: u16

record TicklePacket =
  tickle_Header :: Header

record TickleAckPacket =
  tickleack_Header :: Header

record AppleTalkPacket =
  at_DomainHeader :: DomainHeader
  at_Data :: "byte list"

definition RIRspPacket_WriteTo :: "RIRspPacket \<Rightarrow> writer_to" where
  "RIRspPacket_WriteTo p w =
     ret (writeTo (NetworkTuples_WriteTo (rirsp_Networks p))
         (writeTo (Header_WriteTo (rirsp_Header p)) (acc w)))"

definition parseRIRsp :: "Header \<Rightarrow> byte list \<Rightarrow> RIRspPacket aurp_result" where
  "parseRIRsp h p =
     go_bind (parseNetworkTuples p) (\<lambda>n. Inr \<lparr>rirsp_Header = h, rirsp_Networks = n\<rparr>)"

definition RIUpdPacket_WriteTo :: "RIUpdPacket \<Rightarrow> writer_to" where
  "RIUpdPacket_WriteTo p w =
     ret (writeTo (EventTuples_WriteTo (riupd_Events p))
         (writeTo (Header_WriteTo (riupd_Header p)) (acc w)))"

definition parseRIUpd :: "Header \<Rightarrow> byte list \<Rightarrow> RIUpdPacket aurp_result" where
  "parseRIUpd h p =
     go_bind (parseEventTuples p) (\<lambda>e. Inr \<lparr>riupd_Header = h, riupd_Events = e\<rparr>)"

definition RDPacket_WriteTo :: "RDPacket \<Rightarrow> writer_to" where
  "RDPacket_WriteTo p w =
     ret (write16 (rd_ErrorCode p) (writeTo (Header_WriteTo (rd_Header p)) (acc w)))"

definition parseRD :: "Header \<Rightarrow> byte list \<Rightarrow> RDPacket aurp_result" where
  "parseRD h p =
     (if length p < 2 then go_err (ErrShort ''router down packet'' (length p))
      else go_bind (go_bind (go_upto p 2) BigEndian_Uint16) (\<lambda>c.
        Inr \<lparr>rd_Header = h, rd_ErrorCode = c\<rparr>))"

definition AppleTalkPacket_WriteTo :: "AppleTalkPacket \<Rightarrow> writer_to" where
  "AppleTalkPacket_WriteTo p w =
     ret (acc_write (at_Data p) (writeTo (DomainHeader_WriteTo (at_DomainHeader p)) (acc w)))"



section \<open>Zone packets\<close>

definition parseSubcode :: "byte list \<Rightarrow> (u16 \<times> byte list) aurp_result" where
  "parseSubcode p =
     (if length p < 2 then go_err (ErrShort ''subcode'' (length p))
      else
        go_bind (go_bind (go_upto p 2) BigEndian_Uint16) (\<lambda>c.
        go_bind (go_from p 2) (\<lambda>r. Inr (c, r))))"

record ZIReqPacket =
  zireq_Header :: Header
  zireq_Subcode :: u16
  zireq_Networks :: "network list"

definition ZIReqPacket_WriteTo :: "ZIReqPacket \<Rightarrow> writer_to" where
  "ZIReqPacket_WriteTo p w =
     ret (fold write16 (zireq_Networks p)
         (write16 (zireq_Subcode p)
         (writeTo (Header_WriteTo (zireq_Header p)) (acc w))))"

text \<open>\<open>parseZIReq_loop c i p\<close> reads the \<open>c\<close> networks from index \<open>i\<close> on.\<close>

primrec parseZIReq_loop :: "nat \<Rightarrow> nat \<Rightarrow> byte list \<Rightarrow> network list aurp_result" where
  "parseZIReq_loop 0 i p = Inr []"
| "parseZIReq_loop (Suc c) i p =
     go_bind (go_bind (go_bind (go_from p (2 * i)) (\<lambda>q. go_upto q 2)) BigEndian_Uint16) (\<lambda>n.
     go_bind (parseZIReq_loop c (Suc i) p) (\<lambda>ns. Inr (n # ns)))"

definition parseZIReqPacket :: "Header \<Rightarrow> byte list \<Rightarrow> ZIReqPacket aurp_result" where
  "parseZIReqPacket h p =
     (if length p mod 2 \<noteq> 0 then go_err (ErrBadLength ''networks'' (length p))
      else go_bind (parseZIReq_loop (length p div 2) 0 p) (\<lambda>ns.
        Inr \<lparr>zireq_Header = h, zireq_Subcode = SubcodeZoneInfoReq, zireq_Networks = ns\<rparr>))"

record ZIRspPacket =
  zirsp_Header :: Header
  zirsp_Subcode :: u16
  zirsp_TotalTuples :: u16
  zirsp_Zones :: ZoneTuples

text \<open>
  The extended form checks each name inside the loop, after earlier tuples were
  already written; it then reports 0 bytes and the error.
\<close>

fun ZIRspPacket_ext_loop :: "ZoneTuples \<Rightarrow> wtacc \<Rightarrow> byte list \<times> nat \<times> aurp_error option" where
  "ZIRspPacket_ext_loop [] a = ret a"
| "ZIRspPacket_ext_loop (zt # zs) a =
     (if length (zt_Name zt) > 127 then (acc_w a, 0, Some (ErrNameTooLong (zt_Name zt)))
      else ZIRspPacket_ext_loop zs
        (acc_write (str_bytes (zt_Name zt))
        (write8 (of_nat (length (zt_Name zt)))
        (write16 (zt_Network zt) a))))"

definition ZIRspPacket_WriteTo :: "ZIRspPacket \<Rightarrow> writer_to" where
  "ZIRspPacket_WriteTo p w =
     (let a = write16 (zirsp_Subcode p) (writeTo (Header_WriteTo (zirsp_Header p)) (acc w)) in
      if zirsp_Subcode p \<noteq> SubcodeZoneInfoExt
      then ret (writeTo (ZoneTuples_WriteTo (zirsp_Zones p)) a)
      else
        let total = (if zirsp_TotalTuples p = 0 then of_nat (length (zirsp_Zones p))
                     else zirsp_TotalTuples p) in
        ZIRspPacket_ext_loop (zirsp_Zones p) (write16 total a))"

function parseZIRsp_ext_loop :: "ZoneTuples \<Rightarrow> network \<Rightarrow> byte list \<Rightarrow> ZoneTuples aurp_result" where
  "parseZIRsp_ext_loop zones net0 p0 =
     (if length p0 > 0 then
        if length p0 < 3 then go_err (ErrShort ''extended zone tuple'' (length p0))
        else
          go_bind (go_bind (go_upto p0 2) BigEndian_Uint16) (\<lambda>n.
          go_bind (go_index p0 2) (\<lambda>nameLen.
          go_bind (go_from p0 3) (\<lambda>p.
          if nameLen AND 0x80 \<noteq> 0 then go_err ErrOptimizedTuple
          else if length p < unat nameLen
          then go_err (ErrTruncated ''zone name'' (length p) (unat nameLen))
          else if length zones \<noteq> 0 \<and> n \<noteq> net0 then go_err (ErrMixedNetworks net0 n)
          else
            go_bind (go_upto p (unat nameLen)) (\<lambda>name.
            go_bind (go_from p (unat nameLen)) (\<lambda>r.
            parseZIRsp_ext_loop (zones @ [\<lparr>zt_Network = n, zt_Name = bytes_str name\<rparr>])
              (if length zones = 0 then n else net0) r)))))
      else Inr zones)"
  by pat_completeness auto
termination
  by (relation "measure (\<lambda>(zs, n, p). length p)") (auto dest!: go_from_length)

declare parseZIRsp_ext_loop.simps [simp del]

definition parseZIRspPacket :: "Header \<Rightarrow> byte list \<Rightarrow> u16 \<Rightarrow> ZIRspPacket aurp_result" where
  "parseZIRspPacket h p subcode =
     (if subcode \<noteq> SubcodeZoneInfoExt then
        go_bind (parseZoneTuples p) (\<lambda>zs.
        Inr \<lparr>zirsp_Header = h, zirsp_Subcode = subcode, zirsp_TotalTuples = 0, zirsp_Zones = zs\<rparr>)
      else if length p < 2 then go_err (ErrShort ''extended ZI-Rsp tuple count'' (length p))
      else
        go_bind (go_bind (go_upto p 2) BigEndian_Uint16) (\<lambda>total.
        go_bind (go_from p 2) (\<lambda>r.
        go_bind (parseZIRsp_ext_loop [] 0 r) (\<lambda>zones.
        Inr \<lparr>zirsp_Header = h, zirsp_Subcode = subcode, zirsp_TotalTuples = total,
             zirsp_Zones = zones\<rparr>))))"

record GDZLReqPacket =
  gdzlreq_Header :: Header
  gdzlreq_Subcode :: u16
  gdzlreq_StartIndex :: u16

definition GDZLReqPacket_WriteTo :: "GDZLReqPacket \<Rightarrow> writer_to" where
  "GDZLReqPacket_WriteTo p w =
     ret (write16 (gdzlreq_StartIndex p)
         (write16 (gdzlreq_Subcode p)
         (writeTo (Header_WriteTo (gdzlreq_Header p)) (acc w))))"

definition parseGDZLReqPacket :: "Header \<Rightarrow> byte list \<Rightarrow> GDZLReqPacket aurp_result" where
  "parseGDZLReqPacket h p =
     (if length p < 2 then go_err (ErrShort ''GDZL-Req packet'' (length p))
      else go_bind (go_bind (go_upto p 2) BigEndian_Uint16) (\<lambda>i.
        Inr \<lparr>gdzlreq_Header = h, gdzlreq_Subcode = SubcodeGetDomainZoneList,
             gdzlreq_StartIndex = i\<rparr>))"

record GDZLRspPacket =
  gdzlrsp_Header :: Header
  gdzlrsp_Subcode :: u16
  gdzlrsp_StartIndex :: u16
  gdzlrsp_ZoneNames :: "string list"

definition GDZLRspPacket_WriteTo :: "GDZLRspPacket \<Rightarrow> writer_to" where
  "GDZLRspPacket_WriteTo p w =
     (case find (\<lambda>zn. length zn > 127) (gdzlrsp_ZoneNames p) of
        Some zn \<Rightarrow> (w, 0, Some (ErrNameTooLong zn))
      | None \<Rightarrow>
          let a = write16 (gdzlrsp_StartIndex p)
                 (write16 (gdzlrsp_Subcode p)
                 (writeTo (Header_WriteTo (gdzlrsp_Header p)) (acc w))) in
          if gdzlrsp_StartIndex p = - 1 then ret a
          else ret (fold (\<lambda>zn a. acc_write (str_bytes zn) (write8 (of_nat (length zn)) a))
                     (gdzlrsp_ZoneNames p) a))"

function parseGDZLRsp_loop :: "string list \<Rightarrow> byte list \<Rightarrow> string list aurp_result" where
  "parseGDZLRsp_loop names p0 =
     (if length p0 > 0 then
        go_bind (go_index p0 0) (\<lambda>strLen.
        go_bind (go_from p0 1) (\<lambda>p.
        if length p < unat strLen
        then go_err (ErrTruncated ''zone name'' (length p) (unat strLen))
        else
          go_bind (go_upto p (unat strLen)) (\<lambda>name.
          go_bind (go_from p (unat strLen)) (\<lambda>r.
          parseGDZLRsp_loop (names @ [bytes_str name]) r))))
      else Inr names)"
  by pat_completeness auto
termination
  by (relation "measure (\<lambda>(ns, p). length p)") (auto dest!: go_from_length)

declare parseGDZLRsp_loop.simps [simp del]

definition parseGDZLRspPacket :: "Header \<Rightarrow> byte list \<Rightarrow> GDZLRspPacket aurp_result" where
  "parseGDZLRspPacket h p =
     (if length p < 2 then go_err (ErrShort ''GDZL-Rsp packet'' (length p))
      else
        go_bind (go_bind (go_upto p 2) BigEndian_Uint16) (\<lambda>i.
        let gdzl = \<lparr>gdzlrsp_Header = h, gdzlrsp_Subcode = SubcodeGetDomainZoneList,
                    gdzlrsp_StartIndex = i, gdzlrsp_ZoneNames = []\<rparr> in
        if i = - 1 then Inr gdzl
        else
          go_bind (go_from p 2) (\<lambda>r.
          go_bind (parseGDZLRsp_loop [] r) (\<lambda>names.
          Inr (gdzl\<lparr>gdzlrsp_ZoneNames := names\<rparr>)))))"

record GZNReqPacket =
  gznreq_Header :: Header
  gznreq_Subcode :: u16
  gznreq_ZoneName :: string

definition GZNReqPacket_WriteTo :: "GZNReqPacket \<Rightarrow> writer_to" where
  "GZNReqPacket_WriteTo p w =
     (if length (gznreq_ZoneName p) > 127 then (w, 0, Some (ErrNameTooLong (gznreq_ZoneName p)))
      else ret (acc_write (str_bytes (gznreq_ZoneName p))
               (write8 (of_nat (length (gznreq_ZoneName p)))
               (write16 (gznreq_Subcode p)
               (writeTo (Header_WriteTo (gznreq_Header p)) (acc w))))))"

definition parseGZNReqPacket :: "Header \<Rightarrow> byte list \<Rightarrow> GZNReqPacket aurp_result" where
  "parseGZNReqPacket h p0 =
     (if length p0 < 1 then go_err (ErrShort ''GZN-Req packet'' (length p0))
      else
        go_bind (go_index p0 0) (\<lambda>strLen.
        go_bind (go_from p0 1) (\<lambda>p.
        if length p < unat strLen
        then go_err (ErrTruncated ''zone name'' (length p) (unat strLen))
        else go_bind (go_upto p (unat strLen)) (\<lambda>name.
          Inr \<lparr>gznreq_Header = h, gznreq_Subcode = SubcodeGetZonesNet,
               gznreq_ZoneName = bytes_str name\<rparr>))))"

record GZNRspPacket =
  gznrsp_Header :: Header
  gznrsp_Subcode :: u16
  gznrsp_ZoneName :: string
  gznrsp_NotSupported :: bool
  gznrsp_Networks :: NetworkTuples

text \<open>The method writes the length of the zone name and not the name.\<close>

definition GZNRspPacket_WriteTo :: "GZNRspPacket \<Rightarrow> writer_to" where
  "GZNRspPacket_WriteTo p w =
     (if length (gznrsp_ZoneName p) > 127 then (w, 0, Some (ErrNameTooLong (gznrsp_ZoneName p)))
      else
        let a = write8 (of_nat (length (gznrsp_ZoneName p)))
               (write16 (gznrsp_Subcode p)
               (writeTo (Header_WriteTo (gznrsp_Header p)) (acc w))) in
        if gznrsp_NotSupported p then ret (write16 0xffff a)
        else ret (writeTo (NetworkTuples_WriteTo (gznrsp_Networks p)) a))"

definition parseGZNRspPacket :: "Header \<Rightarrow> byte list \<Rightarrow> GZNRspPacket aurp_result" where
  "parseGZNRspPacket h p0 =
     (if length p0 < 1 then go_err (ErrShort ''GZN-Rsp packet'' (length p0))
      else
        go_bind (go_index p0 0) (\<lambda>strLen.
        go_bind (go_from p0 1) (\<lambda>p1.
        if length p1 < unat strLen
        then go_err (ErrTruncated ''zone name'' (length p1) (unat strLen))
        else
          go_bind (go_upto p1 (unat strLen)) (\<lambda>name.
          go_bind (go_from p1 (unat strLen)) (\<lambda>p.
          if length p < 2 then go_err (ErrShort ''GZN-Rsp packet'' (length p))
          else
            go_bind (go_index p 0) (\<lambda>b0.
            go_bind (go_index p 1) (\<lambda>b1.
            let gzn = \<lparr>gznrsp_Header = h, gznrsp_Subcode = SubcodeGetZonesNet,
                       gznrsp_ZoneName = bytes_str name,
                       gznrsp_NotSupported = (b0 = 0xff \<and> b1 = 0xff),
                       gznrsp_Networks = []\<rparr> in
            if gznrsp_NotSupported gzn then Inr gzn
            else go_bind (parseNetworkTuples p) (\<lambda>ns.
              Inr (gzn\<lparr>gznrsp_Networks := ns\<rparr>)))))))))"

end
