(* ===== verification/AurpParse.thy ===== *)
theory AurpParse
  imports AurpPackets
begin

text \<open>
  The \<open>Packet\<close> interface, \<open>ParsePacket\<close> and the sequence-number arithmetic of
  \<open>src/aurp/aurp.go\<close>, with the two facts the router relies on for every datagram
  it receives: parsing never panics, and a well-formed packet survives the trip
  over the wire unchanged.
\<close>

section \<open>Packets\<close>

datatype Packet =
    PAppleTalk AppleTalkPacket
  | POpenReq OpenReqPacket
  | POpenRsp OpenRspPacket
  | PRIReq RIReqPacket
  | PRIRsp RIRspPacket
  | PRIAck RIAckPacket
  | PRIUpd RIUpdPacket
  | PRD RDPacket
  | PZIReq ZIReqPacket
  | PZIRsp ZIRspPacket
  | PGDZLReq GDZLReqPacket
  | PGDZLRsp GDZLRspPacket
  | PGZNReq GZNReqPacket
  | PGZNRsp GZNRspPacket
  | PTickle TicklePacket
  | PTickleAck TickleAckPacket

text \<open>\<open>AURPHeader\<close> of the routing packets.\<close>

fun AURPHeader :: "Packet \<Rightarrow> Header option" where
  "AURPHeader (PAppleTalk p) = None"
| "AURPHeader (POpenReq p) = Some (oreq_Header p)"
| "AURPHeader (POpenRsp p) = Some (orsp_Header p)"
| "AURPHeader (PRIReq p) = Some (rireq_Header p)"
| "AURPHeader (PRIRsp p) = Some (rirsp_Header p)"
| "AURPHeader (PRIAck p) = Some (riack_Header p)"
| "AURPHeader (PRIUpd p) = Some (riupd_Header p)"
| "AURPHeader (PRD p) = Some (rd_Header p)"
| "AURPHeader (PZIReq p) = Some (zireq_Header p)"
| "AURPHeader (PZIRsp p) = Some (zirsp_Header p)"
| "AURPHeader (PGDZLReq p) = Some (gdzlreq_Header p)"
| "AURPHeader (PGDZLRsp p) = Some (gdzlrsp_Header p)"
| "AURPHeader (PGZNReq p) = Some (gznreq_Header p)"
| "AURPHeader (PGZNRsp p) = Some (gznrsp_Header p)"
| "AURPHeader (PTickle p) = Some (tickle_Header p)"
| "AURPHeader (PTickleAck p) = Some (tickleack_Header p)"

definition GetDomainHeader :: "Packet \<Rightarrow> DomainHeader" where
  "GetDomainHeader pkt =
     (case pkt of
        PAppleTalk p \<Rightarrow> at_DomainHeader p
      | _ \<Rightarrow> TrDomainHeader (HTrHeader (the (AURPHeader pkt))))"

fun Packet_WriteTo :: "Packet \<Rightarrow> writer_to" where
  "Packet_WriteTo (PAppleTalk p) = AppleTalkPacket_WriteTo p"
| "Packet_WriteTo (POpenReq p) = OpenReqPacket_WriteTo p"
| "Packet_WriteTo (POpenRsp p) = OpenRspPacket_WriteTo p"
| "Packet_WriteTo (PRIReq p) = Header_WriteTo (rireq_Header p)"
| "Packet_WriteTo (PRIRsp p) = RIRspPacket_WriteTo p"
| "Packet_WriteTo (PRIAck p) = Header_WriteTo (riack_Header p)"
| "Packet_WriteTo (PRIUpd p) = RIUpdPacket_WriteTo p"
| "Packet_WriteTo (PRD p) = RDPacket_WriteTo p"
| "Packet_WriteTo (PZIReq p) = ZIReqPacket_WriteTo p"
| "Packet_WriteTo (PZIRsp p) = ZIRspPacket_WriteTo p"
| "Packet_WriteTo (PGDZLReq p) = GDZLReqPacket_WriteTo p"
| "Packet_WriteTo (PGDZLRsp p) = GDZLRspPacket_WriteTo p"
| "Packet_WriteTo (PGZNReq p) = GZNReqPacket_WriteTo p"
| "Packet_WriteTo (PGZNRsp p) = GZNRspPacket_WriteTo p"
| "Packet_WriteTo (PTickle p) = Header_WriteTo (tickle_Header p)"
| "Packet_WriteTo (PTickleAck p) = Header_WriteTo (tickleack_Header p)"


section \<open>ParsePacket\<close>

text \<open>\<open>go_lift C m\<close> wraps the parsed packet into the \<open>Packet\<close> interface value.\<close>

abbreviation go_lift :: "('a \<Rightarrow> Packet) \<Rightarrow> 'a aurp_result \<Rightarrow> Packet aurp_result" where
  "go_lift C m \<equiv> go_bind m (\<lambda>x. Inr (C x))"

definition ParsePacket_ZoneReq :: "Header \<Rightarrow> byte list \<Rightarrow> Packet aurp_result" where
  "ParsePacket_ZoneReq h p0 =
     go_bind (parseSubcode p0) (\<lambda>(sc, p).
     if sc = SubcodeZoneInfoReq then go_lift PZIReq (parseZIReqPacket h p)
     else if sc = SubcodeGetDomainZoneList then go_lift PGDZLReq (parseGDZLReqPacket h p)
     else if sc = SubcodeGetZonesNet then go_lift PGZNReq (parseGZNReqPacket h p)
     else go_err (ErrUnknown ''subcode'' sc))"

definition ParsePacket_ZoneRsp :: "Header \<Rightarrow> byte list \<Rightarrow> Packet aurp_result" where
  "ParsePacket_ZoneRsp h p0 =
     go_bind (parseSubcode p0) (\<lambda>(sc, p).
     if sc = SubcodeZoneInfoNonExt \<or> sc = SubcodeZoneInfoExt
     then go_bind (parseZIRspPacket h p sc) (\<lambda>zir. Inr (PZIRsp (zir\<lparr>zirsp_Subcode := sc\<rparr>)))
     else if sc = SubcodeGetDomainZoneList then go_lift PGDZLRsp (parseGDZLRspPacket h p)
     else if sc = SubcodeGetZonesNet then go_lift PGZNRsp (parseGZNRspPacket h p)
     else go_err (ErrUnknown ''subcode'' sc))"

definition ParsePacket_command :: "Header \<Rightarrow> byte list \<Rightarrow> Packet aurp_result" where
  "ParsePacket_command h p =
     (let c = CommandCode h in
      if c = CmdCodeOpenReq then go_lift POpenReq (parseOpenReq h p)
      else if c = CmdCodeOpenRsp then go_lift POpenRsp (parseOpenRsp h p)
      else if c = CmdCodeRIReq then Inr (PRIReq \<lparr>rireq_Header = h\<rparr>)
      else if c = CmdCodeRIRsp then go_lift PRIRsp (parseRIRsp h p)
      else if c = CmdCodeRIAck then Inr (PRIAck \<lparr>riack_Header = h\<rparr>)
      else if c = CmdCodeRIUpd then go_lift PRIUpd (parseRIUpd h p)
      else if c = CmdCodeRD then go_lift PRD (parseRD h p)
      else if c = CmdCodeZoneReq then ParsePacket_ZoneReq h p
      else if c = CmdCodeZoneRsp then ParsePacket_ZoneRsp h p
      else if c = CmdCodeTickle then Inr (PTickle \<lparr>tickle_Header = h\<rparr>)
      else if c = CmdCodeTickleAck then Inr (PTickleAck \<lparr>tickleack_Header = h\<rparr>)
      else go_err (ErrUnknown ''routing packet command code'' c))"

definition ParsePacket :: "byte list \<Rightarrow> (DomainHeader \<times> Packet) aurp_result" where
  "ParsePacket p0 =
     go_bind (ParseDomainHeader p0) (\<lambda>(dh, p1).
     if DHVersion dh \<noteq> 1 then go_err (ErrUnknown ''domain header version'' (DHVersion dh))
     else if PacketType dh = PacketTypeAppleTalk
     then Inr (dh, PAppleTalk \<lparr>at_DomainHeader = dh, at_Data = p1\<rparr>)
     else if PacketType dh = PacketTypeRouting then
       go_bind (parseTrHeader p1) (\<lambda>((c, s), p2).
       let tr = \<lparr>TrDomainHeader = dh, ConnectionID = c, Sequence = s\<rparr> in
       go_bind (parseHeader p2) (\<lambda>((cc, f), p).
       let h = \<lparr>HTrHeader = tr, CommandCode = cc, Flags = f\<rparr> in
       go_bind (ParsePacket_command h p) (\<lambda>pkt. Inr (dh, pkt))))
     else go_err (ErrUnknown ''domain header packet type'' (PacketType dh)))"

text \<open>Sequence numbers and connection identifiers skip 0.\<close>

definition Succ :: "u16 \<Rightarrow> u16" where
  "Succ n0 = (let n = n0 + 1 in if n = 0 then n + 1 else n)"

definition Pred :: "u16 \<Rightarrow> u16" where
  "Pred n0 = (let n = n0 - 1 in if n = 0 then n - 1 else n)"


section \<open>Parsing never panics\<close>

lemma safe_parseZIReq_loop:
  "2 * (i + c) \<le> length p \<Longrightarrow> safe (parseZIReq_loop c i p)"
  by (induction c arbitrary: i) auto

lemma safe_parseZIRsp_ext_loop [simp]: "safe (parseZIRsp_ext_loop zs n p)"
  by (induction zs n p rule: parseZIRsp_ext_loop.induct)
    (subst parseZIRsp_ext_loop.simps, auto)

lemma safe_parseGDZLRsp_loop [simp]: "safe (parseGDZLRsp_loop ns p)"
  by (induction ns p rule: parseGDZLRsp_loop.induct)
    (subst parseGDZLRsp_loop.simps, auto)

lemma safe_open [simp]: "safe (parseOpenReq h p)" "safe (parseOpenRsp h p)"
  by (auto simp: parseOpenReq_def parseOpenRsp_def)

lemma safe_routing [simp]: "safe (parseRIRsp h p)" "safe (parseRIUpd h p)" "safe (parseRD h p)"
  by (auto simp: parseRIRsp_def parseRIUpd_def parseRD_def)

lemma safe_zone [simp]:
  "safe (parseSubcode p)" "safe (parseZIReqPacket h p)" "safe (parseZIRspPacket h p sc)"
  "safe (parseGDZLReqPacket h p)" "safe (parseGDZLRspPacket h p)"
  "safe (parseGZNReqPacket h p)" "safe (parseGZNRspPacket h p)"
  by (auto simp: parseSubcode_def parseZIReqPacket_def parseZIRspPacket_def
    parseGDZLReqPacket_def parseGDZLRspPacket_def parseGZNReqPacket_def parseGZNRspPacket_def
    Let_def intro!: safe_parseZIReq_loop)

lemma safe_ParsePacket_command [simp]: "safe (ParsePacket_command h p)"
  by (auto simp: ParsePacket_command_def ParsePacket_ZoneReq_def ParsePacket_ZoneRsp_def Let_def)

lemma safe_ParsePacket: "safe (ParsePacket p)"
  by (auto simp: ParsePacket_def Let_def)


section \<open>Wire layout of the packets\<close>

definition name_bytes :: "string \<Rightarrow> byte list" where
  "name_bytes s = of_nat (length s) # str_bytes s"

definition ext_zone_bytes :: "ZoneTuple \<Rightarrow> byte list" where
  "ext_zone_bytes zt = w16 (zt_Network zt) @ name_bytes (zt_Name zt)"

fun body_bytes :: "Packet \<Rightarrow> byte list" where
  "body_bytes (POpenReq p) = w16 (oreq_Version p) @ opts_bytes (oreq_Options p)"
| "body_bytes (POpenRsp p) = w16 (orsp_RateOrErrCode p) @ opts_bytes (orsp_Options p)"
| "body_bytes (PRIRsp p) = concat (map nt_bytes (rirsp_Networks p))"
| "body_bytes (PRIUpd p) = concat (map et_bytes (riupd_Events p))"
| "body_bytes (PRD p) = w16 (rd_ErrorCode p)"
| "body_bytes (PZIReq p) = w16 (zireq_Subcode p) @ concat (map w16 (zireq_Networks p))"
| "body_bytes (PZIRsp p) = w16 (zirsp_Subcode p) @
     (if zirsp_Subcode p = SubcodeZoneInfoExt
      then w16 (zirsp_TotalTuples p) @ concat (map ext_zone_bytes (zirsp_Zones p))
      else zts_bytes (zirsp_Zones p))"
| "body_bytes (PGDZLReq p) = w16 (gdzlreq_Subcode p) @ w16 (gdzlreq_StartIndex p)"
| "body_bytes (PGDZLRsp p) = w16 (gdzlrsp_Subcode p) @ w16 (gdzlrsp_StartIndex p) @
     concat (map name_bytes (gdzlrsp_ZoneNames p))"
| "body_bytes (PGZNReq p) = w16 (gznreq_Subcode p) @ name_bytes (gznreq_ZoneName p)"
| "body_bytes (PGZNRsp p) = w16 (gznrsp_Subcode p) @ [of_nat (length (gznrsp_ZoneName p))] @
     (if gznrsp_NotSupported p then [0xff, 0xff] else concat (map nt_bytes (gznrsp_Networks p)))"
| "body_bytes _ = []"

definition packet_bytes :: "Packet \<Rightarrow> byte list" where
  "packet_bytes pkt =
     (case pkt of
        PAppleTalk p \<Rightarrow> dh_bytes (at_DomainHeader p) @ at_Data p
      | _ \<Rightarrow> header_bytes (the (AURPHeader pkt)) @ body_bytes pkt)"

section \<open>Well-formed packets\<close>

definition ext_zones_ok :: "ZoneTuples \<Rightarrow> bool" where
  "ext_zones_ok zs \<longleftrightarrow>
     (\<forall>zt\<in>set zs. length (zt_Name zt) \<le> 127 \<and> zt_Network zt = zt_Network (hd zs))"

text \<open>
  A GZN-Rsp is well-formed only with an empty zone name, because the writer
  leaves the name out.
\<close>

fun body_ok :: "Packet \<Rightarrow> bool" where
  "body_ok (POpenReq p) \<longleftrightarrow> opts_ok (oreq_Options p)"
| "body_ok (POpenRsp p) \<longleftrightarrow> opts_ok (orsp_Options p)"
| "body_ok (PRIRsp p) \<longleftrightarrow> (\<forall>nt\<in>set (rirsp_Networks p). nt_ok nt)"
| "body_ok (PRIUpd p) \<longleftrightarrow> (\<forall>et\<in>set (riupd_Events p). et_ok et)"
| "body_ok (PZIReq p) \<longleftrightarrow> zireq_Subcode p = SubcodeZoneInfoReq"
| "body_ok (PZIRsp p) \<longleftrightarrow>
     (zirsp_Subcode p = SubcodeZoneInfoNonExt \<and> zirsp_TotalTuples p = 0 \<and> zts_ok (zirsp_Zones p)) \<or>
     (zirsp_Subcode p = SubcodeZoneInfoExt \<and> zirsp_TotalTuples p \<noteq> 0 \<and>
      ext_zones_ok (zirsp_Zones p))"
| "body_ok (PGDZLReq p) \<longleftrightarrow> gdzlreq_Subcode p = SubcodeGetDomainZoneList"
| "body_ok (PGDZLRsp p) \<longleftrightarrow>
     gdzlrsp_Subcode p = SubcodeGetDomainZoneList \<and>
     (\<forall>zn\<in>set (gdzlrsp_ZoneNames p). length zn \<le> 127) \<and>
     (gdzlrsp_StartIndex p = - 1 \<longrightarrow> gdzlrsp_ZoneNames p = [])"
| "body_ok (PGZNReq p) \<longleftrightarrow>
     gznreq_Subcode p = SubcodeGetZonesNet \<and> length (gznreq_ZoneName p) \<le> 127"
| "body_ok (PGZNRsp p) \<longleftrightarrow>
     gznrsp_Subcode p = SubcodeGetZonesNet \<and> gznrsp_ZoneName p = [] \<and>
     (if gznrsp_NotSupported p then gznrsp_Networks p = []
      else gznrsp_Networks p \<noteq> [] \<and> nt_RangeStart (hd (gznrsp_Networks p)) \<noteq> 0xffff \<and>
        (\<forall>nt\<in>set (gznrsp_Networks p). nt_ok nt))"
| "body_ok _ \<longleftrightarrow> True"

fun command_of :: "Packet \<Rightarrow> u16" where
  "command_of (POpenReq p) = CmdCodeOpenReq"
| "command_of (POpenRsp p) = CmdCodeOpenRsp"
| "command_of (PRIReq p) = CmdCodeRIReq"
| "command_of (PRIRsp p) = CmdCodeRIRsp"
| "command_of (PRIAck p) = CmdCodeRIAck"
| "command_of (PRIUpd p) = CmdCodeRIUpd"
| "command_of (PRD p) = CmdCodeRD"
| "command_of (PZIReq p) = CmdCodeZoneReq"
| "command_of (PGDZLReq p) = CmdCodeZoneReq"
| "command_of (PGZNReq p) = CmdCodeZoneReq"
| "command_of (PZIRsp p) = CmdCodeZoneRsp"
| "command_of (PGDZLRsp p) = CmdCodeZoneRsp"
| "command_of (PGZNRsp p) = CmdCodeZoneRsp"
| "command_of (PTickle p) = CmdCodeTickle"
| "command_of (PTickleAck p) = CmdCodeTickleAck"
| "command_of (PAppleTalk p) = 0"

definition packet_ok :: "Packet \<Rightarrow> bool" where
  "packet_ok pkt \<longleftrightarrow>
     dh_ok (GetDomainHeader pkt) \<and> DHVersion (GetDomainHeader pkt) = 1 \<and>
     (case AURPHeader pkt of
        None \<Rightarrow> PacketType (GetDomainHeader pkt) = PacketTypeAppleTalk
      | Some h \<Rightarrow> PacketType (GetDomainHeader pkt) = PacketTypeRouting \<and>
          CommandCode h = command_of pkt \<and> body_ok pkt)"


section \<open>Writing produces the layout\<close>

lemma fold_write16: "fold write16 ns (wrote w b) = wrote w (b @ concat (map w16 ns))"
  by (induction ns arbitrary: b) simp_all

lemma fold_names:
  "fold (\<lambda>zn a. acc_write (str_bytes zn) (write8 (of_nat (length zn)) a)) ns (wrote w b) =
   wrote w (b @ concat (map name_bytes ns))"
  by (induction ns arbitrary: b) (simp_all add: name_bytes_def)

lemma ext_loop_wrote:
  "\<forall>zt\<in>set zs. length (zt_Name zt) \<le> 127 \<Longrightarrow>
   ZIRspPacket_ext_loop zs (wrote w b) = ret (wrote w (b @ concat (map ext_zone_bytes zs)))"
  by (induction zs arbitrary: b) (simp_all add: ext_zone_bytes_def name_bytes_def del: ret_wrote)

lemmas packet_writers =
  AppleTalkPacket_WriteTo_def OpenReqPacket_WriteTo_def OpenRspPacket_WriteTo_def
  RIRspPacket_WriteTo_def RIUpdPacket_WriteTo_def RDPacket_WriteTo_def ZIReqPacket_WriteTo_def
  GDZLReqPacket_WriteTo_def GZNReqPacket_WriteTo_def

lemmas nested_writers =
  writeTo_wrote [OF header_emits] writeTo_wrote [OF dh_emits] writeTo_wrote [OF opts_emits]
  writeTo_wrote [OF nts_emits] writeTo_wrote [OF ets_emits] writeTo_wrote [OF zts_emits]

lemma header_ok_GetDomainHeader:
  "AURPHeader pkt = Some h \<Longrightarrow> header_ok h \<longleftrightarrow> dh_ok (GetDomainHeader pkt)"
  by (cases pkt) (simp_all add: header_ok_def GetDomainHeader_def)

lemma find_long_name:
  "\<forall>zn\<in>set ns. length zn \<le> 127 \<Longrightarrow> find (\<lambda>zn. length zn > 127) ns = None"
  by (auto simp: find_None_iff)

lemma packet_emits:
  assumes "packet_ok pkt"
  shows "emits (Packet_WriteTo pkt) (packet_bytes pkt)"
proof -
  have ok: "AURPHeader pkt = Some h \<Longrightarrow> header_ok h \<and> body_ok pkt" for h
    using assms by (auto simp: packet_ok_def header_ok_GetDomainHeader)
  show ?thesis
  proof (cases pkt)
    case (PZIRsp p)
    with ok show ?thesis
      by (intro emitsI)
        (auto simp: ZIRspPacket_WriteTo_def packet_bytes_def acc_wrote nested_writers
          ext_loop_wrote ext_zones_ok_def)
  next
    case (PGDZLRsp p)
    with ok show ?thesis
      by (intro emitsI)
        (auto simp: GDZLRspPacket_WriteTo_def packet_bytes_def acc_wrote nested_writers
          fold_names find_long_name Let_def)
  next
    case (PGZNRsp p)
    with ok show ?thesis
      by (intro emitsI)
        (auto simp: GZNRspPacket_WriteTo_def packet_bytes_def acc_wrote nested_writers w16_def
          byte_hi_def byte_lo_def Let_def)
  next
    case (PAppleTalk p)
    with assms show ?thesis
      by (intro emitsI)
        (simp add: packet_writers packet_bytes_def packet_ok_def GetDomainHeader_def acc_wrote
          nested_writers)
  qed (use ok in \<open>auto intro!: emitsI header_emits simp: packet_writers packet_bytes_def
         acc_wrote nested_writers fold_write16 name_bytes_def header_emits\<close>)
qed



section \<open>Parsing inverts writing\<close>

lemma parse_name_step:
  "length n \<le> 127 \<Longrightarrow>
   parseGDZLRsp_loop ys (name_bytes n @ r) = parseGDZLRsp_loop (ys @ [n]) r"
  by (subst parseGDZLRsp_loop.simps) (simp add: name_bytes_def)

lemma parse_names_loop:
  "\<forall>zn\<in>set ns. length zn \<le> 127 \<Longrightarrow>
   parseGDZLRsp_loop ys (concat (map name_bytes ns)) = Inr (ys @ ns)"
  by (induction ns arbitrary: ys)
    (auto simp: parse_name_step parseGDZLRsp_loop.simps [where ?p0.0 = "[]"])

lemma parse_ext_step:
  assumes "length (zt_Name zt) \<le> 127" "ys = [] \<or> net0 = zt_Network zt"
  shows "parseZIRsp_ext_loop ys net0 (ext_zone_bytes zt @ r) =
    parseZIRsp_ext_loop (ys @ [zt]) (zt_Network zt) r"
proof -
  have "unat (of_nat (length (zt_Name zt)) :: byte) = length (zt_Name zt)"
    using assms(1) by simp
  then show ?thesis
    using assms
    by (subst parseZIRsp_ext_loop.simps)
      (auto simp: ext_zone_bytes_def name_bytes_def w16_def byte_bit7_clear)
qed

lemma parse_ext_loop:
  assumes "\<forall>zt\<in>set zs. length (zt_Name zt) \<le> 127 \<and> zt_Network zt = n"
    and "ys = [] \<or> net0 = n"
  shows "parseZIRsp_ext_loop ys net0 (concat (map ext_zone_bytes zs)) = Inr (ys @ zs)"
  using assms
  by (induction zs arbitrary: ys net0)
    (auto simp: parse_ext_step parseZIRsp_ext_loop.simps [where ?p0.0 = "[]"])

lemma parse_zireq_loop:
  "length q = 2 * i \<Longrightarrow> parseZIReq_loop (length ns) i (q @ concat (map w16 ns)) = Inr ns"
proof (induction ns arbitrary: i q)
  case (Cons n ns)
  then have "parseZIReq_loop (length ns) (Suc i) ((q @ w16 n) @ concat (map w16 ns)) = Inr ns"
    by (intro Cons.IH) simp
  with Cons.prems show ?case
    by simp
qed simp

lemma length_concat_w16: "length (concat (map w16 ns)) = 2 * length ns"
  by (induction ns) simp_all

lemma parse_subcode [simp]: "parseSubcode (w16 c @ r) = Inr (c, r)"
  by (simp add: parseSubcode_def w16_def)

lemma nts_not_ffff:
  assumes "n \<noteq> []" "nt_RangeStart (hd n) \<noteq> 0xffff"
  shows "\<exists>a b r. concat (map nt_bytes n) = a # b # r \<and> \<not> (a = 0xff \<and> b = 0xff)"
proof -
  let ?s = "nt_RangeStart (hd n)"
  obtain r where "concat (map nt_bytes n) = byte_hi ?s # byte_lo ?s # r"
    using assms(1) by (cases n; cases "nt_Extended (hd n)") (auto simp: nt_bytes_def w16_def)
  moreover have "be16 0xff 0xff = (0xffff :: u16)"
    by (simp add: be16_def)
  then have "\<not> (byte_hi ?s = 0xff \<and> byte_lo ?s = 0xff)"
    using assms(2) by (metis be16_bytes)
  ultimately show ?thesis by blast
qed

lemma parse_body:
  assumes "AURPHeader pkt = Some h" "CommandCode h = command_of pkt" "body_ok pkt"
  shows "ParsePacket_command h (body_bytes pkt) = Inr pkt"
proof (cases pkt)
  case (PGZNRsp p)
  show ?thesis
  proof (cases "gznrsp_NotSupported p")
    case False
    with PGZNRsp assms obtain a b r where
      "concat (map nt_bytes (gznrsp_Networks p)) = a # b # r" "\<not> (a = 0xff \<and> b = 0xff)"
      using nts_not_ffff [of "gznrsp_Networks p"] by auto
    with PGZNRsp False assms parse_nts [of "gznrsp_Networks p"] show ?thesis
      by (auto simp: ParsePacket_command_def ParsePacket_ZoneRsp_def parseGZNRspPacket_def Let_def
        bytes_str_def)
  qed (use PGZNRsp assms in \<open>auto simp: ParsePacket_command_def ParsePacket_ZoneRsp_def
         parseGZNRspPacket_def Let_def bytes_str_def\<close>)
next
  case (PZIReq p)
  with assms parse_zireq_loop [of "[]" 0 "zireq_Networks p"] show ?thesis
    by (auto simp: ParsePacket_command_def ParsePacket_ZoneReq_def parseZIReqPacket_def
      length_concat_w16)
next
  case (PZIRsp p)
  with assms parse_ext_loop [of "zirsp_Zones p" "zt_Network (hd (zirsp_Zones p))" "[]" 0]
  show ?thesis
    by (auto simp: ParsePacket_command_def ParsePacket_ZoneRsp_def parseZIRspPacket_def
      parse_zts ext_zones_ok_def)
next
  case (PGDZLRsp p)
  with assms show ?thesis
    by (auto simp: ParsePacket_command_def ParsePacket_ZoneRsp_def parseGDZLRspPacket_def
      parse_names_loop Let_def)
next
  case (PRIRsp p)
  with assms show ?thesis
    by (simp add: ParsePacket_command_def parseRIRsp_def parse_nts)
next
  case (PRIUpd p)
  with assms show ?thesis
    by (simp add: ParsePacket_command_def parseRIUpd_def parse_ets)
qed (use assms in \<open>auto simp: ParsePacket_command_def ParsePacket_ZoneReq_def parseOpenReq_def
       parseOpenRsp_def parseRD_def parseGDZLReqPacket_def parseGZNReqPacket_def
       parse_opts name_bytes_def\<close>)

lemma Header_eta [simp]:
  "\<lparr>HTrHeader = HTrHeader h, CommandCode = CommandCode h, Flags = Flags h\<rparr> = h"
  "\<lparr>TrDomainHeader = TrDomainHeader th, ConnectionID = ConnectionID th, Sequence = Sequence th\<rparr> = th"
  by simp_all

lemma ParsePacket_header:
  assumes "dh_ok (TrDomainHeader (HTrHeader h))" "DHVersion (TrDomainHeader (HTrHeader h)) = 1"
    and "PacketType (TrDomainHeader (HTrHeader h)) = PacketTypeRouting"
  shows "ParsePacket (header_bytes h @ b) =
    go_bind (ParsePacket_command h b) (\<lambda>pkt. Inr (TrDomainHeader (HTrHeader h), pkt))"
  using assms by (simp add: ParsePacket_def header_bytes_def tr_bytes_def parse_dh)

lemma parse_packet:
  assumes "packet_ok pkt"
  shows "ParsePacket (packet_bytes pkt) = Inr (GetDomainHeader pkt, pkt)"
proof (cases "AURPHeader pkt")
  case None
  with assms show ?thesis
    by (cases pkt) (simp_all add: ParsePacket_def packet_bytes_def packet_ok_def
      GetDomainHeader_def parse_dh)
next
  case (Some h)
  then have bytes: "packet_bytes pkt = header_bytes h @ body_bytes pkt"
    and dh: "GetDomainHeader pkt = TrDomainHeader (HTrHeader h)"
    by (cases pkt; simp add: packet_bytes_def GetDomainHeader_def)+
  have "ParsePacket_command h (body_bytes pkt) = Inr pkt"
    using assms Some by (intro parse_body) (auto simp: packet_ok_def)
  with assms Some dh show ?thesis
    unfolding bytes by (subst ParsePacket_header) (auto simp: packet_ok_def)
qed

end
