(* ===== verification/Transport.thy ===== *)
theory Transport
  imports AurpParse
begin

text \<open>
  The AURP-Tr transport of a pair of one-way connections
  (\<open>src/aurp/transport.go\<close>): domain identifiers, connection identifiers, sequence
  numbers and the constructors of outgoing packets.  The lemmas show that every
  constructed packet is well-formed, and that sequence numbers and connection
  identifiers never become the reserved value 0.
\<close>

record Transport =
  tr_localDI :: DomainIdentifier
  tr_remoteDI :: DomainIdentifier
  tr_localConnID :: u16
  tr_remoteConnID :: u16
  tr_localSeq :: u16
  tr_remoteSeq :: u16

definition NewTransport :: "DomainIdentifier \<Rightarrow> DomainIdentifier \<Rightarrow> u16 \<Rightarrow> u16 \<Rightarrow> Transport" where
  "NewTransport localDI remoteDI localConnID remoteConnID =
     \<lparr>tr_localDI = localDI, tr_remoteDI = remoteDI, tr_localConnID = localConnID,
      tr_remoteConnID = remoteConnID, tr_localSeq = 1, tr_remoteSeq = 1\<rparr>"

definition SetRemoteDI :: "DomainIdentifier \<Rightarrow> Transport \<Rightarrow> Transport" where
  "SetRemoteDI di tr = tr\<lparr>tr_remoteDI := di\<rparr>"

definition SetRemoteConnID :: "u16 \<Rightarrow> Transport \<Rightarrow> Transport" where
  "SetRemoteConnID i tr = tr\<lparr>tr_remoteConnID := i\<rparr>"

definition ResetLocalSeq :: "Transport \<Rightarrow> Transport" where
  "ResetLocalSeq tr = tr\<lparr>tr_localSeq := 1\<rparr>"

definition ResetRemoteSeq :: "Transport \<Rightarrow> Transport" where
  "ResetRemoteSeq tr = tr\<lparr>tr_remoteSeq := 1\<rparr>"

definition IncLocalConnID :: "Transport \<Rightarrow> Transport" where
  "IncLocalConnID tr = tr\<lparr>tr_localConnID := Succ (tr_localConnID tr)\<rparr>"

definition IncLocalSeq :: "Transport \<Rightarrow> Transport" where
  "IncLocalSeq tr = tr\<lparr>tr_localSeq := Succ (tr_localSeq tr)\<rparr>"

definition IncRemoteSeq :: "Transport \<Rightarrow> Transport" where
  "IncRemoteSeq tr = tr\<lparr>tr_remoteSeq := Succ (tr_remoteSeq tr)\<rparr>"

definition tr_domainHeader :: "Transport \<Rightarrow> u16 \<Rightarrow> DomainHeader" where
  "tr_domainHeader tr pt =
     \<lparr>DestinationDI = tr_remoteDI tr, SourceDI = tr_localDI tr, DHVersion = 1, Reserved = 0,
      PacketType = pt\<rparr>"

definition tr_transaction :: "Transport \<Rightarrow> u16 \<Rightarrow> TrHeader" where
  "tr_transaction tr connID =
     \<lparr>TrDomainHeader = tr_domainHeader tr PacketTypeRouting, ConnectionID = connID, Sequence = 0\<rparr>"

definition tr_sequenced :: "Transport \<Rightarrow> u16 \<Rightarrow> u16 \<Rightarrow> TrHeader" where
  "tr_sequenced tr connID s =
     \<lparr>TrDomainHeader = tr_domainHeader tr PacketTypeRouting, ConnectionID = connID, Sequence = s\<rparr>"


section \<open>Constructors of outgoing packets\<close>

definition NewAppleTalkPacket :: "Transport \<Rightarrow> byte list \<Rightarrow> AppleTalkPacket" where
  "NewAppleTalkPacket tr data =
     \<lparr>at_DomainHeader = tr_domainHeader tr PacketTypeAppleTalk, at_Data = data\<rparr>"

definition NewOpenReqPacket :: "Transport \<Rightarrow> Options \<Rightarrow> OpenReqPacket" where
  "NewOpenReqPacket tr opts =
     \<lparr>oreq_Header = \<lparr>HTrHeader = tr_transaction tr (tr_localConnID tr),
                     CommandCode = CmdCodeOpenReq, Flags = RoutingFlagAllSUI\<rparr>,
      oreq_Version = 1, oreq_Options = opts\<rparr>"

definition NewOpenRspPacket :: "Transport \<Rightarrow> u16 \<Rightarrow> u16 \<Rightarrow> Options \<Rightarrow> OpenRspPacket" where
  "NewOpenRspPacket tr envFlags rateOrErr opts =
     \<lparr>orsp_Header = \<lparr>HTrHeader = tr_transaction tr (tr_remoteConnID tr),
                     CommandCode = CmdCodeOpenRsp, Flags = envFlags\<rparr>,
      orsp_RateOrErrCode = rateOrErr, orsp_Options = opts\<rparr>"

definition NewRIReqPacket :: "Transport \<Rightarrow> RIReqPacket" where
  "NewRIReqPacket tr =
     \<lparr>rireq_Header = \<lparr>HTrHeader = tr_transaction tr (tr_localConnID tr),
                      CommandCode = CmdCodeRIReq, Flags = RoutingFlagAllSUI\<rparr>\<rparr>"

definition NewRIRspPacket :: "Transport \<Rightarrow> u16 \<Rightarrow> NetworkTuples \<Rightarrow> RIRspPacket" where
  "NewRIRspPacket tr last_flag nets =
     \<lparr>rirsp_Header = \<lparr>HTrHeader = tr_sequenced tr (tr_remoteConnID tr) (tr_localSeq tr),
                      CommandCode = CmdCodeRIRsp, Flags = last_flag\<rparr>,
      rirsp_Networks = nets\<rparr>"

definition NewRIAckPacket :: "Transport \<Rightarrow> u16 \<Rightarrow> u16 \<Rightarrow> u16 \<Rightarrow> RIAckPacket" where
  "NewRIAckPacket tr connID s szi =
     \<lparr>riack_Header = \<lparr>HTrHeader = tr_sequenced tr connID s,
                      CommandCode = CmdCodeRIAck, Flags = szi\<rparr>\<rparr>"

definition NewRIUpdPacket :: "Transport \<Rightarrow> EventTuples \<Rightarrow> RIUpdPacket" where
  "NewRIUpdPacket tr events =
     \<lparr>riupd_Header = \<lparr>HTrHeader = tr_sequenced tr (tr_remoteConnID tr) (tr_localSeq tr),
                      CommandCode = CmdCodeRIUpd, Flags = 0\<rparr>,
      riupd_Events = events\<rparr>"

definition NewZIReqPacket :: "Transport \<Rightarrow> network list \<Rightarrow> ZIReqPacket" where
  "NewZIReqPacket tr networks =
     \<lparr>zireq_Header = \<lparr>HTrHeader = tr_transaction tr (tr_localConnID tr),
                      CommandCode = CmdCodeZoneReq, Flags = 0\<rparr>,
      zireq_Subcode = SubcodeZoneInfoReq, zireq_Networks = networks\<rparr>"

text \<open>The map of zone lists is an association list in the order of iteration.\<close>

definition NewZIRspPacket :: "Transport \<Rightarrow> (network \<times> string list) list \<Rightarrow> ZIRspPacket" where
  "NewZIRspPacket tr zoneLists =
     \<lparr>zirsp_Header = \<lparr>HTrHeader = tr_transaction tr (tr_remoteConnID tr),
                      CommandCode = CmdCodeZoneRsp, Flags = 0\<rparr>,
      zirsp_Subcode = SubcodeZoneInfoNonExt, zirsp_TotalTuples = 0,
      zirsp_Zones = concat (map (\<lambda>(nn, zl). map (\<lambda>z. \<lparr>zt_Network = nn, zt_Name = z\<rparr>) zl) zoneLists)\<rparr>"

definition NewExtendedZIRspPacket :: "Transport \<Rightarrow> u16 \<Rightarrow> ZoneTuples \<Rightarrow> ZIRspPacket" where
  "NewExtendedZIRspPacket tr totalTuples zones =
     \<lparr>zirsp_Header = \<lparr>HTrHeader = tr_transaction tr (tr_remoteConnID tr),
                      CommandCode = CmdCodeZoneRsp, Flags = 0\<rparr>,
      zirsp_Subcode = SubcodeZoneInfoExt, zirsp_TotalTuples = totalTuples, zirsp_Zones = zones\<rparr>"

definition NewGDZLReqPacket :: "Transport \<Rightarrow> u16 \<Rightarrow> GDZLReqPacket" where
  "NewGDZLReqPacket tr startIdx =
     \<lparr>gdzlreq_Header = \<lparr>HTrHeader = tr_transaction tr (tr_localConnID tr),
                        CommandCode = CmdCodeZoneReq, Flags = 0\<rparr>,
      gdzlreq_Subcode = SubcodeGetDomainZoneList, gdzlreq_StartIndex = startIdx\<rparr>"

definition NewGDZLRspPacket :: "Transport \<Rightarrow> u16 \<Rightarrow> string list \<Rightarrow> GDZLRspPacket" where
  "NewGDZLRspPacket tr startIdx zoneNames =
     \<lparr>gdzlrsp_Header = \<lparr>HTrHeader = tr_transaction tr (tr_remoteConnID tr),
                        CommandCode = CmdCodeZoneRsp, Flags = 0\<rparr>,
      gdzlrsp_Subcode = SubcodeGetDomainZoneList, gdzlrsp_StartIndex = startIdx,
      gdzlrsp_ZoneNames = zoneNames\<rparr>"

definition NewGZNReqPacket :: "Transport \<Rightarrow> string \<Rightarrow> GZNReqPacket" where
  "NewGZNReqPacket tr zoneName =
     \<lparr>gznreq_Header = \<lparr>HTrHeader = tr_transaction tr (tr_localConnID tr),
                       CommandCode = CmdCodeZoneReq, Flags = 0\<rparr>,
      gznreq_Subcode = SubcodeGetZonesNet, gznreq_ZoneName = zoneName\<rparr>"

definition NewGZNRspPacket :: "Transport \<Rightarrow> string \<Rightarrow> bool \<Rightarrow> NetworkTuples \<Rightarrow> GZNRspPacket" where
  "NewGZNRspPacket tr zoneName notSupported nets =
     \<lparr>gznrsp_Header = \<lparr>HTrHeader = tr_transaction tr (tr_remoteConnID tr),
                       CommandCode = CmdCodeZoneRsp, Flags = 0\<rparr>,
      gznrsp_Subcode = SubcodeGetZonesNet, gznrsp_ZoneName = zoneName,
      gznrsp_NotSupported = notSupported, gznrsp_Networks = nets\<rparr>"

definition NewRDPacket :: "Transport \<Rightarrow> u16 \<Rightarrow> RDPacket" where
  "NewRDPacket tr errCode =
     \<lparr>rd_Header = \<lparr>HTrHeader = tr_transaction tr (tr_localConnID tr),
                   CommandCode = CmdCodeRD, Flags = 0\<rparr>,
      rd_ErrorCode = errCode\<rparr>"

definition NewSenderRDPacket :: "Transport \<Rightarrow> u16 \<Rightarrow> RDPacket" where
  "NewSenderRDPacket tr errCode =
     \<lparr>rd_Header = \<lparr>HTrHeader = tr_sequenced tr (tr_remoteConnID tr) (tr_localSeq tr),
                   CommandCode = CmdCodeRD, Flags = 0\<rparr>,
      rd_ErrorCode = errCode\<rparr>"

definition NewTicklePacket :: "Transport \<Rightarrow> TicklePacket" where
  "NewTicklePacket tr =
     \<lparr>tickle_Header = \<lparr>HTrHeader = tr_transaction tr (tr_localConnID tr),
                       CommandCode = CmdCodeTickle, Flags = 0\<rparr>\<rparr>"

definition NewTickleAckPacket :: "Transport \<Rightarrow> TickleAckPacket" where
  "NewTickleAckPacket tr =
     \<lparr>tickleack_Header = \<lparr>HTrHeader = tr_transaction tr (tr_remoteConnID tr),
                          CommandCode = CmdCodeTickleAck, Flags = 0\<rparr>\<rparr>"


section \<open>Sequence arithmetic\<close>

lemma Succ_neq_0: "Succ n \<noteq> 0"
  by (simp add: Succ_def Let_def)

lemma u16_minus_1: "(n :: u16) + 1 = 0 \<longleftrightarrow> n = - 1"
  by (simp add: eq_neg_iff_add_eq_0)

lemma Pred_Succ: "n \<noteq> 0 \<Longrightarrow> Pred (Succ n) = n"
  by (auto simp: Succ_def Pred_def Let_def u16_minus_1)

lemma Succ_Pred: "n \<noteq> 0 \<Longrightarrow> Succ (Pred n) = n"
  by (auto simp: Succ_def Pred_def Let_def)

lemma Succ_inj: "m \<noteq> 0 \<Longrightarrow> n \<noteq> 0 \<Longrightarrow> Succ m = Succ n \<longleftrightarrow> m = n"
  using Pred_Succ by metis

text \<open>Successive numbers run through all 65535 non-zero values before they repeat.\<close>

lemma Succ_pow: "(Succ ^^ k) 1 = of_nat (k mod 65535 + 1)"
proof (induction k)
  case (Suc k)
  let ?m = "k mod 65535"
  have m: "?m < 65535" by simp
  show ?case
  proof (cases "?m = 65534")
    case True
    then have "Suc k mod 65535 = 0" by (simp add: mod_Suc)
    with True Suc show ?thesis by (simp add: Succ_def Let_def)
  next
    case False
    then have s: "Suc k mod 65535 = Suc ?m" by (simp add: mod_Suc)
    have "unat (of_nat (?m + 2) :: u16) = ?m + 2"
      using False m by (subst unat_of_nat) simp
    then have "(of_nat (?m + 2) :: u16) \<noteq> 0"
      by (intro notI) (simp only: unat_0)
    moreover have "(of_nat (?m + 2) :: u16) = of_nat (?m + 1) + 1"
      by simp
    ultimately have "(of_nat (?m + 1) + 1 :: u16) \<noteq> 0"
      by (simp only: not_False_eq_True)
    then show ?thesis
      using Suc s by (simp add: Succ_def Let_def add.commute)
  qed
qed simp


section \<open>The transport invariant\<close>

definition transport_ok :: "Transport \<Rightarrow> bool" where
  "transport_ok tr \<longleftrightarrow>
     di_ok (tr_localDI tr) \<and> di_ok (tr_remoteDI tr) \<and> tr_localConnID tr \<noteq> 0 \<and>
     tr_localSeq tr \<noteq> 0 \<and> tr_remoteSeq tr \<noteq> 0"

lemma transport_ok_init:
  "di_ok l \<Longrightarrow> di_ok r \<Longrightarrow> c \<noteq> 0 \<Longrightarrow> transport_ok (NewTransport l r c rc)"
  by (simp add: transport_ok_def NewTransport_def)

lemma transport_ok_step:
  assumes "transport_ok tr"
  shows "transport_ok (IncLocalConnID tr)" "transport_ok (IncLocalSeq tr)"
    "transport_ok (IncRemoteSeq tr)" "transport_ok (ResetLocalSeq tr)"
    "transport_ok (ResetRemoteSeq tr)" "transport_ok (SetRemoteConnID i tr)"
    "di_ok d \<Longrightarrow> transport_ok (SetRemoteDI d tr)"
  using assms
  by (simp_all add: transport_ok_def IncLocalConnID_def IncLocalSeq_def IncRemoteSeq_def
    ResetLocalSeq_def ResetRemoteSeq_def SetRemoteConnID_def SetRemoteDI_def Succ_neq_0)



section \<open>Constructed packets are well-formed\<close>

lemmas new_packet_defs =
  NewAppleTalkPacket_def NewOpenReqPacket_def NewOpenRspPacket_def NewRIReqPacket_def
  NewRIRspPacket_def NewRIAckPacket_def NewRIUpdPacket_def NewZIReqPacket_def
  NewExtendedZIRspPacket_def NewZIRspPacket_def NewGDZLReqPacket_def NewGDZLRspPacket_def
  NewGZNReqPacket_def NewRDPacket_def NewSenderRDPacket_def NewTicklePacket_def
  NewTickleAckPacket_def tr_transaction_def tr_sequenced_def tr_domainHeader_def

text \<open>The packets a transport sends, with well-formed payloads.\<close>

inductive sends :: "Transport \<Rightarrow> Packet \<Rightarrow> bool" for tr where
  "sends tr (PAppleTalk (NewAppleTalkPacket tr data))"
| "opts_ok opts \<Longrightarrow> sends tr (POpenReq (NewOpenReqPacket tr opts))"
| "opts_ok opts \<Longrightarrow> sends tr (POpenRsp (NewOpenRspPacket tr flags rate opts))"
| "sends tr (PRIReq (NewRIReqPacket tr))"
| "\<forall>nt\<in>set nets. nt_ok nt \<Longrightarrow> sends tr (PRIRsp (NewRIRspPacket tr l nets))"
| "sends tr (PRIAck (NewRIAckPacket tr c s szi))"
| "\<forall>et\<in>set evs. et_ok et \<Longrightarrow> sends tr (PRIUpd (NewRIUpdPacket tr evs))"
| "sends tr (PZIReq (NewZIReqPacket tr ns))"
| "zts_ok (zirsp_Zones (NewZIRspPacket tr zl)) \<Longrightarrow> sends tr (PZIRsp (NewZIRspPacket tr zl))"
| "k \<noteq> 0 \<Longrightarrow> ext_zones_ok zs \<Longrightarrow> sends tr (PZIRsp (NewExtendedZIRspPacket tr k zs))"
| "sends tr (PGDZLReq (NewGDZLReqPacket tr i))"
| "sends tr (PGDZLRsp (NewGDZLRspPacket tr (- 1) []))"
| "length z \<le> 127 \<Longrightarrow> sends tr (PGZNReq (NewGZNReqPacket tr z))"
| "sends tr (PRD (NewRDPacket tr code))"
| "sends tr (PRD (NewSenderRDPacket tr code))"
| "sends tr (PTickle (NewTicklePacket tr))"
| "sends tr (PTickleAck (NewTickleAckPacket tr))"

lemma sends_ok: "sends tr pkt \<Longrightarrow> transport_ok tr \<Longrightarrow> packet_ok pkt"
  by (induction rule: sends.induct)
    (auto simp: packet_ok_def GetDomainHeader_def dh_ok_def transport_ok_def new_packet_defs)

text \<open>
  C30: Parsing a received datagram never panics, whatever its bytes: no slice or
  index expression of \<open>ParsePacket\<close> or of the parsers it calls is out of range.
\<close>

theorem ParsePacket_never_panics: "ParsePacket p \<noteq> Inl Panic"
  using safe_ParsePacket [of p] by (simp add: safe_def)



text \<open>
  The zone compression of a non-extended ZI-Rsp is lossless: the tuples
  written with back-references to earlier names parse to the same tuples, as
  long as names have at most 127 bytes and the encoding at most 32768.
\<close>

theorem zone_tuples_roundtrip:
  assumes "zts_ok zs"
  shows "\<exists>b. encode (ZoneTuples_WriteTo zs) = Inr b \<and> parseZoneTuples b = Inr zs"
  using encode_emits [OF zts_emits [OF assms]] parse_zts [OF assms] by blast

theorem zone_tuples_roundtrip_witness:
  "\<exists>b. encode (ZoneTuples_WriteTo
        [\<lparr>zt_Network = 1, zt_Name = ''Lab''\<rparr>, \<lparr>zt_Network = 2, zt_Name = ''Lab''\<rparr>]) = Inr b \<and>
      parseZoneTuples b =
        Inr [\<lparr>zt_Network = 1, zt_Name = ''Lab''\<rparr>, \<lparr>zt_Network = 2, zt_Name = ''Lab''\<rparr>]"
  by (rule zone_tuples_roundtrip) (simp add: zts_ok_def zts_bytes_def)

text \<open>
  Sequence numbers never take the reserved value 0 and repeat only after
  65535 packets.
\<close>

theorem sequence_numbers_cycle:
  "(Succ ^^ i) 1 \<noteq> 0 \<and> ((Succ ^^ i) 1 = (Succ ^^ j) 1 \<longleftrightarrow> i mod 65535 = j mod 65535)"
proof -
  have "unat ((Succ ^^ k) 1) = k mod 65535 + 1" for k
  proof -
    have "k mod 65535 < 65535" by simp
    then show ?thesis unfolding Succ_pow by (subst unat_of_nat) simp
  qed
  then show ?thesis
    by (simp add: word_unat_eq_iff)
qed

text \<open>
  A ``not supported'' GZN-Rsp with a non-empty zone name is never accepted by
  the receiver: \<open>WriteTo\<close> writes the length of the name but not the name, and the
  parser takes the bytes after the length for the name.
\<close>

theorem gzn_rsp_with_name_rejected:
  assumes "header_ok h" "0 < length name" "length name \<le> 127"
    and "p = \<lparr>gznrsp_Header = h, gznrsp_Subcode = SubcodeGetZonesNet, gznrsp_ZoneName = name,
              gznrsp_NotSupported = True, gznrsp_Networks = []\<rparr>"
  shows "\<exists>b e. encode (GZNRspPacket_WriteTo p) = Inr (header_bytes h @ w16 SubcodeGetZonesNet @ b) \<and>
    parseGZNRspPacket h b = Inl (Err e)"
proof -
  let ?b = "[of_nat (length name), byte_hi 0xffff, byte_lo 0xffff] :: byte list"
  have "emits (GZNRspPacket_WriteTo p) (header_bytes h @ w16 SubcodeGetZonesNet @ ?b)"
    using assms
    by (intro emitsI) (simp add: GZNRspPacket_WriteTo_def acc_wrote nested_writers Let_def w16_def)
  moreover have "\<exists>e. parseGZNRspPacket h ?b = Inl (Err e)"
    using assms(2,3) by (cases name) (auto simp: parseGZNRspPacket_def go_err_def not_less)
  ultimately show ?thesis
    using encode_emits by blast
qed


theorem gzn_rsp_with_name_rejected_witness:
  "\<exists>b e. encode (GZNRspPacket_WriteTo
      (NewGZNRspPacket (NewTransport NullDomainIdentifier NullDomainIdentifier 7 9) ''Lab'' True [])) =
      Inr (header_bytes (gznrsp_Header (NewGZNRspPacket
        (NewTransport NullDomainIdentifier NullDomainIdentifier 7 9) ''Lab'' True [])) @
        w16 SubcodeGetZonesNet @ b) \<and>
    parseGZNRspPacket (gznrsp_Header (NewGZNRspPacket
        (NewTransport NullDomainIdentifier NullDomainIdentifier 7 9) ''Lab'' True [])) b = Inl (Err e)"
  by (rule gzn_rsp_with_name_rejected [of _ "''Lab''"])
    (simp_all add: NewGZNRspPacket_def NewTransport_def tr_transaction_def tr_domainHeader_def
      header_ok_def dh_ok_def)

end
