(* ===== verification/Routes.thy ===== *)
theory Routes
  imports Prelude
begin

text \<open>
  Routes and their preference order (\<open>src/router/route.go\<close> and the first part of
  \<open>src/router/route_table.go\<close>).  A route refers to the network entry of the start
  of its range and to its traffic counters by pointer; here these are the
  network number and the address of the counters in the table's store.
\<close>

section \<open>Targets, origins and routes\<close>

datatype TargetClass =
    TargetClassDirect
  | TargetClassAURPPeer
  | TargetClassAppleTalkPeer

datatype RouteOriginKind =
    RouteOriginDirect
  | RouteOriginAppleTalk
  | RouteOriginAURP

record RouteOrigin =
  ro_Kind :: RouteOriginKind
  ro_ID :: string

text \<open>
  A \<open>RouteTarget\<close> is what the route table sees of a port or peer.
  \<open>tg_TunnelID\<close> is present when the target also implements \<open>aurpTunnelIdentity\<close>.
\<close>

record RouteTarget =
  tg_Class :: TargetClass
  tg_RouteTargetKey :: string
  tg_TunnelID :: "string option"

record RouteKey =
  rk_TargetKey :: string
  rk_NetStart :: network

record Route =
  r_RouteKey :: RouteKey
  r_Extended :: bool
  r_NetEnd :: network
  r_Target :: "RouteTarget option"
  r_Origin :: RouteOrigin
  r_Distance :: byte
  r_LastSeen :: time
  r_network :: "network option"
  r_traffic :: "nat option"

abbreviation r_TargetKey :: "Route \<Rightarrow> string" where
  "r_TargetKey r \<equiv> rk_TargetKey (r_RouteKey r)"

abbreviation r_NetStart :: "Route \<Rightarrow> network" where
  "r_NetStart r \<equiv> rk_NetStart (r_RouteKey r)"

definition zero_Origin :: RouteOrigin where
  "zero_Origin = \<lparr>ro_Kind = RouteOriginDirect, ro_ID = []\<rparr>"

definition zero_Route :: Route where
  "zero_Route =
     \<lparr>r_RouteKey = \<lparr>rk_TargetKey = [], rk_NetStart = 0\<rparr>, r_Extended = False, r_NetEnd = 0,
      r_Target = None, r_Origin = zero_Origin, r_Distance = 0, r_LastSeen = 0,
      r_network = None, r_traffic = None\<rparr>"

text \<open>Ten minutes, in nanoseconds, as \<open>time.Duration\<close> counts them.\<close>

definition maxRouteAge :: time where
  "maxRouteAge = 10 * 60 * 1000000000"

abbreviation maxRouteDistance :: byte where "maxRouteDistance \<equiv> 15"

fun routeOriginForTarget :: "RouteTarget option \<Rightarrow> RouteOrigin" where
  "routeOriginForTarget None = zero_Origin"
| "routeOriginForTarget (Some t) =
     (case tg_Class t of
        TargetClassAURPPeer \<Rightarrow>
          \<lparr>ro_Kind = RouteOriginAURP,
           ro_ID = (case tg_TunnelID t of Some i \<Rightarrow> i | None \<Rightarrow> tg_RouteTargetKey t)\<rparr>
      | TargetClassAppleTalkPeer \<Rightarrow>
          \<lparr>ro_Kind = RouteOriginAppleTalk, ro_ID = tg_RouteTargetKey t\<rparr>
      | TargetClassDirect \<Rightarrow>
          \<lparr>ro_Kind = RouteOriginDirect, ro_ID = tg_RouteTargetKey t\<rparr>)"

definition Route_Zero :: "Route \<Rightarrow> bool" where
  "Route_Zero r \<longleftrightarrow> r_Target r = None \<or> r_network r = None"

definition expiredAt :: "time \<Rightarrow> Route \<Rightarrow> bool" where
  "expiredAt now r \<longleftrightarrow>
     (case r_Target r of
        None \<Rightarrow> False
      | Some t \<Rightarrow> tg_Class t = TargetClassAppleTalkPeer \<and> now - r_LastSeen r > maxRouteAge)"

definition Route_RouteOrigin :: "Route \<Rightarrow> RouteOrigin" where
  "Route_RouteOrigin r =
     (if ro_ID (r_Origin r) \<noteq> [] \<or> r_Target r = None then r_Origin r
      else routeOriginForTarget (r_Target r))"

definition LearnedVia :: "Route \<Rightarrow> string" where
  "LearnedVia r =
     (case ro_Kind (Route_RouteOrigin r) of
        RouteOriginDirect \<Rightarrow> ''local''
      | RouteOriginAppleTalk \<Rightarrow> ''rtmp''
      | RouteOriginAURP \<Rightarrow> ''aurp'')"


section \<open>Preference\<close>

definition routePreferenceClass :: "Route \<Rightarrow> nat" where
  "routePreferenceClass r =
     (case r_Target r of
        None \<Rightarrow> 3
      | Some t \<Rightarrow>
          (case tg_Class t of
             TargetClassDirect \<Rightarrow> 0
           | TargetClassAppleTalkPeer \<Rightarrow> 1
           | TargetClassAURPPeer \<Rightarrow> 2))"

definition compareRoutePreference :: "Route \<Rightarrow> Route \<Rightarrow> int" where
  "compareRoutePreference a b =
     cmp_or
       [cmp_compare (r_Distance a) (r_Distance b),
        cmp_compare (routePreferenceClass a) (routePreferenceClass b),
        cmp_compare (ro_ID (Route_RouteOrigin a)) (ro_ID (Route_RouteOrigin b)),
        cmp_compare (r_TargetKey a) (r_TargetKey b)]"

text \<open>The order it stands for: shorter first, then direct before RTMP before AURP.\<close>

definition pref_key :: "Route \<Rightarrow> byte \<times> nat \<times> string \<times> string" where
  "pref_key r =
     (r_Distance r, routePreferenceClass r, ro_ID (Route_RouteOrigin r), r_TargetKey r)"

lemma cmp_or_simps [simp]:
  "cmp_or [] = 0"
  "cmp_or (cmp_compare a b # xs) = (if a < b then -1 else if b < a then 1 else cmp_or xs)"
  by (simp_all add: cmp_or_def cmp_compare_def)

lemma compareRoutePreference_le:
  "compareRoutePreference a b \<le> 0 \<longleftrightarrow> pref_key a \<le> pref_key b"
  by (auto simp: compareRoutePreference_def pref_key_def)

lemma sort_func_eq_sort_key:
  assumes "\<And>x y. cmp x y \<le> 0 \<longleftrightarrow> f x \<le> f y"
  shows "sort_func cmp xs = sort_key f xs"
proof (induction xs)
  case (Cons x xs)
  have "insort_func cmp x ys = insort_key f x ys" for ys
    by (induction ys) (simp_all add: assms)
  with Cons show ?case by simp
qed simp

lemma sort_routes: "sort_func compareRoutePreference = sort_key pref_key"
  by (rule ext) (rule sort_func_eq_sort_key, rule compareRoutePreference_le)

end
