(* ===== verification/RouteTable.thy ===== *)
theory RouteTable
  imports Routes
begin

text \<open>
  The route table (\<open>src/router/route_table.go\<close>) and its zone index
  (\<open>src/router/zones.go\<close>).

  The table keeps every route twice: in the class index \<open>byClass\<close>, a map from
  \<open>RouteKey\<close> to route for each target class, and in the forwarding index
  \<open>byNetwork\<close>, a preference-sorted list for each of the 65536 network numbers.
  Zones are kept as a set of names per network and, the other way round, as a
  list of networks per name.  Go maps are association lists whose order is the
  order of iteration; sets are lists without duplicates.

  An operation that loops over a network range is an option: \<open>None\<close> is a loop
  that never ends (the range ends at 65535).  The clock is an argument, and the
  calls to observers are returned as a list of notifications in call order.
\<close>

section \<open>State\<close>

record net_entry =
  Routes :: "Route list"
  ZoneNames :: "string list"

record routeTraffic =
  ddpBytesIn :: "64 word"
  ddpBytesOut :: "64 word"

record RouteTable =
  byNetwork :: "network \<Rightarrow> net_entry"
  byClass :: "TargetClass \<Rightarrow> (RouteKey \<times> Route) list"
  networksByZone :: "(string \<times> network list) list"
  observers :: "nat list"
  traffic_store :: "routeTraffic list"

datatype notification =
    NetworkAdded nat Route
  | NetworkDeleted nat Route
  | BestNetworkChanged nat Route Route

datatype route_error =
    ErrInvalidRange network network
  | ErrInvalidNonextendedRange network network
  | ErrDistanceTooHigh byte
  | ErrRouteNotFound RouteKey

definition NewRouteTable :: RouteTable where
  "NewRouteTable =
     \<lparr>byNetwork = (\<lambda>_. \<lparr>Routes = [], ZoneNames = []\<rparr>), byClass = (\<lambda>_. []),
      networksByZone = [], observers = [], traffic_store = []\<rparr>"

abbreviation routes_of :: "RouteTable \<Rightarrow> network \<Rightarrow> Route list" where
  "routes_of rt n \<equiv> Routes (byNetwork rt n)"

abbreviation zones_of :: "RouteTable \<Rightarrow> network \<Rightarrow> string list" where
  "zones_of rt n \<equiv> ZoneNames (byNetwork rt n)"

definition set_routes :: "network \<Rightarrow> (Route list \<Rightarrow> Route list) \<Rightarrow> RouteTable \<Rightarrow> RouteTable" where
  "set_routes n f rt =
     rt\<lparr>byNetwork := (byNetwork rt)(n := (byNetwork rt n)\<lparr>Routes := f (routes_of rt n)\<rparr>)\<rparr>"

definition set_zones :: "network \<Rightarrow> string list \<Rightarrow> RouteTable \<Rightarrow> RouteTable" where
  "set_zones n zs rt =
     rt\<lparr>byNetwork := (byNetwork rt)(n := (byNetwork rt n)\<lparr>ZoneNames := zs\<rparr>)\<rparr>"

definition set_class ::
  "TargetClass \<Rightarrow> ((RouteKey \<times> Route) list \<Rightarrow> (RouteKey \<times> Route) list) \<Rightarrow> RouteTable \<Rightarrow> RouteTable" where
  "set_class c f rt = rt\<lparr>byClass := (byClass rt)(c := f (byClass rt c))\<rparr>"

definition AddObserver :: "nat \<Rightarrow> RouteTable \<Rightarrow> RouteTable" where
  "AddObserver obs rt = rt\<lparr>observers := List.insert obs (observers rt)\<rparr>"

definition RemoveObserver :: "nat \<Rightarrow> RouteTable \<Rightarrow> RouteTable" where
  "RemoveObserver obs rt = rt\<lparr>observers := removeAll obs (observers rt)\<rparr>"

definition Dump :: "RouteTable \<Rightarrow> Route list" where
  "Dump rt =
     concat (map (\<lambda>c. map snd (byClass rt c))
       [TargetClassDirect, TargetClassAURPPeer, TargetClassAppleTalkPeer])"


section \<open>Lookup\<close>

definition validIgnoringAge :: "RouteTable \<Rightarrow> Route \<Rightarrow> bool" where
  "validIgnoringAge rt r \<longleftrightarrow>
     \<not> Route_Zero r \<and> zones_of rt (the (r_network r)) \<noteq> []"

definition Route_Valid :: "RouteTable \<Rightarrow> time \<Rightarrow> Route \<Rightarrow> bool" where
  "Route_Valid rt now r \<longleftrightarrow> validIgnoringAge rt r \<and> \<not> expiredAt now r"

definition Route_ZoneNames :: "RouteTable \<Rightarrow> Route \<Rightarrow> string list" where
  "Route_ZoneNames rt r = (if Route_Zero r then [] else zones_of rt (the (r_network r)))"

definition first_route :: "(Route \<Rightarrow> bool) \<Rightarrow> Route list \<Rightarrow> Route" where
  "first_route P rs = (case find P rs of Some r \<Rightarrow> r | None \<Rightarrow> zero_Route)"

definition Lookup :: "time \<Rightarrow> network \<Rightarrow> RouteTable \<Rightarrow> Route" where
  "Lookup now n rt = first_route (Route_Valid rt now) (routes_of rt n)"

definition lookupForTarget :: "time \<Rightarrow> network \<Rightarrow> RouteTarget option \<Rightarrow> RouteTable \<Rightarrow> Route" where
  "lookupForTarget now n target rt =
     (case target of
        None \<Rightarrow> zero_Route
      | Some t \<Rightarrow>
          first_route (\<lambda>r. r_TargetKey r = tg_RouteTargetKey t \<and> Route_Valid rt now r)
            (routes_of rt n))"

text \<open>Routes learned over the given tunnel are skipped.\<close>

definition from_tunnel :: "string \<Rightarrow> Route \<Rightarrow> bool" where
  "from_tunnel tunnelID r \<longleftrightarrow>
     tunnelID \<noteq> [] \<and> ro_Kind (Route_RouteOrigin r) = RouteOriginAURP \<and>
     ro_ID (Route_RouteOrigin r) = tunnelID"

definition LookupAvoidingAURPTunnel :: "time \<Rightarrow> network \<Rightarrow> string \<Rightarrow> RouteTable \<Rightarrow> Route" where
  "LookupAvoidingAURPTunnel now n tunnelID rt =
     first_route (\<lambda>r. Route_Valid rt now r \<and> \<not> from_tunnel tunnelID r) (routes_of rt n)"

definition lookupIgnoringAge :: "network \<Rightarrow> RouteTable \<Rightarrow> Route" where
  "lookupIgnoringAge n rt = first_route (validIgnoringAge rt) (routes_of rt n)"

definition find_route :: "RouteTarget \<Rightarrow> network \<Rightarrow> RouteTable \<Rightarrow> Route" where
  "find_route t netStart rt =
     (case map_of (byClass rt (tg_Class t))
            \<lparr>rk_TargetKey = tg_RouteTargetKey t, rk_NetStart = netStart\<rparr> of
        Some r \<Rightarrow> r | None \<Rightarrow> zero_Route)"

definition informObservers :: "Route \<Rightarrow> Route \<Rightarrow> RouteTable \<Rightarrow> notification list" where
  "informObservers oldBest newBest rt =
     (if Route_Zero oldBest \<and> Route_Zero newBest then []
      else if Route_Zero oldBest then map (\<lambda>o'. NetworkAdded o' newBest) (observers rt)
      else if Route_Zero newBest then map (\<lambda>o'. NetworkDeleted o' oldBest) (observers rt)
      else if r_TargetKey oldBest \<noteq> r_TargetKey newBest \<or>
              r_Distance oldBest \<noteq> r_Distance newBest \<or>
              r_Extended oldBest \<noteq> r_Extended newBest \<or>
              r_NetEnd oldBest \<noteq> r_NetEnd newBest
      then map (\<lambda>o'. BestNetworkChanged o' oldBest newBest) (observers rt)
      else [])"

definition ValidRoutesForClass :: "time \<Rightarrow> TargetClass \<Rightarrow> RouteTable \<Rightarrow> Route list" where
  "ValidRoutesForClass now c rt = filter (Route_Valid rt now) (map snd (byClass rt c))"

definition ValidRoutes :: "time \<Rightarrow> RouteTable \<Rightarrow> Route list" where
  "ValidRoutes now rt =
     concat (map (\<lambda>c. ValidRoutesForClass now c rt)
       [TargetClassDirect, TargetClassAURPPeer, TargetClassAppleTalkPeer])"


section \<open>Zones\<close>

definition networksForZone :: "string \<Rightarrow> RouteTable \<Rightarrow> network list" where
  "networksForZone zone rt =
     (case map_of (networksByZone rt) zone of Some ns \<Rightarrow> ns | None \<Rightarrow> [])"

definition append_zone_network :: "network \<Rightarrow> string \<Rightarrow> RouteTable \<Rightarrow> RouteTable" where
  "append_zone_network n zn rt =
     rt\<lparr>networksByZone :=
          AList.update zn (networksForZone zn rt @ [n]) (networksByZone rt)\<rparr>"

definition remove_zone_network :: "network \<Rightarrow> string \<Rightarrow> RouteTable \<Rightarrow> RouteTable" where
  "remove_zone_network n zn rt =
     (let networks = filter (\<lambda>m. m \<noteq> n) (networksForZone zn rt) in
      rt\<lparr>networksByZone :=
          (if networks = [] then AList.delete zn (networksByZone rt)
           else AList.update zn networks (networksByZone rt))\<rparr>)"

text \<open>The first loop of \<open>AddZonesToNetwork\<close>: the names that are new, in order.\<close>

fun new_zones :: "string list \<Rightarrow> string list \<Rightarrow> string list" where
  "new_zones known [] = []"
| "new_zones known (zn # zs) =
     (if zn \<in> set known then new_zones known zs else zn # new_zones (known @ [zn]) zs)"

definition AddZonesToNetwork ::
  "time \<Rightarrow> network \<Rightarrow> string list \<Rightarrow> RouteTable \<Rightarrow> RouteTable \<times> notification list" where
  "AddZonesToNetwork now n zs rt =
     (let oldBest = Lookup now n rt;
          added = new_zones (zones_of rt n) zs;
          rt1 = set_zones n (zones_of rt n @ added) rt;
          rt2 = fold (append_zone_network n) added rt1;
          newBest = Lookup now n rt2
      in (rt2, informObservers oldBest newBest rt2))"

definition ReplaceZonesForNetwork ::
  "time \<Rightarrow> network \<Rightarrow> string list \<Rightarrow> RouteTable \<Rightarrow> RouteTable \<times> notification list" where
  "ReplaceZonesForNetwork now n zs rt =
     (let oldBest = Lookup now n rt;
          nxt = remdups (filter (\<lambda>zn. zn \<noteq> []) zs);
          old = zones_of rt n;
          rt1 = fold (remove_zone_network n) (filter (\<lambda>zn. zn \<notin> set nxt) old) rt;
          rt2 = fold (append_zone_network n) (filter (\<lambda>zn. zn \<notin> set old) nxt) rt1;
          rt3 = set_zones n nxt rt2;
          newBest = Lookup now n rt3
      in (rt3, informObservers oldBest newBest rt3))"

definition clearZonesForNetworkIfNoRoutes :: "network \<Rightarrow> RouteTable \<Rightarrow> RouteTable" where
  "clearZonesForNetworkIfNoRoutes n rt =
     (if routes_of rt n \<noteq> [] \<or> zones_of rt n = [] then rt
      else fold (remove_zone_network n) (zones_of rt n) (set_zones n [] rt))"

fun ZonesForNetworks_loop ::
  "time \<Rightarrow> RouteTable \<Rightarrow> network list \<Rightarrow> (network \<times> string list) list \<Rightarrow> (network \<times> string list) list" where
  "ZonesForNetworks_loop now rt [] zs = zs"
| "ZonesForNetworks_loop now rt (n # ns) zs =
     (if Route_Zero (Lookup now n rt) then ZonesForNetworks_loop now rt ns zs
      else ZonesForNetworks_loop now rt ns
        (AList.update n ((case map_of zs n of Some z \<Rightarrow> z | None \<Rightarrow> []) @ zones_of rt n) zs))"

definition ZonesForNetworks ::
  "time \<Rightarrow> network list \<Rightarrow> RouteTable \<Rightarrow> (network \<times> string list) list" where
  "ZonesForNetworks now ns rt = ZonesForNetworks_loop now rt ns []"

definition RoutesForZone :: "time \<Rightarrow> string \<Rightarrow> RouteTable \<Rightarrow> Route list" where
  "RoutesForZone now zone rt =
     filter (\<lambda>r. \<not> Route_Zero r)
       (map (\<lambda>n. Lookup now n rt)
         (filter (\<lambda>n. zone \<in> set (zones_of rt n)) (networksForZone zone rt)))"

definition AllZoneNames :: "RouteTable \<Rightarrow> string list" where
  "AllZoneNames rt = sort (map fst (networksByZone rt))"



section \<open>Operations on routes\<close>

definition target_key :: "RouteTarget \<Rightarrow> network \<Rightarrow> RouteKey" where
  "target_key t netStart = \<lparr>rk_TargetKey = tg_RouteTargetKey t, rk_NetStart = netStart\<rparr>"

definition delete_key_at :: "RouteKey \<Rightarrow> network \<Rightarrow> RouteTable \<Rightarrow> RouteTable" where
  "delete_key_at key n = set_routes n (filter (\<lambda>r. r_RouteKey r \<noteq> key))"

definition insert_route_at :: "Route \<Rightarrow> network \<Rightarrow> RouteTable \<Rightarrow> RouteTable" where
  "insert_route_at new n = set_routes n (\<lambda>rs. sort_func compareRoutePreference (rs @ [new]))"

definition replace_route_at :: "Route \<Rightarrow> network \<Rightarrow> RouteTable \<Rightarrow> RouteTable" where
  "replace_route_at new n =
     set_routes n (\<lambda>rs. sort_func compareRoutePreference
       (map (\<lambda>r. if r_RouteKey r = r_RouteKey new then new else r) rs))"

definition delete_and_clear_at :: "RouteKey \<Rightarrow> network \<Rightarrow> RouteTable \<Rightarrow> RouteTable" where
  "delete_and_clear_at key n rt = clearZonesForNetworkIfNoRoutes n (delete_key_at key n rt)"

definition DeleteRoute ::
  "time \<Rightarrow> RouteTarget \<Rightarrow> network \<Rightarrow> RouteTable \<Rightarrow>
   (route_error option \<times> RouteTable \<times> notification list) option" where
  "DeleteRoute now target netStart rt =
     (let class = tg_Class target;
          routeKey = target_key target netStart;
          oldBest = Lookup now netStart rt;
          rt1 = set_class class (AList.delete routeKey) rt
      in case map_of (byClass rt class) routeKey of
           None \<Rightarrow> Some (Some (ErrRouteNotFound routeKey), rt1, [])
         | Some route \<Rightarrow>
             (case net_for (r_NetStart route) (r_NetEnd route) (delete_and_clear_at routeKey) rt1 of
                None \<Rightarrow> None
              | Some rt2 \<Rightarrow>
                  Some (None, rt2, informObservers oldBest (Lookup now (r_NetStart route) rt2) rt2)))"

definition UpdateDistance ::
  "time \<Rightarrow> RouteTarget \<Rightarrow> network \<Rightarrow> byte \<Rightarrow> RouteTable \<Rightarrow>
   (route_error option \<times> RouteTable \<times> notification list) option" where
  "UpdateDistance now target netStart distance rt =
     (if distance > maxRouteDistance then Some (Some (ErrDistanceTooHigh distance), rt, [])
      else
        let class = tg_Class target;
            oldBest = Lookup now netStart rt;
            oldRoute = find_route target netStart rt
        in if Route_Zero oldRoute
           then Some (Some (ErrRouteNotFound (target_key target netStart)), rt, [])
           else
             let newRoute = oldRoute\<lparr>r_LastSeen := now,
                   r_Distance := (if distance \<noteq> r_Distance oldRoute then distance
                                  else r_Distance oldRoute)\<rparr>;
                 rt1 = set_class class (AList.update (r_RouteKey oldRoute) newRoute) rt
             in case net_for (r_NetStart oldRoute) (r_NetEnd oldRoute)
                       (replace_route_at newRoute) rt1 of
                  None \<Rightarrow> None
                | Some rt2 \<Rightarrow>
                    Some (None, rt2,
                      informObservers oldBest (Lookup now (r_NetStart oldRoute) rt2) rt2))"

definition alloc_traffic :: "Route \<Rightarrow> RouteTable \<Rightarrow> nat \<times> RouteTable" where
  "alloc_traffic oldRoute rt =
     (case r_traffic oldRoute of
        Some a \<Rightarrow> (a, rt)
      | None \<Rightarrow> (length (traffic_store rt),
          rt\<lparr>traffic_store := traffic_store rt @ [\<lparr>ddpBytesIn = 0, ddpBytesOut = 0\<rparr>]\<rparr>))"

text \<open>The three loops of \<open>UpsertRoute\<close> over the forwarding index.\<close>

definition upsert_index ::
  "Route \<Rightarrow> Route \<Rightarrow> RouteTable \<Rightarrow> RouteTable option" where
  "upsert_index oldRoute newRoute rt =
     (let update = \<not> Route_Zero oldRoute;
          key = r_RouteKey newRoute;
          netStart = r_NetStart newRoute;
          netEnd = r_NetEnd newRoute
      in case (if update
               then net_for (r_NetStart oldRoute) (r_NetEnd oldRoute) (delete_key_at key) rt
               else Some rt) of
           None \<Rightarrow> None
         | Some rt1 \<Rightarrow>
             (case net_for netStart netEnd (insert_route_at newRoute) rt1 of
                None \<Rightarrow> None
              | Some rt2 \<Rightarrow>
                  if update
                  then net_for (r_NetStart oldRoute) (r_NetEnd oldRoute)
                         (\<lambda>n rt. if n < netStart \<or> n > netEnd
                                 then clearZonesForNetworkIfNoRoutes n rt else rt) rt2
                  else Some rt2))"

text \<open>The route literal of \<open>UpsertRoute\<close>.\<close>

definition new_route ::
  "time \<Rightarrow> RouteTarget \<Rightarrow> bool \<Rightarrow> network \<Rightarrow> network \<Rightarrow> byte \<Rightarrow> nat \<Rightarrow> Route" where
  "new_route now target extended netStart netEnd distance traffic =
     \<lparr>r_RouteKey = target_key target netStart, r_Extended = extended, r_NetEnd = netEnd,
      r_Target = Some target, r_Origin = routeOriginForTarget (Some target),
      r_Distance = distance, r_LastSeen = now, r_network = Some netStart,
      r_traffic = Some traffic\<rparr>"

definition UpsertRoute ::
  "time \<Rightarrow> RouteTarget \<Rightarrow> bool \<Rightarrow> network \<Rightarrow> network \<Rightarrow> byte \<Rightarrow> RouteTable \<Rightarrow>
   ((route_error + Route) \<times> RouteTable \<times> notification list) option" where
  "UpsertRoute now target extended netStart netEnd distance rt =
     (if netStart > netEnd then Some (Inl (ErrInvalidRange netStart netEnd), rt, [])
      else if netStart \<noteq> netEnd \<and> \<not> extended
      then Some (Inl (ErrInvalidNonextendedRange netStart netEnd), rt, [])
      else if distance > maxRouteDistance then Some (Inl (ErrDistanceTooHigh distance), rt, [])
      else
        let oldBest = Lookup now netStart rt;
            class = tg_Class target;
            key = target_key target netStart;
            oldRoute = find_route target netStart rt;
            (traffic, rt0) = alloc_traffic oldRoute rt;
            newRoute = new_route now target extended netStart netEnd distance traffic;
            rt1 = set_class class (AList.update key newRoute) rt0
        in case upsert_index oldRoute newRoute rt1 of
             None \<Rightarrow> None
           | Some rt2 \<Rightarrow>
               Some (Inr newRoute, rt2,
                 informObservers oldBest (Lookup now netStart rt2) rt2))"

text \<open>
  \<open>affected_networks\<close> is the set that \<open>DeleteTarget\<close> and \<open>PruneExpiredRoutes\<close>
  collect by looping over the range of each removed route.
\<close>

fun affected_networks :: "Route list \<Rightarrow> network list \<Rightarrow> network list option" where
  "affected_networks [] ns = Some ns"
| "affected_networks (r # rs) ns =
     (case net_for (r_NetStart r) (r_NetEnd r) List.insert ns of
        None \<Rightarrow> None
      | Some ns' \<Rightarrow> affected_networks rs ns')"

definition inform_starts ::
  "time \<Rightarrow> (network \<times> Route) list \<Rightarrow> RouteTable \<Rightarrow> notification list" where
  "inform_starts now oldBest rt =
     concat (map (\<lambda>n. informObservers (the (map_of oldBest n)) (Lookup now n rt) rt)
       (sort (map fst oldBest)))"

definition delete_target_at :: "string \<Rightarrow> network \<Rightarrow> RouteTable \<Rightarrow> RouteTable" where
  "delete_target_at targetKey n rt =
     clearZonesForNetworkIfNoRoutes n (set_routes n (filter (\<lambda>r. r_TargetKey r \<noteq> targetKey)) rt)"

definition DeleteTarget ::
  "time \<Rightarrow> RouteTarget \<Rightarrow> RouteTable \<Rightarrow> (RouteTable \<times> notification list) option" where
  "DeleteTarget now target rt =
     (let class = tg_Class target;
          targetKey = tg_RouteTargetKey target;
          deleted = filter (\<lambda>r. r_TargetKey r = targetKey) (map snd (byClass rt class));
          rt1 = set_class class (filter (\<lambda>(k, r). r_TargetKey r \<noteq> targetKey)) rt
      in if deleted = [] then Some (rt, [])
         else
           let oldBest = fold (\<lambda>r m. AList.update (r_NetStart r) (Lookup now (r_NetStart r) rt1) m)
                           deleted []
           in case affected_networks deleted [] of
                None \<Rightarrow> None
              | Some ns \<Rightarrow>
                  let rt2 = fold (delete_target_at targetKey) ns rt1
                  in Some (rt2, inform_starts now oldBest rt2))"

definition prune_at :: "(RouteKey \<times> time) list \<Rightarrow> network \<Rightarrow> RouteTable \<Rightarrow> RouteTable" where
  "prune_at expired_at n rt =
     clearZonesForNetworkIfNoRoutes n
       (set_routes n
         (filter (\<lambda>r. case map_of expired_at (r_RouteKey r) of
                        None \<Rightarrow> True
                      | Some lastSeen \<Rightarrow> r_LastSeen r > lastSeen)) rt)"

definition PruneExpiredRoutes ::
  "time \<Rightarrow> RouteTable \<Rightarrow> (nat \<times> RouteTable \<times> notification list) option" where
  "PruneExpiredRoutes now rt =
     (let class = TargetClassAppleTalkPeer;
          expired = filter (expiredAt now) (map snd (byClass rt class));
          rt1 = set_class class (filter (\<lambda>(k, r). \<not> expiredAt now r)) rt
      in if expired = [] then Some (0, rt, [])
         else
           let oldBest = fold (\<lambda>r m. if r_NetStart r \<in> set (map fst m) then m
                 else AList.update (r_NetStart r) (lookupIgnoringAge (r_NetStart r) rt1) m)
                 expired [];
               expired_at = fold (\<lambda>r m. AList.update (r_RouteKey r) (r_LastSeen r) m) expired []
           in case affected_networks expired [] of
                None \<Rightarrow> None
              | Some ns \<Rightarrow>
                  let rt2 = fold (prune_at expired_at) ns rt1
                  in Some (length expired, rt2, inform_starts now oldBest rt2))"

text \<open>Traffic accounting of a route: no counter, or no bytes, changes nothing.\<close>

definition noteDDPBytesIn :: "Route \<Rightarrow> 64 word \<Rightarrow> RouteTable \<Rightarrow> RouteTable" where
  "noteDDPBytesIn r bytes rt =
     (case r_traffic r of
        None \<Rightarrow> rt
      | Some a \<Rightarrow>
          if bytes = 0 then rt
          else rt\<lparr>traffic_store := (traffic_store rt)
                  [a := (traffic_store rt ! a)\<lparr>ddpBytesIn := ddpBytesIn (traffic_store rt ! a) + bytes\<rparr>]\<rparr>)"

definition noteDDPBytesOut :: "Route \<Rightarrow> 64 word \<Rightarrow> RouteTable \<Rightarrow> RouteTable" where
  "noteDDPBytesOut r bytes rt =
     (case r_traffic r of
        None \<Rightarrow> rt
      | Some a \<Rightarrow>
          if bytes = 0 then rt
          else rt\<lparr>traffic_store := (traffic_store rt)
                  [a := (traffic_store rt ! a)\<lparr>ddpBytesOut := ddpBytesOut (traffic_store rt ! a) + bytes\<rparr>]\<rparr>)"

definition DDPBytesIn :: "RouteTable \<Rightarrow> Route \<Rightarrow> 64 word" where
  "DDPBytesIn rt r = (case r_traffic r of None \<Rightarrow> 0 | Some a \<Rightarrow> ddpBytesIn (traffic_store rt ! a))"

definition DDPBytesOut :: "RouteTable \<Rightarrow> Route \<Rightarrow> 64 word" where
  "DDPBytesOut rt r = (case r_traffic r of None \<Rightarrow> 0 | Some a \<Rightarrow> ddpBytesOut (traffic_store rt ! a))"

end
