(* ===== verification/RouteTableInv.thy ===== *)
theory RouteTableInv
  imports RouteTable
begin

text \<open>
  The invariant of the route table.  The abstract table \<open>rt_abs\<close> is the map from
  route keys to routes; the invariant says that the forwarding index of every
  network lists exactly the abstract routes that cover it, best first, and that
  the two zone indexes mirror each other.  The locale \<open>net_op\<close> is the contract of
  the loop bodies that change one network entry; its lemmas give the effect of
  a whole loop over a range.
\<close>

section \<open>Well-formed routes\<close>

text \<open>The target key names the kind of target, so a key belongs to one class.\<close>

definition class_of_key :: "string \<Rightarrow> TargetClass" where
  "class_of_key k =
     (if take 9 k = ''AURPPeer|'' then TargetClassAURPPeer
      else if take 14 k = ''EtherTalkPeer|'' then TargetClassAppleTalkPeer
      else TargetClassDirect)"

definition target_ok :: "RouteTarget \<Rightarrow> bool" where
  "target_ok t \<longleftrightarrow> tg_Class t = class_of_key (tg_RouteTargetKey t)"

definition covers :: "Route \<Rightarrow> network \<Rightarrow> bool" where
  "covers r n \<longleftrightarrow> r_NetStart r \<le> n \<and> n \<le> r_NetEnd r"

definition route_ok :: "Route \<Rightarrow> bool" where
  "route_ok r \<longleftrightarrow>
     (case r_Target r of
        None \<Rightarrow> False
      | Some t \<Rightarrow> target_ok t \<and> tg_RouteTargetKey t = r_TargetKey r) \<and>
     r_Origin r = routeOriginForTarget (r_Target r) \<and> r_network r = Some (r_NetStart r) \<and>
     r_NetStart r \<le> r_NetEnd r \<and> (r_Extended r \<or> r_NetStart r = r_NetEnd r) \<and>
     r_NetEnd r \<noteq> 65535 \<and> r_Distance r \<le> maxRouteDistance \<and> r_traffic r \<noteq> None"

lemma route_ok_not_Zero: "route_ok r \<Longrightarrow> \<not> Route_Zero r"
  by (auto simp: route_ok_def Route_Zero_def split: option.splits)


section \<open>The invariant\<close>

definition rt_abs :: "RouteTable \<Rightarrow> RouteKey \<Rightarrow> Route option" where
  "rt_abs rt k = map_of (byClass rt (class_of_key (rk_TargetKey k))) k"

definition class_inv :: "RouteTable \<Rightarrow> bool" where
  "class_inv rt \<longleftrightarrow>
     (\<forall>c. distinct (map fst (byClass rt c)) \<and>
          (\<forall>(k, r) \<in> set (byClass rt c).
             r_RouteKey r = k \<and> class_of_key (rk_TargetKey k) = c \<and> route_ok r))"

definition index_inv :: "(RouteKey \<Rightarrow> Route option) \<Rightarrow> (network \<Rightarrow> Route list) \<Rightarrow> bool" where
  "index_inv A N \<longleftrightarrow>
     (\<forall>n. set (N n) = {r. A (r_RouteKey r) = Some r \<and> covers r n} \<and>
          distinct (map r_RouteKey (N n)) \<and> sorted (map pref_key (N n)))"

definition zone_inv :: "RouteTable \<Rightarrow> bool" where
  "zone_inv rt \<longleftrightarrow>
     distinct (map fst (networksByZone rt)) \<and>
     (\<forall>(z, ns) \<in> set (networksByZone rt). ns \<noteq> [] \<and> distinct ns) \<and>
     (\<forall>n. distinct (zones_of rt n)) \<and>
     (\<forall>z n. n \<in> set (networksForZone z rt) \<longleftrightarrow> z \<in> set (zones_of rt n))"

definition rt_inv :: "RouteTable \<Rightarrow> bool" where
  "rt_inv rt \<longleftrightarrow> class_inv rt \<and> index_inv (rt_abs rt) (routes_of rt) \<and> zone_inv rt"

lemma rt_inv_init: "rt_inv NewRouteTable"
  by (simp add: rt_inv_def class_inv_def index_inv_def zone_inv_def NewRouteTable_def rt_abs_def
    networksForZone_def)


section \<open>Frame lemmas\<close>

lemma set_routes_simps [simp]:
  "routes_of (set_routes n f rt) m = (if m = n then f (routes_of rt n) else routes_of rt m)"
  "zones_of (set_routes n f rt) m = zones_of rt m"
  "byClass (set_routes n f rt) = byClass rt"
  "networksByZone (set_routes n f rt) = networksByZone rt"
  "observers (set_routes n f rt) = observers rt"
  "traffic_store (set_routes n f rt) = traffic_store rt"
  by (simp_all add: set_routes_def)

lemma set_zones_simps [simp]:
  "routes_of (set_zones n zs rt) m = routes_of rt m"
  "zones_of (set_zones n zs rt) m = (if m = n then zs else zones_of rt m)"
  "byClass (set_zones n zs rt) = byClass rt"
  "networksByZone (set_zones n zs rt) = networksByZone rt"
  "observers (set_zones n zs rt) = observers rt"
  "traffic_store (set_zones n zs rt) = traffic_store rt"
  by (simp_all add: set_zones_def)

lemma set_class_simps [simp]:
  "byNetwork (set_class c f rt) = byNetwork rt"
  "byClass (set_class c f rt) c' = (if c' = c then f (byClass rt c) else byClass rt c')"
  "networksByZone (set_class c f rt) = networksByZone rt"
  "observers (set_class c f rt) = observers rt"
  "traffic_store (set_class c f rt) = traffic_store rt"
  by (simp_all add: set_class_def)

lemma zone_network_simps [simp]:
  "byNetwork (append_zone_network n z rt) = byNetwork rt"
  "byClass (append_zone_network n z rt) = byClass rt"
  "observers (append_zone_network n z rt) = observers rt"
  "traffic_store (append_zone_network n z rt) = traffic_store rt"
  "byNetwork (remove_zone_network n z rt) = byNetwork rt"
  "byClass (remove_zone_network n z rt) = byClass rt"
  "observers (remove_zone_network n z rt) = observers rt"
  "traffic_store (remove_zone_network n z rt) = traffic_store rt"
  by (simp_all add: append_zone_network_def remove_zone_network_def Let_def)

lemma fold_zone_network_simps [simp]:
  "byNetwork (fold (append_zone_network n) zs rt) = byNetwork rt"
  "byClass (fold (append_zone_network n) zs rt) = byClass rt"
  "observers (fold (append_zone_network n) zs rt) = observers rt"
  "traffic_store (fold (append_zone_network n) zs rt) = traffic_store rt"
  "byNetwork (fold (remove_zone_network n) zs rt) = byNetwork rt"
  "byClass (fold (remove_zone_network n) zs rt) = byClass rt"
  "observers (fold (remove_zone_network n) zs rt) = observers rt"
  "traffic_store (fold (remove_zone_network n) zs rt) = traffic_store rt"
  by (induction zs arbitrary: rt) simp_all


section \<open>The zone index\<close>

text \<open>The part of the invariant that concerns the list of networks of each zone.\<close>

definition zone_lists_ok :: "RouteTable \<Rightarrow> bool" where
  "zone_lists_ok rt \<longleftrightarrow>
     distinct (map fst (networksByZone rt)) \<and>
     (\<forall>(z, ns) \<in> set (networksByZone rt). ns \<noteq> [] \<and> distinct ns)"

lemma zone_inv_alt:
  "zone_inv rt \<longleftrightarrow> zone_lists_ok rt \<and> (\<forall>n. distinct (zones_of rt n)) \<and>
     (\<forall>z n. n \<in> set (networksForZone z rt) \<longleftrightarrow> z \<in> set (zones_of rt n))"
  by (auto simp: zone_inv_def zone_lists_ok_def)

lemma networksForZone_append:
  "networksForZone y (append_zone_network n z rt) =
   (if y = z then networksForZone z rt @ [n] else networksForZone y rt)"
  by (simp add: networksForZone_def append_zone_network_def update_conv')

lemma networksForZone_remove:
  "networksForZone y (remove_zone_network n z rt) =
   (if y = z then filter (\<lambda>m. m \<noteq> n) (networksForZone z rt) else networksForZone y rt)"
  by (auto simp: networksForZone_def remove_zone_network_def Let_def update_conv' delete_conv')

lemma set_AList_update_subset: "set (AList.update k v al) \<subseteq> insert (k, v) (set al)"
  by (induction al) auto

lemma set_AList_delete_subset: "set (AList.delete k al) \<subseteq> set al"
  by (auto simp: AList.delete_eq)

lemma networksForZone_distinct: "zone_lists_ok rt \<Longrightarrow> distinct (networksForZone z rt)"
  by (auto simp: networksForZone_def zone_lists_ok_def dest!: map_of_SomeD split: option.split)

lemma zone_lists_remove:
  assumes "zone_lists_ok rt" shows "zone_lists_ok (remove_zone_network n z rt)"
proof -
  let ?ns = "filter (\<lambda>m. m \<noteq> n) (networksForZone z rt)"
  have "distinct ?ns"
    using assms by (simp add: networksForZone_distinct)
  then show ?thesis
    using assms set_AList_update_subset [of z ?ns "networksByZone rt"]
      set_AList_delete_subset [of z "networksByZone rt"]
    by (cases "?ns = []")
      (auto simp: zone_lists_ok_def remove_zone_network_def distinct_update distinct_delete
        simp del: filter_empty_conv split del: if_split)
qed

lemma zone_lists_append:
  assumes "zone_lists_ok rt" "n \<notin> set (networksForZone z rt)"
  shows "zone_lists_ok (append_zone_network n z rt)"
proof -
  have "distinct (networksForZone z rt)"
    using assms by (simp add: networksForZone_distinct)
  then show ?thesis
    using assms set_AList_update_subset [of z "networksForZone z rt @ [n]" "networksByZone rt"]
    by (fastforce simp: zone_lists_ok_def append_zone_network_def distinct_update)
qed

lemma networksForZone_fold_remove:
  "n' \<in> set (networksForZone y (fold (remove_zone_network n) zs rt)) \<longleftrightarrow>
   n' \<in> set (networksForZone y rt) \<and> \<not> (n' = n \<and> y \<in> set zs)"
  by (induction zs arbitrary: rt) (auto simp: networksForZone_remove)

lemma networksForZone_fold_append:
  "n' \<in> set (networksForZone y (fold (append_zone_network n) zs rt)) \<longleftrightarrow>
   n' \<in> set (networksForZone y rt) \<or> (n' = n \<and> y \<in> set zs)"
  by (induction zs arbitrary: rt) (auto simp: networksForZone_append)

lemma zone_lists_fold_remove:
  "zone_lists_ok rt \<Longrightarrow> zone_lists_ok (fold (remove_zone_network n) zs rt)"
  by (induction zs arbitrary: rt) (simp_all add: zone_lists_remove)

lemma zone_lists_fold_append:
  "zone_lists_ok rt \<Longrightarrow> distinct zs \<Longrightarrow> \<forall>z\<in>set zs. n \<notin> set (networksForZone z rt) \<Longrightarrow>
   zone_lists_ok (fold (append_zone_network n) zs rt)"
proof (induction zs arbitrary: rt)
  case (Cons z zs)
  have "zone_lists_ok (fold (append_zone_network n) zs (append_zone_network n z rt))"
    using Cons.prems by (intro Cons.IH) (auto simp: zone_lists_append networksForZone_append)
  then show ?case by simp
qed simp

lemma zone_lists_frame [simp]:
  "zone_lists_ok (set_routes n f rt) \<longleftrightarrow> zone_lists_ok rt"
  "zone_lists_ok (set_zones n zs rt) \<longleftrightarrow> zone_lists_ok rt"
  "zone_lists_ok (set_class c g rt) \<longleftrightarrow> zone_lists_ok rt"
  "networksForZone z (set_routes n f rt) = networksForZone z rt"
  "networksForZone z (set_zones n zs rt) = networksForZone z rt"
  "networksForZone z (set_class c g rt) = networksForZone z rt"
  by (simp_all add: zone_lists_ok_def networksForZone_def)

lemma zone_inv_frame [simp]:
  "zone_inv (set_routes n f rt) \<longleftrightarrow> zone_inv rt"
  "zone_inv (set_class c g rt) \<longleftrightarrow> zone_inv rt"
  "zone_inv (rt\<lparr>traffic_store := s\<rparr>) \<longleftrightarrow> zone_inv rt"
  by (simp_all add: zone_inv_alt) (simp add: zone_lists_ok_def networksForZone_def)

lemma zone_inv_clear:
  assumes "zone_inv rt" shows "zone_inv (clearZonesForNetworkIfNoRoutes n rt)"
  using assms
  by (auto simp: zone_inv_alt clearZonesForNetworkIfNoRoutes_def zone_lists_fold_remove
    networksForZone_fold_remove)

lemma clear_simps [simp]:
  "routes_of (clearZonesForNetworkIfNoRoutes n rt) m = routes_of rt m"
  "byClass (clearZonesForNetworkIfNoRoutes n rt) = byClass rt"
  "observers (clearZonesForNetworkIfNoRoutes n rt) = observers rt"
  "traffic_store (clearZonesForNetworkIfNoRoutes n rt) = traffic_store rt"
  by (simp_all add: clearZonesForNetworkIfNoRoutes_def)

lemma clear_zones:
  "zones_of (clearZonesForNetworkIfNoRoutes n rt) m =
   (if m = n \<and> routes_of rt n = [] then [] else zones_of rt m)"
  by (simp add: clearZonesForNetworkIfNoRoutes_def)

lemma new_zones_props:
  "set (new_zones known zs) = set zs - set known \<and> distinct (new_zones known zs)"
  by (induction known zs rule: new_zones.induct) auto

lemma zone_inv_AddZones:
  assumes "zone_inv rt" shows "zone_inv (fst (AddZonesToNetwork now n zs rt))"
proof -
  let ?added = "new_zones (zones_of rt n) zs"
  let ?rt = "set_zones n (zones_of rt n @ ?added) rt"
  have "zone_lists_ok (fold (append_zone_network n) ?added ?rt)"
    using assms new_zones_props [of "zones_of rt n" zs]
    by (intro zone_lists_fold_append) (auto simp: zone_inv_alt)
  then show ?thesis
    using assms new_zones_props [of "zones_of rt n" zs]
    by (auto simp: zone_inv_alt AddZonesToNetwork_def Let_def networksForZone_fold_append)
qed

lemma zone_inv_ReplaceZones:
  assumes "zone_inv rt" shows "zone_inv (fst (ReplaceZonesForNetwork now n zs rt))"
proof -
  let ?nxt = "remdups (filter (\<lambda>zn. zn \<noteq> []) zs)"
  let ?old = "zones_of rt n"
  let ?rt1 = "fold (remove_zone_network n) (filter (\<lambda>zn. zn \<notin> set ?nxt) ?old) rt"
  let ?rt2 = "fold (append_zone_network n) (filter (\<lambda>zn. zn \<notin> set ?old) ?nxt) ?rt1"
  have "zone_lists_ok ?rt1"
    using assms by (intro zone_lists_fold_remove) (simp add: zone_inv_alt)
  then have "zone_lists_ok ?rt2"
    using assms by (intro zone_lists_fold_append) (auto simp: networksForZone_fold_remove zone_inv_alt)
  then show ?thesis
    using assms
    by (auto simp: zone_inv_alt ReplaceZonesForNetwork_def Let_def networksForZone_fold_append
      networksForZone_fold_remove)
qed



section \<open>Loops over the forwarding index\<close>

text \<open>
  The contract of a loop body: it changes the routes of its own network with
  \<open>f\<close>, keeps the class index, the observers and the counters, and keeps the
  zone indexes consistent.
\<close>

locale net_op =
  fixes g :: "network \<Rightarrow> RouteTable \<Rightarrow> RouteTable"
    and f :: "network \<Rightarrow> Route list \<Rightarrow> Route list"
  assumes g_routes: "routes_of (g n rt) m = (if m = n then f n (routes_of rt n) else routes_of rt m)"
    and g_class: "byClass (g n rt) = byClass rt"
    and g_observers: "observers (g n rt) = observers rt"
    and g_store: "traffic_store (g n rt) = traffic_store rt"
    and g_zones: "zone_inv rt \<Longrightarrow> zone_inv (g n rt)"
begin

lemma fold_routes:
  "distinct ns \<Longrightarrow>
   routes_of (fold g ns rt) m = (if m \<in> set ns then f m (routes_of rt m) else routes_of rt m)"
  by (induction ns arbitrary: rt) (auto simp: g_routes)

lemma fold_class: "byClass (fold g ns rt) = byClass rt"
  by (induction ns arbitrary: rt) (simp_all add: g_class)

lemma fold_abs: "rt_abs (fold g ns rt) = rt_abs rt"
  by (rule ext) (simp add: rt_abs_def fold_class)

lemma fold_class_inv: "class_inv (fold g ns rt) \<longleftrightarrow> class_inv rt"
  by (simp add: class_inv_def fold_class)

lemma fold_observers: "observers (fold g ns rt) = observers rt"
  by (induction ns arbitrary: rt) (simp_all add: g_observers)

lemma fold_store: "traffic_store (fold g ns rt) = traffic_store rt"
  by (induction ns arbitrary: rt) (simp_all add: g_store)

lemma fold_zones: "zone_inv rt \<Longrightarrow> zone_inv (fold g ns rt)"
  by (induction ns arbitrary: rt) (simp_all add: g_zones)

lemma loop:
  assumes "e \<noteq> 65535"
  shows "\<exists>rt'. net_for n e g rt = Some rt' \<and>
    (\<forall>m. routes_of rt' m = (if m \<in> {n..e} then f m (routes_of rt m) else routes_of rt m)) \<and>
    byClass rt' = byClass rt \<and> observers rt' = observers rt \<and>
    traffic_store rt' = traffic_store rt \<and> (zone_inv rt \<longrightarrow> zone_inv rt')"
  using assms
  by (intro exI [of _ "fold g (net_range n e) rt"])
    (simp add: net_for_eq_fold fold_routes fold_class fold_observers fold_store fold_zones)

end

interpretation delete_key: net_op "delete_key_at key" "\<lambda>_. filter (\<lambda>r. r_RouteKey r \<noteq> key)" for key
  by unfold_locales (simp_all add: delete_key_at_def)

interpretation insert_route: net_op "insert_route_at new" "\<lambda>_ rs. sort_key pref_key (rs @ [new])" for new
  by unfold_locales (simp_all add: insert_route_at_def sort_routes)

interpretation replace_route: net_op "replace_route_at new"
  "\<lambda>_ rs. sort_key pref_key (map (\<lambda>r. if r_RouteKey r = r_RouteKey new then new else r) rs)" for new
  by unfold_locales (simp_all add: replace_route_at_def sort_routes)

interpretation delete_clear: net_op "delete_and_clear_at key" "\<lambda>_. filter (\<lambda>r. r_RouteKey r \<noteq> key)" for key
  by unfold_locales (simp_all add: delete_and_clear_at_def delete_key_at_def zone_inv_clear)

interpretation delete_target: net_op "delete_target_at k" "\<lambda>_. filter (\<lambda>r. r_TargetKey r \<noteq> k)" for k
  by unfold_locales (simp_all add: delete_target_at_def zone_inv_clear)

interpretation prune: net_op "prune_at xs"
  "\<lambda>_. filter (\<lambda>r. case map_of xs (r_RouteKey r) of None \<Rightarrow> True | Some t \<Rightarrow> r_LastSeen r > t)" for xs
  by unfold_locales (simp_all add: prune_at_def zone_inv_clear)

interpretation clear_outside: net_op
  "\<lambda>n rt. if n < a \<or> n > b then clearZonesForNetworkIfNoRoutes n rt else rt" "\<lambda>_ rs. rs" for a b
  by unfold_locales (simp_all add: zone_inv_clear)


section \<open>Changing the forwarding index\<close>

lemma index_filter:
  assumes "index_inv A N"
    and "\<And>n. N' n = filter P (N n) \<or> (N' n = N n \<and> (\<forall>r\<in>set (N n). P r))"
    and "\<And>r. A' (r_RouteKey r) = Some r \<longleftrightarrow> A (r_RouteKey r) = Some r \<and> P r"
  shows "index_inv A' N'"
proof -
  have "N' n = filter P (N n)" for n
    using assms(2) [of n] by (auto simp: filter_id_conv)
  then show ?thesis
    using assms(1,3)
    by (auto simp: index_inv_def distinct_map_filter sorted_filter)
qed

lemma distinct_map_sort_key: "distinct (map h (sort_key k xs)) \<longleftrightarrow> distinct (map h xs)"
  by (simp add: distinct_map)

lemma index_insert:
  assumes "index_inv A N" "A (r_RouteKey new) = None"
    and "\<And>n. N' n = (if covers new n then sort_key pref_key (N n @ [new]) else N n)"
  shows "index_inv (A(r_RouteKey new \<mapsto> new)) N'"
proof -
  have inv: "set (N n) = {r. A (r_RouteKey r) = Some r \<and> covers r n}"
    "distinct (map r_RouteKey (N n))" "sorted (map pref_key (N n))" for n
    using assms(1) by (auto simp: index_inv_def)
  have new: "r_RouteKey new \<notin> r_RouteKey ` set (N n)" for n
    using assms(2) inv(1) by auto
  have "set (N' n) = {r. (A(r_RouteKey new \<mapsto> new)) (r_RouteKey r) = Some r \<and> covers r n}" for n
    using assms(2) by (auto simp: assms(3) inv(1))
  moreover have "distinct (map r_RouteKey (N' n))" for n
    using new [of n] inv(2) [of n] by (simp add: assms(3) distinct_map_sort_key)
  moreover have "sorted (map pref_key (N' n))" for n
    by (simp add: assms(3) inv(3))
  ultimately show ?thesis
    by (simp add: index_inv_def)
qed

lemma index_replace:
  assumes "index_inv A N" "A (r_RouteKey new) = Some old"
    and key: "r_RouteKey old = r_RouteKey new" and "r_NetEnd old = r_NetEnd new"
    and N': "\<And>n. N' n = (if covers new n
      then sort_key pref_key (map (\<lambda>r. if r_RouteKey r = r_RouteKey new then new else r) (N n))
      else N n)"
  shows "index_inv (A(r_RouteKey new \<mapsto> new)) N'"
proof -
  let ?sub = "\<lambda>r. if r_RouteKey r = r_RouteKey new then new else r"
  have cov: "covers old n \<longleftrightarrow> covers new n" for n
    using assms by (simp add: covers_def)
  have keys: "map r_RouteKey (map ?sub rs) = map r_RouteKey rs" for rs
    by simp
  have mem: "set (N n) = {r. A (r_RouteKey r) = Some r \<and> covers r n}"
    and dist: "distinct (map r_RouteKey (N n))" and srt: "sorted (map pref_key (N n))" for n
    using assms(1) by (auto simp: index_inv_def)
  have old: "r = old" if "r \<in> set (N n)" "r_RouteKey r = r_RouteKey new" for r n
    using that mem assms(2) by auto
  have "old \<in> set (N n)" if "covers new n" for n
    using that mem assms(2) key cov by auto
  then have "set (N' n) = {r. (A(r_RouteKey new \<mapsto> new)) (r_RouteKey r) = Some r \<and> covers r n}" for n
    using old key cov by (auto simp: N' mem image_iff split: if_splits) (metis)+
  moreover have "distinct (map r_RouteKey (N' n))" for n
  proof (cases "covers new n")
    case True
    then have "N' n = sort_key pref_key (map ?sub (N n))"
      using N' [of n] by (simp only: if_True)
    then have "distinct (map r_RouteKey (N' n)) \<longleftrightarrow> distinct (map r_RouteKey (map ?sub (N n)))"
      by (simp only: distinct_map_sort_key)
    then show ?thesis
      using dist [of n] by (simp only: keys)
  qed (simp add: N' dist)
  moreover have "sorted (map pref_key (N' n))" for n
    by (simp add: N' srt)
  ultimately show ?thesis
    by (simp add: index_inv_def)
qed



section \<open>The abstract table\<close>

lemma class_invD:
  assumes "class_inv rt" "(k, r) \<in> set (byClass rt c)"
  shows "r_RouteKey r = k" "class_of_key (rk_TargetKey k) = c" "route_ok r"
  using assms by (auto simp: class_inv_def)

lemma class_inv_distinct: "class_inv rt \<Longrightarrow> distinct (map fst (byClass rt c))"
  by (simp add: class_inv_def)

lemma rt_abs_SomeD:
  assumes "class_inv rt" "rt_abs rt k = Some r"
  shows "r_RouteKey r = k" "route_ok r"
  using assms class_invD by (auto simp: rt_abs_def dest!: map_of_SomeD)

lemma rt_abs_iff:
  assumes "class_inv rt"
  shows "rt_abs rt k = Some r \<longleftrightarrow> (k, r) \<in> set (byClass rt (class_of_key (rk_TargetKey k)))"
  using class_inv_distinct [OF assms] by (simp add: rt_abs_def map_of_eq_Some_iff)

lemma abs_cong:
  assumes "byClass rt = byClass rt'"
  shows "rt_abs rt = rt_abs rt'" "class_inv rt \<longleftrightarrow> class_inv rt'"
  using assms by (auto simp: rt_abs_def class_inv_def fun_eq_iff)

lemma set_Dump:
  assumes "class_inv rt"
  shows "r \<in> set (Dump rt) \<longleftrightarrow> rt_abs rt (r_RouteKey r) = Some r"
proof -
  have "r \<in> set (Dump rt) \<longleftrightarrow> (\<exists>c. r \<in> snd ` set (byClass rt c))"
    by (simp add: Dump_def) (metis TargetClass.exhaust)
  also have "\<dots> \<longleftrightarrow> rt_abs rt (r_RouteKey r) = Some r"
    using class_invD [OF assms] by (force simp: rt_abs_iff [OF assms])
  finally show ?thesis .
qed

lemma find_route_abs:
  assumes "target_ok t"
  shows "find_route t n rt = (case rt_abs rt (target_key t n) of Some r \<Rightarrow> r | None \<Rightarrow> zero_Route)"
  using assms by (simp add: find_route_def rt_abs_def target_key_def target_ok_def)

lemma zero_Route_Zero [simp]: "Route_Zero zero_Route"
  by (simp add: Route_Zero_def zero_Route_def)

lemma find_route_Zero:
  assumes "class_inv rt" "target_ok t"
  shows "Route_Zero (find_route t n rt) \<longleftrightarrow> rt_abs rt (target_key t n) = None"
  using rt_abs_SomeD(2) [OF assms(1)] route_ok_not_Zero
  by (auto simp: find_route_abs [OF assms(2)] split: option.split)

lemma abs_update:
  assumes "class_inv rt" "route_ok r" "c = class_of_key (r_TargetKey r)"
  shows "rt_abs (set_class c (AList.update (r_RouteKey r) r) rt) = (rt_abs rt)(r_RouteKey r \<mapsto> r)"
    and "class_inv (set_class c (AList.update (r_RouteKey r) r) rt)"
proof -
  show "rt_abs (set_class c (AList.update (r_RouteKey r) r) rt) = (rt_abs rt)(r_RouteKey r \<mapsto> r)"
    using assms(3) by (auto simp: rt_abs_def update_conv')
  show "class_inv (set_class c (AList.update (r_RouteKey r) r) rt)"
    using assms set_AList_update_subset [of "r_RouteKey r" r "byClass rt c"]
    by (fastforce simp: class_inv_def distinct_update)
qed

lemma abs_delete:
  assumes "class_inv rt" "c = class_of_key (rk_TargetKey k)"
  shows "rt_abs (set_class c (AList.delete k) rt) = (rt_abs rt)(k := None)"
    and "class_inv (set_class c (AList.delete k) rt)"
proof -
  show "rt_abs (set_class c (AList.delete k) rt) = (rt_abs rt)(k := None)"
    using assms(2) by (auto simp: rt_abs_def delete_conv')
  show "class_inv (set_class c (AList.delete k) rt)"
    using assms set_AList_delete_subset [of k "byClass rt c"]
    by (auto simp: class_inv_def distinct_delete)
qed

lemma map_of_filter_snd:
  "distinct (map fst al) \<Longrightarrow>
   map_of (filter (\<lambda>(k, v). P v) al) k =
   (case map_of al k of Some v \<Rightarrow> if P v then Some v else None | None \<Rightarrow> None)"
  by (induction al) (force split: option.splits dest: map_of_SomeD)+

lemma abs_filter:
  assumes "class_inv rt"
  shows "rt_abs (set_class c (filter (\<lambda>(k, r). P r)) rt) k =
      (case rt_abs rt k of
         Some r \<Rightarrow> if class_of_key (rk_TargetKey k) = c \<and> \<not> P r then None else Some r
       | None \<Rightarrow> None)"
    and "class_inv (set_class c (filter (\<lambda>(k, r). P r)) rt)"
proof -
  show "rt_abs (set_class c (filter (\<lambda>(k, r). P r)) rt) k =
      (case rt_abs rt k of
         Some r \<Rightarrow> if class_of_key (rk_TargetKey k) = c \<and> \<not> P r then None else Some r
       | None \<Rightarrow> None)"
    using class_inv_distinct [OF assms]
    by (auto simp: rt_abs_def map_of_filter_snd split: option.split)
  show "class_inv (set_class c (filter (\<lambda>(k, r). P r)) rt)"
    using assms by (auto simp: class_inv_def distinct_map_filter)
qed

end
