(* ===== verification/RouteTableOps.thy ===== *)
theory RouteTableOps
  imports RouteTableInv
begin

text \<open>
  The operations of the route table refine the abstract table: each of them
  preserves the invariant, terminates on the ranges the invariant allows, and
  changes the map from keys to routes the way its name says.
\<close>

section \<open>UpsertRoute\<close>

lemma index_delete_loop:
  assumes "index_inv A (routes_of rt)" "A key = Some old" "r_RouteKey old = key"
    and N: "\<forall>m. routes_of rt' m = (if m \<in> {r_NetStart old..r_NetEnd old}
      then filter (\<lambda>r. r_RouteKey r \<noteq> key) (routes_of rt m) else routes_of rt m)"
  shows "index_inv (A(key := None)) (routes_of rt')"
proof (rule index_filter [OF assms(1), where P = "\<lambda>r. r_RouteKey r \<noteq> key"])
  fix n
  show "routes_of rt' n = filter (\<lambda>r. r_RouteKey r \<noteq> key) (routes_of rt n) \<or>
    (routes_of rt' n = routes_of rt n \<and> (\<forall>r\<in>set (routes_of rt n). r_RouteKey r \<noteq> key))"
  proof (cases "covers old n")
    case True
    then show ?thesis using N by (simp add: covers_def)
  next
    case False
    have "r_RouteKey r \<noteq> key" if "r \<in> set (routes_of rt n)" for r
      using assms(1,2) False that by (auto simp: index_inv_def)
    with False show ?thesis using N by (auto simp: covers_def)
  qed
qed auto

lemma upsert_index_ok:
  assumes "index_inv A (routes_of rt)" "zone_inv rt"
    and A: "\<And>k r. A k = Some r \<Longrightarrow> r_RouteKey r = k \<and> route_ok r"
    and new: "r_NetEnd new \<noteq> 65535"
    and old: "old = (case A (r_RouteKey new) of Some r \<Rightarrow> r | None \<Rightarrow> zero_Route)"
  shows "\<exists>rt'. upsert_index old new rt = Some rt' \<and>
    index_inv (A(r_RouteKey new \<mapsto> new)) (routes_of rt') \<and> zone_inv rt' \<and>
    byClass rt' = byClass rt \<and> observers rt' = observers rt \<and>
    traffic_store rt' = traffic_store rt"
proof -
  let ?key = "r_RouteKey new"
  define A1 where "A1 = A(?key := None)"
  have first: "\<exists>rt1. (if \<not> Route_Zero old
        then net_for (r_NetStart old) (r_NetEnd old) (delete_key_at ?key) rt else Some rt) = Some rt1 \<and>
      index_inv A1 (routes_of rt1) \<and> zone_inv rt1 \<and> byClass rt1 = byClass rt \<and>
      observers rt1 = observers rt \<and> traffic_store rt1 = traffic_store rt"
  proof (cases "A ?key")
    case None
    then have "A1 = A" by (auto simp: A1_def)
    with None old assms show ?thesis by simp
  next
    case (Some r)
    with old A have r: "old = r" "r_RouteKey r = ?key" "route_ok r" by auto
    then have "r_NetEnd r \<noteq> 65535" by (simp add: route_ok_def)
    from delete_key.loop [OF this, of "r_NetStart r" ?key rt] obtain rt1 where
      rt1: "net_for (r_NetStart r) (r_NetEnd r) (delete_key_at ?key) rt = Some rt1"
        "\<forall>m. routes_of rt1 m = (if m \<in> {r_NetStart r..r_NetEnd r}
          then filter (\<lambda>r. r_RouteKey r \<noteq> ?key) (routes_of rt m) else routes_of rt m)"
        "byClass rt1 = byClass rt" "observers rt1 = observers rt"
        "traffic_store rt1 = traffic_store rt" "zone_inv rt \<longrightarrow> zone_inv rt1"
      by blast
    have "index_inv A1 (routes_of rt1)"
      unfolding A1_def by (rule index_delete_loop [OF assms(1) Some r(2) rt1(2)])
    with rt1 r route_ok_not_Zero assms(2) show ?thesis by auto
  qed
  then obtain rt1 where rt1:
    "(if \<not> Route_Zero old
        then net_for (r_NetStart old) (r_NetEnd old) (delete_key_at ?key) rt else Some rt) = Some rt1"
    "index_inv A1 (routes_of rt1)" "zone_inv rt1" "byClass rt1 = byClass rt"
    "observers rt1 = observers rt" "traffic_store rt1 = traffic_store rt" by blast
  obtain rt2 where rt2:
    "net_for (r_NetStart new) (r_NetEnd new) (insert_route_at new) rt1 = Some rt2"
    "\<forall>m. routes_of rt2 m = (if m \<in> {r_NetStart new..r_NetEnd new}
       then sort_key pref_key (routes_of rt1 m @ [new]) else routes_of rt1 m)"
    "byClass rt2 = byClass rt1" "observers rt2 = observers rt1"
    "traffic_store rt2 = traffic_store rt1" "zone_inv rt1 \<longrightarrow> zone_inv rt2"
    using insert_route.loop [OF new, of "r_NetStart new" new rt1] by blast
  have "index_inv (A1(?key \<mapsto> new)) (routes_of rt2)"
    using rt2(2) by (intro index_insert [OF rt1(2)]) (auto simp: A1_def covers_def)
  then have ix: "index_inv (A(?key \<mapsto> new)) (routes_of rt2)"
    by (simp add: A1_def)
  show ?thesis
  proof (cases "Route_Zero old")
    case True
    with rt1 rt2 ix show ?thesis by (simp add: upsert_index_def)
  next
    case False
    with old A have "r_NetEnd old \<noteq> 65535"
      by (auto simp: route_ok_def split: option.splits)
    from clear_outside.loop [OF this, of "r_NetStart old" "r_NetStart new" "r_NetEnd new" rt2] ix
      rt1 rt2 False show ?thesis
      by (auto simp: upsert_index_def)
  qed
qed

lemma UpsertRoute_ok:
  assumes inv: "rt_inv rt" and t: "target_ok t"
    and range: "s \<le> e" "ext \<or> s = e" "e \<noteq> 65535" and d: "d \<le> maxRouteDistance"
  shows "\<exists>new rt' evs. UpsertRoute now t ext s e d rt = Some (Inr new, rt', evs) \<and>
    rt_inv rt' \<and> rt_abs rt' = (rt_abs rt)(target_key t s \<mapsto> new) \<and>
    r_RouteKey new = target_key t s \<and> r_NetEnd new = e \<and> r_Extended new = ext \<and>
    r_Target new = Some t \<and> r_Distance new = d \<and> r_LastSeen new = now \<and> route_ok new \<and>
    observers rt' = observers rt \<and>
    evs = informObservers (Lookup now s rt) (Lookup now s rt') rt'"
proof -
  let ?key = "target_key t s"
  let ?old = "find_route t s rt"
  obtain a rt0 where alloc: "alloc_traffic ?old rt = (a, rt0)"
    by (cases "alloc_traffic ?old rt")
  then have frame0: "byNetwork rt0 = byNetwork rt" "byClass rt0 = byClass rt"
      "observers rt0 = observers rt" "zone_inv rt0 \<longleftrightarrow> zone_inv rt"
    by (auto simp: alloc_traffic_def split: option.splits)
  define new where "new = new_route now t ext s e d a"
  have new_fields: "r_RouteKey new = ?key" "r_Extended new = ext" "r_NetEnd new = e"
      "r_Target new = Some t" "r_Distance new = d" "r_LastSeen new = now"
    by (simp_all add: new_def new_route_def)
  define rt1 where "rt1 = set_class (tg_Class t) (AList.update ?key new) rt0"
  note key = new_fields(1)
  have ok: "route_ok new"
    using t range d by (auto simp: route_ok_def new_def new_route_def target_key_def)
  have c: "tg_Class t = class_of_key (r_TargetKey new)"
    using t by (simp add: key target_key_def target_ok_def)
  have ci: "class_inv rt" and ix: "index_inv (rt_abs rt) (routes_of rt)" and zi: "zone_inv rt"
    using inv by (auto simp: rt_inv_def)
  have ci0: "class_inv rt0" and abs0: "rt_abs rt0 = rt_abs rt"
    using ci frame0 by (auto simp: class_inv_def rt_abs_def)
  have abs1: "rt_abs rt1 = (rt_abs rt)(?key \<mapsto> new)" and ci1: "class_inv rt1"
    using abs_update [OF ci0 ok c] unfolding rt1_def key abs0 by simp_all
  have ix1: "index_inv (rt_abs rt) (routes_of rt1)" and zi1: "zone_inv rt1"
    using ix zi frame0 by (simp_all add: rt1_def)
  have "?old = (case rt_abs rt (r_RouteKey new) of Some r \<Rightarrow> r | None \<Rightarrow> zero_Route)"
    by (simp add: find_route_abs [OF t] key)
  from upsert_index_ok [OF ix1 zi1 _ _ this] rt_abs_SomeD [OF ci] range(3)
  obtain rt2 where rt2: "upsert_index ?old new rt1 = Some rt2"
    "index_inv ((rt_abs rt)(?key \<mapsto> new)) (routes_of rt2)" "zone_inv rt2"
    "byClass rt2 = byClass rt1" "observers rt2 = observers rt1"
    by (auto simp: new_fields)
  have "rt_abs rt2 = (rt_abs rt)(?key \<mapsto> new)" "class_inv rt2"
    using abs1 ci1 abs_cong [OF rt2(4)] by simp_all
  moreover have "UpsertRoute now t ext s e d rt =
      Some (Inr new, rt2, informObservers (Lookup now s rt) (Lookup now s rt2) rt2)"
  proof -
    have guards: "(s > e) = False" "(s \<noteq> e \<and> \<not> ext) = False" "(d > maxRouteDistance) = False"
      using range d by auto
    show ?thesis
      using rt2(1) unfolding rt1_def new_def
      by (simp only: UpsertRoute_def Let_def guards if_False alloc prod.case option.case)
  qed
  ultimately show ?thesis
    using rt2 ok frame0(3) new_fields
    by (intro exI [of _ new] exI [of _ rt2] exI conjI) (simp_all add: rt_inv_def rt1_def)
qed



section \<open>UpdateDistance and DeleteRoute\<close>

lemma UpdateDistance_ok:
  assumes inv: "rt_inv rt" and t: "target_ok t" and d: "d \<le> maxRouteDistance"
    and stored: "rt_abs rt (target_key t s) = Some old"
  shows "\<exists>rt' evs. UpdateDistance now t s d rt = Some (None, rt', evs) \<and> rt_inv rt' \<and>
    rt_abs rt' = (rt_abs rt)(target_key t s \<mapsto> old\<lparr>r_LastSeen := now, r_Distance := d\<rparr>) \<and>
    observers rt' = observers rt \<and>
    evs = informObservers (Lookup now s rt) (Lookup now s rt') rt'"
proof -
  have ci: "class_inv rt" and ix: "index_inv (rt_abs rt) (routes_of rt)" and zi: "zone_inv rt"
    using inv by (auto simp: rt_inv_def)
  have old: "r_RouteKey old = target_key t s" "route_ok old"
    using rt_abs_SomeD [OF ci stored] by auto
  define new where "new = old\<lparr>r_LastSeen := now, r_Distance := d\<rparr>"
  have key: "r_RouteKey new = target_key t s" and ok: "route_ok new"
    using old d by (auto simp: new_def route_ok_def split: option.splits)
  have c: "tg_Class t = class_of_key (r_TargetKey new)"
    using t by (simp add: key target_key_def target_ok_def)
  define rt1 where "rt1 = set_class (tg_Class t) (AList.update (target_key t s) new) rt"
  have abs1: "rt_abs rt1 = (rt_abs rt)(target_key t s \<mapsto> new)" and ci1: "class_inv rt1"
    using abs_update [OF ci ok c] unfolding rt1_def key by simp_all
  have "r_NetEnd old \<noteq> 65535"
    using old(2) by (simp add: route_ok_def)
  then obtain rt2 where rt2:
    "net_for (r_NetStart old) (r_NetEnd old) (replace_route_at new) rt1 = Some rt2"
    "\<forall>m. routes_of rt2 m = (if m \<in> {r_NetStart old..r_NetEnd old}
       then sort_key pref_key (map (\<lambda>r. if r_RouteKey r = r_RouteKey new then new else r) (routes_of rt1 m))
       else routes_of rt1 m)"
    "byClass rt2 = byClass rt1" "observers rt2 = observers rt1" "zone_inv rt1 \<longrightarrow> zone_inv rt2"
    using replace_route.loop [of "r_NetEnd old" "r_NetStart old" new rt1] by blast
  have "index_inv ((rt_abs rt)(r_RouteKey new \<mapsto> new)) (routes_of rt2)"
    using stored old(1) key rt2(2)
    by (intro index_replace [OF ix, where old = old]) (auto simp: new_def covers_def rt1_def)
  moreover have "rt_abs rt2 = (rt_abs rt)(target_key t s \<mapsto> new)" "class_inv rt2"
    using abs1 ci1 abs_cong [OF rt2(3)] by simp_all
  moreover have "zone_inv rt2"
    using rt2(5) zi by (simp add: rt1_def)
  moreover have "find_route t s rt = old"
    by (simp add: find_route_abs [OF t] stored)
  then have "UpdateDistance now t s d rt =
      Some (None, rt2, informObservers (Lookup now s rt) (Lookup now s rt2) rt2)"
    using d rt2(1) old route_ok_not_Zero
    by (auto simp: UpdateDistance_def Let_def rt1_def new_def not_less target_key_def)
  ultimately show ?thesis
    using rt2(4) old(1) by (auto simp: rt_inv_def rt1_def key new_def)
qed

lemma DeleteRoute_ok:
  assumes inv: "rt_inv rt" and t: "target_ok t"
    and stored: "rt_abs rt (target_key t s) = Some old"
  shows "\<exists>rt' evs. DeleteRoute now t s rt = Some (None, rt', evs) \<and> rt_inv rt' \<and>
    rt_abs rt' = (rt_abs rt)(target_key t s := None) \<and> observers rt' = observers rt \<and>
    evs = informObservers (Lookup now s rt) (Lookup now s rt') rt'"
proof -
  let ?key = "target_key t s"
  have ci: "class_inv rt" and ix: "index_inv (rt_abs rt) (routes_of rt)" and zi: "zone_inv rt"
    using inv by (auto simp: rt_inv_def)
  have old: "r_RouteKey old = ?key" "route_ok old"
    using rt_abs_SomeD [OF ci stored] by auto
  have c: "tg_Class t = class_of_key (rk_TargetKey ?key)"
    using t by (simp add: target_key_def target_ok_def)
  define rt1 where "rt1 = set_class (tg_Class t) (AList.delete ?key) rt"
  have abs1: "rt_abs rt1 = (rt_abs rt)(?key := None)" and ci1: "class_inv rt1"
    using abs_delete [OF ci c] unfolding rt1_def by simp_all
  have "r_NetEnd old \<noteq> 65535"
    using old(2) by (simp add: route_ok_def)
  then obtain rt2 where rt2:
    "net_for (r_NetStart old) (r_NetEnd old) (delete_and_clear_at ?key) rt1 = Some rt2"
    "\<forall>m. routes_of rt2 m = (if m \<in> {r_NetStart old..r_NetEnd old}
       then filter (\<lambda>r. r_RouteKey r \<noteq> ?key) (routes_of rt1 m) else routes_of rt1 m)"
    "byClass rt2 = byClass rt1" "observers rt2 = observers rt1" "zone_inv rt1 \<longrightarrow> zone_inv rt2"
    using delete_clear.loop [of "r_NetEnd old" "r_NetStart old" ?key rt1] by blast
  have "index_inv ((rt_abs rt)(?key := None)) (routes_of rt2)"
    using rt2(2) by (intro index_delete_loop [OF ix stored old(1)]) (simp add: rt1_def)
  moreover have "rt_abs rt2 = (rt_abs rt)(?key := None)" "class_inv rt2"
    using abs1 ci1 abs_cong [OF rt2(3)] by simp_all
  moreover have "zone_inv rt2"
    using rt2(5) zi by (simp add: rt1_def)
  moreover have "map_of (byClass rt (tg_Class t)) ?key = Some old"
    using stored c by (simp add: rt_abs_def)
  then have "DeleteRoute now t s rt =
      Some (None, rt2, informObservers (Lookup now s rt) (Lookup now s rt2) rt2)"
    using rt2(1) old(1) by (auto simp: DeleteRoute_def Let_def rt1_def target_key_def)
  ultimately show ?thesis
    using rt2(4) by (auto simp: rt_inv_def rt1_def)
qed

lemma DeleteRoute_missing:
  assumes "class_inv rt" "target_ok t" "rt_abs rt (target_key t s) = None"
  shows "DeleteRoute now t s rt = Some (Some (ErrRouteNotFound (target_key t s)), rt, [])"
proof -
  let ?c = "tg_Class t"
  have "map_of (byClass rt ?c) (target_key t s) = None"
    using assms by (simp add: rt_abs_def target_ok_def target_key_def)
  then have "AList.delete (target_key t s) (byClass rt ?c) = byClass rt ?c"
    by (simp add: map_of_eq_None_iff delete_id)
  then have "set_class ?c (AList.delete (target_key t s)) rt = rt"
    by (simp add: set_class_def)
  then show ?thesis
    using \<open>map_of _ _ = None\<close> by (simp add: DeleteRoute_def Let_def)
qed



section \<open>DeleteTarget and PruneExpiredRoutes\<close>

lemma fold_insert:
  "set (fold List.insert xs ns) = set xs \<union> set ns"
  "distinct ns \<Longrightarrow> distinct (fold List.insert xs ns)"
  by (induction xs arbitrary: ns) auto

lemma affected_networks_ok:
  assumes "\<forall>r\<in>set rs. r_NetEnd r \<noteq> 65535" "distinct ns"
  shows "\<exists>ns'. affected_networks rs ns = Some ns' \<and> distinct ns' \<and>
    set ns' = set ns \<union> {n. \<exists>r\<in>set rs. covers r n}"
  using assms
proof (induction rs arbitrary: ns)
  case (Cons r rs)
  let ?ns = "fold List.insert (net_range (r_NetStart r) (r_NetEnd r)) ns"
  have "distinct ?ns" using Cons.prems(2) by (rule fold_insert)
  then have "\<exists>ns'. affected_networks rs ?ns = Some ns' \<and> distinct ns' \<and>
      set ns' = set ?ns \<union> {n. \<exists>r\<in>set rs. covers r n}"
    using Cons.prems(1) by (intro Cons.IH) simp_all
  then obtain ns' where "affected_networks rs ?ns = Some ns'" "distinct ns'"
      "set ns' = set ?ns \<union> {n. \<exists>r\<in>set rs. covers r n}"
    by blast
  with Cons.prems(1) show ?case
    by (auto simp: net_for_eq_fold fold_insert covers_def)
qed simp

text \<open>
  Both operations remove from one class the routes for which \<open>P\<close> fails, and
  filter the forwarding index of every network those routes cover.
\<close>

lemma remove_routes_ok:
  assumes op: "net_op g (\<lambda>_. filter Q)"
    and inv: "rt_inv rt"
    and Q: "\<And>k r. rt_abs rt k = Some r \<Longrightarrow> Q r \<longleftrightarrow> \<not> (class_of_key (rk_TargetKey k) = c \<and> \<not> P r)"
    and ns: "distinct ns" "set ns = {n. \<exists>r\<in>set gone. covers r n}"
    and gone: "gone = filter (\<lambda>r. \<not> P r) (map snd (byClass rt c))"
  shows "rt_inv (fold g ns (set_class c (filter (\<lambda>(k, r). P r)) rt))"
    and "rt_abs (fold g ns (set_class c (filter (\<lambda>(k, r). P r)) rt)) =
      (\<lambda>k. case rt_abs rt k of Some r \<Rightarrow> if Q r then Some r else None | None \<Rightarrow> None)"
proof -
  let ?rt1 = "set_class c (filter (\<lambda>(k, r). P r)) rt"
  have ci: "class_inv rt" and ix: "index_inv (rt_abs rt) (routes_of rt)" and zi: "zone_inv rt"
    using inv by (auto simp: rt_inv_def)
  have abs1: "rt_abs ?rt1 = (\<lambda>k. case rt_abs rt k of Some r \<Rightarrow> if Q r then Some r else None | None \<Rightarrow> None)"
    using Q by (auto simp: abs_filter(1) [OF ci] split: option.splits)
  show abs: "rt_abs (fold g ns ?rt1) =
      (\<lambda>k. case rt_abs rt k of Some r \<Rightarrow> if Q r then Some r else None | None \<Rightarrow> None)"
    by (simp add: net_op.fold_abs [OF op] abs1)
  have "Q r" if r: "r \<in> set (routes_of rt n)" and n: "n \<notin> set ns" for r n
  proof (rule ccontr)
    assume "\<not> Q r"
    have s: "rt_abs rt (r_RouteKey r) = Some r" "covers r n"
      using r ix by (auto simp: index_inv_def)
    with Q \<open>\<not> Q r\<close> have "class_of_key (r_TargetKey r) = c" "\<not> P r" by auto
    with s(1) have "(r_RouteKey r, r) \<in> set (byClass rt c)"
      by (simp add: rt_abs_iff [OF ci])
    with \<open>\<not> P r\<close> have "r \<in> set gone" by (force simp: gone)
    with s(2) n ns(2) show False by auto
  qed
  then have "index_inv (rt_abs (fold g ns ?rt1)) (routes_of (fold g ns ?rt1))"
    unfolding abs
    by (intro index_filter [OF ix, where P = Q])
      (auto simp: net_op.fold_routes [OF op ns(1)] split: option.splits)
  moreover have "class_inv (fold g ns ?rt1)"
    by (simp add: net_op.fold_class_inv [OF op] abs_filter(2) [OF ci])
  moreover have "zone_inv (fold g ns ?rt1)"
    using zi by (simp add: net_op.fold_zones [OF op])
  ultimately show "rt_inv (fold g ns ?rt1)"
    by (simp add: rt_inv_def)
qed

lemma stored_range_ok: "class_inv rt \<Longrightarrow> r \<in> snd ` set (byClass rt c) \<Longrightarrow> r_NetEnd r \<noteq> 65535"
  using class_invD(3) by (fastforce simp: route_ok_def)

lemma DeleteTarget_ok:
  assumes inv: "rt_inv rt" and t: "target_ok t"
  shows "\<exists>rt' evs. DeleteTarget now t rt = Some (rt', evs) \<and> rt_inv rt' \<and>
    rt_abs rt' = (\<lambda>k. if rk_TargetKey k = tg_RouteTargetKey t then None else rt_abs rt k)"
proof -
  let ?c = "tg_Class t" and ?k = "tg_RouteTargetKey t"
  let ?P = "\<lambda>r. r_TargetKey r \<noteq> ?k"
  define gone where "gone = filter (\<lambda>r. \<not> ?P r) (map snd (byClass rt ?c))"
  have ci: "class_inv rt" using inv by (simp add: rt_inv_def)
  have "\<forall>r\<in>set gone. r_NetEnd r \<noteq> 65535"
    using stored_range_ok [OF ci] by (auto simp: gone_def)
  from affected_networks_ok [OF this, of "[]"] obtain ns where ns:
    "affected_networks gone [] = Some ns" "distinct ns" "set ns = {n. \<exists>r\<in>set gone. covers r n}"
    by auto
  have Q: "?P r \<longleftrightarrow> \<not> (class_of_key (rk_TargetKey k) = ?c \<and> \<not> ?P r)" if "rt_abs rt k = Some r" for k r
    using rt_abs_SomeD(1) [OF ci that] t by (auto simp: target_ok_def)
  have spec: "(case rt_abs rt k of Some r \<Rightarrow> if ?P r then Some r else None | None \<Rightarrow> None) =
      (if rk_TargetKey k = ?k then None else rt_abs rt k)" for k
    using rt_abs_SomeD(1) [OF ci] by (auto split: option.splits)
  note rem = remove_routes_ok [OF delete_target.net_op_axioms [of ?k] inv Q ns(2,3) gone_def, unfolded spec]
  show ?thesis
  proof (cases "gone = []")
    case True
    then have "ns = []" using ns(3) by simp
    have "filter (\<lambda>(k, r). ?P r) (byClass rt ?c) = byClass rt ?c"
      using True by (force simp: gone_def filter_empty_conv intro!: filter_True)
    then have "rt_abs (set_class ?c (filter (\<lambda>(k, r). ?P r)) rt) = rt_abs rt"
      by (intro abs_cong) (simp add: set_class_def)
    then have "rt_abs rt = (\<lambda>k. if rk_TargetKey k = ?k then None else rt_abs rt k)"
      using rem(2) unfolding \<open>ns = []\<close> by simp
    with True inv show ?thesis
      by (auto simp: DeleteTarget_def Let_def gone_def)
  next
    case False
    with ns(1) rem show ?thesis
      by (auto simp: DeleteTarget_def Let_def gone_def)
  qed
qed


lemma map_of_fold_update_other:
  "k \<notin> h ` set xs \<Longrightarrow> map_of (fold (\<lambda>x m. AList.update (h x) (v x) m) xs al) k = map_of al k"
  by (induction xs arbitrary: al) (simp_all add: update_conv')

lemma map_of_fold_update:
  "inj_on h (set xs) \<Longrightarrow> x \<in> set xs \<Longrightarrow>
   map_of (fold (\<lambda>x m. AList.update (h x) (v x) m) xs al) (h x) = Some (v x)"
proof (induction xs arbitrary: al)
  case (Cons y ys)
  show ?case
  proof (cases "x \<in> set ys")
    case False
    with Cons.prems have "x = y" "h x \<notin> h ` set ys" by (auto simp: inj_on_def)
    then show ?thesis by (simp add: map_of_fold_update_other update_conv')
  qed (use Cons in simp)
qed simp

lemma PruneExpiredRoutes_ok:
  assumes inv: "rt_inv rt"
  shows "\<exists>rt' evs. PruneExpiredRoutes now rt =
      Some (length (filter (expiredAt now) (map snd (byClass rt TargetClassAppleTalkPeer))), rt', evs) \<and>
    rt_inv rt' \<and>
    rt_abs rt' = (\<lambda>k. case rt_abs rt k of
        Some r \<Rightarrow> if expiredAt now r then None else Some r | None \<Rightarrow> None)"
proof -
  let ?c = TargetClassAppleTalkPeer
  let ?P = "\<lambda>r. \<not> expiredAt now r"
  define gone where "gone = filter (\<lambda>r. \<not> ?P r) (map snd (byClass rt ?c))"
  define xs where "xs = fold (\<lambda>r m. AList.update (r_RouteKey r) (r_LastSeen r) m) gone []"
  let ?Q = "\<lambda>r. case map_of xs (r_RouteKey r) of None \<Rightarrow> True | Some t \<Rightarrow> r_LastSeen r > t"
  have ci: "class_inv rt" using inv by (simp add: rt_inv_def)
  have gone: "r \<in> set gone \<longleftrightarrow> (r_RouteKey r, r) \<in> set (byClass rt ?c) \<and> expiredAt now r" for r
    using class_invD(1) [OF ci] by (force simp: gone_def)
  have inj: "inj_on r_RouteKey (set gone)"
    using class_inv_distinct [OF ci, of ?c] by (auto simp: inj_on_def gone eq_key_imp_eq_value)
  have Q: "?Q r \<longleftrightarrow> \<not> expiredAt now r"
    and Q': "?Q r \<longleftrightarrow> \<not> (class_of_key (rk_TargetKey k) = ?c \<and> \<not> ?P r)"
    if "rt_abs rt k = Some r" for k r
  proof -
    have k: "r_RouteKey r = k" "route_ok r" using rt_abs_SomeD [OF ci that] by auto
    have c: "expiredAt now r \<Longrightarrow> class_of_key (rk_TargetKey k) = ?c"
      using k by (auto simp: expiredAt_def route_ok_def target_ok_def split: option.splits)
    show "?Q r \<longleftrightarrow> \<not> expiredAt now r"
    proof (cases "expiredAt now r")
      case True
      with that c k have "r \<in> set gone" by (simp add: gone rt_abs_iff [OF ci])
      with True k show ?thesis using map_of_fold_update [OF inj, of r r_LastSeen "[]"]
        by (simp add: xs_def)
    next
      case False
      have "k \<notin> r_RouteKey ` set gone"
      proof
        assume "k \<in> r_RouteKey ` set gone"
        then obtain r' where "r' \<in> set gone" "r_RouteKey r' = k" by auto
        with that class_invD(2) [OF ci] have "r' = r" "expiredAt now r'"
          by (fastforce simp: gone rt_abs_iff [OF ci] dest: eq_key_imp_eq_value [OF class_inv_distinct [OF ci]])+
        with False show False by simp
      qed
      with k False show ?thesis by (simp add: xs_def map_of_fold_update_other)
    qed
    with c show "?Q r \<longleftrightarrow> \<not> (class_of_key (rk_TargetKey k) = ?c \<and> \<not> ?P r)" by auto
  qed
  have "\<forall>r\<in>set gone. r_NetEnd r \<noteq> 65535"
    using stored_range_ok [OF ci] by (auto simp: gone_def)
  from affected_networks_ok [OF this, of "[]"] obtain ns where ns:
    "affected_networks gone [] = Some ns" "distinct ns" "set ns = {n. \<exists>r\<in>set gone. covers r n}"
    by auto
  have spec: "(\<lambda>k. case rt_abs rt k of Some r \<Rightarrow> if ?Q r then Some r else None | None \<Rightarrow> None) =
      (\<lambda>k. case rt_abs rt k of Some r \<Rightarrow> if expiredAt now r then None else Some r | None \<Rightarrow> None)"
    using Q by (auto split: option.splits)
  note rem = remove_routes_ok [OF prune.net_op_axioms [of xs] inv Q' ns(2,3) gone_def, unfolded spec]
  show ?thesis
  proof (cases "gone = []")
    case True
    then have "xs = []" by (simp add: xs_def)
    then have "(\<lambda>k. case rt_abs rt k of Some r \<Rightarrow> if expiredAt now r then None else Some r
        | None \<Rightarrow> None) = rt_abs rt"
      unfolding spec [symmetric] by (auto split: option.splits)
    with True inv show ?thesis
      by (auto simp: PruneExpiredRoutes_def Let_def gone_def)
  next
    case False
    with ns(1) rem show ?thesis
      by (auto simp: PruneExpiredRoutes_def Let_def gone_def xs_def)
  qed
qed

end
