(* ===== verification/RouteTableReach.thy ===== *)
theory RouteTableReach
  imports RouteTableOps
begin

text \<open>
  The route table as a state machine: the tables the program can reach from the
  empty one through any sequence of operations.  Every reachable table satisfies
  the invariant; lookups on it return the best usable route.
\<close>

section \<open>Reachable tables\<close>

text \<open>
  One operation of the table.  A \<open>UpsertRoute\<close> whose range ends at 65535 has no
  successor state: it does not return.
\<close>

inductive rt_step :: "RouteTable \<Rightarrow> RouteTable \<Rightarrow> bool" where
  step_upsert: "target_ok t \<Longrightarrow> UpsertRoute now t ext s e d rt = Some (res, rt', evs) \<Longrightarrow> rt_step rt rt'"
| step_update: "target_ok t \<Longrightarrow> UpdateDistance now t s d rt = Some (err, rt', evs) \<Longrightarrow> rt_step rt rt'"
| step_delete: "target_ok t \<Longrightarrow> DeleteRoute now t s rt = Some (err, rt', evs) \<Longrightarrow> rt_step rt rt'"
| step_target: "target_ok t \<Longrightarrow> DeleteTarget now t rt = Some (rt', evs) \<Longrightarrow> rt_step rt rt'"
| step_prune: "PruneExpiredRoutes now rt = Some (k, rt', evs) \<Longrightarrow> rt_step rt rt'"
| step_add_zones: "AddZonesToNetwork now n zs rt = (rt', evs) \<Longrightarrow> rt_step rt rt'"
| step_replace_zones: "ReplaceZonesForNetwork now n zs rt = (rt', evs) \<Longrightarrow> rt_step rt rt'"
| step_observe: "rt_step rt (AddObserver o' rt)"
| step_unobserve: "rt_step rt (RemoveObserver o' rt)"
| step_bytes_in: "rt_step rt (noteDDPBytesIn r bytes rt)"
| step_bytes_out: "rt_step rt (noteDDPBytesOut r bytes rt)"

inductive rt_reach :: "RouteTable \<Rightarrow> bool" where
  reach_init: "rt_reach NewRouteTable"
| reach_step: "rt_reach rt \<Longrightarrow> rt_step rt rt' \<Longrightarrow> rt_reach rt'"

inductive_cases rt_stepE: "rt_step rt rt'"


section \<open>Every operation preserves the invariant\<close>

lemma UpsertRoute_errors:
  "s > e \<Longrightarrow> UpsertRoute now t ext s e d rt = Some (Inl (ErrInvalidRange s e), rt, [])"
  "s < e \<Longrightarrow> \<not> ext \<Longrightarrow>
   UpsertRoute now t ext s e d rt = Some (Inl (ErrInvalidNonextendedRange s e), rt, [])"
  "s \<le> e \<Longrightarrow> ext \<or> s = e \<Longrightarrow> d > maxRouteDistance \<Longrightarrow>
   UpsertRoute now t ext s e d rt = Some (Inl (ErrDistanceTooHigh d), rt, [])"
  by (auto simp: UpsertRoute_def)

lemma UpsertRoute_guards:
  assumes "UpsertRoute now t ext s e d rt = Some (Inr new, rt', evs)"
  shows "s \<le> e" "ext \<or> s = e" "d \<le> maxRouteDistance"
proof -
  show le: "s \<le> e"
    using assms UpsertRoute_errors(1) [of e s now t ext d rt] by (cases "s \<le> e") auto
  show ext: "ext \<or> s = e"
    using assms UpsertRoute_errors(2) [of s e ext now t d rt] le
    by (cases "ext \<or> s = e") (auto dest: order_le_neq_trans)
  show "d \<le> maxRouteDistance"
    using assms UpsertRoute_errors(3) [OF le ext, of d now t rt] by (cases "d \<le> maxRouteDistance") auto
qed

lemma upsert_index_65535:
  assumes "r_NetEnd new = 65535" shows "upsert_index old new rt = None"
  using assms by (simp add: upsert_index_def Let_def net_for_65535 split: option.split)

lemma UpsertRoute_65535:
  assumes "s \<noteq> 65535 \<longrightarrow> ext" "d \<le> maxRouteDistance"
  shows "UpsertRoute now t ext s 65535 d rt = None"
proof -
  have "r_NetEnd (new_route now t ext s 65535 d a) = 65535" for a
    by (simp add: new_route_def)
  then show ?thesis
    using assms
    by (auto simp: UpsertRoute_def Let_def upsert_index_65535 not_less split: prod.split)
qed

lemma rt_inv_UpsertRoute:
  assumes "rt_inv rt" "target_ok t" "UpsertRoute now t ext s e d rt = Some (res, rt', evs)"
  shows "rt_inv rt'"
proof (cases "s \<le> e \<and> (ext \<or> s = e) \<and> d \<le> maxRouteDistance")
  case True
  then have "e \<noteq> 65535"
    using assms(3) UpsertRoute_65535 by (metis option.distinct(1))
  with True UpsertRoute_ok [OF assms(1,2), of s e ext d now] assms(3) show ?thesis
    by auto
next
  case False
  then show ?thesis
    using assms(1,3) UpsertRoute_errors(1) [of e s now t ext d rt]
      UpsertRoute_errors(2) [of s e ext now t d rt] UpsertRoute_errors(3) [of s e ext d now t rt]
    by (cases "s > e"; cases "s = e"; cases ext) (auto simp: not_le)
qed

lemma rt_inv_UpdateDistance:
  assumes "rt_inv rt" "target_ok t" "UpdateDistance now t s d rt = Some (err, rt', evs)"
  shows "rt_inv rt'"
proof (cases "d \<le> maxRouteDistance \<and> rt_abs rt (target_key t s) \<noteq> None")
  case True
  then obtain old where "d \<le> maxRouteDistance" "rt_abs rt (target_key t s) = Some old"
    by auto
  then show ?thesis
    using UpdateDistance_ok [OF assms(1,2), of d s old now] assms(3) by auto
next
  case False
  have "class_inv rt" using assms(1) by (simp add: rt_inv_def)
  with False assms show ?thesis
    by (auto simp: UpdateDistance_def Let_def find_route_Zero not_le split: if_splits)
qed

lemma rt_inv_DeleteRoute:
  assumes "rt_inv rt" "target_ok t" "DeleteRoute now t s rt = Some (err, rt', evs)"
  shows "rt_inv rt'"
proof (cases "rt_abs rt (target_key t s)")
  case (Some old)
  then show ?thesis
    using DeleteRoute_ok [OF assms(1,2) Some, of now] assms(3) by auto
next
  case None
  have "class_inv rt" using assms(1) by (simp add: rt_inv_def)
  with None assms show ?thesis
    by (simp add: DeleteRoute_missing)
qed

lemma rt_inv_zones:
  assumes "rt_inv rt"
  shows "rt_inv (fst (AddZonesToNetwork now n zs rt))"
    "rt_inv (fst (ReplaceZonesForNetwork now n zs rt))"
proof -
  have "class_inv rt" "index_inv (rt_abs rt) (routes_of rt)" "zone_inv rt"
    using assms by (auto simp: rt_inv_def)
  moreover have "byClass (fst (AddZonesToNetwork now n zs rt)) = byClass rt"
    "routes_of (fst (AddZonesToNetwork now n zs rt)) = routes_of rt"
    "byClass (fst (ReplaceZonesForNetwork now n zs rt)) = byClass rt"
    "routes_of (fst (ReplaceZonesForNetwork now n zs rt)) = routes_of rt"
    by (auto simp: AddZonesToNetwork_def ReplaceZonesForNetwork_def Let_def fun_eq_iff)
  ultimately show "rt_inv (fst (AddZonesToNetwork now n zs rt))"
    "rt_inv (fst (ReplaceZonesForNetwork now n zs rt))"
    using abs_cong [of "fst (AddZonesToNetwork now n zs rt)" rt]
      abs_cong [of "fst (ReplaceZonesForNetwork now n zs rt)" rt]
    by (simp_all add: rt_inv_def zone_inv_AddZones zone_inv_ReplaceZones)
qed

lemma rt_inv_frame:
  assumes "rt_inv rt" "byClass rt' = byClass rt" "byNetwork rt' = byNetwork rt"
    "networksByZone rt' = networksByZone rt"
  shows "rt_inv rt'"
proof -
  have "zone_inv rt' \<longleftrightarrow> zone_inv rt"
    unfolding zone_inv_def networksForZone_def assms(3,4) ..
  then show ?thesis
    using assms(1) abs_cong [OF assms(2)] by (simp add: rt_inv_def assms(3))
qed

lemma rt_inv_step: "rt_step rt rt' \<Longrightarrow> rt_inv rt \<Longrightarrow> rt_inv rt'"
proof (induction rule: rt_step.induct)
  case (step_target t now rt rt' evs)
  then show ?case using DeleteTarget_ok [of rt t now] by auto
next
  case (step_prune now rt k rt' evs)
  then show ?case using PruneExpiredRoutes_ok [of rt now] by auto
next
  case (step_add_zones now n zs rt rt' evs)
  then show ?case using rt_inv_zones(1) [of rt now n zs] by simp
next
  case (step_replace_zones now n zs rt rt' evs)
  then show ?case using rt_inv_zones(2) [of rt now n zs] by simp
qed (auto simp: AddObserver_def RemoveObserver_def noteDDPBytesIn_def noteDDPBytesOut_def
    intro: rt_inv_UpsertRoute rt_inv_UpdateDistance rt_inv_DeleteRoute
    elim: rt_inv_frame split: option.split)

lemma rt_inv_reach: "rt_reach rt \<Longrightarrow> rt_inv rt"
  by (induction rule: rt_reach.induct) (auto intro: rt_inv_init rt_inv_step)


section \<open>Lookups\<close>

text \<open>A preference-sorted list: the first route with \<open>P\<close> is a best one with \<open>P\<close>.\<close>

lemma first_route_best:
  assumes "sorted (map pref_key rs)" "\<forall>r\<in>set rs. P r \<longrightarrow> \<not> Route_Zero r"
  shows "if Route_Zero (first_route P rs) then \<forall>r\<in>set rs. \<not> P r
    else first_route P rs \<in> set rs \<and> P (first_route P rs) \<and>
      (\<forall>r\<in>set rs. P r \<longrightarrow> pref_key (first_route P rs) \<le> pref_key r)"
  using assms
proof (induction rs)
  case (Cons r rs)
  then show ?case
    by (cases "P r") (auto simp: first_route_def split: option.splits if_splits)
qed (simp add: first_route_def)

lemma routes_of_reach:
  assumes "rt_inv rt"
  shows "r \<in> set (routes_of rt n) \<longleftrightarrow> r \<in> set (Dump rt) \<and> covers r n"
    and "sorted (map pref_key (routes_of rt n))"
  using assms by (auto simp: rt_inv_def index_inv_def set_Dump)


lemma reach_Dump:
  assumes "rt_inv rt" "r \<in> set (Dump rt)"
  shows "rt_abs rt (r_RouteKey r) = Some r" "route_ok r"
  using assms rt_abs_SomeD by (auto simp: rt_inv_def set_Dump)

lemma Valid_not_Zero: "Route_Valid rt now r \<Longrightarrow> \<not> Route_Zero r"
  by (simp add: Route_Valid_def validIgnoringAge_def)

lemma lookup_best:
  assumes "rt_inv rt" "\<And>r. P r \<Longrightarrow> Route_Valid rt now r"
  shows "if Route_Zero (first_route P (routes_of rt n))
    then \<forall>r\<in>set (Dump rt). covers r n \<longrightarrow> \<not> P r
    else first_route P (routes_of rt n) \<in> set (Dump rt) \<and>
      covers (first_route P (routes_of rt n)) n \<and> P (first_route P (routes_of rt n)) \<and>
      (\<forall>r\<in>set (Dump rt). covers r n \<and> P r \<longrightarrow> pref_key (first_route P (routes_of rt n)) \<le> pref_key r)"
proof -
  have "\<forall>r\<in>set (routes_of rt n). P r \<longrightarrow> \<not> Route_Zero r"
    using assms(2) Valid_not_Zero by blast
  from first_route_best [OF routes_of_reach(2) [OF assms(1)] this] show ?thesis
    by (auto simp: routes_of_reach(1) [OF assms(1)] split: if_splits)
qed


section \<open>What an observer sees\<close>

text \<open>
  The part of the best route that observers are told about, and how a
  notification changes an observer's picture of it.
\<close>

definition observed :: "Route \<Rightarrow> (string \<times> byte \<times> bool \<times> network) option" where
  "observed r =
     (if Route_Zero r then None else Some (r_TargetKey r, r_Distance r, r_Extended r, r_NetEnd r))"

fun apply_notification ::
  "nat \<Rightarrow> notification \<Rightarrow> (string \<times> byte \<times> bool \<times> network) option \<Rightarrow>
   (string \<times> byte \<times> bool \<times> network) option" where
  "apply_notification o' (NetworkAdded i r) v = (if i = o' then observed r else v)"
| "apply_notification o' (NetworkDeleted i r) v = (if i = o' then None else v)"
| "apply_notification o' (BestNetworkChanged i a b) v = (if i = o' then observed b else v)"

lemma fold_map_notify:
  assumes "\<And>i. apply_notification o' (C i) v = (if i = o' then w else v)"
    and "apply_notification o' (C o') w = w" "\<And>i. i \<noteq> o' \<Longrightarrow> apply_notification o' (C i) w = w"
    and "o' \<in> set xs"
  shows "fold (apply_notification o') (map C xs) v = w"
proof -
  have stay: "fold (apply_notification o') (map C ys) w = w" for ys
    using assms(2,3) by (induction ys) (simp, metis fold_simps(2) list.simps(9))
  show ?thesis
    using assms(4)
  proof (induction xs)
    case (Cons x xs)
    then show ?case by (cases "x = o'") (simp_all add: assms(1) stay)
  qed simp
qed

lemma informObservers_view:
  assumes "o' \<in> set (observers rt)"
  shows "fold (apply_notification o') (informObservers a b rt) (observed a) = observed b"
proof -
  let ?xs = "observers rt"
  have added: "fold (apply_notification o') (map (\<lambda>i. NetworkAdded i b) ?xs) v = observed b" for v
    using assms by (intro fold_map_notify) auto
  have deleted: "fold (apply_notification o') (map (\<lambda>i. NetworkDeleted i a) ?xs) v = None" for v
    using assms by (intro fold_map_notify) auto
  have changed: "fold (apply_notification o') (map (\<lambda>i. BestNetworkChanged i a b) ?xs) v = observed b" for v
    using assms by (intro fold_map_notify) auto
  show ?thesis
    by (auto simp: informObservers_def added deleted changed) (auto simp: observed_def)
qed



section \<open>A sample table\<close>

text \<open>One port with networks 5 to 6 in zone ``Lab'', for the concrete instances below.\<close>

definition sample_port :: RouteTarget where
  "sample_port =
     \<lparr>tg_Class = TargetClassDirect, tg_RouteTargetKey = ''EtherTalkPort|eth0'', tg_TunnelID = None\<rparr>"

definition sample_routes :: RouteTable where
  "sample_routes = fst (snd (the (UpsertRoute 0 sample_port True 5 6 0 NewRouteTable)))"

definition sample_table :: RouteTable where
  "sample_table = fst (AddZonesToNetwork 0 5 [''Lab''] sample_routes)"

lemma sample_port_ok: "target_ok sample_port"
  by (simp add: target_ok_def sample_port_def class_of_key_def)

lemma sample_reach: "rt_reach sample_table"
proof -
  have "\<exists>new rt' evs. UpsertRoute 0 sample_port True 5 6 0 NewRouteTable = Some (Inr new, rt', evs)"
    using UpsertRoute_ok [OF rt_inv_init sample_port_ok, of 5 6 True 0 0] by auto
  then obtain new evs where
    "UpsertRoute 0 sample_port True 5 6 0 NewRouteTable = Some (Inr new, sample_routes, evs)"
    by (auto simp: sample_routes_def)
  then have "rt_reach sample_routes"
    using reach_step [OF reach_init] step_upsert [OF sample_port_ok] by blast
  then show ?thesis
    unfolding sample_table_def
    by (metis reach_step step_add_zones prod.collapse)
qed

lemma sample_stored: "\<exists>r. rt_abs sample_table (target_key sample_port 5) = Some r"
proof -
  obtain new rt' evs where "UpsertRoute 0 sample_port True 5 6 0 NewRouteTable = Some (Inr new, rt', evs)"
    "rt_abs rt' = (rt_abs NewRouteTable)(target_key sample_port 5 \<mapsto> new)"
    using UpsertRoute_ok [OF rt_inv_init sample_port_ok, of 5 6 True 0 0] by auto
  then have "rt_abs sample_routes (target_key sample_port 5) = Some new"
    by (simp add: sample_routes_def)
  moreover have "byClass sample_table = byClass sample_routes"
    by (simp add: sample_table_def AddZonesToNetwork_def Let_def)
  ultimately show ?thesis
    using abs_cong(1) by metis
qed


section \<open>Properties\<close>

text \<open>
  C1: Whatever sequence of operations the program performs, the class index, the
  forwarding index and the two zone indexes of the route table agree: each
  network lists exactly the stored routes that cover it, in order of
  preference, and a zone lists exactly the networks that have it.
\<close>

theorem route_table_invariant:
  assumes "rt_reach rt"
  shows "\<forall>n. set (routes_of rt n) = {r. r \<in> set (Dump rt) \<and> covers r n} \<and>
      sorted (map pref_key (routes_of rt n)) \<and> distinct (map r_RouteKey (routes_of rt n)) \<and>
      (\<forall>z. n \<in> set (networksForZone z rt) \<longleftrightarrow> z \<in> set (zones_of rt n))"
  using rt_inv_reach [OF assms] routes_of_reach [OF rt_inv_reach [OF assms]]
  by (auto simp: rt_inv_def index_inv_def zone_inv_def)

theorem route_table_invariant_witness:
  "\<forall>n. set (routes_of sample_table n) = {r. r \<in> set (Dump sample_table) \<and> covers r n} \<and>
      sorted (map pref_key (routes_of sample_table n)) \<and>
      distinct (map r_RouteKey (routes_of sample_table n)) \<and>
      (\<forall>z. n \<in> set (networksForZone z sample_table) \<longleftrightarrow> z \<in> set (zones_of sample_table n))"
  by (rule route_table_invariant [OF sample_reach])

text \<open>
  C2: \<open>Lookup\<close> returns the zero route exactly when no stored route that covers the
  network is valid, and otherwise a valid stored route that covers it and that
  no other valid one precedes in the preference order.
\<close>

theorem Lookup_best:
  assumes "rt_reach rt"
  shows "if Route_Zero (Lookup now n rt)
    then \<forall>r\<in>set (Dump rt). covers r n \<longrightarrow> \<not> Route_Valid rt now r
    else Lookup now n rt \<in> set (Dump rt) \<and> covers (Lookup now n rt) n \<and>
      Route_Valid rt now (Lookup now n rt) \<and>
      (\<forall>r\<in>set (Dump rt). covers r n \<and> Route_Valid rt now r \<longrightarrow>
         compareRoutePreference (Lookup now n rt) r \<le> 0)"
  unfolding Lookup_def compareRoutePreference_le
  by (rule lookup_best [OF rt_inv_reach [OF assms]])

theorem Lookup_best_witness:
  "if Route_Zero (Lookup 1 6 sample_table)
   then \<forall>r\<in>set (Dump sample_table). covers r 6 \<longrightarrow> \<not> Route_Valid sample_table 1 r
   else Lookup 1 6 sample_table \<in> set (Dump sample_table) \<and> covers (Lookup 1 6 sample_table) 6 \<and>
      Route_Valid sample_table 1 (Lookup 1 6 sample_table) \<and>
      (\<forall>r\<in>set (Dump sample_table). covers r 6 \<and> Route_Valid sample_table 1 r \<longrightarrow>
         compareRoutePreference (Lookup 1 6 sample_table) r \<le> 0)"
  by (rule Lookup_best [OF sample_reach])

text \<open>
  \<open>LookupAvoidingAURPTunnel\<close> never returns a route learned over the tunnel it
  avoids, so a packet that came in over a tunnel is not sent back into it; among
  the other valid routes it returns a best one whenever there is one.
\<close>

theorem avoiding_lookup_best:
  assumes "rt_reach rt"
  shows "if Route_Zero (LookupAvoidingAURPTunnel now n tunnel rt)
    then \<forall>r\<in>set (Dump rt). covers r n \<longrightarrow> \<not> (Route_Valid rt now r \<and> \<not> from_tunnel tunnel r)
    else LookupAvoidingAURPTunnel now n tunnel rt \<in> set (Dump rt) \<and>
      covers (LookupAvoidingAURPTunnel now n tunnel rt) n \<and>
      (Route_Valid rt now (LookupAvoidingAURPTunnel now n tunnel rt) \<and>
       \<not> from_tunnel tunnel (LookupAvoidingAURPTunnel now n tunnel rt)) \<and>
      (\<forall>r\<in>set (Dump rt). covers r n \<and> Route_Valid rt now r \<and> \<not> from_tunnel tunnel r \<longrightarrow>
         compareRoutePreference (LookupAvoidingAURPTunnel now n tunnel rt) r \<le> 0)"
  unfolding LookupAvoidingAURPTunnel_def compareRoutePreference_le
  by (rule lookup_best [OF rt_inv_reach [OF assms]]) (erule conjunct1)

theorem avoiding_lookup_best_witness:
  "if Route_Zero (LookupAvoidingAURPTunnel 1 6 ''t1'' sample_table)
   then \<forall>r\<in>set (Dump sample_table). covers r 6 \<longrightarrow>
      \<not> (Route_Valid sample_table 1 r \<and> \<not> from_tunnel ''t1'' r)
   else LookupAvoidingAURPTunnel 1 6 ''t1'' sample_table \<in> set (Dump sample_table) \<and>
      covers (LookupAvoidingAURPTunnel 1 6 ''t1'' sample_table) 6 \<and>
      (Route_Valid sample_table 1 (LookupAvoidingAURPTunnel 1 6 ''t1'' sample_table) \<and>
       \<not> from_tunnel ''t1'' (LookupAvoidingAURPTunnel 1 6 ''t1'' sample_table)) \<and>
      (\<forall>r\<in>set (Dump sample_table). covers r 6 \<and> Route_Valid sample_table 1 r \<and>
         \<not> from_tunnel ''t1'' r \<longrightarrow>
         compareRoutePreference (LookupAvoidingAURPTunnel 1 6 ''t1'' sample_table) r \<le> 0)"
  by (rule avoiding_lookup_best [OF sample_reach])


text \<open>
  C35: \<open>UpsertRoute\<close> with a valid range below 65535 and a distance of at most 15
  returns, stores exactly one route under the key of the target and the range
  start, and leaves the routes under every other key as they were.
\<close>

theorem UpsertRoute_refines:
  assumes "rt_reach rt" "target_ok t" "s \<le> e" "ext \<or> s = e" "e \<noteq> 65535" "d \<le> maxRouteDistance"
  shows "\<exists>new rt' evs. UpsertRoute now t ext s e d rt = Some (Inr new, rt', evs) \<and> rt_reach rt' \<and>
    rt_abs rt' = (rt_abs rt)(target_key t s \<mapsto> new) \<and> find_route t s rt' = new \<and>
    r_NetEnd new = e \<and> r_Distance new = d \<and> r_Target new = Some t \<and> r_LastSeen new = now"
proof -
  from UpsertRoute_ok [OF rt_inv_reach [OF assms(1)] assms(2-6), of now] obtain new rt' evs where
    u: "UpsertRoute now t ext s e d rt = Some (Inr new, rt', evs)"
      "rt_abs rt' = (rt_abs rt)(target_key t s \<mapsto> new)"
      "r_NetEnd new = e" "r_Distance new = d" "r_Target new = Some t" "r_LastSeen new = now"
    by blast
  moreover have "rt_reach rt'"
    using assms(1) step_upsert [OF assms(2) u(1)] by (rule reach_step)
  ultimately show ?thesis
    using find_route_abs [OF assms(2), of s rt'] by auto
qed

theorem UpsertRoute_refines_witness:
  "\<exists>new rt' evs. UpsertRoute 2 sample_port True 5 9 0 sample_table = Some (Inr new, rt', evs) \<and>
    rt_reach rt' \<and> rt_abs rt' = (rt_abs sample_table)(target_key sample_port 5 \<mapsto> new) \<and>
    find_route sample_port 5 rt' = new \<and> r_NetEnd new = 9 \<and> r_Distance new = 0 \<and>
    r_Target new = Some sample_port \<and> r_LastSeen new = 2"
  by (rule UpsertRoute_refines [OF sample_reach sample_port_ok]) simp_all

text \<open>
  C36: \<open>UpsertRoute\<close> never returns when the range ends at 65535 and the arguments
  pass its checks: the 16-bit loop counter wraps around.
\<close>

theorem UpsertRoute_diverges:
  assumes "s = 65535 \<or> ext" "d \<le> maxRouteDistance"
  shows "UpsertRoute now t ext s 65535 d rt = None"
  using assms by (intro UpsertRoute_65535) auto

theorem UpsertRoute_diverges_witness: "UpsertRoute 0 sample_port True 65000 65535 1 NewRouteTable = None"
  by (rule UpsertRoute_diverges) simp_all

text \<open>
  \<open>UpdateDistance\<close> on a stored route changes its distance and its time of
  last refresh and nothing else, and keeps the table consistent; on a route
  that is not stored it reports an error and changes nothing.
\<close>

theorem UpdateDistance_refines:
  assumes "rt_reach rt" "target_ok t" "d \<le> maxRouteDistance"
  shows "case rt_abs rt (target_key t s) of
      Some old \<Rightarrow> \<exists>rt' evs. UpdateDistance now t s d rt = Some (None, rt', evs) \<and> rt_reach rt' \<and>
        rt_abs rt' = (rt_abs rt)(target_key t s \<mapsto> old\<lparr>r_LastSeen := now, r_Distance := d\<rparr>)
    | None \<Rightarrow> UpdateDistance now t s d rt = Some (Some (ErrRouteNotFound (target_key t s)), rt, [])"
proof (cases "rt_abs rt (target_key t s)")
  case None
  have "class_inv rt" using rt_inv_reach [OF assms(1)] by (simp add: rt_inv_def)
  with None assms show ?thesis
    by (auto simp: UpdateDistance_def Let_def find_route_Zero)
next
  case (Some old)
  from UpdateDistance_ok [OF rt_inv_reach [OF assms(1)] assms(2,3) Some, of now] obtain rt' evs where
    u: "UpdateDistance now t s d rt = Some (None, rt', evs)"
      "rt_abs rt' = (rt_abs rt)(target_key t s \<mapsto> old\<lparr>r_LastSeen := now, r_Distance := d\<rparr>)"
    by blast
  moreover have "rt_reach rt'"
    using assms(1) step_update [OF assms(2) u(1)] by (rule reach_step)
  ultimately show ?thesis using Some by simp
qed

theorem UpdateDistance_refines_witness:
  "case rt_abs sample_table (target_key sample_port 5) of
      Some old \<Rightarrow> \<exists>rt' evs. UpdateDistance 3 sample_port 5 2 sample_table = Some (None, rt', evs) \<and>
        rt_reach rt' \<and>
        rt_abs rt' = (rt_abs sample_table)
          (target_key sample_port 5 \<mapsto> old\<lparr>r_LastSeen := 3, r_Distance := 2\<rparr>)
    | None \<Rightarrow> UpdateDistance 3 sample_port 5 2 sample_table =
        Some (Some (ErrRouteNotFound (target_key sample_port 5)), sample_table, [])"
  by (rule UpdateDistance_refines [OF sample_reach sample_port_ok]) simp

text \<open>
  \<open>DeleteRoute\<close> removes exactly the route of the given target and range start;
  if there is none it reports an error and changes nothing.
\<close>

theorem DeleteRoute_refines:
  assumes "rt_reach rt" "target_ok t"
  shows "case rt_abs rt (target_key t s) of
      Some old \<Rightarrow> \<exists>rt' evs. DeleteRoute now t s rt = Some (None, rt', evs) \<and> rt_reach rt' \<and>
        rt_abs rt' = (rt_abs rt)(target_key t s := None)
    | None \<Rightarrow> DeleteRoute now t s rt = Some (Some (ErrRouteNotFound (target_key t s)), rt, [])"
proof (cases "rt_abs rt (target_key t s)")
  case None
  then show ?thesis
    using DeleteRoute_missing [OF _ assms(2) None] rt_inv_reach [OF assms(1)]
    by (simp add: rt_inv_def)
next
  case (Some old)
  from DeleteRoute_ok [OF rt_inv_reach [OF assms(1)] assms(2) Some, of now] obtain rt' evs where
    u: "DeleteRoute now t s rt = Some (None, rt', evs)"
      "rt_abs rt' = (rt_abs rt)(target_key t s := None)"
    by blast
  moreover have "rt_reach rt'"
    using assms(1) step_delete [OF assms(2) u(1)] by (rule reach_step)
  ultimately show ?thesis using Some by simp
qed

theorem DeleteRoute_refines_witness:
  "case rt_abs sample_table (target_key sample_port 5) of
      Some old \<Rightarrow> \<exists>rt' evs. DeleteRoute 3 sample_port 5 sample_table = Some (None, rt', evs) \<and>
        rt_reach rt' \<and> rt_abs rt' = (rt_abs sample_table)(target_key sample_port 5 := None)
    | None \<Rightarrow> DeleteRoute 3 sample_port 5 sample_table =
        Some (Some (ErrRouteNotFound (target_key sample_port 5)), sample_table, [])"
  by (rule DeleteRoute_refines [OF sample_reach sample_port_ok])

text \<open>
  \<open>DeleteTarget\<close> removes all routes of the target and no others: afterwards no
  stored route and no forwarding entry of any network refers to it.
\<close>

theorem DeleteTarget_removes_all:
  assumes "rt_reach rt" "target_ok t"
  shows "\<exists>rt' evs. DeleteTarget now t rt = Some (rt', evs) \<and> rt_reach rt' \<and>
    set (Dump rt') = {r \<in> set (Dump rt). r_TargetKey r \<noteq> tg_RouteTargetKey t} \<and>
    (\<forall>n. \<forall>r\<in>set (routes_of rt' n). r_TargetKey r \<noteq> tg_RouteTargetKey t)"
proof -
  from DeleteTarget_ok [OF rt_inv_reach [OF assms(1)] assms(2), of now] obtain rt' evs where
    u: "DeleteTarget now t rt = Some (rt', evs)" "rt_inv rt'"
      "rt_abs rt' = (\<lambda>k. if rk_TargetKey k = tg_RouteTargetKey t then None else rt_abs rt k)"
    by blast
  have "set (Dump rt') = {r \<in> set (Dump rt). r_TargetKey r \<noteq> tg_RouteTargetKey t}"
    using rt_inv_reach [OF assms(1)] u(2,3) by (auto simp: set_Dump rt_inv_def split: if_splits)
  moreover have "rt_reach rt'"
    using assms(1) step_target [OF assms(2) u(1)] by (rule reach_step)
  ultimately show ?thesis
    using u(1) routes_of_reach(1) [OF u(2)] by auto
qed

theorem DeleteTarget_removes_all_witness:
  "\<exists>rt' evs. DeleteTarget 4 sample_port sample_table = Some (rt', evs) \<and> rt_reach rt' \<and>
    set (Dump rt') = {r \<in> set (Dump sample_table). r_TargetKey r \<noteq> tg_RouteTargetKey sample_port} \<and>
    (\<forall>n. \<forall>r\<in>set (routes_of rt' n). r_TargetKey r \<noteq> tg_RouteTargetKey sample_port)"
  by (rule DeleteTarget_removes_all [OF sample_reach sample_port_ok])

text \<open>
  \<open>PruneExpiredRoutes\<close> removes exactly the RTMP-learned routes that have not
  been refreshed for more than ten minutes, and reports how many they were.
\<close>

theorem PruneExpiredRoutes_removes_expired:
  assumes "rt_reach rt"
  shows "\<exists>k rt' evs. PruneExpiredRoutes now rt = Some (k, rt', evs) \<and> rt_reach rt' \<and>
    k = length (filter (expiredAt now) (Dump rt)) \<and>
    set (Dump rt') = {r \<in> set (Dump rt). \<not> expiredAt now r}"
proof -
  have inv: "rt_inv rt" by (rule rt_inv_reach [OF assms])
  then have ci: "class_inv rt" by (simp add: rt_inv_def)
  from PruneExpiredRoutes_ok [OF inv, of now] obtain rt' evs where
    u: "PruneExpiredRoutes now rt =
        Some (length (filter (expiredAt now) (map snd (byClass rt TargetClassAppleTalkPeer))), rt', evs)"
      "rt_inv rt'"
      "rt_abs rt' = (\<lambda>k. case rt_abs rt k of
        Some r \<Rightarrow> if expiredAt now r then None else Some r | None \<Rightarrow> None)"
    by blast
  have other: "filter (expiredAt now) (map snd (byClass rt c)) = []"
    if c: "c \<noteq> TargetClassAppleTalkPeer" for c
  proof -
    have "\<not> expiredAt now r" if "(k, r) \<in> set (byClass rt c)" for k r
      using class_invD [OF ci that] c
      by (auto simp: expiredAt_def route_ok_def target_ok_def split: option.splits)
    then show ?thesis by (auto simp: filter_empty_conv)
  qed
  have "set (Dump rt') = {r \<in> set (Dump rt). \<not> expiredAt now r}"
    using inv u(2,3) by (auto simp: set_Dump rt_inv_def split: if_splits option.splits)
  moreover have "rt_reach rt'"
    using assms step_prune [OF u(1)] by (rule reach_step)
  ultimately show ?thesis
    using u(1) other by (simp add: Dump_def)
qed

theorem PruneExpiredRoutes_removes_expired_witness:
  "\<exists>k rt' evs. PruneExpiredRoutes 5 sample_table = Some (k, rt', evs) \<and> rt_reach rt' \<and>
    k = length (filter (expiredAt 5) (Dump sample_table)) \<and>
    set (Dump rt') = {r \<in> set (Dump sample_table). \<not> expiredAt 5 r}"
  by (rule PruneExpiredRoutes_removes_expired [OF sample_reach])


text \<open>
  The notifications of an insertion keep every observer up to date: replaying
  them turns its picture of the best route of the changed network before the
  call into the best route after it.
\<close>

theorem UpsertRoute_notifies:
  assumes "rt_reach rt" "target_ok t" "UpsertRoute now t ext s e d rt = Some (Inr new, rt', evs)"
    and "o' \<in> set (observers rt)"
  shows "fold (apply_notification o') evs (observed (Lookup now s rt)) = observed (Lookup now s rt')"
proof -
  note guards = UpsertRoute_guards [OF assms(3)]
  then have "e \<noteq> 65535"
    using assms(3) UpsertRoute_65535 [of s ext d now t rt] by auto
  with guards have "observers rt' = observers rt"
    "evs = informObservers (Lookup now s rt) (Lookup now s rt') rt'"
    using UpsertRoute_ok [OF rt_inv_reach [OF assms(1)] assms(2), of s e ext d now] assms(3) by auto
  with assms(4) show ?thesis
    by (simp add: informObservers_view)
qed

theorem UpsertRoute_notifies_witness:
  "\<exists>new rt' evs. UpsertRoute 2 sample_port True 5 9 0 (AddObserver 7 sample_table) =
      Some (Inr new, rt', evs) \<and>
    fold (apply_notification 7) evs (observed (Lookup 2 5 (AddObserver 7 sample_table))) =
      observed (Lookup 2 5 rt')"
proof -
  have r: "rt_reach (AddObserver 7 sample_table)"
    using sample_reach step_observe by (rule reach_step)
  obtain new rt' evs where "UpsertRoute 2 sample_port True 5 9 0 (AddObserver 7 sample_table) =
      Some (Inr new, rt', evs)"
    using UpsertRoute_ok [OF rt_inv_reach [OF r] sample_port_ok, of 5 9 True 0 2] by auto
  moreover have "7 \<in> set (observers (AddObserver 7 sample_table))"
    by (simp add: AddObserver_def)
  ultimately show ?thesis
    using UpsertRoute_notifies [OF r sample_port_ok] by blast
qed

text \<open>
  \<open>RoutesForZone\<close> yields, for each network of the zone that is reachable at
  all, its best route, and nothing else.
\<close>

theorem RoutesForZone_complete:
  assumes "rt_reach rt"
  shows "set (RoutesForZone now zone rt) =
    {Lookup now n rt | n. zone \<in> set (zones_of rt n) \<and> \<not> Route_Zero (Lookup now n rt)}"
proof -
  have "n \<in> set (networksForZone zone rt) \<longleftrightarrow> zone \<in> set (zones_of rt n)" for n
    using rt_inv_reach [OF assms] by (simp add: rt_inv_def zone_inv_def)
  then show ?thesis by (auto simp: RoutesForZone_def)
qed

theorem RoutesForZone_complete_witness:
  "set (RoutesForZone 1 ''Lab'' sample_table) =
    {Lookup 1 n sample_table | n. ''Lab'' \<in> set (zones_of sample_table n) \<and>
       \<not> Route_Zero (Lookup 1 n sample_table)}"
  by (rule RoutesForZone_complete [OF sample_reach])

end
