(* ===== verification/RouterConfig.thy ===== *)
theory RouterConfig
  imports Routes
begin

text \<open>
  The configuration and its validation (\<open>src/router/config.go\<close>).  The YAML decoder
  is another module (\<open>ConfigText\<close> has the methods that it calls): the model starts from
  the decoded \<open>Config\<close> and is everything \<open>LoadConfig\<close> does with it, the defaults, the checks in the order of the code
  and the list of errors that are joined at the end.

  Strings are ASCII: \<open>strings.ToLower\<close>, \<open>strings.TrimSpace\<close> and \<open>strings.EqualFold\<close>
  are modelled on ASCII bytes and leave other bytes alone.
\<close>

section \<open>Strings\<close>

definition ascii_lower :: "char \<Rightarrow> char" where
  "ascii_lower c = (if CHR ''A'' \<le> c \<and> c \<le> CHR ''Z'' then char_of (of_char c + 32 :: nat) else c)"

definition strings_ToLower :: "string \<Rightarrow> string" where
  "strings_ToLower = map ascii_lower"

definition strings_EqualFold :: "string \<Rightarrow> string \<Rightarrow> bool" where
  "strings_EqualFold s t \<longleftrightarrow> strings_ToLower s = strings_ToLower t"

definition ascii_space :: "char \<Rightarrow> bool" where
  "ascii_space c \<longleftrightarrow> c = CHR '' '' \<or> (of_char c :: nat) \<in> {9, 10, 11, 12, 13}"

definition strings_TrimSpace :: "string \<Rightarrow> string" where
  "strings_TrimSpace s = rev (dropWhile ascii_space (rev (dropWhile ascii_space s)))"


section \<open>Configuration\<close>

abbreviation Second :: time where "Second \<equiv> 1000000000"

record AURPNetworkRange =
  nr_Start :: network
  nr_End :: network

definition nr_contains :: "AURPNetworkRange \<Rightarrow> network \<Rightarrow> bool" where
  "nr_contains r n \<longleftrightarrow> n \<ge> nr_Start r \<and> n \<le> nr_End r"

definition nr_overlaps :: "AURPNetworkRange \<Rightarrow> network \<Rightarrow> network \<Rightarrow> bool" where
  "nr_overlaps r start end' \<longleftrightarrow> start \<le> nr_End r \<and> end' \<ge> nr_Start r"

record AURPRemapRule =
  rr_Peer :: string
  rr_RemoteStart :: network
  rr_RemoteEnd :: network
  rr_LocalStart :: network
  rr_LocalEnd :: network

definition remoteRange :: "AURPRemapRule \<Rightarrow> AURPNetworkRange" where
  "remoteRange r = \<lparr>nr_Start = rr_RemoteStart r, nr_End = rr_RemoteEnd r\<rparr>"

definition localRange :: "AURPRemapRule \<Rightarrow> AURPNetworkRange" where
  "localRange r = \<lparr>nr_Start = rr_LocalStart r, nr_End = rr_LocalEnd r\<rparr>"

record AURPDeviceHideRule =
  dh_Peer :: string
  dh_Object :: string
  dh_Type :: string
  dh_Direction :: string

record AURPClusterRule =
  cl_Start :: network
  cl_End :: network

definition cl_contains :: "AURPClusterRule \<Rightarrow> network \<Rightarrow> bool" where
  "cl_contains c n \<longleftrightarrow> n \<ge> cl_Start c \<and> n \<le> cl_End c"

definition containsRoute :: "AURPClusterRule \<Rightarrow> Route \<Rightarrow> bool" where
  "containsRoute c route \<longleftrightarrow> r_NetStart route \<ge> cl_Start c \<and> r_NetEnd route \<le> cl_End c"

record AURPExportHideRule =
  eh_Peer :: string
  eh_Start :: network
  eh_End :: network

record AURPImportHideRule =
  ih_Peer :: string
  ih_Start :: network
  ih_End :: network

record AURPBackupPeerRule =
  bp_Peer :: string
  bp_Penalty :: byte

record AURPConfig =
  LastHeardFromTimeout :: time
  RetryInterval :: time
  SendRetryLimit :: int
  TickleRetryLimit :: int
  ZoneInfoRetryInterval :: time
  UpdateInterval :: time
  HiddenNetworks :: "AURPNetworkRange list"
  HopCountReduction :: bool
  HopCountWeight :: byte
  RemapRules :: "AURPRemapRule list"
  HiddenDevices :: "AURPDeviceHideRule list"
  Clusters :: "AURPClusterRule list"
  BackupPeers :: "AURPBackupPeerRule list"
  HiddenImportNetworks :: "AURPImportHideRule list"
  HiddenExportNetworks :: "AURPExportHideRule list"

definition networkHidden :: "AURPConfig \<Rightarrow> network \<Rightarrow> bool" where
  "networkHidden c n \<longleftrightarrow> list_ex (\<lambda>r. nr_contains r n) (HiddenNetworks c)"

definition rangeHidden :: "AURPConfig \<Rightarrow> network \<Rightarrow> network \<Rightarrow> bool" where
  "rangeHidden c start end' \<longleftrightarrow> list_ex (\<lambda>r. nr_overlaps r start end') (HiddenNetworks c)"

text \<open>The protocol constants of \<open>src/router/aurp_peer.go\<close> and \<open>aurp_zone.go\<close>.\<close>

abbreviation lastHeardFromTimer :: time where "lastHeardFromTimer \<equiv> 90 * Second"
abbreviation tickleRetryLimit :: int where "tickleRetryLimit \<equiv> 10"
abbreviation sendRetryTimer :: time where "sendRetryTimer \<equiv> 10 * Second"
abbreviation sendRetryLimit :: int where "sendRetryLimit \<equiv> 5"
abbreviation updateRateUnit :: time where "updateRateUnit \<equiv> 10 * Second"
abbreviation updateTimer :: time where "updateTimer \<equiv> updateRateUnit"
abbreviation aurpZoneInfoRetryTimer :: time where "aurpZoneInfoRetryTimer \<equiv> 10 * Second"

definition applyDefaults :: "AURPConfig \<Rightarrow> AURPConfig" where
  "applyDefaults c =
     c\<lparr>LastHeardFromTimeout := (if LastHeardFromTimeout c = 0 then lastHeardFromTimer else LastHeardFromTimeout c),
       RetryInterval := (if RetryInterval c = 0 then sendRetryTimer else RetryInterval c),
       SendRetryLimit := (if SendRetryLimit c = 0 then sendRetryLimit else SendRetryLimit c),
       TickleRetryLimit := (if TickleRetryLimit c = 0 then tickleRetryLimit else TickleRetryLimit c),
       ZoneInfoRetryInterval :=
         (if ZoneInfoRetryInterval c = 0 then aurpZoneInfoRetryTimer else ZoneInfoRetryInterval c),
       UpdateInterval := (if UpdateInterval c = 0 then updateTimer else UpdateInterval c)\<rparr>"

text \<open>\<open>SeedMode\<close> is a string type.\<close>

abbreviation SeedModeHard :: string where "SeedModeHard \<equiv> ''hard''"
abbreviation SeedModeSoft :: string where "SeedModeSoft \<equiv> ''soft''"
abbreviation SeedModeNone :: string where "SeedModeNone \<equiv> ''none''"

record EtherTalkConfig =
  ec_SeedMode :: string
  ec_SoftSeedDelay :: time
  ec_EthAddr :: string
  ec_Device :: string
  ec_DefaultZoneName :: string
  ec_ExtraZones :: "string list"
  ec_NetStart :: network
  ec_NetEnd :: network

record Config =
  ListenPort :: u16
  MonitoringAddr :: string
  LocalIP :: string
  EtherTalk :: "EtherTalkConfig list"
  OpenPeering :: bool
  cfg_AURP :: AURPConfig
  cfg_Peers :: "string list"
  PeerListURL :: string


section \<open>Validation\<close>

text \<open>An error names the check that failed and the rules, networks or port concerned.\<close>

datatype config_error =
    CfgLimit string
  | CfgRule string nat
  | CfgPair string nat nat
  | CfgPort string string
  | CfgRulePort nat string

definition timing_errors :: "AURPConfig \<Rightarrow> config_error list" where
  "timing_errors c =
     (if LastHeardFromTimeout c < 30 * Second then [CfgLimit ''last_heard_from_timeout''] else []) @
     (if RetryInterval c < 2 * Second then [CfgLimit ''retry_interval''] else []) @
     (if SendRetryLimit c \<le> 0 then [CfgLimit ''send_retry_limit''] else []) @
     (if TickleRetryLimit c \<le> 0 then [CfgLimit ''tickle_retry_limit''] else []) @
     (if ZoneInfoRetryInterval c \<le> 0 then [CfgLimit ''zone_info_retry_interval''] else []) @
     (if UpdateInterval c < updateRateUnit then [CfgLimit ''update_interval below unit'']
      else if UpdateInterval c mod updateRateUnit \<noteq> 0 then [CfgLimit ''update_interval multiple'']
      else if UpdateInterval c div updateRateUnit > 0x7fff then [CfgLimit ''update_interval too large'']
      else []) @
     (if HopCountWeight c \<ge> maxRouteDistance then [CfgLimit ''hop_count_weight''] else [])"

definition remap_rule_errors :: "nat \<Rightarrow> AURPRemapRule \<Rightarrow> config_error list" where
  "remap_rule_errors i rule =
     (let remoteSize = uint (rr_RemoteEnd rule) - uint (rr_RemoteStart rule);
          localSize = uint (rr_LocalEnd rule) - uint (rr_LocalStart rule) in
      if rr_RemoteStart rule = 0 \<or> rr_LocalStart rule = 0 then [CfgRule ''remap network 0'' i]
      else if rr_RemoteStart rule > rr_RemoteEnd rule then [CfgRule ''remap remote reversed'' i]
      else if rr_LocalStart rule > rr_LocalEnd rule then [CfgRule ''remap local reversed'' i]
      else if remoteSize \<noteq> localSize then [CfgRule ''remap sizes'' i]
      else if rr_LocalStart rule \<ge> 0xff00 \<or> rr_LocalEnd rule \<ge> 0xff00
      then [CfgRule ''remap startup range'' i]
      else [])"

definition bad_range :: "network \<Rightarrow> network \<Rightarrow> bool" where
  "bad_range start end' \<longleftrightarrow> start = 0 \<or> start > end' \<or> end' \<ge> 0xff00"

definition import_errors :: "nat \<Rightarrow> AURPImportHideRule \<Rightarrow> config_error list" where
  "import_errors i h =
     (if bad_range (ih_Start h) (ih_End h) then [CfgRule ''hidden_import_networks'' i] else [])"

definition export_errors :: "nat \<Rightarrow> AURPExportHideRule \<Rightarrow> config_error list" where
  "export_errors i h =
     (if bad_range (eh_Start h) (eh_End h) then [CfgRule ''hidden_export_networks'' i] else [])"

definition backup_errors :: "nat \<Rightarrow> AURPBackupPeerRule \<Rightarrow> config_error list" where
  "backup_errors i b =
     (if strings_TrimSpace (bp_Peer b) = [] then [CfgRule ''backup_peers selector'' i] else []) @
     (if bp_Penalty b = 0 \<or> bp_Penalty b \<ge> maxRouteDistance
      then [CfgRule ''backup_peers penalty'' i] else [])"

text \<open>The first network of a cluster that no remap rule covers is reported.\<close>

definition cluster_errors :: "AURPRemapRule list \<Rightarrow> nat \<Rightarrow> AURPClusterRule \<Rightarrow> config_error list" where
  "cluster_errors rules i cl =
     (if bad_range (cl_Start cl) (cl_End cl) then [CfgRule ''clusters range'' i]
      else case find (\<lambda>n. \<not> list_ex (\<lambda>rule. nr_contains (localRange rule) n) rules)
                  (net_range (cl_Start cl) (cl_End cl)) of
        Some n \<Rightarrow> [CfgPair ''clusters network not covered'' i (unat n)]
      | None \<Rightarrow> [])"

definition device_errors :: "nat \<Rightarrow> AURPDeviceHideRule \<Rightarrow> config_error list" where
  "device_errors i rule =
     (if strings_ToLower (strings_TrimSpace (dh_Direction rule))
           \<in> set [[], ''both'', ''import'', ''export'']
      then [] else [CfgRule ''hidden_devices direction'' i])"

text \<open>\<open>for i, x := range xs\<close>, and the two nested loops over all pairs \<open>i < j\<close>.\<close>

definition each :: "(nat \<Rightarrow> 'a \<Rightarrow> 'b list) \<Rightarrow> 'a list \<Rightarrow> 'b list" where
  "each f xs = concat (map (\<lambda>(i, x). f i x) (enumerate 0 xs))"

definition each_pair :: "(nat \<Rightarrow> nat \<Rightarrow> 'a \<Rightarrow> 'a \<Rightarrow> 'b list) \<Rightarrow> 'a list \<Rightarrow> 'b list" where
  "each_pair f xs =
     concat (map (\<lambda>i. concat (map (\<lambda>j. f i j (xs ! i) (xs ! j)) [Suc i ..< length xs]))
       [0 ..< length xs])"

definition cluster_pair_errors ::
  "nat \<Rightarrow> nat \<Rightarrow> AURPClusterRule \<Rightarrow> AURPClusterRule \<Rightarrow> config_error list" where
  "cluster_pair_errors i j a b =
     (if cl_contains a (cl_Start b) \<or> cl_contains b (cl_Start a)
      then [CfgPair ''clusters overlap'' i j] else [])"

definition remap_pair_errors ::
  "nat \<Rightarrow> nat \<Rightarrow> AURPRemapRule \<Rightarrow> AURPRemapRule \<Rightarrow> config_error list" where
  "remap_pair_errors i j a b =
     (if nr_overlaps (localRange a) (rr_LocalStart b) (rr_LocalEnd b)
      then [CfgPair ''remap local overlap'' i j] else []) @
     (if strings_EqualFold (rr_Peer a) (rr_Peer b) \<and>
         nr_overlaps (remoteRange a) (rr_RemoteStart b) (rr_RemoteEnd b)
      then [CfgPair ''remap remote overlap'' i j] else [])"

text \<open>The loop body over the EtherTalk ports: the port with its defaults, and its errors.\<close>

definition port_defaults :: "EtherTalkConfig \<Rightarrow> EtherTalkConfig" where
  "port_defaults port =
     port\<lparr>ec_SeedMode := strings_ToLower (if ec_SeedMode port = [] then SeedModeHard else ec_SeedMode port),
          ec_SoftSeedDelay := (if ec_SoftSeedDelay port = 0 then 30 * Second else ec_SoftSeedDelay port)\<rparr>"

definition port_range_errors :: "EtherTalkConfig \<Rightarrow> config_error list" where
  "port_range_errors port =
     (let hasNetStart = ec_NetStart port \<noteq> 0; hasNetEnd = ec_NetEnd port \<noteq> 0;
          dev = ec_Device port in
      (if hasNetStart \<noteq> hasNetEnd then [CfgPort ''both or neither'' dev] else []) @
      (if ec_SeedMode port \<noteq> SeedModeNone \<and> \<not> hasNetStart \<and> \<not> hasNetEnd
       then [CfgPort ''range required'' dev] else []) @
      (if hasNetStart \<and> hasNetEnd then
         (if ec_NetStart port > ec_NetEnd port then [CfgPort ''range backwards'' dev] else []) @
         (if ec_NetStart port = 0xffff \<or> ec_NetEnd port = 0xffff
          then [CfgPort ''network 65535'' dev] else []) @
         (if (ec_NetStart port \<ge> 0xff00 \<and> ec_NetStart port \<le> 0xfffe) \<or>
             (ec_NetEnd port \<ge> 0xff00 \<and> ec_NetEnd port \<le> 0xfffe)
          then [CfgPort ''startup range'' dev] else [])
       else []))"

definition port_zone_errors :: "EtherTalkConfig \<Rightarrow> config_error list" where
  "port_zone_errors port =
     (let dev = ec_Device port in
      (if length (ec_ExtraZones port) + 1 > 255 then [CfgPort ''too many zones'' dev] else []) @
      (if length (ec_DefaultZoneName port) > 32 then [CfgPort ''zone name too long'' dev] else []) @
      (if ec_DefaultZoneName port = ''*'' \<or>
          (ec_SeedMode port \<noteq> SeedModeNone \<and> ec_DefaultZoneName port = [])
       then [CfgPort ''zone name invalid'' dev] else []) @
      concat (map (\<lambda>zn.
        (if length zn > 32 then [CfgPort ''extra zone name too long'' dev] else []) @
        (if zn = [] \<or> zn = ''*'' then [CfgPort ''extra zone name invalid'' dev] else []))
        (ec_ExtraZones port)))"

definition port_errors :: "EtherTalkConfig \<Rightarrow> config_error list" where
  "port_errors port =
     (if ec_SeedMode port \<in> set [SeedModeHard, SeedModeSoft, SeedModeNone] then []
      else [CfgPort ''seed_mode'' (ec_Device port)]) @
     (if ec_SoftSeedDelay port < 0 then [CfgPort ''soft_seed_delay'' (ec_Device port)] else []) @
     port_range_errors port @ port_zone_errors port"

definition remap_port_errors :: "nat \<Rightarrow> AURPRemapRule \<Rightarrow> EtherTalkConfig \<Rightarrow> config_error list" where
  "remap_port_errors i rule port =
     (if ec_NetStart port = 0 \<or> ec_NetEnd port = 0 then []
      else if nr_overlaps (localRange rule) (ec_NetStart port) (ec_NetEnd port)
      then [CfgRulePort i (ec_Device port)] else [])"

definition LoadConfig :: "Config \<Rightarrow> Config \<times> config_error list" where
  "LoadConfig c0 =
     (let a = applyDefaults (cfg_AURP c0);
          ports = map port_defaults (EtherTalk c0);
          c = c0\<lparr>ListenPort := (if ListenPort c0 = 0 then 387 else ListenPort c0),
                 cfg_AURP := a, EtherTalk := ports\<rparr>
      in (c,
          timing_errors a @
          each remap_rule_errors (RemapRules a) @
          each import_errors (HiddenImportNetworks a) @
          each export_errors (HiddenExportNetworks a) @
          each backup_errors (BackupPeers a) @
          each (cluster_errors (RemapRules a)) (Clusters a) @
          each_pair cluster_pair_errors (Clusters a) @
          each device_errors (HiddenDevices a) @
          each_pair remap_pair_errors (RemapRules a) @
          concat (map port_errors ports) @
          each (\<lambda>i rule. concat (map (remap_port_errors i rule) ports)) (RemapRules a)))"

end
