(* ===== verification/AtalkPackets.thy ===== *)
theory AtalkPackets
  imports Prelude
begin

text \<open>
  The packet formats of the local AppleTalk protocols: the name checksum and
  case folding (\<open>src/atalk/strings.go\<close>), AEP (\<open>src/atalk/aep\<close>), ATP
  (\<open>src/atalk/atp\<close>), NBP (\<open>src/atalk/nbp\<close>), RTMP (\<open>src/atalk/rtmp\<close>) and ZIP
  (\<open>src/atalk/zip\<close>).  A \<open>Marshal\<close> method appends to a \<open>bytes.Buffer\<close>, which never
  fails; here it is the list of what it appends, in order.
\<close>

section \<open>Errors\<close>

datatype atalk_error =
    AtShort string nat
  | AtBadLength string nat
  | AtBadValue string nat
  | AtTooLong string nat
  | AtTooMany string nat
  | AtMissing string
  | AtIn string atalk_error

type_synonym 'a at_result = "('a, atalk_error) go"

section \<open>Names\<close>

definition toUpperMap :: "byte \<Rightarrow> byte" where
  "toUpperMap b =
     (if 0x61 \<le> b \<and> b \<le> 0x7A then b - 0x20
      else case map_of [(0x88, 0xCB), (0x8A, 0x80), (0x8B, 0xCC), (0x8C, 0x81), (0x8D, 0x82),
                        (0x8E, 0x83), (0x96, 0x84), (0x9A, 0x85), (0x9B, 0xCD), (0x9F, 0x86),
                        (0xBE, 0xAE), (0xBF, 0xAF), (0xCF, 0xCE)] b of
        Some u \<Rightarrow> u | None \<Rightarrow> 0)"

definition ToUpper :: "string \<Rightarrow> string" where
  "ToUpper s =
     bytes_str (map (\<lambda>b. let u = toUpperMap b in if u \<noteq> 0 then u else b) (str_bytes s))"

text \<open>\<open>bits.RotateLeft16\<close> by \<open>1\<close> and by \<open>-1\<close>.\<close>

definition RotateLeft16 :: "u16 \<Rightarrow> u16" where
  "RotateLeft16 x = push_bit 1 x OR drop_bit 15 x"

definition RotateRight16 :: "u16 \<Rightarrow> u16" where
  "RotateRight16 x = drop_bit 1 x OR push_bit 15 x"

definition Checksum :: "string \<Rightarrow> u16" where
  "Checksum s =
     (let c = fold (\<lambda>b c. RotateRight16 (c + ucast b)) (str_bytes s) 0 in
      if c = 0 then 0xFFFF else c)"

text \<open>
  \<open>ethertalk.AppleTalkBroadcast\<close> belongs to another module and is an argument.
\<close>

definition MulticastAddr :: "byte list \<Rightarrow> string \<Rightarrow> byte list" where
  "MulticastAddr AppleTalkBroadcast zone =
     (if zone = [] \<or> zone = ''*'' then AppleTalkBroadcast
      else [0x09, 0x00, 0x07, 0x00, 0x00, ucast (Checksum (ToUpper zone) mod 0xFD)])"


section \<open>AEP\<close>

record aep_Packet =
  aep_Function :: byte
  aep_Data :: "byte list"

abbreviation EchoRequest :: byte where "EchoRequest \<equiv> 1"
abbreviation EchoReply :: byte where "EchoReply \<equiv> 2"

definition aep_Marshal :: "aep_Packet \<Rightarrow> atalk_error + byte list" where
  "aep_Marshal p =
     (if aep_Function p < 1 \<or> aep_Function p > 2
      then Inl (AtBadValue ''AEP function'' (unat (aep_Function p)))
      else if length (aep_Data p) = 0 then Inl (AtMissing ''AEP data'')
      else Inr (aep_Function p # aep_Data p))"

definition aep_Unmarshal :: "byte list \<Rightarrow> aep_Packet at_result" where
  "aep_Unmarshal data =
     (if length data < 1 then go_err (AtShort ''AEP packet'' (length data))
      else
        go_bind (go_index data 0) (\<lambda>f.
        go_bind (go_from data 1) (\<lambda>d. Inr \<lparr>aep_Function = f, aep_Data = d\<rparr>)))"


section \<open>ATP\<close>

abbreviation atp_HeaderSize :: nat where "atp_HeaderSize \<equiv> 8"
abbreviation atp_MaxDataSize :: nat where "atp_MaxDataSize \<equiv> 578"

record atp_TReq =
  treq_ExactlyOnce :: bool
  treq_TRelTimeoutIndicator :: byte
  treq_Bitmap :: byte
  treq_TransactionID :: u16
  treq_UserBytes :: "byte list"
  treq_Data :: "byte list"

record atp_TResp =
  tresp_EndOfMessage :: bool
  tresp_SendTransactionStatus :: bool
  tresp_Sequence :: byte
  tresp_TransactionID :: u16
  tresp_UserBytes :: "byte list"
  tresp_Data :: "byte list"

record atp_TRel =
  trel_TransactionID :: u16

datatype atp_Packet = ATReq atp_TReq | ATResp atp_TResp | ATRel atp_TRel

definition atp_TReq_Marshal :: "atp_TReq \<Rightarrow> atalk_error + byte list" where
  "atp_TReq_Marshal p =
     (if treq_TRelTimeoutIndicator p \<noteq> 0 \<and> \<not> treq_ExactlyOnce p
      then Inl (AtBadValue ''TRel timeout indicator'' (unat (treq_TRelTimeoutIndicator p)))
      else if treq_TRelTimeoutIndicator p > 4
      then Inl (AtBadValue ''TRel timeout indicator'' (unat (treq_TRelTimeoutIndicator p)))
      else if length (treq_Data p) > atp_MaxDataSize
      then Inl (AtTooLong ''data'' (length (treq_Data p)))
      else
        let ci = 0x40 OR (if treq_ExactlyOnce p then 0x20 else 0) OR treq_TRelTimeoutIndicator p in
        Inr (ci # treq_Bitmap p # w16 (treq_TransactionID p) @ treq_UserBytes p @ treq_Data p))"

definition atp_TResp_Marshal :: "atp_TResp \<Rightarrow> atalk_error + byte list" where
  "atp_TResp_Marshal p =
     (let ci = 0x80 OR (if tresp_EndOfMessage p then 0x10 else 0) OR
               (if tresp_SendTransactionStatus p then 0x08 else 0) in
      Inr (ci # tresp_Sequence p # w16 (tresp_TransactionID p) @ tresp_UserBytes p @ tresp_Data p))"

definition atp_TRel_Marshal :: "atp_TRel \<Rightarrow> atalk_error + byte list" where
  "atp_TRel_Marshal p = Inr ([0xC0, 0] @ w16 (trel_TransactionID p) @ [0, 0, 0, 0])"

fun atp_Marshal :: "atp_Packet \<Rightarrow> atalk_error + byte list" where
  "atp_Marshal (ATReq p) = atp_TReq_Marshal p"
| "atp_Marshal (ATResp p) = atp_TResp_Marshal p"
| "atp_Marshal (ATRel p) = atp_TRel_Marshal p"

definition atp_UnmarshalPacket :: "byte list \<Rightarrow> atp_Packet at_result" where
  "atp_UnmarshalPacket data =
     (if length data < 8 then go_err (AtShort ''ATP packet'' (length data))
      else
        go_bind (go_index data 0) (\<lambda>ci.
        go_bind (go_index data 1) (\<lambda>d1.
        go_bind (go_bind (go_slice data 2 4) BigEndian_Uint16) (\<lambda>tid.
        go_bind (go_slice data 4 8) (\<lambda>ub.
        go_bind (go_from data 8) (\<lambda>d.
        if ci AND 0xC0 = 0x40 then
          Inr (ATReq \<lparr>treq_ExactlyOnce = (ci AND 0x20 \<noteq> 0),
                      treq_TRelTimeoutIndicator = ci AND 0x07, treq_Bitmap = d1,
                      treq_TransactionID = tid, treq_UserBytes = ub, treq_Data = d\<rparr>)
        else if ci AND 0xC0 = 0x80 then
          Inr (ATResp \<lparr>tresp_EndOfMessage = (ci AND 0x10 \<noteq> 0),
                       tresp_SendTransactionStatus = (ci AND 0x08 \<noteq> 0), tresp_Sequence = d1,
                       tresp_TransactionID = tid, tresp_UserBytes = ub, tresp_Data = d\<rparr>)
        else if ci AND 0xC0 = 0xC0 then Inr (ATRel \<lparr>trel_TransactionID = tid\<rparr>)
        else go_err (AtBadValue ''ATP function'' (unat ci))))))))"


section \<open>NBP\<close>

abbreviation FunctionBrRq :: byte where "FunctionBrRq \<equiv> 1"
abbreviation FunctionLkUp :: byte where "FunctionLkUp \<equiv> 2"
abbreviation FunctionLkUpReply :: byte where "FunctionLkUpReply \<equiv> 3"
abbreviation FunctionFwdReq :: byte where "FunctionFwdReq \<equiv> 4"

record nbp_Tuple =
  nbp_Network :: network
  nbp_Node :: byte
  nbp_Socket :: byte
  nbp_Enumerator :: byte
  nbp_Object :: string
  nbp_Type :: string
  nbp_Zone :: string

record nbp_Packet =
  nbp_Function :: byte
  nbp_NBPID :: byte
  nbp_Tuples :: "nbp_Tuple list"

text \<open>A length-prefixed string.\<close>

definition lv_bytes :: "string \<Rightarrow> byte list" where
  "lv_bytes s = of_nat (length s) # str_bytes s"

definition nbp_Tuple_writeTo :: "nbp_Tuple \<Rightarrow> atalk_error + byte list" where
  "nbp_Tuple_writeTo t =
     (if length (nbp_Object t) > 32 then Inl (AtTooLong ''object'' (length (nbp_Object t)))
      else if length (nbp_Type t) > 32 then Inl (AtTooLong ''type'' (length (nbp_Type t)))
      else if length (nbp_Zone t) > 32 then Inl (AtTooLong ''zone'' (length (nbp_Zone t)))
      else Inr (w16 (nbp_Network t) @ [nbp_Node t, nbp_Socket t, nbp_Enumerator t] @
                lv_bytes (nbp_Object t) @ lv_bytes (nbp_Type t) @ lv_bytes (nbp_Zone t)))"

text \<open>The loop over the tuples: the buffer so far, or the first error.\<close>

fun nbp_Marshal_loop :: "byte list \<Rightarrow> nbp_Tuple list \<Rightarrow> atalk_error + byte list" where
  "nbp_Marshal_loop b [] = Inr b"
| "nbp_Marshal_loop b (t # ts) =
     (case nbp_Tuple_writeTo t of
        Inl e \<Rightarrow> Inl (AtIn ''NBP tuple'' e)
      | Inr x \<Rightarrow> nbp_Marshal_loop (b @ x) ts)"

definition nbp_Marshal :: "nbp_Packet \<Rightarrow> atalk_error + byte list" where
  "nbp_Marshal p =
     (if nbp_Function p < 1 \<or> nbp_Function p > 4
      then Inl (AtBadValue ''NBP function'' (unat (nbp_Function p)))
      else if length (nbp_Tuples p) > 15
      then Inl (AtTooMany ''NBP tuples'' (length (nbp_Tuples p)))
      else nbp_Marshal_loop
             [push_bit 4 (nbp_Function p) OR of_nat (length (nbp_Tuples p)), nbp_NBPID p]
             (nbp_Tuples p))"

definition readLV :: "byte list \<Rightarrow> (string \<times> byte list) at_result" where
  "readLV data =
     (if length data < 1 then go_err (AtShort ''length-prefixed string'' (length data))
      else
        go_bind (go_index data 0) (\<lambda>b.
        go_bind (go_from data 1) (\<lambda>d.
        let slen = unat b in
        if length d < slen then go_err (AtShort ''length-prefixed string'' (length d))
        else
          go_bind (go_upto d slen) (\<lambda>s.
          go_bind (go_from d slen) (\<lambda>r. Inr (bytes_str s, r))))))"

definition nbp_Unmarshal_tuple :: "byte list \<Rightarrow> (nbp_Tuple \<times> byte list) at_result" where
  "nbp_Unmarshal_tuple data =
     (if length data < 8 then go_err (AtShort ''NBP tuple'' (length data))
      else
        go_bind (go_bind (go_upto data 2) BigEndian_Uint16) (\<lambda>net.
        go_bind (go_index data 2) (\<lambda>node.
        go_bind (go_index data 3) (\<lambda>sock.
        go_bind (go_index data 4) (\<lambda>enum.
        go_bind (go_from data 5) (\<lambda>d0.
        go_bind (go_wrap (AtIn ''Object'') (readLV d0)) (\<lambda>(ob, d1).
        go_bind (go_wrap (AtIn ''Type'') (readLV d1)) (\<lambda>(ty, d2).
        go_bind (go_wrap (AtIn ''Zone'') (readLV d2)) (\<lambda>(zo, d3).
        Inr (\<lparr>nbp_Network = net, nbp_Node = node, nbp_Socket = sock, nbp_Enumerator = enum,
              nbp_Object = ob, nbp_Type = ty, nbp_Zone = zo\<rparr>, d3))))))))))"

primrec nbp_Unmarshal_loop :: "nat \<Rightarrow> nbp_Tuple list \<Rightarrow> byte list \<Rightarrow> nbp_Tuple list at_result" where
  "nbp_Unmarshal_loop 0 ts data = Inr ts"
| "nbp_Unmarshal_loop (Suc k) ts data =
     go_bind (nbp_Unmarshal_tuple data) (\<lambda>(t, d). nbp_Unmarshal_loop k (ts @ [t]) d)"

definition nbp_Unmarshal :: "byte list \<Rightarrow> nbp_Packet at_result" where
  "nbp_Unmarshal data =
     (if length data < 2 then go_err (AtShort ''NBP packet'' (length data))
      else
        go_bind (go_index data 0) (\<lambda>b0.
        go_bind (go_index data 1) (\<lambda>i.
        let f = drop_bit 4 b0; tupleCount = b0 AND 0x0F in
        if tupleCount = 0 then go_err (AtMissing ''tuples'')
        else if tupleCount > 1 \<and> f \<noteq> FunctionLkUpReply
        then go_err (AtBadValue ''number of tuples'' (unat tupleCount))
        else
          go_bind (go_from data 2) (\<lambda>d.
          go_bind (nbp_Unmarshal_loop (unat tupleCount) [] d) (\<lambda>ts.
          Inr \<lparr>nbp_Function = f, nbp_NBPID = i, nbp_Tuples = ts\<rparr>)))))"

end
