(* ===== verification/AtalkRouting.thy ===== *)
theory AtalkRouting
  imports AtalkPackets
begin

text \<open>
  RTMP (\<open>src/atalk/rtmp\<close>) and ZIP (\<open>src/atalk/zip\<close>) packets.
\<close>

section \<open>RTMP\<close>

record ddp_Addr =
  ad_Network :: network
  ad_Node :: byte

record rtmp_NetworkTuple =
  rnt_Extended :: bool
  rnt_RangeStart :: network
  rnt_RangeEnd :: network
  rnt_Distance :: byte

record rtmp_DataPacket =
  dp_RouterAddr :: ddp_Addr
  dp_Extended :: bool
  dp_NetworkTuples :: "rtmp_NetworkTuple list"

definition rtmp_NetworkTuple_Size :: "rtmp_NetworkTuple \<Rightarrow> nat" where
  "rtmp_NetworkTuple_Size nt = (if rnt_Extended nt then 6 else 3)"

definition rtmp_tuple_bytes :: "rtmp_NetworkTuple \<Rightarrow> byte list" where
  "rtmp_tuple_bytes nt =
     w16 (rnt_RangeStart nt) @
     (if \<not> rnt_Extended nt then [rnt_Distance nt]
      else [rnt_Distance nt OR 0x80] @ w16 (rnt_RangeEnd nt) @ [0x82])"

definition rtmp_DataPacket_Marshal :: "rtmp_DataPacket \<Rightarrow> atalk_error + byte list" where
  "rtmp_DataPacket_Marshal dp =
     Inr (w16 (ad_Network (dp_RouterAddr dp)) @ [8, ad_Node (dp_RouterAddr dp)] @
          (if \<not> dp_Extended dp then w16 0 @ [0x82] else []) @
          concat (map rtmp_tuple_bytes (dp_NetworkTuples dp)))"

text \<open>The loop of \<open>UnmarshalDataPacket\<close>: \<open>ext\<close> is \<open>dp.Extended\<close>.\<close>

function rtmp_UnmarshalDataPacket_loop ::
  "bool \<Rightarrow> bool \<Rightarrow> rtmp_NetworkTuple list \<Rightarrow> byte list \<Rightarrow> (bool \<times> rtmp_NetworkTuple list) at_result" where
  "rtmp_UnmarshalDataPacket_loop first ext nts data =
     (if length data > 0 then
        if length data < 3 then go_err (AtShort ''RTMP Data network tuple'' (length data))
        else
          go_bind (go_bind (go_upto data 2) BigEndian_Uint16) (\<lambda>start.
          go_bind (go_index data 2) (\<lambda>d.
          go_bind (go_from data 3) (\<lambda>rest.
          if start = 0 then
            if \<not> first then go_err (AtBadValue ''RTMP range start'' 0)
            else if d \<noteq> 0x82 then go_err (AtBadValue ''RTMP version'' (unat d))
            else rtmp_UnmarshalDataPacket_loop False False nts rest
          else if d AND 0x80 = 0 then
            if first \<and> start \<noteq> 0 then go_err (AtMissing ''version tuple'')
            else rtmp_UnmarshalDataPacket_loop first ext
              (nts @ [\<lparr>rnt_Extended = False, rnt_RangeStart = start, rnt_RangeEnd = start,
                       rnt_Distance = d\<rparr>]) rest
          else if length rest < 3
          then go_err (AtShort ''RTMP Data extended network tuple'' (length rest))
          else
            go_bind (go_bind (go_upto rest 2) BigEndian_Uint16) (\<lambda>e.
            go_bind (go_index rest 2) (\<lambda>v.
            if first \<and> v \<noteq> 0x82 then go_err (AtBadValue ''RTMP version'' (unat v))
            else
              go_bind (go_from rest 3) (\<lambda>rest2.
              rtmp_UnmarshalDataPacket_loop False ext
                (nts @ [\<lparr>rnt_Extended = True, rnt_RangeStart = start, rnt_RangeEnd = e,
                         rnt_Distance = d AND NOT 0x80\<rparr>]) rest2))))))
      else Inr (ext, nts))"
  by pat_completeness auto
termination
  by (relation "measure (\<lambda>(f, e, nts, d). length d)") (auto dest!: go_from_length)

declare rtmp_UnmarshalDataPacket_loop.simps [simp del]

definition rtmp_UnmarshalDataPacket :: "byte list \<Rightarrow> rtmp_DataPacket at_result" where
  "rtmp_UnmarshalDataPacket data =
     (if length data < 7 \<or> (length data - 4) mod 3 \<noteq> 0
      then go_err (AtBadLength ''RTMP Data packet'' (length data))
      else
        go_bind (go_index data 2) (\<lambda>idlen.
        if idlen \<noteq> 8 then go_err (AtBadValue ''node ID length'' (unat idlen))
        else
          go_bind (go_bind (go_upto data 2) BigEndian_Uint16) (\<lambda>net.
          go_bind (go_index data 3) (\<lambda>node.
          go_bind (go_from data 4) (\<lambda>d.
          go_bind (rtmp_UnmarshalDataPacket_loop True True [] d) (\<lambda>(ext, nts).
          Inr \<lparr>dp_RouterAddr = \<lparr>ad_Network = net, ad_Node = node\<rparr>, dp_Extended = ext,
               dp_NetworkTuples = nts\<rparr>))))))"

record rtmp_RequestPacket =
  rq_Function :: byte
  rq_Data :: "byte list"

abbreviation FunctionRequest :: byte where "FunctionRequest \<equiv> 1"
abbreviation FunctionRDRSplitHorizon :: byte where "FunctionRDRSplitHorizon \<equiv> 2"
abbreviation FunctionRDRComplete :: byte where "FunctionRDRComplete \<equiv> 3"
abbreviation FunctionLoopProbe :: byte where "FunctionLoopProbe \<equiv> 4"

definition rtmp_RequestPacket_Marshal :: "rtmp_RequestPacket \<Rightarrow> atalk_error + byte list" where
  "rtmp_RequestPacket_Marshal rp =
     (if rq_Function rp < 1 \<or> rq_Function rp > 4
      then Inl (AtBadValue ''RTMP request function'' (unat (rq_Function rp)))
      else if rq_Function rp = FunctionLoopProbe
      then Inr ([rq_Function rp, 0, 0, 0, 0] @ rq_Data rp)
      else if length (rq_Data rp) > 0 then Inl (AtTooLong ''data'' (length (rq_Data rp)))
      else Inr [rq_Function rp])"

definition rtmp_UnmarshalRequestPacket :: "byte list \<Rightarrow> rtmp_RequestPacket at_result" where
  "rtmp_UnmarshalRequestPacket data =
     (if length data < 1 then go_err (AtBadLength ''RTMP request packet'' (length data))
      else go_bind (go_index data 0) (\<lambda>f.
        if f = FunctionLoopProbe then
          if length data < 5 then go_err (AtShort ''RTMP Loop Probe'' (length data))
          else go_bind (go_from data 5) (\<lambda>d. Inr \<lparr>rq_Function = f, rq_Data = d\<rparr>)
        else Inr \<lparr>rq_Function = f, rq_Data = []\<rparr>))"

record rtmp_ResponsePacket =
  rs_SenderAddr :: ddp_Addr
  rs_Extended :: bool
  rs_RangeStart :: network
  rs_RangeEnd :: network

definition rtmp_ResponsePacket_Marshal :: "rtmp_ResponsePacket \<Rightarrow> atalk_error + byte list" where
  "rtmp_ResponsePacket_Marshal rp =
     (let b = w16 (ad_Network (rs_SenderAddr rp)) @ [8, ad_Node (rs_SenderAddr rp)] in
      if \<not> rs_Extended rp then Inr b
      else Inr (b @ w16 (rs_RangeStart rp) @ [0x80] @ w16 (rs_RangeEnd rp) @ [0x82]))"

text \<open>\<open>Extended\<close> is not set, also for the long form.\<close>

definition rtmp_UnmarshalResponsePacket :: "byte list \<Rightarrow> rtmp_ResponsePacket at_result" where
  "rtmp_UnmarshalResponsePacket data =
     (if length data \<noteq> 4 \<and> length data \<noteq> 10
      then go_err (AtBadLength ''RTMP Response packet'' (length data))
      else go_bind (go_index data 2) (\<lambda>idlen.
        if idlen \<noteq> 8 then go_err (AtBadValue ''node ID length'' (unat idlen))
        else
          go_bind (go_bind (go_upto data 2) BigEndian_Uint16) (\<lambda>net.
          go_bind (go_index data 3) (\<lambda>node.
          let rp = \<lparr>rs_SenderAddr = \<lparr>ad_Network = net, ad_Node = node\<rparr>, rs_Extended = False,
                    rs_RangeStart = 0, rs_RangeEnd = 0\<rparr> in
          if length data = 4 then Inr rp
          else
            go_bind (go_bind (go_slice data 4 6) BigEndian_Uint16) (\<lambda>s.
            go_bind (go_index data 6) (\<lambda>m.
            if m \<noteq> 0x80 then go_err (AtBadValue ''intermediate byte'' (unat m))
            else
              go_bind (go_bind (go_slice data 7 9) BigEndian_Uint16) (\<lambda>e.
              go_bind (go_index data 9) (\<lambda>v.
              if v \<noteq> 0x82 then go_err (AtBadValue ''version'' (unat v))
              else Inr (rp\<lparr>rs_RangeStart := s, rs_RangeEnd := e\<rparr>)))))))))"


section \<open>ZIP\<close>

abbreviation FunctionQuery :: byte where "FunctionQuery \<equiv> 1"
abbreviation FunctionReply :: byte where "FunctionReply \<equiv> 2"
abbreviation FunctionGetNetInfo :: byte where "FunctionGetNetInfo \<equiv> 5"
abbreviation FunctionGetNetInfoReply :: byte where "FunctionGetNetInfoReply \<equiv> 6"
abbreviation FunctionNotify :: byte where "FunctionNotify \<equiv> 7"
abbreviation FunctionExtendedReply :: byte where "FunctionExtendedReply \<equiv> 8"
abbreviation FunctionGetMyZone :: byte where "FunctionGetMyZone \<equiv> 7"
abbreviation FunctionGetZoneList :: byte where "FunctionGetZoneList \<equiv> 8"
abbreviation FunctionGetLocalZones :: byte where "FunctionGetLocalZones \<equiv> 9"

record zip_QueryPacket =
  zq_Networks :: "network list"

definition zip_QueryPacket_Marshal :: "zip_QueryPacket \<Rightarrow> atalk_error + byte list" where
  "zip_QueryPacket_Marshal p =
     (if length (zq_Networks p) > 255 then Inl (AtTooMany ''networks'' (length (zq_Networks p)))
      else Inr ([FunctionQuery, of_nat (length (zq_Networks p))] @ concat (map w16 (zq_Networks p))))"

text \<open>Each round first drops two bytes, in the first one the header.\<close>

primrec zip_UnmarshalQueryPacket_loop :: "nat \<Rightarrow> network list \<Rightarrow> byte list \<Rightarrow> network list at_result" where
  "zip_UnmarshalQueryPacket_loop 0 ns data = Inr ns"
| "zip_UnmarshalQueryPacket_loop (Suc k) ns data =
     go_bind (go_from data 2) (\<lambda>d.
     if length d < 2 then go_err (AtShort ''network number'' (length d))
     else go_bind (go_bind (go_upto d 2) BigEndian_Uint16) (\<lambda>n.
       zip_UnmarshalQueryPacket_loop k (ns @ [n]) d))"

definition zip_UnmarshalQueryPacket :: "byte list \<Rightarrow> zip_QueryPacket at_result" where
  "zip_UnmarshalQueryPacket data =
     (if length data < 2 then go_err (AtShort ''ZIP Query packet'' (length data))
      else
        go_bind (go_index data 0) (\<lambda>f.
        if f \<noteq> FunctionQuery then go_err (AtBadValue ''ZIP function'' (unat f))
        else
          go_bind (go_index data 1) (\<lambda>c.
          go_bind (zip_UnmarshalQueryPacket_loop (unat c) [] data) (\<lambda>ns.
          Inr \<lparr>zq_Networks = ns\<rparr>))))"


record zip_ReplyPacket =
  zr_Extended :: bool
  zr_NetworkCount :: byte
  zr_Networks :: "(network \<times> string list) list"

text \<open>The two nested loops of \<open>Marshal\<close>: one network's zones, then all networks.\<close>

fun zip_Reply_zones :: "network \<Rightarrow> string list \<Rightarrow> byte list \<Rightarrow> atalk_error + byte list" where
  "zip_Reply_zones n [] b = Inr b"
| "zip_Reply_zones n (z # zs) b =
     (if length z > 32 then Inl (AtTooLong ''zone name'' (length z))
      else zip_Reply_zones n zs (b @ w16 n @ lv_bytes z))"

fun zip_Reply_networks :: "bool \<Rightarrow> (network \<times> string list) list \<Rightarrow> byte list \<Rightarrow> atalk_error + byte list" where
  "zip_Reply_networks ext [] b = Inr b"
| "zip_Reply_networks ext ((n, zs) # rest) b =
     (if ext \<and> length zs > 255 then Inl (AtTooMany ''zone names'' (length zs))
      else case zip_Reply_zones n zs b of
        Inl e \<Rightarrow> Inl e
      | Inr b' \<Rightarrow> zip_Reply_networks ext rest b')"

definition zip_ReplyPacket_Marshal :: "zip_ReplyPacket \<Rightarrow> atalk_error + byte list" where
  "zip_ReplyPacket_Marshal p =
     (if length (zr_Networks p) > 255 then Inl (AtTooMany ''networks'' (length (zr_Networks p)))
      else if length (zr_Networks p) > 1 \<and> zr_Extended p
      then Inl (AtTooMany ''networks'' (length (zr_Networks p)))
      else zip_Reply_networks (zr_Extended p) (zr_Networks p)
             [if zr_Extended p then FunctionExtendedReply else FunctionReply, zr_NetworkCount p])"

function zip_UnmarshalReplyPacket_loop ::
  "(network \<times> string list) list \<Rightarrow> byte list \<Rightarrow> (network \<times> string list) list at_result" where
  "zip_UnmarshalReplyPacket_loop m data =
     (if length data > 0 then
        if length data < 3 then go_err (AtShort ''zone tuple'' (length data))
        else
          go_bind (go_bind (go_upto data 2) BigEndian_Uint16) (\<lambda>n.
          go_bind (go_index data 2) (\<lambda>slen.
          go_bind (go_from data 3) (\<lambda>d.
          if length d < unat slen then go_err (AtShort ''zone name'' (length d))
          else
            go_bind (go_upto d (unat slen)) (\<lambda>z.
            go_bind (go_from d (unat slen)) (\<lambda>r.
            zip_UnmarshalReplyPacket_loop
              (AList.update n ((case map_of m n of Some zs \<Rightarrow> zs | None \<Rightarrow> []) @ [bytes_str z]) m) r)))))
      else Inr m)"
  by pat_completeness auto
termination
  by (relation "measure (\<lambda>(m, d). length d)") (auto dest!: go_from_length)

declare zip_UnmarshalReplyPacket_loop.simps [simp del]

text \<open>\<open>NetworkCount\<close> stays 0.\<close>

definition zip_UnmarshalReplyPacket :: "byte list \<Rightarrow> zip_ReplyPacket at_result" where
  "zip_UnmarshalReplyPacket data =
     (if length data < 2 then go_err (AtShort ''ZIP Reply packet'' (length data))
      else
        go_bind (go_index data 0) (\<lambda>f.
        if f \<noteq> FunctionReply \<and> f \<noteq> FunctionExtendedReply
        then go_err (AtBadValue ''ZIP function'' (unat f))
        else
          go_bind (go_from data 2) (\<lambda>d.
          go_bind (zip_UnmarshalReplyPacket_loop [] d) (\<lambda>m.
          Inr \<lparr>zr_Extended = (f = FunctionExtendedReply), zr_NetworkCount = 0, zr_Networks = m\<rparr>))))"

record zip_GetNetInfoPacket =
  gni_ZoneName :: string

definition zip_GetNetInfoPacket_Marshal :: "zip_GetNetInfoPacket \<Rightarrow> atalk_error + byte list" where
  "zip_GetNetInfoPacket_Marshal p =
     (if length (gni_ZoneName p) > 32 then Inl (AtTooLong ''zone name'' (length (gni_ZoneName p)))
      else Inr ([FunctionGetNetInfo] @ replicate 5 0 @ lv_bytes (gni_ZoneName p)))"

definition zip_UnmarshalGetNetInfoPacket :: "byte list \<Rightarrow> zip_GetNetInfoPacket at_result" where
  "zip_UnmarshalGetNetInfoPacket data =
     (if length data < 7 then go_err (AtShort ''GetNetInfo packet'' (length data))
      else
        go_bind (go_index data 0) (\<lambda>f.
        if f \<noteq> FunctionGetNetInfo then go_err (AtBadValue ''ZIP command'' (unat f))
        else
          go_bind (go_index data 6) (\<lambda>slen.
          go_bind (go_from data 7) (\<lambda>d.
          if length d \<noteq> unat slen then go_err (AtBadLength ''zone name'' (length d))
          else Inr \<lparr>gni_ZoneName = bytes_str d\<rparr>))))"

record zip_GetNetInfoReplyPacket =
  gnr_ZoneInvalid :: bool
  gnr_UseBroadcast :: bool
  gnr_OnlyOneZone :: bool
  gnr_NetStart :: network
  gnr_NetEnd :: network
  gnr_ZoneName :: string
  gnr_MulticastAddr :: "byte list"
  gnr_DefaultZoneName :: string

definition zip_GetNetInfoReplyPacket_Marshal :: "zip_GetNetInfoReplyPacket \<Rightarrow> atalk_error + byte list" where
  "zip_GetNetInfoReplyPacket_Marshal p =
     (if length (gnr_ZoneName p) > 32 then Inl (AtTooLong ''zone name'' (length (gnr_ZoneName p)))
      else if length (gnr_DefaultZoneName p) > 32
      then Inl (AtTooLong ''default zone name'' (length (gnr_DefaultZoneName p)))
      else
        let flags = (if gnr_ZoneInvalid p then 0x80 else 0) OR
                    (if gnr_UseBroadcast p then 0x40 else 0) OR
                    (if gnr_OnlyOneZone p then 0x20 else 0) in
        Inr ([FunctionGetNetInfoReply, flags] @ w16 (gnr_NetStart p) @ w16 (gnr_NetEnd p) @
             lv_bytes (gnr_ZoneName p) @ [6] @ gnr_MulticastAddr p @
             (if gnr_ZoneInvalid p then lv_bytes (gnr_DefaultZoneName p) else [])))"

definition zip_GetNetInfoReply_tail ::
  "zip_GetNetInfoReplyPacket \<Rightarrow> byte list \<Rightarrow> zip_GetNetInfoReplyPacket at_result" where
  "zip_GetNetInfoReply_tail p data =
     (if gnr_ZoneInvalid p then
        if length data < 1 then go_err (AtMissing ''default zone name length'')
        else
          go_bind (go_index data 0) (\<lambda>l.
          go_bind (go_from data 1) (\<lambda>d.
          if length d \<noteq> unat l then go_err (AtBadLength ''default zone name'' (length d))
          else Inr (p\<lparr>gnr_DefaultZoneName := bytes_str d\<rparr>)))
      else if length data \<noteq> 0 then go_err (AtBadLength ''trailing data'' (length data))
      else Inr p)"

definition zip_UnmarshalGetNetInfoReplyPacket :: "byte list \<Rightarrow> zip_GetNetInfoReplyPacket at_result" where
  "zip_UnmarshalGetNetInfoReplyPacket data =
     (if length data < 14 then go_err (AtShort ''GetNetInfo Reply'' (length data))
      else
        go_bind (go_index data 0) (\<lambda>f.
        if f \<noteq> FunctionGetNetInfoReply then go_err (AtBadValue ''ZIP command'' (unat f))
        else
          go_bind (go_index data 1) (\<lambda>flags.
          go_bind (go_bind (go_slice data 2 4) BigEndian_Uint16) (\<lambda>s.
          go_bind (go_bind (go_slice data 4 6) BigEndian_Uint16) (\<lambda>e.
          go_bind (go_from data 6) (\<lambda>d0.
          if length d0 < 1 then go_err (AtMissing ''zone name length'')
          else
            go_bind (go_index d0 0) (\<lambda>zl.
            go_bind (go_from d0 1) (\<lambda>d1.
            if length d1 < unat zl + 1 then go_err (AtShort ''zone name'' (length d1))
            else
              go_bind (go_upto d1 (unat zl)) (\<lambda>zone.
              go_bind (go_from d1 (unat zl)) (\<lambda>d2.
              go_bind (go_index d2 0) (\<lambda>ml.
              go_bind (go_from d2 1) (\<lambda>d3.
              if unat ml \<noteq> 6 \<or> length d3 < unat ml
              then go_err (AtBadLength ''multicast address'' (unat ml))
              else
                go_bind (go_upto d3 (unat ml)) (\<lambda>mc.
                go_bind (go_from d3 (unat ml)) (\<lambda>d4.
                zip_GetNetInfoReply_tail
                  \<lparr>gnr_ZoneInvalid = (flags AND 0x80 \<noteq> 0), gnr_UseBroadcast = (flags AND 0x40 \<noteq> 0),
                   gnr_OnlyOneZone = (flags AND 0x20 \<noteq> 0), gnr_NetStart = s, gnr_NetEnd = e,
                   gnr_ZoneName = bytes_str zone, gnr_MulticastAddr = mc,
                   gnr_DefaultZoneName = []\<rparr> d4))))))))))))))"

record zip_GetZonesPacket =
  gz_TID :: u16
  gz_Function :: byte
  gz_StartIndex :: u16

definition zip_GetZones_MarshalTReq :: "zip_GetZonesPacket \<Rightarrow> atp_TReq" where
  "zip_GetZones_MarshalTReq p =
     \<lparr>treq_ExactlyOnce = False, treq_TRelTimeoutIndicator = 0, treq_Bitmap = 1,
      treq_TransactionID = gz_TID p, treq_UserBytes = [gz_Function p, 0] @ w16 (gz_StartIndex p),
      treq_Data = []\<rparr>"

record zip_GetZonesReplyPacket =
  gzr_TID :: u16
  gzr_LastFlag :: bool
  gzr_Zones :: "string list"

fun zip_zones_data :: "string list \<Rightarrow> byte list \<Rightarrow> atalk_error + byte list" where
  "zip_zones_data [] b = Inr b"
| "zip_zones_data (z # zs) b =
     (if length z > 32 then Inl (AtTooLong ''zone name'' (length z))
      else zip_zones_data zs (b @ lv_bytes z))"

definition zip_GetZonesReply_MarshalTResp :: "zip_GetZonesReplyPacket \<Rightarrow> atalk_error + atp_TResp" where
  "zip_GetZonesReply_MarshalTResp p =
     (case zip_zones_data (gzr_Zones p) [] of
        Inl e \<Rightarrow> Inl e
      | Inr data \<Rightarrow>
          if length data > atp_MaxDataSize then Inl (AtTooLong ''data'' (length data))
          else Inr \<lparr>tresp_EndOfMessage = True, tresp_SendTransactionStatus = False,
                    tresp_Sequence = 0, tresp_TransactionID = gzr_TID p,
                    tresp_UserBytes = [if gzr_LastFlag p then 1 else 0, 0] @
                                      w16 (of_nat (length (gzr_Zones p))),
                    tresp_Data = data\<rparr>)"

definition zip_UnmarshalTReq :: "atp_TReq \<Rightarrow> zip_GetZonesPacket at_result" where
  "zip_UnmarshalTReq treq =
     go_bind (go_index (treq_UserBytes treq) 0) (\<lambda>fn.
     if fn \<noteq> FunctionGetZoneList \<and> fn \<noteq> FunctionGetLocalZones \<and> fn \<noteq> FunctionGetMyZone
     then go_err (AtBadValue ''ZIP function'' (unat fn))
     else
       go_bind (go_bind (go_slice (treq_UserBytes treq) 2 4) BigEndian_Uint16) (\<lambda>i.
       Inr \<lparr>gz_TID = treq_TransactionID treq, gz_Function = fn, gz_StartIndex = i\<rparr>))"

primrec zip_UnmarshalTResp_loop :: "nat \<Rightarrow> string list \<Rightarrow> byte list \<Rightarrow> (string list \<times> byte list) at_result" where
  "zip_UnmarshalTResp_loop 0 zs data = Inr (zs, data)"
| "zip_UnmarshalTResp_loop (Suc k) zs data =
     (if length data < 1 then go_err (AtShort ''length-prefixed string'' (length data))
      else
        go_bind (go_index data 0) (\<lambda>slen.
        go_bind (go_from data 1) (\<lambda>d.
        if length d < unat slen then go_err (AtShort ''length-prefixed string'' (length d))
        else
          go_bind (go_upto d (unat slen)) (\<lambda>z.
          go_bind (go_from d (unat slen)) (\<lambda>r.
          zip_UnmarshalTResp_loop k (zs @ [bytes_str z]) r)))))"

definition zip_UnmarshalTResp :: "atp_TResp \<Rightarrow> zip_GetZonesReplyPacket at_result" where
  "zip_UnmarshalTResp tresp =
     go_bind (go_index (tresp_UserBytes tresp) 0) (\<lambda>l.
     go_bind (go_bind (go_slice (tresp_UserBytes tresp) 2 4) BigEndian_Uint16) (\<lambda>zc.
     go_bind (zip_UnmarshalTResp_loop (unat zc) [] (tresp_Data tresp)) (\<lambda>(zs, data).
     if length data > 0 then go_err (AtBadLength ''left over bytes'' (length data))
     else Inr \<lparr>gzr_TID = tresp_TransactionID tresp, gzr_LastFlag = (l \<noteq> 0), gzr_Zones = zs\<rparr>)))"

datatype zip_Packet =
    ZQuery zip_QueryPacket
  | ZReply zip_ReplyPacket
  | ZGetNetInfo zip_GetNetInfoPacket
  | ZGetNetInfoReply zip_GetNetInfoReplyPacket

definition zip_UnmarshalPacket :: "byte list \<Rightarrow> zip_Packet at_result" where
  "zip_UnmarshalPacket data =
     (if length data < 1 then go_err (AtShort ''any ZIP packet'' (length data))
      else
        go_bind (go_index data 0) (\<lambda>f.
        if f = FunctionQuery then go_bind (zip_UnmarshalQueryPacket data) (\<lambda>p. Inr (ZQuery p))
        else if f = FunctionReply \<or> f = FunctionExtendedReply
        then go_bind (zip_UnmarshalReplyPacket data) (\<lambda>p. Inr (ZReply p))
        else if f = FunctionGetNetInfo
        then go_bind (zip_UnmarshalGetNetInfoPacket data) (\<lambda>p. Inr (ZGetNetInfo p))
        else if f = FunctionGetNetInfoReply
        then go_bind (zip_UnmarshalGetNetInfoReplyPacket data) (\<lambda>p. Inr (ZGetNetInfoReply p))
        else if f = FunctionNotify then go_err (AtBadValue ''ZIP Notify'' (unat f))
        else go_err (AtBadValue ''ZIP function'' (unat f))))"

end
