(* ===== verification/AtalkCodec.thy ===== *)
theory AtalkCodec
  imports AtalkRouting
begin

text \<open>
  Correctness of the AppleTalk packet formats: no parser panics, and each parser
  inverts the corresponding writer on the packets the writer accepts.
\<close>

section \<open>Parsers do not panic\<close>

lemma safe_aep [simp]: "safe (aep_Unmarshal d)"
  by (auto simp: aep_Unmarshal_def)

lemma safe_atp [simp]: "safe (atp_UnmarshalPacket d)"
  by (auto simp: atp_UnmarshalPacket_def)

lemma safe_readLV [simp]: "safe (readLV d)"
  by (auto simp: readLV_def Let_def)

lemma safe_nbp_tuple [simp]: "safe (nbp_Unmarshal_tuple d)"
  by (auto simp: nbp_Unmarshal_tuple_def)

lemma safe_nbp_loop [simp]: "safe (nbp_Unmarshal_loop k ts d)"
  by (induction k arbitrary: ts d) auto

lemma safe_nbp [simp]: "safe (nbp_Unmarshal d)"
  by (auto simp: nbp_Unmarshal_def Let_def)

lemma safe_rtmp_loop [simp]: "safe (rtmp_UnmarshalDataPacket_loop f e nts d)"
  by (induction f e nts d rule: rtmp_UnmarshalDataPacket_loop.induct)
    (subst rtmp_UnmarshalDataPacket_loop.simps, auto)

lemma safe_rtmp_data [simp]: "safe (rtmp_UnmarshalDataPacket d)"
  by (auto simp: rtmp_UnmarshalDataPacket_def)

lemma safe_rtmp_request [simp]: "safe (rtmp_UnmarshalRequestPacket d)"
  by (auto simp: rtmp_UnmarshalRequestPacket_def)

lemma safe_rtmp_response [simp]: "safe (rtmp_UnmarshalResponsePacket d)"
  by (auto simp: rtmp_UnmarshalResponsePacket_def Let_def)

lemma safe_zip_query_loop: "2 \<le> length d \<Longrightarrow> safe (zip_UnmarshalQueryPacket_loop k ns d)"
  by (induction k arbitrary: ns d) auto

lemma safe_zip_query [simp]: "safe (zip_UnmarshalQueryPacket d)"
  by (auto simp: zip_UnmarshalQueryPacket_def intro!: safe_zip_query_loop)

lemma safe_zip_reply_loop [simp]: "safe (zip_UnmarshalReplyPacket_loop m d)"
  by (induction m d rule: zip_UnmarshalReplyPacket_loop.induct)
    (subst zip_UnmarshalReplyPacket_loop.simps, auto)

lemma safe_zip_reply [simp]: "safe (zip_UnmarshalReplyPacket d)"
  by (auto simp: zip_UnmarshalReplyPacket_def)

lemma safe_zip_netinfo [simp]: "safe (zip_UnmarshalGetNetInfoPacket d)"
  by (auto simp: zip_UnmarshalGetNetInfoPacket_def)

lemma safe_zip_netinfo_tail [simp]: "safe (zip_GetNetInfoReply_tail p d)"
  by (auto simp: zip_GetNetInfoReply_tail_def)

lemma safe_zip_netinfo_reply [simp]: "safe (zip_UnmarshalGetNetInfoReplyPacket d)"
  by (auto simp: zip_UnmarshalGetNetInfoReplyPacket_def)

lemma safe_zip [simp]: "safe (zip_UnmarshalPacket d)"
  by (auto simp: zip_UnmarshalPacket_def)


section \<open>Parsers invert writers\<close>

lemma readLV_lv: "length s \<le> 255 \<Longrightarrow> readLV (lv_bytes s @ r) = Inr (s, r)"
  by (simp add: readLV_def lv_bytes_def Let_def)

lemma length_lv: "length (lv_bytes s) = Suc (length s)"
  by (simp add: lv_bytes_def)

definition nbp_tuple_bytes :: "nbp_Tuple \<Rightarrow> byte list" where
  "nbp_tuple_bytes t =
     w16 (nbp_Network t) @ [nbp_Node t, nbp_Socket t, nbp_Enumerator t] @
     lv_bytes (nbp_Object t) @ lv_bytes (nbp_Type t) @ lv_bytes (nbp_Zone t)"

definition nbp_tuple_ok :: "nbp_Tuple \<Rightarrow> bool" where
  "nbp_tuple_ok t \<longleftrightarrow>
     length (nbp_Object t) \<le> 32 \<and> length (nbp_Type t) \<le> 32 \<and> length (nbp_Zone t) \<le> 32"

lemma nbp_tuple_writes: "nbp_Tuple_writeTo t = Inr b \<longleftrightarrow> nbp_tuple_ok t \<and> b = nbp_tuple_bytes t"
  by (auto simp: nbp_Tuple_writeTo_def nbp_tuple_ok_def nbp_tuple_bytes_def)

lemma nbp_marshal_loop:
  "nbp_Marshal_loop b ts = Inr b' \<longleftrightarrow>
   (\<forall>t\<in>set ts. nbp_tuple_ok t) \<and> b' = b @ concat (map nbp_tuple_bytes ts)"
proof (induction ts arbitrary: b)
  case (Cons t ts)
  show ?case
  proof (cases "nbp_Tuple_writeTo t")
    case (Inl e)
    then have "\<not> nbp_tuple_ok t"
      using nbp_tuple_writes [of t] by (metis Inl_Inr_False)
    with Inl show ?thesis by simp
  next
    case (Inr x)
    then have "nbp_tuple_ok t" "x = nbp_tuple_bytes t"
      using nbp_tuple_writes [of t x] by auto
    with Inr Cons show ?thesis by simp
  qed
qed auto

lemma nbp_parse_tuple:
  assumes "nbp_tuple_ok t"
  shows "nbp_Unmarshal_tuple (nbp_tuple_bytes t @ r) = Inr (t, r)"
  using assms
  by (simp add: nbp_Unmarshal_tuple_def nbp_tuple_bytes_def nbp_tuple_ok_def w16_def
    readLV_lv length_lv)

lemma nbp_parse_loop:
  "\<forall>t\<in>set ts. nbp_tuple_ok t \<Longrightarrow>
   nbp_Unmarshal_loop (length ts) us (concat (map nbp_tuple_bytes ts) @ r) = Inr (us @ ts)"
  by (induction ts arbitrary: us) (simp_all add: nbp_parse_tuple)

lemma small_no_high_bits:
  assumes "unat (b :: byte) < 16" "4 \<le> k"
  shows "\<not> bit b k"
proof -
  have "(2 :: nat) ^ 4 \<le> 2 ^ k"
    using assms(2) by (intro power_increasing) simp_all
  then have "unat b div 2 ^ k = 0"
    using assms(1) by simp
  then have "\<not> bit (unat b) k"
    by (simp add: bit_iff_odd)
  then show ?thesis
    by (simp add: bit_unsigned_iff)
qed

lemma two_nibbles:
  assumes "unat (f :: byte) < 16" "unat (g :: byte) < 16"
  shows "drop_bit 4 (push_bit 4 f OR g) = f" "(push_bit 4 f OR g) AND 0x0F = g"
proof -
  note hi = small_no_high_bits [OF assms(1)] small_no_high_bits [OF assms(2)]
  show "drop_bit 4 (push_bit 4 f OR g) = f"
    using hi by (intro bit_eqI) (auto simp: bit_simps not_le [symmetric])
  have m: "(0x0F :: byte) = mask 4"
    by (simp add: mask_eq_exp_minus_1)
  show "(push_bit 4 f OR g) AND 0x0F = g"
    unfolding m using hi by (intro bit_eqI) (auto simp: bit_simps not_le [symmetric])
qed

text \<open>
  NBP: the parser accepts a single tuple, or several in a reply.
\<close>

definition nbp_shape_ok :: "nbp_Packet \<Rightarrow> bool" where
  "nbp_shape_ok p \<longleftrightarrow>
     length (nbp_Tuples p) = 1 \<or>
     nbp_Function p = FunctionLkUpReply \<and> nbp_Tuples p \<noteq> []"

lemma nbp_roundtrip_ok:
  assumes "nbp_Marshal p = Inr b" "nbp_shape_ok p"
  shows "nbp_Unmarshal b = Inr p"
proof -
  let ?n = "length (nbp_Tuples p)"
  define h where "h = push_bit 4 (nbp_Function p) OR of_nat ?n"
  have f: "nbp_Function p \<le> 4" and n: "?n \<le> 15"
    and ts: "\<forall>t\<in>set (nbp_Tuples p). nbp_tuple_ok t"
    and b: "b = [h, nbp_NBPID p] @
                concat (map nbp_tuple_bytes (nbp_Tuples p))"
    using assms(1) by (auto simp: nbp_Marshal_def nbp_marshal_loop h_def not_less split: if_splits)
  have nib: "unat (nbp_Function p) < 16" "unat (of_nat ?n :: byte) < 16"
    using f n by (simp_all add: word_le_nat_alt)
  have h: "drop_bit 4 h = nbp_Function p" "h AND 0x0F = of_nat ?n"
    unfolding h_def by (rule two_nibbles [OF nib])+
  have nz: "(of_nat ?n :: byte) \<noteq> 0"
    using n assms(2) by (auto simp: nbp_shape_ok_def word_unat_eq_iff)
  have one: "\<not> (1 < (of_nat ?n :: byte) \<and> nbp_Function p \<noteq> FunctionLkUpReply)"
    using assms(2) by (auto simp: nbp_shape_ok_def)
  have "nbp_Unmarshal_loop ?n [] (concat (map nbp_tuple_bytes (nbp_Tuples p))) = Inr (nbp_Tuples p)"
    using nbp_parse_loop [OF ts, of "[]" "[]"] by simp
  moreover have "unat (of_nat ?n :: byte) = ?n"
    using n by simp
  ultimately show ?thesis
    using nz one by (simp add: nbp_Unmarshal_def b h Let_def)
qed


lemma aep_roundtrip_ok: "aep_Marshal p = Inr b \<Longrightarrow> aep_Unmarshal b = Inr p"
  by (auto simp: aep_Marshal_def aep_Unmarshal_def split: if_splits)

text \<open>
  ATP: the writers copy \<open>UserBytes [4]byte\<close>, so the field has four bytes.
\<close>

fun atp_user_bytes :: "atp_Packet \<Rightarrow> byte list" where
  "atp_user_bytes (ATReq p) = treq_UserBytes p"
| "atp_user_bytes (ATResp p) = tresp_UserBytes p"
| "atp_user_bytes (ATRel p) = [0, 0, 0, 0]"

lemma four_bytes: "length u = 4 \<Longrightarrow> \<exists>a b c d. u = [a, b, c, d]"
  by (auto simp: numeral_eq_Suc length_Suc_conv)

lemma le4_cases: "(t :: byte) \<le> 4 \<Longrightarrow> t = 0 \<or> t = 1 \<or> t = 2 \<or> t = 3 \<or> t = 4"
proof -
  assume "t \<le> 4"
  then have "unat t \<in> {0, 1, 2, 3, 4}"
    by (auto simp: word_le_nat_alt)
  then show ?thesis
    by (auto simp: word_unat_eq_iff)
qed

lemma treq_roundtrip:
  assumes "atp_TReq_Marshal p = Inr b" "length (treq_UserBytes p) = 4"
  shows "atp_UnmarshalPacket b = Inr (ATReq p)"
proof -
  obtain e t m i u d where p: "p = \<lparr>treq_ExactlyOnce = e, treq_TRelTimeoutIndicator = t,
      treq_Bitmap = m, treq_TransactionID = i, treq_UserBytes = u, treq_Data = d\<rparr>"
    by (cases p)
  obtain u0 u1 u2 u3 where u: "u = [u0, u1, u2, u3]"
    using assms(2) four_bytes [of u] by (auto simp: p)
  have t: "t = 0 \<or> t = 1 \<or> t = 2 \<or> t = 3 \<or> t = 4" and e: "t \<noteq> 0 \<longrightarrow> e"
    and b: "b = (0x40 OR (if e then 0x20 else 0) OR t) # m # w16 i @ u @ d"
    using assms(1) by (auto simp: p atp_TReq_Marshal_def Let_def not_less split: if_splits dest: le4_cases)
  show ?thesis
    using t e by (elim disjE; cases e) (simp_all add: b u p atp_UnmarshalPacket_def w16_def)
qed

lemma tresp_roundtrip:
  assumes "atp_TResp_Marshal p = Inr b" "length (tresp_UserBytes p) = 4"
  shows "atp_UnmarshalPacket b = Inr (ATResp p)"
proof -
  obtain e t m i u d where p: "p = \<lparr>tresp_EndOfMessage = e, tresp_SendTransactionStatus = t,
      tresp_Sequence = m, tresp_TransactionID = i, tresp_UserBytes = u, tresp_Data = d\<rparr>"
    by (cases p)
  obtain u0 u1 u2 u3 where u: "u = [u0, u1, u2, u3]"
    using assms(2) four_bytes [of u] by (auto simp: p)
  have b: "b = (0x80 OR (if e then 0x10 else 0) OR (if t then 0x08 else 0)) # m # w16 i @ u @ d"
    using assms(1) by (simp add: p atp_TResp_Marshal_def Let_def)
  show ?thesis
    by (cases e; cases t) (simp_all add: b u p atp_UnmarshalPacket_def w16_def)
qed

lemma atp_roundtrip_ok:
  assumes "atp_Marshal p = Inr b" "length (atp_user_bytes p) = 4"
  shows "atp_UnmarshalPacket b = Inr p"
proof (cases p)
  case (ATRel r)
  with assms show ?thesis
    by (cases r) (auto simp: atp_TRel_Marshal_def atp_UnmarshalPacket_def w16_def)
qed (use assms in \<open>auto intro: treq_roundtrip tresp_roundtrip\<close>)


subsection \<open>RTMP\<close>

definition rtmp_tuple_ok :: "rtmp_NetworkTuple \<Rightarrow> bool" where
  "rtmp_tuple_ok nt \<longleftrightarrow>
     rnt_RangeStart nt \<noteq> 0 \<and> rnt_Distance nt AND 0x80 = 0 \<and>
     (\<not> rnt_Extended nt \<longrightarrow> rnt_RangeEnd nt = rnt_RangeStart nt)"

definition rtmp_data_ok :: "rtmp_DataPacket \<Rightarrow> bool" where
  "rtmp_data_ok dp \<longleftrightarrow>
     list_all rtmp_tuple_ok (dp_NetworkTuples dp) \<and>
     (dp_Extended dp \<longrightarrow>
        (case dp_NetworkTuples dp of [] \<Rightarrow> False | nt # _ \<Rightarrow> rnt_Extended nt))"

lemma rtmp_loop_tuple:
  assumes "rtmp_tuple_ok nt" "first \<longrightarrow> rnt_Extended nt"
  shows "rtmp_UnmarshalDataPacket_loop first ext nts (rtmp_tuple_bytes nt @ r) =
         rtmp_UnmarshalDataPacket_loop False ext (nts @ [nt]) r"
proof (cases nt)
  case (fields e s f d)
  show ?thesis
  proof (cases e)
    case True
    with assms fields have "s \<noteq> 0" "d AND 0x80 = 0"
      by (auto simp: rtmp_tuple_ok_def)
    moreover from this(2) have "(d OR 0x80) AND - 129 = d"
      using flag_clear [of d "0x80"] by simp
    ultimately show ?thesis
      using True fields
      by (subst rtmp_UnmarshalDataPacket_loop.simps)
        (simp add: rtmp_tuple_bytes_def w16_def flag_bit7)
  next
    case False
    with assms fields have "s \<noteq> 0" "d AND 0x80 = 0" "f = s" "\<not> first"
      by (auto simp: rtmp_tuple_ok_def)
    with False fields show ?thesis
      by (subst rtmp_UnmarshalDataPacket_loop.simps) (simp add: rtmp_tuple_bytes_def w16_def)
  qed
qed

lemma rtmp_loop_tuples:
  "list_all rtmp_tuple_ok nts \<Longrightarrow>
   rtmp_UnmarshalDataPacket_loop False ext us (concat (map rtmp_tuple_bytes nts)) = Inr (ext, us @ nts)"
proof (induction nts arbitrary: us)
  case Nil
  show ?case by (subst rtmp_UnmarshalDataPacket_loop.simps) simp
next
  case (Cons nt nts)
  then show ?case by (simp add: rtmp_loop_tuple)
qed

lemma rtmp_loop_version:
  "rtmp_UnmarshalDataPacket_loop True ext us (w16 0 @ [0x82] @ r) =
   rtmp_UnmarshalDataPacket_loop False False us r"
proof -
  have "be16 (byte_hi 0) (byte_lo 0) = 0" by simp
  then show ?thesis
    by (subst rtmp_UnmarshalDataPacket_loop.simps) (simp add: w16_def)
qed

definition rtmp_data_body :: "rtmp_DataPacket \<Rightarrow> byte list" where
  "rtmp_data_body dp = (if \<not> dp_Extended dp then w16 0 @ [0x82] else []) @
     concat (map rtmp_tuple_bytes (dp_NetworkTuples dp))"

lemma rtmp_loop_body:
  assumes "rtmp_data_ok dp"
  shows "rtmp_UnmarshalDataPacket_loop True True [] (rtmp_data_body dp) =
         Inr (dp_Extended dp, dp_NetworkTuples dp)"
proof (cases "dp_Extended dp")
  case True
  with assms obtain nt nts where "dp_NetworkTuples dp = nt # nts" "rnt_Extended nt"
    "rtmp_tuple_ok nt" "list_all rtmp_tuple_ok nts"
    by (auto simp: rtmp_data_ok_def split: list.splits)
  with True show ?thesis
    by (simp add: rtmp_data_body_def rtmp_loop_tuple rtmp_loop_tuples)
next
  case False
  with assms show ?thesis
    using rtmp_loop_version
    by (simp add: rtmp_data_body_def rtmp_data_ok_def rtmp_loop_tuples)
qed

lemma length_rtmp_tuple: "length (rtmp_tuple_bytes nt) mod 3 = 0" "3 \<le> length (rtmp_tuple_bytes nt)"
  by (simp_all add: rtmp_tuple_bytes_def)

lemma length_rtmp_tuples: "length (concat (map rtmp_tuple_bytes nts)) mod 3 = 0"
  by (induction nts) (simp_all add: mod_add_eq [symmetric] length_rtmp_tuple)

lemma length_rtmp_body:
  assumes "rtmp_data_ok dp"
  shows "length (rtmp_data_body dp) mod 3 = 0" "3 \<le> length (rtmp_data_body dp)"
proof -
  show "length (rtmp_data_body dp) mod 3 = 0"
    using length_rtmp_tuples [of "dp_NetworkTuples dp"]
    by (cases "dp_Extended dp") (simp_all add: rtmp_data_body_def mod_add_self1)
  show "3 \<le> length (rtmp_data_body dp)"
    using assms length_rtmp_tuple(2)
    by (auto simp: rtmp_data_body_def rtmp_data_ok_def split: list.splits intro: trans_le_add1)
qed

lemma rtmp_data_roundtrip_ok:
  assumes "rtmp_data_ok dp" "rtmp_DataPacket_Marshal dp = Inr b"
  shows "rtmp_UnmarshalDataPacket b = Inr dp"
proof -
  obtain n i where a: "dp_RouterAddr dp = \<lparr>ad_Network = n, ad_Node = i\<rparr>"
    by (cases "dp_RouterAddr dp")
  have b: "b = byte_hi n # byte_lo n # 8 # i # rtmp_data_body dp"
    using assms(2) by (simp add: rtmp_DataPacket_Marshal_def rtmp_data_body_def w16_def a)
  have "Suc (Suc (Suc (Suc (length (rtmp_data_body dp))))) - 4 = length (rtmp_data_body dp)"
    by simp
  with length_rtmp_body [OF assms(1)] rtmp_loop_body [OF assms(1)] show ?thesis
    by (simp add: rtmp_UnmarshalDataPacket_def b a [symmetric])
qed

lemma rtmp_request_roundtrip_ok:
  "rtmp_RequestPacket_Marshal rp = Inr b \<Longrightarrow> rtmp_UnmarshalRequestPacket b = Inr rp"
  by (cases rp) (auto simp: rtmp_RequestPacket_Marshal_def rtmp_UnmarshalRequestPacket_def split: if_splits)


text \<open>
  An RTMP response is parsed back except for its \<open>Extended\<close> flag, which the
  parser never sets.
\<close>

definition response_short_ok :: "rtmp_ResponsePacket \<Rightarrow> bool" where
  "response_short_ok rp \<longleftrightarrow> rs_Extended rp \<or> rs_RangeStart rp = 0 \<and> rs_RangeEnd rp = 0"

lemma rtmp_response_roundtrip_ok:
  assumes "rtmp_ResponsePacket_Marshal rp = Inr b" "response_short_ok rp"
  shows "rtmp_UnmarshalResponsePacket b = Inr (rp\<lparr>rs_Extended := False\<rparr>)"
proof -
  obtain n i e s f where rp: "rp = \<lparr>rs_SenderAddr = \<lparr>ad_Network = n, ad_Node = i\<rparr>,
      rs_Extended = e, rs_RangeStart = s, rs_RangeEnd = f\<rparr>"
    by (metis rtmp_ResponsePacket.cases ddp_Addr.cases)
  show ?thesis
    using assms
    by (cases e)
      (auto simp: rp rtmp_ResponsePacket_Marshal_def rtmp_UnmarshalResponsePacket_def w16_def
        response_short_ok_def Let_def)
qed


subsection \<open>ZIP\<close>

lemma zip_query_loop:
  "length p = 2 \<Longrightarrow>
   zip_UnmarshalQueryPacket_loop (length ns) ms (p @ concat (map w16 ns)) = Inr (ms @ ns)"
  by (induction ns arbitrary: p ms) simp_all

lemma zip_query_roundtrip_ok:
  assumes "zip_QueryPacket_Marshal p = Inr b"
  shows "zip_UnmarshalPacket b = Inr (ZQuery p)"
proof -
  let ?c = "of_nat (length (zq_Networks p)) :: byte"
  have n: "length (zq_Networks p) \<le> 255"
    and b: "b = [FunctionQuery, ?c] @ concat (map w16 (zq_Networks p))"
    using assms by (auto simp: zip_QueryPacket_Marshal_def split: if_splits)
  have "zip_UnmarshalQueryPacket_loop (length (zq_Networks p)) [] b = Inr (zq_Networks p)"
    unfolding b using zip_query_loop [of "[FunctionQuery, ?c]" "zq_Networks p" "[]"] by simp
  then show ?thesis
    using n by (simp add: zip_UnmarshalPacket_def zip_UnmarshalQueryPacket_def b)
qed

lemma zip_netinfo_roundtrip_ok:
  assumes "zip_GetNetInfoPacket_Marshal p = Inr b"
  shows "zip_UnmarshalPacket b = Inr (ZGetNetInfo p)"
proof -
  have "length (gni_ZoneName p) \<le> 32"
    and b: "b = [FunctionGetNetInfo] @ replicate 5 0 @ lv_bytes (gni_ZoneName p)"
    using assms by (auto simp: zip_GetNetInfoPacket_Marshal_def split: if_splits)
  moreover have "replicate 5 (0 :: byte) = [0, 0, 0, 0, 0]"
    by (simp add: numeral_eq_Suc)
  ultimately show ?thesis
    by (simp add: zip_UnmarshalPacket_def zip_UnmarshalGetNetInfoPacket_def lv_bytes_def)
qed

text \<open>
  A \<open>GetNetInfoReply\<close> carries a default zone name only when the zone was
  invalid; its multicast address \<open>ethernet.Addr\<close> has six bytes.
\<close>

definition netinfo_reply_ok :: "zip_GetNetInfoReplyPacket \<Rightarrow> bool" where
  "netinfo_reply_ok p \<longleftrightarrow>
     length (gnr_MulticastAddr p) = 6 \<and> (gnr_ZoneInvalid p \<or> gnr_DefaultZoneName p = [])"

lemma netinfo_flags:
  defines "fl z u o' \<equiv> (if z then 0x80 else 0) OR (if u then 0x40 else 0) OR (if o' then 0x20 else (0 :: byte))"
  shows "fl z u o' AND 0x80 \<noteq> 0 \<longleftrightarrow> z" "fl z u o' AND 0x40 \<noteq> 0 \<longleftrightarrow> u" "fl z u o' AND 0x20 \<noteq> 0 \<longleftrightarrow> o'"
  by (cases z; cases u; cases o'; simp add: fl_def)+

lemma zip_netinfo_reply_roundtrip_ok:
  assumes "zip_GetNetInfoReplyPacket_Marshal p = Inr b" "netinfo_reply_ok p"
  shows "zip_UnmarshalPacket b = Inr (ZGetNetInfoReply p)"
proof -
  obtain z u o' s e zn mc dz where p: "p = \<lparr>gnr_ZoneInvalid = z, gnr_UseBroadcast = u,
      gnr_OnlyOneZone = o', gnr_NetStart = s, gnr_NetEnd = e, gnr_ZoneName = zn,
      gnr_MulticastAddr = mc, gnr_DefaultZoneName = dz\<rparr>"
    by (cases p)
  define fl where "fl = (if z then 0x80 else 0) OR (if u then 0x40 else 0) OR (if o' then 0x20 else (0 :: byte))"
  have fl: "fl AND 0x80 \<noteq> 0 \<longleftrightarrow> z" "fl AND 0x40 \<noteq> 0 \<longleftrightarrow> u" "fl AND 0x20 \<noteq> 0 \<longleftrightarrow> o'"
    unfolding fl_def by (rule netinfo_flags)+
  have mc: "length mc = 6" and dz: "z \<or> dz = []"
    using assms(2) by (auto simp: netinfo_reply_ok_def p)
  have len: "length zn \<le> 32" "length dz \<le> 32"
    and b: "b = [FunctionGetNetInfoReply, fl] @ w16 s @ w16 e @ lv_bytes zn @ [6] @ mc @
             (if z then lv_bytes dz else [])"
    using assms(1)
    by (auto simp: zip_GetNetInfoReplyPacket_Marshal_def p fl_def Let_def split: if_splits)
  show ?thesis
    using len mc dz
    by (cases z)
      (simp_all add: zip_UnmarshalPacket_def zip_UnmarshalGetNetInfoReplyPacket_def b lv_bytes_def w16_def
        zip_GetNetInfoReply_tail_def p fl)
qed


text \<open>\<open>GetZoneList\<close>, \<open>GetLocalZones\<close> and \<open>GetMyZone\<close> travel in ATP packets.\<close>

lemma zip_get_zones_roundtrip_ok:
  assumes "gz_Function p \<in> {FunctionGetZoneList, FunctionGetLocalZones, FunctionGetMyZone}"
  shows "zip_UnmarshalTReq (zip_GetZones_MarshalTReq p) = Inr p"
  using assms by (cases p) (auto simp: zip_UnmarshalTReq_def zip_GetZones_MarshalTReq_def w16_def)

lemma zip_zones_data_ok:
  "zip_zones_data zs b = Inr d \<longleftrightarrow> (\<forall>z\<in>set zs. length z \<le> 32) \<and> d = b @ concat (map lv_bytes zs)"
  by (induction zs arbitrary: b) auto

lemma zip_zones_loop:
  "\<forall>z\<in>set zs. length z \<le> 32 \<Longrightarrow>
   zip_UnmarshalTResp_loop (length zs) us (concat (map lv_bytes zs)) = Inr (us @ zs, [])"
  by (induction zs arbitrary: us) (simp_all add: lv_bytes_def)

lemma length_zones_data: "length zs \<le> length (concat (map lv_bytes zs))"
  by (induction zs) (simp_all add: lv_bytes_def)

lemma zip_get_zones_reply_ok:
  assumes "zip_GetZonesReply_MarshalTResp p = Inr t"
  shows "zip_UnmarshalTResp t = Inr p"
proof -
  let ?d = "concat (map lv_bytes (gzr_Zones p))"
  have zs: "\<forall>z\<in>set (gzr_Zones p). length z \<le> 32" and d: "length ?d \<le> 578"
    and t: "t = \<lparr>tresp_EndOfMessage = True, tresp_SendTransactionStatus = False,
                    tresp_Sequence = 0, tresp_TransactionID = gzr_TID p,
                    tresp_UserBytes = [if gzr_LastFlag p then 1 else 0, 0] @
                                      w16 (of_nat (length (gzr_Zones p))),
                    tresp_Data = ?d\<rparr>"
    using assms
    by (auto simp: zip_GetZonesReply_MarshalTResp_def zip_zones_data_ok split: sum.splits if_splits)
  have "unat (of_nat (length (gzr_Zones p)) :: u16) = length (gzr_Zones p)"
    using d length_zones_data [of "gzr_Zones p"] by (simp add: unat_of_nat)
  then show ?thesis
    using zip_zones_loop [OF zs, of "[]"]
    by (simp add: zip_UnmarshalTResp_def t w16_def)
qed

lemma get_zones_fits_atp:
  assumes "zip_GetZonesReply_MarshalTResp p = Inr t" "atp_Marshal (ATResp t) = Inr b"
  shows "length b \<le> 586"
  using assms
  by (auto simp: zip_GetZonesReply_MarshalTResp_def atp_TResp_Marshal_def Let_def w16_def
    split: sum.splits if_splits)


text \<open>
  A ZIP reply lists its zones network by network; the parser collects them back
  per network.  The network count of the header is not read.
\<close>

definition zip_zone_bytes :: "network \<Rightarrow> string list \<Rightarrow> byte list" where
  "zip_zone_bytes n zs = concat (map (\<lambda>z. w16 n @ lv_bytes z) zs)"

definition zip_reply_body :: "(network \<times> string list) list \<Rightarrow> byte list" where
  "zip_reply_body m = concat (map (\<lambda>(n, zs). zip_zone_bytes n zs) m)"

definition zip_reply_ok :: "zip_ReplyPacket \<Rightarrow> bool" where
  "zip_reply_ok p \<longleftrightarrow>
     distinct (map fst (zr_Networks p)) \<and> list_all (\<lambda>(n, zs). zs \<noteq> []) (zr_Networks p)"

lemma zip_reply_zones:
  "zip_Reply_zones n zs b = Inr b' \<longleftrightarrow>
   (\<forall>z\<in>set zs. length z \<le> 32) \<and> b' = b @ zip_zone_bytes n zs"
  by (induction zs arbitrary: b) (auto simp: zip_zone_bytes_def)

lemma zip_reply_networks:
  "zip_Reply_networks ext m b = Inr b' \<Longrightarrow>
   (\<forall>(n, zs)\<in>set m. \<forall>z\<in>set zs. length z \<le> 32) \<and> b' = b @ zip_reply_body m"
proof (induction m arbitrary: b)
  case (Cons x m)
  obtain n zs where x: "x = (n, zs)" by (cases x)
  obtain c where c: "zip_Reply_zones n zs b = Inr c" and m: "zip_Reply_networks ext m c = Inr b'"
    using Cons.prems by (auto simp: x split: if_splits sum.splits)
  then show ?case
    using Cons.IH [OF m] by (simp add: x zip_reply_zones zip_reply_body_def)
qed (simp add: zip_reply_body_def)

lemma update_append: "n \<notin> fst ` set m \<Longrightarrow> AList.update n y (m @ [(n, x)]) = m @ [(n, y)]"
  by (induction m) auto

lemma update_new: "n \<notin> fst ` set m \<Longrightarrow> AList.update n y m = m @ [(n, y)]"
  by (induction m) auto

lemma map_of_append_new: "n \<notin> fst ` set m \<Longrightarrow> ([n \<mapsto> x] ++ map_of m) n = Some x"
  by (simp add: map_add_dom_app_simps(3) dom_map_of_conv_image_fst)

lemma zip_reply_loop_step:
  assumes "length z \<le> 32"
  shows "zip_UnmarshalReplyPacket_loop m (w16 n @ lv_bytes z @ r) =
         zip_UnmarshalReplyPacket_loop
           (AList.update n ((case map_of m n of Some zs \<Rightarrow> zs | None \<Rightarrow> []) @ [z]) m) r"
  using assms
  by (subst zip_UnmarshalReplyPacket_loop.simps) (simp add: w16_def lv_bytes_def)

lemma zip_reply_loop_more:
  assumes "n \<notin> fst ` set m" "\<forall>z\<in>set zs. length z \<le> 32"
  shows "zip_UnmarshalReplyPacket_loop (m @ [(n, us)]) (zip_zone_bytes n zs @ r) =
         zip_UnmarshalReplyPacket_loop (m @ [(n, us @ zs)]) r"
  using assms(2)
proof (induction zs arbitrary: us)
  case (Cons z zs)
  then show ?case
    using assms(1)
    by (simp add: zip_zone_bytes_def zip_reply_loop_step map_of_append_new update_append)
qed (simp add: zip_zone_bytes_def)

lemma zip_reply_loop_network:
  assumes "n \<notin> fst ` set m" "\<forall>z\<in>set zs. length z \<le> 32" "zs \<noteq> []"
  shows "zip_UnmarshalReplyPacket_loop m (zip_zone_bytes n zs @ r) =
         zip_UnmarshalReplyPacket_loop (m @ [(n, zs)]) r"
proof -
  obtain z zs' where zs: "zs = z # zs'"
    using assms(3) by (cases zs) auto
  have "map_of m n = None"
    using assms(1) by (simp add: map_of_eq_None_iff)
  then have "zip_UnmarshalReplyPacket_loop m (zip_zone_bytes n zs @ r) =
      zip_UnmarshalReplyPacket_loop (m @ [(n, [z])]) (zip_zone_bytes n zs' @ r)"
    using assms by (simp add: zs zip_zone_bytes_def zip_reply_loop_step update_new)
  then show ?thesis
    using zip_reply_loop_more [OF assms(1), of zs' "[z]" r] assms(2) by (simp add: zs)
qed

lemma zip_reply_loop_body:
  assumes "distinct (map fst m')" "fst ` set m \<inter> fst ` set m' = {}"
    "\<forall>(n, zs)\<in>set m'. zs \<noteq> [] \<and> (\<forall>z\<in>set zs. length z \<le> 32)"
  shows "zip_UnmarshalReplyPacket_loop m (zip_reply_body m') = Inr (m @ m')"
  using assms
proof (induction m' arbitrary: m)
  case Nil
  show ?case by (subst zip_UnmarshalReplyPacket_loop.simps) (simp add: zip_reply_body_def)
next
  case (Cons x m')
  obtain n zs where x: "x = (n, zs)" by (cases x)
  have "zip_UnmarshalReplyPacket_loop m (zip_reply_body (x # m')) =
      zip_UnmarshalReplyPacket_loop (m @ [(n, zs)]) (zip_reply_body m')"
    using Cons.prems zip_reply_loop_network [of n m zs] by (simp add: x zip_reply_body_def)
  also have "\<dots> = Inr ((m @ [(n, zs)]) @ m')"
    using Cons.prems by (intro Cons.IH) (auto simp: x)
  finally show ?case by (simp add: x)
qed

lemma zip_reply_roundtrip_ok:
  assumes "zip_ReplyPacket_Marshal p = Inr b" "zip_reply_ok p"
  shows "zip_UnmarshalPacket b = Inr (ZReply (p\<lparr>zr_NetworkCount := 0\<rparr>))"
proof -
  let ?f = "if zr_Extended p then FunctionExtendedReply else FunctionReply"
  have w: "zip_Reply_networks (zr_Extended p) (zr_Networks p) [?f, zr_NetworkCount p] = Inr b"
    using assms(1) by (auto simp: zip_ReplyPacket_Marshal_def split: if_splits)
  have b: "b = ?f # zr_NetworkCount p # zip_reply_body (zr_Networks p)"
    and len: "\<forall>(n, zs)\<in>set (zr_Networks p). \<forall>z\<in>set zs. length z \<le> 32"
    using zip_reply_networks [OF w] by auto
  have "zip_UnmarshalReplyPacket_loop [] (zip_reply_body (zr_Networks p)) = Inr (zr_Networks p)"
    using assms(2) len zip_reply_loop_body [of "zr_Networks p" "[]"]
    by (auto simp: zip_reply_ok_def list_all_iff split_beta)
  then show ?thesis
    by (cases "zr_Extended p") (simp_all add: b zip_UnmarshalPacket_def zip_UnmarshalReplyPacket_def)
qed


section \<open>Zone names and multicast addresses\<close>

definition fold_byte :: "byte \<Rightarrow> byte" where
  "fold_byte b = (let u = toUpperMap b in if u \<noteq> 0 then u else b)"

lemma upper_letters_fixed: "c \<le> 0x5A \<Longrightarrow> toUpperMap c = 0"
  by (auto simp: toUpperMap_def word_le_nat_alt)

lemma lower_to_upper:
  "0x61 \<le> (b :: byte) \<Longrightarrow> b \<le> 0x7A \<Longrightarrow> b - 0x20 \<le> 0x5A \<and> b - 0x20 \<noteq> 0 \<and> b - 0x20 \<noteq> 0x2A"
  by (auto simp: word_le_nat_alt unat_sub word_unat_eq_iff)

lemma fold_byte_cases:
  "toUpperMap b = 0 \<or>
   (toUpperMap b \<le> 0x5A \<and> toUpperMap b \<noteq> 0x2A) \<or>
   toUpperMap b \<in> {0xCB, 0x80, 0xCC, 0x81, 0x82, 0x83, 0x84, 0x85, 0xCD, 0x86, 0xAE, 0xAF, 0xCE}"
  using lower_to_upper [of b] by (simp add: toUpperMap_def)

lemma fold_byte_idem: "fold_byte (fold_byte b) = fold_byte b"
proof -
  have "toUpperMap (toUpperMap b) = 0" if "toUpperMap b \<noteq> 0"
    using fold_byte_cases [of b] that upper_letters_fixed [of "toUpperMap b"]
    by (elim disjE insertE) (simp_all add: toUpperMap_def)
  then show ?thesis
    by (simp add: fold_byte_def Let_def)
qed

lemma fold_byte_star: "fold_byte b = 0x2A \<longleftrightarrow> b = 0x2A"
  using fold_byte_cases [of b] by (auto simp: fold_byte_def Let_def upper_letters_fixed)

lemma ToUpper_fold: "ToUpper s = bytes_str (map fold_byte (str_bytes s))"
  by (simp add: ToUpper_def fold_byte_def [abs_def])

lemma ToUpper_idem: "ToUpper (ToUpper s) = ToUpper s"
  by (simp add: ToUpper_fold comp_def fold_byte_idem)

lemma bytes_str_eq: "bytes_str b = s \<longleftrightarrow> b = str_bytes s"
  by (metis bytes_str_bytes str_bytes_str)

lemma ToUpper_star: "ToUpper s = ''*'' \<longleftrightarrow> s = ''*''"
proof -
  have star: "str_bytes ''*'' = [0x2A]"
    by (simp add: str_bytes_def)
  have "ToUpper s = ''*'' \<longleftrightarrow> map fold_byte (str_bytes s) = [0x2A]"
    unfolding ToUpper_fold bytes_str_eq star ..
  also have "\<dots> \<longleftrightarrow> str_bytes s = [0x2A]"
    by (auto simp: map_eq_Cons_conv fold_byte_star)
  also have "\<dots> \<longleftrightarrow> s = ''*''"
    unfolding star [symmetric] by (metis bytes_str_bytes)
  finally show ?thesis .
qed

lemma ToUpper_empty: "ToUpper s = [] \<longleftrightarrow> s = []"
  by (simp add: ToUpper_def bytes_str_def str_bytes_def)

lemma Checksum_nonzero: "Checksum s \<noteq> 0"
  by (simp add: Checksum_def Let_def)

lemma MulticastAddr_case: "MulticastAddr bc (ToUpper z) = MulticastAddr bc z"
  by (simp add: MulticastAddr_def ToUpper_idem ToUpper_star ToUpper_empty)

lemma multicast_last_byte: "unat (ucast ((x :: u16) mod 0xFD) :: byte) \<le> 0xFC"
proof -
  have "unat (x mod 0xFD) < 0xFD"
    by (simp add: unat_mod)
  then show ?thesis
    by (simp add: unsigned_ucast_eq take_bit_nat_eq_self)
qed



section \<open>Properties\<close>

text \<open>
  The parsers composed with the ATP parser, as the ZIP handler composes them: the user bytes of a
  parsed request always hold the four bytes the ZIP parser reads.
\<close>

lemma atp_parsed_user_bytes:
  "atp_UnmarshalPacket d = Inr p \<Longrightarrow> length (atp_user_bytes p) = 4"
  by (auto simp: atp_UnmarshalPacket_def go_bind_eq_Inr go_slice_def split: if_splits)

lemma safe_zip_treq: "length (treq_UserBytes t) = 4 \<Longrightarrow> safe (zip_UnmarshalTReq t)"
  by (auto simp: zip_UnmarshalTReq_def)

lemma safe_zip_tresp_loop [simp]: "safe (zip_UnmarshalTResp_loop k zs d)"
  by (induction k arbitrary: zs d) auto

lemma safe_zip_tresp: "length (tresp_UserBytes t) = 4 \<Longrightarrow> safe (zip_UnmarshalTResp t)"
  by (auto simp: zip_UnmarshalTResp_def)

lemma safe_treq_of_atp: "atp_UnmarshalPacket d = Inr (ATReq t) \<Longrightarrow> safe (zip_UnmarshalTReq t)"
  by (drule atp_parsed_user_bytes) (simp add: safe_zip_treq)

lemma safe_tresp_of_atp: "atp_UnmarshalPacket d = Inr (ATResp t) \<Longrightarrow> safe (zip_UnmarshalTResp t)"
  by (drule atp_parsed_user_bytes) (simp add: safe_zip_tresp)

text \<open>
  No payload makes a parser of the local AppleTalk protocols panic: every index and slice
  expression of AEP, ATP, NBP, RTMP and ZIP unmarshalling is in range, also for the ZIP requests and
  replies that are parsed out of an ATP packet.
\<close>
theorem atalk_parsers_never_panic:
  "safe (aep_Unmarshal d) \<and> safe (atp_UnmarshalPacket d) \<and> safe (nbp_Unmarshal d) \<and>
   safe (rtmp_UnmarshalDataPacket d) \<and> safe (rtmp_UnmarshalRequestPacket d) \<and>
   safe (rtmp_UnmarshalResponsePacket d) \<and> safe (zip_UnmarshalPacket d) \<and>
   safe (go_bind (atp_UnmarshalPacket d)
     (\<lambda>p. case p of ATReq t \<Rightarrow> go_bind (zip_UnmarshalTReq t) (\<lambda>_. Inr ())
                  | ATResp t \<Rightarrow> go_bind (zip_UnmarshalTResp t) (\<lambda>_. Inr ())
                  | ATRel _ \<Rightarrow> Inr ()))"
  by (auto intro: safe_treq_of_atp safe_tresp_of_atp split: atp_Packet.split)

text \<open>
  An NBP packet that \<open>Marshal\<close> accepts and that holds one tuple, or is a lookup reply with at
  least one tuple, is parsed back by \<open>Unmarshal\<close> to the same packet: the packed function and count,
  the identifier and every tuple with its three length-prefixed names.
\<close>
theorem nbp_roundtrip:
  assumes "nbp_Marshal p = Inr b"
    and "length (nbp_Tuples p) = 1 \<or> nbp_Function p = FunctionLkUpReply \<and> nbp_Tuples p \<noteq> []"
  shows "nbp_Unmarshal b = Inr p"
  using assms by (intro nbp_roundtrip_ok) (simp_all add: nbp_shape_ok_def)

definition sample_nbp :: nbp_Packet where
  "sample_nbp = \<lparr>nbp_Function = FunctionLkUpReply, nbp_NBPID = 7, nbp_Tuples =
     [\<lparr>nbp_Network = 0x0102, nbp_Node = 3, nbp_Socket = 4, nbp_Enumerator = 5,
       nbp_Object = ''srv'', nbp_Type = ''AFPServer'', nbp_Zone = ''*''\<rparr>,
      \<lparr>nbp_Network = 0xFFFE, nbp_Node = 1, nbp_Socket = 2, nbp_Enumerator = 0,
       nbp_Object = [], nbp_Type = ''LaserWriter'', nbp_Zone = ''East''\<rparr>]\<rparr>"

theorem nbp_roundtrip_witness:
  "\<exists>b. nbp_Marshal sample_nbp = Inr b \<and> nbp_Unmarshal b = Inr sample_nbp"
proof -
  obtain b where b: "nbp_Marshal sample_nbp = Inr b"
    by (simp add: sample_nbp_def nbp_Marshal_def nbp_Tuple_writeTo_def)
  then have "nbp_Unmarshal b = Inr sample_nbp"
    by (rule nbp_roundtrip) (simp add: sample_nbp_def)
  with b show ?thesis by blast
qed

text \<open>
  An RTMP Data packet whose tuples have a non-zero start, a distance of seven bits and, when not
  extended, a range of one network, and which starts with an extended tuple when its network is
  extended, is parsed back to itself: the version tuple of a non-extended network, the version byte
  of the first extended tuple and the extended flag in the distance byte are all undone.
\<close>
theorem rtmp_data_roundtrip:
  assumes "list_all (\<lambda>nt. rnt_RangeStart nt \<noteq> 0 \<and> rnt_Distance nt AND 0x80 = 0 \<and>
      (\<not> rnt_Extended nt \<longrightarrow> rnt_RangeEnd nt = rnt_RangeStart nt)) (dp_NetworkTuples dp)"
    and "dp_Extended dp \<longrightarrow> dp_NetworkTuples dp \<noteq> [] \<and> rnt_Extended (hd (dp_NetworkTuples dp))"
    and "rtmp_DataPacket_Marshal dp = Inr b"
  shows "rtmp_UnmarshalDataPacket b = Inr dp"
proof (rule rtmp_data_roundtrip_ok [OF _ assms(3)])
  show "rtmp_data_ok dp"
    using assms(1,2)
    by (auto simp: rtmp_data_ok_def rtmp_tuple_ok_def list_all_iff split: list.splits)
qed

definition sample_rtmp :: rtmp_DataPacket where
  "sample_rtmp = \<lparr>dp_RouterAddr = \<lparr>ad_Network = 10, ad_Node = 200\<rparr>, dp_Extended = True,
     dp_NetworkTuples =
       [\<lparr>rnt_Extended = True, rnt_RangeStart = 10, rnt_RangeEnd = 12, rnt_Distance = 0\<rparr>,
        \<lparr>rnt_Extended = False, rnt_RangeStart = 20, rnt_RangeEnd = 20, rnt_Distance = 3\<rparr>]\<rparr>"

theorem rtmp_data_roundtrip_witness:
  "\<exists>b. rtmp_DataPacket_Marshal sample_rtmp = Inr b \<and> rtmp_UnmarshalDataPacket b = Inr sample_rtmp"
proof -
  obtain b where b: "rtmp_DataPacket_Marshal sample_rtmp = Inr b"
    by (simp add: rtmp_DataPacket_Marshal_def)
  have "rtmp_UnmarshalDataPacket b = Inr sample_rtmp"
    by (rule rtmp_data_roundtrip [OF _ _ b]) (simp_all add: sample_rtmp_def)
  with b show ?thesis by blast
qed

text \<open>
  An RTMP Response for an extended network is parsed to a packet that says the network is not
  extended: \<open>UnmarshalResponsePacket\<close> reads the range of the long form but leaves \<open>Extended\<close> unset,
  so no extended response survives the round trip.
\<close>
theorem rtmp_response_loses_extended:
  assumes "rs_Extended rp" "rtmp_ResponsePacket_Marshal rp = Inr b"
  shows "rtmp_UnmarshalResponsePacket b = Inr (rp\<lparr>rs_Extended := False\<rparr>) \<and>
         rtmp_UnmarshalResponsePacket b \<noteq> Inr rp"
proof -
  have "rtmp_UnmarshalResponsePacket b = Inr (rp\<lparr>rs_Extended := False\<rparr>)"
    using assms by (intro rtmp_response_roundtrip_ok) (simp_all add: response_short_ok_def)
  moreover have "rp\<lparr>rs_Extended := False\<rparr> \<noteq> rp"
    using assms(1) by (metis rtmp_ResponsePacket.select_convs(2) rtmp_ResponsePacket.surjective
      rtmp_ResponsePacket.update_convs(2))
  ultimately show ?thesis by simp
qed

definition sample_response :: rtmp_ResponsePacket where
  "sample_response = \<lparr>rs_SenderAddr = \<lparr>ad_Network = 3, ad_Node = 128\<rparr>, rs_Extended = True,
     rs_RangeStart = 3, rs_RangeEnd = 5\<rparr>"

theorem rtmp_response_loses_extended_witness:
  "\<exists>b. rtmp_ResponsePacket_Marshal sample_response = Inr b \<and>
       rtmp_UnmarshalResponsePacket b \<noteq> Inr sample_response"
proof -
  obtain b where b: "rtmp_ResponsePacket_Marshal sample_response = Inr b"
    by (simp add: rtmp_ResponsePacket_Marshal_def Let_def sample_response_def)
  moreover have "rs_Extended sample_response"
    by (simp add: sample_response_def)
  ultimately show ?thesis
    using rtmp_response_loses_extended [of sample_response b] by blast
qed

text \<open>
  A ZIP Reply or Extended Reply with distinct networks and at least one zone for each is parsed
  back to the same networks with the same zones in the same order.  Its network count, which the
  writer copies into the header, is not read back and becomes 0.
\<close>
theorem zip_reply_roundtrip:
  assumes "zip_ReplyPacket_Marshal p = Inr b"
    and "distinct (map fst (zr_Networks p))" "list_all (\<lambda>(n, zs). zs \<noteq> []) (zr_Networks p)"
  shows "zip_UnmarshalPacket b = Inr (ZReply (p\<lparr>zr_NetworkCount := 0\<rparr>))"
  using assms by (intro zip_reply_roundtrip_ok) (simp_all add: zip_reply_ok_def)

definition sample_reply :: zip_ReplyPacket where
  "sample_reply = \<lparr>zr_Extended = False, zr_NetworkCount = 2,
     zr_Networks = [(3, [''East'', ''West'']), (9, [''North''])]\<rparr>"

theorem zip_reply_roundtrip_witness:
  "\<exists>b. zip_ReplyPacket_Marshal sample_reply = Inr b \<and>
       zip_UnmarshalPacket b = Inr (ZReply (sample_reply\<lparr>zr_NetworkCount := 0\<rparr>))"
proof -
  obtain b where b: "zip_ReplyPacket_Marshal sample_reply = Inr b"
    by (simp add: sample_reply_def zip_ReplyPacket_Marshal_def)
  have "zip_UnmarshalPacket b = Inr (ZReply (sample_reply\<lparr>zr_NetworkCount := 0\<rparr>))"
    by (rule zip_reply_roundtrip [OF b]) (simp_all add: sample_reply_def)
  with b show ?thesis by blast
qed

text \<open>
  A ZIP GetNetInfo Reply whose multicast address has six bytes and that names a default zone only
  when the requested zone was invalid is parsed back to itself, flags and optional tail included.
\<close>
theorem zip_netinfo_reply_roundtrip:
  assumes "zip_GetNetInfoReplyPacket_Marshal p = Inr b"
    and "length (gnr_MulticastAddr p) = 6" "gnr_ZoneInvalid p \<or> gnr_DefaultZoneName p = []"
  shows "zip_UnmarshalPacket b = Inr (ZGetNetInfoReply p)"
  using assms by (intro zip_netinfo_reply_roundtrip_ok) (simp_all add: netinfo_reply_ok_def)

definition sample_netinfo :: zip_GetNetInfoReplyPacket where
  "sample_netinfo = \<lparr>gnr_ZoneInvalid = True, gnr_UseBroadcast = False, gnr_OnlyOneZone = True,
     gnr_NetStart = 3, gnr_NetEnd = 5, gnr_ZoneName = ''nowhere'',
     gnr_MulticastAddr = [9, 0, 7, 0, 0, 0xAB], gnr_DefaultZoneName = ''East''\<rparr>"

theorem zip_netinfo_reply_roundtrip_witness:
  "\<exists>b. zip_GetNetInfoReplyPacket_Marshal sample_netinfo = Inr b \<and>
       zip_UnmarshalPacket b = Inr (ZGetNetInfoReply sample_netinfo)"
proof -
  obtain b where b: "zip_GetNetInfoReplyPacket_Marshal sample_netinfo = Inr b"
    by (simp add: sample_netinfo_def zip_GetNetInfoReplyPacket_Marshal_def Let_def)
  have "zip_UnmarshalPacket b = Inr (ZGetNetInfoReply sample_netinfo)"
    by (rule zip_netinfo_reply_roundtrip [OF b]) (simp_all add: sample_netinfo_def)
  with b show ?thesis by blast
qed

text \<open>
  The multicast address of a zone depends on its name only up to the AppleTalk case folding, and
  for every zone but the empty one and \<open>*\<close> it is \<open>09:00:07:00:00:xx\<close> with \<open>xx\<close> at most \<open>FC\<close>.
\<close>
theorem zone_multicast_address:
  "MulticastAddr bc (ToUpper z) = MulticastAddr bc z \<and>
   (if z = [] \<or> z = ''*'' then MulticastAddr bc z = bc
    else \<exists>x. MulticastAddr bc z = [0x09, 0x00, 0x07, 0x00, 0x00, x] \<and> unat x \<le> 0xFC)"
  using multicast_last_byte [of "Checksum (ToUpper z)"]
  by (simp add: MulticastAddr_case) (simp add: MulticastAddr_def)

end
