(* ===== verification/Ddp.thy ===== *)
theory Ddp
  imports AtalkCodec
begin

text \<open>
  DDP datagrams as the router handles them: the hop count and length in the
  \<open>Size\<close> field (\<open>src/router/router.go\<close>, \<open>aurp_device_hide.go\<close>), the checksum
  (\<open>src/router/ddp_checksum.go\<close>) and the clearing of checksums on NBP forward
  requests (\<open>src/router/nbp_aurp_compat.go\<close>).

  \<open>ddp.ExtPacket\<close>, \<open>ddp.ExtMarshal\<close> and \<open>ddp.ProtoNBP\<close> belong to another module.
  The record has the fields the router uses, and the other two are the argument
  \<open>ddp\<close> of the definitions that need them.
\<close>

section \<open>Packets\<close>

record ExtPacket =
  dd_Size :: u16
  dd_Cksum :: u16
  dd_DstNet :: network
  dd_SrcNet :: network
  dd_DstNode :: byte
  dd_SrcNode :: byte
  dd_DstSocket :: byte
  dd_SrcSocket :: byte
  dd_Proto :: byte
  dd_Data :: "byte list"

record ddp_module =
  ExtMarshal :: "ExtPacket \<Rightarrow> string + byte list"
  ProtoNBP :: byte

datatype ddp_error =
    DdpMarshal string
  | DdpShort
  | DdpChecksum u16 u16
  | DdpNBP "atalk_error fault"
  | DdpNBPMarshal atalk_error
  | DdpHops u16

abbreviation DDPExtHeaderSize :: u16 where "DDPExtHeaderSize \<equiv> 13"

definition ddpHopCount :: "ExtPacket \<Rightarrow> u16" where
  "ddpHopCount p = drop_bit 10 (dd_Size p AND 0x3C00)"

definition setDDPHopCount :: "u16 \<Rightarrow> ExtPacket \<Rightarrow> ExtPacket" where
  "setDDPHopCount hopCount p =
     (let size = dd_Size p AND NOT 0x3C00 in
      p\<lparr>dd_Size := size OR push_bit 10 (hopCount AND 0x0f)\<rparr>)"

definition ddpPacketBytes :: "ExtPacket \<Rightarrow> 64 word" where
  "ddpPacketBytes p = of_nat (13 + length (dd_Data p))"

definition setDDPDataSize :: "nat \<Rightarrow> ExtPacket \<Rightarrow> ExtPacket" where
  "setDDPDataSize dataLen p =
     (let hops = dd_Size p AND 0x3c00 in
      p\<lparr>dd_Size := hops OR ((of_nat dataLen + DDPExtHeaderSize) AND 0x03ff)\<rparr>)"


section \<open>Checksum\<close>

definition computeDDPChecksum :: "ddp_module \<Rightarrow> ExtPacket \<Rightarrow> ddp_error + u16" where
  "computeDDPChecksum ddp p =
     (case ExtMarshal ddp p of
        Inl e \<Rightarrow> Inl (DdpMarshal e)
      | Inr raw \<Rightarrow>
          if length raw < 4 then Inl DdpShort
          else
            let checksum = fold (\<lambda>v c. RotateLeft16 (c + ucast v)) (drop 4 raw) 0 in
            if checksum = 0 then Inr 0xffff else Inr checksum)"

definition verifyDDPChecksum :: "ddp_module \<Rightarrow> ExtPacket \<Rightarrow> ddp_error + unit" where
  "verifyDDPChecksum ddp p =
     (if dd_Cksum p = 0 then Inr ()
      else case computeDDPChecksum ddp p of
        Inl e \<Rightarrow> Inl e
      | Inr got \<Rightarrow> if got \<noteq> dd_Cksum p then Inl (DdpChecksum (dd_Cksum p) got) else Inr ())"

definition normalizeAURPNBPFwdReqChecksum :: "ddp_module \<Rightarrow> ExtPacket \<Rightarrow> ExtPacket" where
  "normalizeAURPNBPFwdReqChecksum ddp p =
     (if dd_Cksum p = 0 \<or> dd_Proto p \<noteq> ProtoNBP ddp then p
      else case nbp_Unmarshal (dd_Data p) of
        Inl _ \<Rightarrow> p
      | Inr n \<Rightarrow> if nbp_Function n \<noteq> FunctionFwdReq then p else p\<lparr>dd_Cksum := 0\<rparr>)"


section \<open>The Size field\<close>

text \<open>
  \<open>Size\<close> holds the hop count in bits 10 to 13 and the length in bits 0 to 9; the
  two are independent.
\<close>

definition ddpLength :: "ExtPacket \<Rightarrow> u16" where
  "ddpLength p = dd_Size p AND 0x03ff"

lemma hop_mask: "(0x3C00 :: u16) = push_bit 10 (mask 4)" "(0x03ff :: u16) = mask 10"
  "(0x0f :: u16) = mask 4"
  by (simp_all add: mask_eq_exp_minus_1)

lemma hop_count_bits: "bit (ddpHopCount p) n \<longleftrightarrow> n < 4 \<and> bit (dd_Size p) (10 + n)"
  unfolding ddpHopCount_def hop_mask by (auto simp: bit_simps)

lemma length_bits: "bit (ddpLength p) n \<longleftrightarrow> n < 10 \<and> bit (dd_Size p) n"
  unfolding ddpLength_def hop_mask by (auto simp: bit_simps)

lemma set_hop_bits:
  "bit (dd_Size (setDDPHopCount h p)) n \<longleftrightarrow>
   n < 16 \<and> (if 10 \<le> n \<and> n < 14 then bit h (n - 10) else bit (dd_Size p) n)"
  unfolding setDDPHopCount_def hop_mask Let_def
  by (auto simp: bit_simps)

lemma set_size_bits:
  "bit (dd_Size (setDDPDataSize k p)) n \<longleftrightarrow>
   (if 10 \<le> n then n < 14 \<and> bit (dd_Size p) n else bit (of_nat k + 13 :: u16) n)"
  unfolding setDDPDataSize_def hop_mask Let_def
  by (auto simp: bit_simps)

lemma bits_bound: "(\<And>n. bit w n \<Longrightarrow> n < k) \<Longrightarrow> unat (w :: u16) < 2 ^ k"
proof -
  assume "\<And>n. bit w n \<Longrightarrow> n < k"
  then have "w = take_bit k w"
    by (intro bit_eqI) (auto simp: bit_simps)
  then have "unat w = take_bit k (unat w)"
    by (metis unsigned_take_bit_eq)
  also have "\<dots> < 2 ^ k"
    by (rule take_bit_nat_less_exp)
  finally show ?thesis .
qed

lemma bound_bits:
  assumes "unat (w :: u16) < 2 ^ k" "bit w n"
  shows "n < k"
proof -
  have "take_bit k (unat w) = unat w"
    using assms(1) by (simp add: take_bit_nat_eq_self)
  moreover have "bit (unat w) n"
    using assms(2) bit_imp_le_length [OF assms(2)] by (simp add: bit_unsigned_iff)
  ultimately show ?thesis
    by (metis bit_take_bit_iff)
qed

lemma hop_count_less: "unat (ddpHopCount p) < 16"
  using bits_bound [of "ddpHopCount p" 4] by (simp add: hop_count_bits)

lemma hop_count_set: "unat h < 16 \<Longrightarrow> ddpHopCount (setDDPHopCount h p) = h"
proof (rule bit_eqI)
  fix n
  assume "unat h < 16"
  then have "bit h n \<Longrightarrow> n < 4"
    using bound_bits [of h 4 n] by simp
  then show "bit (ddpHopCount (setDDPHopCount h p)) n \<longleftrightarrow> bit h n"
    by (auto simp: hop_count_bits set_hop_bits)
qed

lemma length_set_hop: "ddpLength (setDDPHopCount h p) = ddpLength p"
  by (rule bit_eqI) (auto simp: length_bits set_hop_bits)

lemma hop_count_set_size: "ddpHopCount (setDDPDataSize k p) = ddpHopCount p"
  by (rule bit_eqI) (auto simp: hop_count_bits set_size_bits)

lemma length_set_size: "k + 13 < 1024 \<Longrightarrow> ddpLength (setDDPDataSize k p) = of_nat (k + 13)"
proof (rule bit_eqI)
  fix n
  assume k: "k + 13 < 1024"
  have eq: "(of_nat k + 13 :: u16) = of_nat (k + 13)"
    by simp
  have "unat (of_nat (k + 13) :: u16) = k + 13"
    using k by (subst unat_of_nat) simp
  then have "unat (of_nat k + 13 :: u16) < 2 ^ 10"
    unfolding eq using k by simp
  then have "bit (of_nat k + 13 :: u16) n \<Longrightarrow> n < 10"
    using bound_bits [of "of_nat k + 13" 10 n] by simp
  then show "bit (ddpLength (setDDPDataSize k p)) n \<longleftrightarrow> bit (of_nat (k + 13) :: u16) n"
    by (auto simp: length_bits set_size_bits)
qed

end
