(* ===== verification/PeerPolicy.thy ===== *)
theory PeerPolicy
  imports RouterConfig Ddp AurpTuples
begin

text \<open>
  The per-peer policies of AURP: which rules of the configuration apply to a
  peer, network number remapping, import and export hiding
  (\<open>src/router/aurp_remap.go\<close>), device hiding (\<open>src/router/aurp_device_hide.go\<close>)
  and distance weighting (\<open>src/router/aurp_peer.go\<close>).

  \<open>AURPPeer\<close> holds the fields of the peer that these functions read.  The loops
  over the rules return at the first rule that applies.
\<close>

record AURPPeer =
  ConfiguredAddr :: string
  tunnelID :: string
  timing :: AURPConfig

section \<open>Selectors\<close>

definition peerSelectorMatches :: "string \<Rightarrow> 'a AURPPeer_scheme \<Rightarrow> bool" where
  "peerSelectorMatches selector0 peer =
     (if strings_TrimSpace selector0 = [] then True
      else
        let selector = strings_ToLower (strings_TrimSpace selector0) in
        if selector = strings_ToLower (tunnelID peer) then True
        else if ConfiguredAddr peer \<noteq> [] then
          let configured = strings_ToLower (ConfiguredAddr peer) in
          selector = configured \<or> selector = ''cfg:'' @ configured
        else False)"

definition hasRemapRuleForPeer :: "'a AURPPeer_scheme \<Rightarrow> bool" where
  "hasRemapRuleForPeer p \<longleftrightarrow>
     list_ex (\<lambda>rule. peerSelectorMatches (rr_Peer rule) p) (RemapRules (timing p))"


section \<open>Network number remapping\<close>

definition remapNetworkNumber ::
  "network \<Rightarrow> network \<Rightarrow> network \<Rightarrow> network \<Rightarrow> network \<times> bool" where
  "remapNetworkNumber n fromStart fromEnd toStart =
     (if n < fromStart \<or> n > fromEnd then (n, False) else (toStart + (n - fromStart), True))"

fun remapInboundNetwork_loop ::
  "'a AURPPeer_scheme \<Rightarrow> network \<Rightarrow> AURPRemapRule list \<Rightarrow> network \<times> bool" where
  "remapInboundNetwork_loop p n [] = (n, False)"
| "remapInboundNetwork_loop p n (rule # rules) =
     (if \<not> peerSelectorMatches (rr_Peer rule) p then remapInboundNetwork_loop p n rules
      else case remapNetworkNumber n (rr_RemoteStart rule) (rr_RemoteEnd rule) (rr_LocalStart rule) of
        (mapped, ok) \<Rightarrow> if ok then (mapped, True) else remapInboundNetwork_loop p n rules)"

definition remapInboundNetwork :: "'a AURPPeer_scheme \<Rightarrow> network \<Rightarrow> network \<times> bool" where
  "remapInboundNetwork p n = remapInboundNetwork_loop p n (RemapRules (timing p))"

fun remapOutboundNetwork_loop ::
  "'a AURPPeer_scheme \<Rightarrow> network \<Rightarrow> AURPRemapRule list \<Rightarrow> network \<times> bool" where
  "remapOutboundNetwork_loop p n [] = (n, False)"
| "remapOutboundNetwork_loop p n (rule # rules) =
     (if \<not> peerSelectorMatches (rr_Peer rule) p then remapOutboundNetwork_loop p n rules
      else case remapNetworkNumber n (rr_LocalStart rule) (rr_LocalEnd rule) (rr_RemoteStart rule) of
        (mapped, ok) \<Rightarrow> if ok then (mapped, True) else remapOutboundNetwork_loop p n rules)"

definition remapOutboundNetwork :: "'a AURPPeer_scheme \<Rightarrow> network \<Rightarrow> network \<times> bool" where
  "remapOutboundNetwork p n = remapOutboundNetwork_loop p n (RemapRules (timing p))"

text \<open>The error result of \<open>remapInboundRange\<close> is always nil.\<close>

fun remapInboundRange_loop ::
  "'a AURPPeer_scheme \<Rightarrow> network \<Rightarrow> network \<Rightarrow> AURPRemapRule list \<Rightarrow> network \<times> network \<times> bool" where
  "remapInboundRange_loop p start end' [] = (start, end', False)"
| "remapInboundRange_loop p start end' (rule # rules) =
     (if \<not> peerSelectorMatches (rr_Peer rule) p then remapInboundRange_loop p start end' rules
      else if start < rr_RemoteStart rule \<or> end' > rr_RemoteEnd rule
      then remapInboundRange_loop p start end' rules
      else (rr_LocalStart rule + (start - rr_RemoteStart rule),
            rr_LocalStart rule + (end' - rr_RemoteStart rule), True))"

definition remapInboundRange ::
  "'a AURPPeer_scheme \<Rightarrow> network \<Rightarrow> network \<Rightarrow> network \<times> network \<times> bool" where
  "remapInboundRange p start end' = remapInboundRange_loop p start end' (RemapRules (timing p))"

definition remapInboundNetworkTuple :: "'a AURPPeer_scheme \<Rightarrow> NetworkTuple \<Rightarrow> NetworkTuple" where
  "remapInboundNetworkTuple p tuple =
     (case remapInboundRange p (nt_RangeStart tuple) (nt_RangeEnd tuple) of
        (start, end', mapped) \<Rightarrow>
          if mapped then tuple\<lparr>nt_RangeStart := start, nt_RangeEnd := end'\<rparr> else tuple)"

definition remapInboundEvent :: "'a AURPPeer_scheme \<Rightarrow> EventTuple \<Rightarrow> EventTuple" where
  "remapInboundEvent p event =
     (if et_EventCode event = EventCodeNA \<or> et_EventCode event = EventCodeNDC then
        case remapInboundRange p (et_RangeStart event) (et_RangeEnd event) of
          (start, end', mapped) \<Rightarrow>
            if mapped then event\<lparr>et_RangeStart := start, et_RangeEnd := end'\<rparr> else event
      else if et_EventCode event = EventCodeND \<or> et_EventCode event = EventCodeNRC then
        case remapInboundNetwork p (et_RangeStart event) of
          (mapped, ok) \<Rightarrow> if ok then event\<lparr>et_RangeStart := mapped\<rparr> else event
      else event)"

text \<open>One pass over the NBP tuples: the tuples and whether one of them changed.\<close>

fun remap_nbp_tuples :: "'a AURPPeer_scheme \<Rightarrow> nbp_Tuple list \<Rightarrow> nbp_Tuple list \<times> bool" where
  "remap_nbp_tuples p [] = ([], False)"
| "remap_nbp_tuples p (t # ts) =
     (case remapInboundNetwork p (nbp_Network t) of
        (mapped, ok) \<Rightarrow>
          case remap_nbp_tuples p ts of
            (ts', changed) \<Rightarrow>
              if ok then (t\<lparr>nbp_Network := mapped\<rparr> # ts', True) else (t # ts', changed))"

definition remap_nbp_data ::
  "ddp_module \<Rightarrow> 'a AURPPeer_scheme \<Rightarrow> ExtPacket \<Rightarrow> ddp_error + (ExtPacket \<times> bool)" where
  "remap_nbp_data ddp p working =
     (if dd_Proto working = ProtoNBP ddp then
        case nbp_Unmarshal (dd_Data working) of
          Inl f \<Rightarrow> Inl (DdpNBP f)
        | Inr nbpPacket \<Rightarrow>
            (case remap_nbp_tuples p (nbp_Tuples nbpPacket) of
               (ts, nbpChanged) \<Rightarrow>
                 if nbpChanged then
                   case nbp_Marshal (nbpPacket\<lparr>nbp_Tuples := ts\<rparr>) of
                     Inl e \<Rightarrow> Inl (DdpNBPMarshal e)
                   | Inr data \<Rightarrow>
                       Inr (setDDPDataSize (length data) (working\<lparr>dd_Data := data\<rparr>), True)
                 else Inr (working, False))
      else Inr (working, False))"

definition remapInboundDDP ::
  "ddp_module \<Rightarrow> 'a AURPPeer_scheme \<Rightarrow> ExtPacket \<Rightarrow> ddp_error + ExtPacket" where
  "remapInboundDDP ddp p packet =
     (if \<not> hasRemapRuleForPeer p then Inr packet
      else
        case remapInboundNetwork p (dd_SrcNet packet) of
          (mapped, ok) \<Rightarrow>
            let working = (if ok then packet\<lparr>dd_SrcNet := mapped\<rparr> else packet) in
            case remap_nbp_data ddp p working of
              Inl e \<Rightarrow> Inl e
            | Inr (working', nbpChanged) \<Rightarrow>
                if \<not> (ok \<or> nbpChanged) then Inr packet
                else case verifyDDPChecksum ddp packet of
                  Inl e \<Rightarrow> Inl e
                | Inr _ \<Rightarrow> Inr (working'\<lparr>dd_Cksum := 0\<rparr>))"

definition remapOutboundDDP ::
  "ddp_module \<Rightarrow> 'a AURPPeer_scheme \<Rightarrow> ExtPacket \<Rightarrow> ddp_error + ExtPacket" where
  "remapOutboundDDP ddp p packet =
     (case remapOutboundNetwork p (dd_DstNet packet) of
        (mapped, ok) \<Rightarrow>
          if \<not> ok then Inr packet
          else case verifyDDPChecksum ddp packet of
            Inl e \<Rightarrow> Inl e
          | Inr _ \<Rightarrow> Inr (packet\<lparr>dd_DstNet := mapped, dd_Cksum := 0\<rparr>))"


section \<open>Hidden networks\<close>

definition exportNetworkHidden :: "'a AURPPeer_scheme \<Rightarrow> network \<Rightarrow> bool" where
  "exportNetworkHidden p n \<longleftrightarrow>
     networkHidden (timing p) n \<or>
     list_ex (\<lambda>rule. peerSelectorMatches (eh_Peer rule) p \<and> n \<ge> eh_Start rule \<and> n \<le> eh_End rule)
       (HiddenExportNetworks (timing p))"

definition exportRangeHidden :: "'a AURPPeer_scheme \<Rightarrow> network \<Rightarrow> network \<Rightarrow> bool" where
  "exportRangeHidden p start end' \<longleftrightarrow>
     rangeHidden (timing p) start end' \<or>
     list_ex (\<lambda>rule. peerSelectorMatches (eh_Peer rule) p \<and> start \<le> eh_End rule \<and> end' \<ge> eh_Start rule)
       (HiddenExportNetworks (timing p))"

definition importNetworkHidden :: "'a AURPPeer_scheme \<Rightarrow> network \<Rightarrow> bool" where
  "importNetworkHidden p n \<longleftrightarrow>
     list_ex (\<lambda>rule. peerSelectorMatches (ih_Peer rule) p \<and> n \<ge> ih_Start rule \<and> n \<le> ih_End rule)
       (HiddenImportNetworks (timing p))"

definition importRangeHidden :: "'a AURPPeer_scheme \<Rightarrow> network \<Rightarrow> network \<Rightarrow> bool" where
  "importRangeHidden p start end' \<longleftrightarrow>
     list_ex (\<lambda>rule. peerSelectorMatches (ih_Peer rule) p \<and> start \<le> ih_End rule \<and> end' \<ge> ih_Start rule)
       (HiddenImportNetworks (timing p))"


section \<open>Hidden devices\<close>

definition deviceHideDirectionMatches :: "string \<Rightarrow> string \<Rightarrow> bool" where
  "deviceHideDirectionMatches ruleDirection0 direction \<longleftrightarrow>
     (let ruleDirection = strings_ToLower (strings_TrimSpace ruleDirection0) in
      ruleDirection = [] \<or> ruleDirection = ''both'' \<or> ruleDirection = direction)"

definition deviceHideFieldMatches :: "string \<Rightarrow> string \<Rightarrow> bool" where
  "deviceHideFieldMatches rule0 v \<longleftrightarrow>
     (let rule = strings_TrimSpace rule0 in
      rule = [] \<or> rule = ''*'' \<or> strings_EqualFold rule v)"

definition hides :: "AURPDeviceHideRule \<Rightarrow> 'a AURPPeer_scheme \<Rightarrow> nbp_Tuple \<Rightarrow> string \<Rightarrow> bool" where
  "hides r peer tuple direction \<longleftrightarrow>
     peerSelectorMatches (dh_Peer r) peer \<and>
     deviceHideDirectionMatches (dh_Direction r) direction \<and>
     deviceHideFieldMatches (dh_Object r) (nbp_Object tuple) \<and>
     deviceHideFieldMatches (dh_Type r) (nbp_Type tuple)"

text \<open>The outcome is the packet to send on, or the decision to drop it.\<close>

datatype filter_result = Keep ExtPacket | Drop

definition filterDeviceNBP ::
  "ddp_module \<Rightarrow> 'a AURPPeer_scheme \<Rightarrow> ExtPacket \<Rightarrow> string \<Rightarrow> ddp_error + filter_result" where
  "filterDeviceNBP ddp p packet direction =
     (if dd_Proto packet \<noteq> ProtoNBP ddp \<or> HiddenDevices (timing p) = [] then Inr (Keep packet)
      else case nbp_Unmarshal (dd_Data packet) of
        Inl f \<Rightarrow> Inl (DdpNBP f)
      | Inr nbpPacket \<Rightarrow>
          if nbp_Function nbpPacket \<noteq> FunctionLkUpReply then Inr (Keep packet)
          else
            let kept = filter (\<lambda>tuple. \<not> list_ex (\<lambda>rule. hides rule p tuple direction)
                         (HiddenDevices (timing p))) (nbp_Tuples nbpPacket) in
            if length kept = length (nbp_Tuples nbpPacket) then Inr (Keep packet)
            else if kept = [] then Inr Drop
            else case verifyDDPChecksum ddp packet of
              Inl e \<Rightarrow> Inl e
            | Inr _ \<Rightarrow>
                (case nbp_Marshal (nbpPacket\<lparr>nbp_Tuples := kept\<rparr>) of
                   Inl e \<Rightarrow> Inl (DdpNBPMarshal e)
                 | Inr data \<Rightarrow>
                     Inr (Keep (setDDPDataSize (length data)
                       (packet\<lparr>dd_Data := data, dd_Cksum := 0\<rparr>)))))"


section \<open>Distances\<close>

definition backupRoutePenalty :: "'a AURPPeer_scheme \<Rightarrow> byte" where
  "backupRoutePenalty p =
     (case find (\<lambda>rule. peerSelectorMatches (bp_Peer rule) p) (BackupPeers (timing p)) of
        Some rule \<Rightarrow> bp_Penalty rule | None \<Rightarrow> 0)"

definition weightedAURPDistance :: "'a AURPPeer_scheme \<Rightarrow> byte \<Rightarrow> byte \<times> bool" where
  "weightedAURPDistance p advertised =
     (if advertised \<ge> maxRouteDistance then (0, False)
      else
        let distance = (ucast advertised :: u16) + 1 + ucast (HopCountWeight (timing p)) +
                       ucast (backupRoutePenalty p) in
        if distance > 15 then (0, False) else (ucast distance, True))"

definition applyAURPHopWeight :: "'a AURPPeer_scheme \<Rightarrow> ExtPacket \<Rightarrow> ddp_error + ExtPacket" where
  "applyAURPHopWeight p ddpkt =
     (if HopCountWeight (timing p) = 0 then Inr ddpkt
      else
        let newHopCount = ddpHopCount ddpkt + ucast (HopCountWeight (timing p)) in
        if newHopCount > 15 then Inl (DdpHops newHopCount)
        else Inr (setDDPHopCount newHopCount ddpkt))"

end
