(* ===== verification/PeerPolicyProps.thy ===== *)
theory PeerPolicyProps
  imports PeerPolicy
begin

text \<open>
  Correctness of the per-peer policies on configurations that \<open>LoadConfig\<close> accepts.
\<close>

section \<open>Accepted configurations\<close>

definition accepted :: "Config \<Rightarrow> Config \<Rightarrow> bool" where
  "accepted c0 c \<longleftrightarrow> LoadConfig c0 = (c, [])"

lemma each_empty: "each f xs = [] \<longleftrightarrow> (\<forall>i < length xs. f i (xs ! i) = [])"
proof -
  have "each f xs = [] \<longleftrightarrow> (\<forall>x \<in> set (enumerate 0 xs). f (fst x) (snd x) = [])"
    by (simp add: each_def split_beta)
  also have "\<dots> \<longleftrightarrow> (\<forall>i < length xs. f i (xs ! i) = [])"
  proof (intro iffI allI impI ballI)
    fix i
    assume "\<forall>x \<in> set (enumerate 0 xs). f (fst x) (snd x) = []" "i < length xs"
    moreover have "(i, xs ! i) \<in> set (enumerate 0 xs)"
      using \<open>i < length xs\<close> by (simp add: in_set_enumerate_eq)
    ultimately show "f i (xs ! i) = []" by fastforce
  qed (auto simp: in_set_enumerate_eq)
  finally show ?thesis .
qed

lemma each_pair_empty:
  "each_pair f xs = [] \<longleftrightarrow> (\<forall>i j. i < j \<and> j < length xs \<longrightarrow> f i j (xs ! i) (xs ! j) = [])"
proof -
  have "each_pair f xs = [] \<longleftrightarrow> (\<forall>i < length xs. \<forall>j \<in> {Suc i..<length xs}. f i j (xs ! i) (xs ! j) = [])"
    by (auto simp: each_pair_def)
  also have "\<dots> \<longleftrightarrow> (\<forall>i j. i < j \<and> j < length xs \<longrightarrow> f i j (xs ! i) (xs ! j) = [])"
    by fastforce
  finally show ?thesis .
qed

lemma each_empty_set: "each f xs = [] \<Longrightarrow> x \<in> set xs \<Longrightarrow> \<exists>i. f i x = []"
  by (auto simp: each_empty in_set_conv_nth)

lemma each_pair_empty_set:
  assumes "each_pair f xs = []" "x \<in> set xs" "y \<in> set xs" "x \<noteq> y"
  shows "(\<exists>i j. f i j x y = []) \<or> (\<exists>i j. f i j y x = [])"
proof -
  obtain i j where ij: "i < length xs" "j < length xs" "xs ! i = x" "xs ! j = y"
    using assms(2,3) by (auto simp: in_set_conv_nth)
  with assms(4) have "i < j \<or> j < i" by (metis nat_neq_iff)
  then show ?thesis
    using assms(1) ij unfolding each_pair_empty by metis
qed

definition remap_rule_ok :: "AURPRemapRule \<Rightarrow> bool" where
  "remap_rule_ok r \<longleftrightarrow>
     rr_RemoteStart r \<noteq> 0 \<and> rr_LocalStart r \<noteq> 0 \<and> rr_RemoteStart r \<le> rr_RemoteEnd r \<and>
     rr_LocalStart r \<le> rr_LocalEnd r \<and> rr_LocalEnd r < 0xff00 \<and>
     uint (rr_RemoteEnd r) - uint (rr_RemoteStart r) = uint (rr_LocalEnd r) - uint (rr_LocalStart r)"

definition in_local :: "AURPRemapRule \<Rightarrow> network \<Rightarrow> bool" where
  "in_local r n \<longleftrightarrow> rr_LocalStart r \<le> n \<and> n \<le> rr_LocalEnd r"

definition in_remote :: "AURPRemapRule \<Rightarrow> network \<Rightarrow> bool" where
  "in_remote r n \<longleftrightarrow> rr_RemoteStart r \<le> n \<and> n \<le> rr_RemoteEnd r"

definition remap_rules_ok :: "AURPRemapRule list \<Rightarrow> bool" where
  "remap_rules_ok rules \<longleftrightarrow>
     (\<forall>r \<in> set rules. remap_rule_ok r) \<and>
     (\<forall>a \<in> set rules. \<forall>b \<in> set rules. \<forall>n. in_local a n \<and> in_local b n \<longrightarrow> a = b)"

lemma remap_rule_checked: "remap_rule_errors i r = [] \<Longrightarrow> remap_rule_ok r"
  by (auto simp: remap_rule_errors_def remap_rule_ok_def Let_def not_le split: if_splits)

lemma remap_pair_checked:
  "remap_pair_errors i j a b = [] \<Longrightarrow> in_local a n \<Longrightarrow> in_local b n \<Longrightarrow> False"
  by (auto simp: remap_pair_errors_def nr_overlaps_def localRange_def in_local_def split: if_splits)

lemma accepted_parts:
  assumes "accepted c0 c"
  shows "each remap_rule_errors (RemapRules (cfg_AURP c)) = []"
    "each_pair remap_pair_errors (RemapRules (cfg_AURP c)) = []"
    "each import_errors (HiddenImportNetworks (cfg_AURP c)) = []"
    "each export_errors (HiddenExportNetworks (cfg_AURP c)) = []"
    "each backup_errors (BackupPeers (cfg_AURP c)) = []"
    "timing_errors (cfg_AURP c) = []"
    "concat (map port_errors (EtherTalk c)) = []"
    "each (\<lambda>i rule. concat (map (remap_port_errors i rule) (EtherTalk c))) (RemapRules (cfg_AURP c)) = []"
  using assms by (auto simp: accepted_def LoadConfig_def Let_def)

lemma accepted_remap: "accepted c0 c \<Longrightarrow> remap_rules_ok (RemapRules (cfg_AURP c))"
  unfolding remap_rules_ok_def
  by (metis accepted_parts(1,2) each_empty_set each_pair_empty_set remap_pair_checked remap_rule_checked)


section \<open>Remapping\<close>

lemma shift_into:
  assumes "a \<le> n" "n \<le> (b :: network)" "c \<le> d" "uint b - uint a = uint d - uint c"
  shows "c \<le> c + (n - a) \<and> c + (n - a) \<le> d" "unat (c + (n - a)) = unat c + (unat n - unat a)"
proof -
  have size: "unat b - unat a = unat d - unat c" "unat a \<le> unat n" "unat n \<le> unat b" "unat c \<le> unat d"
    using assms by (simp_all add: word_le_nat_alt) (metis nat_uint_eq nat_diff_distrib' uint_ge_0)
  have "unat (n - a) = unat n - unat a"
    using assms(1) by (rule unat_sub)
  moreover have "unat c + (unat n - unat a) < 65536"
    using size unat_u16_less [of d] by linarith
  ultimately show u: "unat (c + (n - a)) = unat c + (unat n - unat a)"
    by (simp add: unat_word_ariths)
  show "c \<le> c + (n - a) \<and> c + (n - a) \<le> d"
    unfolding word_le_nat_alt u using size by linarith
qed

lemma rule_in_out:
  assumes "remap_rule_ok r" "in_remote r n"
  shows "in_local r (rr_LocalStart r + (n - rr_RemoteStart r))"
    "unat (rr_LocalStart r + (n - rr_RemoteStart r)) =
     unat (rr_LocalStart r) + (unat n - unat (rr_RemoteStart r))"
  using assms shift_into [of "rr_RemoteStart r" n "rr_RemoteEnd r" "rr_LocalStart r" "rr_LocalEnd r"]
  by (simp_all add: remap_rule_ok_def in_remote_def in_local_def)

lemma inbound_loop_Some:
  "remapInboundNetwork_loop p n rules = (m, True) \<Longrightarrow>
   \<exists>r \<in> set rules. peerSelectorMatches (rr_Peer r) p \<and> in_remote r n \<and>
     m = rr_LocalStart r + (n - rr_RemoteStart r)"
  by (induction rules)
    (auto simp: remapNetworkNumber_def in_remote_def not_less split: if_splits)

lemma outbound_loop_found:
  assumes "r \<in> set rules" "peerSelectorMatches (rr_Peer r) p" "in_local r m"
    "\<And>r'. r' \<in> set rules \<Longrightarrow> in_local r' m \<Longrightarrow> r' = r"
  shows "remapOutboundNetwork_loop p m rules = (rr_RemoteStart r + (m - rr_LocalStart r), True)"
  using assms
proof (induction rules)
  case Nil
  from Nil.prems(1) show ?case by simp
next
  case (Cons x rules)
  show ?case
  proof (cases "peerSelectorMatches (rr_Peer x) p \<and> in_local x m")
    case True
    then have "x = r" using Cons.prems(4) by simp
    with True show ?thesis
      by (auto simp: remapNetworkNumber_def in_local_def not_less)
  next
    case False
    with Cons.prems(1-3) have "r \<in> set rules" by auto
    then have "remapOutboundNetwork_loop p m rules = (rr_RemoteStart r + (m - rr_LocalStart r), True)"
      using Cons.prems(2-4) by (intro Cons.IH) simp_all
    moreover have "\<not> peerSelectorMatches (rr_Peer x) p \<or> m < rr_LocalStart x \<or> rr_LocalEnd x < m"
      using False by (auto simp: in_local_def not_le)
    ultimately show ?thesis
      by (auto simp: remapNetworkNumber_def simp del: remapOutboundNetwork_loop.simps(1))
  qed
qed

lemma remap_inverts:
  assumes ok: "remap_rules_ok (RemapRules (timing p))" and m: "remapInboundNetwork p n = (m, True)"
  shows "remapOutboundNetwork p m = (n, True)" "m \<noteq> 0" "m < 0xff00"
proof -
  obtain r where r: "r \<in> set (RemapRules (timing p))" "peerSelectorMatches (rr_Peer r) p"
    "in_remote r n" and eq: "m = rr_LocalStart r + (n - rr_RemoteStart r)"
    using inbound_loop_Some m unfolding remapInboundNetwork_def by blast
  have rule: "remap_rule_ok r"
    using ok r(1) by (simp add: remap_rules_ok_def)
  have loc: "in_local r m"
    using rule_in_out(1) [OF rule r(3)] by (simp add: eq)
  have "remapOutboundNetwork p m = (rr_RemoteStart r + (m - rr_LocalStart r), True)"
    unfolding remapOutboundNetwork_def
  proof (rule outbound_loop_found [OF r(1,2) loc])
    show "r' = r" if "r' \<in> set (RemapRules (timing p))" "in_local r' m" for r'
      using ok r(1) loc that unfolding remap_rules_ok_def by blast
  qed
  then show "remapOutboundNetwork p m = (n, True)"
    by (simp add: eq)
  show "m < 0xff00"
    using loc rule by (auto simp: in_local_def remap_rule_ok_def)
  show "m \<noteq> 0"
    using loc rule by (auto simp: in_local_def remap_rule_ok_def)
qed

lemma range_loop_Some:
  "remapInboundRange_loop p s e rules = (s', e', True) \<Longrightarrow> s \<le> e \<Longrightarrow>
   \<exists>r \<in> set rules. peerSelectorMatches (rr_Peer r) p \<and> in_remote r s \<and> in_remote r e \<and>
     s' = rr_LocalStart r + (s - rr_RemoteStart r) \<and> e' = rr_LocalStart r + (e - rr_RemoteStart r)"
  by (induction rules) (auto simp: in_remote_def not_less split: if_splits)

lemma remap_range_shape:
  assumes ok: "remap_rules_ok (RemapRules (timing p))"
    and m: "remapInboundRange p s e = (s', e', True)" and le: "s \<le> e"
  shows "s' \<le> e'" "e' < 0xff00" "s' \<noteq> 0" "unat e' - unat s' = unat e - unat s"
proof -
  obtain r where r: "r \<in> set (RemapRules (timing p))" "in_remote r s" "in_remote r e"
    and eq: "s' = rr_LocalStart r + (s - rr_RemoteStart r)" "e' = rr_LocalStart r + (e - rr_RemoteStart r)"
    using range_loop_Some m le unfolding remapInboundRange_def by blast
  have rule: "remap_rule_ok r"
    using ok r(1) by (simp add: remap_rules_ok_def)
  have u: "unat s' = unat (rr_LocalStart r) + (unat s - unat (rr_RemoteStart r))"
    "unat e' = unat (rr_LocalStart r) + (unat e - unat (rr_RemoteStart r))"
    using rule_in_out(2) [OF rule] r(2,3) by (simp_all add: eq)
  have b: "unat (rr_RemoteStart r) \<le> unat s" "unat s \<le> unat e"
    using r(2) le by (simp_all add: in_remote_def word_le_nat_alt)
  show "s' \<le> e'" "unat e' - unat s' = unat e - unat s"
    using u b by (simp_all add: word_le_nat_alt)
  have "in_local r e'" "in_local r s'"
    using rule_in_out(1) [OF rule] r(2,3) by (simp_all add: eq)
  then show "e' < 0xff00" "s' \<noteq> 0"
    using rule by (auto simp: in_local_def remap_rule_ok_def)
qed


section \<open>Hidden networks\<close>

text \<open>Two ranges overlap exactly when they share a network.\<close>

lemma overlap_iff:
  "(s :: network) \<le> e \<Longrightarrow> a \<le> b \<Longrightarrow> s \<le> b \<and> e \<ge> a \<longleftrightarrow> (\<exists>n. s \<le> n \<and> n \<le> e \<and> n \<ge> a \<and> n \<le> b)"
proof
  assume le: "s \<le> e" "a \<le> b" and "s \<le> b \<and> e \<ge> a"
  then show "\<exists>n. s \<le> n \<and> n \<le> e \<and> n \<ge> a \<and> n \<le> b"
    by (intro exI [of _ "max s a"]) simp
next
  assume "\<exists>n. s \<le> n \<and> n \<le> e \<and> n \<ge> a \<and> n \<le> b"
  then obtain n where "s \<le> n" "n \<le> e" "a \<le> n" "n \<le> b" by blast
  then show "s \<le> b \<and> e \<ge> a"
    by (meson order_trans)
qed

lemma list_ex_overlap:
  assumes le: "s \<le> e" and ok: "\<forall>r \<in> set rs. lo r \<le> hi r"
  shows "list_ex (\<lambda>r. P r \<and> s \<le> hi r \<and> e \<ge> lo r) rs \<longleftrightarrow>
    (\<exists>n :: network. s \<le> n \<and> n \<le> e \<and> list_ex (\<lambda>r. P r \<and> n \<ge> lo r \<and> n \<le> hi r) rs)"
  using ok
proof (induction rs)
  case (Cons r rs)
  then have "s \<le> hi r \<and> e \<ge> lo r \<longleftrightarrow> (\<exists>n. s \<le> n \<and> n \<le> e \<and> n \<ge> lo r \<and> n \<le> hi r)"
    using overlap_iff [OF le, of "lo r" "hi r"] by simp
  with Cons show ?case by simp blast
qed simp

lemma import_range_iff:
  assumes "s \<le> e" "\<forall>r \<in> set (HiddenImportNetworks (timing p)). ih_Start r \<le> ih_End r"
  shows "importRangeHidden p s e \<longleftrightarrow> (\<exists>n. s \<le> n \<and> n \<le> e \<and> importNetworkHidden p n)"
  unfolding importRangeHidden_def importNetworkHidden_def by (rule list_ex_overlap [OF assms])

lemma export_range_iff:
  assumes "s \<le> e" "\<forall>r \<in> set (HiddenExportNetworks (timing p)). eh_Start r \<le> eh_End r"
    "\<forall>r \<in> set (HiddenNetworks (timing p)). nr_Start r \<le> nr_End r"
  shows "exportRangeHidden p s e \<longleftrightarrow> (\<exists>n. s \<le> n \<and> n \<le> e \<and> exportNetworkHidden p n)"
proof -
  have "rangeHidden (timing p) s e \<longleftrightarrow> (\<exists>n. s \<le> n \<and> n \<le> e \<and> networkHidden (timing p) n)"
    using list_ex_overlap [OF assms(1,3), of "\<lambda>_. True"]
    by (simp add: rangeHidden_def networkHidden_def nr_overlaps_def nr_contains_def)
  then show ?thesis
    unfolding exportRangeHidden_def exportNetworkHidden_def list_ex_overlap [OF assms(1,2)] by blast
qed

lemma accepted_hidden:
  assumes "accepted c0 c"
  shows "\<forall>r \<in> set (HiddenImportNetworks (cfg_AURP c)). ih_Start r \<le> ih_End r"
    "\<forall>r \<in> set (HiddenExportNetworks (cfg_AURP c)). eh_Start r \<le> eh_End r"
proof -
  have "import_errors i r = [] \<Longrightarrow> ih_Start r \<le> ih_End r" for i r
    by (auto simp: import_errors_def bad_range_def not_less split: if_splits)
  then show "\<forall>r \<in> set (HiddenImportNetworks (cfg_AURP c)). ih_Start r \<le> ih_End r"
    using each_empty_set [OF accepted_parts(3) [OF assms]] by blast
  have "export_errors i r = [] \<Longrightarrow> eh_Start r \<le> eh_End r" for i r
    by (auto simp: export_errors_def bad_range_def not_less split: if_splits)
  then show "\<forall>r \<in> set (HiddenExportNetworks (cfg_AURP c)). eh_Start r \<le> eh_End r"
    using each_empty_set [OF accepted_parts(4) [OF assms]] by blast
qed


section \<open>Distances\<close>

lemma weighted_distance_ok:
  assumes "weightedAURPDistance p a = (d, True)"
  shows "unat d = unat a + 1 + unat (HopCountWeight (timing p)) + unat (backupRoutePenalty p)"
    "unat d \<le> 15"
proof -
  let ?d = "(ucast a :: u16) + 1 + ucast (HopCountWeight (timing p)) + ucast (backupRoutePenalty p)"
  have d: "d = ucast ?d" and le: "?d \<le> 15"
    using assms by (auto simp: weightedAURPDistance_def Let_def not_less split: if_splits)
  have u: "unat ?d = unat a + 1 + unat (HopCountWeight (timing p)) + unat (backupRoutePenalty p)"
    using unat_byte_less [of a] unat_byte_less [of "HopCountWeight (timing p)"]
      unat_byte_less [of "backupRoutePenalty p"]
    by (simp add: unat_word_ariths unsigned_ucast_eq take_bit_nat_eq_self)
  have "unat ?d \<le> 15"
    using le by (simp add: word_le_nat_alt)
  then have "unat d = unat ?d"
    by (simp add: d unsigned_ucast_eq take_bit_nat_eq_self)
  with u \<open>unat ?d \<le> 15\<close>
  show "unat d = unat a + 1 + unat (HopCountWeight (timing p)) + unat (backupRoutePenalty p)"
    "unat d \<le> 15"
    by simp_all
qed

lemma weighted_distance_fails:
  assumes "weightedAURPDistance p a = (d, False)"
  shows "15 \<le> unat a \<or> 15 < unat a + 1 + unat (HopCountWeight (timing p)) + unat (backupRoutePenalty p)"
proof -
  let ?d = "(ucast a :: u16) + 1 + ucast (HopCountWeight (timing p)) + ucast (backupRoutePenalty p)"
  have u: "unat ?d = unat a + 1 + unat (HopCountWeight (timing p)) + unat (backupRoutePenalty p)"
    using unat_byte_less [of a] unat_byte_less [of "HopCountWeight (timing p)"]
      unat_byte_less [of "backupRoutePenalty p"]
    by (simp add: unat_word_ariths unsigned_ucast_eq take_bit_nat_eq_self)
  have "15 \<le> a \<or> 15 < ?d"
    using assms by (auto simp: weightedAURPDistance_def Let_def split: if_splits)
  then show ?thesis
    unfolding word_le_nat_alt word_less_nat_alt u by simp
qed

lemma hop_weight_ok:
  assumes "applyAURPHopWeight p q = Inr q'"
  shows "unat (ddpHopCount q') = unat (ddpHopCount q) + unat (HopCountWeight (timing p))"
    "unat (ddpHopCount q') \<le> 15" "ddpLength q' = ddpLength q"
proof -
  let ?w = "ucast (HopCountWeight (timing p)) :: u16"
  have w: "unat ?w = unat (HopCountWeight (timing p))"
    using unat_byte_less [of "HopCountWeight (timing p)"]
    by (simp add: unsigned_ucast_eq take_bit_nat_eq_self)
  have u: "unat (ddpHopCount q + ?w) = unat (ddpHopCount q) + unat (HopCountWeight (timing p))"
    using hop_count_less [of q] unat_byte_less [of "HopCountWeight (timing p)"]
    by (simp add: unat_word_ariths w)
  consider "HopCountWeight (timing p) = 0" "q' = q"
    | "ddpHopCount q + ?w \<le> 15" "q' = setDDPHopCount (ddpHopCount q + ?w) q"
    using assms unfolding applyAURPHopWeight_def Let_def
    by (metis Inl_Inr_False Inr_inject not_less)
  then have "unat (ddpHopCount q') = unat (ddpHopCount q) + unat (HopCountWeight (timing p)) \<and>
    unat (ddpHopCount q') \<le> 15 \<and> ddpLength q' = ddpLength q"
  proof cases
    case 1
    then show ?thesis using hop_count_less [of q] by simp
  next
    case 2
    then have "unat (ddpHopCount q + ?w) \<le> 15"
      by (simp add: word_le_nat_alt)
    then have "ddpHopCount q' = ddpHopCount q + ?w"
      unfolding 2(2) by (intro hop_count_set) simp
    with u \<open>unat (ddpHopCount q + ?w) \<le> 15\<close> show ?thesis
      by (simp add: 2(2) length_set_hop)
  qed
  then show "unat (ddpHopCount q') = unat (ddpHopCount q) + unat (HopCountWeight (timing p))"
    "unat (ddpHopCount q') \<le> 15" "ddpLength q' = ddpLength q"
    by simp_all
qed


section \<open>Hidden devices\<close>

definition visible :: "'a AURPPeer_scheme \<Rightarrow> string \<Rightarrow> nbp_Tuple \<Rightarrow> bool" where
  "visible p dir t \<longleftrightarrow> \<not> list_ex (\<lambda>r. hides r p t dir) (HiddenDevices (timing p))"

lemma filter_all: "length (filter P xs) = length xs \<Longrightarrow> filter P xs = xs"
  by (metis filter_True length_filter_less less_irrefl)

lemma nbp_update_same: "n\<lparr>nbp_Tuples := nbp_Tuples n\<rparr> = n"
  by (cases n) simp

lemma set_size_frame:
  "dd_Data (setDDPDataSize k q) = dd_Data q" "dd_DstNet (setDDPDataSize k q) = dd_DstNet q"
  "dd_SrcNet (setDDPDataSize k q) = dd_SrcNet q" "dd_Cksum (setDDPDataSize k q) = dd_Cksum q"
  by (simp_all add: setDDPDataSize_def Let_def)

lemma hop_count_data: "ddpHopCount (q\<lparr>dd_Data := d, dd_Cksum := c\<rparr>) = ddpHopCount q"
  by (simp add: ddpHopCount_def)

lemma filter_device_ok:
  assumes f: "filterDeviceNBP ddp p q dir = Inr (Keep q')" and proto: "dd_Proto q = ProtoNBP ddp"
    and n: "nbp_Unmarshal (dd_Data q) = Inr n" and reply: "nbp_Function n = FunctionLkUpReply"
  shows "nbp_Unmarshal (dd_Data q') = Inr (n\<lparr>nbp_Tuples := filter (visible p dir) (nbp_Tuples n)\<rparr>)"
    "ddpHopCount q' = ddpHopCount q \<and> dd_DstNet q' = dd_DstNet q"
proof -
  let ?kept = "filter (visible p dir) (nbp_Tuples n)"
  let ?n = "n\<lparr>nbp_Tuples := ?kept\<rparr>"
  have k: "filter (\<lambda>t. \<not> list_ex (\<lambda>r. hides r p t dir) (HiddenDevices (timing p))) (nbp_Tuples n) = ?kept"
    by (simp add: visible_def [abs_def])
  consider "q' = q" "?kept = nbp_Tuples n"
    | d where "?kept \<noteq> []" "nbp_Marshal ?n = Inr d"
      "q' = setDDPDataSize (length d) (q\<lparr>dd_Data := d, dd_Cksum := 0\<rparr>)"
  proof (cases "HiddenDevices (timing p) = []")
    case True
    then have "?kept = nbp_Tuples n" "q' = q"
      using f by (simp_all add: filterDeviceNBP_def visible_def)
    then show ?thesis using that(1) by blast
  next
    case False
    show ?thesis
    proof (cases "length ?kept = length (nbp_Tuples n)")
      case True
      with f False have "q' = q"
        by (simp add: filterDeviceNBP_def proto n reply k Let_def)
      with True show ?thesis using that(1) filter_all by blast
    next
      case len: False
      with f False have ne: "?kept \<noteq> []"
        by (auto simp: filterDeviceNBP_def proto n reply k Let_def)
      with f False len obtain d where "nbp_Marshal ?n = Inr d"
        "q' = setDDPDataSize (length d) (q\<lparr>dd_Data := d, dd_Cksum := 0\<rparr>)"
        by (simp add: filterDeviceNBP_def proto n reply k Let_def split: sum.splits)
      with ne show ?thesis using that(2) by blast
    qed
  qed
  then have "nbp_Unmarshal (dd_Data q') = Inr ?n \<and>
    ddpHopCount q' = ddpHopCount q \<and> dd_DstNet q' = dd_DstNet q"
  proof cases
    case 1
    then show ?thesis by (simp add: n nbp_update_same)
  next
    case 2
    have "nbp_shape_ok ?n"
      using reply 2(1) by (simp add: nbp_shape_ok_def)
    with 2(2) have "nbp_Unmarshal d = Inr ?n"
      by (rule nbp_roundtrip_ok)
    then show ?thesis
      by (simp add: 2(3) set_size_frame hop_count_set_size hop_count_data)
  qed
  then show "nbp_Unmarshal (dd_Data q') = Inr (n\<lparr>nbp_Tuples := filter (visible p dir) (nbp_Tuples n)\<rparr>)"
    "ddpHopCount q' = ddpHopCount q \<and> dd_DstNet q' = dd_DstNet q"
    by simp_all
qed


section \<open>Properties\<close>

text \<open>A configuration with two remap rules for different selectors, and two of its peers.\<close>

definition sample_aurp :: AURPConfig where
  "sample_aurp =
     \<lparr>LastHeardFromTimeout = 0, RetryInterval = 0, SendRetryLimit = 0, TickleRetryLimit = 0,
      ZoneInfoRetryInterval = 0, UpdateInterval = 0, HiddenNetworks = [],
      HopCountReduction = False, HopCountWeight = 2,
      RemapRules =
        [\<lparr>rr_Peer = [], rr_RemoteStart = 10, rr_RemoteEnd = 12, rr_LocalStart = 100, rr_LocalEnd = 102\<rparr>,
         \<lparr>rr_Peer = ''cfg:b.example'', rr_RemoteStart = 10, rr_RemoteEnd = 12,
           rr_LocalStart = 200, rr_LocalEnd = 202\<rparr>],
      HiddenDevices = [\<lparr>dh_Peer = [], dh_Object = ''*'', dh_Type = ''LaserWriter'', dh_Direction = ''both''\<rparr>],
      Clusters = [], BackupPeers = [],
      HiddenImportNetworks = [\<lparr>ih_Peer = [], ih_Start = 50, ih_End = 60\<rparr>],
      HiddenExportNetworks = []\<rparr>"

definition sample_config :: Config where
  "sample_config =
     \<lparr>ListenPort = 0, MonitoringAddr = [], LocalIP = [], EtherTalk = [], OpenPeering = False,
      cfg_AURP = sample_aurp, cfg_Peers = [], PeerListURL = []\<rparr>"

definition sample_peer :: "string \<Rightarrow> AURPPeer" where
  "sample_peer addr =
     \<lparr>ConfiguredAddr = addr, tunnelID = ''cfg:'' @ addr, timing = cfg_AURP (fst (LoadConfig sample_config))\<rparr>"

lemma sample_accepted: "accepted sample_config (fst (LoadConfig sample_config))"
proof -
  have "snd (LoadConfig sample_config) = []"
    by code_simp
  then show ?thesis
    unfolding accepted_def by (metis prod.collapse)
qed


text \<open>
  C37: under every configuration that \<open>LoadConfig\<close> accepts, outbound remapping undoes inbound
  remapping for every peer: if an incoming network number is translated, translating the result
  back gives the original number.  The translated number is never 0 and never in the AppleTalk
  startup range, and the 16-bit arithmetic does not wrap.
\<close>
theorem remap_inbound_outbound:
  assumes "accepted c0 c" "timing p = cfg_AURP c" "remapInboundNetwork p n = (m, True)"
  shows "remapOutboundNetwork p m = (n, True) \<and> m \<noteq> 0 \<and> m < 0xff00"
  using remap_inverts [of p n m] accepted_remap [OF assms(1)] assms(2,3) by simp

theorem remap_inbound_outbound_witness:
  "remapInboundNetwork (sample_peer ''a.example'') 11 = (101, True) \<and>
   remapOutboundNetwork (sample_peer ''a.example'') 101 = (11, True)"
proof -
  have "remapInboundNetwork (sample_peer ''a.example'') 11 = (101, True)"
    by code_simp
  then show ?thesis
    using remap_inbound_outbound [OF sample_accepted, of "sample_peer ''a.example''" 11 101]
    by (simp add: sample_peer_def)
qed


text \<open>
  A network range that is remapped keeps its order and its size, and ends below the startup
  range, so installing it in the route table returns.
\<close>
theorem remap_range_well_formed:
  assumes "accepted c0 c" "timing p = cfg_AURP c"
    and "remapInboundRange p s e = (s', e', True)" "s \<le> e"
  shows "s' \<le> e' \<and> s' \<noteq> 0 \<and> e' < 0xff00 \<and> unat e' - unat s' = unat e - unat s"
  using remap_range_shape [of p s e s' e'] accepted_remap [OF assms(1)] assms(2-4) by simp

theorem remap_range_well_formed_witness:
  "remapInboundRange (sample_peer ''a.example'') 10 12 = (100, 102, True) \<and>
   (100 :: network) \<le> 102 \<and> unat (102 :: network) - unat (100 :: network) = unat (12 :: network) - unat (10 :: network)"
proof -
  have "remapInboundRange (sample_peer ''a.example'') 10 12 = (100, 102, True)"
    by code_simp
  then show ?thesis
    using remap_range_well_formed [OF sample_accepted, of "sample_peer ''a.example''" 10 12 100 102]
    by (simp add: sample_peer_def)
qed

text \<open>
  An event that adds a range is remapped as a whole, one that deletes it by its start alone: a
  range that only begins inside a remap rule is added under its own number and deleted under
  another, so the route stays.
\<close>
lemma remap_delete_misses_route:
  "\<exists>c0 c (p :: AURPPeer) na nd. accepted c0 c \<and> timing p = cfg_AURP c \<and>
     et_EventCode na = EventCodeNA \<and> et_EventCode nd = EventCodeND \<and>
     et_RangeStart na = et_RangeStart nd \<and>
     et_RangeStart (remapInboundEvent p na) \<noteq> et_RangeStart (remapInboundEvent p nd)"
proof (intro exI conjI)
  let ?na = "\<lparr>et_EventCode = 1, et_Extended = True, et_RangeStart = 11, et_Distance = 1, et_RangeEnd = 20\<rparr>"
  let ?nd = "?na\<lparr>et_EventCode := 2\<rparr>"
  show "accepted sample_config (fst (LoadConfig sample_config))"
    by (rule sample_accepted)
  show "timing (sample_peer ''a.example'') = cfg_AURP (fst (LoadConfig sample_config))"
    by (simp add: sample_peer_def)
  show "et_RangeStart (remapInboundEvent (sample_peer ''a.example'') ?na) \<noteq>
        et_RangeStart (remapInboundEvent (sample_peer ''a.example'') ?nd)"
    by code_simp
qed simp_all

text \<open>
  For an accepted configuration, a range of networks is hidden on import, or on export when the
  globally hidden ranges are ordered as their parser requires, exactly when one of its networks is;
  the two overlap tests and the two membership tests agree.
\<close>
theorem hidden_ranges_exact:
  assumes "accepted c0 c" "timing p = cfg_AURP c" "s \<le> e"
    and "list_all (\<lambda>r. nr_Start r \<le> nr_End r) (HiddenNetworks (cfg_AURP c))"
  shows "(importRangeHidden p s e \<longleftrightarrow> (\<exists>n. s \<le> n \<and> n \<le> e \<and> importNetworkHidden p n)) \<and>
         (exportRangeHidden p s e \<longleftrightarrow> (\<exists>n. s \<le> n \<and> n \<le> e \<and> exportNetworkHidden p n))"
  using import_range_iff [of s e p] export_range_iff [of s e p] accepted_hidden [OF assms(1)] assms(2-4)
  by (simp add: list_all_iff)

theorem hidden_ranges_exact_witness:
  "importRangeHidden (sample_peer ''a.example'') 40 50 \<and>
   (\<exists>n. 40 \<le> n \<and> n \<le> 50 \<and> importNetworkHidden (sample_peer ''a.example'') n)"
proof -
  have "importRangeHidden (sample_peer ''a.example'') 40 50"
    by code_simp
  moreover have "list_all (\<lambda>r. nr_Start r \<le> nr_End r) (HiddenNetworks (cfg_AURP (fst (LoadConfig sample_config))))"
    by code_simp
  ultimately show ?thesis
    using hidden_ranges_exact [OF sample_accepted, of "sample_peer ''a.example''" 40 50]
    by (simp add: sample_peer_def)
qed

text \<open>
  The distance stored for a route learned from a peer is the advertised distance plus one, the
  configured weight and the backup penalty, at most 15 and without 8-bit wrap-around; the route is
  refused exactly when that sum exceeds 15 or the advertised distance is already 15 or more.
\<close>
theorem weighted_distance_exact:
  "let sum = unat a + 1 + unat (HopCountWeight (timing p)) + unat (backupRoutePenalty p) in
   case weightedAURPDistance p a of (d, reachable) \<Rightarrow>
     if reachable then unat d = sum \<and> sum \<le> 15 else 15 \<le> unat a \<or> 15 < sum"
proof (cases "weightedAURPDistance p a")
  case (Pair d r)
  then show ?thesis
    using weighted_distance_ok [of p a d] weighted_distance_fails [of p a d]
    by (cases r) (auto simp: Let_def)
qed

text \<open>
  C38: when an NBP lookup reply is passed on to or from a peer, the packet that is sent holds exactly
  the tuples no device-hiding rule hides, in order, in a form the NBP parser reads back; the hop
  count and the destination network are kept.
\<close>
theorem hidden_devices_filtered:
  assumes "filterDeviceNBP ddp p q dir = Inr (Keep q')" "dd_Proto q = ProtoNBP ddp"
    and "nbp_Unmarshal (dd_Data q) = Inr n" "nbp_Function n = FunctionLkUpReply"
  shows "nbp_Unmarshal (dd_Data q') =
           Inr (n\<lparr>nbp_Tuples := filter (\<lambda>t. \<not> list_ex (\<lambda>r. hides r p t dir) (HiddenDevices (timing p)))
                                   (nbp_Tuples n)\<rparr>) \<and>
         ddpHopCount q' = ddpHopCount q \<and> dd_DstNet q' = dd_DstNet q"
  using filter_device_ok [OF assms] by (simp add: visible_def [abs_def])

definition sample_ddp :: ddp_module where
  "sample_ddp = \<lparr>ExtMarshal = (\<lambda>p. Inr (w16 (dd_Size p) @ w16 (dd_Cksum p) @ w16 (dd_DstNet p) @
     w16 (dd_SrcNet p) @ [dd_DstNode p, dd_SrcNode p, dd_DstSocket p, dd_SrcSocket p, dd_Proto p] @ dd_Data p)),
     ProtoNBP = 2\<rparr>"

definition sample_lookup_reply :: ExtPacket where
  "sample_lookup_reply =
     \<lparr>dd_Size = 0x0400, dd_Cksum = 0, dd_DstNet = 7, dd_SrcNet = 10, dd_DstNode = 1, dd_SrcNode = 2,
      dd_DstSocket = 3, dd_SrcSocket = 4, dd_Proto = 2,
      dd_Data = (case nbp_Marshal sample_nbp of Inr d \<Rightarrow> d | Inl _ \<Rightarrow> [])\<rparr>"

theorem hidden_devices_filtered_witness:
  "\<exists>q' n. filterDeviceNBP sample_ddp (sample_peer ''a.example'') sample_lookup_reply ''export'' = Inr (Keep q') \<and>
     nbp_Unmarshal (dd_Data q') = Inr n \<and> length (nbp_Tuples n) = 1"
proof -
  let ?p = "sample_peer ''a.example''"
  obtain q' where f: "filterDeviceNBP sample_ddp ?p sample_lookup_reply ''export'' = Inr (Keep q')"
  proof -
    have "case filterDeviceNBP sample_ddp ?p sample_lookup_reply ''export'' of
        Inr (Keep _) \<Rightarrow> True | _ \<Rightarrow> False"
      by code_simp
    then show ?thesis
      using that by (auto split: sum.splits filter_result.splits)
  qed
  have n: "nbp_Unmarshal (dd_Data sample_lookup_reply) = Inr sample_nbp"
    by code_simp
  have len: "length (filter (\<lambda>t. \<not> list_ex (\<lambda>r. hides r ?p t ''export'') (HiddenDevices (timing ?p)))
      (nbp_Tuples sample_nbp)) = 1"
    by code_simp
  have "dd_Proto sample_lookup_reply = ProtoNBP sample_ddp" "nbp_Function sample_nbp = FunctionLkUpReply"
    by (simp_all add: sample_lookup_reply_def sample_ddp_def sample_nbp_def)
  then have "nbp_Unmarshal (dd_Data q') = Inr (sample_nbp\<lparr>nbp_Tuples :=
      filter (\<lambda>t. \<not> list_ex (\<lambda>r. hides r ?p t ''export'') (HiddenDevices (timing ?p)))
        (nbp_Tuples sample_nbp)\<rparr>)"
    using hidden_devices_filtered [OF f _ n] by blast
  with f len show ?thesis by fastforce
qed

end
