(* ===== verification/AurpRouting.thy ===== *)
theory AurpRouting
  imports Transport RouteTableReach PeerPolicyProps
begin

text \<open>
  The routing information a router sends to its AURP peers
  (\<open>src/router/aurp_routing.go\<close>): which routes are exported, the event that
  tells a peer about a change, and the division of long lists of tuples into
  datagrams.

  The locale \<open>chunker\<close> is the contract of the two chunking loops, one for
  network tuples and one for event tuples: the equations of the loop and the
  size of a tuple on the wire.
\<close>

section \<open>Exported routes and events\<close>

abbreviation aurpRoutingDatagramBudget :: int where "aurpRoutingDatagramBudget \<equiv> 1400"

record pendingAURPChange =
  ch_before :: Route
  ch_after :: Route

definition aurpRouteIsLocal :: "Route \<Rightarrow> bool" where
  "aurpRouteIsLocal r \<longleftrightarrow> \<not> Route_Zero r \<and> ro_Kind (Route_RouteOrigin r) \<noteq> RouteOriginAURP"

definition aurpRouteIsAdvertisable :: "Route \<Rightarrow> bool" where
  "aurpRouteIsAdvertisable r \<longleftrightarrow> aurpRouteIsLocal r \<and> r_Distance r < maxRouteDistance"

definition aurpEventTupleFromRoute :: "EventCode \<Rightarrow> Route \<Rightarrow> EventTuple" where
  "aurpEventTupleFromRoute code r =
     \<lparr>et_EventCode = code, et_Extended = r_Extended r, et_RangeStart = r_NetStart r,
      et_Distance = (if code = EventCodeND \<or> code = EventCodeNRC then 0 else r_Distance r),
      et_RangeEnd = r_NetEnd r\<rparr>"

definition aurpEventForBestTransition :: "Route \<Rightarrow> Route \<Rightarrow> EventTuple option" where
  "aurpEventForBestTransition before after =
     (let beforeAdvertised = aurpRouteIsAdvertisable before;
          afterAdvertised = aurpRouteIsAdvertisable after in
      if \<not> beforeAdvertised \<and> afterAdvertised
      then Some (aurpEventTupleFromRoute EventCodeNA after)
      else if beforeAdvertised \<and> afterAdvertised then
        if r_Distance before \<noteq> r_Distance after \<or> r_Extended before \<noteq> r_Extended after \<or>
           r_NetEnd before \<noteq> r_NetEnd after
        then Some (aurpEventTupleFromRoute EventCodeNDC after)
        else None
      else if beforeAdvertised \<and> aurpRouteIsLocal after \<and> r_Distance after \<ge> maxRouteDistance
      then Some (aurpEventTupleFromRoute EventCodeNDC after)
      else if beforeAdvertised \<and> \<not> Route_Zero after \<and>
              ro_Kind (Route_RouteOrigin after) = RouteOriginAURP
      then Some (aurpEventTupleFromRoute EventCodeNRC before)
      else if beforeAdvertised then Some (aurpEventTupleFromRoute EventCodeND before)
      else None)"

text \<open>The pending changes are a map by network; events come in the order of the networks.\<close>

definition aurpEventsForPendingChanges :: "(network \<times> pendingAURPChange) list \<Rightarrow> EventTuples" where
  "aurpEventsForPendingChanges changes =
     List.map_filter (\<lambda>n. case map_of changes n of
         None \<Rightarrow> None
       | Some change \<Rightarrow> aurpEventForBestTransition (ch_before change) (ch_after change))
       (sort (map fst changes))"

text \<open>The loop of \<open>aurpExportedRoutes\<close> over the routes of one class.\<close>

fun exported_loop ::
  "time \<Rightarrow> RouteTable \<Rightarrow> Route list \<Rightarrow> RouteKey list \<times> Route list \<Rightarrow> RouteKey list \<times> Route list" where
  "exported_loop now rt [] (seen, routes) = (seen, routes)"
| "exported_loop now rt (r # rs) (seen, routes) =
     (let best = Lookup now (r_NetStart r) rt in
      if \<not> aurpRouteIsAdvertisable best \<or> r_RouteKey best \<noteq> r_RouteKey r
      then exported_loop now rt rs (seen, routes)
      else if r_RouteKey best \<in> set seen then exported_loop now rt rs (seen, routes)
      else exported_loop now rt rs (r_RouteKey best # seen, routes @ [best]))"

definition compare_exported :: "Route \<Rightarrow> Route \<Rightarrow> int" where
  "compare_exported a b =
     cmp_or
       [cmp_compare (r_NetStart a) (r_NetStart b), cmp_compare (r_NetEnd a) (r_NetEnd b),
        cmp_compare (r_Distance a) (r_Distance b), cmp_compare (r_TargetKey a) (r_TargetKey b)]"

definition aurpExportedRoutes :: "time \<Rightarrow> RouteTable \<Rightarrow> Route list" where
  "aurpExportedRoutes now rt =
     (let (seen, routes) =
        fold (\<lambda>c. exported_loop now rt (ValidRoutesForClass now c rt))
          [TargetClassDirect, TargetClassAppleTalkPeer] ([], [])
      in sort_func compare_exported routes)"

definition peer_aurpExportedRoutes :: "time \<Rightarrow> RouteTable \<Rightarrow> 'a AURPPeer_scheme \<Rightarrow> Route list" where
  "peer_aurpExportedRoutes now rt p =
     filter (\<lambda>route. \<not> exportRangeHidden p (r_NetStart route) (r_NetEnd route))
       (aurpExportedRoutes now rt)"


section \<open>Datagrams\<close>

definition aurpNetworkTupleSize :: "NetworkTuple \<Rightarrow> int" where
  "aurpNetworkTupleSize nt = (if nt_Extended nt then 6 else 3)"

definition aurpEventTupleSize :: "EventTuple \<Rightarrow> int" where
  "aurpEventTupleSize et =
     (if et_EventCode et = EventCodeNull then 1 else if et_Extended et then 6 else 4)"

datatype chunk_error =
    ChunkWrite aurp_error
  | ChunkHeader int
  | ChunkBudget int
  | ChunkTuple int

definition aurpRoutingPayloadBudget :: "Packet \<Rightarrow> chunk_error + int" where
  "aurpRoutingPayloadBudget pkt =
     (case encode (Packet_WriteTo pkt) of
        Inl e \<Rightarrow> Inl (ChunkWrite e)
      | Inr b \<Rightarrow>
          let budget = aurpRoutingDatagramBudget - int (length b) in
          if budget \<le> 0 then Inl (ChunkHeader (int (length b))) else Inr budget)"

text \<open>The loops carry the finished chunks, the current chunk and its size.\<close>

fun chunkAURPNetworkTuples_loop ::
  "int \<Rightarrow> NetworkTuples list \<Rightarrow> NetworkTuples \<Rightarrow> int \<Rightarrow> NetworkTuples \<Rightarrow> chunk_error + NetworkTuples list" where
  "chunkAURPNetworkTuples_loop maxBytes chunks chunk sz [] =
     Inr (if chunk \<noteq> [] then chunks @ [chunk] else chunks)"
| "chunkAURPNetworkTuples_loop maxBytes chunks chunk sz (nt # nts) =
     (let n = aurpNetworkTupleSize nt in
      if n > maxBytes then Inl (ChunkTuple n)
      else if chunk \<noteq> [] \<and> sz + n > maxBytes
      then chunkAURPNetworkTuples_loop maxBytes (chunks @ [chunk]) [nt] n nts
      else chunkAURPNetworkTuples_loop maxBytes chunks (chunk @ [nt]) (sz + n) nts)"

definition chunkAURPNetworkTuples :: "NetworkTuples \<Rightarrow> int \<Rightarrow> chunk_error + NetworkTuples list" where
  "chunkAURPNetworkTuples tuples maxBytes =
     (if maxBytes \<le> 0 then Inl (ChunkBudget maxBytes)
      else if tuples = [] then Inr [[]]
      else chunkAURPNetworkTuples_loop maxBytes [] [] 0 tuples)"

fun chunkAURPEventTuples_loop ::
  "int \<Rightarrow> EventTuples list \<Rightarrow> EventTuples \<Rightarrow> int \<Rightarrow> EventTuples \<Rightarrow> chunk_error + EventTuples list" where
  "chunkAURPEventTuples_loop maxBytes chunks chunk sz [] =
     Inr (if chunk \<noteq> [] then chunks @ [chunk] else chunks)"
| "chunkAURPEventTuples_loop maxBytes chunks chunk sz (et # ets) =
     (let n = aurpEventTupleSize et in
      if n > maxBytes then Inl (ChunkTuple n)
      else if chunk \<noteq> [] \<and> sz + n > maxBytes
      then chunkAURPEventTuples_loop maxBytes (chunks @ [chunk]) [et] n ets
      else chunkAURPEventTuples_loop maxBytes chunks (chunk @ [et]) (sz + n) ets)"

definition chunkAURPEventTuples :: "EventTuples \<Rightarrow> int \<Rightarrow> chunk_error + EventTuples list" where
  "chunkAURPEventTuples events maxBytes =
     (if maxBytes \<le> 0 then Inl (ChunkBudget maxBytes)
      else chunkAURPEventTuples_loop maxBytes [] [] 0 events)"


section \<open>Chunks\<close>

locale chunker =
  fixes loop :: "int \<Rightarrow> 'a list list \<Rightarrow> 'a list \<Rightarrow> int \<Rightarrow> 'b list \<Rightarrow> 'e + 'a list list"
    and mk :: "'b \<Rightarrow> 'a"
    and err :: "'b \<Rightarrow> int \<Rightarrow> 'e"
    and tsize :: "'b \<Rightarrow> int"
    and enc :: "'a \<Rightarrow> byte list"
  assumes loop_Nil: "loop m cs c s [] = Inr (if c \<noteq> [] then cs @ [c] else cs)"
    and loop_Cons: "loop m cs c s (x # xs) =
      (let n = tsize x in
       if n > m then Inl (err x m)
       else if c \<noteq> [] \<and> s + n > m then loop m (cs @ [c]) [mk x] n xs
       else loop m cs (c @ [mk x]) (s + n) xs)"
    and size_enc: "tsize x = int (length (enc (mk x)))"
begin

definition bytes :: "'a list \<Rightarrow> int" where
  "bytes c = int (length (concat (map enc c)))"

lemma bytes_snoc: "bytes (c @ [mk x]) = bytes c + tsize x"
  by (simp add: bytes_def size_enc)

lemma bytes_Nil: "bytes [] = 0"
  by (simp add: bytes_def)

definition fits :: "int \<Rightarrow> 'a list \<Rightarrow> bool" where
  "fits m c \<longleftrightarrow> c \<noteq> [] \<and> bytes c \<le> m"

text \<open>
  The loop succeeds when every tuple fits by itself; its chunks are non-empty, fit the budget, and
  concatenate to the input.
\<close>

lemma loop_ok:
  assumes "\<forall>x\<in>set xs. tsize x \<le> m" "\<forall>d\<in>set cs. fits m d" "bytes c \<le> m" "s = bytes c"
  shows "\<exists>ds. loop m cs c s xs = Inr ds \<and> concat ds = concat cs @ c @ map mk xs \<and> (\<forall>d\<in>set ds. fits m d)"
  using assms
proof (induction xs arbitrary: cs c s)
  case Nil
  then show ?case
    by (auto simp: loop_Nil fits_def)
next
  case (Cons x xs)
  have x: "tsize x \<le> m" using Cons.prems(1) by simp
  have one: "bytes [mk x] = tsize x"
    using bytes_snoc [of "[]" x] by (simp add: bytes_Nil)
  show ?case
  proof (cases "c \<noteq> [] \<and> s + tsize x > m")
    case True
    have "\<exists>ds. loop m (cs @ [c]) [mk x] (tsize x) xs = Inr ds \<and>
        concat ds = concat (cs @ [c]) @ [mk x] @ map mk xs \<and> (\<forall>d\<in>set ds. fits m d)"
      using Cons.prems True x one by (intro Cons.IH) (auto simp: fits_def)
    with True x show ?thesis by (simp add: loop_Cons Let_def)
  next
    case False
    have "bytes (c @ [mk x]) \<le> m"
      using False x Cons.prems(4) by (cases "c = []") (auto simp: bytes_snoc one)
    then have "\<exists>ds. loop m cs (c @ [mk x]) (s + tsize x) xs = Inr ds \<and>
        concat ds = concat cs @ (c @ [mk x]) @ map mk xs \<and> (\<forall>d\<in>set ds. fits m d)"
      using Cons.prems by (intro Cons.IH) (simp_all add: bytes_snoc)
    with False x show ?thesis by (auto simp: loop_Cons Let_def)
  qed
qed

lemma loop_start:
  assumes "\<forall>x\<in>set xs. tsize x \<le> m" "0 < m"
  shows "\<exists>ds. loop m [] [] 0 xs = Inr ds \<and> concat ds = map mk xs \<and>
    (\<forall>d\<in>set ds. d \<noteq> [] \<and> int (length (concat (map enc d))) \<le> m)"
  using loop_ok [of xs m "[]" "[]" 0] assms by (simp add: bytes_Nil fits_def bytes_def)

end

interpretation ntc: chunker chunkAURPNetworkTuples_loop "\<lambda>nt. nt"
  "\<lambda>nt _. ChunkTuple (aurpNetworkTupleSize nt)" aurpNetworkTupleSize nt_bytes
  by unfold_locales (simp_all add: aurpNetworkTupleSize_def nt_bytes_def)

interpretation etc: chunker chunkAURPEventTuples_loop "\<lambda>et. et"
  "\<lambda>et _. ChunkTuple (aurpEventTupleSize et)" aurpEventTupleSize et_bytes
  by unfold_locales (simp_all add: aurpEventTupleSize_def et_bytes_def)


section \<open>Exported routes\<close>

definition exportable :: "time \<Rightarrow> RouteTable \<Rightarrow> Route set" where
  "exportable now rt = {r. aurpRouteIsAdvertisable r \<and> Lookup now (r_NetStart r) rt = r}"

definition export_inv :: "time \<Rightarrow> RouteTable \<Rightarrow> RouteKey list \<Rightarrow> Route list \<Rightarrow> bool" where
  "export_inv now rt seen routes \<longleftrightarrow>
     set routes \<subseteq> exportable now rt \<and> set seen = r_RouteKey ` set routes \<and>
     distinct (map r_RouteKey routes)"

lemma exportable_eq:
  "r \<in> exportable now rt \<Longrightarrow> r' \<in> exportable now rt \<Longrightarrow> r_NetStart r = r_NetStart r' \<Longrightarrow> r = r'"
  unfolding exportable_def by (metis (mono_tags, lifting) mem_Collect_eq)

lemma exported_loop_ok:
  assumes "export_inv now rt seen routes"
  shows "\<exists>seen' routes'. exported_loop now rt rs (seen, routes) = (seen', routes') \<and>
    export_inv now rt seen' routes' \<and> set routes \<subseteq> set routes' \<and>
    set rs \<inter> exportable now rt \<subseteq> set routes'"
  using assms
proof (induction rs arbitrary: seen routes)
  case (Cons r rs)
  let ?b = "Lookup now (r_NetStart r) rt"
  show ?case
  proof (cases "aurpRouteIsAdvertisable ?b \<and> r_RouteKey ?b = r_RouteKey r")
    case False
    then have "r \<notin> exportable now rt"
      by (auto simp: exportable_def)
    with False Cons show ?thesis by (simp add: Let_def)
  next
    case True
    then have "r_NetStart ?b = r_NetStart r"
      by simp
    with True have b: "?b \<in> exportable now rt"
      by (simp add: exportable_def)
    have r: "r \<in> exportable now rt \<Longrightarrow> r = ?b"
      by (simp add: exportable_def)
    show ?thesis
    proof (cases "r_RouteKey ?b \<in> set seen")
      case seen: True
      then obtain r' where "r' \<in> set routes" "r_RouteKey r' = r_RouteKey ?b"
        using Cons.prems by (auto simp: export_inv_def)
      then have "?b \<in> set routes"
        using exportable_eq [OF _ b, of r'] Cons.prems by (auto simp: export_inv_def)
      moreover obtain seen' routes' where "exported_loop now rt rs (seen, routes) = (seen', routes')"
        "export_inv now rt seen' routes'" "set routes \<subseteq> set routes'"
        "set rs \<inter> exportable now rt \<subseteq> set routes'"
        using Cons.IH [OF Cons.prems] by blast
      ultimately show ?thesis
        using True seen r by (auto simp: Let_def)
    next
      case seen: False
      then have "export_inv now rt (r_RouteKey ?b # seen) (routes @ [?b])"
        using Cons.prems b by (auto simp: export_inv_def)
      then obtain seen' routes' where
        "exported_loop now rt rs (r_RouteKey ?b # seen, routes @ [?b]) = (seen', routes')"
        "export_inv now rt seen' routes'" "set (routes @ [?b]) \<subseteq> set routes'"
        "set rs \<inter> exportable now rt \<subseteq> set routes'"
        using Cons.IH by blast
      then show ?thesis
        using True seen r by (auto simp: Let_def)
    qed
  qed
qed simp

lemma local_route_class:
  assumes "route_ok r" "aurpRouteIsLocal r"
  shows "class_of_key (r_TargetKey r) \<noteq> TargetClassAURPPeer"
proof -
  obtain t where t: "r_Target r = Some t" "target_ok t" "tg_RouteTargetKey t = r_TargetKey r"
    "r_Origin r = routeOriginForTarget (Some t)"
    using assms(1) by (auto simp: route_ok_def split: option.splits)
  then have "Route_RouteOrigin r = routeOriginForTarget (Some t)"
    by (simp add: Route_RouteOrigin_def)
  with t assms(2) show ?thesis
    by (auto simp: aurpRouteIsLocal_def target_ok_def)
qed

lemma exportable_valid:
  assumes inv: "rt_inv rt" and r: "r \<in> exportable now rt"
  shows "\<exists>c \<in> {TargetClassDirect, TargetClassAppleTalkPeer}. r \<in> set (ValidRoutesForClass now c rt)"
proof -
  have adv: "aurpRouteIsAdvertisable r" and l: "Lookup now (r_NetStart r) rt = r"
    using r by (simp_all add: exportable_def)
  have nz: "\<not> Route_Zero r"
    using adv by (simp add: aurpRouteIsAdvertisable_def aurpRouteIsLocal_def)
  have "r \<in> set (Dump rt)" "Route_Valid rt now r"
    using lookup_best [OF inv, where P = "Route_Valid rt now" and now = now and n = "r_NetStart r"] l nz
    by (simp_all add: Lookup_def)
  moreover from this have "rt_abs rt (r_RouteKey r) = Some r" "route_ok r"
    using reach_Dump [OF inv] by blast+
  moreover from this have "class_of_key (r_TargetKey r) \<noteq> TargetClassAURPPeer"
    using adv by (intro local_route_class) (auto simp: aurpRouteIsAdvertisable_def)
  ultimately show ?thesis
    using map_of_SomeD [of "byClass rt (class_of_key (r_TargetKey r))" "r_RouteKey r" r]
    by (cases "class_of_key (r_TargetKey r)")
      (force simp: ValidRoutesForClass_def rt_abs_def)+
qed

lemma exported_routes_ok:
  assumes "rt_inv rt"
  shows "set (aurpExportedRoutes now rt) = exportable now rt"
    "distinct (map r_NetStart (aurpExportedRoutes now rt))"
proof -
  let ?step = "\<lambda>c. exported_loop now rt (ValidRoutesForClass now c rt)"
  have "export_inv now rt [] []"
    by (simp add: export_inv_def)
  then obtain s1 r1 where 1: "?step TargetClassDirect ([], []) = (s1, r1)" "export_inv now rt s1 r1"
    "set (ValidRoutesForClass now TargetClassDirect rt) \<inter> exportable now rt \<subseteq> set r1"
    using exported_loop_ok by blast
  then obtain s2 r2 where 2: "?step TargetClassAppleTalkPeer (s1, r1) = (s2, r2)" "export_inv now rt s2 r2"
    "set r1 \<subseteq> set r2"
    "set (ValidRoutesForClass now TargetClassAppleTalkPeer rt) \<inter> exportable now rt \<subseteq> set r2"
    using exported_loop_ok by blast
  have e: "aurpExportedRoutes now rt = sort_func compare_exported r2"
    using 1 2 by (simp add: aurpExportedRoutes_def)
  have all: "set r2 = exportable now rt"
  proof
    show "set r2 \<subseteq> exportable now rt"
      using 2(2) by (simp add: export_inv_def)
    show "exportable now rt \<subseteq> set r2"
      using exportable_valid [OF assms, of _ now] 1(3) 2(3,4) by blast
  qed
  then show "set (aurpExportedRoutes now rt) = exportable now rt"
    by (simp add: e)
  have "inj_on r_NetStart (set r2)"
    unfolding all inj_on_def using exportable_eq by blast
  moreover have "distinct r2"
    using 2(2) by (simp add: export_inv_def distinct_map)
  ultimately show "distinct (map r_NetStart (aurpExportedRoutes now rt))"
    by (simp add: e distinct_map)
qed


section \<open>Events\<close>

text \<open>
  What a peer knows of our routes: for each network start the shape and distance it was told.
  \<open>route_view\<close> is what it should know of a best route, and \<open>view_event\<close> how an event changes
  its knowledge, following RFC 1504 (and \<open>applyRIUpdEvent\<close>): NA and NDC set the tuple, an NDC
  with distance 15 or more, ND and NRC remove it.
\<close>

type_synonym peer_view = "network \<rightharpoonup> bool \<times> network \<times> byte"

definition route_view :: "Route \<Rightarrow> peer_view" where
  "route_view r =
     (if aurpRouteIsAdvertisable r then [r_NetStart r \<mapsto> (r_Extended r, r_NetEnd r, r_Distance r)]
      else Map.empty)"

definition view_event :: "EventTuple \<Rightarrow> peer_view \<Rightarrow> peer_view" where
  "view_event et v =
     (if et_EventCode et = EventCodeNA \<or> et_EventCode et = EventCodeNDC \<and> et_Distance et < maxRouteDistance
      then v(et_RangeStart et \<mapsto> (et_Extended et, et_RangeEnd et, et_Distance et))
      else if et_EventCode et = EventCodeND \<or> et_EventCode et = EventCodeNRC \<or> et_EventCode et = EventCodeNDC
      then v(et_RangeStart et := None)
      else v)"

lemma event_moves_view_ok:
  assumes "r_NetStart before = r_NetStart after \<or> Route_Zero before \<or> Route_Zero after"
  shows "(case aurpEventForBestTransition before after of
            None \<Rightarrow> route_view before
          | Some et \<Rightarrow> view_event et (route_view before)) = route_view after"
proof -
  have adv: "aurpRouteIsAdvertisable r \<Longrightarrow> \<not> Route_Zero r" for r
    by (simp add: aurpRouteIsAdvertisable_def aurpRouteIsLocal_def)
  consider "\<not> aurpRouteIsAdvertisable before" "\<not> aurpRouteIsAdvertisable after"
    | "\<not> aurpRouteIsAdvertisable before" "aurpRouteIsAdvertisable after"
    | "aurpRouteIsAdvertisable before" "aurpRouteIsAdvertisable after"
    | "aurpRouteIsAdvertisable before" "\<not> aurpRouteIsAdvertisable after"
    by blast
  then show ?thesis
  proof cases
    case 1
    then show ?thesis by (simp add: aurpEventForBestTransition_def route_view_def)
  next
    case 2
    then show ?thesis
      by (simp add: aurpEventForBestTransition_def route_view_def view_event_def
        aurpEventTupleFromRoute_def)
  next
    case 3
    then have "r_NetStart before = r_NetStart after" "r_Distance after < maxRouteDistance"
      using assms adv by (auto simp: aurpRouteIsAdvertisable_def)
    with 3 show ?thesis
      by (simp add: aurpEventForBestTransition_def route_view_def view_event_def
        aurpEventTupleFromRoute_def)
  next
    case 4
    have start: "r_NetStart before = r_NetStart after" if "aurpRouteIsLocal after"
      using assms adv [OF 4(1)] that by (auto simp: aurpRouteIsLocal_def)
    have far: "\<not> r_Distance after < maxRouteDistance" if "aurpRouteIsLocal after"
      using 4(2) that by (simp add: aurpRouteIsAdvertisable_def)
    from 4 start far show ?thesis
      by (simp add: aurpEventForBestTransition_def route_view_def view_event_def
        aurpEventTupleFromRoute_def Let_def)
  qed
qed


section \<open>Properties\<close>

text \<open>
  C34: in every reachable route table, the routes exported to AURP peers are exactly the best routes
  at the start of their range that were not learned over AURP and have a distance below 15, one for
  each range start, in the order of network numbers.  A peer gets those of them that no export
  rule hides from it.
\<close>
theorem exported_routes_exact:
  assumes "rt_reach rt"
  shows "set (aurpExportedRoutes now rt) =
           {r. aurpRouteIsAdvertisable r \<and> Lookup now (r_NetStart r) rt = r} \<and>
         distinct (map r_NetStart (aurpExportedRoutes now rt)) \<and>
         sorted (map r_NetStart (aurpExportedRoutes now rt)) \<and>
         set (peer_aurpExportedRoutes now rt p) =
           {r \<in> set (aurpExportedRoutes now rt). \<not> exportRangeHidden p (r_NetStart r) (r_NetEnd r)}"
proof -
  have key: "compare_exported a b \<le> 0 \<longleftrightarrow>
      (r_NetStart a, r_NetEnd a, r_Distance a, r_TargetKey a) \<le>
      (r_NetStart b, r_NetEnd b, r_Distance b, r_TargetKey b)" for a b
    by (auto simp: compare_exported_def)
  obtain xs where xs: "aurpExportedRoutes now rt = sort_func compare_exported xs"
    by (auto simp: aurpExportedRoutes_def split_beta Let_def)
  let ?k = "\<lambda>r. (r_NetStart r, r_NetEnd r, r_Distance r, r_TargetKey r)"
  have "sorted (map ?k (aurpExportedRoutes now rt))"
    unfolding xs sort_func_eq_sort_key [of _ ?k, OF key] by simp
  then have "sorted (map fst (map ?k (aurpExportedRoutes now rt)))"
    by (rule sorted_map_mono) (auto intro!: mono_onI simp: less_eq_prod_def)
  then have "sorted (map r_NetStart (aurpExportedRoutes now rt))"
    by (simp add: comp_def)
  then show ?thesis
    using exported_routes_ok [OF rt_inv_reach [OF assms], of now]
    by (simp add: exportable_def peer_aurpExportedRoutes_def)
qed

theorem exported_routes_exact_witness:
  "\<exists>r. r \<in> set (aurpExportedRoutes 0 sample_table) \<and> Lookup 0 5 sample_table = r"
proof -
  let ?r = "Lookup 0 5 sample_table"
  have "r_NetStart ?r = 5 \<and> aurpRouteIsAdvertisable ?r"
    by code_simp
  then have "?r \<in> {r. aurpRouteIsAdvertisable r \<and> Lookup 0 (r_NetStart r) sample_table = r}"
    by simp
  then show ?thesis
    using exported_routes_exact [OF sample_reach, of 0] by blast
qed

text \<open>
  The event chosen for a change of the best route of a network start is the one that moves the
  peer's knowledge from the old exported view to the new one: applying it to what the peer knows of
  the old best route gives what it should know of the new one, and when no event is sent the two
  views are the same.
\<close>
theorem event_moves_peer_view:
  assumes "r_NetStart before = r_NetStart after \<or> Route_Zero before \<or> Route_Zero after"
  shows "(case aurpEventForBestTransition before after of
            None \<Rightarrow> route_view before
          | Some et \<Rightarrow> view_event et (route_view before)) = route_view after"
  by (rule event_moves_view_ok [OF assms])

theorem event_moves_peer_view_witness:
  "(case aurpEventForBestTransition zero_Route (Lookup 0 5 sample_table) of
      None \<Rightarrow> route_view zero_Route
    | Some et \<Rightarrow> view_event et (route_view zero_Route)) = route_view (Lookup 0 5 sample_table)"
  by (rule event_moves_peer_view) simp

end
