(* ===== verification/AurpSender.thy ===== *)
theory AurpSender
  imports AurpRouting
begin

text \<open>
  The sending side of an AURP peer (\<open>src/router/aurp_peer.go\<close>): the queue of
  best-route changes that wait for the next update, and the ACK-gated streams of
  RI-Rsp and RI-Upd packets.  \<open>AURPPeerTx\<close> extends the peer by the state these
  functions change.
\<close>

section \<open>State\<close>

datatype SenderState =
    SenderUnconnected
  | SenderConnected
  | SenderWaitForRIRspAck
  | SenderWaitForRIUpdAck
  | SenderWaitForRDAck

record AURPPeerTx = AURPPeer +
  p_Transport :: Transport
  sstate :: SenderState
  suiFlags :: u16
  pendingEvents :: "(network \<times> pendingAURPChange) list"
  pendingRIRsp :: "NetworkTuples list"
  pendingRIUpd :: "EventTuples list"


section \<open>Pending changes\<close>

definition setSUIFlags :: "u16 \<Rightarrow> 'a AURPPeerTx_scheme \<Rightarrow> 'a AURPPeerTx_scheme" where
  "setSUIFlags flags p = p\<lparr>suiFlags := flags AND RoutingFlagAllSUI\<rparr>"

definition allowsUpdateEvent :: "EventCode \<Rightarrow> 'a AURPPeerTx_scheme \<Rightarrow> bool" where
  "allowsUpdateEvent code p =
     (if code = EventCodeNA then suiFlags p AND RoutingFlagSUINA \<noteq> 0
      else if code = EventCodeND \<or> code = EventCodeNRC then suiFlags p AND RoutingFlagSUINDOrNRC \<noteq> 0
      else if code = EventCodeNDC then suiFlags p AND RoutingFlagSUINDC \<noteq> 0
      else if code = EventCodeZC then suiFlags p AND RoutingFlagSUIZC \<noteq> 0
      else True)"

definition queueBestNetworkTransition ::
  "Route \<Rightarrow> Route \<Rightarrow> 'a AURPPeerTx_scheme \<Rightarrow> 'a AURPPeerTx_scheme" where
  "queueBestNetworkTransition oldBest newBest p =
     (if sstate p = SenderUnconnected then p
      else if Route_Zero oldBest \<and> Route_Zero newBest then p
      else
        let netStart = (if \<not> Route_Zero oldBest then r_NetStart oldBest else r_NetStart newBest);
            netEnd = (if \<not> Route_Zero newBest then r_NetEnd newBest else r_NetEnd oldBest) in
        if exportRangeHidden p netStart netEnd then p
        else
          let change = \<lparr>ch_before = (case map_of (pendingEvents p) netStart of
                                      Some c \<Rightarrow> ch_before c | None \<Rightarrow> oldBest),
                        ch_after = newBest\<rparr> in
          case aurpEventForBestTransition (ch_before change) (ch_after change) of
            None \<Rightarrow> p\<lparr>pendingEvents := AList.delete netStart (pendingEvents p)\<rparr>
          | Some event \<Rightarrow>
              if \<not> allowsUpdateEvent (et_EventCode event) p
              then p\<lparr>pendingEvents := AList.delete netStart (pendingEvents p)\<rparr>
              else p\<lparr>pendingEvents := AList.update netStart change (pendingEvents p)\<rparr>)"

definition takePendingEvents :: "'a AURPPeerTx_scheme \<Rightarrow> EventTuples \<times> 'a AURPPeerTx_scheme" where
  "takePendingEvents p = (aurpEventsForPendingChanges (pendingEvents p), p\<lparr>pendingEvents := []\<rparr>)"

text \<open>The peer as an observer of the route table.\<close>

fun observe :: "notification \<Rightarrow> 'a AURPPeerTx_scheme \<Rightarrow> 'a AURPPeerTx_scheme" where
  "observe (NetworkAdded _ newBest) p = queueBestNetworkTransition zero_Route newBest p"
| "observe (NetworkDeleted _ oldBest) p = queueBestNetworkTransition oldBest zero_Route p"
| "observe (BestNetworkChanged _ oldBest newBest) p = queueBestNetworkTransition oldBest newBest p"


section \<open>Streams\<close>

definition nextRIRspPacket ::
  "bool \<Rightarrow> 'a AURPPeerTx_scheme \<Rightarrow> (RIRspPacket \<times> 'a AURPPeerTx_scheme) option" where
  "nextRIRspPacket advanceSequence p =
     (case pendingRIRsp p of
        [] \<Rightarrow> None
      | chunk # rest \<Rightarrow>
          let tr = (if advanceSequence then IncLocalSeq (p_Transport p) else p_Transport p);
              flags = (if rest = [] then RoutingFlagLast else 0) in
          Some (NewRIRspPacket tr flags chunk, p\<lparr>p_Transport := tr, pendingRIRsp := rest\<rparr>))"

definition nextRIUpdPacket ::
  "bool \<Rightarrow> 'a AURPPeerTx_scheme \<Rightarrow> (RIUpdPacket \<times> 'a AURPPeerTx_scheme) option" where
  "nextRIUpdPacket advanceSequence p =
     (case pendingRIUpd p of
        [] \<Rightarrow> None
      | chunk # rest \<Rightarrow>
          let tr = (if advanceSequence then IncLocalSeq (p_Transport p) else p_Transport p) in
          Some (NewRIUpdPacket tr chunk, p\<lparr>p_Transport := tr, pendingRIUpd := rest\<rparr>))"

text \<open>
  The part of \<open>handleRIReq\<close> after its checks that prepares the answer: the exported routes as
  tuples, the sequence number reset, and the chunks.
\<close>

definition exported_tuples :: "Route list \<Rightarrow> NetworkTuples" where
  "exported_tuples routes =
     map (\<lambda>r. \<lparr>nt_Extended = r_Extended r, nt_RangeStart = r_NetStart r,
               nt_Distance = r_Distance r, nt_RangeEnd = r_NetEnd r\<rparr>) routes"

definition prepareRIRsp ::
  "time \<Rightarrow> RouteTable \<Rightarrow> 'a AURPPeerTx_scheme \<Rightarrow> chunk_error + 'a AURPPeerTx_scheme" where
  "prepareRIRsp now rt p =
     (let nets = exported_tuples (peer_aurpExportedRoutes now rt p);
          tr = ResetLocalSeq (p_Transport p) in
      case aurpRoutingPayloadBudget (PRIRsp (NewRIRspPacket tr 0 [])) of
        Inl e \<Rightarrow> Inl e
      | Inr payloadBudget \<Rightarrow>
          (case chunkAURPNetworkTuples nets payloadBudget of
             Inl e \<Rightarrow> Inl e
           | Inr chunks \<Rightarrow> Inr (p\<lparr>p_Transport := tr, pendingRIRsp := chunks\<rparr>)))"

text \<open>The connected case of \<open>stickerTasks\<close> up to the first send.\<close>

definition prepareRIUpd :: "'a AURPPeerTx_scheme \<Rightarrow> chunk_error + 'a AURPPeerTx_scheme" where
  "prepareRIUpd p =
     (let (events, p1) = takePendingEvents p in
      if events = [] then Inr p1
      else
        case aurpRoutingPayloadBudget (PRIUpd (NewRIUpdPacket (p_Transport p1) [])) of
          Inl e \<Rightarrow> Inl e
        | Inr payloadBudget \<Rightarrow>
            (case chunkAURPEventTuples events payloadBudget of
               Inl e \<Rightarrow> Inl e
             | Inr chunks \<Rightarrow> Inr (p1\<lparr>pendingRIUpd := chunks\<rparr>)))"

text \<open>
  The packets that go out when the peer acknowledges each: the first with the sequence number as it
  is (\<open>handleRIReq\<close>) or advanced (\<open>stickerTasks\<close>), the following ones advanced (\<open>handleRIAck\<close>).
\<close>

function rirsp_stream :: "bool \<Rightarrow> 'a AURPPeerTx_scheme \<Rightarrow> RIRspPacket list" where
  "rirsp_stream adv p =
     (case nextRIRspPacket adv p of
        None \<Rightarrow> [] | Some (pkt, p') \<Rightarrow> pkt # rirsp_stream True p')"
  by pat_completeness auto
termination
  by (relation "measure (\<lambda>(adv, p). length (pendingRIRsp p))")
    (auto simp: nextRIRspPacket_def Let_def split: list.splits)

declare rirsp_stream.simps [simp del]

function riupd_stream :: "bool \<Rightarrow> 'a AURPPeerTx_scheme \<Rightarrow> RIUpdPacket list" where
  "riupd_stream adv p =
     (case nextRIUpdPacket adv p of
        None \<Rightarrow> [] | Some (pkt, p') \<Rightarrow> pkt # riupd_stream True p')"
  by pat_completeness auto
termination
  by (relation "measure (\<lambda>(adv, p). length (pendingRIUpd p))")
    (auto simp: nextRIUpdPacket_def Let_def split: list.splits)

declare riupd_stream.simps [simp del]


section \<open>Datagram sizes\<close>

definition header_len :: "Transport \<Rightarrow> nat" where
  "header_len tr = length (di_bytes (tr_remoteDI tr)) + length (di_bytes (tr_localDI tr)) + 14"

lemma header_len_le: "transport_ok tr \<Longrightarrow> header_len tr \<le> 30"
  using length_di_bytes [of "tr_remoteDI tr"] length_di_bytes [of "tr_localDI tr"]
  by (simp add: header_len_def transport_ok_def)

lemma header_len_seq [simp]:
  "header_len (IncLocalSeq tr) = header_len tr" "header_len (ResetLocalSeq tr) = header_len tr"
  by (simp_all add: header_len_def IncLocalSeq_def ResetLocalSeq_def)

lemma rirsp_length:
  "length (packet_bytes (PRIRsp (NewRIRspPacket tr l c))) = header_len tr + length (concat (map nt_bytes c))"
  by (simp add: packet_bytes_def NewRIRspPacket_def header_bytes_def tr_bytes_def dh_bytes_def
    tr_sequenced_def tr_domainHeader_def header_len_def)

lemma riupd_length:
  "length (packet_bytes (PRIUpd (NewRIUpdPacket tr c))) = header_len tr + length (concat (map et_bytes c))"
  by (simp add: packet_bytes_def NewRIUpdPacket_def header_bytes_def tr_bytes_def dh_bytes_def
    tr_sequenced_def tr_domainHeader_def header_len_def)

lemma sent_bytes:
  assumes "transport_ok tr" "sends tr pkt"
  shows "encode (Packet_WriteTo pkt) = Inr (packet_bytes pkt)"
    "ParsePacket (packet_bytes pkt) = Inr (GetDomainHeader pkt, pkt)"
proof -
  have ok: "packet_ok pkt"
    using assms(2,1) by (rule sends_ok)
  show "encode (Packet_WriteTo pkt) = Inr (packet_bytes pkt)"
    by (rule encode_emits [OF packet_emits [OF ok]])
  show "ParsePacket (packet_bytes pkt) = Inr (GetDomainHeader pkt, pkt)"
    by (rule parse_packet [OF ok])
qed

lemma sends_rirsp: "\<forall>nt\<in>set c. nt_ok nt \<Longrightarrow> sends tr (PRIRsp (NewRIRspPacket tr l c))"
  and sends_riupd: "\<forall>et\<in>set e. et_ok et \<Longrightarrow> sends tr (PRIUpd (NewRIUpdPacket tr e))"
  by (auto intro: sends.intros)

lemma rirsp_budget:
  assumes "transport_ok tr"
  shows "aurpRoutingPayloadBudget (PRIRsp (NewRIRspPacket tr l [])) = Inr (1400 - int (header_len tr))"
  using header_len_le [OF assms] sent_bytes(1) [OF assms sends_rirsp, of "[]" l] rirsp_length [of tr l "[]"]
  by (simp add: aurpRoutingPayloadBudget_def Let_def)

lemma riupd_budget:
  assumes "transport_ok tr"
  shows "aurpRoutingPayloadBudget (PRIUpd (NewRIUpdPacket tr [])) = Inr (1400 - int (header_len tr))"
  using header_len_le [OF assms] sent_bytes(1) [OF assms sends_riupd, of "[]"] riupd_length [of tr "[]"]
  by (simp add: aurpRoutingPayloadBudget_def Let_def)

lemma tuple_sizes: "aurpNetworkTupleSize nt \<le> 6" "aurpEventTupleSize et \<le> 6"
  by (simp_all add: aurpNetworkTupleSize_def aurpEventTupleSize_def)

lemma chunk_networks:
  assumes "6 \<le> m"
  shows "\<exists>cs. chunkAURPNetworkTuples nts m = Inr cs \<and> concat cs = nts \<and> cs \<noteq> [] \<and>
    (\<forall>c\<in>set cs. int (length (concat (map nt_bytes c))) \<le> m)"
proof (cases "nts = []")
  case True
  with assms show ?thesis by (simp add: chunkAURPNetworkTuples_def)
next
  case False
  obtain cs where "chunkAURPNetworkTuples_loop m [] [] 0 nts = Inr cs" "concat cs = nts"
    "\<forall>c\<in>set cs. int (length (concat (map nt_bytes c))) \<le> m"
    using ntc.loop_start [of nts m] assms tuple_sizes(1) by (force intro: order_trans)
  with False assms show ?thesis by (auto simp: chunkAURPNetworkTuples_def)
qed

lemma chunk_events:
  assumes "6 \<le> m"
  shows "\<exists>cs. chunkAURPEventTuples ets m = Inr cs \<and> concat cs = ets \<and>
    (\<forall>c\<in>set cs. c \<noteq> [] \<and> int (length (concat (map et_bytes c))) \<le> m)"
  using etc.loop_start [of ets m] assms tuple_sizes(2)
  by (force simp: chunkAURPEventTuples_def intro: order_trans)


section \<open>The streams\<close>

lemma rirsp_stream_Nil: "pendingRIRsp p = [] \<Longrightarrow> rirsp_stream adv p = []"
  by (subst rirsp_stream.simps) (simp add: nextRIRspPacket_def)

lemma rirsp_stream_Cons:
  "pendingRIRsp p = c # cs \<Longrightarrow>
   rirsp_stream adv p =
     (let tr = (if adv then IncLocalSeq (p_Transport p) else p_Transport p) in
      NewRIRspPacket tr (if cs = [] then RoutingFlagLast else 0) c #
        rirsp_stream True (p\<lparr>p_Transport := tr, pendingRIRsp := cs\<rparr>))"
  by (subst rirsp_stream.simps) (simp add: nextRIRspPacket_def Let_def)

lemma riupd_stream_Nil: "pendingRIUpd p = [] \<Longrightarrow> riupd_stream adv p = []"
  by (subst riupd_stream.simps) (simp add: nextRIUpdPacket_def)

lemma riupd_stream_Cons:
  "pendingRIUpd p = c # cs \<Longrightarrow>
   riupd_stream adv p =
     (let tr = (if adv then IncLocalSeq (p_Transport p) else p_Transport p) in
      NewRIUpdPacket tr c # riupd_stream True (p\<lparr>p_Transport := tr, pendingRIUpd := cs\<rparr>))"
  by (subst riupd_stream.simps) (simp add: nextRIUpdPacket_def Let_def)

abbreviation rirsp_seq :: "RIRspPacket \<Rightarrow> u16" where
  "rirsp_seq pkt \<equiv> Sequence (HTrHeader (rirsp_Header pkt))"

abbreviation riupd_seq :: "RIUpdPacket \<Rightarrow> u16" where
  "riupd_seq pkt \<equiv> Sequence (HTrHeader (riupd_Header pkt))"

text \<open>The sequence numbers of \<open>n\<close> packets that start at \<open>s\<close>.\<close>

primrec seq_run :: "nat \<Rightarrow> u16 \<Rightarrow> u16 list" where
  "seq_run 0 s = []"
| "seq_run (Suc n) s = s # seq_run n (Succ s)"

lemma seq_run_eq: "seq_run n s = map (\<lambda>k. (Succ ^^ k) s) [0..<n]"
proof (induction n arbitrary: s)
  case (Suc n)
  have "map (\<lambda>k. (Succ ^^ k) s) [0..<Suc n] = s # map (\<lambda>k. (Succ ^^ k) s) [1..<Suc n]"
    by (simp add: upt_conv_Cons del: upt_Suc)
  also have "map (\<lambda>k. (Succ ^^ k) s) [1..<Suc n] = map (\<lambda>k. (Succ ^^ k) (Succ s)) [0..<n]"
    by (simp add: map_Suc_upt [symmetric] funpow_swap1 del: upt_Suc)
  finally show ?case using Suc by simp
qed simp

text \<open>What the stream for a list of chunks looks like.\<close>

definition rirsp_run :: "Transport \<Rightarrow> NetworkTuples list \<Rightarrow> RIRspPacket list \<Rightarrow> bool" where
  "rirsp_run tr cs pkts \<longleftrightarrow>
     map rirsp_Networks pkts = cs \<and> map rirsp_seq pkts = seq_run (length cs) (tr_localSeq tr) \<and>
     (\<forall>pkt\<in>set pkts. \<exists>tr' l. pkt = NewRIRspPacket tr' l (rirsp_Networks pkt) \<and>
        transport_ok tr' \<and> header_len tr' = header_len tr \<and> tr_remoteConnID tr' = tr_remoteConnID tr) \<and>
     map (Flags \<circ> rirsp_Header) pkts =
       (if cs = [] then [] else replicate (length cs - 1) 0 @ [RoutingFlagLast])"

lemma rirsp_stream_run:
  assumes "pendingRIRsp p = cs" "transport_ok (p_Transport p)"
    "tr = (if adv then IncLocalSeq (p_Transport p) else p_Transport p)"
  shows "rirsp_run tr cs (rirsp_stream adv p)"
  using assms
proof (induction cs arbitrary: adv p tr)
  case Nil
  then show ?case by (simp add: rirsp_stream_Nil rirsp_run_def)
next
  case (Cons c cs)
  let ?p = "p\<lparr>p_Transport := tr, pendingRIRsp := cs\<rparr>"
  have ok: "transport_ok tr"
    using Cons.prems by (simp add: transport_ok_step)
  then have run: "rirsp_run (IncLocalSeq tr) cs (rirsp_stream True ?p)"
    by (intro Cons.IH) simp_all
  have s: "rirsp_stream adv p = NewRIRspPacket tr (if cs = [] then RoutingFlagLast else 0) c # rirsp_stream True ?p"
    using Cons.prems by (simp add: rirsp_stream_Cons Let_def)
  have "tr_localSeq (IncLocalSeq tr) = Succ (tr_localSeq tr)" "tr_remoteConnID (IncLocalSeq tr) = tr_remoteConnID tr"
    by (simp_all add: IncLocalSeq_def)
  moreover have "cs \<noteq> [] \<Longrightarrow> replicate (length cs) 0 @ [x] = 0 # replicate (length cs - 1) 0 @ [x]" for x :: u16
    by (cases cs) simp_all
  ultimately show ?case
    using run ok unfolding s rirsp_run_def
    by (auto simp: NewRIRspPacket_def tr_sequenced_def rirsp_stream_Nil)
qed

definition riupd_run :: "Transport \<Rightarrow> EventTuples list \<Rightarrow> RIUpdPacket list \<Rightarrow> bool" where
  "riupd_run tr cs pkts \<longleftrightarrow>
     map riupd_Events pkts = cs \<and> map riupd_seq pkts = seq_run (length cs) (tr_localSeq tr) \<and>
     (\<forall>pkt\<in>set pkts. \<exists>tr'. pkt = NewRIUpdPacket tr' (riupd_Events pkt) \<and>
        transport_ok tr' \<and> header_len tr' = header_len tr)"

lemma riupd_stream_run:
  assumes "pendingRIUpd p = cs" "transport_ok (p_Transport p)"
    "tr = (if adv then IncLocalSeq (p_Transport p) else p_Transport p)"
  shows "riupd_run tr cs (riupd_stream adv p)"
  using assms
proof (induction cs arbitrary: adv p tr)
  case Nil
  then show ?case by (simp add: riupd_stream_Nil riupd_run_def)
next
  case (Cons c cs)
  let ?p = "p\<lparr>p_Transport := tr, pendingRIUpd := cs\<rparr>"
  have ok: "transport_ok tr"
    using Cons.prems by (simp add: transport_ok_step)
  then have run: "riupd_run (IncLocalSeq tr) cs (riupd_stream True ?p)"
    by (intro Cons.IH) simp_all
  have s: "riupd_stream adv p = NewRIUpdPacket tr c # riupd_stream True ?p"
    using Cons.prems by (simp add: riupd_stream_Cons Let_def)
  have "tr_localSeq (IncLocalSeq tr) = Succ (tr_localSeq tr)"
    by (simp add: IncLocalSeq_def)
  then show ?case
    using run ok unfolding s riupd_run_def
    by (auto simp: NewRIUpdPacket_def tr_sequenced_def)
qed


section \<open>Coalescing\<close>

fun queue_all :: "Route \<Rightarrow> Route list \<Rightarrow> 'a AURPPeerTx_scheme \<Rightarrow> 'a AURPPeerTx_scheme" where
  "queue_all r [] p = p"
| "queue_all r (s # rs) p = queue_all s rs (queueBestNetworkTransition r s p)"

text \<open>
  \<open>tracks p n r0 r\<close>: the pending change of network \<open>n\<close>, if any, leads from a route the peer sees
  like \<open>r0\<close> to \<open>r\<close>, and without one the peer sees \<open>r\<close> like \<open>r0\<close>.
\<close>

definition at_start :: "network \<Rightarrow> Route \<Rightarrow> bool" where
  "at_start n r \<longleftrightarrow> Route_Zero r \<or> r_NetStart r = n"

definition tracks :: "'a AURPPeerTx_scheme \<Rightarrow> network \<Rightarrow> Route \<Rightarrow> Route \<Rightarrow> bool" where
  "tracks p n r0 r \<longleftrightarrow>
     (case map_of (pendingEvents p) n of
        None \<Rightarrow> route_view r = route_view r0
      | Some c \<Rightarrow> route_view (ch_before c) = route_view r0 \<and> route_view (ch_after c) = route_view r \<and>
                  at_start n (ch_before c) \<and> at_start n (ch_after c))"

definition open_sender :: "'a AURPPeerTx_scheme \<Rightarrow> bool" where
  "open_sender p \<longleftrightarrow>
     sstate p \<noteq> SenderUnconnected \<and> suiFlags p = RoutingFlagAllSUI \<and>
     HiddenNetworks (timing p) = [] \<and> HiddenExportNetworks (timing p) = []"

lemma open_sender_allows: "open_sender p \<Longrightarrow> allowsUpdateEvent code p"
  by (simp add: open_sender_def allowsUpdateEvent_def)

lemma open_sender_exports: "open_sender p \<Longrightarrow> \<not> exportRangeHidden p s e"
  by (simp add: open_sender_def exportRangeHidden_def rangeHidden_def)

lemma event_view:
  assumes "at_start n b" "at_start n a"
  shows "(case aurpEventForBestTransition b a of
            None \<Rightarrow> route_view b | Some et \<Rightarrow> view_event et (route_view b)) = route_view a"
  using assms by (intro event_moves_view_ok) (auto simp: at_start_def)

lemma queue_step:
  assumes "open_sender p" "at_start n r" "at_start n s" "\<not> (Route_Zero r \<and> Route_Zero s)"
  shows "queueBestNetworkTransition r s p =
    (let change = \<lparr>ch_before = (case map_of (pendingEvents p) n of Some c \<Rightarrow> ch_before c | None \<Rightarrow> r),
                   ch_after = s\<rparr> in
     if aurpEventForBestTransition (ch_before change) s = None
     then p\<lparr>pendingEvents := AList.delete n (pendingEvents p)\<rparr>
     else p\<lparr>pendingEvents := AList.update n change (pendingEvents p)\<rparr>)"
proof -
  have n: "(if \<not> Route_Zero r then r_NetStart r else r_NetStart s) = n"
    using assms(2-4) by (auto simp: at_start_def)
  show ?thesis
    using assms(1,4) open_sender_allows [OF assms(1)] open_sender_exports [OF assms(1)]
    unfolding queueBestNetworkTransition_def n Let_def
    by (auto simp: open_sender_def split: option.splits)
qed

lemma queue_tracks:
  assumes p: "open_sender p" and t: "tracks p n r0 r" and r: "at_start n r" and s: "at_start n s"
  shows "tracks (queueBestNetworkTransition r s p) n r0 s \<and> open_sender (queueBestNetworkTransition r s p)"
proof (cases "Route_Zero r \<and> Route_Zero s")
  case True
  then have "queueBestNetworkTransition r s p = p" "route_view r = route_view s"
    by (simp_all add: queueBestNetworkTransition_def route_view_def aurpRouteIsAdvertisable_def
      aurpRouteIsLocal_def)
  moreover from this(2) have "tracks p n r0 s"
    using t by (simp add: tracks_def split: option.splits)
  ultimately show ?thesis
    using p by simp
next
  case False
  define b where "b = (case map_of (pendingEvents p) n of Some c \<Rightarrow> ch_before c | None \<Rightarrow> r)"
  have b: "at_start n b" "route_view b = route_view r0"
    using t r by (auto simp: b_def tracks_def split: option.splits)
  note q = queue_step [OF p r s False, folded b_def]
  show ?thesis
  proof (cases "aurpEventForBestTransition b s")
    case None
    then have "route_view s = route_view r0"
      using event_view [OF b(1) s] b(2) by simp
    with None p show ?thesis
      by (simp add: q tracks_def open_sender_def delete_conv')
  next
    case (Some et)
    with b p s show ?thesis
      by (simp add: q tracks_def open_sender_def update_conv')
  qed
qed


lemma queue_all_tracks:
  assumes "open_sender p" "tracks p n r0 r" "at_start n r" "\<forall>s\<in>set rs. at_start n s"
  shows "tracks (queue_all r rs p) n r0 (last (r # rs))"
  using assms
proof (induction rs arbitrary: r p)
  case (Cons s rs)
  then show ?case
    using queue_tracks [OF Cons.prems(1-3), of s] by simp
qed simp


section \<open>Properties\<close>

lemma exported_tuples_ok:
  assumes "rt_reach rt" "nt \<in> set (exported_tuples (peer_aurpExportedRoutes now rt p))"
  shows "nt_ok nt"
proof -
  have inv: "rt_inv rt"
    by (rule rt_inv_reach [OF assms(1)])
  obtain r where nt: "nt = \<lparr>nt_Extended = r_Extended r, nt_RangeStart = r_NetStart r,
      nt_Distance = r_Distance r, nt_RangeEnd = r_NetEnd r\<rparr>"
    and r: "r \<in> exportable now rt"
    using assms(2) exported_routes_ok(1) [OF inv]
    by (auto simp: exported_tuples_def peer_aurpExportedRoutes_def)
  then have "\<not> Route_Zero r" "Lookup now (r_NetStart r) rt = r"
    by (auto simp: exportable_def aurpRouteIsAdvertisable_def aurpRouteIsLocal_def)
  then have "r \<in> set (Dump rt)"
    using lookup_best [OF inv, where P = "Route_Valid rt now" and now = now and n = "r_NetStart r"]
    by (simp add: Lookup_def)
  then have ok: "route_ok r"
    by (rule reach_Dump(2) [OF inv])
  then have "unat (r_Distance r) < 128"
    by (auto simp: route_ok_def word_le_nat_alt)
  then have "r_Distance r AND 0x80 = 0"
    by (rule byte_bit7_clear)
  with ok show ?thesis
    by (auto simp: nt nt_ok_def route_ok_def)
qed

lemma rirsp_run_datagrams:
  assumes run: "rirsp_run tr cs pkts" and ok: "\<forall>c\<in>set cs. \<forall>nt\<in>set c. nt_ok nt"
    and len: "\<forall>c\<in>set cs. int (length (concat (map nt_bytes c))) \<le> 1400 - int (header_len tr)"
    and pkt: "pkt \<in> set pkts"
  shows "\<exists>b. encode (Packet_WriteTo (PRIRsp pkt)) = Inr b \<and> length b \<le> 1400 \<and>
    ParsePacket b = Inr (GetDomainHeader (PRIRsp pkt), PRIRsp pkt)"
proof -
  obtain tr' l where p: "pkt = NewRIRspPacket tr' l (rirsp_Networks pkt)" and tr: "transport_ok tr'"
    and h: "header_len tr' = header_len tr"
    using run pkt by (auto simp: rirsp_run_def)
  have c: "rirsp_Networks pkt \<in> set cs"
    using run pkt by (auto simp: rirsp_run_def)
  have s: "sends tr' (PRIRsp pkt)"
    using sends_rirsp [of "rirsp_Networks pkt" tr' l] ok c p by metis
  have "length (packet_bytes (PRIRsp pkt)) = header_len tr + length (concat (map nt_bytes (rirsp_Networks pkt)))"
    using rirsp_length [of tr' l "rirsp_Networks pkt"] p h by metis
  then have "length (packet_bytes (PRIRsp pkt)) \<le> 1400"
    using len c by fastforce
  with sent_bytes [OF tr s] show ?thesis by blast
qed

lemma prepareRIRsp_run:
  assumes "rt_reach rt" "transport_ok (p_Transport p)"
  obtains p' cs where "prepareRIRsp now rt p = Inr p'" "cs \<noteq> []"
    "concat cs = exported_tuples (peer_aurpExportedRoutes now rt p)"
    "rirsp_run (ResetLocalSeq (p_Transport p)) cs (rirsp_stream False p')"
    "\<And>pkt. pkt \<in> set (rirsp_stream False p') \<Longrightarrow>
       \<exists>b. encode (Packet_WriteTo (PRIRsp pkt)) = Inr b \<and> length b \<le> 1400 \<and>
         ParsePacket b = Inr (GetDomainHeader (PRIRsp pkt), PRIRsp pkt)"
proof -
  let ?tr = "ResetLocalSeq (p_Transport p)"
  let ?nets = "exported_tuples (peer_aurpExportedRoutes now rt p)"
  have tr: "transport_ok ?tr"
    using assms(2) by (rule transport_ok_step)
  have m: "6 \<le> 1400 - int (header_len ?tr)"
    using header_len_le [OF tr] by simp
  obtain cs where cs: "chunkAURPNetworkTuples ?nets (1400 - int (header_len ?tr)) = Inr cs"
    "concat cs = ?nets" "cs \<noteq> []"
    "\<forall>c\<in>set cs. int (length (concat (map nt_bytes c))) \<le> 1400 - int (header_len ?tr)"
    using chunk_networks [OF m] by blast
  define p' where "p' = p\<lparr>p_Transport := ?tr, pendingRIRsp := cs\<rparr>"
  have prep: "prepareRIRsp now rt p = Inr p'"
    using cs(1) by (simp add: prepareRIRsp_def rirsp_budget [OF tr] p'_def Let_def)
  have run: "rirsp_run ?tr cs (rirsp_stream False p')"
    using tr by (intro rirsp_stream_run) (simp_all add: p'_def)
  have ok: "\<forall>c\<in>set cs. \<forall>nt\<in>set c. nt_ok nt"
    using exported_tuples_ok [OF assms(1), of _ now p] cs(2) by (metis UN_I set_concat)
  show ?thesis
    by (rule that [OF prep cs(3,2) run rirsp_run_datagrams [OF run ok cs(4)]])
qed

text \<open>
  The answer to a routing information request.  With a reachable route table and a well-formed
  transport, preparing it succeeds, and the RI-Rsp packets that go out as the peer acknowledges them
  carry together exactly the exported routes that are not hidden from the peer, in order; their
  sequence numbers start at 1 and follow each other, only the last one has the Last flag, and each is
  written to at most 1400 bytes that parse back to it.
\<close>
theorem rirsp_stream_delivers:
  assumes "rt_reach rt" "transport_ok (p_Transport p)"
  shows "\<exists>p'. prepareRIRsp now rt p = Inr p' \<and>
    (let pkts = rirsp_stream False p' in
     concat (map rirsp_Networks pkts) = exported_tuples (peer_aurpExportedRoutes now rt p) \<and>
     map rirsp_seq pkts = map (\<lambda>k. (Succ ^^ k) 1) [0..<length pkts] \<and>
     (\<exists>n. map (Flags \<circ> rirsp_Header) pkts = replicate n 0 @ [RoutingFlagLast]) \<and>
     list_all (\<lambda>pkt. \<exists>b. encode (Packet_WriteTo (PRIRsp pkt)) = Inr b \<and> length b \<le> 1400 \<and>
       ParsePacket b = Inr (GetDomainHeader (PRIRsp pkt), PRIRsp pkt)) pkts)"
proof -
  obtain p' cs where prep: "prepareRIRsp now rt p = Inr p'" "cs \<noteq> []"
    and nets: "concat cs = exported_tuples (peer_aurpExportedRoutes now rt p)"
    and run: "rirsp_run (ResetLocalSeq (p_Transport p)) cs (rirsp_stream False p')"
    and dgram: "\<And>pkt. pkt \<in> set (rirsp_stream False p') \<Longrightarrow>
       \<exists>b. encode (Packet_WriteTo (PRIRsp pkt)) = Inr b \<and> length b \<le> 1400 \<and>
         ParsePacket b = Inr (GetDomainHeader (PRIRsp pkt), PRIRsp pkt)"
    by (rule prepareRIRsp_run [OF assms, of now]) (rule that)
  have len: "length (rirsp_stream False p') = length cs"
    using run by (metis rirsp_run_def length_map)
  have "tr_localSeq (ResetLocalSeq (p_Transport p)) = 1"
    by (simp add: ResetLocalSeq_def)
  then have "map rirsp_seq (rirsp_stream False p') = map (\<lambda>k. (Succ ^^ k) 1) [0..<length (rirsp_stream False p')]"
    using run unfolding rirsp_run_def len by (simp add: seq_run_eq)
  moreover have "\<exists>n. map (Flags \<circ> rirsp_Header) (rirsp_stream False p') = replicate n 0 @ [RoutingFlagLast]"
    using run prep(2) unfolding rirsp_run_def by auto
  ultimately show ?thesis
    using prep(1) nets run dgram by (auto simp: Let_def list_all_iff rirsp_run_def)
qed

definition sample_tx :: AURPPeerTx where
  "sample_tx =
     \<lparr>ConfiguredAddr = ''a.example'', tunnelID = ''cfg:a.example'', timing = sample_aurp,
      p_Transport = NewTransport (IPDomainIdentifier [10, 0, 0, 1]) (IPDomainIdentifier [10, 0, 0, 2]) 7 9,
      sstate = SenderConnected, suiFlags = RoutingFlagAllSUI, pendingEvents = [], pendingRIRsp = [],
      pendingRIUpd = []\<rparr>"

theorem rirsp_stream_delivers_witness:
  "\<exists>p'. prepareRIRsp 0 sample_table sample_tx = Inr p' \<and>
     concat (map rirsp_Networks (rirsp_stream False p')) =
       [\<lparr>nt_Extended = True, nt_RangeStart = 5, nt_Distance = 0, nt_RangeEnd = 6\<rparr>]"
proof -
  have "transport_ok (p_Transport sample_tx)"
    by (simp add: sample_tx_def transport_ok_init)
  moreover have "exported_tuples (peer_aurpExportedRoutes 0 sample_table sample_tx) =
      [\<lparr>nt_Extended = True, nt_RangeStart = 5, nt_Distance = 0, nt_RangeEnd = 6\<rparr>]"
    by code_simp
  ultimately show ?thesis
    using rirsp_stream_delivers [OF sample_reach, of sample_tx 0] by (auto simp: Let_def)
qed


text \<open>
  C32: pending changes are coalesced without loss.  While a peer is connected, subscribed to all
  events and nothing is hidden from it, let the best route for a network start go through any
  sequence of routes; then the one event that is pending for that network, applied to what the peer
  knew before, gives what it should know of the last route, and if none is pending it already knows.
\<close>
theorem pending_changes_coalesce:
  assumes "sstate p \<noteq> SenderUnconnected" "suiFlags p = RoutingFlagAllSUI"
    and "HiddenNetworks (timing p) = []" "HiddenExportNetworks (timing p) = []"
    and "map_of (pendingEvents p) n = None" "list_all (\<lambda>s. Route_Zero s \<or> r_NetStart s = n) (r # rs)"
  shows "(case map_of (pendingEvents (queue_all r rs p)) n of
            None \<Rightarrow> route_view r
          | Some c \<Rightarrow>
              (case aurpEventForBestTransition (ch_before c) (ch_after c) of
                 None \<Rightarrow> route_view r
               | Some et \<Rightarrow> view_event et (route_view r))) = route_view (last (r # rs))"
proof -
  have t: "tracks (queue_all r rs p) n r (last (r # rs))"
    using assms by (intro queue_all_tracks)
      (auto simp: open_sender_def tracks_def at_start_def list_all_iff)
  show ?thesis
  proof (cases "map_of (pendingEvents (queue_all r rs p)) n")
    case None
    with t show ?thesis by (simp add: tracks_def)
  next
    case (Some c)
    with t have c: "route_view (ch_before c) = route_view r" "at_start n (ch_before c)" "at_start n (ch_after c)"
      "route_view (ch_after c) = route_view (last (r # rs))"
      by (simp_all add: tracks_def)
    from event_view [OF c(2,3)] show ?thesis
      by (simp only: Some c(1,4) option.case)
  qed
qed

theorem pending_changes_coalesce_witness:
  "let p = sample_tx; r = Lookup 0 5 sample_table; q = queue_all zero_Route [r, zero_Route, r] p in
   (case map_of (pendingEvents q) 5 of
      None \<Rightarrow> route_view zero_Route
    | Some c \<Rightarrow>
        (case aurpEventForBestTransition (ch_before c) (ch_after c) of
           None \<Rightarrow> route_view zero_Route
         | Some et \<Rightarrow> view_event et (route_view zero_Route))) = route_view r"
proof -
  have "r_NetStart (Lookup 0 5 sample_table) = 5"
    by code_simp
  then show ?thesis
    using pending_changes_coalesce
      [of sample_tx 5 zero_Route "[Lookup 0 5 sample_table, zero_Route, Lookup 0 5 sample_table]"]
    unfolding Let_def by (simp add: sample_tx_def sample_aurp_def)
qed

text \<open>Routes of the table make events that survive the wire.\<close>

definition change_ok :: "pendingAURPChange \<Rightarrow> bool" where
  "change_ok c \<longleftrightarrow>
     (Route_Zero (ch_before c) \<or> route_ok (ch_before c)) \<and> (Route_Zero (ch_after c) \<or> route_ok (ch_after c))"

lemma event_tuple_ok:
  assumes "route_ok r" "code \<in> {EventCodeNA, EventCodeND, EventCodeNRC, EventCodeNDC}"
  shows "et_ok (aurpEventTupleFromRoute code r)"
proof -
  have "unat (r_Distance r) < 128"
    using assms(1) by (auto simp: route_ok_def word_le_nat_alt)
  then have "r_Distance r AND 0x80 = 0"
    by (rule byte_bit7_clear)
  with assms show ?thesis
    by (auto simp: et_ok_def aurpEventTupleFromRoute_def route_ok_def)
qed

lemma transition_event_ok:
  assumes "change_ok c" "aurpEventForBestTransition (ch_before c) (ch_after c) = Some et"
  shows "et_ok et"
  using assms
  by (auto simp: aurpEventForBestTransition_def Let_def change_ok_def aurpRouteIsAdvertisable_def
    aurpRouteIsLocal_def intro!: event_tuple_ok split: if_splits)

lemma pending_events_ok:
  assumes "list_all (\<lambda>(n, c). change_ok c) ch" "et \<in> set (aurpEventsForPendingChanges ch)"
  shows "et_ok et"
proof -
  obtain n c where "map_of ch n = Some c" "aurpEventForBestTransition (ch_before c) (ch_after c) = Some et"
    using assms(2) by (auto simp: aurpEventsForPendingChanges_def List.map_filter_def split: option.splits)
  then show ?thesis
    using assms(1) transition_event_ok by (force simp: list_all_iff dest: map_of_SomeD)
qed

lemma riupd_run_datagrams:
  assumes run: "riupd_run tr cs pkts" and ok: "\<forall>c\<in>set cs. \<forall>et\<in>set c. et_ok et"
    and len: "\<forall>c\<in>set cs. int (length (concat (map et_bytes c))) \<le> 1400 - int (header_len tr)"
    and pkt: "pkt \<in> set pkts"
  shows "\<exists>b. encode (Packet_WriteTo (PRIUpd pkt)) = Inr b \<and> length b \<le> 1400 \<and>
    ParsePacket b = Inr (GetDomainHeader (PRIUpd pkt), PRIUpd pkt)"
proof -
  obtain tr' where p: "pkt = NewRIUpdPacket tr' (riupd_Events pkt)" and tr: "transport_ok tr'"
    and h: "header_len tr' = header_len tr"
    using run pkt by (auto simp: riupd_run_def)
  have c: "riupd_Events pkt \<in> set cs"
    using run pkt by (auto simp: riupd_run_def)
  have s: "sends tr' (PRIUpd pkt)"
    using sends_riupd [of "riupd_Events pkt" tr'] ok c p by metis
  have "length (packet_bytes (PRIUpd pkt)) = header_len tr + length (concat (map et_bytes (riupd_Events pkt)))"
    using riupd_length [of tr' "riupd_Events pkt"] p h by metis
  then have "length (packet_bytes (PRIUpd pkt)) \<le> 1400"
    using len c by fastforce
  with sent_bytes [OF tr s] show ?thesis by blast
qed

text \<open>
  C33: an update.  When a peer with no unsent update takes its pending changes, the RI-Upd packets that
  go out as it acknowledges them carry together exactly the events of those changes, in the order of
  the networks; their sequence numbers continue the transport's, each is written to at most 1400
  bytes that parse back to it, and no change stays pending.
\<close>
theorem riupd_stream_delivers:
  assumes "transport_ok (p_Transport p)" "pendingRIUpd p = []"
    and "list_all (\<lambda>(n, c). change_ok c) (pendingEvents p)"
  shows "\<exists>p'. prepareRIUpd p = Inr p' \<and> pendingEvents p' = [] \<and>
    (let pkts = riupd_stream True p' in
     concat (map riupd_Events pkts) = aurpEventsForPendingChanges (pendingEvents p) \<and>
     map riupd_seq pkts = map (\<lambda>k. (Succ ^^ Suc k) (tr_localSeq (p_Transport p))) [0..<length pkts] \<and>
     list_all (\<lambda>pkt. \<exists>b. encode (Packet_WriteTo (PRIUpd pkt)) = Inr b \<and> length b \<le> 1400 \<and>
       ParsePacket b = Inr (GetDomainHeader (PRIUpd pkt), PRIUpd pkt)) pkts)"
proof -
  let ?tr = "IncLocalSeq (p_Transport p)"
  let ?evs = "aurpEventsForPendingChanges (pendingEvents p)"
  have m: "6 \<le> 1400 - int (header_len ?tr)"
    using header_len_le [OF assms(1)] by simp
  obtain cs where cs: "chunkAURPEventTuples ?evs (1400 - int (header_len ?tr)) = Inr cs" "concat cs = ?evs"
    "\<forall>c\<in>set cs. c \<noteq> [] \<and> int (length (concat (map et_bytes c))) \<le> 1400 - int (header_len ?tr)"
    using chunk_events [OF m] by blast
  define p' where "p' = p\<lparr>pendingEvents := [], pendingRIUpd := cs\<rparr>"
  have nil: "?evs = [] \<Longrightarrow> cs = []"
    using cs(2,3) by (cases cs) auto
  have "prepareRIUpd p = Inr p'"
  proof (cases "?evs = []")
    case True
    then show ?thesis
      using nil assms(2) by (cases p) (simp add: prepareRIUpd_def takePendingEvents_def p'_def)
  next
    case False
    then show ?thesis
      using cs(1) riupd_budget [OF assms(1)]
      by (simp add: prepareRIUpd_def takePendingEvents_def p'_def)
  qed
  moreover have "pendingEvents p' = []"
    by (simp add: p'_def)
  moreover have run: "riupd_run ?tr cs (riupd_stream True p')"
    using assms(1) by (intro riupd_stream_run) (simp_all add: p'_def)
  moreover have "\<forall>c\<in>set cs. \<forall>et\<in>set c. et_ok et"
    using pending_events_ok [OF assms(3)] cs(2) by (metis UN_I set_concat)
  moreover have "length (riupd_stream True p') = length cs"
    using run by (metis riupd_run_def length_map)
  moreover have "tr_localSeq ?tr = Succ (tr_localSeq (p_Transport p))"
    by (simp add: IncLocalSeq_def)
  ultimately show ?thesis
    using cs(2,3) riupd_run_datagrams [OF run]
    by (intro exI [of _ p']) (simp add: Let_def list_all_iff riupd_run_def seq_run_eq funpow_swap1)
qed

theorem riupd_stream_delivers_witness:
  "\<exists>p'. prepareRIUpd (queue_all zero_Route [Lookup 0 5 sample_table] sample_tx) = Inr p' \<and>
     map et_EventCode (concat (map riupd_Events (riupd_stream True p'))) = [EventCodeNA]"
proof -
  let ?p = "queue_all zero_Route [Lookup 0 5 sample_table] sample_tx"
  have "p_Transport ?p = p_Transport sample_tx \<and> pendingRIUpd ?p = []"
    by code_simp
  then have tr: "transport_ok (p_Transport ?p)" "pendingRIUpd ?p = []"
    by (simp_all add: sample_tx_def transport_ok_init)
  have ev: "map et_EventCode (aurpEventsForPendingChanges (pendingEvents ?p)) = [EventCodeNA]"
    by code_simp
  have "map ch_before (map snd (pendingEvents ?p)) = [zero_Route] \<and>
      map ch_after (map snd (pendingEvents ?p)) = [Lookup 0 5 sample_table]"
    by code_simp
  moreover have "Route_Zero (Lookup 0 5 sample_table) \<or> route_ok (Lookup 0 5 sample_table)"
    by code_simp
  ultimately have "list_all (\<lambda>(n, c). change_ok c) (pendingEvents ?p)"
    by (auto simp: change_ok_def list_all_iff)
  from riupd_stream_delivers [OF tr this] ev show ?thesis
    by (auto simp: Let_def)
qed

end
