(* ===== verification/Forwarding.thy ===== *)
theory Forwarding
  imports AurpSender
begin

text \<open>
  Forwarding of DDP packets (\<open>src/router/router.go\<close> and \<open>AURPPeer.Forward\<close> in
  \<open>src/router/aurp_peer.go\<close>): hop counts, the choice of the route, split horizon
  towards the tunnel a packet came from, and traffic accounting.

  \<open>RouteTarget.Forward\<close> puts the packet on a wire; the argument \<open>fwd\<close> gives the
  error it returns, if any, and the packets handed to a target are part of the
  result.  A packet that the code changes through its pointer is returned.
\<close>

section \<open>Hop counts\<close>

datatype fwd_error =
    FwdHopLimit u16
  | FwdNoRoute network
  | FwdReflection string network
  | FwdHidden network
  | FwdRemaining u16
  | FwdTarget string

definition reduceAURPHopCount :: "ExtPacket \<Rightarrow> Route \<Rightarrow> fwd_error + (bool \<times> ExtPacket)" where
  "reduceAURPHopCount ddpkt route =
     (let hopCount = ddpHopCount ddpkt in
      if hopCount \<ge> 15 then Inl (FwdHopLimit hopCount)
      else
        let remaining = ucast (r_Distance route) :: u16 in
        if remaining \<ge> 15 then Inl (FwdRemaining remaining)
        else if hopCount + remaining \<le> 15 then Inr (False, ddpkt)
        else
          let newHopCount = 15 - remaining in
          if newHopCount \<ge> hopCount then Inr (False, ddpkt)
          else Inr (True, setDDPHopCount newHopCount ddpkt))"


section \<open>Output\<close>

type_synonym transmission = "RouteTarget \<times> ExtPacket"

definition outputRoute ::
  "time \<Rightarrow> RouteTable \<Rightarrow> ExtPacket \<Rightarrow> string \<Rightarrow> fwd_error + Route" where
  "outputRoute now rt ddpkt ingressAURPID =
     (if ingressAURPID = [] then
        let route = Lookup now (dd_DstNet ddpkt) rt in
        if Route_Zero route then Inl (FwdNoRoute (dd_DstNet ddpkt)) else Inr route
      else
        let route = LookupAvoidingAURPTunnel now (dd_DstNet ddpkt) ingressAURPID rt in
        if \<not> Route_Zero route then Inr route
        else if Route_Zero (Lookup now (dd_DstNet ddpkt) rt)
        then Inl (FwdNoRoute (dd_DstNet ddpkt))
        else Inl (FwdReflection ingressAURPID (dd_DstNet ddpkt)))"

definition route_target :: "Route \<Rightarrow> RouteTarget" where
  "route_target r = the (r_Target r)"

definition prepareOutboundForRoute :: "ddp_module \<Rightarrow> ExtPacket \<Rightarrow> Route \<Rightarrow> ExtPacket" where
  "prepareOutboundForRoute ddp ddpkt route =
     (if tg_Class (route_target route) \<noteq> TargetClassAURPPeer then ddpkt
      else normalizeAURPNBPFwdReqChecksum ddp ddpkt)"

definition noteRouteTraffic ::
  "time \<Rightarrow> ExtPacket \<Rightarrow> Route \<Rightarrow> RouteTarget option \<Rightarrow> RouteTable \<Rightarrow> RouteTable" where
  "noteRouteTraffic now ddpkt destination ingress rt =
     (if Route_Zero destination then rt
      else
        let bytes = ddpPacketBytes ddpkt in
        if bytes = 0 then rt
        else
          let source0 = (if ingress \<noteq> None then lookupForTarget now (dd_SrcNet ddpkt) ingress rt
                         else zero_Route);
              source = (if Route_Zero source0 then Lookup now (dd_SrcNet ddpkt) rt else source0);
              rt1 = (if \<not> Route_Zero source then noteDDPBytesIn source bytes rt else rt)
          in noteDDPBytesOut destination bytes rt1)"

text \<open>The result is the error, the route table with its traffic counters, and what was sent.\<close>

definition Output ::
  "ddp_module \<Rightarrow> (RouteTarget \<Rightarrow> ExtPacket \<Rightarrow> string option) \<Rightarrow> time \<Rightarrow> ExtPacket \<Rightarrow> RouteTable \<Rightarrow>
   fwd_error option \<times> RouteTable \<times> transmission list" where
  "Output ddp fwd now ddpkt rt =
     (case outputRoute now rt ddpkt [] of
        Inl e \<Rightarrow> (Some e, rt, [])
      | Inr route \<Rightarrow>
          let outDDP = prepareOutboundForRoute ddp ddpkt route;
              sent = [(route_target route, outDDP)] in
          case fwd (route_target route) outDDP of
            Some e \<Rightarrow> (Some (FwdTarget e), rt, sent)
          | None \<Rightarrow> (None, noteRouteTraffic now outDDP route None rt, sent))"

definition Forward ::
  "ddp_module \<Rightarrow> (RouteTarget \<Rightarrow> ExtPacket \<Rightarrow> string option) \<Rightarrow> time \<Rightarrow> ExtPacket \<Rightarrow> RouteTable \<Rightarrow>
   fwd_error option \<times> RouteTable \<times> transmission list" where
  "Forward ddp fwd now ddpkt rt =
     (let hopCount = ddpHopCount ddpkt in
      if hopCount \<ge> 15 then (Some (FwdHopLimit hopCount), rt, [])
      else Output ddp fwd now (setDDPHopCount (hopCount + 1) ddpkt) rt)"

text \<open>The peer as a route target.\<close>

definition peer_target :: "'a AURPPeer_scheme \<Rightarrow> RouteTarget" where
  "peer_target p =
     \<lparr>tg_Class = TargetClassAURPPeer, tg_RouteTargetKey = ''AURPPeer|'' @ tunnelID p,
      tg_TunnelID = Some (tunnelID p)\<rparr>"

record ingress_counters =
  reflectionDrops :: "64 word"
  alternativePathForwards :: "64 word"
  hopCountReductions :: "64 word"

definition learned_from :: "Route \<Rightarrow> string \<Rightarrow> bool" where
  "learned_from best tid \<longleftrightarrow>
     \<not> Route_Zero best \<and> ro_Kind (Route_RouteOrigin best) = RouteOriginAURP \<and>
     ro_ID (Route_RouteOrigin best) = tid"

text \<open>
  The tail of \<open>OutputFromAURP\<close>, from the hop-count reduction on; \<open>reduce\<close> is the configuration's
  \<open>HopCountReduction\<close>.
\<close>

definition OutputFromAURP_send ::
  "ddp_module \<Rightarrow> (RouteTarget \<Rightarrow> ExtPacket \<Rightarrow> string option) \<Rightarrow> time \<Rightarrow> bool \<Rightarrow> 'a AURPPeer_scheme \<Rightarrow>
   ExtPacket \<Rightarrow> Route \<Rightarrow> RouteTable \<Rightarrow> ingress_counters \<Rightarrow>
   fwd_error option \<times> RouteTable \<times> ingress_counters \<times> transmission list" where
  "OutputFromAURP_send ddp fwd now reduce ingress ddpkt route rt k =
     (case (if reduce \<and> tg_Class (route_target route) \<noteq> TargetClassAURPPeer
            then reduceAURPHopCount ddpkt route else Inr (False, ddpkt)) of
        Inl e \<Rightarrow> (Some e, rt, k, [])
      | Inr (changed, ddpkt') \<Rightarrow>
          let k' = (if changed then k\<lparr>hopCountReductions := hopCountReductions k + 1\<rparr> else k);
              outDDP = prepareOutboundForRoute ddp ddpkt' route;
              sent = [(route_target route, outDDP)] in
          case fwd (route_target route) outDDP of
            Some e \<Rightarrow> (Some (FwdTarget e), rt, k', sent)
          | None \<Rightarrow> (None, noteRouteTraffic now outDDP route (Some (peer_target ingress)) rt, k', sent))"

definition OutputFromAURP ::
  "ddp_module \<Rightarrow> (RouteTarget \<Rightarrow> ExtPacket \<Rightarrow> string option) \<Rightarrow> time \<Rightarrow> AURPConfig option \<Rightarrow>
   'a AURPPeer_scheme \<Rightarrow> ExtPacket \<Rightarrow> RouteTable \<Rightarrow> ingress_counters \<Rightarrow>
   fwd_error option \<times> RouteTable \<times> ingress_counters \<times> transmission list" where
  "OutputFromAURP ddp fwd now cfg ingress ddpkt rt k =
     (if (case cfg of None \<Rightarrow> False | Some c \<Rightarrow> networkHidden c (dd_DstNet ddpkt)) \<or>
         exportNetworkHidden ingress (dd_DstNet ddpkt)
      then (Some (FwdHidden (dd_DstNet ddpkt)), rt, k, [])
      else
        let best = Lookup now (dd_DstNet ddpkt) rt in
        case outputRoute now rt ddpkt (tunnelID ingress) of
          Inl e \<Rightarrow>
            (Some e, rt,
             if learned_from best (tunnelID ingress)
             then k\<lparr>reflectionDrops := reflectionDrops k + 1\<rparr> else k, [])
        | Inr route \<Rightarrow>
            let k1 = (if learned_from best (tunnelID ingress) \<and>
                         tg_RouteTargetKey (route_target route) \<noteq> tg_RouteTargetKey (route_target best)
                      then k\<lparr>alternativePathForwards := alternativePathForwards k + 1\<rparr> else k) in
            if ddpHopCount ddpkt \<ge> 15 \<and> tg_Class (route_target route) \<noteq> TargetClassDirect
            then (Some (FwdHopLimit (ddpHopCount ddpkt)), rt, k1, [])
            else OutputFromAURP_send ddp fwd now
                   (case cfg of None \<Rightarrow> False | Some c \<Rightarrow> HopCountReduction c) ingress ddpkt route rt k1)"


section \<open>Into a tunnel\<close>

text \<open>
  \<open>AURPPeer.Forward\<close> up to the send: the datagram for \<open>NewAppleTalkPacket\<close>, or \<open>None\<close> when the
  packet is dropped without an error.
\<close>

definition peer_Forward ::
  "ddp_module \<Rightarrow> 'a AURPPeer_scheme \<Rightarrow> ExtPacket \<Rightarrow> ddp_error + (byte list \<times> ExtPacket) option" where
  "peer_Forward ddp p ddpkt =
     (case filterDeviceNBP ddp p ddpkt ''export'' of
        Inl e \<Rightarrow> Inl e
      | Inr Drop \<Rightarrow> Inr None
      | Inr (Keep filtered) \<Rightarrow>
          (case remapOutboundDDP ddp p filtered of
             Inl e \<Rightarrow> Inl e
           | Inr remapped \<Rightarrow>
               (case applyAURPHopWeight p remapped of
                  Inl e \<Rightarrow> Inl e
                | Inr weighted \<Rightarrow>
                    (case ExtMarshal ddp weighted of
                       Inl e \<Rightarrow> Inl (DdpMarshal e)
                     | Inr outPkt \<Rightarrow> Inr (Some (outPkt, weighted))))))"


section \<open>Hop counts are bounded\<close>

lemma ucast_distance: "unat (ucast (d :: byte) :: u16) = unat d"
  using unat_byte_less [of d] by (simp add: unsigned_ucast_eq take_bit_nat_eq_self)

lemma set_hop_frame:
  "dd_DstNet (setDDPHopCount h q) = dd_DstNet q" "dd_SrcNet (setDDPHopCount h q) = dd_SrcNet q"
  "dd_Data (setDDPHopCount h q) = dd_Data q" "dd_Cksum (setDDPHopCount h q) = dd_Cksum q"
  by (simp_all add: setDDPHopCount_def Let_def)

lemma reduce_ok:
  assumes "reduceAURPHopCount q route = Inr (c, q')"
  shows "unat (ddpHopCount q') + unat (r_Distance route) \<le> 15"
    "unat (ddpHopCount q') \<le> unat (ddpHopCount q)" "dd_DstNet q' = dd_DstNet q"
    "c \<longleftrightarrow> 15 < unat (ddpHopCount q) + unat (r_Distance route)"
proof -
  let ?h = "ddpHopCount q" and ?r = "ucast (r_Distance route) :: u16"
  have h: "\<not> ?h \<ge> 15" and r: "\<not> ?r \<ge> 15"
    using assms by (auto simp: reduceAURPHopCount_def Let_def split: if_splits)
  then have nh: "unat ?h < 15" and nr: "unat (r_Distance route) < 15"
    by (simp_all add: word_le_nat_alt ucast_distance)
  then have sum: "unat (?h + ?r) = unat ?h + unat (r_Distance route)"
    by (simp add: unat_word_ariths ucast_distance)
  have diff: "unat (15 - ?r) = 15 - unat (r_Distance route)"
    using nr by (simp add: unat_sub word_le_nat_alt ucast_distance)
  have "unat (ddpHopCount q') + unat (r_Distance route) \<le> 15 \<and>
    unat (ddpHopCount q') \<le> unat ?h \<and> dd_DstNet q' = dd_DstNet q \<and>
    (c \<longleftrightarrow> 15 < unat ?h + unat (r_Distance route))"
  proof (cases "?h + ?r \<le> 15")
    case True
    then have "unat ?h + unat (r_Distance route) \<le> 15"
      using sum by (simp add: word_le_nat_alt)
    with assms h r True show ?thesis
      by (simp add: reduceAURPHopCount_def Let_def)
  next
    case False
    then have gt: "15 < unat ?h + unat (r_Distance route)"
      using sum by (simp add: word_le_nat_alt)
    then have "\<not> 15 - ?r \<ge> ?h"
      using diff nr by (simp add: word_le_nat_alt)
    with assms h r False have q': "q' = setDDPHopCount (15 - ?r) q" and c: c
      by (simp_all add: reduceAURPHopCount_def Let_def)
    have "ddpHopCount q' = 15 - ?r"
      unfolding q' by (rule hop_count_set) (simp add: diff)
    with gt nr diff c show ?thesis
      by (simp add: q' set_hop_frame)
  qed
  then show "unat (ddpHopCount q') + unat (r_Distance route) \<le> 15"
    "unat (ddpHopCount q') \<le> unat (ddpHopCount q)" "dd_DstNet q' = dd_DstNet q"
    "c \<longleftrightarrow> 15 < unat (ddpHopCount q) + unat (r_Distance route)"
    by simp_all
qed

lemma normalize_frame:
  "dd_DstNet (normalizeAURPNBPFwdReqChecksum ddp q) = dd_DstNet q"
  "dd_Data (normalizeAURPNBPFwdReqChecksum ddp q) = dd_Data q"
  "ddpHopCount (normalizeAURPNBPFwdReqChecksum ddp q) = ddpHopCount q"
  by (simp_all add: normalizeAURPNBPFwdReqChecksum_def ddpHopCount_def split: sum.split)

lemma prepare_frame:
  "dd_DstNet (prepareOutboundForRoute ddp q r) = dd_DstNet q"
  "dd_Data (prepareOutboundForRoute ddp q r) = dd_Data q"
  "ddpHopCount (prepareOutboundForRoute ddp q r) = ddpHopCount q"
  by (simp_all add: prepareOutboundForRoute_def normalize_frame)

lemma hop_count_inc: "\<not> ddpHopCount q \<ge> 15 \<Longrightarrow>
  unat (ddpHopCount (setDDPHopCount (ddpHopCount q + 1) q)) = Suc (unat (ddpHopCount q))"
proof -
  assume "\<not> ddpHopCount q \<ge> 15"
  then have "unat (ddpHopCount q + 1) = Suc (unat (ddpHopCount q))" "unat (ddpHopCount q) < 15"
    by (simp_all add: unat_word_ariths word_le_nat_alt)
  then show ?thesis
    by (subst hop_count_set) simp_all
qed


section \<open>Routes used for output\<close>

definition best_route :: "time \<Rightarrow> RouteTable \<Rightarrow> (Route \<Rightarrow> bool) \<Rightarrow> network \<Rightarrow> Route \<Rightarrow> bool" where
  "best_route now rt P n r \<longleftrightarrow>
     r \<in> set (Dump rt) \<and> covers r n \<and> Route_Valid rt now r \<and> P r \<and>
     (\<forall>r'\<in>set (Dump rt). covers r' n \<and> Route_Valid rt now r' \<and> P r' \<longrightarrow> compareRoutePreference r r' \<le> 0)"

lemma output_route_plain:
  assumes "rt_reach rt" "outputRoute now rt q [] = Inr r"
  shows "best_route now rt (\<lambda>_. True) (dd_DstNet q) r"
proof -
  have "r = Lookup now (dd_DstNet q) rt" "\<not> Route_Zero r"
    using assms(2) by (auto simp: outputRoute_def Let_def split: if_splits)
  then show ?thesis
    using lookup_best [OF rt_inv_reach [OF assms(1)], where P = "Route_Valid rt now" and now = now
        and n = "dd_DstNet q"]
    by (simp add: best_route_def Lookup_def compareRoutePreference_le)
qed

lemma output_route_avoiding:
  assumes "rt_reach rt" "outputRoute now rt q tid = Inr r" "tid \<noteq> []"
  shows "best_route now rt (\<lambda>r. \<not> from_tunnel tid r) (dd_DstNet q) r"
proof -
  have "r = LookupAvoidingAURPTunnel now (dd_DstNet q) tid rt" "\<not> Route_Zero r"
    using assms(2,3) by (auto simp: outputRoute_def Let_def split: if_splits)
  then show ?thesis
    using lookup_best [OF rt_inv_reach [OF assms(1)],
        where P = "\<lambda>r. Route_Valid rt now r \<and> \<not> from_tunnel tid r" and now = now and n = "dd_DstNet q"]
    by (simp add: best_route_def LookupAvoidingAURPTunnel_def compareRoutePreference_le)
qed

lemma best_route_target:
  assumes "rt_reach rt" "best_route now rt P n r"
  shows "r_Target r = Some (route_target r)" "Route_RouteOrigin r = routeOriginForTarget (r_Target r)"
proof -
  have "route_ok r"
    using assms reach_Dump(2) [OF rt_inv_reach] by (simp add: best_route_def)
  then show "r_Target r = Some (route_target r)" "Route_RouteOrigin r = routeOriginForTarget (r_Target r)"
    by (auto simp: route_ok_def route_target_def Route_RouteOrigin_def split: option.splits)
qed

lemma not_from_tunnel_target:
  assumes "rt_reach rt" "best_route now rt (\<lambda>r. \<not> from_tunnel (tunnelID p) r) n r" "tunnelID p \<noteq> []"
  shows "route_target r \<noteq> peer_target p"
proof
  assume "route_target r = peer_target p"
  then have "Route_RouteOrigin r = \<lparr>ro_Kind = RouteOriginAURP, ro_ID = tunnelID p\<rparr>"
    using best_route_target [OF assms(1,2)] by (simp add: peer_target_def)
  then have "from_tunnel (tunnelID p) r"
    using assms(3) by (simp add: from_tunnel_def)
  with assms(2) show False by (simp add: best_route_def)
qed

lemma send_from_aurp:
  assumes "OutputFromAURP_send ddp fwd now reduce p q route rt k = (err, rt', k', sent)" "(t, q') \<in> set sent"
  shows "t = route_target route" "dd_DstNet q' = dd_DstNet q" "unat (ddpHopCount q') \<le> unat (ddpHopCount q)"
proof -
  let ?red = "if reduce \<and> tg_Class (route_target route) \<noteq> TargetClassAURPPeer
            then reduceAURPHopCount q route else Inr (False, q)"
  obtain c q1 where r: "?red = Inr (c, q1)"
    using assms by (cases ?red) (auto simp: OutputFromAURP_send_def)
  have q1: "dd_DstNet q1 = dd_DstNet q" "unat (ddpHopCount q1) \<le> unat (ddpHopCount q)"
    using r reduce_ok [of q route c q1] by (auto split: if_splits)
  have "sent = [(route_target route, prepareOutboundForRoute ddp q1 route)]"
    using assms(1) unfolding OutputFromAURP_send_def r by (auto simp: Let_def split: option.splits)
  with assms(2) q1 show "t = route_target route" "dd_DstNet q' = dd_DstNet q"
    "unat (ddpHopCount q') \<le> unat (ddpHopCount q)"
    by (simp_all add: prepare_frame)
qed


lemma outbound_loop_None: "remapOutboundNetwork_loop p n rules = (m, False) \<Longrightarrow> m = n"
  by (induction rules) (auto simp: remapNetworkNumber_def split: if_splits)


section \<open>Properties\<close>

text \<open>
  C3: a packet that came out of an AURP tunnel is never sent back into it.  Whatever is handed to a
  target goes to the best valid route for the destination that was not learned over the ingress
  tunnel; the target is not the ingress peer, the destination is not hidden from that peer, the
  destination network is kept, the hop count is not raised, and at 15 hops only a directly connected
  network is reached.
\<close>
theorem aurp_packet_never_reflected:
  assumes "rt_reach rt" "tunnelID ingress \<noteq> []"
    and "OutputFromAURP ddp fwd now cfg ingress q rt k = (err, rt', k', sent)" "(t, q') \<in> set sent"
  shows "t \<noteq> peer_target ingress \<and> \<not> exportNetworkHidden ingress (dd_DstNet q) \<and>
    (\<exists>r. best_route now rt (\<lambda>r. \<not> from_tunnel (tunnelID ingress) r) (dd_DstNet q) r \<and>
         r_Target r = Some t) \<and>
    dd_DstNet q' = dd_DstNet q \<and> unat (ddpHopCount q') \<le> unat (ddpHopCount q) \<and>
    (tg_Class t = TargetClassDirect \<or> unat (ddpHopCount q) < 15)"
proof -
  have hid: "\<not> exportNetworkHidden ingress (dd_DstNet q)"
    using assms(3,4) by (auto simp: OutputFromAURP_def split: if_splits)
  obtain route where r: "outputRoute now rt q (tunnelID ingress) = Inr route"
    using assms(3,4)
    by (cases "outputRoute now rt q (tunnelID ingress)")
      (auto simp: OutputFromAURP_def Let_def split: if_splits)
  have lim: "\<not> (ddpHopCount q \<ge> 15 \<and> tg_Class (route_target route) \<noteq> TargetClassDirect)"
    using assms(3,4) unfolding OutputFromAURP_def r by (auto simp: Let_def split: if_splits)
  obtain k1 reduce where s:
    "OutputFromAURP_send ddp fwd now reduce ingress q route rt k1 = (err, rt', k', sent)"
    using assms(3,4) lim unfolding OutputFromAURP_def r by (auto simp: Let_def split: if_splits)
  have best: "best_route now rt (\<lambda>r. \<not> from_tunnel (tunnelID ingress) r) (dd_DstNet q) route"
    using output_route_avoiding [OF assms(1) r assms(2)] .
  have "t = route_target route" "dd_DstNet q' = dd_DstNet q" "unat (ddpHopCount q') \<le> unat (ddpHopCount q)"
    using send_from_aurp [OF s assms(4)] by simp_all
  moreover have "tg_Class (route_target route) = TargetClassDirect \<or> unat (ddpHopCount q) < 15"
    using lim by (auto simp: word_le_nat_alt)
  ultimately show ?thesis
    using hid best best_route_target(1) [OF assms(1) best] not_from_tunnel_target [OF assms(1) best assms(2)]
    by (auto intro!: exI [of _ route])
qed

definition sample_datagram :: ExtPacket where
  "sample_datagram = sample_lookup_reply\<lparr>dd_DstNet := 5\<rparr>"

definition no_counters :: ingress_counters where
  "no_counters = \<lparr>reflectionDrops = 0, alternativePathForwards = 0, hopCountReductions = 0\<rparr>"

theorem aurp_packet_never_reflected_witness:
  "\<exists>err rt' k' q'. OutputFromAURP sample_ddp (\<lambda>_ _. None) 0 None sample_tx sample_datagram sample_table no_counters =
       (err, rt', k', [(sample_port, q')]) \<and>
     sample_port \<noteq> peer_target sample_tx \<and> dd_DstNet q' = 5"
proof -
  let ?o = "OutputFromAURP sample_ddp (\<lambda>_ _. None) 0 None sample_tx sample_datagram sample_table no_counters"
  have "map fst (snd (snd (snd ?o))) = [sample_port]"
    by code_simp
  then obtain q' where "snd (snd (snd ?o)) = [(sample_port, q')]"
    by (auto simp: map_eq_Cons_conv)
  then have o: "?o = (fst ?o, fst (snd ?o), fst (snd (snd ?o)), [(sample_port, q')])"
    by (metis prod.collapse)
  have "tunnelID sample_tx \<noteq> []" "dd_DstNet sample_datagram = 5"
    by (simp_all add: sample_tx_def sample_datagram_def)
  with aurp_packet_never_reflected [OF sample_reach, of sample_tx sample_ddp _ 0 None sample_datagram no_counters]
    o show ?thesis
    by (metis list.set_intros(1))
qed

text \<open>
  \<open>Forward\<close> raises the hop count of a packet by exactly one, keeps its destination and data, sends
  it to the best valid route for its destination, and sends nothing that has already made 15 hops.
\<close>
theorem Forward_counts_hop:
  assumes "rt_reach rt" "Forward ddp fwd now q rt = (err, rt', sent)" "(t, q') \<in> set sent"
  shows "unat (ddpHopCount q') = Suc (unat (ddpHopCount q)) \<and> unat (ddpHopCount q') \<le> 15 \<and>
    dd_DstNet q' = dd_DstNet q \<and> dd_Data q' = dd_Data q \<and>
    (\<exists>r. best_route now rt (\<lambda>_. True) (dd_DstNet q) r \<and> r_Target r = Some t)"
proof -
  let ?q = "setDDPHopCount (ddpHopCount q + 1) q"
  have lim: "\<not> ddpHopCount q \<ge> 15"
    using assms(2,3) by (auto simp: Forward_def Let_def split: if_splits)
  then have out: "Output ddp fwd now ?q rt = (err, rt', sent)"
    using assms(2) by (simp add: Forward_def Let_def)
  obtain route where r: "outputRoute now rt ?q [] = Inr route"
    using out assms(3) by (cases "outputRoute now rt ?q []") (auto simp: Output_def)
  have sent: "sent = [(route_target route, prepareOutboundForRoute ddp ?q route)]"
    using out unfolding Output_def r by (auto simp: Let_def split: option.splits)
  have "best_route now rt (\<lambda>_. True) (dd_DstNet q) route"
    using output_route_plain [OF assms(1) r] by (simp add: set_hop_frame)
  moreover have "unat (ddpHopCount q) < 15"
    using lim by (simp add: word_le_nat_alt)
  ultimately show ?thesis
    using assms(3) hop_count_inc [OF lim] best_route_target(1) [OF assms(1)]
    by (auto simp: sent prepare_frame set_hop_frame)
qed

theorem Forward_counts_hop_witness:
  "\<exists>err rt' q'. Forward sample_ddp (\<lambda>_ _. None) 0 sample_datagram sample_table = (err, rt', [(sample_port, q')]) \<and>
     unat (ddpHopCount q') = 2"
proof -
  let ?o = "Forward sample_ddp (\<lambda>_ _. None) 0 sample_datagram sample_table"
  have "map fst (snd (snd ?o)) = [sample_port]"
    by code_simp
  then obtain q' where "snd (snd ?o) = [(sample_port, q')]"
    by (auto simp: map_eq_Cons_conv)
  then have o: "?o = (fst ?o, fst (snd ?o), [(sample_port, q')])"
    by (metis prod.collapse)
  have "unat (ddpHopCount sample_datagram) = 1"
    by code_simp
  with Forward_counts_hop [OF sample_reach o] o show ?thesis
    by (metis list.set_intros(1) One_nat_def Suc_1)
qed

text \<open>
  Hop-count reduction gives a packet exactly the hops it needs.  When it succeeds, the hop count
  plus the remaining distance is at most 15, the hop count is never raised, and it is changed only
  when the packet could not have reached its destination otherwise.
\<close>
theorem hop_count_reduction_exact:
  assumes "reduceAURPHopCount q route = Inr (changed, q')"
  shows "unat (ddpHopCount q') + unat (r_Distance route) \<le> 15 \<and>
    unat (ddpHopCount q') \<le> unat (ddpHopCount q) \<and>
    (changed \<longleftrightarrow> 15 < unat (ddpHopCount q) + unat (r_Distance route))"
  using reduce_ok [OF assms] by blast

theorem hop_count_reduction_exact_witness:
  "\<exists>q'. reduceAURPHopCount (setDDPHopCount 12 sample_datagram) (zero_Route\<lparr>r_Distance := 6\<rparr>) = Inr (True, q') \<and>
     unat (ddpHopCount q') + 6 \<le> 15"
proof -
  let ?o = "reduceAURPHopCount (setDDPHopCount 12 sample_datagram) (zero_Route\<lparr>r_Distance := 6\<rparr>)"
  have "case ?o of Inr (c, _) \<Rightarrow> c | Inl _ \<Rightarrow> False"
    by code_simp
  then obtain q' where o: "?o = Inr (True, q')"
    by (auto split: sum.splits)
  with hop_count_reduction_exact [OF o] show ?thesis
    by simp
qed

text \<open>
  What a peer puts into its tunnel.  The datagram is the encoding of the packet with its
  destination remapped by the peer's rules, with the configured weight added to its hop count, which
  stays at most 15; a packet that would exceed it is refused.
\<close>
theorem peer_forward_weighted:
  assumes "peer_Forward ddp p q = Inr (Some (bytes, w))" "dd_Proto q \<noteq> ProtoNBP ddp"
  shows "ExtMarshal ddp w = Inr bytes \<and> dd_DstNet w = fst (remapOutboundNetwork p (dd_DstNet q)) \<and>
    unat (ddpHopCount w) = unat (ddpHopCount q) + unat (HopCountWeight (timing p)) \<and>
    unat (ddpHopCount w) \<le> 15"
proof -
  have f: "filterDeviceNBP ddp p q ''export'' = Inr (Keep q)"
    using assms(2) by (simp add: filterDeviceNBP_def)
  obtain m where m: "remapOutboundDDP ddp p q = Inr m" and w: "applyAURPHopWeight p m = Inr w"
    and b: "ExtMarshal ddp w = Inr bytes"
    using assms(1) by (auto simp: peer_Forward_def f split: sum.splits)
  have "dd_DstNet m = fst (remapOutboundNetwork p (dd_DstNet q)) \<and> ddpHopCount m = ddpHopCount q"
  proof (cases "remapOutboundNetwork p (dd_DstNet q)")
    case (Pair n ok)
    have "\<not> ok \<Longrightarrow> n = dd_DstNet q"
      using Pair outbound_loop_None [of p "dd_DstNet q" "RemapRules (timing p)" n]
      by (simp add: remapOutboundNetwork_def)
    with m Pair show ?thesis
      by (auto simp: remapOutboundDDP_def ddpHopCount_def split: if_splits sum.splits)
  qed
  moreover have "dd_DstNet w = dd_DstNet m"
    using w by (auto simp: applyAURPHopWeight_def Let_def set_hop_frame split: if_splits)
  ultimately show ?thesis
    using hop_weight_ok [OF w] b by simp
qed

theorem peer_forward_weighted_witness:
  "\<exists>bytes w. peer_Forward sample_ddp (sample_peer ''a.example'') (sample_datagram\<lparr>dd_DstNet := 101, dd_Proto := 4\<rparr>) =
       Inr (Some (bytes, w)) \<and> dd_DstNet w = 11 \<and> unat (ddpHopCount w) = 3"
proof -
  let ?p = "sample_peer ''a.example''" and ?q = "sample_datagram\<lparr>dd_DstNet := 101, dd_Proto := 4\<rparr>"
  have "case peer_Forward sample_ddp ?p ?q of Inr (Some _) \<Rightarrow> True | _ \<Rightarrow> False"
    by code_simp
  then obtain bytes w where o: "peer_Forward sample_ddp ?p ?q = Inr (Some (bytes, w))"
    by (auto split: sum.splits option.splits)
  have "fst (remapOutboundNetwork ?p (dd_DstNet ?q)) = 11" "unat (ddpHopCount ?q) = 1"
    "unat (HopCountWeight (timing ?p)) = 2"
    by code_simp+
  moreover have "dd_Proto ?q \<noteq> ProtoNBP sample_ddp"
    by (simp add: sample_ddp_def)
  ultimately show ?thesis
    using peer_forward_weighted [OF o] o by auto
qed

end
