(* ===== verification/AurpZoneInfo.thy ===== *)
theory AurpZoneInfo
  imports AurpSender
begin

text \<open>
  The zone information packets of \<open>src/router/aurp_zone.go\<close>: ZI-Req packets that
  ask for the zones of a list of networks, and ZI-Rsp packets that answer, in the
  plain form when a zone list fits one datagram and in the extended form, spread
  over several datagrams, when it does not.
\<close>

section \<open>Building packets\<close>

datatype zone_error =
    ZoneWrite aurp_error
  | ZoneHeader int
  | ZoneTooMany network nat
  | ZoneTuple string int int

definition aurpPacketSize :: "Packet \<Rightarrow> zone_error + int" where
  "aurpPacketSize pkt =
     (case encode (Packet_WriteTo pkt) of
        Inl e \<Rightarrow> Inl (ZoneWrite e) | Inr b \<Rightarrow> Inr (int (length b)))"

text \<open>The loop that cuts the networks into packets; its bound is positive when it is called.\<close>

function zireq_packets :: "Transport \<Rightarrow> nat \<Rightarrow> network list \<Rightarrow> ZIReqPacket list" where
  "zireq_packets tr maxNetworks networks =
     (if networks = [] \<or> maxNetworks = 0 then []
      else
        let n = min (length networks) maxNetworks in
        NewZIReqPacket tr (take n networks) # zireq_packets tr maxNetworks (drop n networks))"
  by pat_completeness auto
termination
  by (relation "measure (\<lambda>(tr, m, ns). length ns)") auto

declare zireq_packets.simps [simp del]

definition buildZIReqPackets :: "Transport \<Rightarrow> network list \<Rightarrow> zone_error + ZIReqPacket list" where
  "buildZIReqPackets tr networks =
     (if networks = [] then Inr []
      else
        let sorted_networks = remdups_adj (sort networks) in
        case aurpPacketSize (PZIReq (NewZIReqPacket tr [])) of
          Inl e \<Rightarrow> Inl e
        | Inr baseSize \<Rightarrow>
            let maxNetworks = (aurpRoutingDatagramBudget - baseSize) div 2 in
            if maxNetworks \<le> 0 then Inl (ZoneHeader baseSize)
            else Inr (zireq_packets tr (nat maxNetworks) sorted_networks))"

definition dedupeSortedZones :: "string list \<Rightarrow> string list" where
  "dedupeSortedZones zones = sort (remdups (filter (\<lambda>zone. zone \<noteq> []) zones))"

text \<open>
  The loop over the zones of one network: the chunks that were flushed, the current chunk and its
  size, and the final flush.
\<close>

fun zirsp_chunks ::
  "network \<Rightarrow> int \<Rightarrow> ZoneTuples list \<Rightarrow> ZoneTuples \<Rightarrow> int \<Rightarrow> string list \<Rightarrow>
   zone_error + ZoneTuples list" where
  "zirsp_chunks network budget chunks chunk chunkSize [] =
     Inr (if chunk \<noteq> [] then chunks @ [chunk] else chunks)"
| "zirsp_chunks network budget chunks chunk chunkSize (zone # zones) =
     (let tupleSize = 3 + int (length zone);
          zt = \<lparr>zt_Network = network, zt_Name = zone\<rparr> in
      if tupleSize > budget then Inl (ZoneTuple zone tupleSize budget)
      else if chunk \<noteq> [] \<and> chunkSize + tupleSize > budget
      then zirsp_chunks network budget (chunks @ [chunk]) [zt] tupleSize zones
      else zirsp_chunks network budget chunks (chunk @ [zt]) (chunkSize + tupleSize) zones)"

text \<open>The body of the loop over the networks.\<close>

definition zirsp_packets ::
  "Transport \<Rightarrow> network \<Rightarrow> string list \<Rightarrow> zone_error + ZIRspPacket list" where
  "zirsp_packets tr network zones0 =
     (let zones = dedupeSortedZones zones0 in
      if zones = [] then Inr []
      else
        let nonext = NewZIRspPacket tr [(network, zones)] in
        case aurpPacketSize (PZIRsp nonext) of
          Inl e \<Rightarrow> Inl e
        | Inr sz \<Rightarrow>
            if sz \<le> aurpRoutingDatagramBudget then Inr [nonext]
            else
              let count = length zones in
              if count > 65535 then Inl (ZoneTooMany network count)
              else
                case aurpPacketSize (PZIRsp (NewExtendedZIRspPacket tr (of_nat count) [])) of
                  Inl e \<Rightarrow> Inl e
                | Inr baseSize \<Rightarrow>
                    let budget = aurpRoutingDatagramBudget - baseSize in
                    if budget \<le> 0 then Inl (ZoneHeader baseSize)
                    else
                      case zirsp_chunks network budget [] [] 0 zones of
                        Inl e \<Rightarrow> Inl e
                      | Inr chunks \<Rightarrow> Inr (map (NewExtendedZIRspPacket tr (of_nat count)) chunks))"

fun zirsp_all ::
  "Transport \<Rightarrow> (network \<times> string list) list \<Rightarrow> network list \<Rightarrow> zone_error + ZIRspPacket list" where
  "zirsp_all tr zoneLists [] = Inr []"
| "zirsp_all tr zoneLists (network # networks) =
     (case zirsp_packets tr network (the (map_of zoneLists network)) of
        Inl e \<Rightarrow> Inl e
      | Inr packets \<Rightarrow>
          (case zirsp_all tr zoneLists networks of
             Inl e \<Rightarrow> Inl e | Inr rest \<Rightarrow> Inr (packets @ rest)))"

definition buildZIRspPackets ::
  "Transport \<Rightarrow> (network \<times> string list) list \<Rightarrow> zone_error + ZIRspPacket list" where
  "buildZIRspPackets tr zoneLists = zirsp_all tr zoneLists (sort (map fst zoneLists))"


section \<open>ZI-Req packets\<close>

lemma distinct_compact: "sorted xs \<Longrightarrow> distinct (remdups_adj xs)"
  by (induction xs rule: remdups_adj.induct) force+

lemma concat_zireq:
  "0 < m \<Longrightarrow> concat (map zireq_Networks (zireq_packets tr m ns)) = ns"
  by (induction tr m ns rule: zireq_packets.induct)
    (subst zireq_packets.simps, auto simp: Let_def NewZIReqPacket_def)

lemma zireq_sent:
  "pkt \<in> set (zireq_packets tr m ns) \<Longrightarrow> \<exists>c. pkt = NewZIReqPacket tr c \<and> c \<noteq> [] \<and> length c \<le> m"
proof (induction tr m ns rule: zireq_packets.induct)
  case (1 tr m ns)
  show ?case
  proof (cases "ns = [] \<or> m = 0")
    case True
    with 1(2) show ?thesis by (simp add: zireq_packets.simps)
  next
    case False
    let ?k = "min (length ns) m"
    have "pkt = NewZIReqPacket tr (take ?k ns) \<or> pkt \<in> set (zireq_packets tr m (drop ?k ns))"
      using 1(2) False unfolding zireq_packets.simps [of tr m ns] by (simp add: Let_def)
    moreover have "take ?k ns \<noteq> []" "length (take ?k ns) \<le> m"
      using False by (auto simp: min_def)
    ultimately show ?thesis
      using 1(1) [OF False refl] by blast
  qed
qed

lemma zireq_length:
  "length (packet_bytes (PZIReq (NewZIReqPacket tr ns))) = header_len tr + 2 + 2 * length ns"
  by (induction ns)
    (simp_all add: packet_bytes_def NewZIReqPacket_def header_bytes_def tr_bytes_def dh_bytes_def
      tr_transaction_def tr_domainHeader_def header_len_def)

lemma packet_size:
  "transport_ok tr \<Longrightarrow> sends tr pkt \<Longrightarrow> aurpPacketSize pkt = Inr (int (length (packet_bytes pkt)))"
  by (simp add: aurpPacketSize_def sent_bytes)

text \<open>A packet that leaves as one datagram within the budget and is parsed back as it was sent.\<close>

definition deliverable :: "Packet \<Rightarrow> bool" where
  "deliverable pkt \<longleftrightarrow>
     (\<exists>b. encode (Packet_WriteTo pkt) = Inr b \<and> int (length b) \<le> aurpRoutingDatagramBudget \<and>
          ParsePacket b = Inr (GetDomainHeader pkt, pkt))"

lemma deliverableI:
  "transport_ok tr \<Longrightarrow> sends tr pkt \<Longrightarrow> length (packet_bytes pkt) \<le> 1400 \<Longrightarrow> deliverable pkt"
  using sent_bytes [of tr pkt] by (simp add: deliverable_def)

lemma zireq_ok:
  assumes "transport_ok tr"
  shows "\<exists>pkts. buildZIReqPackets tr ns = Inr pkts \<and>
    distinct (concat (map zireq_Networks pkts)) \<and> set (concat (map zireq_Networks pkts)) = set ns \<and>
    (\<forall>pkt\<in>set pkts. zireq_Networks pkt \<noteq> [] \<and> deliverable (PZIReq pkt))"
proof (cases "ns = []")
  case False
  let ?m = "(1400 - int (header_len tr + 2)) div 2" and ?ns = "remdups_adj (sort ns)"
  have s: "sends tr (PZIReq (NewZIReqPacket tr c))" for c
    by (rule sends.intros)
  have hl: "header_len tr \<le> 30"
    by (rule header_len_le [OF assms])
  have m: "0 < ?m" "0 < nat ?m" "2 * nat ?m + header_len tr + 2 \<le> 1400"
    using hl by linarith+
  have eq: "buildZIReqPackets tr ns = Inr (zireq_packets tr (nat ?m) ?ns)"
    using False m(1) by (simp add: buildZIReqPackets_def packet_size [OF assms s] zireq_length)
  have "deliverable (PZIReq pkt)" "zireq_Networks pkt \<noteq> []"
    if p: "pkt \<in> set (zireq_packets tr (nat ?m) ?ns)" for pkt
  proof -
    from zireq_sent [OF p] obtain c where c: "pkt = NewZIReqPacket tr c" "c \<noteq> []" "length c \<le> nat ?m"
      by blast
    then have "length (packet_bytes (PZIReq pkt)) \<le> 1400"
      using m(3) by (simp add: zireq_length)
    with c show "deliverable (PZIReq pkt)" "zireq_Networks pkt \<noteq> []"
      using deliverableI [OF assms s] by (simp_all add: NewZIReqPacket_def)
  qed
  moreover have "concat (map zireq_Networks (zireq_packets tr (nat ?m) ?ns)) = ?ns"
    by (rule concat_zireq [OF m(2)])
  ultimately show ?thesis
    unfolding eq by (intro exI [of _ "zireq_packets tr (nat ?m) ?ns"] conjI ballI)
      (simp_all only: distinct_compact sorted_sort sum.inject remdups_adj_set set_sort simp_thms)
qed (simp add: buildZIReqPackets_def)


section \<open>ZI-Rsp packets\<close>

definition zone_tuple :: "network \<Rightarrow> string \<Rightarrow> ZoneTuple" where
  "zone_tuple n z = \<lparr>zt_Network = n, zt_Name = z\<rparr>"

lemma zone_tuple_abs: "zone_tuple n = (\<lambda>z. \<lparr>zt_Network = n, zt_Name = z\<rparr>)"
  by (simp add: zone_tuple_def fun_eq_iff)

interpretation ztc: chunker "zirsp_chunks n" "zone_tuple n"
  "\<lambda>z m. ZoneTuple z (3 + int (length z)) m" "\<lambda>z. 3 + int (length z)" ext_zone_bytes for n
  by unfold_locales
    (simp_all add: zone_tuple_def Let_def ext_zone_bytes_def name_bytes_def)

lemma set_dedupe [simp]: "set (dedupeSortedZones zs) = set zs - {[]}"
  by (auto simp: dedupeSortedZones_def)

lemma distinct_dedupe [simp]: "distinct (dedupeSortedZones zs)"
  by (simp add: dedupeSortedZones_def)

lemma dedupe_eq_iff: "dedupeSortedZones xs = dedupeSortedZones ys \<longleftrightarrow> set xs - {[]} = set ys - {[]}"
proof
  assume "set xs - {[]} = set ys - {[]}"
  then have "set (remdups (filter (\<lambda>z. z \<noteq> []) xs)) = set (remdups (filter (\<lambda>z. z \<noteq> []) ys))"
    by auto
  then show "dedupeSortedZones xs = dedupeSortedZones ys"
    unfolding dedupeSortedZones_def by (intro sorted_distinct_set_unique) simp_all
qed (metis set_dedupe)

lemma nonext_zones: "zirsp_Zones (NewZIRspPacket tr [(n, zs)]) = map (zone_tuple n) zs"
  by (simp add: NewZIRspPacket_def zone_tuple_def)

lemma zirsp_length:
  "length (packet_bytes (PZIRsp (NewZIRspPacket tr [(n, zs)]))) =
   header_len tr + 2 + length (zts_bytes (map (zone_tuple n) zs))"
  "length (packet_bytes (PZIRsp (NewExtendedZIRspPacket tr k c))) =
   header_len tr + 4 + length (concat (map ext_zone_bytes c))"
  by (simp_all add: packet_bytes_def NewZIRspPacket_def NewExtendedZIRspPacket_def header_bytes_def
    tr_bytes_def dh_bytes_def tr_transaction_def tr_domainHeader_def header_len_def zone_tuple_abs)

text \<open>
  \<open>zirsp_covers\<close> says that the packets for a network carry exactly the given zone names: one plain
  packet, or extended packets that all declare the number of names.
\<close>

definition zirsp_covers :: "network \<Rightarrow> string set \<Rightarrow> ZIRspPacket list \<Rightarrow> bool" where
  "zirsp_covers n zs pkts \<longleftrightarrow>
     (\<forall>pkt\<in>set pkts. zirsp_Zones pkt \<noteq> [] \<and> deliverable (PZIRsp pkt) \<and>
        (\<forall>zt\<in>set (zirsp_Zones pkt). zt_Network zt = n)) \<and>
     distinct (map zt_Name (concat (map zirsp_Zones pkts))) \<and>
     zt_Name ` set (concat (map zirsp_Zones pkts)) = zs \<and>
     ((\<exists>pkt. pkts = [pkt] \<and> zirsp_Subcode pkt = SubcodeZoneInfoNonExt) \<or>
      (\<forall>pkt\<in>set pkts. zirsp_Subcode pkt = SubcodeZoneInfoExt \<and>
         unat (zirsp_TotalTuples pkt) = card zs))"

lemma map_Name_zone_tuple [simp]: "map zt_Name (map (zone_tuple n) zs) = zs"
  by (simp add: zone_tuple_def comp_def)

lemma nonext_size:
  assumes "transport_ok tr" "length zs \<le> 65535" "\<forall>z\<in>set zs. length z \<le> 127"
  shows "aurpPacketSize (PZIRsp (NewZIRspPacket tr [(n, zs)])) =
    Inr (int (header_len tr + 2 + length (zts_bytes (map (zone_tuple n) zs))))"
proof -
  have h: "header_ok (zirsp_Header (NewZIRspPacket tr [(n, zs)]))"
    using assms(1) by (simp add: NewZIRspPacket_def header_ok_def tr_transaction_def
      tr_domainHeader_def dh_ok_def transport_ok_def)
  have "emits (ZoneTuples_WriteTo (map (zone_tuple n) zs)) (zts_bytes (map (zone_tuple n) zs))"
    using assms(2,3) by (intro emitsI)
      (simp add: ZoneTuples_WriteTo_def zts_bytes_def acc_wrote fold_zone_step find_long_None zone_tuple_def)
  from writeTo_wrote [OF this] writeTo_wrote [OF header_emits [OF h]]
  have "emits (Packet_WriteTo (PZIRsp (NewZIRspPacket tr [(n, zs)])))
      (packet_bytes (PZIRsp (NewZIRspPacket tr [(n, zs)])))"
    by (intro emitsI)
      (simp add: ZIRspPacket_WriteTo_def nonext_zones acc_wrote packet_bytes_def NewZIRspPacket_def zone_tuple_abs)
  from encode_emits [OF this] show ?thesis
    by (simp add: aurpPacketSize_def zirsp_length)
qed

lemma zirsp_packets_ok:
  assumes tr: "transport_ok tr" and names: "\<forall>z\<in>set zs. length z \<le> 127"
    and count: "card (set zs - {[]}) \<le> 65535"
  shows "\<exists>pkts. zirsp_packets tr n zs = Inr pkts \<and> zirsp_covers n (set zs - {[]}) pkts"
proof -
  let ?zs = "dedupeSortedZones zs"
  have len: "length ?zs = card (set zs - {[]})"
    using distinct_card [OF distinct_dedupe [of zs]] by simp
  have short: "\<forall>z\<in>set ?zs. length z \<le> 127"
    using names by simp
  have size1: "aurpPacketSize (PZIRsp (NewZIRspPacket tr [(n, ?zs)])) =
      Inr (int (header_len tr + 2 + length (zts_bytes (map (zone_tuple n) ?zs))))"
    using len count by (intro nonext_size [OF tr _ short]) simp
  consider "?zs = []" | "?zs \<noteq> []" "header_len tr + 2 + length (zts_bytes (map (zone_tuple n) ?zs)) \<le> 1400"
    | "?zs \<noteq> []" "header_len tr + 2 + length (zts_bytes (map (zone_tuple n) ?zs)) > 1400"
    by linarith
  then show ?thesis
  proof cases
    case 1
    then have "set zs - {[]} = {}" by (metis set_dedupe set_empty)
    with 1 show ?thesis by (simp add: zirsp_packets_def zirsp_covers_def)
  next
    case 2
    let ?pkt = "NewZIRspPacket tr [(n, ?zs)]"
    have "zts_ok (zirsp_Zones ?pkt)"
      using 2 len count short by (auto simp: zts_ok_def nonext_zones zone_tuple_def)
    then have "deliverable (PZIRsp ?pkt)"
      using 2 by (intro deliverableI [OF tr] sends.intros) (simp_all add: zirsp_length)
    moreover have "zirsp_packets tr n zs = Inr [?pkt]"
      using 2 by (simp add: zirsp_packets_def Let_def size1)
    ultimately show ?thesis
      using 2 by (intro exI [of _ "[?pkt]"])
        (auto simp: zirsp_covers_def nonext_zones zone_tuple_def image_image NewZIRspPacket_def comp_def)
  next
    case 3
    let ?k = "of_nat (length ?zs) :: u16" and ?m = "1400 - int (header_len tr + 4)"
    have le: "length ?zs \<le> 65535"
      using len count by simp
    then have k1: "unat ?k = length ?zs"
      by (simp add: unat_of_nat take_bit_nat_eq_self)
    then have "unat ?k \<noteq> 0" using 3(1) by (metis length_0_conv)
    then have k: "unat ?k = length ?zs" "?k \<noteq> 0"
      using k1 by auto
    have s: "sends tr (PZIRsp (NewExtendedZIRspPacket tr ?k c))" if "ext_zones_ok c" for c
      using k that by (intro sends.intros)
    have base: "aurpPacketSize (PZIRsp (NewExtendedZIRspPacket tr ?k [])) = Inr (int (header_len tr + 4))"
      by (simp add: packet_size [OF tr s] ext_zones_ok_def zirsp_length)
    have m: "130 \<le> ?m" using header_len_le [OF tr] by linarith
    obtain cs where cs: "zirsp_chunks n ?m [] [] 0 ?zs = Inr cs" "concat cs = map (zone_tuple n) ?zs"
      "\<forall>c\<in>set cs. c \<noteq> [] \<and> int (length (concat (map ext_zone_bytes c))) \<le> ?m"
      using ztc.loop_start [of ?zs ?m n] m short by force
    let ?pkts = "map (NewExtendedZIRspPacket tr ?k) cs"
    have pk: "zirsp_Zones (NewExtendedZIRspPacket tr ?k c) = c" for c
      by (simp add: NewExtendedZIRspPacket_def)
    have c: "zt_Network zt = n \<and> length (zt_Name zt) \<le> 127" if "c \<in> set cs" "zt \<in> set c" for c zt
    proof -
      have "zt \<in> set (concat cs)" using that by auto
      with cs(2) short show ?thesis by (auto simp: zone_tuple_def)
    qed
    have "deliverable (PZIRsp (NewExtendedZIRspPacket tr ?k c))" if "c \<in> set cs" for c
    proof (rule deliverableI [OF tr s])
      show "ext_zones_ok c"
        using c [OF that] cs(3) that by (auto simp: ext_zones_ok_def)
      show "length (packet_bytes (PZIRsp (NewExtendedZIRspPacket tr ?k c))) \<le> 1400"
        using cs(3) that m unfolding zirsp_length by fastforce
    qed
    moreover have "zirsp_packets tr n zs = Inr ?pkts"
      using 3 le m cs(1) by (simp add: zirsp_packets_def Let_def size1 base)
    moreover have "concat (map zirsp_Zones ?pkts) = map (zone_tuple n) ?zs"
      by (simp add: comp_def pk cs(2))
    ultimately show ?thesis
      using c cs(3) k len by (intro exI [of _ ?pkts])
        (auto simp: zirsp_covers_def pk image_image zone_tuple_def NewExtendedZIRspPacket_def comp_def)
  qed
qed

lemma zirsp_all_ok:
  assumes "transport_ok tr" "set ns \<subseteq> fst ` set zl" "distinct ns"
    and "\<And>n zs. map_of zl n = Some zs \<Longrightarrow>
      (\<forall>z\<in>set zs. length z \<le> 127) \<and> card (set zs - {[]}) \<le> 65535"
  shows "\<exists>ps. zirsp_all tr zl ns = Inr (concat ps) \<and>
    list_all2 (\<lambda>n pkts. zirsp_covers n (set (the (map_of zl n)) - {[]}) pkts) ns ps"
  using assms(2,3)
proof (induction ns)
  case (Cons n ns)
  then obtain ps where ps: "zirsp_all tr zl ns = Inr (concat ps)"
    "list_all2 (\<lambda>n pkts. zirsp_covers n (set (the (map_of zl n)) - {[]}) pkts) ns ps"
    by auto
  obtain zs where zs: "map_of zl n = Some zs"
    using Cons.prems(1) weak_map_of_SomeI [of n _ zl] by fastforce
  obtain pkts where "zirsp_packets tr n zs = Inr pkts" "zirsp_covers n (set zs - {[]}) pkts"
    using zirsp_packets_ok [OF assms(1)] assms(4) [OF zs] by blast
  with ps zs show ?case
    by (intro exI [of _ "pkts # ps"]) simp
qed simp

lemma buildZIRsp_ok:
  assumes "transport_ok tr" "distinct (map fst zl)"
    and "\<And>n zs. (n, zs) \<in> set zl \<Longrightarrow>
      (\<forall>z\<in>set zs. length z \<le> 127) \<and> card (set zs - {[]}) \<le> 65535"
  shows "\<exists>ps. buildZIRspPackets tr zl = Inr (concat ps) \<and>
    list_all2 (\<lambda>n pkts. zirsp_covers n (set (the (map_of zl n)) - {[]}) pkts) (sort (map fst zl)) ps"
  unfolding buildZIRspPackets_def
  by (rule zirsp_all_ok [OF assms(1) _ _ assms(3) [OF map_of_SomeD]]) (simp_all add: assms(2))

end
