(* ===== verification/PeerState.thy ===== *)
theory PeerState
  imports Forwarding AurpZoneInfo
begin

text \<open>
  The state of an AURP peer and the operations its handlers share
  (\<open>src/router/aurp_peer.go\<close>): timers and limits, reconnect pacing, the chat log,
  sending, connection ID and sequence checks, and disconnecting.

  A handler runs on a world of one peer, the route table, and what left the
  router: the datagrams written to the UDP socket, the notifications for the
  other observers of the route table, and the loop investigations started.  Its
  result is an error or a value, with the world it leaves; \<open>None\<close> is a run that
  does not end, which the route table's loops over a range that ends at 65535
  cause.
\<close>

section \<open>State\<close>

datatype ReceiverState =
    ReceiverUnconnected
  | ReceiverConnected
  | ReceiverWaitForOpenRsp
  | ReceiverWaitForRIRsp
  | ReceiverWaitForTickleAck

record ChatLogEntry =
  cl_Packet :: Packet
  cl_Sent :: bool
  cl_Timestamp :: time

record pendingAURPZoneInfo =
  pz_total :: u16
  pz_zones :: "string list"
  pz_lastActivity :: time

record peer_counters =
  k_duplicateRoutingPackets :: "64 word"
  k_reacksSent :: "64 word"
  k_staleRoutingPackets :: "64 word"
  k_futureRoutingPackets :: "64 word"
  k_connectionIDMismatches :: "64 word"
  k_lateTickleAcks :: "64 word"
  k_senderRouterDowns :: "64 word"
  k_receiverRouterDowns :: "64 word"
  k_routerDownAcks :: "64 word"
  k_earlyRIUpdates :: "64 word"
  k_earlyRIUpdateAcks :: "64 word"
  k_extendedZIFragments :: "64 word"
  k_extendedZICompleted :: "64 word"
  k_zoneTuplesAccepted :: "64 word"
  k_zoneTuplesIgnored :: "64 word"
  k_loopIndicativeRoutes :: "64 word"
  k_hopCountWeightedPackets :: "64 word"
  k_confirmedRoutingLoops :: "64 word"
  k_ddpPacketsOut :: "64 word"
  k_ddpBytesOut :: "64 word"

text \<open>
  \<open>self\<close> is the identity of the peer among the observers of the route table.  A time that was
  never stored is the zero time.
\<close>

record AURPPeerSM = AURPPeerTx +
  self :: nat
  running :: bool
  rstate :: ReceiverState
  lastReconnect :: time
  lastHeardFrom :: time
  lastSend :: time
  lastUpdate :: time
  lastSuccess :: time
  sendRetries :: int
  reconnectFailures :: int
  nextReconnect :: time
  counters :: peer_counters
  loopDisabled :: bool
  chatLog :: "ChatLogEntry list"
  lastRISent :: "Packet option"
  restartProbe :: bool
  pendingZoneInfo :: "(network \<times> pendingAURPZoneInfo) list"

record peer_world =
  w_peer :: AURPPeerSM
  w_rt :: RouteTable
  w_sent :: "Packet list"
  w_notes :: "notification list"
  w_loops :: "(Route \<times> Route) list"

text \<open>
  What a handler takes from outside: the clock, \<open>rand.Int64N\<close>, and the error of a UDP write, if
  any, given the packets written so far, the last one included.
\<close>

record peer_env =
  env_now :: time
  env_rand :: "int \<Rightarrow> int"
  env_udp :: "Packet list \<Rightarrow> string option"

definition time_IsZero :: "time \<Rightarrow> bool" where
  "time_IsZero t \<longleftrightarrow> t = 0"


section \<open>Handlers\<close>

datatype peer_error =
    ErrDropPacket
  | ErrWrite aurp_error
  | ErrUDP string
  | ErrChunk chunk_error
  | ErrZone zone_error
  | ErrRoute route_error
  | ErrReversed network network
  | ErrNonExtended network network
  | ErrZeroTotal network
  | ErrMixed network network
  | ErrTotalChanged network u16 u16
  | ErrTotalExceeded network u16
  | ErrNoChunks
  | ErrDDP ddp_error

type_synonym 'a act = "peer_world \<Rightarrow> ((peer_error + 'a) \<times> peer_world) option"

definition act_ret :: "'a \<Rightarrow> 'a act" where
  "act_ret x w = Some (Inr x, w)"

definition act_fail :: "peer_error \<Rightarrow> 'a act" where
  "act_fail e w = Some (Inl e, w)"

definition act_bind :: "'a act \<Rightarrow> ('a \<Rightarrow> 'b act) \<Rightarrow> 'b act" where
  "act_bind m f w =
     (case m w of None \<Rightarrow> None | Some (Inl e, w') \<Rightarrow> Some (Inl e, w') | Some (Inr x, w') \<Rightarrow> f x w')"

abbreviation act_seq :: "unit act \<Rightarrow> 'b act \<Rightarrow> 'b act" where
  "act_seq m k \<equiv> act_bind m (\<lambda>_. k)"

text \<open>An error that the caller handles: \<open>h\<close> runs on it.\<close>

definition act_catch :: "'a act \<Rightarrow> (peer_error \<Rightarrow> 'b act) \<Rightarrow> ('a \<Rightarrow> 'b act) \<Rightarrow> 'b act" where
  "act_catch m h f w =
     (case m w of None \<Rightarrow> None | Some (Inl e, w') \<Rightarrow> h e w' | Some (Inr x, w') \<Rightarrow> f x w')"

text \<open>
  \<open>if err := m; err != nil { if err == errDropPacket { return nil }; return err }\<close>, then \<open>k\<close>.
\<close>

definition dropping :: "unit act \<Rightarrow> unit act \<Rightarrow> unit act" where
  "dropping m k = act_catch m (\<lambda>e. if e = ErrDropPacket then act_ret () else act_fail e) (\<lambda>_. k)"

text \<open>An error that is only logged.\<close>

definition ignoring :: "unit act \<Rightarrow> unit act" where
  "ignoring m = act_catch m (\<lambda>_. act_ret ()) act_ret"

definition with_peer :: "(AURPPeerSM \<Rightarrow> 'a act) \<Rightarrow> 'a act" where
  "with_peer f w = f (w_peer w) w"

definition with_table :: "(RouteTable \<Rightarrow> 'a act) \<Rightarrow> 'a act" where
  "with_table f w = f (w_rt w) w"

definition upd_peer :: "(AURPPeerSM \<Rightarrow> AURPPeerSM) \<Rightarrow> unit act" where
  "upd_peer f w = Some (Inr (), w\<lparr>w_peer := f (w_peer w)\<rparr>)"

definition upd_table :: "(RouteTable \<Rightarrow> RouteTable) \<Rightarrow> unit act" where
  "upd_table f w = Some (Inr (), w\<lparr>w_rt := f (w_rt w)\<rparr>)"

definition count :: "(peer_counters \<Rightarrow> peer_counters) \<Rightarrow> unit act" where
  "count f = upd_peer (\<lambda>p. p\<lparr>counters := f (counters p)\<rparr>)"

text \<open>
  A call of the route table.  The notifications it makes for this peer queue changes in the peer;
  the others leave the world.
\<close>

fun notified :: "notification \<Rightarrow> nat" where
  "notified (NetworkAdded o' _) = o'"
| "notified (NetworkDeleted o' _) = o'"
| "notified (BestNetworkChanged o' _ _) = o'"

definition deliver :: "notification \<Rightarrow> peer_world \<Rightarrow> peer_world" where
  "deliver n w =
     (if notified n = self (w_peer w) then w\<lparr>w_peer := observe n (w_peer w)\<rparr>
      else w\<lparr>w_notes := w_notes w @ [n]\<rparr>)"

definition table_call :: "(RouteTable \<Rightarrow> ('a \<times> RouteTable \<times> notification list) option) \<Rightarrow> 'a act" where
  "table_call op w =
     (case op (w_rt w) of
        None \<Rightarrow> None
      | Some (x, rt', evs) \<Rightarrow> Some (Inr x, fold deliver evs (w\<lparr>w_rt := rt'\<rparr>)))"


section \<open>Timers and limits\<close>

abbreviation reconnectBackoffBase :: time where "reconnectBackoffBase \<equiv> 600 * Second"
abbreviation reconnectBackoffCap :: time where "reconnectBackoffCap \<equiv> 7200 * Second"
abbreviation reconnectJitterPct :: int where "reconnectJitterPct \<equiv> 10"
abbreviation tickleBeforeDataTime :: time where "tickleBeforeDataTime \<equiv> 120 * Second"
abbreviation chatLogLimit :: nat where "chatLogLimit \<equiv> 200"

definition lastHeardTimeout :: "'a AURPPeer_scheme \<Rightarrow> time" where
  "lastHeardTimeout p =
     (if LastHeardFromTimeout (timing p) > 0 then LastHeardFromTimeout (timing p) else lastHeardFromTimer)"

definition retryInterval :: "'a AURPPeer_scheme \<Rightarrow> time" where
  "retryInterval p = (if RetryInterval (timing p) > 0 then RetryInterval (timing p) else sendRetryTimer)"

definition routingRetryLimit :: "'a AURPPeer_scheme \<Rightarrow> int" where
  "routingRetryLimit p =
     (if SendRetryLimit (timing p) > 0 then SendRetryLimit (timing p) else sendRetryLimit)"

definition tickleRetriesLimit :: "'a AURPPeer_scheme \<Rightarrow> int" where
  "tickleRetriesLimit p =
     (if TickleRetryLimit (timing p) > 0 then TickleRetryLimit (timing p) else tickleRetryLimit)"

definition zoneInfoRetryInterval :: "'a AURPPeer_scheme \<Rightarrow> time" where
  "zoneInfoRetryInterval p =
     (if ZoneInfoRetryInterval (timing p) > 0 then ZoneInfoRetryInterval (timing p)
      else aurpZoneInfoRetryTimer)"

definition updateInterval :: "'a AURPPeer_scheme \<Rightarrow> time" where
  "updateInterval p = (if UpdateInterval (timing p) > 0 then UpdateInterval (timing p) else updateTimer)"

text \<open>The result is an \<open>int16\<close>; \<open>updateInterval\<close> is positive, so the quotient is not rounded up.\<close>

definition openResponseRate :: "'a AURPPeer_scheme \<Rightarrow> u16" where
  "openResponseRate p =
     (let units0 = updateInterval p div updateRateUnit;
          units1 = (if units0 < 1 then 1 else units0);
          units = (if units1 > 0x7fff then 0x7fff else units1)
      in of_int units)"

definition openResponseEnvironmentFlags :: "'a AURPPeer_scheme \<Rightarrow> u16" where
  "openResponseEnvironmentFlags p =
     (if hasRemapRuleForPeer p then RoutingFlagRemappingActive else 0) OR
     (if HopCountReduction (timing p) then RoutingFlagHopCountReduction else 0)"

definition needsTickleBeforeData :: "time \<Rightarrow> AURPPeerSM \<Rightarrow> bool" where
  "needsTickleBeforeData now p =
     (if lastHeardTimeout p \<le> tickleBeforeDataTime \<or> rstate p \<noteq> ReceiverConnected then False
      else if time_IsZero (lastHeardFrom p) \<or> now < lastHeardFrom p then False
      else now - lastHeardFrom p \<ge> tickleBeforeDataTime)"

text \<open>The loop doubles the delay until it reaches the cap or the number of failures.\<close>

function backoff_loop :: "int \<Rightarrow> time \<Rightarrow> int \<Rightarrow> time" where
  "backoff_loop i d failures =
     (if i < failures \<and> d < reconnectBackoffCap then
        let d2 = d * 2 in
        if d2 \<ge> reconnectBackoffCap then reconnectBackoffCap else backoff_loop (i + 1) d2 failures
      else d)"
  by pat_completeness auto
termination
  by (relation "measure (\<lambda>(i, d, failures). nat (failures - i))") auto

declare backoff_loop.simps [simp del]

definition reconnectBackoff :: "int \<Rightarrow> time" where
  "reconnectBackoff failures =
     (if failures \<le> 0 then 0
      else min (backoff_loop 1 reconnectBackoffBase failures) reconnectBackoffCap)"

definition jitterReconnectBackoff :: "(int \<Rightarrow> int) \<Rightarrow> time \<Rightarrow> time" where
  "jitterReconnectBackoff rand d =
     (if d \<le> 0 then 0
      else
        let span = d * reconnectJitterPct div 100 in
        if span \<le> 0 then d else d + (rand (2 * span + 1) - span))"

definition noteReconnectFailure :: "peer_env \<Rightarrow> AURPPeerSM \<Rightarrow> AURPPeerSM" where
  "noteReconnectFailure E p =
     (let failures = reconnectFailures p + 1;
          delay = jitterReconnectBackoff (env_rand E) (reconnectBackoff failures)
      in p\<lparr>reconnectFailures := failures, nextReconnect := env_now E + delay\<rparr>)"

definition resetReconnectBackoff :: "AURPPeerSM \<Rightarrow> AURPPeerSM" where
  "resetReconnectBackoff p = p\<lparr>reconnectFailures := 0, nextReconnect := 0\<rparr>"

definition reconnectReady :: "time \<Rightarrow> AURPPeerSM \<Rightarrow> bool" where
  "reconnectReady now p \<longleftrightarrow> time_IsZero (nextReconnect p) \<or> \<not> now < nextReconnect p"


section \<open>Sending\<close>

definition addToChatLog :: "time \<Rightarrow> Packet \<Rightarrow> bool \<Rightarrow> AURPPeerSM \<Rightarrow> AURPPeerSM" where
  "addToChatLog now pkt sent p =
     (let cl = chatLog p @ [\<lparr>cl_Packet = pkt, cl_Sent = sent, cl_Timestamp = now\<rparr>]
      in p\<lparr>chatLog := drop (length cl - chatLogLimit) cl\<rparr>)"

definition send :: "peer_env \<Rightarrow> Packet \<Rightarrow> unit act" where
  "send E pkt =
     act_seq (if AURPHeader pkt \<noteq> None then upd_peer (addToChatLog (env_now E) pkt True) else act_ret ())
       (case encode (Packet_WriteTo pkt) of
          Inl e \<Rightarrow> act_fail (ErrWrite e)
        | Inr b \<Rightarrow>
            act_seq (upd_peer (\<lambda>p. p\<lparr>lastSend := env_now E\<rparr>))
              (\<lambda>w. case env_udp E (w_sent w @ [pkt]) of
                     Some e \<Rightarrow> Some (Inl (ErrUDP e), w\<lparr>w_sent := w_sent w @ [pkt]\<rparr>)
                   | None \<Rightarrow> Some (Inr (), w\<lparr>w_sent := w_sent w @ [pkt]\<rparr>)))"

text \<open>A packet built from the transport as it is now.\<close>

definition send_new :: "peer_env \<Rightarrow> (Transport \<Rightarrow> Packet) \<Rightarrow> unit act" where
  "send_new E new = with_peer (\<lambda>p. send E (new (p_Transport p)))"

definition upd_transport :: "(Transport \<Rightarrow> Transport) \<Rightarrow> unit act" where
  "upd_transport f = upd_peer (\<lambda>p. p\<lparr>p_Transport := f (p_Transport p)\<rparr>)"

definition setRState :: "ReceiverState \<Rightarrow> unit act" where
  "setRState rs = upd_peer (\<lambda>p. p\<lparr>rstate := rs\<rparr>)"

definition setSState :: "SenderState \<Rightarrow> unit act" where
  "setSState ss = upd_peer (\<lambda>p. p\<lparr>sstate := ss\<rparr>)"

definition setSendRetries :: "int \<Rightarrow> unit act" where
  "setSendRetries n = upd_peer (\<lambda>p. p\<lparr>sendRetries := n\<rparr>)"

definition addSendRetry :: "unit act" where
  "addSendRetry = upd_peer (\<lambda>p. p\<lparr>sendRetries := sendRetries p + 1\<rparr>)"

definition storeLastSend :: "peer_env \<Rightarrow> unit act" where
  "storeLastSend E = upd_peer (\<lambda>p. p\<lparr>lastSend := env_now E\<rparr>)"

definition markReceiverAlive :: "peer_env \<Rightarrow> unit act" where
  "markReceiverAlive E = upd_peer (\<lambda>p. p\<lparr>lastHeardFrom := env_now E\<rparr>)"

definition sendTickleBeforeDataIfNeeded :: "peer_env \<Rightarrow> unit act" where
  "sendTickleBeforeDataIfNeeded E =
     with_peer (\<lambda>p.
       if \<not> needsTickleBeforeData (env_now E) p then act_ret ()
       else
         act_seq (send_new E (\<lambda>tr. PTickle (NewTicklePacket tr)))
         (act_seq (setSendRetries 0)
         (setRState ReceiverWaitForTickleAck)))"


section \<open>Disconnecting\<close>

definition table_DeleteTarget :: "peer_env \<Rightarrow> unit act" where
  "table_DeleteTarget E =
     with_peer (\<lambda>p. table_call (\<lambda>rt.
       case DeleteTarget (env_now E) (peer_target p) rt of
         None \<Rightarrow> None | Some (rt', evs) \<Rightarrow> Some ((), rt', evs)))"

definition disconnectReceiver :: "peer_env \<Rightarrow> unit act" where
  "disconnectReceiver E =
     act_seq (table_DeleteTarget E)
     (act_seq (upd_transport (\<lambda>tr. IncLocalConnID (ResetRemoteSeq tr)))
     (act_seq (upd_peer (\<lambda>p. p\<lparr>pendingZoneInfo := []\<rparr>))
     (setRState ReceiverUnconnected)))"

definition disconnectSender :: "unit act" where
  "disconnectSender =
     act_seq (upd_transport (\<lambda>tr. SetRemoteConnID 0 (ResetLocalSeq tr)))
     (upd_peer (\<lambda>p. p\<lparr>pendingRIRsp := [], pendingRIUpd := [], lastRISent := None,
        restartProbe := False, pendingEvents := [], sstate := SenderUnconnected\<rparr>))"

definition disconnect :: "peer_env \<Rightarrow> unit act" where
  "disconnect E = act_seq (disconnectReceiver E) disconnectSender"

definition table_AddObserver :: "unit act" where
  "table_AddObserver = with_peer (\<lambda>p. upd_table (AddObserver (self p)))"

definition table_RemoveObserver :: "unit act" where
  "table_RemoveObserver = with_peer (\<lambda>p. upd_table (RemoveObserver (self p)))"


section \<open>Checks\<close>

definition checkLocalConnID :: "TrHeader \<Rightarrow> unit act" where
  "checkLocalConnID th =
     with_peer (\<lambda>p.
       if ConnectionID th \<noteq> tr_localConnID (p_Transport p)
       then act_seq (count (\<lambda>k. k\<lparr>k_connectionIDMismatches := k_connectionIDMismatches k + 1\<rparr>))
              (act_fail ErrDropPacket)
       else act_ret ())"

definition checkRemoteConnID :: "TrHeader \<Rightarrow> unit act" where
  "checkRemoteConnID th =
     with_peer (\<lambda>p.
       let want = tr_remoteConnID (p_Transport p) in
       if want = 0 then act_ret ()
       else if ConnectionID th \<noteq> want
       then act_seq (count (\<lambda>k. k\<lparr>k_connectionIDMismatches := k_connectionIDMismatches k + 1\<rparr>))
              (act_fail ErrDropPacket)
       else act_ret ())"

definition checkRemoteSeqWithAckFlags :: "peer_env \<Rightarrow> TrHeader \<Rightarrow> u16 \<Rightarrow> unit act" where
  "checkRemoteSeqWithAckFlags E th duplicateAckFlags =
     with_peer (\<lambda>p.
       let got = Sequence th; want = tr_remoteSeq (p_Transport p) in
       if got = Pred want then
         act_seq (count (\<lambda>k. k\<lparr>k_duplicateRoutingPackets := k_duplicateRoutingPackets k + 1\<rparr>))
         (act_seq (send_new E (\<lambda>tr. PRIAck (NewRIAckPacket tr (ConnectionID th) (Sequence th) duplicateAckFlags)))
         (act_seq (count (\<lambda>k. k\<lparr>k_reacksSent := k_reacksSent k + 1\<rparr>))
         (act_fail ErrDropPacket)))
       else if got = want then act_ret ()
       else if got = Succ want then
         act_seq (count (\<lambda>k. k\<lparr>k_futureRoutingPackets := k_futureRoutingPackets k + 1\<rparr>))
         (act_seq (disconnectReceiver E)
         (act_fail ErrDropPacket))
       else
         act_seq (count (\<lambda>k. k\<lparr>k_staleRoutingPackets := k_staleRoutingPackets k + 1\<rparr>))
         (act_fail ErrDropPacket))"

definition checkRemoteSeq :: "peer_env \<Rightarrow> TrHeader \<Rightarrow> unit act" where
  "checkRemoteSeq E th = checkRemoteSeqWithAckFlags E th RoutingFlagSendZoneInfo"

end
