(* ===== verification/ZoneExchange.thy ===== *)
theory ZoneExchange
  imports PeerState
begin

text \<open>
  The zone information a peer asks for and assembles (\<open>src/router/aurp_zone.go\<close>):
  the networks whose zones are awaited, requests that are repeated, answers that
  replace the zone list of a network, extended answers assembled from fragments,
  and the comparison with local networks that starts a loop investigation.

  \<open>ReplaceZonesForNetwork\<close> has no error to return, and the peer's route table and
  router are set.
\<close>

section \<open>Networks whose zones are awaited\<close>

definition markZoneInfoPending :: "peer_env \<Rightarrow> network \<Rightarrow> unit act" where
  "markZoneInfoPending E network =
     upd_peer (\<lambda>p.
       case map_of (pendingZoneInfo p) network of
         Some _ \<Rightarrow> p
       | None \<Rightarrow> p\<lparr>pendingZoneInfo := AList.update network
                  \<lparr>pz_total = 0, pz_zones = [], pz_lastActivity = env_now E\<rparr> (pendingZoneInfo p)\<rparr>)"

definition clearPendingZoneInfo :: "network \<Rightarrow> unit act" where
  "clearPendingZoneInfo network =
     upd_peer (\<lambda>p. p\<lparr>pendingZoneInfo := AList.delete network (pendingZoneInfo p)\<rparr>)"

definition ownsAURPNetwork :: "AURPPeerSM \<Rightarrow> RouteTable \<Rightarrow> network \<Rightarrow> bool" where
  "ownsAURPNetwork p rt network \<longleftrightarrow> \<not> Route_Zero (find_route (peer_target p) network rt)"

definition needsZoneInfo :: "AURPPeerSM \<Rightarrow> RouteTable \<Rightarrow> network \<Rightarrow> bool" where
  "needsZoneInfo p rt network \<longleftrightarrow>
     (let route = find_route (peer_target p) network rt in
      \<not> Route_Zero route \<and> Route_ZoneNames rt route = [])"

fun send_all :: "peer_env \<Rightarrow> Packet list \<Rightarrow> unit act" where
  "send_all E [] = act_ret ()"
| "send_all E (pkt # pkts) = act_seq (send E pkt) (send_all E pkts)"

text \<open>A pending entry is due when it never had activity, or none within the retry interval.\<close>

definition zone_info_due :: "time \<Rightarrow> AURPPeerSM \<Rightarrow> pendingAURPZoneInfo \<Rightarrow> bool" where
  "zone_info_due now p pending \<longleftrightarrow>
     \<not> (\<not> time_IsZero (pz_lastActivity pending) \<and>
        now - pz_lastActivity pending < zoneInfoRetryInterval p)"

definition touch_pending :: "time \<Rightarrow> network list \<Rightarrow> AURPPeerSM \<Rightarrow> AURPPeerSM" where
  "touch_pending now networks p =
     p\<lparr>pendingZoneInfo := map (\<lambda>(n, pending).
        (n, if n \<in> set networks then pending\<lparr>pz_lastActivity := now\<rparr> else pending)) (pendingZoneInfo p)\<rparr>"

definition retryIncompleteZoneInfo :: "peer_env \<Rightarrow> unit act" where
  "retryIncompleteZoneInfo E =
     with_table (\<lambda>rt.
     act_seq (upd_peer (\<lambda>p. p\<lparr>pendingZoneInfo := filter (\<lambda>(n, _). ownsAURPNetwork p rt n) (pendingZoneInfo p)\<rparr>))
     (with_peer (\<lambda>p.
       let localNetworks = map fst (filter (\<lambda>(_, pending). zone_info_due (env_now E) p pending) (pendingZoneInfo p));
           networks = map (\<lambda>n. fst (remapOutboundNetwork p n)) localNetworks in
       if networks = [] then act_ret ()
       else
         case buildZIReqPackets (p_Transport p) networks of
           Inl e \<Rightarrow> act_fail (ErrZone e)
         | Inr packets \<Rightarrow>
             act_seq (send_all E (map PZIReq packets))
               (upd_peer (touch_pending (env_now E) localNetworks)))))"

definition sendZIRspPackets :: "peer_env \<Rightarrow> (network \<times> string list) list \<Rightarrow> unit act" where
  "sendZIRspPackets E zoneLists =
     with_peer (\<lambda>p.
       case buildZIRspPackets (p_Transport p) zoneLists of
         Inl e \<Rightarrow> act_fail (ErrZone e)
       | Inr packets \<Rightarrow> send_all E (map PZIRsp packets))"


section \<open>Networks that look like a local one\<close>

definition routeRangeSize :: "Route \<Rightarrow> 32 word" where
  "routeRangeSize route =
     (if Route_Zero route \<or> r_NetEnd route < r_NetStart route then 0
      else ucast (r_NetEnd route) - ucast (r_NetStart route) + 1)"

definition loopIndicativeMatch ::
  "time \<Rightarrow> AURPPeerSM \<Rightarrow> RouteTable \<Rightarrow> network \<Rightarrow> (Route \<times> Route) option" where
  "loopIndicativeMatch now p rt network =
     (let remote = find_route (peer_target p) network rt in
      if Route_Zero remote \<or> routeRangeSize remote = 0 then None
      else
        let remoteZones = dedupeSortedZones (Route_ZoneNames rt remote) in
        if remoteZones = [] then None
        else
          case find (\<lambda>local_route. routeRangeSize local_route = routeRangeSize remote \<and>
                       dedupeSortedZones (Route_ZoneNames rt local_route) = remoteZones)
                 (ValidRoutesForClass now TargetClassDirect rt) of
            None \<Rightarrow> None
          | Some local_route \<Rightarrow> Some (remote, local_route))"

definition loopIndicativeNetwork :: "time \<Rightarrow> AURPPeerSM \<Rightarrow> RouteTable \<Rightarrow> network \<Rightarrow> bool" where
  "loopIndicativeNetwork now p rt network \<longleftrightarrow> loopIndicativeMatch now p rt network \<noteq> None"

definition noteLoopIndicativeNetwork :: "peer_env \<Rightarrow> network \<Rightarrow> unit act" where
  "noteLoopIndicativeNetwork E network =
     with_table (\<lambda>rt. with_peer (\<lambda>p.
       case loopIndicativeMatch (env_now E) p rt network of
         None \<Rightarrow> act_ret ()
       | Some (remote, local_route) \<Rightarrow>
           act_seq (count (\<lambda>k. k\<lparr>k_loopIndicativeRoutes := k_loopIndicativeRoutes k + 1\<rparr>))
             (\<lambda>w. Some (Inr (), w\<lparr>w_loops := w_loops w @ [(remote, local_route)]\<rparr>))))"


section \<open>Answers\<close>

definition replaceZones :: "peer_env \<Rightarrow> network \<Rightarrow> string list \<Rightarrow> unit act" where
  "replaceZones E network zones =
     table_call (\<lambda>rt. case ReplaceZonesForNetwork (env_now E) network zones rt of
                        (rt', evs) \<Rightarrow> Some ((), rt', evs))"

text \<open>The first loop: the names for each owned network, and the number of tuples ignored.\<close>

fun group_zones ::
  "AURPPeerSM \<Rightarrow> RouteTable \<Rightarrow> ZoneTuples \<Rightarrow> (network \<times> string list) list \<times> nat \<Rightarrow>
   (network \<times> string list) list \<times> nat" where
  "group_zones p rt [] (grouped, ignored) = (grouped, ignored)"
| "group_zones p rt (zt # zts) (grouped, ignored) =
     (let network = fst (remapInboundNetwork p (zt_Network zt)) in
      if \<not> ownsAURPNetwork p rt network then group_zones p rt zts (grouped, ignored + 1)
      else group_zones p rt zts
        (AList.update network
           ((case map_of grouped network of Some zs \<Rightarrow> zs | None \<Rightarrow> []) @ [zt_Name zt]) grouped, ignored))"

fun apply_groups :: "peer_env \<Rightarrow> (network \<times> string list) list \<Rightarrow> nat \<Rightarrow> nat act" where
  "apply_groups E [] naccepted = act_ret naccepted"
| "apply_groups E ((network, zones) # groups) naccepted =
     act_seq (replaceZones E network (dedupeSortedZones zones))
     (act_seq (clearPendingZoneInfo network)
     (act_seq (noteLoopIndicativeNetwork E network)
     (apply_groups E groups (naccepted + length zones))))"

definition applyNonExtendedZIRsp :: "peer_env \<Rightarrow> ZIRspPacket \<Rightarrow> (nat \<times> nat) act" where
  "applyNonExtendedZIRsp E pkt =
     with_table (\<lambda>rt. with_peer (\<lambda>p.
       case group_zones p rt (zirsp_Zones pkt) ([], 0) of
         (grouped, ignored) \<Rightarrow>
           act_bind (apply_groups E grouped 0) (\<lambda>naccepted. act_ret (naccepted, ignored))))"

text \<open>The assembly of a network after a fragment: new, or the retained one with its total.\<close>

definition merge_fragment ::
  "time \<Rightarrow> ZIRspPacket \<Rightarrow> pendingAURPZoneInfo option \<Rightarrow> pendingAURPZoneInfo" where
  "merge_fragment now pkt old =
     (let pending = (case old of
            None \<Rightarrow> \<lparr>pz_total = zirsp_TotalTuples pkt, pz_zones = [], pz_lastActivity = now\<rparr>
          | Some q \<Rightarrow> q\<lparr>pz_total := (if pz_total q = 0 then zirsp_TotalTuples pkt else pz_total q),
                        pz_lastActivity := now\<rparr>)
      in pending\<lparr>pz_zones := fold (\<lambda>zt zs. if zt_Name zt \<noteq> [] then List.insert (zt_Name zt) zs else zs)
           (zirsp_Zones pkt) (pz_zones pending)\<rparr>)"

text \<open>What is done with the assembly: refused, kept, or stored.\<close>

definition completeZoneInfo :: "peer_env \<Rightarrow> network \<Rightarrow> pendingAURPZoneInfo \<Rightarrow> (bool \<times> network) act" where
  "completeZoneInfo E network pending =
     (if length (pz_zones pending) > unat (pz_total pending)
      then act_seq (clearPendingZoneInfo network)
             (act_fail (ErrTotalExceeded network (pz_total pending)))
      else if length (pz_zones pending) < unat (pz_total pending)
      then act_ret (False, network)
      else
        act_seq (replaceZones E network (sort (pz_zones pending)))
        (act_seq (clearPendingZoneInfo network)
        (act_seq (noteLoopIndicativeNetwork E network)
        (act_ret (True, network)))))"

definition applyExtendedZIRsp :: "peer_env \<Rightarrow> ZIRspPacket \<Rightarrow> (bool \<times> network) act" where
  "applyExtendedZIRsp E pkt =
     (if zirsp_Zones pkt = [] then act_ret (False, 0)
      else with_table (\<lambda>rt. with_peer (\<lambda>p.
        let network = fst (remapInboundNetwork p (zt_Network (hd (zirsp_Zones pkt)))) in
        if \<not> ownsAURPNetwork p rt network then act_ret (False, network)
        else if zirsp_TotalTuples pkt = 0 then act_fail (ErrZeroTotal network)
        else
          case find (\<lambda>zt. fst (remapInboundNetwork p (zt_Network zt)) \<noteq> network) (zirsp_Zones pkt) of
            Some zt \<Rightarrow> act_fail (ErrMixed network (fst (remapInboundNetwork p (zt_Network zt))))
          | None \<Rightarrow>
              let old = map_of (pendingZoneInfo p) network in
              if (case old of None \<Rightarrow> False
                  | Some q \<Rightarrow> pz_total q \<noteq> 0 \<and> pz_total q \<noteq> zirsp_TotalTuples pkt)
              then act_fail (ErrTotalChanged network (pz_total (the old)) (zirsp_TotalTuples pkt))
              else
                let pending = merge_fragment (env_now E) pkt old in
                act_seq (upd_peer (\<lambda>p. p\<lparr>pendingZoneInfo :=
                           AList.update network pending (pendingZoneInfo p)\<rparr>))
                (completeZoneInfo E network pending))))"

end
