(* ===== verification/PeerReceiver.thy ===== *)
theory PeerReceiver
  imports ZoneExchange
begin

text \<open>
  The handlers of an AURP peer as the data receiver (\<open>src/router/aurp_peer.go\<close>):
  Open-Rsp, RI-Rsp, RI-Upd, Router Down from the sender, zone information and
  Tickle-Ack.
\<close>

section \<open>Routes from tuples\<close>

definition validateAURPRouteTuple :: "bool \<Rightarrow> network \<Rightarrow> network \<Rightarrow> unit act" where
  "validateAURPRouteTuple extended start end' =
     (if start > end' then act_fail (ErrReversed start end')
      else if \<not> extended \<and> start \<noteq> end' then act_fail (ErrNonExtended start end')
      else act_ret ())"

text \<open>The route table's operations for the peer, their errors as errors of the handler.\<close>

definition table_UpsertRoute :: "peer_env \<Rightarrow> bool \<Rightarrow> network \<Rightarrow> network \<Rightarrow> byte \<Rightarrow> unit act" where
  "table_UpsertRoute E extended netStart netEnd distance =
     with_peer (\<lambda>p.
     act_bind (table_call (UpsertRoute (env_now E) (peer_target p) extended netStart netEnd distance))
       (\<lambda>res. case res of Inl e \<Rightarrow> act_fail (ErrRoute e) | Inr _ \<Rightarrow> act_ret ()))"

definition table_DeleteRoute :: "peer_env \<Rightarrow> network \<Rightarrow> unit act" where
  "table_DeleteRoute E netStart =
     with_peer (\<lambda>p.
     act_bind (table_call (DeleteRoute (env_now E) (peer_target p) netStart))
       (\<lambda>err. case err of Some e \<Rightarrow> act_fail (ErrRoute e) | None \<Rightarrow> act_ret ()))"

definition table_UpdateDistance :: "peer_env \<Rightarrow> network \<Rightarrow> byte \<Rightarrow> unit act" where
  "table_UpdateDistance E netStart distance =
     with_peer (\<lambda>p.
     act_bind (table_call (UpdateDistance (env_now E) (peer_target p) netStart distance))
       (\<lambda>err. case err of Some e \<Rightarrow> act_fail (ErrRoute e) | None \<Rightarrow> act_ret ()))"

definition ask_needsZoneInfo :: "network \<Rightarrow> bool act" where
  "ask_needsZoneInfo network = with_table (\<lambda>rt. with_peer (\<lambda>p. act_ret (needsZoneInfo p rt network)))"

definition applyRIRspNetworkTuple :: "peer_env \<Rightarrow> NetworkTuple \<Rightarrow> bool act" where
  "applyRIRspNetworkTuple E nt0 =
     act_seq (validateAURPRouteTuple (nt_Extended nt0) (nt_RangeStart nt0) (nt_RangeEnd nt0))
     (with_peer (\<lambda>p.
       if importRangeHidden p (nt_RangeStart nt0) (nt_RangeEnd nt0) then act_ret False
       else
         let nt = remapInboundNetworkTuple p nt0 in
         case weightedAURPDistance p (nt_Distance nt) of
           (distance, reachable) \<Rightarrow>
             if \<not> reachable then act_ret False
             else
               act_seq (table_UpsertRoute E (nt_Extended nt) (nt_RangeStart nt) (nt_RangeEnd nt) distance)
                 (act_ret True)))"

text \<open>The event codes \<open>ND\<close> and \<open>NRC\<close>, and a distance of 15, remove the route if it is there.\<close>

definition removeIfPresent :: "peer_env \<Rightarrow> network \<Rightarrow> bool act" where
  "removeIfPresent E netStart =
     with_table (\<lambda>rt. with_peer (\<lambda>p.
       if Route_Zero (find_route (peer_target p) netStart rt)
       then act_seq (clearPendingZoneInfo netStart) (act_ret False)
       else act_seq (clearPendingZoneInfo netStart)
              (act_seq (table_DeleteRoute E netStart) (act_ret False))))"

definition upsertEvent :: "peer_env \<Rightarrow> EventTuple \<Rightarrow> byte \<Rightarrow> bool act" where
  "upsertEvent E et distance =
     act_seq (table_UpsertRoute E (et_Extended et) (et_RangeStart et) (et_RangeEnd et) distance)
       (ask_needsZoneInfo (et_RangeStart et))"

text \<open>The case of a distance change, after the checks.\<close>

definition applyNDC :: "peer_env \<Rightarrow> AURPPeerSM \<Rightarrow> EventTuple \<Rightarrow> bool act" where
  "applyNDC E p et =
     with_table (\<lambda>rt.
       let existing = find_route (peer_target p) (et_RangeStart et) rt in
       if et_Distance et \<ge> maxRouteDistance then removeIfPresent E (et_RangeStart et)
       else
         case weightedAURPDistance p (et_Distance et) of
           (distance, reachable) \<Rightarrow>
             if \<not> reachable then removeIfPresent E (et_RangeStart et)
             else if Route_Zero existing then upsertEvent E et distance
             else if r_Extended existing \<noteq> et_Extended et \<or> r_NetEnd existing \<noteq> et_RangeEnd et
             then upsertEvent E et distance
             else act_seq (table_UpdateDistance E (et_RangeStart et) distance) (act_ret False))"

definition applyRIUpdEvent :: "peer_env \<Rightarrow> EventTuple \<Rightarrow> bool act" where
  "applyRIUpdEvent E et0 =
     with_peer (\<lambda>p.
     let code = et_EventCode et0 in
     if (code = EventCodeNA \<or> code = EventCodeNDC) \<and> importRangeHidden p (et_RangeStart et0) (et_RangeEnd et0) \<or>
        (code = EventCodeND \<or> code = EventCodeNRC) \<and> importNetworkHidden p (et_RangeStart et0)
     then act_ret False
     else
       let et = remapInboundEvent p et0 in
       act_seq (if code = EventCodeNA \<or> code = EventCodeNDC
                then validateAURPRouteTuple (et_Extended et) (et_RangeStart et) (et_RangeEnd et)
                else act_ret ())
       (if code = EventCodeNull \<or> code = EventCodeZC then act_ret False
        else if code = EventCodeNA then
          (case weightedAURPDistance p (et_Distance et) of
             (distance, reachable) \<Rightarrow> if \<not> reachable then act_ret False else upsertEvent E et distance)
        else if code = EventCodeND \<or> code = EventCodeNRC then removeIfPresent E (et_RangeStart et)
        else if code = EventCodeNDC then applyNDC E p et
        else act_ret False))"


section \<open>Handlers\<close>

definition handleOpenRsp :: "peer_env \<Rightarrow> OpenRspPacket \<Rightarrow> unit act" where
  "handleOpenRsp E pkt =
     dropping (checkLocalConnID (HTrHeader (orsp_Header pkt)))
     (if sint (orsp_RateOrErrCode pkt) < 0 then
        act_seq (disconnectReceiver E) (upd_peer (noteReconnectFailure E))
      else
        act_seq (setRState ReceiverConnected)
        (act_seq (setSendRetries 0)
        (act_seq (send_new E (\<lambda>tr. PRIReq (NewRIReqPacket tr)))
        (act_seq (setRState ReceiverWaitForRIRsp)
        (upd_transport ResetRemoteSeq)))))"

text \<open>
  The loop of \<open>handleRIRsp\<close>.  After the tuple was applied, the zone information is looked up under
  the number in the packet, which is not the number of the route when the network was remapped.
\<close>

fun apply_networks :: "peer_env \<Rightarrow> NetworkTuples \<Rightarrow> u16 \<Rightarrow> u16 act" where
  "apply_networks E [] ackFlag = act_ret ackFlag"
| "apply_networks E (nt # nts) ackFlag =
     act_catch (applyRIRspNetworkTuple E nt)
       (\<lambda>_. apply_networks E nts ackFlag)
       (\<lambda>acc. if \<not> acc then apply_networks E nts ackFlag
              else act_bind (ask_needsZoneInfo (nt_RangeStart nt)) (\<lambda>need.
                if need then
                  act_seq (markZoneInfoPending E (nt_RangeStart nt))
                    (apply_networks E nts RoutingFlagSendZoneInfo)
                else
                  act_seq (clearPendingZoneInfo (nt_RangeStart nt))
                    (apply_networks E nts ackFlag)))"

definition sendRIAck :: "peer_env \<Rightarrow> TrHeader \<Rightarrow> u16 \<Rightarrow> unit act" where
  "sendRIAck E th flags =
     send_new E (\<lambda>tr. PRIAck (NewRIAckPacket tr (ConnectionID th) (Sequence th) flags))"

text \<open>What follows the checks of \<open>handleRIRsp\<close>.\<close>

definition acceptRIRsp :: "peer_env \<Rightarrow> RIRspPacket \<Rightarrow> unit act" where
  "acceptRIRsp E pkt =
     act_bind (apply_networks E (rirsp_Networks pkt) 0) (\<lambda>ackFlag.
     act_seq (sendRIAck E (HTrHeader (rirsp_Header pkt)) ackFlag)
     (act_seq (if Flags (rirsp_Header pkt) AND RoutingFlagLast \<noteq> 0
               then act_seq (setRState ReceiverConnected)
                      (upd_peer (\<lambda>p. resetReconnectBackoff (p\<lparr>lastSuccess := env_now E\<rparr>)))
               else act_ret ())
     (upd_transport IncRemoteSeq)))"

definition handleRIRsp :: "peer_env \<Rightarrow> RIRspPacket \<Rightarrow> unit act" where
  "handleRIRsp E pkt =
     dropping (checkLocalConnID (HTrHeader (rirsp_Header pkt)))
     (act_seq (markReceiverAlive E)
     (dropping (checkRemoteSeq E (HTrHeader (rirsp_Header pkt)))
     (acceptRIRsp E pkt)))"

fun apply_events :: "peer_env \<Rightarrow> EventTuples \<Rightarrow> u16 \<Rightarrow> u16 act" where
  "apply_events E [] ackFlag = act_ret ackFlag"
| "apply_events E (et # ets) ackFlag =
     act_catch (applyRIUpdEvent E et)
       (\<lambda>_. apply_events E ets ackFlag)
       (\<lambda>needZoneInfo.
          if needZoneInfo then
            act_seq (markZoneInfoPending E (et_RangeStart et))
              (apply_events E ets RoutingFlagSendZoneInfo)
          else if et_EventCode et = EventCodeNA \<or> et_EventCode et = EventCodeNDC then
            act_seq (clearPendingZoneInfo (et_RangeStart et)) (apply_events E ets ackFlag)
          else apply_events E ets ackFlag)"

definition countEarly :: "unit act" where
  "countEarly = count (\<lambda>k. k\<lparr>k_earlyRIUpdates := k_earlyRIUpdates k + 1\<rparr>)"

text \<open>
  The cases of \<open>handleRIUpd\<close>: an update on a connection that is ready, one that arrives while the
  routing table is being read, and one that arrives before the connection is open.
\<close>

definition acceptRIUpd :: "peer_env \<Rightarrow> RIUpdPacket \<Rightarrow> unit act" where
  "acceptRIUpd E pkt =
     act_bind (apply_events E (riupd_Events pkt) 0) (\<lambda>ackFlag.
     act_seq (sendRIAck E (HTrHeader (riupd_Header pkt)) ackFlag)
     (upd_transport IncRemoteSeq))"

definition skipEarlyRIUpd :: "peer_env \<Rightarrow> RIUpdPacket \<Rightarrow> unit act" where
  "skipEarlyRIUpd E pkt =
     act_seq (sendRIAck E (HTrHeader (riupd_Header pkt)) 0)
     (act_seq (count (\<lambda>k. k\<lparr>k_earlyRIUpdateAcks := k_earlyRIUpdateAcks k + 1\<rparr>))
     (act_seq (upd_transport IncRemoteSeq)
     (act_seq (setSendRetries 0)
     (act_seq (send_new E (\<lambda>tr. PRIReq (NewRIReqPacket tr)))
     (storeLastSend E)))))"

definition resyncReceiver :: "peer_env \<Rightarrow> unit act" where
  "resyncReceiver E =
     act_seq (ignoring (send_new E (\<lambda>tr. PRIReq (NewRIReqPacket tr))))
     (act_seq (setRState ReceiverWaitForRIRsp)
     (act_seq (upd_transport ResetRemoteSeq)
     (act_seq (setSendRetries 0)
     (storeLastSend E))))"

definition handleRIUpd :: "peer_env \<Rightarrow> RIUpdPacket \<Rightarrow> unit act" where
  "handleRIUpd E pkt =
     dropping (checkLocalConnID (HTrHeader (riupd_Header pkt)))
     (act_seq (markReceiverAlive E)
     (with_peer (\<lambda>p.
       case rstate p of
         ReceiverConnected \<Rightarrow>
           dropping (checkRemoteSeq E (HTrHeader (riupd_Header pkt))) (acceptRIUpd E pkt)
       | ReceiverWaitForTickleAck \<Rightarrow>
           act_seq (setRState ReceiverConnected)
             (dropping (checkRemoteSeq E (HTrHeader (riupd_Header pkt))) (acceptRIUpd E pkt))
       | ReceiverWaitForRIRsp \<Rightarrow>
           act_seq countEarly
             (dropping (checkRemoteSeq E (HTrHeader (riupd_Header pkt))) (skipEarlyRIUpd E pkt))
       | _ \<Rightarrow> act_seq countEarly (resyncReceiver E))))"

text \<open>
  A Router Down packet with sequence number 0 comes from the peer as data receiver and closes the
  sender connection; any other is sequenced and closes the receiver connection.
\<close>

definition handleRD :: "peer_env \<Rightarrow> RDPacket \<Rightarrow> unit act" where
  "handleRD E pkt =
     (let th = HTrHeader (rd_Header pkt) in
      if Sequence th = 0 then
        act_seq (count (\<lambda>k. k\<lparr>k_receiverRouterDowns := k_receiverRouterDowns k + 1\<rparr>))
        (dropping (checkRemoteConnID th)
        (act_seq table_RemoveObserver disconnectSender))
      else
        act_seq (count (\<lambda>k. k\<lparr>k_senderRouterDowns := k_senderRouterDowns k + 1\<rparr>))
        (dropping (checkLocalConnID th)
        (dropping (checkRemoteSeqWithAckFlags E th 0)
        (act_seq (markReceiverAlive E)
        (act_seq (sendRIAck E th 0)
        (act_seq (count (\<lambda>k. k\<lparr>k_routerDownAcks := k_routerDownAcks k + 1\<rparr>))
        (act_seq (upd_transport IncRemoteSeq)
        (disconnectReceiver E))))))))"

definition handleZIRsp :: "peer_env \<Rightarrow> ZIRspPacket \<Rightarrow> unit act" where
  "handleZIRsp E pkt =
     dropping (checkLocalConnID (HTrHeader (zirsp_Header pkt)))
     (act_seq (markReceiverAlive E)
     (if zirsp_Subcode pkt = SubcodeZoneInfoNonExt then
        act_bind (applyNonExtendedZIRsp E pkt) (\<lambda>(naccepted, ignored).
        count (\<lambda>k. k\<lparr>k_zoneTuplesAccepted := k_zoneTuplesAccepted k + of_nat naccepted,
                     k_zoneTuplesIgnored := k_zoneTuplesIgnored k + of_nat ignored\<rparr>))
      else if zirsp_Subcode pkt = SubcodeZoneInfoExt then
        act_seq (count (\<lambda>k. k\<lparr>k_extendedZIFragments := k_extendedZIFragments k + 1\<rparr>))
        (act_catch (applyExtendedZIRsp E pkt) (\<lambda>_. act_ret ())
          (\<lambda>(complete, network).
             if complete then count (\<lambda>k. k\<lparr>k_extendedZICompleted := k_extendedZICompleted k + 1\<rparr>)
             else act_ret ()))
      else act_ret ()))"

text \<open>GDZL-Rsp and GZN-Rsp are logged only.\<close>

definition handleGDZLRsp :: "GDZLRspPacket \<Rightarrow> unit act" where
  "handleGDZLRsp pkt = dropping (checkLocalConnID (HTrHeader (gdzlrsp_Header pkt))) (act_ret ())"

definition handleGZNRsp :: "GZNRspPacket \<Rightarrow> unit act" where
  "handleGZNRsp pkt = dropping (checkLocalConnID (HTrHeader (gznrsp_Header pkt))) (act_ret ())"

definition countLateTickleAck :: "unit act" where
  "countLateTickleAck = count (\<lambda>k. k\<lparr>k_lateTickleAcks := k_lateTickleAcks k + 1\<rparr>)"

definition handleTickleAck :: "peer_env \<Rightarrow> TickleAckPacket \<Rightarrow> unit act" where
  "handleTickleAck E pkt =
     dropping (checkLocalConnID (HTrHeader (tickleack_Header pkt)))
     (with_peer (\<lambda>p.
       case rstate p of
         ReceiverWaitForTickleAck \<Rightarrow>
           act_seq (markReceiverAlive E)
           (act_seq (setSendRetries 0)
           (setRState ReceiverConnected))
       | ReceiverConnected \<Rightarrow> act_seq countLateTickleAck (markReceiverAlive E)
       | _ \<Rightarrow> countLateTickleAck))"

end
