(* ===== verification/PeerHandlers.thy ===== *)
theory PeerHandlers
  imports PeerReceiver
begin

text \<open>
  The handlers of an AURP peer as the data sender, the periodic tasks, and the
  loop that dispatches packets, ticks and requests to reconnect
  (\<open>src/router/aurp_peer.go\<close>).
\<close>

section \<open>Sending routing information\<close>

definition sendNextRIRsp :: "peer_env \<Rightarrow> bool \<Rightarrow> unit act" where
  "sendNextRIRsp E advanceSequence =
     with_peer (\<lambda>p.
       case nextRIRspPacket advanceSequence p of
         None \<Rightarrow> act_fail ErrNoChunks
       | Some (pkt, p') \<Rightarrow>
           act_seq (upd_peer (\<lambda>_. p'\<lparr>lastRISent := Some (PRIRsp pkt)\<rparr>))
           (act_seq (send E (PRIRsp pkt))
           (setSState SenderWaitForRIRspAck)))"

definition sendNextRIUpd :: "peer_env \<Rightarrow> bool \<Rightarrow> unit act" where
  "sendNextRIUpd E advanceSequence =
     with_peer (\<lambda>p.
       case nextRIUpdPacket advanceSequence p of
         None \<Rightarrow> act_fail ErrNoChunks
       | Some (pkt, p') \<Rightarrow>
           act_seq (upd_peer (\<lambda>_. p'\<lparr>lastRISent := Some (PRIUpd pkt)\<rparr>))
           (act_seq (send E (PRIUpd pkt))
           (setSState SenderWaitForRIUpdAck)))"

text \<open>A packet built from the transport is cached and sent; \<open>send_cached\<close> re-sends it.\<close>

definition cacheRISent :: "(Transport \<Rightarrow> Packet) \<Rightarrow> unit act" where
  "cacheRISent new = upd_peer (\<lambda>p. p\<lparr>lastRISent := Some (new (p_Transport p))\<rparr>)"

definition send_cached :: "peer_env \<Rightarrow> unit act" where
  "send_cached E = with_peer (\<lambda>p. send E (the (lastRISent p)))"

definition null_event :: EventTuple where
  "null_event = \<lparr>et_EventCode = EventCodeNull, et_Extended = False, et_RangeStart = 0, et_Distance = 0, et_RangeEnd = 0\<rparr>"

definition startSenderShutdown :: "peer_env \<Rightarrow> unit act" where
  "startSenderShutdown E =
     with_peer (\<lambda>p.
       if sstate p \<noteq> SenderConnected then act_ret ()
       else
         act_seq (upd_transport IncLocalSeq)
         (act_seq (cacheRISent (\<lambda>tr. PRD (NewSenderRDPacket tr ErrCodeNormalClose)))
         (act_seq (setSendRetries 0)
         (act_seq (send_cached E)
         (setSState SenderWaitForRDAck)))))"

definition handleConfirmedRoutingLoop :: "peer_env \<Rightarrow> unit act" where
  "handleConfirmedRoutingLoop E =
     with_peer (\<lambda>p.
       if loopDisabled p then act_ret ()
       else
         act_seq (upd_peer (\<lambda>p. p\<lparr>loopDisabled := True\<rparr>))
         (act_seq (if sstate p \<noteq> SenderUnconnected then
                     act_seq (upd_transport IncLocalSeq)
                       (ignoring (send_new E (\<lambda>tr. PRD (NewSenderRDPacket tr ErrCodeRoutingLoop))))
                   else act_ret ())
         (disconnect E)))"


section \<open>Handlers\<close>

definition openReceiver :: "peer_env \<Rightarrow> unit act" where
  "openReceiver E =
     act_seq (send_new E (\<lambda>tr. POpenReq (NewOpenReqPacket tr [])))
       (setRState ReceiverWaitForOpenRsp)"

definition probeRestartedPeer :: "peer_env \<Rightarrow> unit act" where
  "probeRestartedPeer E =
     act_seq (setSendRetries 0)
     (act_seq (upd_transport IncLocalSeq)
     (act_seq (upd_peer (\<lambda>p. p\<lparr>restartProbe := True\<rparr>))
     (act_seq (cacheRISent (\<lambda>tr. PRIUpd (NewRIUpdPacket tr [null_event])))
     (act_seq (storeLastSend E)
     (act_catch (send_cached E)
       (\<lambda>e. act_seq (upd_peer (\<lambda>p. p\<lparr>restartProbe := False, lastRISent := None\<rparr>)) (act_fail e))
       (\<lambda>_. setSState SenderWaitForRIUpdAck))))))"

definition acceptOpenReq :: "peer_env \<Rightarrow> OpenReqPacket \<Rightarrow> unit act" where
  "acceptOpenReq E pkt =
     act_seq (upd_transport (SetRemoteConnID (ConnectionID (HTrHeader (oreq_Header pkt)))))
     (act_seq (upd_peer (setSUIFlags (Flags (oreq_Header pkt))))
     (with_peer (\<lambda>p.
       let orsp = (if oreq_Version pkt \<noteq> 1
                   then NewOpenRspPacket (p_Transport p) 0 ErrCodeInvalidVersion []
                   else NewOpenRspPacket (p_Transport p) (openResponseEnvironmentFlags p)
                          (openResponseRate p) []) in
       act_seq (send E (POpenRsp orsp))
       (act_seq (if sint (orsp_RateOrErrCode orsp) \<ge> 0
                 then act_seq (setSState SenderConnected) table_AddObserver
                 else act_ret ())
       (with_peer (\<lambda>p.
         if rstate p = ReceiverUnconnected then
           act_seq (setSendRetries 0)
           (act_seq (storeLastSend E)
           (openReceiver E))
         else act_ret ()))))))"

definition handleOpenReq :: "peer_env \<Rightarrow> OpenReqPacket \<Rightarrow> unit act" where
  "handleOpenReq E pkt =
     with_peer (\<lambda>p.
       let currentConnID = tr_remoteConnID (p_Transport p) in
       if sstate p \<noteq> SenderUnconnected then
         if currentConnID = 0 then act_ret ()
         else if ConnectionID (HTrHeader (oreq_Header pkt)) = currentConnID then
           if sstate p \<noteq> SenderConnected then act_ret () else acceptOpenReq E pkt
         else if sstate p \<noteq> SenderConnected then act_ret ()
         else probeRestartedPeer E
       else acceptOpenReq E pkt)"

definition handleRIReq :: "peer_env \<Rightarrow> RIReqPacket \<Rightarrow> unit act" where
  "handleRIReq E pkt =
     dropping (checkRemoteConnID (HTrHeader (rireq_Header pkt)))
     (with_peer (\<lambda>p.
       if sstate p \<noteq> SenderConnected then act_ret ()
       else
         act_seq (upd_peer (setSUIFlags (Flags (rireq_Header pkt))))
         (act_seq (upd_transport ResetLocalSeq)
         (with_table (\<lambda>rt. with_peer (\<lambda>p.
           case prepareRIRsp (env_now E) rt p of
             Inl e \<Rightarrow> act_fail (ErrChunk e)
           | Inr p' \<Rightarrow>
               act_seq (upd_peer (\<lambda>_. p'))
                 (sendNextRIRsp E False)))))))"

definition acked_networks :: "Packet option \<Rightarrow> network list" where
  "acked_networks last_sent =
     (case last_sent of
        Some (PRIRsp pkt) \<Rightarrow> map nt_RangeStart (rirsp_Networks pkt)
      | Some (PRIUpd pkt) \<Rightarrow>
          map et_RangeStart (filter (\<lambda>et. et_EventCode et = EventCodeNA) (riupd_Events pkt))
      | _ \<Rightarrow> [])"

text \<open>The second half of \<open>handleRIAck\<close>; \<open>ss\<close> is the sender state when the packet arrived.\<close>

definition advanceSender :: "peer_env \<Rightarrow> SenderState \<Rightarrow> unit act" where
  "advanceSender E ss =
     with_peer (\<lambda>p.
       if ss = SenderWaitForRIRspAck \<and> pendingRIRsp p \<noteq> [] then sendNextRIRsp E True
       else if ss = SenderWaitForRIUpdAck \<and> pendingRIUpd p \<noteq> [] then sendNextRIUpd E True
       else
         act_seq (setSState SenderConnected)
         (act_seq table_AddObserver
         (with_peer (\<lambda>p.
           if rstate p = ReceiverUnconnected
           then act_seq (setSendRetries 0) (openReceiver E)
           else act_ret ()))))"

definition handleRIAck :: "peer_env \<Rightarrow> RIAckPacket \<Rightarrow> unit act" where
  "handleRIAck E pkt =
     dropping (checkRemoteConnID (HTrHeader (riack_Header pkt)))
     (with_peer (\<lambda>p.
       if Sequence (HTrHeader (riack_Header pkt)) \<noteq> tr_localSeq (p_Transport p) then act_ret ()
       else if sstate p = SenderWaitForRIUpdAck \<and> restartProbe p then
         upd_peer (\<lambda>p. p\<lparr>sendRetries := 0, restartProbe := False, lastRISent := None,
                        sstate := SenderConnected\<rparr>)
       else if sstate p = SenderWaitForRDAck then
         act_seq (setSendRetries 0)
         (act_seq table_RemoveObserver
         disconnectSender)
       else
         act_seq (if Flags (riack_Header pkt) AND RoutingFlagSendZoneInfo \<noteq> 0
                  then with_table (\<lambda>rt. ignoring (sendZIRspPackets E
                         (ZonesForNetworks (env_now E) (acked_networks (lastRISent p)) rt)))
                  else act_ret ())
         (act_seq (setSendRetries 0)
         (advanceSender E (sstate p)))))"

definition handleZIReq :: "peer_env \<Rightarrow> ZIReqPacket \<Rightarrow> unit act" where
  "handleZIReq E pkt =
     dropping (checkRemoteConnID (HTrHeader (zireq_Header pkt)))
     (with_table (\<lambda>rt. with_peer (\<lambda>p.
       sendZIRspPackets E (ZonesForNetworks (env_now E)
         (filter (\<lambda>n. \<not> exportNetworkHidden p n) (zireq_Networks pkt)) rt))))"

definition handleGDZLReq :: "peer_env \<Rightarrow> GDZLReqPacket \<Rightarrow> unit act" where
  "handleGDZLReq E pkt =
     dropping (checkRemoteConnID (HTrHeader (gdzlreq_Header pkt)))
     (send_new E (\<lambda>tr. PGDZLRsp (NewGDZLRspPacket tr (- 1) [])))"

definition handleGZNReq :: "peer_env \<Rightarrow> GZNReqPacket \<Rightarrow> unit act" where
  "handleGZNReq E pkt =
     dropping (checkRemoteConnID (HTrHeader (gznreq_Header pkt)))
     (send_new E (\<lambda>tr. PGZNRsp (NewGZNRspPacket tr (gznreq_ZoneName pkt) True [])))"

definition handleTickle :: "peer_env \<Rightarrow> TicklePacket \<Rightarrow> unit act" where
  "handleTickle E pkt =
     dropping (checkRemoteConnID (HTrHeader (tickle_Header pkt)))
     (send_new E (\<lambda>tr. PTickleAck (NewTickleAckPacket tr)))"

fun dispatch :: "peer_env \<Rightarrow> Packet \<Rightarrow> unit act" where
  "dispatch E (POpenReq pkt) = handleOpenReq E pkt"
| "dispatch E (POpenRsp pkt) = handleOpenRsp E pkt"
| "dispatch E (PRIReq pkt) = handleRIReq E pkt"
| "dispatch E (PRIRsp pkt) = handleRIRsp E pkt"
| "dispatch E (PRIAck pkt) = handleRIAck E pkt"
| "dispatch E (PRIUpd pkt) = handleRIUpd E pkt"
| "dispatch E (PRD pkt) = handleRD E pkt"
| "dispatch E (PZIReq pkt) = handleZIReq E pkt"
| "dispatch E (PZIRsp pkt) = handleZIRsp E pkt"
| "dispatch E (PGDZLReq pkt) = handleGDZLReq E pkt"
| "dispatch E (PGDZLRsp pkt) = handleGDZLRsp pkt"
| "dispatch E (PGZNReq pkt) = handleGZNReq E pkt"
| "dispatch E (PGZNRsp pkt) = handleGZNRsp pkt"
| "dispatch E (PTickle pkt) = handleTickle E pkt"
| "dispatch E (PTickleAck pkt) = handleTickleAck E pkt"
| "dispatch E (PAppleTalk pkt) = act_ret ()"

definition handlePacket :: "peer_env \<Rightarrow> Packet \<Rightarrow> unit act" where
  "handlePacket E pkt = act_seq (upd_peer (addToChatLog (env_now E) pkt False)) (dispatch E pkt)"


section \<open>Periodic tasks\<close>

text \<open>A tick that waits for an answer: nothing yet, a final failure, or another try.\<close>

definition retry_tick :: "peer_env \<Rightarrow> (AURPPeerSM \<Rightarrow> int) \<Rightarrow> unit act \<Rightarrow> unit act \<Rightarrow> unit act" where
  "retry_tick E limit give_up again =
     with_peer (\<lambda>p.
       if env_now E - lastSend p \<le> retryInterval p then act_ret ()
       else if sendRetries p \<ge> limit p then give_up
       else act_seq addSendRetry (act_seq (storeLastSend E) again))"

definition receiverFailed :: "peer_env \<Rightarrow> unit act" where
  "receiverFailed E = act_seq (disconnectReceiver E) (upd_peer (noteReconnectFailure E))"

definition probeSender :: "peer_env \<Rightarrow> unit act" where
  "probeSender E =
     with_peer (\<lambda>p.
       if sstate p = SenderConnected \<and> env_now E - lastSend p > retryInterval p then
         act_seq addSendRetry
         (act_seq (storeLastSend E)
         (act_seq (upd_transport IncLocalSeq)
         (act_seq (cacheRISent (\<lambda>tr. PRIUpd (NewRIUpdPacket tr [null_event])))
         (act_seq (send_cached E)
         (setSState SenderWaitForRIUpdAck)))))
       else act_ret ())"

definition rticker_state :: "peer_env \<Rightarrow> unit act" where
  "rticker_state E =
     with_peer (\<lambda>p.
       case rstate p of
         ReceiverWaitForOpenRsp \<Rightarrow>
           retry_tick E routingRetryLimit (receiverFailed E)
             (send_new E (\<lambda>tr. POpenReq (NewOpenReqPacket tr [])))
       | ReceiverConnected \<Rightarrow>
           if env_now E - lastHeardFrom p \<le> lastHeardTimeout p then act_ret ()
           else
             act_seq (send_new E (\<lambda>tr. PTickle (NewTicklePacket tr)))
             (act_seq (setRState ReceiverWaitForTickleAck)
             (act_seq (setSendRetries 0)
             (storeLastSend E)))
       | ReceiverWaitForTickleAck \<Rightarrow>
           retry_tick E tickleRetriesLimit (receiverFailed E)
             (send_new E (\<lambda>tr. PTickle (NewTicklePacket tr)))
       | ReceiverWaitForRIRsp \<Rightarrow>
           retry_tick E routingRetryLimit
             (act_seq (disconnectReceiver E)
             (act_seq (table_DeleteTarget E)
             (upd_peer (noteReconnectFailure E))))
             (send_new E (\<lambda>tr. PRIReq (NewRIReqPacket tr)))
       | ReceiverUnconnected \<Rightarrow> probeSender E)"

definition rtickerTasks :: "peer_env \<Rightarrow> unit act" where
  "rtickerTasks E =
     act_seq (rticker_state E)
     (with_peer (\<lambda>p.
       if rstate p = ReceiverConnected \<or> rstate p = ReceiverWaitForTickleAck
       then retryIncompleteZoneInfo E
       else act_ret ()))"

definition closeSender :: "unit act" where
  "closeSender = act_seq table_RemoveObserver disconnectSender"

definition sendPendingEvents :: "peer_env \<Rightarrow> unit act" where
  "sendPendingEvents E =
     with_peer (\<lambda>p.
       if env_now E - lastUpdate p \<le> updateInterval p then act_ret ()
       else
         act_seq (upd_peer (\<lambda>p. snd (takePendingEvents p)))
         (if fst (takePendingEvents p) = [] then act_ret ()
          else
            case prepareRIUpd p of
              Inl e \<Rightarrow> act_fail (ErrChunk e)
            | Inr p' \<Rightarrow>
                act_seq (upd_peer (\<lambda>_. p'\<lparr>lastUpdate := env_now E\<rparr>))
                  (sendNextRIUpd E True)))"

definition stickerTasks :: "peer_env \<Rightarrow> unit act" where
  "stickerTasks E =
     with_peer (\<lambda>p.
       case sstate p of
         SenderUnconnected \<Rightarrow> act_ret ()
       | SenderConnected \<Rightarrow> sendPendingEvents E
       | SenderWaitForRDAck \<Rightarrow>
           if env_now E - lastSend p \<le> retryInterval p then act_ret ()
           else if lastRISent p = None then closeSender
           else if sendRetries p \<ge> routingRetryLimit p then closeSender
           else act_seq addSendRetry (send_cached E)
       | _ \<Rightarrow>
           if env_now E - lastSend p \<le> retryInterval p then act_ret ()
           else if lastRISent p = None then act_ret ()
           else if sendRetries p \<ge> routingRetryLimit p then
             if restartProbe p then closeSender
             else act_seq (setSState SenderUnconnected) table_RemoveObserver
           else
             act_seq addSendRetry
             (act_seq (storeLastSend E)
             (send_cached E)))"


section \<open>The handle loop\<close>

definition handle_start :: "peer_env \<Rightarrow> unit act" where
  "handle_start E =
     act_seq (disconnect E)
     (act_seq (upd_peer (\<lambda>p. p\<lparr>lastReconnect := env_now E, lastHeardFrom := env_now E,
                 lastSend := env_now E, lastUpdate := env_now E, sendRetries := 0\<rparr>))
     (openReceiver E))"

definition handle_reconnect :: "peer_env \<Rightarrow> unit act" where
  "handle_reconnect E =
     with_peer (\<lambda>p.
       if loopDisabled p \<or> rstate p \<noteq> ReceiverUnconnected \<or> \<not> reconnectReady (env_now E) p then act_ret ()
       else
         act_seq (upd_peer (\<lambda>p. p\<lparr>lastReconnect := env_now E, lastSend := env_now E, sendRetries := 0\<rparr>))
         (openReceiver E))"

text \<open>\<open>AURPPeer.Forward\<close>: what \<open>peer_Forward\<close> prepares is sent, after a Tickle if one is due.\<close>

definition Forward_act :: "ddp_module \<Rightarrow> peer_env \<Rightarrow> ExtPacket \<Rightarrow> unit act" where
  "Forward_act ddp E ddpkt =
     with_peer (\<lambda>p.
       case peer_Forward ddp p ddpkt of
         Inl e \<Rightarrow> act_fail (ErrDDP e)
       | Inr None \<Rightarrow> act_ret ()
       | Inr (Some (outPkt, _)) \<Rightarrow>
           act_seq (sendTickleBeforeDataIfNeeded E)
           (act_seq (send_new E (\<lambda>tr. PAppleTalk (NewAppleTalkPacket tr outPkt)))
           (count (\<lambda>k. k\<lparr>k_ddpPacketsOut := k_ddpPacketsOut k + 1,
              k_ddpBytesOut := k_ddpBytesOut k + of_nat (length outPkt),
              k_hopCountWeightedPackets :=
                (if HopCountWeight (timing p) > 0 then k_hopCountWeightedPackets k + 1
                 else k_hopCountWeightedPackets k)\<rparr>))))"

text \<open>
  One turn of the \<open>select\<close> of \<open>Handle\<close>.  The loop ends when a task returns an error, on a
  confirmed loop, and after the graceful shutdown; the observer is then removed.
\<close>

datatype handle_event =
    EvPacket Packet
  | EvRticker
  | EvSticker
  | EvReconnect
  | EvLoopDetected

definition handle_exit :: "unit act" where
  "handle_exit = act_seq table_RemoveObserver (upd_peer (\<lambda>p. p\<lparr>running := False\<rparr>))"

fun handle_turn :: "peer_env \<Rightarrow> handle_event \<Rightarrow> unit act" where
  "handle_turn E (EvPacket pkt) = act_catch (handlePacket E pkt) (\<lambda>_. handle_exit) act_ret"
| "handle_turn E EvRticker = act_catch (rtickerTasks E) (\<lambda>_. handle_exit) act_ret"
| "handle_turn E EvSticker = act_catch (stickerTasks E) (\<lambda>_. handle_exit) act_ret"
| "handle_turn E EvReconnect = act_catch (handle_reconnect E) (\<lambda>_. handle_exit) act_ret"
| "handle_turn E EvLoopDetected = act_seq (handleConfirmedRoutingLoop E) handle_exit"

definition Handle_begin :: "peer_env \<Rightarrow> unit act" where
  "Handle_begin E =
     with_peer (\<lambda>p.
       if loopDisabled p \<or> running p then act_ret ()
       else
         act_seq (upd_peer (\<lambda>p. p\<lparr>running := True\<rparr>))
           (act_catch (handle_start E) (\<lambda>_. handle_exit) act_ret))"

text \<open>
  One turn of the loop of \<open>gracefulSenderShutdown\<close>, on a packet or, with \<open>None\<close>, on a tick; the
  result is whether the shutdown is over.
\<close>

definition shutdown_turn :: "peer_env \<Rightarrow> Packet option \<Rightarrow> bool act" where
  "shutdown_turn E event =
     with_peer (\<lambda>p.
       if sstate p = SenderUnconnected then act_ret True
       else
         act_catch (if sstate p = SenderConnected then startSenderShutdown E else act_ret ())
           (\<lambda>e. act_seq disconnectSender (act_fail e))
           (\<lambda>_. act_seq (case event of Some pkt \<Rightarrow> handlePacket E pkt | None \<Rightarrow> stickerTasks E)
                  (act_ret False)))"

end
