(* ===== verification/PeerLogic.thy ===== *)
theory PeerLogic
  imports PeerHandlers
begin

text \<open>
  A calculus for the handlers of \<open>PeerHandlers\<close>: \<open>wp m Q w\<close> says that if \<open>m\<close> returns
  from \<open>w\<close>, its result and the world it leaves satisfy \<open>Q\<close>.  The collection
  \<open>wp_simps\<close> computes it along a handler; sending, and calls of the route table,
  have frame rules that say which part of the world they change.
\<close>

named_theorems wp_simps

section \<open>Weakest preconditions\<close>

text \<open>The flag is what a run that does not return satisfies.\<close>

definition wpx :: "bool \<Rightarrow> 'a act \<Rightarrow> (peer_error + 'a \<Rightarrow> peer_world \<Rightarrow> bool) \<Rightarrow> peer_world \<Rightarrow> bool" where
  "wpx b m Q w = (case m w of None \<Rightarrow> b | Some (r, w') \<Rightarrow> Q r w')"

abbreviation wp :: "'a act \<Rightarrow> (peer_error + 'a \<Rightarrow> peer_world \<Rightarrow> bool) \<Rightarrow> peer_world \<Rightarrow> bool" where
  "wp \<equiv> wpx True"

abbreviation runs :: "'a act \<Rightarrow> (peer_error + 'a \<Rightarrow> peer_world \<Rightarrow> bool) \<Rightarrow> peer_world \<Rightarrow> bool" where
  "runs \<equiv> wpx False"

lemma runs_iff: "runs m Q w \<longleftrightarrow> (\<exists>r w'. m w = Some (r, w') \<and> Q r w')"
  by (auto simp: wpx_def split: option.splits)

lemma runs_wp: "runs m P w \<Longrightarrow> wp m Q w \<Longrightarrow> runs m Q w"
  by (auto simp: wpx_def split: option.splits)

lemma runs_imp_wp: "runs m Q w \<Longrightarrow> wp m Q w"
  by (auto simp: wpx_def split: option.splits)

lemma wpD: "wpx b m Q w \<Longrightarrow> m w = Some (r, w') \<Longrightarrow> Q r w'"
  by (simp add: wpx_def)

lemma wp_mono: "wpx b m P w \<Longrightarrow> (\<And>r w'. P r w' \<Longrightarrow> Q r w') \<Longrightarrow> wpx b m Q w"
  by (auto simp: wpx_def split: option.splits)

lemma wp_ret [wp_simps]: "wpx b (act_ret x) Q w \<longleftrightarrow> Q (Inr x) w"
  by (simp add: wpx_def act_ret_def)

lemma wp_fail [wp_simps]: "wpx b (act_fail e) Q w \<longleftrightarrow> Q (Inl e) w"
  by (simp add: wpx_def act_fail_def)

lemma wp_bind [wp_simps]:
  "wpx b (act_bind m f) Q w \<longleftrightarrow> wpx b m (\<lambda>r w'. case r of Inl e \<Rightarrow> Q (Inl e) w' | Inr x \<Rightarrow> wpx b (f x) Q w') w"
  by (auto simp: wpx_def act_bind_def split: option.splits sum.splits)

lemma wp_bindI:
  assumes "wpx b m R w" "\<And>x w'. R (Inr x) w' \<Longrightarrow> wpx b (f x) Q w'" "\<And>e w'. R (Inl e) w' \<Longrightarrow> Q (Inl e) w'"
  shows "wpx b (act_bind m f) Q w"
  unfolding wp_bind by (rule wp_mono [OF assms(1)]) (auto intro: assms(2,3) split: sum.split)

lemma wp_catch [wp_simps]:
  "wpx b (act_catch m h f) Q w \<longleftrightarrow> wpx b m (\<lambda>r w'. case r of Inl e \<Rightarrow> wpx b (h e) Q w' | Inr x \<Rightarrow> wpx b (f x) Q w') w"
  by (auto simp: wpx_def act_catch_def split: option.splits sum.splits)

lemma wp_with_peer [wp_simps]: "wpx b (with_peer f) Q w \<longleftrightarrow> wpx b (f (w_peer w)) Q w"
  by (simp add: wpx_def with_peer_def)

lemma wp_with_table [wp_simps]: "wpx b (with_table f) Q w \<longleftrightarrow> wpx b (f (w_rt w)) Q w"
  by (simp add: wpx_def with_table_def)

lemma wp_upd_peer [wp_simps]: "wpx b (upd_peer f) Q w \<longleftrightarrow> Q (Inr ()) (w\<lparr>w_peer := f (w_peer w)\<rparr>)"
  by (simp add: wpx_def upd_peer_def)

lemma wp_upd_table [wp_simps]: "wpx b (upd_table f) Q w \<longleftrightarrow> Q (Inr ()) (w\<lparr>w_rt := f (w_rt w)\<rparr>)"
  by (simp add: wpx_def upd_table_def)

lemma wp_if [wp_simps]: "wpx b (if c then m else n) Q w \<longleftrightarrow> (if c then wpx b m Q w else wpx b n Q w)"
  by simp

lemma wp_fun [wp_simps]: "wpx b (\<lambda>w. Some (Inr x, f w)) Q w \<longleftrightarrow> Q (Inr x) (f w)"
  by (simp add: wpx_def)

lemma wp_dropping [wp_simps]:
  "wpx b (dropping m k) Q w \<longleftrightarrow>
   wpx b m (\<lambda>r w'. case r of Inl e \<Rightarrow> if e = ErrDropPacket then Q (Inr ()) w' else Q (Inl e) w'
                 | Inr _ \<Rightarrow> wpx b k Q w') w"
  by (auto simp: dropping_def wp_simps split: sum.splits intro!: arg_cong [of _ _ "\<lambda>P. wpx b m P w"])

lemma wp_ignoring [wp_simps]: "wpx b (ignoring m) Q w \<longleftrightarrow> wpx b m (\<lambda>r w'. Q (Inr ()) w') w"
  by (auto simp: ignoring_def act_catch_def act_ret_def wpx_def split: option.splits sum.splits)

lemma wp_table_call [wp_simps]:
  "wpx b (table_call op) Q w \<longleftrightarrow>
   (case op (w_rt w) of None \<Rightarrow> b
    | Some (x, rt', evs) \<Rightarrow> Q (Inr x) (fold deliver evs (w\<lparr>w_rt := rt'\<rparr>)))"
  by (simp add: wpx_def table_call_def split: option.splits prod.splits)

lemmas small_steps [wp_simps] =
  upd_transport_def setRState_def setSState_def setSendRetries_def addSendRetry_def storeLastSend_def
  markReceiverAlive_def count_def table_AddObserver_def table_RemoveObserver_def cacheRISent_def
  send_new_def send_cached_def

section \<open>Invariants of handlers\<close>

text \<open>
  \<open>keeps I m\<close>: every run of \<open>m\<close> that starts in \<open>I\<close> and returns, with or without an error, ends in
  \<open>I\<close>.  The rules follow the structure of the handlers.
\<close>

named_theorems keeps_intros

definition keeps :: "(peer_world \<Rightarrow> bool) \<Rightarrow> 'a act \<Rightarrow> bool" where
  "keeps I m \<longleftrightarrow> (\<forall>w. I w \<longrightarrow> wp m (\<lambda>_. I) w)"

lemma keepsI: "(\<And>w. I w \<Longrightarrow> wp m (\<lambda>_. I) w) \<Longrightarrow> keeps I m"
  by (simp add: keeps_def)

lemma keepsD: "keeps I m \<Longrightarrow> I w \<Longrightarrow> wp m (\<lambda>_. I) w"
  by (simp add: keeps_def)

lemma wp_conj: "wpx b m P w \<Longrightarrow> wp m Q w \<Longrightarrow> wpx b m (\<lambda>r w'. P r w' \<and> Q r w') w"
  by (auto simp: wpx_def split: option.splits)

lemma keeps_ret [keeps_intros]: "keeps I (act_ret x)"
  and keeps_fail [keeps_intros]: "keeps I (act_fail e)"
  by (simp_all add: keeps_def wp_simps)

lemma keeps_catch [keeps_intros]:
  assumes "keeps I m" "\<And>e. keeps I (h e)" "\<And>x. keeps I (f x)"
  shows "keeps I (act_catch m h f)"
proof (rule keepsI)
  fix w assume "I w"
  from keepsD [OF assms(1) this] show "wp (act_catch m h f) (\<lambda>_. I) w"
    unfolding wp_catch by (rule wp_mono) (simp add: keepsD assms split: sum.split)
qed

lemma bind_catch: "act_bind m f = act_catch m act_fail f"
  by (simp add: act_bind_def act_catch_def act_fail_def fun_eq_iff split: option.split sum.split)

lemma keeps_bind [keeps_intros]: "keeps I m \<Longrightarrow> (\<And>x. keeps I (f x)) \<Longrightarrow> keeps I (act_bind m f)"
  unfolding bind_catch by (intro keeps_catch keeps_fail)

lemma keeps_dropping [keeps_intros]: "keeps I m \<Longrightarrow> keeps I k \<Longrightarrow> keeps I (dropping m k)"
  unfolding dropping_def by (intro keeps_catch) (simp_all add: keeps_ret keeps_fail)

lemma keeps_ignoring [keeps_intros]: "keeps I m \<Longrightarrow> keeps I (ignoring m)"
  unfolding ignoring_def by (intro keeps_catch keeps_ret)

lemma keeps_with [keeps_intros]:
  "(\<And>p. keeps I (f p)) \<Longrightarrow> keeps I (with_peer f)"
  "(\<And>rt. keeps I (g rt)) \<Longrightarrow> keeps I (with_table g)"
  by (simp_all add: keeps_def wp_simps)

lemma keeps_if [keeps_intros]: "(c \<Longrightarrow> keeps I m) \<Longrightarrow> (\<not> c \<Longrightarrow> keeps I n) \<Longrightarrow> keeps I (if c then m else n)"
  by simp

lemma keeps_case [keeps_intros]:
  "(\<And>a b. keeps I (f a b)) \<Longrightarrow> keeps I (case ab of (a, b) \<Rightarrow> f a b)"
  "keeps I m \<Longrightarrow> (\<And>x. keeps I (g x)) \<Longrightarrow> keeps I (case v of None \<Rightarrow> m | Some x \<Rightarrow> g x)"
  "(\<And>e. keeps I (h e)) \<Longrightarrow> (\<And>x. keeps I (g x)) \<Longrightarrow> keeps I (case s of Inl e \<Rightarrow> h e | Inr x \<Rightarrow> g x)"
  by (simp_all split: prod.split option.split sum.split)

lemma keeps_states [keeps_intros]:
  "keeps I a \<Longrightarrow> keeps I b \<Longrightarrow> keeps I c \<Longrightarrow> keeps I d \<Longrightarrow> keeps I e \<Longrightarrow>
   keeps I (case rs of ReceiverUnconnected \<Rightarrow> a | ReceiverConnected \<Rightarrow> b | ReceiverWaitForOpenRsp \<Rightarrow> c
     | ReceiverWaitForRIRsp \<Rightarrow> d | ReceiverWaitForTickleAck \<Rightarrow> e)"
  "keeps I a \<Longrightarrow> keeps I b \<Longrightarrow> keeps I c \<Longrightarrow> keeps I d \<Longrightarrow> keeps I e \<Longrightarrow>
   keeps I (case ss of SenderUnconnected \<Rightarrow> a | SenderConnected \<Rightarrow> b | SenderWaitForRIRspAck \<Rightarrow> c
     | SenderWaitForRIUpdAck \<Rightarrow> d | SenderWaitForRDAck \<Rightarrow> e)"
  by (simp_all split: ReceiverState.split SenderState.split)


section \<open>Frames\<close>

definition zero_counters :: peer_counters where
  "zero_counters =
     \<lparr>k_duplicateRoutingPackets = 0, k_reacksSent = 0, k_staleRoutingPackets = 0,
      k_futureRoutingPackets = 0, k_connectionIDMismatches = 0, k_lateTickleAcks = 0,
      k_senderRouterDowns = 0, k_receiverRouterDowns = 0, k_routerDownAcks = 0, k_earlyRIUpdates = 0,
      k_earlyRIUpdateAcks = 0, k_extendedZIFragments = 0, k_extendedZICompleted = 0,
      k_zoneTuplesAccepted = 0, k_zoneTuplesIgnored = 0, k_loopIndicativeRoutes = 0,
      k_hopCountWeightedPackets = 0, k_confirmedRoutingLoops = 0, k_ddpPacketsOut = 0,
      k_ddpBytesOut = 0\<rparr>"

text \<open>
  The state of the peer without what every handler may change: queued changes, chat log, time of
  the last send, counters and awaited zones.
\<close>

definition core :: "AURPPeerSM \<Rightarrow> AURPPeerSM" where
  "core p = p\<lparr>pendingEvents := [], chatLog := [], lastSend := 0, counters := zero_counters,
              pendingZoneInfo := []\<rparr>"

lemma core_updates [simp]:
  "core (p\<lparr>pendingEvents := x\<rparr>) = core p" "core (p\<lparr>chatLog := cl\<rparr>) = core p"
  "core (p\<lparr>lastSend := t\<rparr>) = core p" "core (p\<lparr>counters := k\<rparr>) = core p"
  "core (p\<lparr>pendingZoneInfo := z\<rparr>) = core p"
  by (simp_all add: core_def)

lemma core_fields [simp]:
  "ConfiguredAddr (core p) = ConfiguredAddr p" "tunnelID (core p) = tunnelID p"
  "timing (core p) = timing p" "p_Transport (core p) = p_Transport p" "sstate (core p) = sstate p"
  "suiFlags (core p) = suiFlags p" "pendingRIRsp (core p) = pendingRIRsp p"
  "pendingRIUpd (core p) = pendingRIUpd p" "self (core p) = self p" "running (core p) = running p"
  "rstate (core p) = rstate p" "lastHeardFrom (core p) = lastHeardFrom p"
  "sendRetries (core p) = sendRetries p" "lastRISent (core p) = lastRISent p"
  "restartProbe (core p) = restartProbe p" "loopDisabled (core p) = loopDisabled p"
  "reconnectFailures (core p) = reconnectFailures p" "nextReconnect (core p) = nextReconnect p"
  by (simp_all add: core_def)

lemma core_eqD:
  assumes "core p' = core p"
  shows "p_Transport p' = p_Transport p" "sstate p' = sstate p" "lastRISent p' = lastRISent p"
    "rstate p' = rstate p" "self p' = self p" "restartProbe p' = restartProbe p"
    "pendingRIRsp p' = pendingRIRsp p" "pendingRIUpd p' = pendingRIUpd p" "timing p' = timing p"
    "tunnelID p' = tunnelID p" "ConfiguredAddr p' = ConfiguredAddr p" "sendRetries p' = sendRetries p"
    "running p' = running p" "loopDisabled p' = loopDisabled p" "lastHeardFrom p' = lastHeardFrom p"
    "nextReconnect p' = nextReconnect p" "reconnectFailures p' = reconnectFailures p"
  using assms by (metis core_fields)+

lemma queue_core [simp]:
  "core (queueBestNetworkTransition a b p) = core p"
  "chatLog (queueBestNetworkTransition a b p) = chatLog p"
  "pendingZoneInfo (queueBestNetworkTransition a b p) = pendingZoneInfo p"
  "lastSend (queueBestNetworkTransition a b p) = lastSend p"
  by (auto simp: queueBestNetworkTransition_def Let_def split: option.splits)

lemma observe_core [simp]:
  "core (observe n p) = core p" "chatLog (observe n p) = chatLog p"
  "pendingZoneInfo (observe n p) = pendingZoneInfo p" "lastSend (observe n p) = lastSend p"
  by (cases n; simp)+

lemma deliver_frame [simp]:
  "w_rt (deliver n w) = w_rt w" "w_sent (deliver n w) = w_sent w" "w_loops (deliver n w) = w_loops w"
  "core (w_peer (deliver n w)) = core (w_peer w)" "chatLog (w_peer (deliver n w)) = chatLog (w_peer w)"
  "pendingZoneInfo (w_peer (deliver n w)) = pendingZoneInfo (w_peer w)"
  "lastSend (w_peer (deliver n w)) = lastSend (w_peer w)"
  by (simp_all add: deliver_def)

lemma fold_deliver_frame [simp]:
  "w_rt (fold deliver ns w) = w_rt w" "w_sent (fold deliver ns w) = w_sent w"
  "w_loops (fold deliver ns w) = w_loops w"
  "core (w_peer (fold deliver ns w)) = core (w_peer w)"
  "chatLog (w_peer (fold deliver ns w)) = chatLog (w_peer w)"
  "pendingZoneInfo (w_peer (fold deliver ns w)) = pendingZoneInfo (w_peer w)"
  "lastSend (w_peer (fold deliver ns w)) = lastSend (w_peer w)"
  by (induction ns arbitrary: w) simp_all

lemmas fold_deliver_core [simp] = core_eqD [OF fold_deliver_frame(4)]

lemma peer_target_core: "core p' = core p \<Longrightarrow> peer_target p' = peer_target p"
  by (drule core_eqD(10)) (simp add: peer_target_def)

lemma target_ok_peer [simp]: "target_ok (peer_target p)"
  by (simp add: target_ok_def peer_target_def class_of_key_def)

text \<open>A chat log within its limit.\<close>

lemma chatLog_limit: "length (chatLog (addToChatLog now pkt sent p)) \<le> chatLogLimit"
  by (simp add: addToChatLog_def Let_def)

lemma addToChatLog_core [simp]:
  "core (addToChatLog now pkt sent p) = core p"
  "pendingZoneInfo (addToChatLog now pkt sent p) = pendingZoneInfo p"
  "pendingEvents (addToChatLog now pkt sent p) = pendingEvents p"
  "lastSend (addToChatLog now pkt sent p) = lastSend p"
  "counters (addToChatLog now pkt sent p) = counters p"
  by (simp_all add: addToChatLog_def Let_def)

text \<open>
  Sending changes the chat log, the time of the last send and the trace only; the trace gets the
  packet if it can be encoded.
\<close>

definition send_result :: "peer_env \<Rightarrow> Packet \<Rightarrow> peer_world \<Rightarrow> peer_error + unit" where
  "send_result E pkt w =
     (case encode (Packet_WriteTo pkt) of
        Inl e \<Rightarrow> Inl (ErrWrite e)
      | Inr b \<Rightarrow> (case env_udp E (w_sent w @ [pkt]) of Some e \<Rightarrow> Inl (ErrUDP e) | None \<Rightarrow> Inr ()))"

definition send_world :: "peer_env \<Rightarrow> Packet \<Rightarrow> peer_world \<Rightarrow> peer_world" where
  "send_world E pkt w =
     (let p = (if AURPHeader pkt \<noteq> None then addToChatLog (env_now E) pkt True (w_peer w) else w_peer w)
      in case encode (Packet_WriteTo pkt) of
           Inl _ \<Rightarrow> w\<lparr>w_peer := p\<rparr>
         | Inr _ \<Rightarrow> w\<lparr>w_peer := p\<lparr>lastSend := env_now E\<rparr>, w_sent := w_sent w @ [pkt]\<rparr>)"

lemma send_eq: "send E pkt w = Some (send_result E pkt w, send_world E pkt w)"
  by (cases "AURPHeader pkt"; cases "encode (Packet_WriteTo pkt)"; cases "env_udp E (w_sent w @ [pkt])")
    (simp_all add: send_def act_bind_def act_ret_def act_fail_def upd_peer_def send_result_def
      send_world_def)

lemma send_world_frame [simp]:
  "w_rt (send_world E pkt w) = w_rt w" "w_notes (send_world E pkt w) = w_notes w"
  "w_loops (send_world E pkt w) = w_loops w" "core (w_peer (send_world E pkt w)) = core (w_peer w)"
  "pendingZoneInfo (w_peer (send_world E pkt w)) = pendingZoneInfo (w_peer w)"
  "pendingEvents (w_peer (send_world E pkt w)) = pendingEvents (w_peer w)"
  "counters (w_peer (send_world E pkt w)) = counters (w_peer w)"
  by (simp_all add: send_world_def Let_def split: sum.split)

lemmas send_world_core [simp] = core_eqD [OF send_world_frame(4)]

lemma send_world_chat [simp]:
  "length (chatLog (w_peer w)) \<le> chatLogLimit \<Longrightarrow>
   length (chatLog (w_peer (send_world E pkt w))) \<le> chatLogLimit"
  by (simp add: send_world_def Let_def chatLog_limit split: sum.split)

lemma send_world_sent:
  "w_sent (send_world E pkt w) =
     w_sent w @ (case encode (Packet_WriteTo pkt) of Inl _ \<Rightarrow> [] | Inr _ \<Rightarrow> [pkt])"
  by (simp add: send_world_def Let_def split: sum.split)

lemma wp_send [wp_simps]: "wpx b (send E pkt) Q w \<longleftrightarrow> Q (send_result E pkt w) (send_world E pkt w)"
  by (simp add: wpx_def send_eq)

lemma send_not_drop [simp]: "send_result E pkt w \<noteq> Inl ErrDropPacket"
  by (auto simp: send_result_def split: sum.splits option.splits)

end
