(* ===== verification/PeerInv.thy ===== *)
theory PeerInv
  imports PeerLogic
begin

text \<open>
  Invariants of a peer's state machine: every handler and periodic task keeps the
  transport well-formed, the route table reachable, the chat log bounded, and the
  packet that waits for an acknowledgement cached under the current sequence
  number and connection ID.
\<close>

section \<open>The invariant\<close>

text \<open>The kind of packet each waiting state of the sender waits for.\<close>

fun awaited :: "SenderState \<Rightarrow> Packet \<Rightarrow> bool" where
  "awaited SenderWaitForRIRspAck (PRIRsp _) = True"
| "awaited SenderWaitForRIUpdAck (PRIUpd _) = True"
| "awaited SenderWaitForRDAck (PRD _) = True"
| "awaited _ _ = False"

definition idle :: "SenderState \<Rightarrow> bool" where
  "idle ss \<longleftrightarrow> ss = SenderUnconnected \<or> ss = SenderConnected"

definition outstanding :: "AURPPeerSM \<Rightarrow> Packet \<Rightarrow> bool" where
  "outstanding p pkt \<longleftrightarrow>
     (\<exists>h. AURPHeader pkt = Some h \<and> Sequence (HTrHeader h) = tr_localSeq (p_Transport p) \<and>
          ConnectionID (HTrHeader h) = tr_remoteConnID (p_Transport p))"

definition sender_ok :: "AURPPeerSM \<Rightarrow> bool" where
  "sender_ok p \<longleftrightarrow>
     (idle (sstate p) \<or> (\<exists>pkt. lastRISent p = Some pkt \<and> awaited (sstate p) pkt \<and> outstanding p pkt)) \<and>
     (restartProbe p \<longrightarrow> sstate p = SenderWaitForRIUpdAck)"

definition peer_ok :: "AURPPeerSM \<Rightarrow> bool" where
  "peer_ok p \<longleftrightarrow> transport_ok (p_Transport p) \<and> sender_ok p \<and> length (chatLog p) \<le> chatLogLimit"

definition peer_inv :: "peer_world \<Rightarrow> bool" where
  "peer_inv w \<longleftrightarrow> peer_ok (w_peer w) \<and> rt_reach (w_rt w)"

lemma outstanding_core: "core p' = core p \<Longrightarrow> outstanding p' pkt \<longleftrightarrow> outstanding p pkt"
  by (drule core_eqD(1)) (simp add: outstanding_def)

lemma sender_ok_core: "core p' = core p \<Longrightarrow> sender_ok p' \<longleftrightarrow> sender_ok p"
  using core_eqD(2,3,6) [of p' p] outstanding_core [of p' p] by (simp add: sender_ok_def)

lemma peer_ok_core:
  "core p' = core p \<Longrightarrow> length (chatLog p') \<le> chatLogLimit \<Longrightarrow> peer_ok p \<Longrightarrow> peer_ok p'"
  using core_eqD(1) [of p' p] sender_ok_core [of p' p] by (simp add: peer_ok_def)

lemma peer_inv_core:
  "core (w_peer w') = core (w_peer w) \<Longrightarrow>
   (length (chatLog (w_peer w)) \<le> chatLogLimit \<Longrightarrow> length (chatLog (w_peer w')) \<le> chatLogLimit) \<Longrightarrow>
   (rt_reach (w_rt w) \<Longrightarrow> rt_reach (w_rt w')) \<Longrightarrow> peer_inv w \<Longrightarrow> peer_inv w'"
  using peer_ok_core [of "w_peer w'" "w_peer w"] by (auto simp: peer_inv_def peer_ok_def)


section \<open>Rules\<close>

lemma keeps_upd: "(\<And>p. peer_ok p \<Longrightarrow> peer_ok (f p)) \<Longrightarrow> keeps peer_inv (upd_peer f)"
  by (simp add: keeps_def wp_simps peer_inv_def)

lemma keeps_upd_core [keeps_intros]:
  "(\<And>p. core (f p) = core p) \<Longrightarrow> (\<And>p. chatLog (f p) = chatLog p) \<Longrightarrow> keeps peer_inv (upd_peer f)"
  by (rule keeps_upd) (metis peer_ok_core peer_ok_def)

lemma keeps_send [keeps_intros]: "keeps peer_inv (send E pkt)"
  by (rule keepsI) (auto simp: wp_simps elim!: peer_inv_core [rotated 3])

lemma keeps_table_call [keeps_intros]:
  "(\<And>rt x rt' evs. rt_reach rt \<Longrightarrow> op rt = Some (x, rt', evs) \<Longrightarrow> rt_reach rt') \<Longrightarrow> keeps peer_inv (table_call op)"
  by (rule keepsI) (auto simp: wp_simps split: option.splits elim!: peer_inv_core [rotated 3])

text \<open>Steps that touch neither the sequence numbers of the sender nor its state.\<close>

definition sender_part :: "AURPPeerSM \<Rightarrow> _" where
  "sender_part p =
     (tr_localSeq (p_Transport p), tr_remoteConnID (p_Transport p), sstate p, lastRISent p,
      restartProbe p, chatLog p)"

lemma peer_ok_sender_part:
  "sender_part p' = sender_part p \<Longrightarrow> transport_ok (p_Transport p') \<Longrightarrow> peer_ok p \<Longrightarrow> peer_ok p'"
  by (auto simp: peer_ok_def sender_ok_def outstanding_def sender_part_def)

lemma keeps_upd_part:
  assumes "\<And>p. sender_part (f p) = sender_part p"
    and "\<And>p. transport_ok (p_Transport p) \<Longrightarrow> transport_ok (p_Transport (f p))"
  shows "keeps peer_inv (upd_peer f)"
  by (rule keeps_upd) (metis assms peer_ok_sender_part peer_ok_def)

lemma keeps_transport [keeps_intros]:
  "keeps peer_inv (upd_transport ResetRemoteSeq)" "keeps peer_inv (upd_transport IncRemoteSeq)"
  "keeps peer_inv (upd_transport (\<lambda>tr. IncLocalConnID (ResetRemoteSeq tr)))"
  unfolding upd_transport_def
  by (rule keeps_upd_part;
    simp add: sender_part_def ResetRemoteSeq_def IncRemoteSeq_def IncLocalConnID_def
      transport_ok_def Succ_neq_0)+

lemma keeps_small [keeps_intros]:
  "keeps peer_inv (setRState rs)" "keeps peer_inv (setSendRetries n)" "keeps peer_inv addSendRetry" "keeps peer_inv (storeLastSend E)"
  "keeps peer_inv (markReceiverAlive E)" "keeps peer_inv (count k)" "keeps peer_inv (upd_peer (noteReconnectFailure E))"
  "keeps peer_inv (upd_peer (setSUIFlags fl))"
  "keeps peer_inv (upd_peer (\<lambda>p. resetReconnectBackoff (p\<lparr>lastSuccess := t\<rparr>)))"
  unfolding setRState_def setSendRetries_def addSendRetry_def storeLastSend_def markReceiverAlive_def
    count_def
  by (rule keeps_upd_part;
    simp add: sender_part_def noteReconnectFailure_def resetReconnectBackoff_def setSUIFlags_def Let_def)+

lemma keeps_observers [keeps_intros]: "keeps peer_inv table_AddObserver" "keeps peer_inv table_RemoveObserver"
  by (auto simp: keeps_def wp_simps peer_inv_def intro: reach_step step_observe step_unobserve)

lemmas reach_ops =
  reach_step [OF _ step_upsert [OF target_ok_peer]] reach_step [OF _ step_update [OF target_ok_peer]]
  reach_step [OF _ step_delete [OF target_ok_peer]] reach_step [OF _ step_target [OF target_ok_peer]]
  reach_step [OF _ step_replace_zones]

lemma keeps_table_ops [keeps_intros]:
  "keeps peer_inv (table_DeleteTarget E)" "keeps peer_inv (table_UpsertRoute E ext s e d)" "keeps peer_inv (table_DeleteRoute E s)"
  "keeps peer_inv (table_UpdateDistance E s d)" "keeps peer_inv (replaceZones E n zs)"
  unfolding table_DeleteTarget_def table_UpsertRoute_def table_DeleteRoute_def table_UpdateDistance_def
    replaceZones_def
  by (auto intro!: keeps_intros intro: reach_ops split: option.splits sum.splits prod.splits)


section \<open>Handlers of the receiver\<close>

lemma keeps_checks [keeps_intros]:
  "keeps peer_inv (checkLocalConnID th)" "keeps peer_inv (checkRemoteConnID th)"
  "keeps peer_inv (disconnectReceiver E)" "keeps peer_inv (checkRemoteSeqWithAckFlags E th fl)" "keeps peer_inv (checkRemoteSeq E th)"
proof -
  show d: "keeps peer_inv (disconnectReceiver E)" for E
    unfolding disconnectReceiver_def by (intro keeps_intros) simp_all
  show "keeps peer_inv (checkLocalConnID th)" "keeps peer_inv (checkRemoteConnID th)"
    unfolding checkLocalConnID_def checkRemoteConnID_def Let_def by (intro keeps_intros)+
  show c: "keeps peer_inv (checkRemoteSeqWithAckFlags E th fl)" for fl
    unfolding checkRemoteSeqWithAckFlags_def send_new_def Let_def by (intro keeps_intros d)
  show "keeps peer_inv (checkRemoteSeq E th)"
    unfolding checkRemoteSeq_def by (rule c)
qed

lemma keeps_sends [keeps_intros]:
  "keeps peer_inv (send_new E new)" "keeps peer_inv (send_all E pkts)" "keeps peer_inv (sendZIRspPackets E zl)" "keeps peer_inv (sendRIAck E th fl)"
proof -
  show all: "keeps peer_inv (send_all E pkts)" for pkts
    by (induction pkts) (auto intro!: keeps_intros)
  show "keeps peer_inv (send_new E new)" "keeps peer_inv (sendRIAck E th fl)"
    unfolding sendRIAck_def send_new_def by (intro keeps_intros)+
  show "keeps peer_inv (sendZIRspPackets E zl)"
    unfolding sendZIRspPackets_def by (auto intro!: keeps_intros all split: sum.split)
qed

lemma keeps_zones [keeps_intros]:
  "keeps peer_inv (markZoneInfoPending E n)" "keeps peer_inv (clearPendingZoneInfo n)" "keeps peer_inv (noteLoopIndicativeNetwork E n)"
  "keeps peer_inv (ask_needsZoneInfo n)" "keeps peer_inv (apply_groups E gs k)"
proof -
  show "keeps peer_inv (markZoneInfoPending E n)" and c: "keeps peer_inv (clearPendingZoneInfo n)" for n
    unfolding markZoneInfoPending_def clearPendingZoneInfo_def
    by (intro keeps_intros; simp split: option.split)+
  show l: "keeps peer_inv (noteLoopIndicativeNetwork E n)" for n
    by (rule keepsI) (auto simp: noteLoopIndicativeNetwork_def wp_simps split: option.split
      elim!: peer_inv_core [rotated 3])
  show "keeps peer_inv (ask_needsZoneInfo n)"
    unfolding ask_needsZoneInfo_def by (intro keeps_intros)
  show "keeps peer_inv (apply_groups E gs k)"
    by (induction gs arbitrary: k) (auto intro!: keeps_intros c l)
qed

lemma keeps_retry_zones [keeps_intros]: "keeps peer_inv (retryIncompleteZoneInfo E)"
  unfolding retryIncompleteZoneInfo_def Let_def
  by (auto intro!: keeps_intros simp: touch_pending_def split: sum.split)

lemma keeps_ZIRsp [keeps_intros]: "keeps peer_inv (handleZIRsp E pkt)"
  unfolding handleZIRsp_def applyNonExtendedZIRsp_def applyExtendedZIRsp_def completeZoneInfo_def Let_def
  by (intro keeps_intros) simp_all

lemma keeps_apply [keeps_intros]:
  "keeps peer_inv (validateAURPRouteTuple b n m)" "keeps peer_inv (applyRIRspNetworkTuple E nt)" "keeps peer_inv (applyRIUpdEvent E et)"
  "keeps peer_inv (apply_networks E nts fl)" "keeps peer_inv (apply_events E ets fl)"
proof -
  show v: "keeps peer_inv (validateAURPRouteTuple b n m)" for b n m
    unfolding validateAURPRouteTuple_def by (intro keeps_intros)
  show n: "keeps peer_inv (applyRIRspNetworkTuple E nt)" for nt
    unfolding applyRIRspNetworkTuple_def Let_def
    by (intro keeps_intros v)
  show e: "keeps peer_inv (applyRIUpdEvent E et)" for et
    unfolding applyRIUpdEvent_def applyNDC_def upsertEvent_def removeIfPresent_def Let_def
    by (intro keeps_intros v)
  show "keeps peer_inv (apply_networks E nts fl)"
    by (induction nts arbitrary: fl) (auto intro!: keeps_intros n)
  show "keeps peer_inv (apply_events E ets fl)"
    by (induction ets arbitrary: fl) (auto intro!: keeps_intros e)
qed


lemma keeps_receiver [keeps_intros]:
  "keeps peer_inv (handleOpenRsp E orsp)" "keeps peer_inv (handleRIRsp E rirsp)" "keeps peer_inv (acceptRIUpd E riupd)"
  "keeps peer_inv (skipEarlyRIUpd E riupd)" "keeps peer_inv (resyncReceiver E)"
  "keeps peer_inv (handleGDZLRsp gdzl)" "keeps peer_inv (handleGZNRsp gzn)" "keeps peer_inv countEarly" "keeps peer_inv countLateTickleAck"
  unfolding handleOpenRsp_def handleRIRsp_def acceptRIRsp_def acceptRIUpd_def skipEarlyRIUpd_def
    resyncReceiver_def handleGDZLRsp_def handleGZNRsp_def
    countEarly_def countLateTickleAck_def Let_def
  by (intro keeps_intros)+

lemma keeps_receiver2 [keeps_intros]:
  "keeps peer_inv (handleRIUpd E riupd)" "keeps peer_inv (handleTickleAck E tack)"
  unfolding handleRIUpd_def handleTickleAck_def Let_def
  by (intro keeps_intros)+


section \<open>Handlers of the sender\<close>

text \<open>What sending keeps peer_inv besides the invariant.\<close>

lemma sender_part_send [simp]:
  "peer_ok p \<Longrightarrow> peer_ok (p\<lparr>lastSend := t\<rparr>)"
  by (rule peer_ok_core [of _ p]) (simp_all add: peer_ok_def)

lemma send_keeps_inv [simp]: "peer_inv w \<Longrightarrow> peer_inv (send_world E pkt w)"
  using keepsD [OF keeps_send, of w E pkt] by (simp add: wp_simps)

lemma keeps_disconnectSender [keeps_intros]: "keeps peer_inv disconnectSender"
  by (rule keepsI)
    (auto simp: disconnectSender_def wp_simps peer_inv_def peer_ok_def sender_ok_def idle_def
      SetRemoteConnID_def ResetLocalSeq_def transport_ok_def)

lemma keeps_close [keeps_intros]:
  "keeps peer_inv (handleRD E rd)" "keeps peer_inv closeSender" "keeps peer_inv (disconnect E)" "keeps peer_inv (receiverFailed E)"
  "keeps peer_inv (openReceiver E)"
  unfolding handleRD_def closeSender_def disconnect_def receiverFailed_def openReceiver_def Let_def
  by (intro keeps_intros)+

lemma nextRIRsp_outstanding:
  assumes "nextRIRspPacket adv p = Some (pkt, p')" "transport_ok (p_Transport p)"
  shows "outstanding p' (PRIRsp pkt)" "transport_ok (p_Transport p')" "sstate p' = sstate p"
    "restartProbe p' = restartProbe p" "chatLog p' = chatLog p"
  using assms by (auto simp: nextRIRspPacket_def outstanding_def NewRIRspPacket_def tr_sequenced_def
    transport_ok_step Let_def split: list.splits)

lemma nextRIUpd_outstanding:
  assumes "nextRIUpdPacket adv p = Some (pkt, p')" "transport_ok (p_Transport p)"
  shows "outstanding p' (PRIUpd pkt)" "transport_ok (p_Transport p')" "sstate p' = sstate p"
    "restartProbe p' = restartProbe p" "chatLog p' = chatLog p"
  using assms by (auto simp: nextRIUpdPacket_def outstanding_def NewRIUpdPacket_def tr_sequenced_def
    transport_ok_step Let_def split: list.splits)

text \<open>
  A cached packet that is sent under the current numbers; afterwards the sender waits for it.
\<close>

definition cached :: "SenderState \<Rightarrow> Packet \<Rightarrow> peer_world \<Rightarrow> bool" where
  "cached ss pkt w \<longleftrightarrow>
     peer_inv w \<and> lastRISent (w_peer w) = Some pkt \<and> outstanding (w_peer w) pkt \<and> awaited ss pkt \<and>
     (restartProbe (w_peer w) \<longrightarrow> ss = SenderWaitForRIUpdAck)"

lemma wp_cached_send:
  assumes "cached ss pkt w"
  shows "wp (act_seq (send E pkt) (setSState ss)) (\<lambda>_. peer_inv) w"
proof -
  have inv: "peer_inv (send_world E pkt w)"
    using assms by (simp add: cached_def)
  moreover have "outstanding (w_peer (send_world E pkt w)) pkt"
    using assms by (simp add: outstanding_def cached_def)
  ultimately have "peer_inv ((send_world E pkt w)\<lparr>w_peer := (w_peer (send_world E pkt w))\<lparr>sstate := ss\<rparr>\<rparr>)"
    using assms by (auto simp: peer_inv_def peer_ok_def sender_ok_def outstanding_def cached_def)
  with inv show ?thesis
    by (simp add: wp_simps split: sum.split)
qed

lemma wp_send_cached:
  "cached ss pkt w \<Longrightarrow> wp (act_seq (send_cached E) (setSState ss)) (\<lambda>_. peer_inv) w"
  using wp_cached_send [of ss pkt w E] by (simp add: send_cached_def wp_bind wp_with_peer cached_def)

text \<open>The invariant of an idle sender.\<close>

lemma peer_inv_idle:
  "idle (sstate (w_peer w)) \<Longrightarrow>
   peer_inv w \<longleftrightarrow> transport_ok (p_Transport (w_peer w)) \<and> length (chatLog (w_peer w)) \<le> chatLogLimit \<and>
     \<not> restartProbe (w_peer w) \<and> rt_reach (w_rt w)"
  by (auto simp: peer_inv_def peer_ok_def sender_ok_def idle_def)

lemma wp_sendNextRIRsp:
  assumes "peer_inv w" "\<not> restartProbe (w_peer w)" "sstate (w_peer w) \<in> {SenderConnected, SenderWaitForRIRspAck}"
  shows "wp (sendNextRIRsp E adv) (\<lambda>_. peer_inv) w"
proof (cases "nextRIRspPacket adv (w_peer w)")
  case (Some x)
  obtain pkt p' where x: "nextRIRspPacket adv (w_peer w) = Some (pkt, p')"
    using Some by (cases x) simp
  have tr: "transport_ok (p_Transport (w_peer w))"
    using assms(1) by (simp add: peer_inv_def peer_ok_def)
  note n = nextRIRsp_outstanding [OF x tr]
  have "cached SenderWaitForRIRspAck (PRIRsp pkt) (w\<lparr>w_peer := p'\<lparr>lastRISent := Some (PRIRsp pkt)\<rparr>\<rparr>)"
    using assms n
    by (auto simp: cached_def peer_inv_def peer_ok_def sender_ok_def outstanding_def idle_def)
  from wp_cached_send [OF this, of E] x show ?thesis
    by (simp add: sendNextRIRsp_def wp_with_peer wp_bind [of _ "upd_peer _"] wp_upd_peer)
qed (use assms(1) in \<open>simp add: sendNextRIRsp_def wp_simps\<close>)

lemma wp_sendNextRIUpd:
  assumes "peer_inv w" "sstate (w_peer w) \<in> {SenderConnected, SenderWaitForRIUpdAck}"
  shows "wp (sendNextRIUpd E adv) (\<lambda>_. peer_inv) w"
proof (cases "nextRIUpdPacket adv (w_peer w)")
  case (Some x)
  obtain pkt p' where x: "nextRIUpdPacket adv (w_peer w) = Some (pkt, p')"
    using Some by (cases x) simp
  have tr: "transport_ok (p_Transport (w_peer w))"
    using assms(1) by (simp add: peer_inv_def peer_ok_def)
  note n = nextRIUpd_outstanding [OF x tr]
  have "cached SenderWaitForRIUpdAck (PRIUpd pkt) (w\<lparr>w_peer := p'\<lparr>lastRISent := Some (PRIUpd pkt)\<rparr>\<rparr>)"
    using assms n
    by (auto simp: cached_def peer_inv_def peer_ok_def sender_ok_def outstanding_def idle_def)
  from wp_cached_send [OF this, of E] x show ?thesis
    by (simp add: sendNextRIUpd_def wp_with_peer wp_bind [of _ "upd_peer _"] wp_upd_peer)
qed (use assms(1) in \<open>simp add: sendNextRIUpd_def wp_simps\<close>)

text \<open>A packet under a new sequence number; \<open>p\<close> is the peer with the other fields the caller set.\<close>

lemma cached_fresh:
  assumes "peer_inv w" "sstate (w_peer w) = SenderConnected" "sender_part p = sender_part (w_peer w)"
    "p_Transport p = p_Transport (w_peer w)"
    and "\<And>tr. \<exists>h. AURPHeader (new tr) = Some h \<and> Sequence (HTrHeader h) = tr_localSeq tr \<and>
      ConnectionID (HTrHeader h) = tr_remoteConnID tr" "\<And>tr. awaited ss (new tr)"
    and "p' = p\<lparr>p_Transport := IncLocalSeq (p_Transport p),
               lastRISent := Some (new (IncLocalSeq (p_Transport p)))\<rparr>"
  shows "cached ss (new (IncLocalSeq (p_Transport (w_peer w)))) (w\<lparr>w_peer := p'\<rparr>)"
  using assms(1-4,6) assms(5) [of "IncLocalSeq (p_Transport (w_peer w))"]
  by (auto simp: assms(7) cached_def peer_inv_def peer_ok_def sender_ok_def sender_part_def idle_def
    outstanding_def transport_ok_step)

lemmas fresh_packets =
  NewSenderRDPacket_def NewRIUpdPacket_def tr_sequenced_def

lemma keeps_startSenderShutdown [keeps_intros]: "keeps peer_inv (startSenderShutdown E)"
proof (rule keepsI)
  fix w assume inv: "peer_inv w"
  show "wp (startSenderShutdown E) (\<lambda>_. peer_inv) w"
  proof (cases "sstate (w_peer w) = SenderConnected")
    case True
    let ?tr = "IncLocalSeq (p_Transport (w_peer w))"
    let ?p = "(w_peer w)\<lparr>p_Transport := ?tr, lastRISent := Some (PRD (NewSenderRDPacket ?tr ErrCodeNormalClose)),
      sendRetries := 0\<rparr>"
    have "cached SenderWaitForRDAck (PRD (NewSenderRDPacket ?tr ErrCodeNormalClose)) (w\<lparr>w_peer := ?p\<rparr>)"
      by (rule cached_fresh [OF inv True, of "(w_peer w)\<lparr>sendRetries := 0\<rparr>"])
        (simp_all add: sender_part_def fresh_packets)
    from wp_send_cached [OF this, of E] True show ?thesis
      by (simp add: startSenderShutdown_def wp_with_peer wp_bind [of _ "upd_peer _"] wp_upd_peer
        upd_transport_def cacheRISent_def setSendRetries_def)
  qed (simp add: startSenderShutdown_def wp_simps inv)
qed

lemma wp_probe:
  assumes inv: "peer_inv w" and st: "sstate (w_peer w) = SenderConnected"
  shows "wp (probeRestartedPeer E) (\<lambda>_. peer_inv) w"
proof -
  let ?tr = "IncLocalSeq (p_Transport (w_peer w))" and ?rp = "\<lambda>p. p\<lparr>restartProbe := True\<rparr>"
  let ?pkt = "PRIUpd (NewRIUpdPacket ?tr [null_event])"
  let ?p = "(w_peer w)\<lparr>sendRetries := 0, p_Transport := ?tr, restartProbe := True, lastRISent := Some ?pkt,
    lastSend := env_now E\<rparr>"
  let ?w = "send_world E ?pkt (w\<lparr>w_peer := ?p\<rparr>)"
  have w: "transport_ok (p_Transport (w_peer ?w))" "length (chatLog (w_peer ?w)) \<le> chatLogLimit"
    "rt_reach (w_rt ?w)" "sstate (w_peer ?w) = SenderConnected"
    using inv st by (simp_all add: peer_inv_def peer_ok_def transport_ok_step)
  then have "peer_inv (?w\<lparr>w_peer := (w_peer ?w)\<lparr>restartProbe := False, lastRISent := None\<rparr>\<rparr>)"
    by (subst peer_inv_idle) (simp_all add: idle_def)
  moreover have "peer_inv (?w\<lparr>w_peer := (w_peer ?w)\<lparr>sstate := SenderWaitForRIUpdAck\<rparr>\<rparr>)"
    using w by (auto simp: peer_inv_def peer_ok_def sender_ok_def outstanding_def fresh_packets)
  ultimately show ?thesis
    by (simp add: probeRestartedPeer_def wp_simps split: sum.split)
qed

lemma keeps_acceptOpenReq:
  assumes inv: "peer_inv w" and st: "idle (sstate (w_peer w))"
  shows "wp (acceptOpenReq E pkt) (\<lambda>_. peer_inv) w"
proof -
  let ?w = "w\<lparr>w_peer := setSUIFlags (Flags (oreq_Header pkt))
    ((w_peer w)\<lparr>p_Transport := SetRemoteConnID (ConnectionID (HTrHeader (oreq_Header pkt))) (p_Transport (w_peer w))\<rparr>)\<rparr>"
  have inv': "peer_inv ?w" and st': "idle (sstate (w_peer ?w))"
    using inv st by (simp_all add: peer_inv_idle setSUIFlags_def transport_ok_def SetRemoteConnID_def)
  have k: "keeps peer_inv (with_peer (\<lambda>p. if rstate p = ReceiverUnconnected then
      act_seq (setSendRetries 0) (act_seq (storeLastSend E) (openReceiver E)) else act_ret ()))"
    by (intro keeps_intros)
  let ?R = "\<lambda>_ w. peer_inv w \<and> idle (sstate (w_peer w))"
  have "wp (act_seq (send E orsp) (act_seq (if b then act_seq (setSState SenderConnected) table_AddObserver
          else act_ret ()) (with_peer (\<lambda>p. if rstate p = ReceiverUnconnected then
      act_seq (setSendRetries 0) (act_seq (storeLastSend E) (openReceiver E)) else act_ret ()))))
      (\<lambda>_. peer_inv) w'"
    if "peer_inv w'" "idle (sstate (w_peer w'))" for orsp b w'
  proof (rule wp_bindI [where R = ?R])
    show "wp (send E orsp) ?R w'" using that by (simp add: wp_simps)
    fix x w'' assume R: "?R (Inr x) w''"
    then have "wp (if b then act_seq (setSState SenderConnected) table_AddObserver else act_ret ()) (\<lambda>_. peer_inv) w''"
      by (auto simp: wp_simps peer_inv_idle idle_def intro: reach_step step_observe)
    then show "wp (act_seq (if b then act_seq (setSState SenderConnected) table_AddObserver
          else act_ret ()) (with_peer (\<lambda>p. if rstate p = ReceiverUnconnected then
      act_seq (setSendRetries 0) (act_seq (storeLastSend E) (openReceiver E)) else act_ret ())))
      (\<lambda>_. peer_inv) w''"
      by (rule wp_bindI) (use k in \<open>auto dest: keepsD\<close>)
  qed simp
  from this [OF inv' st'] show ?thesis
    unfolding acceptOpenReq_def Let_def
    by (simp add: wp_bind [of _ "upd_peer _"] wp_upd_peer wp_with_peer upd_transport_def)
qed

lemma keeps_handleOpenReq [keeps_intros]: "keeps peer_inv (handleOpenReq E pkt)"
  by (rule keepsI) (auto simp: handleOpenReq_def wp_with_peer wp_if wp_ret Let_def idle_def
    intro: keeps_acceptOpenReq wp_probe)

lemma keeps_handleRIReq [keeps_intros]: "keeps peer_inv (handleRIReq E pkt)"
  unfolding handleRIReq_def
proof (rule keeps_dropping [OF keeps_checks(2) keepsI])
  fix w :: peer_world assume inv: "peer_inv w"
  let ?w = "w\<lparr>w_peer := (setSUIFlags (Flags (rireq_Header pkt)) (w_peer w))
    \<lparr>p_Transport := ResetLocalSeq (p_Transport (w_peer w))\<rparr>\<rparr>"
  show "wp (with_peer (\<lambda>p. if sstate p \<noteq> SenderConnected then act_ret ()
       else act_seq (upd_peer (setSUIFlags (Flags (rireq_Header pkt))))
         (act_seq (upd_transport ResetLocalSeq) (with_table (\<lambda>rt. with_peer (\<lambda>p.
           case prepareRIRsp (env_now E) rt p of Inl e \<Rightarrow> act_fail (ErrChunk e)
           | Inr p' \<Rightarrow> act_seq (upd_peer (\<lambda>_. p')) (sendNextRIRsp E False))))))) (\<lambda>_. peer_inv) w"
  proof (cases "sstate (w_peer w) = SenderConnected")
    case True
    then have inv': "peer_inv ?w" and st': "sstate (w_peer ?w) = SenderConnected" "\<not> restartProbe (w_peer ?w)"
      using inv by (auto simp: peer_inv_idle idle_def setSUIFlags_def ResetLocalSeq_def transport_ok_def)
    have tr: "ResetLocalSeq (ResetLocalSeq tr) = ResetLocalSeq tr" for tr
      by (simp add: ResetLocalSeq_def)
    have "wp (sendNextRIRsp E False) (\<lambda>_. peer_inv) (w\<lparr>w_peer := p'\<rparr>)"
      if "prepareRIRsp (env_now E) (w_rt w) (w_peer ?w) = Inr p'" for p'
    proof (rule wp_sendNextRIRsp)
      from that obtain chunks where p': "p' = (w_peer ?w)\<lparr>pendingRIRsp := chunks\<rparr>"
        by (auto simp: prepareRIRsp_def Let_def tr split: sum.splits)
      with inv' st' show "peer_inv (w\<lparr>w_peer := p'\<rparr>)"
        by (simp add: peer_inv_idle idle_def)
      show "\<not> restartProbe (w_peer (w\<lparr>w_peer := p'\<rparr>))"
        "sstate (w_peer (w\<lparr>w_peer := p'\<rparr>)) \<in> {SenderConnected, SenderWaitForRIRspAck}"
        using p' st' by simp_all
    qed
    with True inv' show ?thesis
      by (simp add: wp_bind [of _ "upd_peer _"] wp_upd_peer wp_with_peer wp_with_table upd_transport_def
        wp_fail setSUIFlags_def split: sum.split)
  qed (simp add: inv wp_simps)
qed

lemma wp_advance:
  assumes inv: "peer_inv w" and rp: "\<not> restartProbe (w_peer w)"
    and ss: "ss = sstate (w_peer w)"
  shows "wp (advanceSender E ss) (\<lambda>_. peer_inv) w"
proof -
  have k: "keeps peer_inv (with_peer (\<lambda>p. if rstate p = ReceiverUnconnected
           then act_seq (setSendRetries 0) (openReceiver E) else act_ret ()))"
    by (intro keeps_intros)
  have "wp (act_seq (setSState SenderConnected) (act_seq table_AddObserver
    (with_peer (\<lambda>p. if rstate p = ReceiverUnconnected
           then act_seq (setSendRetries 0) (openReceiver E) else act_ret ())))) (\<lambda>_. peer_inv) w"
  proof (rule wp_bindI [where R = "\<lambda>_. peer_inv"])
    show "wp (setSState SenderConnected) (\<lambda>_. peer_inv) w"
      using inv rp by (auto simp: wp_simps peer_inv_def peer_ok_def sender_ok_def idle_def)
    fix w' assume "peer_inv w'"
    then show "wp (act_seq table_AddObserver (with_peer (\<lambda>p. if rstate p = ReceiverUnconnected
           then act_seq (setSendRetries 0) (openReceiver E) else act_ret ()))) (\<lambda>_. peer_inv) w'"
      using k by (intro keepsD [OF keeps_bind] keeps_observers)
  qed simp
  then show ?thesis
    using assms wp_sendNextRIRsp [OF inv rp] wp_sendNextRIUpd [OF inv]
    by (simp add: advanceSender_def wp_with_peer wp_if)
qed

lemma send_all_sstate:
  "wp (send_all E pkts) (\<lambda>_ w'. core (w_peer w') = core (w_peer w)) w"
proof (induction pkts arbitrary: w)
  case (Cons pkt pkts)
  show ?case
    using Cons.IH [of "send_world E pkt w"] by (simp add: wp_simps split: sum.split)
qed (simp add: wp_simps)

lemma sendZIRsp_core: "wp (sendZIRspPackets E zl) (\<lambda>_ w'. core (w_peer w') = core (w_peer w)) w"
  using send_all_sstate by (simp add: sendZIRspPackets_def wp_simps split: sum.split)

lemma keeps_handleRIAck [keeps_intros]: "keeps peer_inv (handleRIAck E pkt)"
  unfolding handleRIAck_def
proof (rule keeps_dropping [OF keeps_checks(2) keepsI], unfold wp_with_peer)
  fix w assume inv: "peer_inv w"
  let ?p = "w_peer w"
  let ?zones = "if Flags (riack_Header pkt) AND RoutingFlagSendZoneInfo \<noteq> 0
    then with_table (\<lambda>rt. ignoring (sendZIRspPackets E
           (ZonesForNetworks (env_now E) (acked_networks (lastRISent ?p)) rt)))
    else act_ret ()"
  have z: "wp ?zones (\<lambda>_ w'. peer_inv w' \<and> core (w_peer w') = core ?p) w"
    by (rule wp_conj) (auto simp: wp_simps inv sendZIRsp_core intro: keepsD [OF keeps_sends(3)])
  have a: "wp (act_seq ?zones (act_seq (setSendRetries 0) (advanceSender E (sstate ?p)))) (\<lambda>_. peer_inv) w"
    if rp: "\<not> restartProbe ?p"
    using z
  proof (rule wp_bindI)
    fix x w' assume w': "peer_inv w' \<and> core (w_peer w') = core ?p"
    have "wp (setSendRetries 0) (\<lambda>_. peer_inv) w'"
      using w' by (intro keepsD [OF keeps_small(2)]) simp
    then have "wp (setSendRetries 0) (\<lambda>_ v. peer_inv v \<and> \<not> restartProbe (w_peer v) \<and> sstate ?p = sstate (w_peer v)) w'"
      using w' rp core_eqD(2,6) [of "w_peer w'" ?p] by (simp add: wp_simps)
    then show "wp (act_seq (setSendRetries 0) (advanceSender E (sstate ?p))) (\<lambda>_. peer_inv) w'"
      by (rule wp_bindI) (use wp_advance in auto)
  qed simp
  have c: "wp (act_seq (setSendRetries 0) (act_seq table_RemoveObserver disconnectSender)) (\<lambda>_. peer_inv) w"
    using inv by (intro keepsD [OF keeps_bind]) (intro keeps_intros)+
  have s: "sender_ok ?p"
    using inv by (simp add: peer_inv_def peer_ok_def)
  consider "Sequence (HTrHeader (riack_Header pkt)) \<noteq> tr_localSeq (p_Transport ?p)"
    | "sstate ?p = SenderWaitForRIUpdAck \<and> restartProbe ?p" | "sstate ?p = SenderWaitForRDAck"
    | "\<not> restartProbe ?p"
    using s by (auto simp: sender_ok_def)
  then show "wp (if Sequence (HTrHeader (riack_Header pkt)) \<noteq> tr_localSeq (p_Transport ?p) then act_ret ()
       else if sstate ?p = SenderWaitForRIUpdAck \<and> restartProbe ?p then
         upd_peer (\<lambda>p. p\<lparr>sendRetries := 0, restartProbe := False, lastRISent := None, sstate := SenderConnected\<rparr>)
       else if sstate ?p = SenderWaitForRDAck then
         act_seq (setSendRetries 0) (act_seq table_RemoveObserver disconnectSender)
       else act_seq ?zones (act_seq (setSendRetries 0) (advanceSender E (sstate ?p)))) (\<lambda>_. peer_inv) w"
    by cases (use inv a c in \<open>auto simp: wp_if wp_ret wp_upd_peer peer_inv_def peer_ok_def sender_ok_def idle_def\<close>)
qed

lemma keeps_sender [keeps_intros]:
  "keeps peer_inv (handleZIReq E zireq)" "keeps peer_inv (handleGDZLReq E gdzl)" "keeps peer_inv (handleGZNReq E gzn)"
  "keeps peer_inv (handleTickle E tick)"
  unfolding handleZIReq_def handleGDZLReq_def handleGZNReq_def handleTickle_def
  by (intro keeps_intros)+

lemma keeps_handlePacket [keeps_intros]: "keeps peer_inv (handlePacket E pkt)"
proof -
  have "keeps peer_inv (upd_peer (addToChatLog (env_now E) pkt False))"
    using chatLog_limit by (intro keeps_upd) (auto elim!: peer_ok_core [rotated 2])
  moreover have "keeps peer_inv (dispatch E pkt)"
    by (cases pkt) (auto intro!: keeps_intros)
  ultimately show ?thesis
    unfolding handlePacket_def by (intro keeps_bind)
qed

text \<open>
  A confirmed loop advances the sequence number even while a packet is outstanding; the connection
  is closed at once, so only the parts of the invariant that do not speak of it matter in between.
\<close>

lemma keeps_confirmed_loop [keeps_intros]: "keeps peer_inv (handleConfirmedRoutingLoop E)"
proof (rule keepsI)
  fix w assume inv: "peer_inv w"
  let ?q = "(w_peer w)\<lparr>loopDisabled := True\<rparr>"
  have close: "wp (disconnect E) (\<lambda>_. peer_inv) v"
    if "transport_ok (p_Transport (w_peer v))" "length (chatLog (w_peer v)) \<le> chatLogLimit" "rt_reach (w_rt v)" for v
    using that
    by (auto simp: disconnect_def disconnectReceiver_def disconnectSender_def table_DeleteTarget_def wp_simps
      peer_inv_idle idle_def SetRemoteConnID_def ResetLocalSeq_def ResetRemoteSeq_def IncLocalConnID_def
      transport_ok_def Succ_neq_0 split: option.splits intro: reach_ops)
  have "wp (if sstate (w_peer w) \<noteq> SenderUnconnected then act_seq (upd_transport IncLocalSeq)
        (ignoring (send_new E (\<lambda>tr. PRD (NewSenderRDPacket tr ErrCodeRoutingLoop)))) else act_ret ())
      (\<lambda>r v. r = Inr () \<and> transport_ok (p_Transport (w_peer v)) \<and> length (chatLog (w_peer v)) \<le> chatLogLimit \<and>
        rt_reach (w_rt v)) (w\<lparr>w_peer := ?q\<rparr>)"
    using inv by (simp add: wp_simps peer_inv_def peer_ok_def transport_ok_step split: sum.split)
  then have "wp (act_seq (if sstate (w_peer w) \<noteq> SenderUnconnected then act_seq (upd_transport IncLocalSeq)
        (ignoring (send_new E (\<lambda>tr. PRD (NewSenderRDPacket tr ErrCodeRoutingLoop)))) else act_ret ())
      (disconnect E)) (\<lambda>_. peer_inv) (w\<lparr>w_peer := ?q\<rparr>)"
    by (rule wp_bindI) (auto intro: close)
  then show "wp (handleConfirmedRoutingLoop E) (\<lambda>_. peer_inv) w"
    using inv by (simp add: handleConfirmedRoutingLoop_def wp_with_peer wp_if wp_ret wp_bind [of _ "upd_peer _"] wp_upd_peer)
qed



section \<open>Periodic tasks and the handle loop\<close>

lemma keeps_retry_tick [keeps_intros]:
  "keeps peer_inv give_up \<Longrightarrow> keeps peer_inv again \<Longrightarrow> keeps peer_inv (retry_tick E limit give_up again)"
  unfolding retry_tick_def by (intro keeps_intros)

lemma keeps_probeSender [keeps_intros]: "keeps peer_inv (probeSender E)"
proof (rule keepsI)
  fix w assume inv: "peer_inv w"
  show "wp (probeSender E) (\<lambda>_. peer_inv) w"
  proof (cases "sstate (w_peer w) = SenderConnected \<and> env_now E - lastSend (w_peer w) > retryInterval (w_peer w)")
    case True
    let ?tr = "IncLocalSeq (p_Transport (w_peer w))" and ?n = "sendRetries (w_peer w) + 1"
    let ?p = "(w_peer w)\<lparr>sendRetries := ?n, lastSend := env_now E, p_Transport := ?tr,
      lastRISent := Some (PRIUpd (NewRIUpdPacket ?tr [null_event]))\<rparr>"
    have "cached SenderWaitForRIUpdAck (PRIUpd (NewRIUpdPacket ?tr [null_event])) (w\<lparr>w_peer := ?p\<rparr>)"
      by (rule cached_fresh [OF inv, of "(w_peer w)\<lparr>sendRetries := ?n, lastSend := env_now E\<rparr>"])
        (use True in \<open>simp_all add: sender_part_def fresh_packets\<close>)
    from wp_send_cached [OF this, of E] True show ?thesis
      by (simp add: probeSender_def wp_with_peer wp_bind [of _ "upd_peer _"] wp_upd_peer
        upd_transport_def cacheRISent_def addSendRetry_def storeLastSend_def)
  qed (simp only: probeSender_def wp_with_peer wp_if wp_ret if_False inv)
qed

lemma keeps_rtickerTasks [keeps_intros]: "keeps peer_inv (rtickerTasks E)"
  unfolding rtickerTasks_def rticker_state_def by (intro keeps_intros)

lemma keeps_sendPendingEvents:
  assumes inv: "peer_inv w" and st: "sstate (w_peer w) = SenderConnected"
  shows "wp (sendPendingEvents E) (\<lambda>_. peer_inv) w"
proof -
  have i: "peer_inv (w\<lparr>w_peer := (w_peer w)\<lparr>pendingEvents := []\<rparr>\<rparr>)"
    using inv by (rule peer_inv_core [rotated 3]) simp_all
  have "wp (sendNextRIUpd E True) (\<lambda>_. peer_inv) (w\<lparr>w_peer := p'\<lparr>lastUpdate := env_now E\<rparr>\<rparr>)"
    if "prepareRIUpd (w_peer w) = Inr p'" for p'
  proof (rule wp_sendNextRIUpd)
    from that have "sender_part p' = sender_part (w_peer w)" "p_Transport p' = p_Transport (w_peer w)"
      by (auto simp: prepareRIUpd_def takePendingEvents_def sender_part_def split: if_splits sum.splits)
    with inv st show "peer_inv (w\<lparr>w_peer := p'\<lparr>lastUpdate := env_now E\<rparr>\<rparr>)"
      "sstate (w_peer (w\<lparr>w_peer := p'\<lparr>lastUpdate := env_now E\<rparr>\<rparr>)) \<in> {SenderConnected, SenderWaitForRIUpdAck}"
      by (auto simp: peer_inv_idle idle_def sender_part_def)
  qed
  with i inv show ?thesis
    by (simp add: sendPendingEvents_def wp_with_peer wp_if wp_ret wp_fail wp_bind [of _ "upd_peer _"] wp_upd_peer
      takePendingEvents_def split: sum.split)
qed

lemma keeps_retry_send:
  "keeps peer_inv (send_cached E)"
  unfolding send_cached_def by (intro keeps_intros)

lemma wp_give_up:
  "peer_inv w \<Longrightarrow> \<not> restartProbe (w_peer w) \<Longrightarrow>
   wp (act_seq (setSState SenderUnconnected) table_RemoveObserver) (\<lambda>_. peer_inv) w"
  by (auto simp: wp_simps peer_inv_def peer_ok_def sender_ok_def idle_def intro: reach_step step_unobserve)

lemma keeps_stickerTasks [keeps_intros]: "keeps peer_inv (stickerTasks E)"
proof (rule keepsI)
  fix w assume inv: "peer_inv w"
  have s: "wp (act_seq addSendRetry (act_seq (storeLastSend E) (send_cached E))) (\<lambda>_. peer_inv) w"
    "wp (act_seq addSendRetry (send_cached E)) (\<lambda>_. peer_inv) w" "wp closeSender (\<lambda>_. peer_inv) w"
    by (rule keepsD [where I = peer_inv, OF _ inv], intro keeps_intros keeps_retry_send)+
  note g = wp_give_up [OF inv] and e = keeps_sendPendingEvents [OF inv]
  show "wp (stickerTasks E) (\<lambda>_. peer_inv) w"
    by (cases "sstate (w_peer w)")
      (simp_all add: stickerTasks_def wp_with_peer wp_if wp_ret inv s g e)
qed

lemma keeps_exit [keeps_intros]: "keeps peer_inv handle_exit"
  unfolding handle_exit_def
  by (intro keeps_intros keeps_upd_part) (simp_all add: sender_part_def)

lemma keeps_turn [keeps_intros]: "keeps peer_inv (handle_turn E ev)"
proof -
  have "keeps peer_inv (handle_reconnect E)"
    unfolding handle_reconnect_def
    by (intro keeps_intros keeps_upd_part) (simp_all add: sender_part_def)
  then show ?thesis
    by (cases ev) (auto intro!: keeps_intros)
qed

lemma keeps_Handle_begin [keeps_intros]: "keeps peer_inv (Handle_begin E)"
  unfolding Handle_begin_def handle_start_def
  by (intro keeps_intros keeps_upd_part) (simp_all add: sender_part_def)

lemma keeps_shutdown [keeps_intros]: "keeps peer_inv (shutdown_turn E ev)"
  unfolding shutdown_turn_def by (intro keeps_intros)

lemma keeps_Forward [keeps_intros]: "keeps peer_inv (Forward_act ddp E q)"
  unfolding Forward_act_def sendTickleBeforeDataIfNeeded_def by (intro keeps_intros)



section \<open>Reachable worlds\<close>

text \<open>
  The world starts as \<open>LookupOrCreate\<close> makes the peer: both sides unconnected, nothing cached.  It
  moves by the turns of \<open>Handle\<close>, its start, the turns of a graceful shutdown, data forwarded to the
  peer, the domain identifier that the dispatcher stores, and what the other components do: they
  change the route table, and its notifications reach the peer.
\<close>

definition fresh_peer :: "AURPPeerSM \<Rightarrow> bool" where
  "fresh_peer p \<longleftrightarrow>
     transport_ok (p_Transport p) \<and> sstate p = SenderUnconnected \<and> rstate p = ReceiverUnconnected \<and>
     \<not> restartProbe p \<and> chatLog p = [] \<and> pendingZoneInfo p = [] \<and> pendingEvents p = []"

inductive peer_step :: "peer_world \<Rightarrow> peer_world \<Rightarrow> bool" where
  step_begin: "Handle_begin E w = Some (r, w') \<Longrightarrow> peer_step w w'"
| step_turn: "handle_turn E ev w = Some (r, w') \<Longrightarrow> peer_step w w'"
| step_shutdown: "shutdown_turn E ev w = Some (r, w') \<Longrightarrow> peer_step w w'"
| step_forward: "Forward_act ddp E q w = Some (r, w') \<Longrightarrow> peer_step w w'"
| step_identity: "di_ok di \<Longrightarrow>
    peer_step w (w\<lparr>w_peer := (w_peer w)\<lparr>p_Transport := SetRemoteDI di (p_Transport (w_peer w))\<rparr>\<rparr>)"
| step_others: "rt_step (w_rt w) rt' \<Longrightarrow> peer_step w (fold deliver evs (w\<lparr>w_rt := rt'\<rparr>))"

inductive peer_reach :: "peer_world \<Rightarrow> bool" where
  start: "fresh_peer (w_peer w) \<Longrightarrow> rt_reach (w_rt w) \<Longrightarrow> peer_reach w"
| move: "peer_reach w \<Longrightarrow> peer_step w w' \<Longrightarrow> peer_reach w'"

inductive_cases peer_stepE: "peer_step w w'"

lemma peer_inv_step: "peer_step w w' \<Longrightarrow> peer_inv w \<Longrightarrow> peer_inv w'"
proof (induction rule: peer_step.induct)
  case (step_identity di w)
  then show ?case
    by (auto simp: peer_inv_def SetRemoteDI_def transport_ok_def peer_ok_def sender_ok_def outstanding_def)
next
  case (step_others w rt' evs)
  then show ?case
    by (auto elim!: peer_inv_core [rotated 3] intro: reach_step)
qed (blast intro: wpD [OF keepsD] keeps_intros)+

lemma peer_inv_reach: "peer_reach w \<Longrightarrow> peer_inv w"
proof (induction rule: peer_reach.induct)
  case (start w)
  then show ?case by (simp add: peer_inv_idle fresh_peer_def idle_def)
qed (rule peer_inv_step)

end
