(* ===== verification/PeerSequence.thy ===== *)
theory PeerSequence
  imports PeerInv
begin

text \<open>
  The sequencing of routing packets on the receiver connection: which packets may
  change the route table, what happens to duplicates, and what closing the
  connection withdraws.
\<close>

section \<open>Routes learned from a peer\<close>

text \<open>The routes stored for the peer, by the first network of their range.\<close>

definition learned :: "peer_world \<Rightarrow> network \<Rightarrow> (bool \<times> network \<times> byte) option" where
  "learned w n =
     map_option (\<lambda>r. (r_Extended r, r_NetEnd r, r_Distance r))
       (rt_abs (w_rt w) (target_key (peer_target (w_peer w)) n))"

lemma learned_find:
  assumes "rt_reach (w_rt w)"
  shows "learned w n =
    (let r = find_route (peer_target (w_peer w)) n (w_rt w) in
     if Route_Zero r then None else Some (r_Extended r, r_NetEnd r, r_Distance r))"
  using find_route_Zero [OF _ target_ok_peer, of "w_rt w" "w_peer w" n] rt_inv_reach [OF assms]
  by (auto simp: learned_def rt_inv_def find_route_abs [OF target_ok_peer] split: option.split)

lemma rk_target_key [simp]: "rk_TargetKey (target_key t n) = tg_RouteTargetKey t"
  by (simp add: target_key_def)

definition closed_receiver :: "peer_world \<Rightarrow> peer_world \<Rightarrow> bool" where
  "closed_receiver w w' \<longleftrightarrow>
     rstate (w_peer w') = ReceiverUnconnected \<and> pendingZoneInfo (w_peer w') = [] \<and>
     tr_localConnID (p_Transport (w_peer w')) = Succ (tr_localConnID (p_Transport (w_peer w))) \<and>
     tr_remoteSeq (p_Transport (w_peer w')) = 1 \<and> learned w' = (\<lambda>_. None) \<and>
     (\<forall>k. rk_TargetKey k \<noteq> tg_RouteTargetKey (peer_target (w_peer w)) \<longrightarrow>
        rt_abs (w_rt w') k = rt_abs (w_rt w) k)"

lemma runs_disconnectReceiver:
  assumes "rt_reach (w_rt w)"
  shows "runs (disconnectReceiver E) (\<lambda>r w'. r = Inr () \<and> closed_receiver w w' \<and> w_sent w' = w_sent w \<and>
      sstate (w_peer w') = sstate (w_peer w) \<and> timing (w_peer w') = timing (w_peer w) \<and>
      sendRetries (w_peer w') = sendRetries (w_peer w) \<and>
      reconnectFailures (w_peer w') = reconnectFailures (w_peer w)) w"
proof -
  obtain rt' evs where "DeleteTarget (env_now E) (peer_target (w_peer w)) (w_rt w) = Some (rt', evs)"
    "rt_abs rt' = (\<lambda>k. if rk_TargetKey k = tg_RouteTargetKey (peer_target (w_peer w)) then None
        else rt_abs (w_rt w) k)"
    using DeleteTarget_ok [OF rt_inv_reach [OF assms] target_ok_peer] by blast
  then show ?thesis
    by (simp add: disconnectReceiver_def table_DeleteTarget_def wp_simps closed_receiver_def learned_def
      IncLocalConnID_def ResetRemoteSeq_def peer_target_def fun_eq_iff)
qed


section \<open>What a routing packet may change\<close>

abbreviation conn_of :: "Packet \<Rightarrow> u16" where
  "conn_of pkt \<equiv> ConnectionID (HTrHeader (the (AURPHeader pkt)))"

abbreviation seq_of :: "Packet \<Rightarrow> u16" where
  "seq_of pkt \<equiv> Sequence (HTrHeader (the (AURPHeader pkt)))"

abbreviation expected :: "peer_world \<Rightarrow> u16" where
  "expected w \<equiv> tr_remoteSeq (p_Transport (w_peer w))"

definition table_change_ok :: "u16 \<Rightarrow> u16 \<Rightarrow> peer_world \<Rightarrow> peer_world \<Rightarrow> bool" where
  "table_change_ok conn s w w' \<longleftrightarrow>
     w_rt w' = w_rt w \<or>
     conn = tr_localConnID (p_Transport (w_peer w)) \<and>
     (s = expected w \<or> s = Succ (expected w) \<and> closed_receiver w w')"

lemma wp_True [simp]: "wp m (\<lambda>_ _. True) w"
  by (simp add: wpx_def split: option.split)

text \<open>Worlds with the same table and the same connection.\<close>

definition same_conn :: "peer_world \<Rightarrow> peer_world \<Rightarrow> bool" where
  "same_conn v w \<longleftrightarrow>
     w_rt v = w_rt w \<and> p_Transport (w_peer v) = p_Transport (w_peer w) \<and> tunnelID (w_peer v) = tunnelID (w_peer w)"

lemma closed_receiver_cong: "same_conn v w \<Longrightarrow> closed_receiver v w' \<longleftrightarrow> closed_receiver w w'"
  by (simp add: closed_receiver_def same_conn_def peer_target_def)

lemma wp_closeI:
  assumes "rt_reach (w_rt w)" "same_conn v w"
  shows "wp (disconnectReceiver E) (\<lambda>r w'. r = Inr () \<and> closed_receiver w w') v"
proof -
  have "rt_reach (w_rt v)" using assms by (simp add: same_conn_def)
  from runs_imp_wp [OF runs_disconnectReceiver [OF this]] show ?thesis
    by (rule wp_mono) (simp add: closed_receiver_cong [OF assms(2)])
qed

text \<open>A sequence number other than the expected one: the packet is dropped.\<close>

lemma wp_out_of_sequence:
  assumes reach: "rt_reach (w_rt w)" and v: "same_conn v w"
    and bad: "Sequence th \<noteq> expected w"
  shows "wp (dropping (checkRemoteSeqWithAckFlags E th fl) k)
    (\<lambda>_ w'. w_rt w' = w_rt w \<or> Sequence th = Succ (expected w) \<and> closed_receiver w w') v"
proof (cases "Sequence th = Succ (expected w) \<and> Sequence th \<noteq> Pred (expected w)")
  case True
  let ?k = "\<lambda>k. k\<lparr>k_futureRoutingPackets := k_futureRoutingPackets k + 1\<rparr>"
  let ?v = "v\<lparr>w_peer := (w_peer v)\<lparr>counters := ?k (counters (w_peer v))\<rparr>\<rparr>"
  have "wp (disconnectReceiver E) (\<lambda>r w'. r = Inr () \<and> closed_receiver w w') ?v"
    using v by (intro wp_closeI [OF reach]) (simp add: same_conn_def)
  then have "wp (act_seq (disconnectReceiver E) (act_fail ErrDropPacket))
      (\<lambda>r w'. r = Inl ErrDropPacket \<and> closed_receiver w w') ?v"
    by (rule wp_bindI) (simp_all add: wp_simps)
  then have "wp (act_seq (disconnectReceiver E) (act_fail ErrDropPacket))
      (\<lambda>r w'. case r of Inl e \<Rightarrow> if e = ErrDropPacket then w_rt w' = w_rt w \<or> closed_receiver w w'
           else w_rt w' = w_rt w \<or> closed_receiver w w'
         | Inr _ \<Rightarrow> wp k (\<lambda>_ w'. w_rt w' = w_rt w \<or> closed_receiver w w') w') ?v"
    by (rule wp_mono) simp
  moreover have "Succ (expected w) \<noteq> Pred (expected w)" "Succ (expected w) \<noteq> expected w"
    "Sequence th = Succ (expected w)"
    using True bad by auto
  ultimately show ?thesis
    using v by (simp add: same_conn_def checkRemoteSeqWithAckFlags_def wp_dropping wp_with_peer wp_if Let_def count_def
      wp_bind [of _ "upd_peer _"] wp_upd_peer)
next
  case False
  with bad v show ?thesis
    by (auto simp: same_conn_def checkRemoteSeqWithAckFlags_def wp_simps Let_def split: sum.split)
qed

text \<open>A packet that passes the connection check, and what is done before its sequence is checked.\<close>

lemma wp_connected:
  assumes "conn = tr_localConnID (p_Transport (w_peer w)) \<Longrightarrow>
      wp k (\<lambda>_ w'. table_change_ok conn s w w') w"
    and "ConnectionID th = conn"
  shows "wp (dropping (checkLocalConnID th) k) (\<lambda>_ w'. table_change_ok conn s w w') w"
  using assms by (auto simp: checkLocalConnID_def wp_simps table_change_ok_def)

lemma wp_sequenced:
  assumes "rt_reach (w_rt w)" "conn = tr_localConnID (p_Transport (w_peer w))" "Sequence th = s"
    "same_conn v w"
  shows "wp (dropping (checkRemoteSeqWithAckFlags E th fl) k) (\<lambda>_ w'. table_change_ok conn s w w') v"
proof (cases "s = expected w")
  case True
  then show ?thesis
    using assms(2) by (simp add: table_change_ok_def)
next
  case False
  then have "Sequence th \<noteq> expected w" by (simp add: assms(3))
  from wp_out_of_sequence [OF assms(1,4) this] show ?thesis
    by (rule wp_mono) (use assms in \<open>auto simp: table_change_ok_def\<close>)
qed

lemma wp_RIRsp:
  assumes "rt_reach (w_rt w)"
  shows "wp (handleRIRsp E pkt)
    (\<lambda>_ w'. table_change_ok (conn_of (PRIRsp pkt)) (seq_of (PRIRsp pkt)) w w') w"
  unfolding handleRIRsp_def checkRemoteSeq_def
proof (rule wp_connected)
  assume conn: "conn_of (PRIRsp pkt) = tr_localConnID (p_Transport (w_peer w))"
  show "wp (act_seq (markReceiverAlive E) (dropping
      (checkRemoteSeqWithAckFlags E (HTrHeader (rirsp_Header pkt)) RoutingFlagSendZoneInfo) (acceptRIRsp E pkt)))
    (\<lambda>_ w'. table_change_ok (conn_of (PRIRsp pkt)) (seq_of (PRIRsp pkt)) w w') w"
    unfolding markReceiverAlive_def wp_bind [of _ "upd_peer _"] wp_upd_peer sum.case
    by (rule wp_sequenced [OF assms conn]) (simp_all add: same_conn_def)
qed simp

lemma wp_RIUpd:
  assumes "rt_reach (w_rt w)"
  shows "wp (handleRIUpd E pkt)
    (\<lambda>_ w'. table_change_ok (conn_of (PRIUpd pkt)) (seq_of (PRIUpd pkt)) w w') w"
  unfolding handleRIUpd_def checkRemoteSeq_def
proof (rule wp_connected)
  let ?Q = "\<lambda>(_ :: peer_error + unit) w'. table_change_ok (conn_of (PRIUpd pkt)) (seq_of (PRIUpd pkt)) w w'"
  let ?check = "checkRemoteSeqWithAckFlags E (HTrHeader (riupd_Header pkt)) RoutingFlagSendZoneInfo"
  assume conn: "conn_of (PRIUpd pkt) = tr_localConnID (p_Transport (w_peer w))"
  have seq: "wp (dropping ?check k) ?Q v" if "same_conn v w" for k v
    using that by (intro wp_sequenced [OF assms conn]) simp_all
  show "wp (act_seq (markReceiverAlive E) (with_peer (\<lambda>p. case rstate p of
         ReceiverConnected \<Rightarrow> dropping ?check (acceptRIUpd E pkt)
       | ReceiverWaitForTickleAck \<Rightarrow> act_seq (setRState ReceiverConnected) (dropping ?check (acceptRIUpd E pkt))
       | ReceiverWaitForRIRsp \<Rightarrow> act_seq countEarly (dropping ?check (skipEarlyRIUpd E pkt))
       | _ \<Rightarrow> act_seq countEarly (resyncReceiver E)))) ?Q w"
  proof (cases "rstate (w_peer w)")
    case ReceiverUnconnected
    then show ?thesis
      by (auto simp: wp_simps countEarly_def resyncReceiver_def table_change_ok_def)
  next
    case ReceiverWaitForOpenRsp
    then show ?thesis
      by (auto simp: wp_simps countEarly_def resyncReceiver_def table_change_ok_def)
  qed (simp_all add: markReceiverAlive_def setRState_def countEarly_def count_def
      wp_bind [of _ "upd_peer _"] wp_upd_peer wp_with_peer seq [simplified] same_conn_def)
qed simp


section \<open>What applying routes leaves alone\<close>

text \<open>The loops over the tuples of a packet change the table and the awaited zones, not the connection.\<close>

definition core_is :: "AURPPeerSM \<Rightarrow> peer_world \<Rightarrow> bool" where
  "core_is c w \<longleftrightarrow> core (w_peer w) = c"

lemma core_is_upd [keeps_intros]: "(\<And>p. core (f p) = core p) \<Longrightarrow> keeps (core_is c) (upd_peer f)"
  by (simp add: keeps_def wp_simps core_is_def)

lemma core_is_small [keeps_intros]:
  "keeps (core_is c) (send E pkt)" "keeps (core_is c) (table_call op)" "keeps (core_is c) (count k)"
  "keeps (core_is c) (send_new E new)" "keeps (core_is c) (sendRIAck E th fl)"
  by (simp_all add: keeps_def wp_simps core_is_def sendRIAck_def split: option.split)

lemma core_is_apply [keeps_intros]:
  "keeps (core_is c) (apply_networks E nts fl)" "keeps (core_is c) (apply_events E ets fl)"
proof -
  have z: "keeps (core_is c) (markZoneInfoPending E n)" "keeps (core_is c) (clearPendingZoneInfo n)"
    "keeps (core_is c) (ask_needsZoneInfo n)" for n
    unfolding markZoneInfoPending_def clearPendingZoneInfo_def ask_needsZoneInfo_def
    by (intro keeps_intros; simp split: option.split)+
  have t: "keeps (core_is c) (table_UpsertRoute E b s e d)" "keeps (core_is c) (table_DeleteRoute E s)"
    "keeps (core_is c) (table_UpdateDistance E s d)" "keeps (core_is c) (validateAURPRouteTuple b s e)" for b s e d
    unfolding table_UpsertRoute_def table_DeleteRoute_def table_UpdateDistance_def validateAURPRouteTuple_def
    by (intro keeps_intros)+
  have n: "keeps (core_is c) (applyRIRspNetworkTuple E nt)" for nt
    unfolding applyRIRspNetworkTuple_def Let_def by (intro keeps_intros t)
  have e: "keeps (core_is c) (applyRIUpdEvent E et)" for et
    unfolding applyRIUpdEvent_def applyNDC_def upsertEvent_def removeIfPresent_def Let_def by (intro keeps_intros t z)
  show "keeps (core_is c) (apply_networks E nts fl)"
    by (induction nts arbitrary: fl) (auto intro!: keeps_intros n z)
  show "keeps (core_is c) (apply_events E ets fl)"
    by (induction ets arbitrary: fl) (auto intro!: keeps_intros e z)
qed

text \<open>An accepted packet advances the expected sequence number, and nothing else of the transport.\<close>

definition advanced :: "peer_world \<Rightarrow> peer_world \<Rightarrow> bool" where
  "advanced w w' \<longleftrightarrow> p_Transport (w_peer w') = IncRemoteSeq (p_Transport (w_peer w)) \<and>
     tunnelID (w_peer w') = tunnelID (w_peer w)"

lemma core_isD: "core_is (core (w_peer w)) v \<Longrightarrow>
  p_Transport (w_peer v) = p_Transport (w_peer w) \<and> tunnelID (w_peer v) = tunnelID (w_peer w) \<and>
  rstate (w_peer v) = rstate (w_peer w)"
  by (auto simp: core_is_def dest: core_eqD)

lemma wp_acceptRIRsp: "wp (acceptRIRsp E pkt) (\<lambda>r w'. r = Inr () \<longrightarrow> advanced w w') w"
  unfolding acceptRIRsp_def
proof (rule wp_bindI [where R = "\<lambda>_. core_is (core (w_peer w))"])
  show "wp (apply_networks E (rirsp_Networks pkt) 0) (\<lambda>_. core_is (core (w_peer w))) w"
    by (rule keepsD) (intro keeps_intros, simp add: core_is_def)
qed (auto simp: wp_simps sendRIAck_def advanced_def resetReconnectBackoff_def dest!: core_isD split: sum.split)

lemma wp_acceptRIUpd:
  "wp (acceptRIUpd E pkt) (\<lambda>r w'. r = Inr () \<longrightarrow> advanced w w' \<and> rstate (w_peer w') = rstate (w_peer w)) w"
  unfolding acceptRIUpd_def
proof (rule wp_bindI [where R = "\<lambda>_. core_is (core (w_peer w))"])
  show "wp (apply_events E (riupd_Events pkt) 0) (\<lambda>_. core_is (core (w_peer w))) w"
    by (rule keepsD) (intro keeps_intros, simp add: core_is_def)
qed (auto simp: wp_simps sendRIAck_def advanced_def dest!: core_isD split: sum.split)


section \<open>Duplicates\<close>

text \<open>The acknowledgement of a duplicate; it always can be encoded.\<close>

definition reack :: "peer_world \<Rightarrow> Packet \<Rightarrow> Packet" where
  "reack w pkt = PRIAck (NewRIAckPacket (p_Transport (w_peer w)) (conn_of pkt) (seq_of pkt) RoutingFlagSendZoneInfo)"

lemma reack_sent:
  assumes "transport_ok tr"
  shows "w_sent (send_world E (PRIAck (NewRIAckPacket tr c s fl)) w) = w_sent w @ [PRIAck (NewRIAckPacket tr c s fl)]"
  using sent_bytes(1) [OF assms sends.intros(6) [of tr c s fl]] by (simp add: send_world_sent)

definition only_reacked :: "peer_world \<Rightarrow> Packet \<Rightarrow> peer_world \<Rightarrow> bool" where
  "only_reacked w pkt w' \<longleftrightarrow>
     w_rt w' = w_rt w \<and> w_sent w' = w_sent w @ [reack w pkt] \<and>
     pendingZoneInfo (w_peer w') = pendingZoneInfo (w_peer w) \<and>
     p_Transport (w_peer w') = p_Transport (w_peer w)"

lemma runs_check_duplicate:
  assumes "transport_ok (p_Transport (w_peer v))" "Sequence th = Pred (expected v)"
    and "w_rt v = w_rt w" "w_sent v = w_sent w" "pendingZoneInfo (w_peer v) = pendingZoneInfo (w_peer w)"
    "p_Transport (w_peer v) = p_Transport (w_peer w)" "HTrHeader (the (AURPHeader pkt)) = th"
  shows "runs (dropping (checkRemoteSeq E th) k) (\<lambda>_ w'. only_reacked w pkt w') v"
  using assms
  by (simp add: checkRemoteSeq_def checkRemoteSeqWithAckFlags_def wp_simps Let_def only_reacked_def reack_def
    reack_sent split: sum.split)

lemma runs_duplicate:
  assumes "transport_ok (p_Transport (w_peer w))"
    "pkt = PRIRsp a \<or> pkt = PRIUpd b \<and> rstate (w_peer w) \<in> {ReceiverConnected, ReceiverWaitForTickleAck, ReceiverWaitForRIRsp}"
    "conn_of pkt = tr_localConnID (p_Transport (w_peer w))" "seq_of pkt = Pred (expected w)"
  shows "runs (handlePacket E pkt) (\<lambda>_ w'. only_reacked w pkt w') w"
proof -
  have dup: "runs (dropping (checkRemoteSeq E (HTrHeader (the (AURPHeader pkt)))) k) (\<lambda>_ w'. only_reacked w pkt w') v"
    if "w_rt v = w_rt w" "w_sent v = w_sent w" "pendingZoneInfo (w_peer v) = pendingZoneInfo (w_peer w)"
      "p_Transport (w_peer v) = p_Transport (w_peer w)" for k v
    using that assms by (intro runs_check_duplicate) simp_all
  have chat: "p_Transport (addToChatLog now q b p) = p_Transport p" "rstate (addToChatLog now q b p) = rstate p" for now q b p
    by (simp_all add: addToChatLog_def Let_def)
  have conn: "runs (dropping (checkLocalConnID (HTrHeader (the (AURPHeader pkt)))) k) Q v \<longleftrightarrow> runs k Q v"
    if "p_Transport (w_peer v) = p_Transport (w_peer w)" for k Q v
    using that assms(3) by (simp add: checkLocalConnID_def wp_simps)
  from assms(2) show ?thesis
  proof (elim disjE conjE)
    assume [simp]: "pkt = PRIRsp a"
    show ?thesis
      using dup conn
      by (simp add: handlePacket_def handleRIRsp_def wp_bind [of _ "upd_peer _"] wp_upd_peer
        markReceiverAlive_def chat)
  next
    assume [simp]: "pkt = PRIUpd b"
      and "rstate (w_peer w) \<in> {ReceiverConnected, ReceiverWaitForTickleAck, ReceiverWaitForRIRsp}"
    then show ?thesis
      using dup conn
      by (auto simp: handlePacket_def handleRIUpd_def wp_bind [of _ "upd_peer _"] wp_upd_peer
        markReceiverAlive_def chat wp_with_peer setRState_def countEarly_def count_def)
  qed
qed


lemma handlePacket_table_change:
  assumes "rt_reach (w_rt w)" "handlePacket E pkt w = Some (r, w')" "pkt = PRIRsp a \<or> pkt = PRIUpd b"
  shows "table_change_ok (conn_of pkt) (seq_of pkt) w w'"
proof -
  let ?w = "w\<lparr>w_peer := addToChatLog (env_now E) pkt False (w_peer w)\<rparr>"
  have same: "same_conn ?w w"
    by (simp add: same_conn_def addToChatLog_def Let_def)
  have "wp (dispatch E pkt) (\<lambda>_ w'. table_change_ok (conn_of pkt) (seq_of pkt) ?w w') ?w"
    using assms(1,3) wp_RIRsp [of ?w E a] wp_RIUpd [of ?w E b] by auto
  then have "table_change_ok (conn_of pkt) (seq_of pkt) ?w w'"
    using assms(2) by (auto simp: handlePacket_def act_bind_def upd_peer_def wpx_def)
  then show ?thesis
    using closed_receiver_cong [OF same, of w'] same by (simp add: table_change_ok_def same_conn_def)
qed

end
