(* ===== verification/PeerImport.thy ===== *)
theory PeerImport
  imports PeerSequence
begin

text \<open>
  What a peer learns from routing packets, as changes of the map from first
  networks to ranges and distances: the handlers of RI-Rsp and RI-Upd refine the
  functions \<open>import_tuple\<close> and \<open>import_event\<close> on that map.
\<close>

section \<open>Policies depend on the configuration only\<close>

definition same_policy :: "'a AURPPeer_scheme \<Rightarrow> 'b AURPPeer_scheme \<Rightarrow> bool" where
  "same_policy p q \<longleftrightarrow> timing p = timing q \<and> tunnelID p = tunnelID q \<and> ConfiguredAddr p = ConfiguredAddr q"

lemma same_policy_core: "core p = core q \<Longrightarrow> same_policy p q"
  by (auto simp: same_policy_def dest: core_eqD)

lemma same_policy_trans: "same_policy p q \<Longrightarrow> same_policy q r \<Longrightarrow> same_policy p r"
  by (simp add: same_policy_def)

lemma policy_selector: "same_policy p q \<Longrightarrow> peerSelectorMatches s p \<longleftrightarrow> peerSelectorMatches s q"
  by (simp add: same_policy_def peerSelectorMatches_def)

lemma policy_loops:
  assumes "same_policy p q"
  shows "remapInboundRange_loop p a b rules = remapInboundRange_loop q a b rules"
    "remapInboundNetwork_loop p a rules = remapInboundNetwork_loop q a rules"
  by (induction rules) (simp_all add: policy_selector [OF assms] split: prod.split)

lemma policy_eqs:
  assumes "same_policy p q"
  shows "importRangeHidden p a b \<longleftrightarrow> importRangeHidden q a b"
    "importNetworkHidden p a \<longleftrightarrow> importNetworkHidden q a"
    "remapInboundNetworkTuple p nt = remapInboundNetworkTuple q nt"
    "remapInboundNetwork p a = remapInboundNetwork q a"
    "remapInboundEvent p et = remapInboundEvent q et"
    "weightedAURPDistance p d = weightedAURPDistance q d"
    "peer_target p = peer_target q"
  using assms
  by (simp_all add: same_policy_def importRangeHidden_def importNetworkHidden_def remapInboundNetworkTuple_def
    remapInboundRange_def remapInboundNetwork_def remapInboundEvent_def weightedAURPDistance_def
    backupRoutePenalty_def peer_target_def policy_selector [OF assms] policy_loops [OF assms])


section \<open>The abstract map\<close>

type_synonym routes_map = "network \<Rightarrow> (bool \<times> network \<times> byte) option"

definition range_ok :: "bool \<Rightarrow> network \<Rightarrow> network \<Rightarrow> bool" where
  "range_ok ext s e \<longleftrightarrow> s \<le> e \<and> (ext \<or> s = e)"

definition import_tuple :: "'a AURPPeer_scheme \<Rightarrow> NetworkTuple \<Rightarrow> routes_map \<Rightarrow> routes_map" where
  "import_tuple p nt0 m =
     (let nt = remapInboundNetworkTuple p nt0;
          (d, reachable) = weightedAURPDistance p (nt_Distance nt) in
      if range_ok (nt_Extended nt0) (nt_RangeStart nt0) (nt_RangeEnd nt0) \<and>
         \<not> importRangeHidden p (nt_RangeStart nt0) (nt_RangeEnd nt0) \<and> reachable \<and>
         range_ok (nt_Extended nt) (nt_RangeStart nt) (nt_RangeEnd nt)
      then m(nt_RangeStart nt \<mapsto> (nt_Extended nt, nt_RangeEnd nt, d)) else m)"

definition import_event :: "'a AURPPeer_scheme \<Rightarrow> EventTuple \<Rightarrow> routes_map \<Rightarrow> routes_map" where
  "import_event p et0 m =
     (let code = et_EventCode et0; et = remapInboundEvent p et0;
          (d, reachable) = weightedAURPDistance p (et_Distance et);
          route = (et_Extended et, et_RangeEnd et, d) in
      if code = EventCodeNA \<or> code = EventCodeNDC then
        if importRangeHidden p (et_RangeStart et0) (et_RangeEnd et0) \<or>
           \<not> range_ok (et_Extended et) (et_RangeStart et) (et_RangeEnd et) then m
        else if reachable then m(et_RangeStart et \<mapsto> route)
        else if code = EventCodeNDC then m(et_RangeStart et := None)
        else m
      else if code = EventCodeND \<or> code = EventCodeNRC then
        if importNetworkHidden p (et_RangeStart et0) then m else m(et_RangeStart et := None)
      else m)"

text \<open>The ends of the ranges that a packet may store; the route table does not return from 65535.\<close>

definition tuple_ends :: "'a AURPPeer_scheme \<Rightarrow> NetworkTuple \<Rightarrow> bool" where
  "tuple_ends p nt \<longleftrightarrow> nt_RangeEnd (remapInboundNetworkTuple p nt) \<noteq> 65535"

definition event_ends :: "'a AURPPeer_scheme \<Rightarrow> EventTuple \<Rightarrow> bool" where
  "event_ends p et \<longleftrightarrow> et_RangeEnd (remapInboundEvent p et) \<noteq> 65535"


section \<open>Operations of the table\<close>

definition imported :: "routes_map \<Rightarrow> peer_world \<Rightarrow> peer_world \<Rightarrow> bool" where
  "imported m w w' \<longleftrightarrow>
     rt_reach (w_rt w') \<and> core (w_peer w') = core (w_peer w) \<and> learned w' = m \<and> w_sent w' = w_sent w \<and>
     (\<forall>k. rk_TargetKey k \<noteq> tg_RouteTargetKey (peer_target (w_peer w)) \<longrightarrow>
        rt_abs (w_rt w') k = rt_abs (w_rt w) k)"

lemma imported_refl: "rt_reach (w_rt w) \<Longrightarrow> imported (learned w) w w"
  by (simp add: imported_def)

lemma imported_trans:
  "imported m w v \<Longrightarrow> imported m' v w' \<Longrightarrow> imported m' w w'"
  using peer_target_core [of "w_peer v" "w_peer w"] by (auto simp: imported_def)

lemma distance_le: "weightedAURPDistance p x = (d, True) \<Longrightarrow> d \<le> maxRouteDistance"
proof -
  assume "weightedAURPDistance p x = (d, True)"
  then obtain u :: u16 where "d = ucast u" "u \<le> 15"
    by (auto simp: weightedAURPDistance_def Let_def not_less split: if_splits)
  moreover from this have "unat (ucast u :: byte) = unat u"
    by (auto simp: unsigned_ucast_eq word_le_nat_alt intro!: take_bit_nat_eq_self)
  ultimately show ?thesis by (simp add: word_le_nat_alt)
qed

lemma learned_upd:
  assumes "rt_abs rt' = (rt_abs (w_rt w))(target_key (peer_target (w_peer w)) s := v)"
    "w_rt w' = rt'" "core (w_peer w') = core (w_peer w)"
  shows "learned w' = (learned w)(s := map_option (\<lambda>r. (r_Extended r, r_NetEnd r, r_Distance r)) v)"
    "\<forall>k. rk_TargetKey k \<noteq> tg_RouteTargetKey (peer_target (w_peer w)) \<longrightarrow> rt_abs (w_rt w') k = rt_abs (w_rt w) k"
  using assms by (auto simp: learned_def fun_eq_iff target_key_def peer_target_core [OF assms(3)])

lemma runs_upsert:
  assumes "rt_reach (w_rt w)" "e \<noteq> 65535" "d \<le> maxRouteDistance"
  shows "runs (table_UpsertRoute E ext s e d)
    (\<lambda>r w'. if range_ok ext s e then r = Inr () \<and> imported ((learned w)(s \<mapsto> (ext, e, d))) w w'
            else (\<exists>err. r = Inl err) \<and> imported (learned w) w w') w"
proof (cases "range_ok ext s e")
  case True
  let ?t = "peer_target (w_peer w)"
  obtain new rt' evs where u: "UpsertRoute (env_now E) ?t ext s e d (w_rt w) = Some (Inr new, rt', evs)"
    "rt_abs rt' = (rt_abs (w_rt w))(target_key ?t s \<mapsto> new)" "r_NetEnd new = e" "r_Extended new = ext"
    "r_Distance new = d"
    using UpsertRoute_ok [OF rt_inv_reach [OF assms(1)] target_ok_peer, of s e ext d "env_now E" "w_peer w"]
      assms(2,3) True by (auto simp: range_ok_def)
  let ?w = "fold deliver evs (w\<lparr>w_rt := rt'\<rparr>)"
  have "rt_reach rt'"
    by (rule reach_ops(1) [OF assms(1) u(1)])
  then have "imported ((learned w)(s \<mapsto> (ext, e, d))) w ?w"
    using learned_upd [OF u(2), of ?w] u(3-5) by (simp add: imported_def)
  with True u(1) show ?thesis
    by (simp add: table_UpsertRoute_def wp_simps)
next
  case False
  then have "\<exists>err. UpsertRoute (env_now E) (peer_target (w_peer w)) ext s e d (w_rt w) = Some (Inl err, w_rt w, [])"
    by (auto simp: range_ok_def UpsertRoute_def)
  with False assms(1) show ?thesis
    by (auto simp: table_UpsertRoute_def wp_simps imported_def)
qed

lemma runs_delete:
  assumes "rt_reach (w_rt w)" "learned w s \<noteq> None"
  shows "runs (table_DeleteRoute E s) (\<lambda>r w'. r = Inr () \<and> imported ((learned w)(s := None)) w w') w"
proof -
  let ?t = "peer_target (w_peer w)"
  obtain old where "rt_abs (w_rt w) (target_key ?t s) = Some old"
    using assms(2) by (auto simp: learned_def)
  then obtain rt' evs where u: "DeleteRoute (env_now E) ?t s (w_rt w) = Some (None, rt', evs)"
    "rt_abs rt' = (rt_abs (w_rt w))(target_key ?t s := None)"
    using DeleteRoute_ok [OF rt_inv_reach [OF assms(1)] target_ok_peer] by blast
  let ?w = "fold deliver evs (w\<lparr>w_rt := rt'\<rparr>)"
  have "rt_reach rt'"
    by (rule reach_ops(3) [OF assms(1) u(1)])
  then have "imported ((learned w)(s := None)) w ?w"
    using learned_upd [OF u(2), of ?w] by (simp add: imported_def)
  with u(1) show ?thesis
    by (simp add: table_DeleteRoute_def wp_simps)
qed

lemma runs_update:
  assumes "rt_reach (w_rt w)" "learned w s = Some (ext, e, d0)" "d \<le> maxRouteDistance"
  shows "runs (table_UpdateDistance E s d) (\<lambda>r w'. r = Inr () \<and> imported ((learned w)(s \<mapsto> (ext, e, d))) w w') w"
proof -
  let ?t = "peer_target (w_peer w)"
  obtain old where old: "rt_abs (w_rt w) (target_key ?t s) = Some old" "r_Extended old = ext" "r_NetEnd old = e"
    using assms(2) by (auto simp: learned_def)
  then obtain rt' evs where u: "UpdateDistance (env_now E) ?t s d (w_rt w) = Some (None, rt', evs)"
    "rt_abs rt' = (rt_abs (w_rt w))(target_key ?t s \<mapsto> old\<lparr>r_LastSeen := env_now E, r_Distance := d\<rparr>)"
    using UpdateDistance_ok [OF rt_inv_reach [OF assms(1)] target_ok_peer assms(3)] by blast
  let ?w = "fold deliver evs (w\<lparr>w_rt := rt'\<rparr>)"
  have "rt_reach rt'"
    by (rule reach_ops(2) [OF assms(1) u(1)])
  then have "imported ((learned w)(s \<mapsto> (ext, e, d))) w ?w"
    using learned_upd [OF u(2), of ?w] old(2,3) by (simp add: imported_def)
  with u(1) show ?thesis
    by (simp add: table_UpdateDistance_def wp_simps)
qed



section \<open>Tuples and events\<close>

lemma validate_wp:
  "runs (validateAURPRouteTuple ext s e) Q w \<longleftrightarrow>
   (if range_ok ext s e then Q (Inr ()) w
    else Q (Inl (if s > e then ErrReversed s e else ErrNonExtended s e)) w)"
  by (auto simp: validateAURPRouteTuple_def wp_simps range_ok_def)

lemma runs_tuple:
  assumes "rt_reach (w_rt w)" "tuple_ends (w_peer w) nt"
  shows "runs (applyRIRspNetworkTuple E nt)
    (\<lambda>r w'. imported (import_tuple (w_peer w) nt (learned w)) w w') w"
proof -
  let ?p = "w_peer w"
  let ?nt = "remapInboundNetworkTuple ?p nt"
  obtain d reach where d: "weightedAURPDistance ?p (nt_Distance ?nt) = (d, reach)"
    by fastforce
  show ?thesis
  proof (cases "range_ok (nt_Extended nt) (nt_RangeStart nt) (nt_RangeEnd nt) \<and>
      \<not> importRangeHidden ?p (nt_RangeStart nt) (nt_RangeEnd nt) \<and> reach")
    case True
    then have up: "runs (table_UpsertRoute E (nt_Extended ?nt) (nt_RangeStart ?nt) (nt_RangeEnd ?nt) d)
        (\<lambda>r w'. imported (import_tuple ?p nt (learned w)) w w') w"
      using d assms distance_le [of ?p "nt_Distance ?nt" d]
      by (intro wp_mono [OF runs_upsert]) (auto simp: tuple_ends_def import_tuple_def Let_def split: if_splits)
    have "runs (act_seq (table_UpsertRoute E (nt_Extended ?nt) (nt_RangeStart ?nt) (nt_RangeEnd ?nt) d) (act_ret True))
        (\<lambda>r w'. imported (import_tuple ?p nt (learned w)) w w') w"
      using up by (rule wp_bindI) (simp_all add: wp_ret)
    with True d show ?thesis
      by (simp add: applyRIRspNetworkTuple_def wp_bind [of _ "validateAURPRouteTuple _ _ _"] validate_wp
        wp_with_peer wp_if Let_def)
  next
    case False
    with d have "import_tuple ?p nt (learned w) = learned w"
      by (auto simp: import_tuple_def)
    with False d imported_refl [OF assms(1)] show ?thesis
      by (auto simp: applyRIRspNetworkTuple_def wp_bind [of _ "validateAURPRouteTuple _ _ _"] validate_wp
        wp_with_peer wp_if wp_ret Let_def)
  qed
qed

lemma runs_remove:
  assumes "rt_reach (w_rt w)"
  shows "runs (removeIfPresent E s) (\<lambda>r w'. r = Inr False \<and> imported ((learned w)(s := None)) w w') w"
proof (cases "learned w s")
  case None
  then have "(learned w)(s := None) = learned w" by auto
  moreover have "Route_Zero (find_route (peer_target (w_peer w)) s (w_rt w))"
    using None learned_find [OF assms, of s] by (auto simp: Let_def split: if_splits)
  moreover have "learned (w\<lparr>w_peer := (w_peer w)\<lparr>pendingZoneInfo := z\<rparr>\<rparr>) = learned w" for z
    by (simp add: learned_def peer_target_def fun_eq_iff)
  ultimately show ?thesis
    using assms by (simp add: removeIfPresent_def wp_simps clearPendingZoneInfo_def imported_def)
next
  case (Some x)
  let ?w = "w\<lparr>w_peer := (w_peer w)\<lparr>pendingZoneInfo := AList.delete s (pendingZoneInfo (w_peer w))\<rparr>\<rparr>"
  have nz: "\<not> Route_Zero (find_route (peer_target (w_peer w)) s (w_rt w))"
    using Some learned_find [OF assms, of s] by (auto simp: Let_def split: if_splits)
  have l: "learned ?w = learned w"
    by (simp add: learned_def peer_target_def fun_eq_iff)
  have "runs (table_DeleteRoute E s) (\<lambda>r w'. r = Inr () \<and> imported ((learned ?w)(s := None)) ?w w') ?w"
    by (rule runs_delete) (simp_all add: assms l Some)
  then have "runs (act_seq (table_DeleteRoute E s) (act_ret False))
      (\<lambda>r w'. r = Inr False \<and> imported ((learned w)(s := None)) w w') ?w"
    by (rule wp_bindI) (simp_all add: wp_ret l imported_def peer_target_def)
  with nz show ?thesis
    by (simp add: removeIfPresent_def wp_with_table wp_with_peer wp_if clearPendingZoneInfo_def
      wp_bind [of _ "upd_peer _"] wp_upd_peer)
qed

lemma runs_upsertEvent:
  assumes "rt_reach (w_rt w)" "et_RangeEnd et \<noteq> 65535" "d \<le> maxRouteDistance"
    "range_ok (et_Extended et) (et_RangeStart et) (et_RangeEnd et)"
  shows "runs (upsertEvent E et d)
    (\<lambda>r w'. imported ((learned w)(et_RangeStart et \<mapsto> (et_Extended et, et_RangeEnd et, d))) w w') w"
  unfolding upsertEvent_def
  by (rule wp_bindI [OF runs_upsert [OF assms(1-3)]]) (auto simp: assms(4) ask_needsZoneInfo_def wp_simps)

lemma runs_NDC:
  assumes "rt_reach (w_rt w)" "et_RangeEnd et \<noteq> 65535" "range_ok (et_Extended et) (et_RangeStart et) (et_RangeEnd et)"
    and d: "weightedAURPDistance (w_peer w) (et_Distance et) = (d, reach)"
  shows "runs (applyNDC E (w_peer w) et)
    (\<lambda>r w'. imported (if reach then (learned w)(et_RangeStart et \<mapsto> (et_Extended et, et_RangeEnd et, d))
      else (learned w)(et_RangeStart et := None)) w w') w"
proof (cases reach)
  case True
  let ?old = "find_route (peer_target (w_peer w)) (et_RangeStart et) (w_rt w)"
  from True have le: "d \<le> maxRouteDistance"
    using d distance_le [of "w_peer w" "et_Distance et" d] by simp
  have lt: "\<not> et_Distance et \<ge> maxRouteDistance"
    using d True by (auto simp: weightedAURPDistance_def split: if_splits)
  have up: "runs (act_seq (table_UpdateDistance E (et_RangeStart et) d) (act_ret False))
      (\<lambda>r w'. imported ((learned w)(et_RangeStart et \<mapsto> (et_Extended et, et_RangeEnd et, d))) w w') w"
    if "\<not> Route_Zero ?old" "r_Extended ?old = et_Extended et" "r_NetEnd ?old = et_RangeEnd et"
  proof (rule wp_bindI [OF runs_update [OF assms(1) _ le]])
    show "learned w (et_RangeStart et) = Some (et_Extended et, et_RangeEnd et, r_Distance ?old)"
      using that learned_find [OF assms(1), of "et_RangeStart et"] by (simp add: Let_def)
  qed (auto simp: wp_ret)
  show ?thesis
    using True lt d up runs_upsertEvent [OF assms(1,2) le assms(3)] by (auto simp: applyNDC_def wp_with_table Let_def)
next
  case False
  then show ?thesis
    using d wp_mono [OF runs_remove [OF assms(1)]] by (auto simp: applyNDC_def wp_with_table wp_if Let_def)
qed

lemma runs_event:
  assumes "rt_reach (w_rt w)" "event_ends (w_peer w) et"
  shows "runs (applyRIUpdEvent E et)
    (\<lambda>r w'. imported (import_event (w_peer w) et (learned w)) w w') w"
proof -
  let ?p = "w_peer w" and ?c = "et_EventCode et"
  let ?et = "remapInboundEvent ?p et"
  obtain d reach where d: "weightedAURPDistance ?p (et_Distance ?et) = (d, reach)"
    by fastforce
  have same: "imported (learned w) w w"
    by (rule imported_refl [OF assms(1)])
  have e: "et_RangeEnd ?et \<noteq> 65535"
    using assms(2) by (simp add: event_ends_def)
  note defs = applyRIUpdEvent_def import_event_def wp_with_peer wp_if wp_ret wp_with_table
    wp_bind [of _ "validateAURPRouteTuple _ _ _"] wp_bind [of _ "act_ret _"] validate_wp
  consider "?c = EventCodeNA" | "?c = EventCodeNDC" | "?c = EventCodeND \<or> ?c = EventCodeNRC"
    | "?c \<notin> {EventCodeNA, EventCodeNDC, EventCodeND, EventCodeNRC}"
    by blast
  then show ?thesis
  proof cases
    case 1
    then show ?thesis
      using d same e distance_le [of ?p "et_Distance ?et" d]
        runs_upsertEvent [OF assms(1) e, of d E]
      by (auto simp: defs Let_def)
  next
    case 2
    show ?thesis
    proof (cases "importRangeHidden ?p (et_RangeStart et) (et_RangeEnd et) \<or>
        \<not> range_ok (et_Extended ?et) (et_RangeStart ?et) (et_RangeEnd ?et)")
      case True
      with 2 same d show ?thesis
        by (auto simp: defs Let_def)
    next
      case False
      then have ok: "range_ok (et_Extended ?et) (et_RangeStart ?et) (et_RangeEnd ?et)" by simp
      have "import_event ?p et (learned w) =
          (if reach then (learned w)(et_RangeStart ?et \<mapsto> (et_Extended ?et, et_RangeEnd ?et, d))
           else (learned w)(et_RangeStart ?et := None))"
        using False 2 d by (simp add: import_event_def Let_def)
      then show ?thesis
        using False 2 runs_NDC [OF assms(1) e ok d, of E]
        by (simp add: applyRIUpdEvent_def wp_with_peer validate_wp Let_def wp_bind [of _ "validateAURPRouteTuple _ _ _"])
    qed
  next
    case 3
    then show ?thesis
      using d same by (auto simp: defs Let_def intro: wp_mono [OF runs_remove [OF assms(1)]])
  next
    case 4
    with same d show ?thesis
      by (auto simp: defs Let_def)
  qed
qed


section \<open>The loops over a packet\<close>

lemma import_core:
  assumes "core p = core q"
  shows "import_tuple p = import_tuple q" "import_event p = import_event q"
    "tuple_ends p = tuple_ends q" "event_ends p = event_ends q"
  unfolding import_tuple_def [abs_def] import_event_def [abs_def] tuple_ends_def [abs_def]
    event_ends_def [abs_def] policy_eqs [OF same_policy_core [OF assms]] by (rule refl)+

lemma imported_core:
  assumes "imported m w v"
  shows "core (w_peer v) = core (w_peer w)" "rt_reach (w_rt v)" "learned v = m"
    "import_tuple (w_peer v) = import_tuple (w_peer w)" "import_event (w_peer v) = import_event (w_peer w)"
    "tuple_ends (w_peer v) = tuple_ends (w_peer w)" "event_ends (w_peer v) = event_ends (w_peer w)"
  using assms import_core [of "w_peer v" "w_peer w"] by (simp_all add: imported_def)

text \<open>Bookkeeping of awaited zones between the tuples.\<close>

lemma imported_pending:
  assumes "core p = core (w_peer v)"
  shows "imported m w (v\<lparr>w_peer := p\<rparr>) \<longleftrightarrow> imported m w v" "imported m (v\<lparr>w_peer := p\<rparr>) w \<longleftrightarrow> imported m v w"
  using peer_target_core [OF assms] assms by (simp_all add: imported_def learned_def fun_eq_iff)

lemma mark_core [simp]:
  "core (case map_of (pendingZoneInfo p) n of Some _ \<Rightarrow> p | None \<Rightarrow> p\<lparr>pendingZoneInfo := z\<rparr>) = core p"
  by (simp split: option.split)

lemmas zone_marks = ask_needsZoneInfo_def markZoneInfoPending_def clearPendingZoneInfo_def

text \<open>A step that imports, and what follows it.\<close>

lemma runs_chain:
  assumes "runs m (\<lambda>r v. imported m1 w v) w"
    and "\<And>e v. imported m1 w v \<Longrightarrow> runs (h e) (\<lambda>r w'. P r \<and> imported m2 v w') v"
    and "\<And>x v. imported m1 w v \<Longrightarrow> runs (f x) (\<lambda>r w'. P r \<and> imported m2 v w') v"
  shows "runs (act_catch m h f) (\<lambda>r w'. P r \<and> imported m2 w w') w"
  unfolding wp_catch
proof (rule wp_mono [OF assms(1)])
  fix r v assume v: "imported m1 w v"
  have "runs (case r of Inl e \<Rightarrow> h e | Inr x \<Rightarrow> f x) (\<lambda>r w'. P r \<and> imported m2 w w') v"
    by (rule wp_mono [where P = "\<lambda>r w'. P r \<and> imported m2 v w'"])
      (use assms(2,3) [OF v] v in \<open>auto intro: imported_trans split: sum.split\<close>)
  then show "case r of Inl e \<Rightarrow> runs (h e) (\<lambda>r w'. P r \<and> imported m2 w w') v
      | Inr x \<Rightarrow> runs (f x) (\<lambda>r w'. P r \<and> imported m2 w w') v"
    by (simp split: sum.splits)
qed

text \<open>Marking a network between two tuples.\<close>

lemma runs_marked:
  assumes "core p = core (w_peer v)" "runs m (\<lambda>r w'. P r \<and> imported m2 (v\<lparr>w_peer := p\<rparr>) w') (v\<lparr>w_peer := p\<rparr>)"
  shows "runs m (\<lambda>r w'. P r \<and> imported m2 v w') (v\<lparr>w_peer := p\<rparr>)"
  using assms by (simp add: imported_pending)

lemma runs_networks:
  assumes "rt_reach (w_rt w)" "list_all (tuple_ends (w_peer w)) nts"
  shows "runs (apply_networks E nts fl)
    (\<lambda>r w'. (\<exists>f. r = Inr f) \<and> imported (fold (import_tuple (w_peer w)) nts (learned w)) w w') w"
  using assms
proof (induction nts arbitrary: w fl)
  case Nil
  then show ?case by (simp add: wp_ret imported_refl)
next
  case (Cons nt nts)
  let ?P = "\<lambda>r :: peer_error + u16. \<exists>f. r = Inr f"
  let ?m = "fold (import_tuple (w_peer w)) (nt # nts) (learned w)"
  have IH: "runs (apply_networks E nts fl) (\<lambda>r w'. ?P r \<and> imported ?m v w') v"
    if "imported (import_tuple (w_peer w) nt (learned w)) w v" for v fl
    using Cons.IH [of v fl] Cons.prems imported_core [OF that] by simp
  show ?case
    unfolding apply_networks.simps
  proof (rule runs_chain [OF runs_tuple])
    fix acc v assume v: "imported (import_tuple (w_peer w) nt (learned w)) w v"
    have IH': "runs (apply_networks E nts fl) (\<lambda>r w'. ?P r \<and> imported ?m v w') (v\<lparr>w_peer := p\<rparr>)"
      if "core p = core (w_peer v)" for p fl
      by (rule runs_marked [OF that IH]) (simp add: imported_pending that v)
    show "runs (if \<not> acc then apply_networks E nts fl
        else act_bind (ask_needsZoneInfo (nt_RangeStart nt)) (\<lambda>need.
          if need then act_seq (markZoneInfoPending E (nt_RangeStart nt)) (apply_networks E nts RoutingFlagSendZoneInfo)
          else act_seq (clearPendingZoneInfo (nt_RangeStart nt)) (apply_networks E nts fl)))
        (\<lambda>r w'. ?P r \<and> imported ?m v w') v"
      using IH [OF v] IH' by (simp add: zone_marks wp_bind [of _ "upd_peer _"] wp_bind [of _ "with_table _"]
        wp_with_table wp_with_peer wp_ret wp_upd_peer wp_if)
  qed (use Cons.prems IH in simp_all)
qed

lemma runs_events:
  assumes "rt_reach (w_rt w)" "list_all (event_ends (w_peer w)) ets"
  shows "runs (apply_events E ets fl)
    (\<lambda>r w'. (\<exists>f. r = Inr f) \<and> imported (fold (import_event (w_peer w)) ets (learned w)) w w') w"
  using assms
proof (induction ets arbitrary: w fl)
  case Nil
  then show ?case by (simp add: wp_ret imported_refl)
next
  case (Cons et ets)
  let ?P = "\<lambda>r :: peer_error + u16. \<exists>f. r = Inr f"
  let ?m = "fold (import_event (w_peer w)) (et # ets) (learned w)"
  have IH: "runs (apply_events E ets fl) (\<lambda>r w'. ?P r \<and> imported ?m v w') v"
    if "imported (import_event (w_peer w) et (learned w)) w v" for v fl
    using Cons.IH [of v fl] Cons.prems imported_core [OF that] by simp
  show ?case
    unfolding apply_events.simps
  proof (rule runs_chain [OF runs_event])
    fix need v assume v: "imported (import_event (w_peer w) et (learned w)) w v"
    have IH': "runs (apply_events E ets fl) (\<lambda>r w'. ?P r \<and> imported ?m v w') (v\<lparr>w_peer := p\<rparr>)"
      if "core p = core (w_peer v)" for p fl
      by (rule runs_marked [OF that IH]) (simp add: imported_pending that v)
    show "runs (if need then act_seq (markZoneInfoPending E (et_RangeStart et)) (apply_events E ets RoutingFlagSendZoneInfo)
        else if et_EventCode et = EventCodeNA \<or> et_EventCode et = EventCodeNDC
        then act_seq (clearPendingZoneInfo (et_RangeStart et)) (apply_events E ets fl)
        else apply_events E ets fl)
        (\<lambda>r w'. ?P r \<and> imported ?m v w') v"
      using IH [OF v] IH' by (simp add: zone_marks wp_bind [of _ "upd_peer _"] wp_upd_peer wp_if)
  qed (use Cons.prems IH in simp_all)
qed


section \<open>Packets in sequence\<close>

text \<open>
  The packet's changes are in the table, and it is acknowledged with its own connection ID and
  sequence number.  If the acknowledgement left the router, the next packet is expected.
\<close>

definition applied :: "peer_env \<Rightarrow> routes_map \<Rightarrow> Packet \<Rightarrow> peer_world \<Rightarrow> peer_error + unit \<Rightarrow> peer_world \<Rightarrow> bool" where
  "applied E m pkt w r w' \<longleftrightarrow>
     learned w' = m \<and>
     (\<forall>k. rk_TargetKey k \<noteq> tg_RouteTargetKey (peer_target (w_peer w)) \<longrightarrow> rt_abs (w_rt w') k = rt_abs (w_rt w) k) \<and>
     same_policy (w_peer w') (w_peer w) \<and>
     (\<exists>fl. let ack = PRIAck (NewRIAckPacket (p_Transport (w_peer w)) (conn_of pkt) (seq_of pkt) fl) in
        w_sent w' = w_sent w @ [ack] \<and>
        (case env_udp E (w_sent w @ [ack]) of
           None \<Rightarrow> r = Inr () \<and> p_Transport (w_peer w') = IncRemoteSeq (p_Transport (w_peer w))
         | Some e \<Rightarrow> r = Inl (ErrUDP e) \<and> p_Transport (w_peer w') = p_Transport (w_peer w)))"

lemma ack_encodes:
  assumes "transport_ok tr"
  obtains b where "encode (Packet_WriteTo (PRIAck (NewRIAckPacket tr c s fl))) = Inr b"
  using sent_bytes(1) [OF assms sends.intros(6) [of tr c s fl]] by auto

text \<open>The acknowledgement after the loop, and what remains to be done.\<close>

lemma runs_acknowledge:
  assumes "runs loop (\<lambda>r v. (\<exists>f. r = Inr f) \<and> imported m w v) w" "transport_ok (p_Transport (w_peer w))"
    and th: "HTrHeader (the (AURPHeader pkt)) = th"
    and rest: "\<And>v Q. (\<And>u. u = upd v \<Longrightarrow> Q (Inr ()) u) \<Longrightarrow> runs rest Q v"
    and upd: "\<And>v. w_rt (upd v) = w_rt v" "\<And>v. w_sent (upd v) = w_sent v"
      "\<And>v. same_policy (w_peer (upd v)) (w_peer v)"
      "\<And>v. p_Transport (w_peer (upd v)) = IncRemoteSeq (p_Transport (w_peer v))"
  shows "runs (act_bind loop (\<lambda>fl. act_seq (sendRIAck E th fl) rest)) (\<lambda>r w'. applied E m pkt w r w') w"
proof (rule wp_bindI [OF assms(1)])
  fix fl :: u16 and v assume v': "(\<exists>f. Inr fl = Inr f) \<and> imported m w v"
  then have v: "learned v = m" "core (w_peer v) = core (w_peer w)" "w_sent v = w_sent w"
    "\<forall>k. rk_TargetKey k \<noteq> tg_RouteTargetKey (peer_target (w_peer w)) \<longrightarrow> rt_abs (w_rt v) k = rt_abs (w_rt w) k"
    by (simp_all add: imported_def)
  note c = core_eqD(1) [OF v(2)] same_policy_core [OF v(2)]
  let ?ack = "PRIAck (NewRIAckPacket (p_Transport (w_peer w)) (conn_of pkt) (seq_of pkt) fl)"
  let ?v = "send_world E ?ack v"
  obtain b where b: "encode (Packet_WriteTo ?ack) = Inr b"
    using ack_encodes [OF assms(2)] .
  have sw: "same_policy (w_peer ?v) (w_peer v)"
    by (rule same_policy_core) simp
  have l: "learned u = m" if "w_rt u = w_rt v" "same_policy (w_peer u) (w_peer v)" for u
    using that v(1) policy_eqs(7) [OF that(2)] by (simp add: learned_def fun_eq_iff)
  note up = upd same_policy_trans [OF upd(3) sw] same_policy_trans [OF same_policy_trans [OF upd(3) sw] c(2)]
    same_policy_trans [OF sw c(2)]
  have sent: "w_sent ?v = w_sent w @ [?ack]"
    using b v(3) by (simp add: send_world_sent)
  have res: "send_result E ?ack v = (case env_udp E (w_sent w @ [?ack]) of Some e \<Rightarrow> Inl (ErrUDP e) | None \<Rightarrow> Inr ())"
    using b v(3) by (simp add: send_result_def split: option.split)
  show "runs (act_seq (sendRIAck E th fl) rest) (\<lambda>r w'. applied E m pkt w r w') v"
  proof (cases "env_udp E (w_sent w @ [?ack])")
    case None
    have "applied E m pkt w (Inr ()) (upd ?v)"
      unfolding applied_def Let_def
      using None v(4) by (auto simp: up sent l c intro!: exI [of _ fl])
    then have "runs rest (\<lambda>r w'. applied E m pkt w r w') ?v"
      by (intro rest) simp
    then show ?thesis
      using None res by (simp add: sendRIAck_def send_new_def wp_bind [of _ "with_peer _"] wp_with_peer wp_send c
        th [symmetric])
  next
    case (Some e)
    have "applied E m pkt w (Inl (ErrUDP e)) ?v"
      unfolding applied_def Let_def
      using Some v(4) by (auto simp: sent l sw up c intro!: exI [of _ fl])
    then show ?thesis
      using Some res by (simp add: sendRIAck_def send_new_def wp_bind [of _ "with_peer _"] wp_with_peer wp_send c
        th [symmetric])
  qed
qed simp

text \<open>Worlds that differ in the log and in times only.\<close>

definition alike :: "peer_world \<Rightarrow> peer_world \<Rightarrow> bool" where
  "alike v w \<longleftrightarrow> w_rt v = w_rt w \<and> w_sent v = w_sent w \<and> same_policy (w_peer v) (w_peer w) \<and>
     p_Transport (w_peer v) = p_Transport (w_peer w)"

lemma import_alike:
  assumes "alike v w"
  shows "import_tuple (w_peer v) = import_tuple (w_peer w)" "import_event (w_peer v) = import_event (w_peer w)"
    "tuple_ends (w_peer v) = tuple_ends (w_peer w)" "event_ends (w_peer v) = event_ends (w_peer w)"
    "learned v = learned w" "applied E m pkt v r w' \<longleftrightarrow> applied E m pkt w r w'"
proof -
  have p: "same_policy (w_peer v) (w_peer w)" using assms by (simp add: alike_def)
  show "import_tuple (w_peer v) = import_tuple (w_peer w)" "import_event (w_peer v) = import_event (w_peer w)"
    "tuple_ends (w_peer v) = tuple_ends (w_peer w)" "event_ends (w_peer v) = event_ends (w_peer w)"
    unfolding import_tuple_def [abs_def] import_event_def [abs_def] tuple_ends_def [abs_def]
      event_ends_def [abs_def] policy_eqs [OF p] by (rule refl)+
  have c: "w_rt v = w_rt w" "w_sent v = w_sent w" "p_Transport (w_peer v) = p_Transport (w_peer w)"
    using assms by (simp_all add: alike_def)
  show "learned v = learned w" "applied E m pkt v r w' \<longleftrightarrow> applied E m pkt w r w'"
    using p unfolding learned_def [abs_def] applied_def c policy_eqs(7) [OF p]
    by (auto simp: same_policy_def)
qed

lemma runs_acceptRIRsp:
  assumes "rt_reach (w_rt w)" "transport_ok (p_Transport (w_peer w))" "list_all (tuple_ends (w_peer w)) (rirsp_Networks pkt)"
  shows "runs (acceptRIRsp E pkt)
    (\<lambda>r w'. applied E (fold (import_tuple (w_peer w)) (rirsp_Networks pkt) (learned w)) (PRIRsp pkt) w r w') w"
  unfolding acceptRIRsp_def
  by (rule runs_acknowledge [OF runs_networks [OF assms(1,3)] assms(2), where
      upd = "\<lambda>v. v\<lparr>w_peer := (let p = (if Flags (rirsp_Header pkt) AND RoutingFlagLast \<noteq> 0
         then resetReconnectBackoff ((w_peer v)\<lparr>rstate := ReceiverConnected, lastSuccess := env_now E\<rparr>) else w_peer v)
         in p\<lparr>p_Transport := IncRemoteSeq (p_Transport p)\<rparr>)\<rparr>"])
    (auto simp: wp_simps Let_def resetReconnectBackoff_def same_policy_def)

lemma runs_acceptRIUpd:
  assumes "rt_reach (w_rt w)" "transport_ok (p_Transport (w_peer w))" "list_all (event_ends (w_peer w)) (riupd_Events pkt)"
  shows "runs (acceptRIUpd E pkt)
    (\<lambda>r w'. applied E (fold (import_event (w_peer w)) (riupd_Events pkt) (learned w)) (PRIUpd pkt) w r w') w"
  unfolding acceptRIUpd_def
  by (rule runs_acknowledge [OF runs_events [OF assms(1,3)] assms(2), where
      upd = "\<lambda>v. v\<lparr>w_peer := (w_peer v)\<lparr>p_Transport := IncRemoteSeq (p_Transport (w_peer v))\<rparr>\<rparr>"])
    (auto simp: wp_simps same_policy_def)

lemma wp_in_sequence:
  assumes "Sequence th = expected w" "p_Transport (w_peer v) = p_Transport (w_peer w)" "wpx ok k Q v"
  shows "wpx ok (dropping (checkRemoteSeq E th) k) Q v"
proof -
  have "expected w \<noteq> Pred (expected w)" by (auto simp: Pred_def Let_def split: if_splits)
  with assms show ?thesis
    by (simp add: checkRemoteSeq_def checkRemoteSeqWithAckFlags_def wp_dropping wp_with_peer wp_if wp_ret Let_def)
qed

lemma runs_my_connection:
  assumes "ConnectionID th = tr_localConnID (p_Transport (w_peer w))" "p_Transport (w_peer v) = p_Transport (w_peer w)"
    "runs k Q v"
  shows "runs (dropping (checkLocalConnID th) k) Q v"
  using assms by (simp add: checkLocalConnID_def wp_dropping wp_with_peer wp_if wp_ret)

lemma runs_RIRsp:
  assumes inv: "peer_inv w" and ends: "list_all (tuple_ends (w_peer w)) (rirsp_Networks pkt)"
    and seq: "conn_of (PRIRsp pkt) = tr_localConnID (p_Transport (w_peer w))" "seq_of (PRIRsp pkt) = expected w"
  shows "runs (handlePacket E (PRIRsp pkt))
    (\<lambda>r w'. applied E (fold (import_tuple (w_peer w)) (rirsp_Networks pkt) (learned w)) (PRIRsp pkt) w r w') w"
proof -
  let ?v = "w\<lparr>w_peer := (addToChatLog (env_now E) (PRIRsp pkt) False (w_peer w))\<lparr>lastHeardFrom := env_now E\<rparr>\<rparr>"
  have v: "alike ?v w"
    by (simp add: alike_def same_policy_def addToChatLog_def Let_def)
  have ok: "rt_reach (w_rt ?v)" "transport_ok (p_Transport (w_peer ?v))"
    "list_all (tuple_ends (w_peer ?v)) (rirsp_Networks pkt)"
    unfolding import_alike [OF v] using inv ends v by (simp_all add: peer_inv_def peer_ok_def alike_def)
  from runs_acceptRIRsp [OF ok, of E] have "runs (dropping (checkRemoteSeq E (HTrHeader (rirsp_Header pkt))) (acceptRIRsp E pkt))
      (\<lambda>r w'. applied E (fold (import_tuple (w_peer w)) (rirsp_Networks pkt) (learned w)) (PRIRsp pkt) w r w') ?v"
    unfolding import_alike [OF v] using seq v by (intro wp_in_sequence [of _ w]) (simp_all add: alike_def)
  then show ?thesis
    unfolding handlePacket_def dispatch.simps handleRIRsp_def wp_bind [of _ "upd_peer _"] wp_upd_peer sum.case
    using seq(1) v by (intro runs_my_connection [of _ w])
      (simp_all add: markReceiverAlive_def wp_bind [of _ "upd_peer _"] wp_upd_peer alike_def addToChatLog_def Let_def)
qed

lemma runs_RIUpd:
  assumes inv: "peer_inv w" and ends: "list_all (event_ends (w_peer w)) (riupd_Events pkt)"
    and rs: "rstate (w_peer w) = ReceiverConnected \<or> rstate (w_peer w) = ReceiverWaitForTickleAck"
    and seq: "conn_of (PRIUpd pkt) = tr_localConnID (p_Transport (w_peer w))" "seq_of (PRIUpd pkt) = expected w"
  shows "runs (handlePacket E (PRIUpd pkt))
    (\<lambda>r w'. applied E (fold (import_event (w_peer w)) (riupd_Events pkt) (learned w)) (PRIUpd pkt) w r w') w"
proof -
  have accept: "runs (dropping (checkRemoteSeq E (HTrHeader (riupd_Header pkt))) (acceptRIUpd E pkt))
      (\<lambda>r w'. applied E (fold (import_event (w_peer w)) (riupd_Events pkt) (learned w)) (PRIUpd pkt) w r w') v"
    if v: "alike v w" for v
  proof -
    have ok: "rt_reach (w_rt v)" "transport_ok (p_Transport (w_peer v))"
      "list_all (event_ends (w_peer v)) (riupd_Events pkt)"
      unfolding import_alike [OF v] using inv ends v by (simp_all add: peer_inv_def peer_ok_def alike_def)
    from runs_acceptRIUpd [OF ok, of E] show ?thesis
      unfolding import_alike [OF v] using seq v by (intro wp_in_sequence [of _ w]) (simp_all add: alike_def)
  qed
  have chat: "p_Transport (addToChatLog now q b p) = p_Transport p" "rstate (addToChatLog now q b p) = rstate p"
    "timing (addToChatLog now q b p) = timing p" "tunnelID (addToChatLog now q b p) = tunnelID p"
    "ConfiguredAddr (addToChatLog now q b p) = ConfiguredAddr p" for now q b p
    by (simp_all add: addToChatLog_def Let_def)
  show ?thesis
    unfolding handlePacket_def dispatch.simps handleRIUpd_def wp_bind [of _ "upd_peer _"] wp_upd_peer sum.case
    by (rule runs_my_connection [of _ w]) (use seq(1) rs in \<open>auto intro!: accept simp: alike_def same_policy_def
      markReceiverAlive_def setRState_def wp_bind [of _ "upd_peer _"] wp_upd_peer wp_with_peer chat\<close>)
qed

end
