(* ===== verification/PeerExchange.thy ===== *)
theory PeerExchange
  imports PeerImport
begin

text \<open>
  The exchange of routing information between two routers, from the route table of
  the sender over the datagrams to the route table of the receiver, and the
  properties of a peer over all its reachable states.
\<close>

section \<open>Datagrams handled in order\<close>

text \<open>
  The receiver parses each datagram and its peer handles the packet in one turn of its loop.  A
  datagram that does not parse is logged only.
\<close>

fun receive_all :: "peer_env \<Rightarrow> byte list list \<Rightarrow> peer_world \<Rightarrow> peer_world option" where
  "receive_all E [] w = Some w"
| "receive_all E (b # bs) w =
     (case ParsePacket b of
        Inl _ \<Rightarrow> receive_all E bs w
      | Inr (_, pkt) \<Rightarrow>
          (case handle_turn E (EvPacket pkt) w of None \<Rightarrow> None | Some (_, w') \<Rightarrow> receive_all E bs w'))"

text \<open>What a run of RI-Rsp packets leaves behind.\<close>

definition exchanged :: "routes_map \<Rightarrow> peer_world \<Rightarrow> peer_world \<Rightarrow> bool" where
  "exchanged m w w' \<longleftrightarrow>
     learned w' = m \<and> peer_inv w' \<and> same_policy (w_peer w') (w_peer w) \<and>
     tr_localConnID (p_Transport (w_peer w')) = tr_localConnID (p_Transport (w_peer w)) \<and>
     (\<forall>k. rk_TargetKey k \<noteq> tg_RouteTargetKey (peer_target (w_peer w)) \<longrightarrow> rt_abs (w_rt w') k = rt_abs (w_rt w) k)"

lemma policy_import:
  assumes "same_policy p q"
  shows "import_tuple p = import_tuple q" "import_event p = import_event q"
    "tuple_ends p = tuple_ends q" "event_ends p = event_ends q"
  unfolding import_tuple_def [abs_def] import_event_def [abs_def] tuple_ends_def [abs_def]
    event_ends_def [abs_def] policy_eqs [OF assms] by (rule refl)+

lemma exchanged_trans: "exchanged m w v \<Longrightarrow> exchanged m' v w' \<Longrightarrow> exchanged m' w w'"
  using policy_eqs(7) [of "w_peer v" "w_peer w"] by (auto simp: exchanged_def same_policy_def)

text \<open>The packet with the Last flag completes the table.\<close>

lemma wp_last:
  assumes "Flags (rirsp_Header pkt) AND RoutingFlagLast \<noteq> 0"
  shows "wp (acceptRIRsp E pkt) (\<lambda>r w'. r = Inr () \<longrightarrow> rstate (w_peer w') = ReceiverConnected) w"
  unfolding acceptRIRsp_def
  by (rule wp_bindI [where R = "\<lambda>_ _. True"])
    (use assms in \<open>auto simp: wp_simps sendRIAck_def resetReconnectBackoff_def split: sum.split\<close>)

lemma handlePacket_last:
  assumes "handlePacket E (PRIRsp pkt) w = Some (Inr (), w')" "Flags (rirsp_Header pkt) AND RoutingFlagLast \<noteq> 0"
    "conn_of (PRIRsp pkt) = tr_localConnID (p_Transport (w_peer w))" "seq_of (PRIRsp pkt) = expected w"
  shows "rstate (w_peer w') = ReceiverConnected"
proof -
  have neq: "expected w \<noteq> Pred (expected w)" by (auto simp: Pred_def Let_def split: if_splits)
  have "wp (handlePacket E (PRIRsp pkt)) (\<lambda>r w'. r = Inr () \<longrightarrow> rstate (w_peer w') = ReceiverConnected) w"
    using assms(3,4) neq wp_last [OF assms(2)]
    by (simp add: handlePacket_def handleRIRsp_def checkRemoteSeq_def checkRemoteSeqWithAckFlags_def
      checkLocalConnID_def wp_dropping wp_with_peer wp_if wp_ret Let_def markReceiverAlive_def
      wp_bind [of _ "upd_peer _"] wp_upd_peer addToChatLog_def)
  from wpD [OF this assms(1)] show ?thesis by simp
qed

lemma RIRsp_exchanged:
  assumes inv: "peer_inv w" and ends: "list_all (tuple_ends (w_peer w)) (rirsp_Networks pkt)"
    and seq: "conn_of (PRIRsp pkt) = tr_localConnID (p_Transport (w_peer w))" "seq_of (PRIRsp pkt) = expected w"
    and udp: "\<And>pkts. env_udp E pkts = None"
  obtains w' where "handlePacket E (PRIRsp pkt) w = Some (Inr (), w')" "expected w' = Succ (expected w)"
    "exchanged (fold (import_tuple (w_peer w)) (rirsp_Networks pkt) (learned w)) w w'"
    "Flags (rirsp_Header pkt) AND RoutingFlagLast \<noteq> 0 \<longrightarrow> rstate (w_peer w') = ReceiverConnected"
proof -
  from runs_RIRsp [OF inv ends seq, of E] obtain r w' where
    h: "handlePacket E (PRIRsp pkt) w = Some (r, w')"
    "applied E (fold (import_tuple (w_peer w)) (rirsp_Networks pkt) (learned w)) (PRIRsp pkt) w r w'"
    by (auto simp: wpx_def split: option.splits)
  have "peer_inv w'"
    by (rule wpD [OF keepsD [OF keeps_handlePacket inv] h(1)])
  moreover have "r = Inr ()" "expected w' = Succ (expected w)"
    using h(2) udp by (auto simp: applied_def Let_def IncRemoteSeq_def)
  ultimately show ?thesis
    using h udp handlePacket_last [of E pkt w w', OF _ _ seq]
    by (intro that [of w']) (auto simp: applied_def exchanged_def Let_def IncRemoteSeq_def)
qed

lemma receive_RIRsps:
  assumes "peer_inv w" "\<And>pkts. env_udp E pkts = None"
    and "map rirsp_seq pkts = seq_run (length pkts) (expected w)"
    and "\<And>pkt. pkt \<in> set pkts \<Longrightarrow> conn_of (PRIRsp pkt) = tr_localConnID (p_Transport (w_peer w)) \<and>
      list_all (tuple_ends (w_peer w)) (rirsp_Networks pkt) \<and>
      (\<exists>b. encode (Packet_WriteTo (PRIRsp pkt)) = Inr b \<and> ParsePacket b = Inr (GetDomainHeader (PRIRsp pkt), PRIRsp pkt))"
  shows "\<exists>bs w'. map (\<lambda>pkt. encode (Packet_WriteTo (PRIRsp pkt))) pkts = map Inr bs \<and> receive_all E bs w = Some w' \<and>
    exchanged (fold (import_tuple (w_peer w)) (concat (map rirsp_Networks pkts)) (learned w)) w w' \<and>
    (pkts \<noteq> [] \<and> Flags (rirsp_Header (last pkts)) AND RoutingFlagLast \<noteq> 0 \<longrightarrow> rstate (w_peer w') = ReceiverConnected)"
  using assms
proof (induction pkts arbitrary: w)
  case Nil
  then show ?case by (auto simp: exchanged_def same_policy_def)
next
  case (Cons pkt pkts)
  have pkt: "conn_of (PRIRsp pkt) = tr_localConnID (p_Transport (w_peer w))" "seq_of (PRIRsp pkt) = expected w"
    "list_all (tuple_ends (w_peer w)) (rirsp_Networks pkt)"
    using Cons.prems(3,4) by auto
  obtain b where b: "encode (Packet_WriteTo (PRIRsp pkt)) = Inr b" "ParsePacket b = Inr (GetDomainHeader (PRIRsp pkt), PRIRsp pkt)"
    using Cons.prems(4) [of pkt] by auto
  obtain v where v: "handlePacket E (PRIRsp pkt) w = Some (Inr (), v)" "expected v = Succ (expected w)"
    "exchanged (fold (import_tuple (w_peer w)) (rirsp_Networks pkt) (learned w)) w v"
    "Flags (rirsp_Header pkt) AND RoutingFlagLast \<noteq> 0 \<longrightarrow> rstate (w_peer v) = ReceiverConnected"
    by (rule RIRsp_exchanged [OF Cons.prems(1) pkt(3,1,2) Cons.prems(2)])
  from v(3) have conn: "tr_localConnID (p_Transport (w_peer v)) = tr_localConnID (p_Transport (w_peer w))" "peer_inv v"
    "learned v = fold (import_tuple (w_peer w)) (rirsp_Networks pkt) (learned w)"
    and pol: "same_policy (w_peer v) (w_peer w)"
    by (simp_all add: exchanged_def)
  have "\<exists>bs w'. map (\<lambda>pkt. encode (Packet_WriteTo (PRIRsp pkt))) pkts = map Inr bs \<and> receive_all E bs v = Some w' \<and>
    exchanged (fold (import_tuple (w_peer v)) (concat (map rirsp_Networks pkts)) (learned v)) v w' \<and>
    (pkts \<noteq> [] \<and> Flags (rirsp_Header (last pkts)) AND RoutingFlagLast \<noteq> 0 \<longrightarrow> rstate (w_peer w') = ReceiverConnected)"
    using Cons.prems(3,4) by (intro Cons.IH) (simp_all add: conn v(2) policy_import [OF pol] Cons.prems(2))
  then obtain bs w' where w': "map (\<lambda>pkt. encode (Packet_WriteTo (PRIRsp pkt))) pkts = map Inr bs" "receive_all E bs v = Some w'"
    "exchanged (fold (import_tuple (w_peer v)) (concat (map rirsp_Networks pkts)) (learned v)) v w'"
    "pkts \<noteq> [] \<and> Flags (rirsp_Header (last pkts)) AND RoutingFlagLast \<noteq> 0 \<longrightarrow> rstate (w_peer w') = ReceiverConnected"
    by blast
  show ?case
    by (rule exI [of _ "b # bs"], rule exI [of _ w'])
      (use b v w' exchanged_trans [OF v(3) w'(3)] conn in
        \<open>auto simp: policy_import [OF pol] act_catch_def act_ret_def\<close>)
qed


section \<open>A receiver without policies\<close>

definition plain_policy :: "'a AURPPeer_scheme \<Rightarrow> bool" where
  "plain_policy p \<longleftrightarrow> HiddenImportNetworks (timing p) = [] \<and> RemapRules (timing p) = [] \<and>
     BackupPeers (timing p) = [] \<and> HopCountWeight (timing p) = 0"

lemma plain_import:
  assumes "plain_policy p"
  shows "\<not> importRangeHidden p a b" "\<not> importNetworkHidden p a" "remapInboundNetworkTuple p nt = nt"
    "remapInboundEvent p et = et" "weightedAURPDistance p d = (if d < 15 then (d + 1, True) else (0, False))"
proof -
  have "\<not> (ucast d + 1 :: u16) > 15" "ucast (ucast d + 1 :: u16) = d + 1" if "d < 15"
    using that
    by (simp_all add: word_less_nat_alt word_unat_eq_iff unsigned_ucast_eq unat_word_ariths take_bit_eq_mod)
  then show "weightedAURPDistance p d = (if d < 15 then (d + 1, True) else (0, False))"
    using assms by (auto simp: plain_policy_def weightedAURPDistance_def backupRoutePenalty_def not_le)
qed (use assms in \<open>simp_all add: plain_policy_def importRangeHidden_def importNetworkHidden_def
    remapInboundNetworkTuple_def remapInboundRange_def remapInboundEvent_def remapInboundNetwork_def\<close>)

lemma import_exported:
  assumes "plain_policy p" "distinct (map r_NetStart rs)"
    "\<And>r. r \<in> set rs \<Longrightarrow> route_ok r \<and> r_Distance r < 15"
  shows "fold (import_tuple p) (exported_tuples rs) m n =
    (case find (\<lambda>r. r_NetStart r = n) rs of
       Some r \<Rightarrow> Some (r_Extended r, r_NetEnd r, r_Distance r + 1) | None \<Rightarrow> m n)"
  using assms(2,3)
proof (induction rs arbitrary: m)
  case (Cons r rs)
  have "find (\<lambda>s. r_NetStart s = n) rs = None" if "r_NetStart r = n"
    using that Cons.prems(1) by (auto simp: find_None_iff rev_image_eqI)
  with Cons show ?case
    by (auto simp: exported_tuples_def import_tuple_def plain_import [OF assms(1)] range_ok_def route_ok_def
      split: option.split)
qed (simp add: exported_tuples_def)

lemma exported_ok:
  assumes "rt_reach rt"
  shows "distinct (map r_NetStart (peer_aurpExportedRoutes now rt p))"
    "r \<in> set (peer_aurpExportedRoutes now rt p) \<Longrightarrow> route_ok r \<and> r_Distance r < 15"
proof -
  note inv = rt_inv_reach [OF assms]
  show "distinct (map r_NetStart (peer_aurpExportedRoutes now rt p))"
    using exported_routes_ok(2) [OF inv, of now] by (simp add: peer_aurpExportedRoutes_def distinct_map_filter)
  assume "r \<in> set (peer_aurpExportedRoutes now rt p)"
  then have r: "aurpRouteIsAdvertisable r" "Lookup now (r_NetStart r) rt = r"
    using exported_routes_ok(1) [OF inv, of now] by (auto simp: peer_aurpExportedRoutes_def exportable_def)
  then have "\<not> Route_Zero r"
    by (simp add: aurpRouteIsAdvertisable_def aurpRouteIsLocal_def)
  then have "r \<in> set (Dump rt)"
    using lookup_best [OF inv, where P = "Route_Valid rt now" and now = now and n = "r_NetStart r"] r(2)
    by (simp add: Lookup_def)
  with r(1) show "route_ok r \<and> r_Distance r < 15"
    using reach_Dump(2) [OF inv] by (simp add: aurpRouteIsAdvertisable_def)
qed

lemma exported_ends:
  assumes "rt_reach rt" "plain_policy q" "nt \<in> set (exported_tuples (peer_aurpExportedRoutes now rt p))"
  shows "tuple_ends q nt"
  using exported_ok(2) [OF assms(1), of _ now p] assms(3)
  by (auto simp: tuple_ends_def plain_import [OF assms(2)] exported_tuples_def route_ok_def)

lemma rirsp_run_conn:
  assumes "rirsp_run tr cs pkts" "pkt \<in> set pkts"
  shows "conn_of (PRIRsp pkt) = tr_remoteConnID tr"
proof -
  obtain tr' l where "pkt = NewRIRspPacket tr' l (rirsp_Networks pkt)" "tr_remoteConnID tr' = tr_remoteConnID tr"
    using assms by (auto simp: rirsp_run_def)
  moreover have "conn_of (PRIRsp (NewRIRspPacket tr' l nts)) = tr_remoteConnID tr'" for nts
    by (simp add: NewRIRspPacket_def tr_sequenced_def)
  ultimately show ?thesis by metis
qed


section \<open>Properties\<close>

text \<open>A peer as it is created, and a clock and socket without errors, for the examples.\<close>

definition sample_new_peer :: AURPPeerSM where
  "sample_new_peer =
     \<lparr>ConfiguredAddr = ''a.example'', tunnelID = ''cfg:a.example'',
      timing = sample_aurp\<lparr>HopCountWeight := 0, RemapRules := [], HiddenImportNetworks := []\<rparr>,
      p_Transport = NewTransport (IPDomainIdentifier [10, 0, 0, 2]) (IPDomainIdentifier [10, 0, 0, 1]) 9 0,
      sstate = SenderUnconnected, suiFlags = 0, pendingEvents = [], pendingRIRsp = [], pendingRIUpd = [],
      self = 1, running = False, rstate = ReceiverUnconnected, lastReconnect = 0, lastHeardFrom = 0,
      lastSend = 0, lastUpdate = 0, lastSuccess = 0, sendRetries = 0, reconnectFailures = 0,
      nextReconnect = 0, counters = zero_counters, loopDisabled = False, chatLog = [],
      lastRISent = None, restartProbe = False, pendingZoneInfo = []\<rparr>"

definition sample_world :: peer_world where
  "sample_world =
     \<lparr>w_peer = sample_new_peer, w_rt = NewRouteTable, w_sent = [], w_notes = [], w_loops = []\<rparr>"

definition sample_env :: peer_env where
  "sample_env = \<lparr>env_now = 1, env_rand = (\<lambda>_. 0), env_udp = (\<lambda>_. None)\<rparr>"

definition sample_rirsp :: RIRspPacket where
  "sample_rirsp =
     \<lparr>rirsp_Header = \<lparr>HTrHeader = tr_sequenced (NewTransport (IPDomainIdentifier [10, 0, 0, 1])
          (IPDomainIdentifier [10, 0, 0, 2]) 7 9) 9 1, CommandCode = CmdCodeRIRsp, Flags = RoutingFlagLast\<rparr>,
      rirsp_Networks = [\<lparr>nt_Extended = True, nt_RangeStart = 40, nt_Distance = 2, nt_RangeEnd = 41\<rparr>]\<rparr>"

text \<open>An update that follows \<open>sample_rirsp\<close> and deletes its network.\<close>

definition sample_riupd :: RIUpdPacket where
  "sample_riupd =
     \<lparr>riupd_Header = \<lparr>HTrHeader = (HTrHeader (rirsp_Header sample_rirsp))\<lparr>Sequence := 2\<rparr>,
        CommandCode = CmdCodeRIUpd, Flags = 0\<rparr>,
      riupd_Events = [\<lparr>et_EventCode = EventCodeND, et_Extended = False, et_RangeStart = 40, et_Distance = 0,
        et_RangeEnd = 0\<rparr>]\<rparr>"

lemma sample_world_reach: "peer_reach sample_world"
  using reach_init
  by (intro start) (simp_all add: sample_world_def fresh_peer_def sample_new_peer_def transport_ok_init)

text \<open>The world after \<open>sample_rirsp\<close>.\<close>

lemma sample_connected:
  obtains w where "handlePacket sample_env (PRIRsp sample_rirsp) sample_world = Some (Inr (), w)" "peer_reach w"
    "rstate (w_peer w) = ReceiverConnected" "expected w = 2" "tr_localConnID (p_Transport (w_peer w)) = 9"
    "learned w 40 = Some (True, 41, 3)" "same_policy (w_peer w) (w_peer sample_world)"
proof -
  have p: "list_all (tuple_ends (w_peer sample_world)) (rirsp_Networks sample_rirsp)"
    "conn_of (PRIRsp sample_rirsp) = tr_localConnID (p_Transport (w_peer sample_world))"
    "seq_of (PRIRsp sample_rirsp) = expected sample_world"
    by code_simp+
  have l: "fold (import_tuple (w_peer sample_world)) (rirsp_Networks sample_rirsp) (learned sample_world) 40 = Some (True, 41, 3)"
    "Flags (rirsp_Header sample_rirsp) AND RoutingFlagLast \<noteq> 0" "Succ (expected sample_world) = 2"
    "tr_localConnID (p_Transport (w_peer sample_world)) = 9"
    by code_simp+
  have "env_udp sample_env pkts = None" for pkts
    by (simp add: sample_env_def)
  from RIRsp_exchanged [OF peer_inv_reach [OF sample_world_reach] p this] obtain w where
    w: "handlePacket sample_env (PRIRsp sample_rirsp) sample_world = Some (Inr (), w)"
      "expected w = Succ (expected sample_world)"
      "exchanged (fold (import_tuple (w_peer sample_world)) (rirsp_Networks sample_rirsp) (learned sample_world)) sample_world w"
      "Flags (rirsp_Header sample_rirsp) AND RoutingFlagLast \<noteq> 0 \<longrightarrow> rstate (w_peer w) = ReceiverConnected"
    by metis
  then have "handle_turn sample_env (EvPacket (PRIRsp sample_rirsp)) sample_world = Some (Inr (), w)"
    by (simp add: act_catch_def act_ret_def)
  then have "peer_reach w"
    by (rule move [OF sample_world_reach step_turn])
  with w l show ?thesis
    by (intro that [of w]) (simp_all add: exchanged_def)
qed

text \<open>
  C4: A full routing information exchange, from table to table.  The sender answers a request from a
  reachable route table; its packets are encoded, and the receiver, whose connection carries the
  sender's ID and expects sequence number 1, parses and handles them in order.  Then every exported
  route that is not hidden from the receiver is in its table one hop further away, nothing else
  changed there, neither routes learned earlier from this peer nor those of others, and the
  receiver is connected.
\<close>

theorem routing_table_reaches_peer:
  assumes "rt_reach rt" "transport_ok (p_Transport p)" "peer_reach w" "\<And>pkts. env_udp E pkts = None"
    and "tr_localConnID (p_Transport (w_peer w)) = tr_remoteConnID (p_Transport p)" "expected w = 1"
    and "plain_policy (w_peer w)"
  shows "\<exists>p' bs w'. prepareRIRsp now rt p = Inr p' \<and>
    map (\<lambda>pkt. encode (Packet_WriteTo (PRIRsp pkt))) (rirsp_stream False p') = map Inr bs \<and>
    receive_all E bs w = Some w' \<and> rstate (w_peer w') = ReceiverConnected \<and>
    (\<forall>n. learned w' n =
       (case find (\<lambda>r. r_NetStart r = n) (peer_aurpExportedRoutes now rt p) of
          Some r \<Rightarrow> Some (r_Extended r, r_NetEnd r, r_Distance r + 1) | None \<Rightarrow> learned w n)) \<and>
    (\<forall>k. rk_TargetKey k \<noteq> tg_RouteTargetKey (peer_target (w_peer w)) \<longrightarrow> rt_abs (w_rt w') k = rt_abs (w_rt w) k)"
proof -
  let ?rs = "peer_aurpExportedRoutes now rt p"
  obtain p' cs where prep: "prepareRIRsp now rt p = Inr p'" "cs \<noteq> []" "concat cs = exported_tuples ?rs"
    and run: "rirsp_run (ResetLocalSeq (p_Transport p)) cs (rirsp_stream False p')"
    and dgram: "\<And>pkt. pkt \<in> set (rirsp_stream False p') \<Longrightarrow>
       \<exists>b. encode (Packet_WriteTo (PRIRsp pkt)) = Inr b \<and> length b \<le> 1400 \<and>
         ParsePacket b = Inr (GetDomainHeader (PRIRsp pkt), PRIRsp pkt)"
    by (rule prepareRIRsp_run [OF assms(1,2), of now]) (rule that)
  let ?pkts = "rirsp_stream False p'"
  have nets: "map rirsp_Networks ?pkts = cs" and flags: "map (Flags \<circ> rirsp_Header) ?pkts = replicate (length cs - 1) 0 @ [RoutingFlagLast]"
    using run prep(2) by (simp_all add: rirsp_run_def)
  have len: "length ?pkts = length cs"
    using nets by (metis length_map)
  have ne: "?pkts \<noteq> []" using len prep(2) by auto
  have "last (map (Flags \<circ> rirsp_Header) ?pkts) = RoutingFlagLast"
    by (simp add: flags)
  then have fl: "Flags (rirsp_Header (last ?pkts)) AND RoutingFlagLast \<noteq> 0"
    using ne by (simp add: last_map)
  have conn: "conn_of (PRIRsp pkt) = tr_localConnID (p_Transport (w_peer w))" if "pkt \<in> set ?pkts" for pkt
    using rirsp_run_conn [OF run that] assms(5) by (simp add: ResetLocalSeq_def)
  have ends: "list_all (tuple_ends (w_peer w)) (rirsp_Networks pkt)" if "pkt \<in> set ?pkts" for pkt
    unfolding list_all_iff using exported_ends [OF assms(1,7), of _ now p] that
    by (force simp flip: prep(3) nets)
  have "map rirsp_seq ?pkts = seq_run (length ?pkts) (expected w)"
    using run by (simp add: rirsp_run_def len assms(6) ResetLocalSeq_def)
  from receive_RIRsps [OF peer_inv_reach [OF assms(3)] assms(4) this] conn ends dgram
  obtain bs w' where "map (\<lambda>pkt. encode (Packet_WriteTo (PRIRsp pkt))) ?pkts = map Inr bs" "receive_all E bs w = Some w'"
    "exchanged (fold (import_tuple (w_peer w)) (concat (map rirsp_Networks ?pkts)) (learned w)) w w'"
    "?pkts \<noteq> [] \<and> Flags (rirsp_Header (last ?pkts)) AND RoutingFlagLast \<noteq> 0 \<longrightarrow> rstate (w_peer w') = ReceiverConnected"
    by blast
  with prep ne fl nets show ?thesis
    using import_exported [OF assms(7) exported_ok [OF assms(1), where now = now and p = p], where m = "learned w"]
    by (intro exI [of _ p'] exI [of _ bs] exI [of _ w']) (simp add: exchanged_def)
qed

theorem routing_table_reaches_peer_witness:
  "\<exists>p' bs w'. prepareRIRsp 0 sample_table sample_tx = Inr p' \<and>
     map (\<lambda>pkt. encode (Packet_WriteTo (PRIRsp pkt))) (rirsp_stream False p') = map Inr bs \<and>
     receive_all sample_env bs sample_world = Some w' \<and> learned w' 5 = Some (True, 6, 1)"
proof -
  have "find (\<lambda>r. r_NetStart r = 5) (peer_aurpExportedRoutes 0 sample_table sample_tx) = Some (Lookup 0 5 sample_table) \<and>
      r_Extended (Lookup 0 5 sample_table) \<and> r_NetEnd (Lookup 0 5 sample_table) = 6 \<and>
      r_Distance (Lookup 0 5 sample_table) = 0"
    by code_simp
  moreover have "transport_ok (p_Transport sample_tx)"
    by (simp add: sample_tx_def transport_ok_init)
  moreover have "tr_localConnID (p_Transport (w_peer sample_world)) = tr_remoteConnID (p_Transport sample_tx)"
    "expected sample_world = 1" "plain_policy (w_peer sample_world)"
    by code_simp+
  ultimately show ?thesis
    using routing_table_reaches_peer [OF sample_reach _ sample_world_reach, of sample_tx sample_env 0]
    by (fastforce simp: sample_env_def)
qed

text \<open>
  An RI-Rsp packet in sequence.  Whatever the receiver's state, a packet with the connection ID
  of the receiver and the expected sequence number is handled to the end, and the routes learned
  from the peer change by exactly its tuples, in order: a tuple that is malformed, hidden or too far
  away is skipped, any other is stored under its remapped numbers with the weighted distance.  The
  routes of other targets stay, the packet is acknowledged with its own IDs, and if the
  acknowledgement left the router, the next sequence number is expected.
\<close>

theorem ri_rsp_refines_import:
  assumes "peer_reach w" "list_all (tuple_ends (w_peer w)) (rirsp_Networks pkt)"
    and "conn_of (PRIRsp pkt) = tr_localConnID (p_Transport (w_peer w))" "seq_of (PRIRsp pkt) = expected w"
  shows "\<exists>r w'. handlePacket E (PRIRsp pkt) w = Some (r, w') \<and>
    applied E (fold (import_tuple (w_peer w)) (rirsp_Networks pkt) (learned w)) (PRIRsp pkt) w r w'"
  using runs_RIRsp [OF peer_inv_reach [OF assms(1)] assms(2-4), of E] by (auto simp: wpx_def split: option.splits)

theorem ri_rsp_refines_import_witness:
  "\<exists>w'. handlePacket sample_env (PRIRsp sample_rirsp) sample_world = Some (Inr (), w') \<and>
     learned w' 40 = Some (True, 41, 3) \<and> expected w' = 2"
proof -
  have "list_all (tuple_ends (w_peer sample_world)) (rirsp_Networks sample_rirsp)"
    "conn_of (PRIRsp sample_rirsp) = tr_localConnID (p_Transport (w_peer sample_world))"
    "seq_of (PRIRsp sample_rirsp) = expected sample_world"
    by code_simp+
  from ri_rsp_refines_import [OF sample_world_reach this, of sample_env] obtain r w' where
    w': "handlePacket sample_env (PRIRsp sample_rirsp) sample_world = Some (r, w')"
    "applied sample_env (fold (import_tuple (w_peer sample_world)) (rirsp_Networks sample_rirsp) (learned sample_world))
      (PRIRsp sample_rirsp) sample_world r w'"
    by blast
  have "fold (import_tuple (w_peer sample_world)) (rirsp_Networks sample_rirsp) (learned sample_world) 40 = Some (True, 41, 3)"
    "tr_remoteSeq (IncRemoteSeq (p_Transport (w_peer sample_world))) = 2"
    by code_simp+
  with w' show ?thesis
    by (auto simp: applied_def Let_def sample_env_def)
qed

text \<open>
  C12: An RI-Upd packet in sequence, on a connection that is ready or waits for a tickle answer: the
  routes learned from the peer change by exactly its events, in order.  Added networks and distance
  changes are stored unless they are malformed, hidden or out of reach; a distance change out of
  reach, a deletion and a route change through another port remove the network; null events and
  zone changes do nothing.
\<close>

theorem ri_upd_refines_import:
  assumes "peer_reach w" "list_all (event_ends (w_peer w)) (riupd_Events pkt)"
    and "rstate (w_peer w) = ReceiverConnected \<or> rstate (w_peer w) = ReceiverWaitForTickleAck"
    and "conn_of (PRIUpd pkt) = tr_localConnID (p_Transport (w_peer w))" "seq_of (PRIUpd pkt) = expected w"
  shows "\<exists>r w'. handlePacket E (PRIUpd pkt) w = Some (r, w') \<and>
    applied E (fold (import_event (w_peer w)) (riupd_Events pkt) (learned w)) (PRIUpd pkt) w r w'"
  using runs_RIUpd [OF peer_inv_reach [OF assms(1)] assms(2-5), of E] by (auto simp: wpx_def split: option.splits)

theorem ri_upd_refines_import_witness:
  "\<exists>w w'. learned w 40 = Some (True, 41, 3) \<and>
     handlePacket sample_env (PRIUpd sample_riupd) w = Some (Inr (), w') \<and> learned w' 40 = None"
proof -
  obtain w where w: "peer_reach w" "rstate (w_peer w) = ReceiverConnected" "expected w = 2"
    "tr_localConnID (p_Transport (w_peer w)) = 9" "learned w 40 = Some (True, 41, 3)"
    "same_policy (w_peer w) (w_peer sample_world)"
    by (rule sample_connected)
  have "list_all (event_ends (w_peer sample_world)) (riupd_Events sample_riupd)"
    "conn_of (PRIUpd sample_riupd) = 9" "seq_of (PRIUpd sample_riupd) = 2"
    by code_simp+
  then have "list_all (event_ends (w_peer w)) (riupd_Events sample_riupd)"
    "conn_of (PRIUpd sample_riupd) = tr_localConnID (p_Transport (w_peer w))" "seq_of (PRIUpd sample_riupd) = expected w"
    using w by (simp_all add: policy_import [OF w(6)])
  from ri_upd_refines_import [OF w(1) this(1) disjI1 [OF w(2)] this(2,3), of sample_env] obtain r w' where
    w': "handlePacket sample_env (PRIUpd sample_riupd) w = Some (r, w')"
    "applied sample_env (fold (import_event (w_peer w)) (riupd_Events sample_riupd) (learned w)) (PRIUpd sample_riupd) w r w'"
    by blast
  have "fold (import_event (w_peer sample_world)) (riupd_Events sample_riupd) m 40 = None" for m
  proof -
    have "plain_policy (w_peer sample_world)" by code_simp
    then show ?thesis by (simp add: sample_riupd_def import_event_def plain_import)
  qed
  with w' w(5) show ?thesis
    by (auto simp: applied_def Let_def sample_env_def policy_import [OF w(6)])
qed

text \<open>
  C6: A routing packet of the data sender changes the route table only on the open connection and
  only in sequence: when the table differs after an RI-Rsp or RI-Upd was handled, its connection ID
  is the receiver's own and its sequence number is the expected one, or it is one ahead of it, and
  then the connection was closed: no route learned from the peer is left, the routes of the others
  are untouched, and the next connection has another ID.
\<close>

theorem routing_packets_change_table_in_sequence:
  assumes "peer_reach w" "handlePacket E pkt w = Some (r, w')" "pkt = PRIRsp a \<or> pkt = PRIUpd b"
    "w_rt w' \<noteq> w_rt w"
  shows "conn_of pkt = tr_localConnID (p_Transport (w_peer w)) \<and>
    (seq_of pkt = expected w \<or> seq_of pkt = Succ (expected w) \<and> closed_receiver w w')"
  using handlePacket_table_change [OF _ assms(2,3)] peer_inv_reach [OF assms(1)] assms(4)
  by (simp add: peer_inv_def table_change_ok_def)

theorem routing_packets_change_table_in_sequence_witness:
  "\<exists>w'. handlePacket sample_env (PRIRsp sample_rirsp) sample_world = Some (Inr (), w') \<and> w_rt w' \<noteq> w_rt sample_world \<and>
     conn_of (PRIRsp sample_rirsp) = tr_localConnID (p_Transport (w_peer sample_world)) \<and>
     (seq_of (PRIRsp sample_rirsp) = expected sample_world \<or>
      seq_of (PRIRsp sample_rirsp) = Succ (expected sample_world) \<and> closed_receiver sample_world w')"
proof -
  obtain w where w: "handlePacket sample_env (PRIRsp sample_rirsp) sample_world = Some (Inr (), w)"
    "learned w 40 = Some (True, 41, 3)" "same_policy (w_peer w) (w_peer sample_world)"
    by (rule sample_connected)
  have "learned sample_world 40 = None"
    by code_simp
  then have "w_rt w \<noteq> w_rt sample_world"
    using w(2) policy_eqs(7) [OF w(3)] by (auto simp: learned_def)
  from routing_packets_change_table_in_sequence [OF sample_world_reach w(1) _ this] w(1) this show ?thesis
    by simp
qed

text \<open>What an accepted routing packet leaves for its duplicate.\<close>

definition moved_on :: "peer_world \<Rightarrow> peer_world \<Rightarrow> bool" where
  "moved_on w w' \<longleftrightarrow> p_Transport (w_peer w') = IncRemoteSeq (p_Transport (w_peer w))"

lemma accepted_moves_on:
  assumes "pkt = PRIRsp a \<or> pkt = PRIUpd b \<and> rstate (w_peer w) \<in> {ReceiverConnected, ReceiverWaitForTickleAck}"
    and "conn_of pkt = tr_localConnID (p_Transport (w_peer w))" "seq_of pkt = expected w"
  shows "wp (handlePacket E pkt) (\<lambda>r w'. r = Inr () \<longrightarrow> moved_on w w' \<and>
    (pkt = PRIUpd b \<longrightarrow> rstate (w_peer w') = ReceiverConnected)) w"
proof -
  let ?Q = "\<lambda>(r :: peer_error + unit) w'. r = Inr () \<longrightarrow> moved_on w w' \<and> (pkt = PRIUpd b \<longrightarrow> rstate (w_peer w') = ReceiverConnected)"
  have chat: "p_Transport (addToChatLog now q c p) = p_Transport p" "rstate (addToChatLog now q c p) = rstate p" for now q c p
    by (simp_all add: addToChatLog_def Let_def)
  have conn: "wp (dropping (checkLocalConnID (HTrHeader (the (AURPHeader pkt)))) k) Q v \<longleftrightarrow> wp k Q v"
    if "p_Transport (w_peer v) = p_Transport (w_peer w)" for k Q v
    using that assms(2) by (simp add: checkLocalConnID_def wp_simps)
  have rsp: "wp (dropping (checkRemoteSeq E (HTrHeader (rirsp_Header a))) (acceptRIRsp E a)) ?Q v"
    if "pkt = PRIRsp a" "p_Transport (w_peer v) = p_Transport (w_peer w)" for v
    using that assms(3) by (intro wp_in_sequence [of _ w] wp_mono [OF wp_acceptRIRsp]) (auto simp: moved_on_def advanced_def)
  have upd: "wp (dropping (checkRemoteSeq E (HTrHeader (riupd_Header b))) (acceptRIUpd E b)) ?Q v"
    if "pkt = PRIUpd b" "p_Transport (w_peer v) = p_Transport (w_peer w)" "rstate (w_peer v) = ReceiverConnected" for v
    using that assms(3) by (intro wp_in_sequence [of _ w] wp_mono [OF wp_acceptRIUpd]) (auto simp: moved_on_def advanced_def)
  from assms(1) show ?thesis
    using conn rsp upd by (auto simp: handlePacket_def handleRIRsp_def handleRIUpd_def wp_bind [of _ "upd_peer _"]
      wp_upd_peer markReceiverAlive_def setRState_def wp_with_peer chat)
qed

text \<open>
  C7: Routing packets take effect at most once.  When an RI-Rsp or RI-Upd was accepted, a copy of it
  that arrives next is acknowledged again and changes nothing: neither the route table, nor the
  awaited zones, nor the connection.
\<close>

theorem routing_packet_applied_once:
  assumes "peer_reach w" "handlePacket E pkt w = Some (Inr (), w')"
    and "pkt = PRIRsp a \<or> pkt = PRIUpd b \<and> rstate (w_peer w) \<in> {ReceiverConnected, ReceiverWaitForTickleAck}"
    and "conn_of pkt = tr_localConnID (p_Transport (w_peer w))" "seq_of pkt = expected w"
  shows "expected w' = Succ (expected w) \<and> (\<exists>r w''. handlePacket E' pkt w' = Some (r, w'') \<and>
    w_rt w'' = w_rt w' \<and> p_Transport (w_peer w'') = p_Transport (w_peer w') \<and>
    pendingZoneInfo (w_peer w'') = pendingZoneInfo (w_peer w') \<and> w_sent w'' = w_sent w' @ [reack w' pkt])"
proof -
  have m: "moved_on w w'" "pkt = PRIUpd b \<longrightarrow> rstate (w_peer w') = ReceiverConnected"
    using wpD [OF accepted_moves_on [OF assms(3-5)] assms(2)] by simp_all
  have inv: "peer_inv w" "peer_inv w'"
    using peer_inv_reach [OF assms(1)] wpD [OF keepsD [OF keeps_handlePacket] assms(2)] by blast+
  then have "expected w \<noteq> 0" "transport_ok (p_Transport (w_peer w'))"
    by (simp_all add: peer_inv_def peer_ok_def transport_ok_def)
  moreover from this have "seq_of pkt = Pred (expected w')" "conn_of pkt = tr_localConnID (p_Transport (w_peer w'))"
    using m(1) assms(4,5) by (simp_all add: moved_on_def IncRemoteSeq_def Pred_Succ)
  ultimately have "runs (handlePacket E' pkt) (\<lambda>_ w''. only_reacked w' pkt w'') w'"
    using assms(3) m(2) by (intro runs_duplicate [of _ _ a b]) auto
  then show ?thesis
    using m(1) by (auto simp: wpx_def only_reacked_def moved_on_def IncRemoteSeq_def split: option.splits)
qed

theorem routing_packet_applied_once_witness:
  "\<exists>w w' r. handlePacket sample_env (PRIRsp sample_rirsp) sample_world = Some (Inr (), w) \<and>
     handlePacket sample_env (PRIRsp sample_rirsp) w = Some (r, w') \<and> w_rt w' = w_rt w"
proof -
  obtain w where w: "handlePacket sample_env (PRIRsp sample_rirsp) sample_world = Some (Inr (), w)"
    by (rule sample_connected)
  have "conn_of (PRIRsp sample_rirsp) = tr_localConnID (p_Transport (w_peer sample_world))"
    "seq_of (PRIRsp sample_rirsp) = expected sample_world"
    by code_simp+
  from routing_packet_applied_once [OF sample_world_reach w _ this, of sample_rirsp undefined sample_env] w
  show ?thesis by blast
qed

text \<open>
  C5: The invariant of a peer, in every state that packets, timers, reconnects, shutdown and changes of
  the route table by others can lead to: the route table is one that its operations can build, the
  transport can write its headers, the chat log has at most 200 entries, and a sender that waits for
  an acknowledgement holds the very packet to repeat, of the kind its state says, with the
  connection ID and the sequence number that the acknowledgement has to carry.
\<close>

theorem peer_invariant:
  assumes "peer_reach w"
  shows "rt_reach (w_rt w) \<and> transport_ok (p_Transport (w_peer w)) \<and> length (chatLog (w_peer w)) \<le> 200 \<and>
    (sstate (w_peer w) \<in> {SenderWaitForRIRspAck, SenderWaitForRIUpdAck, SenderWaitForRDAck} \<longrightarrow>
       (\<exists>pkt. lastRISent (w_peer w) = Some pkt \<and> awaited (sstate (w_peer w)) pkt \<and>
          seq_of pkt = tr_localSeq (p_Transport (w_peer w)) \<and>
          conn_of pkt = tr_remoteConnID (p_Transport (w_peer w))))"
  using peer_inv_reach [OF assms]
  by (auto simp: peer_inv_def peer_ok_def sender_ok_def idle_def outstanding_def)

theorem peer_invariant_witness: "length (chatLog (w_peer sample_world)) \<le> 200"
  using peer_invariant [OF sample_world_reach] by simp

end
