(* ===== verification/PeerTimers.thy ===== *)
theory PeerTimers
  imports PeerExchange
begin

text \<open>
  Time: reconnect pacing, and the detection of a silent peer by the receiver's
  ticks.
\<close>

section \<open>Reconnect pacing\<close>

lemma backoff_loop_eq:
  assumes "0 < d" "d \<le> reconnectBackoffCap"
  shows "backoff_loop i d failures = min (d * 2 ^ nat (failures - i)) reconnectBackoffCap"
  using assms
proof (induction i d failures rule: backoff_loop.induct)
  case (1 i d failures)
  show ?case
  proof (cases "i < failures \<and> d < reconnectBackoffCap")
    case True
    then have n: "nat (failures - i) = Suc (nat (failures - (i + 1)))" by arith
    have le: "d * 2 \<le> d * 2 ^ nat (failures - i)"
      using 1(2) by (simp add: n)
    show ?thesis
    proof (cases "d * 2 \<ge> reconnectBackoffCap")
      case big: True
      then have "d * 2 ^ nat (failures - i) \<ge> reconnectBackoffCap"
        using le by (rule order_trans)
      with True big show ?thesis
        by (simp add: backoff_loop.simps [of i] Let_def)
    next
      case False
      with True have "backoff_loop i d failures = backoff_loop (i + 1) (d * 2) failures"
        by (subst backoff_loop.simps) (simp add: Let_def)
      also have "\<dots> = min (d * 2 * 2 ^ nat (failures - (i + 1))) reconnectBackoffCap"
        using True False 1(2) by (intro 1(1)) simp_all
      finally show ?thesis
        by (simp add: n)
    qed
  next
    case False
    show ?thesis
    proof (cases "i < failures")
      case True
      with False 1(3) have "d = reconnectBackoffCap" by simp
      moreover have "reconnectBackoffCap \<le> reconnectBackoffCap * 2 ^ nat (failures - i)" by simp
      ultimately show ?thesis
        by (simp add: backoff_loop.simps)
    next
      case False
      with 1(3) show ?thesis
        by (simp add: backoff_loop.simps)
    qed
  qed
qed

lemma reconnectBackoff_eq:
  "failures \<ge> 1 \<Longrightarrow> reconnectBackoff failures = min (600 * Second * 2 ^ nat (failures - 1)) (7200 * Second)"
  by (simp add: reconnectBackoff_def backoff_loop_eq)

lemma jitter_bounds:
  assumes "0 < d" "\<And>n. 0 < n \<Longrightarrow> 0 \<le> rand n \<and> rand n < n"
  shows "d - d * 10 div 100 \<le> jitterReconnectBackoff rand d" "jitterReconnectBackoff rand d \<le> d + d * 10 div 100"
  using assms(1) assms(2) [of "2 * (d * 10 div 100) + 1"]
  by (auto simp: jitterReconnectBackoff_def Let_def)


section \<open>Ticks\<close>

text \<open>The receiver's ticks at the given times, with nothing received in between.\<close>

fun run_ticks :: "peer_env \<Rightarrow> time list \<Rightarrow> peer_world \<Rightarrow> peer_world option" where
  "run_ticks E [] w = Some w"
| "run_ticks E (t # ts) w =
     (case handle_turn (E\<lparr>env_now := t\<rparr>) EvRticker w of
        None \<Rightarrow> None | Some (_, w') \<Rightarrow> run_ticks E ts w')"

text \<open>Requests for zones at the end of a tick.\<close>

lemma send_ok:
  assumes "\<And>pkts. env_udp E pkts = None" "encode (Packet_WriteTo pkt) = Inr b"
  shows "send_result E pkt w = Inr ()" "lastSend (w_peer (send_world E pkt w)) = env_now E"
  using assms by (simp_all add: send_result_def send_world_def Let_def)

lemma runs_send_all:
  assumes "\<And>pkts. env_udp E pkts = None" "\<And>pkt. pkt \<in> set pkts \<Longrightarrow> \<exists>b. encode (Packet_WriteTo pkt) = Inr b"
    and "Q w" "\<And>pkt v. pkt \<in> set pkts \<Longrightarrow> Q v \<Longrightarrow> Q (send_world E pkt v)"
  shows "runs (send_all E pkts) (\<lambda>r w'. r = Inr () \<and> Q w') w"
  using assms(2-4)
proof (induction pkts arbitrary: w)
  case (Cons pkt pkts)
  obtain b where "encode (Packet_WriteTo pkt) = Inr b"
    using Cons.prems(1) by auto
  moreover have "runs (send_all E pkts) (\<lambda>r w'. r = Inr () \<and> Q w') (send_world E pkt w)"
    using Cons.prems by (intro Cons.IH) auto
  ultimately show ?case
    using send_ok(1) [OF assms(1)] by (simp add: wp_bind [of _ "send _ _"] wp_send)
qed (simp add: wp_ret)

text \<open>The state that a tick for zone information keeps.\<close>

definition waits :: "ReceiverState \<Rightarrow> int \<Rightarrow> time \<Rightarrow> peer_world \<Rightarrow> peer_world \<Rightarrow> bool" where
  "waits rs n t w w' \<longleftrightarrow>
     rstate (w_peer w') = rs \<and> sendRetries (w_peer w') = n \<and> lastSend (w_peer w') = t \<and> peer_inv w' \<and>
     same_policy (w_peer w') (w_peer w) \<and> w_rt w' = w_rt w \<and> p_Transport (w_peer w') = p_Transport (w_peer w) \<and>
     reconnectFailures (w_peer w') = reconnectFailures (w_peer w)"

lemma waits_core:
  assumes "core (w_peer v) = core (w_peer w)" "w_rt v = w_rt w" "lastSend (w_peer v) = t" "peer_inv v"
    and "rstate (w_peer w) = rs" "sendRetries (w_peer w) = n"
  shows "waits rs n t w v"
  using core_eqD [OF assms(1)] assms same_policy_core [OF assms(1)] by (simp add: waits_def)

lemma runs_retryZones:
  assumes udp: "\<And>pkts. env_udp E pkts = None" and w: "waits rs n (env_now E) w0 w"
  shows "runs (retryIncompleteZoneInfo E) (\<lambda>r w'. r = Inr () \<and> waits rs n (env_now E) w0 w') w"
proof -
  let ?p = "(w_peer w)\<lparr>pendingZoneInfo := filter (\<lambda>(n, _). ownsAURPNetwork (w_peer w) (w_rt w) n) (pendingZoneInfo (w_peer w))\<rparr>"
  let ?w = "w\<lparr>w_peer := ?p\<rparr>"
  let ?local = "map fst (filter (\<lambda>(_, pending). zone_info_due (env_now E) ?p pending) (pendingZoneInfo ?p))"
  have stay: "waits rs n (env_now E) w0 (v\<lparr>w_peer := f (w_peer v)\<rparr>)"
    if "waits rs n (env_now E) w0 v" "\<And>p. core (f p) = core p" "\<And>p. lastSend (f p) = lastSend p"
      "\<And>p. chatLog (f p) = chatLog p" for f v
  proof -
    have "peer_inv (v\<lparr>w_peer := f (w_peer v)\<rparr>)"
      by (rule wpD [OF keepsD [OF keeps_upd_core]]) (use that in \<open>auto simp: waits_def upd_peer_def\<close>)
    with that(1) core_eqD [OF that(2), of "w_peer v"] same_policy_core [OF that(2), of "w_peer v"] that(3) show ?thesis
      by (auto simp: waits_def intro: same_policy_trans)
  qed
  have w': "waits rs n (env_now E) w0 ?w"
    by (rule stay [OF w]) simp_all
  then have "peer_inv ?w" unfolding waits_def by blast
  then have tr: "transport_ok (p_Transport ?p)"
    by (simp add: peer_inv_def peer_ok_def)
  obtain pkts where pkts: "buildZIReqPackets (p_Transport ?p) (map (\<lambda>n. fst (remapOutboundNetwork ?p n)) ?local) = Inr pkts"
    "\<forall>pkt\<in>set pkts. deliverable (PZIReq pkt)"
    using zireq_ok [OF tr, of "map (\<lambda>n. fst (remapOutboundNetwork ?p n)) ?local"] by auto
  have sends: "runs (send_all E (map PZIReq pkts)) (\<lambda>r w'. r = Inr () \<and> waits rs n (env_now E) w0 w') ?w"
  proof (rule runs_send_all [OF udp, where Q = "waits rs n (env_now E) w0"])
    fix pkt v assume pkt: "pkt \<in> set (map PZIReq pkts)" and v: "waits rs n (env_now E) w0 v"
    then obtain b where "encode (Packet_WriteTo pkt) = Inr b"
      using pkts(2) by (auto simp: deliverable_def)
    moreover have "peer_inv (send_world E pkt v)"
      using v by (intro wpD [OF keepsD [OF keeps_send] send_eq]) (simp add: waits_def)
    ultimately show "waits rs n (env_now E) w0 (send_world E pkt v)"
      using v send_ok(2) [OF udp] same_policy_core [OF send_world_frame(4), of E pkt v]
      by (auto simp: waits_def intro: same_policy_trans)
  qed (use pkts(2) w' in \<open>auto simp: deliverable_def\<close>)
  have touch: "runs (act_seq (send_all E (map PZIReq pkts)) (upd_peer (touch_pending (env_now E) ?local)))
      (\<lambda>r w'. r = Inr () \<and> waits rs n (env_now E) w0 w') ?w"
  proof (rule wp_bindI [OF sends])
    fix x v assume "Inr x = Inr () \<and> waits rs n (env_now E) w0 v"
    then have "waits rs n (env_now E) w0 (v\<lparr>w_peer := touch_pending (env_now E) ?local (w_peer v)\<rparr>)"
      by (intro stay) (simp_all add: touch_pending_def)
    then show "runs (upd_peer (touch_pending (env_now E) ?local)) (\<lambda>r w'. r = Inr () \<and> waits rs n (env_now E) w0 w') v"
      by (simp add: wp_upd_peer)
  qed simp
  show ?thesis
    using touch w' pkts(1)
    by (simp add: retryIncompleteZoneInfo_def wp_with_table wp_bind [of _ "upd_peer _"] wp_upd_peer wp_with_peer Let_def wp_ret)
qed


section \<open>A silent peer\<close>

lemma tickle_encodes:
  assumes "transport_ok tr"
  obtains b where "encode (Packet_WriteTo (PTickle (NewTicklePacket tr))) = Inr b"
  using sent_bytes(1) [OF assms sends.intros(16) [of tr]] by auto

text \<open>A tick: the state of the receiver first, then requests for zones.\<close>

lemma runs_tick:
  assumes inv: "peer_inv w" and udp: "\<And>pkts. env_udp E pkts = None"
    and st: "runs (rticker_state E) (\<lambda>r v. r = Inr () \<and> Q v) w"
    and Q: "\<And>v. Q v \<Longrightarrow> peer_inv v \<Longrightarrow> waits ReceiverWaitForTickleAck n (env_now E) w0 v"
  shows "runs (rtickerTasks E) (\<lambda>r w'. r = Inr () \<and> waits ReceiverWaitForTickleAck n (env_now E) w0 w') w"
  unfolding rtickerTasks_def
proof (rule wp_bindI [OF wp_conj [OF st]])
  have "keeps peer_inv (rticker_state E)"
    unfolding rticker_state_def by (intro keeps_intros)
  then show "wp (rticker_state E) (\<lambda>_. peer_inv) w"
    using inv by (rule keepsD)
next
  fix x v assume "(Inr x = Inr () \<and> Q v) \<and> peer_inv v"
  then have v: "waits ReceiverWaitForTickleAck n (env_now E) w0 v"
    using Q by blast
  then have "rstate (w_peer v) = ReceiverWaitForTickleAck" by (simp add: waits_def)
  with runs_retryZones [OF udp v] show "runs (with_peer (\<lambda>p. if rstate p = ReceiverConnected \<or> rstate p = ReceiverWaitForTickleAck
      then retryIncompleteZoneInfo E else act_ret ())) (\<lambda>r w'. r = Inr () \<and> waits ReceiverWaitForTickleAck n (env_now E) w0 w') v"
    by (simp add: wp_with_peer)
qed simp

text \<open>The tick that notices the silence, one that repeats the Tickle, and the last one.\<close>

lemma tick_first:
  assumes inv: "peer_inv w" and udp: "\<And>pkts. env_udp E pkts = None"
    and rs: "rstate (w_peer w) = ReceiverConnected" "env_now E - lastHeardFrom (w_peer w) > lastHeardTimeout (w_peer w)"
  shows "runs (rtickerTasks E) (\<lambda>r w'. r = Inr () \<and> waits ReceiverWaitForTickleAck 0 (env_now E) w w') w"
proof -
  let ?pkt = "PTickle (NewTicklePacket (p_Transport (w_peer w)))"
  obtain b where "encode (Packet_WriteTo ?pkt) = Inr b"
    using tickle_encodes inv by (auto simp: peer_inv_def peer_ok_def)
  note ok = send_ok [OF udp this]
  let ?v = "(send_world E ?pkt w)\<lparr>w_peer := (w_peer (send_world E ?pkt w))\<lparr>rstate := ReceiverWaitForTickleAck, sendRetries := 0, lastSend := env_now E\<rparr>\<rparr>"
  have "same_policy (w_peer ?v) (w_peer w)"
    using same_policy_core [OF send_world_frame(4), of E ?pkt w] by (simp add: same_policy_def)
  then have q: "peer_inv ?v \<Longrightarrow> waits ReceiverWaitForTickleAck 0 (env_now E) w ?v"
    by (simp add: waits_def)
  have "runs (rticker_state E) (\<lambda>r v. r = Inr () \<and> v = ?v) w"
    using rs ok by (simp add: rticker_state_def wp_simps)
  from runs_tick [OF inv udp this] q show ?thesis by blast
qed

lemma waits_limits:
  assumes "waits rs n t w0 w"
  shows "retryInterval (w_peer w) = retryInterval (w_peer w0)" "tickleRetriesLimit (w_peer w) = tickleRetriesLimit (w_peer w0)"
    "peer_inv w" "rstate (w_peer w) = rs" "sendRetries (w_peer w) = n" "lastSend (w_peer w) = t"
    "reconnectFailures (w_peer w) = reconnectFailures (w_peer w0)" "same_policy (w_peer w) (w_peer w0)"
  using assms by (simp_all add: waits_def same_policy_def retryInterval_def tickleRetriesLimit_def)

lemma tick_again:
  assumes w: "waits ReceiverWaitForTickleAck n t w0 w" and udp: "\<And>pkts. env_udp E pkts = None"
    and due: "env_now E - t > retryInterval (w_peer w0)" and n: "n < tickleRetriesLimit (w_peer w0)"
  shows "runs (rtickerTasks E) (\<lambda>r w'. r = Inr () \<and> waits ReceiverWaitForTickleAck (n + 1) (env_now E) w0 w') w"
proof -
  let ?u = "w\<lparr>w_peer := (w_peer w)\<lparr>sendRetries := n + 1, lastSend := env_now E\<rparr>\<rparr>"
  let ?pkt = "PTickle (NewTicklePacket (p_Transport (w_peer w)))"
  let ?v = "send_world E ?pkt ?u"
  note f = waits_limits [OF w] and inv = waits_limits(3) [OF w] and pol = waits_limits(8) [OF w]
  obtain b where "encode (Packet_WriteTo ?pkt) = Inr b"
    using tickle_encodes inv by (auto simp: peer_inv_def peer_ok_def)
  note ok = send_ok [OF udp this]
  have "same_policy (w_peer ?v) (w_peer w0)"
    using same_policy_core [OF send_world_frame(4), of E ?pkt ?u] pol by (simp add: same_policy_def)
  then have q: "peer_inv ?v \<Longrightarrow> waits ReceiverWaitForTickleAck (n + 1) (env_now E) w0 ?v"
    using w ok by (simp add: waits_def)
  have "runs (rticker_state E) (\<lambda>r v. r = Inr () \<and> v = ?v) w"
    using f due n ok by (simp add: rticker_state_def retry_tick_def wp_simps)
  from runs_tick [OF inv udp this] q show ?thesis by blast
qed

lemma tick_last:
  assumes w: "waits ReceiverWaitForTickleAck n t w0 w"
    and due: "env_now E - t > retryInterval (w_peer w0)" and n: "n \<ge> tickleRetriesLimit (w_peer w0)"
  shows "runs (rtickerTasks E) (\<lambda>r w'. r = Inr () \<and> closed_receiver w w' \<and>
    reconnectFailures (w_peer w') = reconnectFailures (w_peer w0) + 1 \<and>
    nextReconnect (w_peer w') = env_now E + jitterReconnectBackoff (env_rand E) (reconnectBackoff (reconnectFailures (w_peer w0) + 1))) w"
proof -
  note f = waits_limits [OF w]
  have reach: "rt_reach (w_rt w)"
    using f(3) by (simp add: peer_inv_def)
  have "runs (receiverFailed E) (\<lambda>r w'. r = Inr () \<and> closed_receiver w w' \<and>
    reconnectFailures (w_peer w') = reconnectFailures (w_peer w0) + 1 \<and>
    nextReconnect (w_peer w') = env_now E + jitterReconnectBackoff (env_rand E) (reconnectBackoff (reconnectFailures (w_peer w0) + 1))) w"
    unfolding receiverFailed_def
    by (rule wp_bindI [OF runs_disconnectReceiver [OF reach]])
      (simp_all add: wp_upd_peer noteReconnectFailure_def Let_def closed_receiver_def learned_def fun_eq_iff peer_target_def f)
  then have "runs (rticker_state E) (\<lambda>r w'. r = Inr () \<and> closed_receiver w w' \<and>
    reconnectFailures (w_peer w') = reconnectFailures (w_peer w0) + 1 \<and>
    nextReconnect (w_peer w') = env_now E + jitterReconnectBackoff (env_rand E) (reconnectBackoff (reconnectFailures (w_peer w0) + 1))) w"
    using f due n by (simp add: rticker_state_def retry_tick_def wp_with_peer)
  then show ?thesis
    unfolding rtickerTasks_def
    by (rule wp_bindI) (simp_all add: wp_with_peer wp_ret closed_receiver_def)
qed

text \<open>Times that are each more than \<open>d\<close> after the one before.\<close>

fun spaced :: "time \<Rightarrow> time \<Rightarrow> time list \<Rightarrow> bool" where
  "spaced d t [] \<longleftrightarrow> True"
| "spaced d t (t' # ts) \<longleftrightarrow> t' - t > d \<and> spaced d t' ts"

text \<open>What remains of a peer that was given up at time \<open>t\<close>.\<close>

definition dropped :: "peer_env \<Rightarrow> time \<Rightarrow> peer_world \<Rightarrow> peer_world \<Rightarrow> bool" where
  "dropped E t w w' \<longleftrightarrow>
     closed_receiver w w' \<and> reconnectFailures (w_peer w') = reconnectFailures (w_peer w) + 1 \<and>
     nextReconnect (w_peer w') =
       t + jitterReconnectBackoff (env_rand E) (reconnectBackoff (reconnectFailures (w_peer w) + 1))"

lemma run_ticks_step:
  assumes "runs (rtickerTasks (E\<lparr>env_now := t\<rparr>)) (\<lambda>r v. r = Inr () \<and> P v) w"
    and "\<And>v. P v \<Longrightarrow> \<exists>w'. run_ticks E ts v = Some w' \<and> Q w'"
  shows "\<exists>w'. run_ticks E (t # ts) w = Some w' \<and> Q w'"
  using assms by (auto simp: wpx_def act_catch_def act_ret_def split: option.splits)

lemma ticks_drop:
  assumes "waits ReceiverWaitForTickleAck n t w0 w" "\<And>pkts. env_udp E pkts = None"
    and "spaced (retryInterval (w_peer w0)) t ts" "n \<le> tickleRetriesLimit (w_peer w0)"
    and "length ts = Suc (nat (tickleRetriesLimit (w_peer w0) - n))"
  shows "\<exists>w'. run_ticks E ts w = Some w' \<and> dropped E (last ts) w0 w'"
  using assms
proof (induction ts arbitrary: n t w)
  case (Cons t' ts)
  let ?E = "E\<lparr>env_now := t'\<rparr>"
  have udp: "env_udp ?E pkts = None" for pkts
    using Cons.prems(2) by simp
  have due: "env_now ?E - t > retryInterval (w_peer w0)"
    using Cons.prems(3) by simp
  show ?case
  proof (cases "n < tickleRetriesLimit (w_peer w0)")
    case True
    show ?thesis
    proof (rule run_ticks_step [OF tick_again [OF Cons.prems(1) udp due True]])
      fix v assume "waits ReceiverWaitForTickleAck (n + 1) (env_now ?E) w0 v"
      moreover have "ts \<noteq> []" "length ts = Suc (nat (tickleRetriesLimit (w_peer w0) - (n + 1)))"
        using True Cons.prems(5) by auto
      ultimately show "\<exists>w'. run_ticks E ts v = Some w' \<and> dropped E (last (t' # ts)) w0 w'"
        using Cons.IH [of "n + 1" t' v] True Cons.prems(2,3) by simp
    qed
  next
    case False
    then have ts: "ts = []" using Cons.prems(4,5) by simp
    have "closed_receiver w w' \<longleftrightarrow> closed_receiver w0 w'" for w'
      using Cons.prems(1) by (simp add: waits_def closed_receiver_def same_policy_def peer_target_def)
    then show ?thesis
      using False due by (intro run_ticks_step [OF tick_last [OF Cons.prems(1)]]) (auto simp: ts dropped_def)
  qed
qed simp


section \<open>Properties\<close>



text \<open>
  Reconnect pacing.  After \<open>n\<close> failures in a row the delay doubles from ten minutes up to two
  hours, whatever the number of failures, and the random jitter moves it by at most a tenth.
\<close>

theorem reconnect_delay_bounds:
  assumes "failures \<ge> 1" "\<And>n. 0 < n \<Longrightarrow> 0 \<le> rand n \<and> rand n < n"
  shows "reconnectBackoff failures = min (600 * Second * 2 ^ nat (failures - 1)) (7200 * Second) \<and>
    9 * reconnectBackoff failures \<le> 10 * jitterReconnectBackoff rand (reconnectBackoff failures) \<and>
    10 * jitterReconnectBackoff rand (reconnectBackoff failures) \<le> 11 * reconnectBackoff failures"
proof -
  have "0 < reconnectBackoff failures"
    using assms(1) by (simp add: reconnectBackoff_eq)
  from jitter_bounds [OF this assms(2)] show ?thesis
    using reconnectBackoff_eq [OF assms(1)] by linarith
qed

theorem reconnect_delay_bounds_witness:
  "reconnectBackoff 3 = 2400 * Second \<and> jitterReconnectBackoff (\<lambda>n. n - 1) (reconnectBackoff 3) \<le> 2640 * Second"
  using reconnect_delay_bounds [of 3 "\<lambda>n. n - 1"] by auto

end
