(* ===== verification/ZoneAssembly.thy ===== *)
theory ZoneAssembly
  imports PeerExchange "HOL-Library.Multiset"
begin

text \<open>
  Zone information that is too long for one datagram: the fragments of an extended
  ZI-Rsp are assembled to exactly the zone list of the network.
\<close>

section \<open>Fragments\<close>

abbreviation names :: "ZIRspPacket \<Rightarrow> string set" where
  "names pkt \<equiv> zt_Name ` set (zirsp_Zones pkt)"

lemma merged_names:
  assumes "distinct zs"
  shows "set (fold (\<lambda>zt zs. if zt_Name zt \<noteq> [] then List.insert (zt_Name zt) zs else zs) zts zs) =
      set zs \<union> (zt_Name ` set zts - {[]})"
    "distinct (fold (\<lambda>zt zs. if zt_Name zt \<noteq> [] then List.insert (zt_Name zt) zs else zs) zts zs)"
  using assms by (induction zts arbitrary: zs) auto

text \<open>
  The assembly for network \<open>m\<close> after the names \<open>done\<close> have arrived: nothing but the awaited zones
  has changed.
\<close>

definition assembling :: "network \<Rightarrow> nat \<Rightarrow> string set \<Rightarrow> peer_world \<Rightarrow> peer_world \<Rightarrow> bool" where
  "assembling m k done w w' \<longleftrightarrow>
     w_rt w' = w_rt w \<and> same_policy (w_peer w') (w_peer w) \<and> p_Transport (w_peer w') = p_Transport (w_peer w) \<and>
     (case map_of (pendingZoneInfo (w_peer w')) m of
        None \<Rightarrow> done = {}
      | Some q \<Rightarrow> distinct (pz_zones q) \<and> set (pz_zones q) = done \<and>
          (unat (pz_total q) = k \<or> pz_total q = 0 \<and> done = {}))"

text \<open>The zones of the network are replaced, and nothing is awaited any more.\<close>

definition assembled :: "network \<Rightarrow> string set \<Rightarrow> peer_world \<Rightarrow> peer_world \<Rightarrow> bool" where
  "assembled m zs w w' \<longleftrightarrow>
     set (zones_of (w_rt w') m) = zs \<and> (\<forall>n. n \<noteq> m \<longrightarrow> zones_of (w_rt w') n = zones_of (w_rt w) n) \<and>
     rt_abs (w_rt w') = rt_abs (w_rt w) \<and> map_of (pendingZoneInfo (w_peer w')) m = None"

lemma ReplaceZones_effect:
  assumes "ReplaceZonesForNetwork now m zs rt = (rt', evs)"
  shows "set (zones_of rt' m) = set zs - {[]}" "n \<noteq> m \<Longrightarrow> zones_of rt' n = zones_of rt n" "rt_abs rt' = rt_abs rt"
  using assms abs_cong [of rt' rt] by (auto simp: ReplaceZonesForNetwork_def Let_def)

definition fragment :: "network \<Rightarrow> network \<Rightarrow> nat \<Rightarrow> peer_world \<Rightarrow> ZIRspPacket \<Rightarrow> bool" where
  "fragment n m k w pkt \<longleftrightarrow>
     conn_of (PZIRsp pkt) = tr_localConnID (p_Transport (w_peer w)) \<and> zirsp_Subcode pkt = SubcodeZoneInfoExt \<and>
     zirsp_Zones pkt \<noteq> [] \<and> (\<forall>zt\<in>set (zirsp_Zones pkt). zt_Network zt = n) \<and> unat (zirsp_TotalTuples pkt) = k \<and>
     [] \<notin> names pkt \<and> fst (remapInboundNetwork (w_peer w) n) = m \<and> ownsAURPNetwork (w_peer w) (w_rt w) m"

lemma remap_policy: "same_policy p q \<Longrightarrow> remapInboundNetwork p = remapInboundNetwork q"
  using policy_eqs(4) by blast

lemma owns_policy: "same_policy p q \<Longrightarrow> ownsAURPNetwork p rt n = ownsAURPNetwork q rt n"
  using policy_eqs(7) [of p q] by (simp add: ownsAURPNetwork_def)

lemma find_not_None: "(\<And>x. x \<in> set xs \<Longrightarrow> \<not> P x) \<Longrightarrow> find P xs = None"
  by (auto simp: find_None_iff)

text \<open>What the receiver does with a fragment, up to the assembly.\<close>

lemma merge_assembling:
  assumes "assembling m k done w v" "fragment n m k w pkt" and old: "old = map_of (pendingZoneInfo (w_peer v)) m"
  shows "set (pz_zones (merge_fragment now pkt old)) = done \<union> names pkt \<and>
    distinct (pz_zones (merge_fragment now pkt old)) \<and> unat (pz_total (merge_fragment now pkt old)) = k \<and>
    \<not> (case old of None \<Rightarrow> False | Some q \<Rightarrow> pz_total q \<noteq> 0 \<and> pz_total q \<noteq> zirsp_TotalTuples pkt)"
proof -
  have k: "unat (zirsp_TotalTuples pkt) = k" and ne: "names pkt - {[]} = names pkt"
    using assms(2) by (auto simp: fragment_def)
  show ?thesis
  proof (cases old)
    case None
    then have "done = {}" using assms(1) old by (simp add: assembling_def)
    with None k ne merged_names [of "[]" "zirsp_Zones pkt"] show ?thesis
      by (simp add: merge_fragment_def)
  next
    case (Some q)
    then have q: "distinct (pz_zones q)" "set (pz_zones q) = done" "unat (pz_total q) = k \<or> pz_total q = 0"
      using assms(1) old by (auto simp: assembling_def split: option.splits)
    from q(3) k have "pz_total q = zirsp_TotalTuples pkt \<or> pz_total q = 0"
      by (auto simp: word_unat_eq_iff)
    with Some k ne q(2) merged_names [OF q(1), of "zirsp_Zones pkt"] show ?thesis
      by (auto simp: merge_fragment_def)
  qed
qed

text \<open>The world after the names \<open>D\<close> have arrived.\<close>

definition stepped :: "network \<Rightarrow> nat \<Rightarrow> string set \<Rightarrow> peer_world \<Rightarrow> peer_world \<Rightarrow> bool" where
  "stepped m k D w w' \<longleftrightarrow> (if card D = k then assembled m D w w' else assembling m k D w w')"

lemma stepped_count:
  "stepped m k D w (w'\<lparr>w_peer := (w_peer w')\<lparr>counters := c\<rparr>\<rparr>) \<longleftrightarrow> stepped m k D w w'"
  by (simp add: stepped_def assembled_def assembling_def same_policy_def)

lemma complete_runs:
  assumes q: "map_of (pendingZoneInfo (w_peer u)) m = Some q" "set (pz_zones q) = D" "distinct (pz_zones q)"
      "unat (pz_total q) = k" "card D \<le> k" "[] \<notin> D"
    and u: "w_rt u = w_rt w" "same_policy (w_peer u) (w_peer w)" "p_Transport (w_peer u) = p_Transport (w_peer w)"
  shows "runs (completeZoneInfo E m q) (\<lambda>r w'. (\<exists>x. r = Inr x) \<and> stepped m k D w w') u"
proof -
  have len: "length (pz_zones q) = card D"
    using distinct_card [OF q(3)] q(2) by simp
  show ?thesis
  proof (cases "card D = k")
    case False
    then have "stepped m k D w u"
      using q u by (auto simp: stepped_def assembling_def)
    with False show ?thesis
      using len q(4,5) by (auto simp: completeZoneInfo_def wp_if wp_ret)
  next
    case True
    obtain rt' evs where rt: "ReplaceZonesForNetwork (env_now E) m (sort (pz_zones q)) (w_rt u) = (rt', evs)"
      by fastforce
    have z: "set (zones_of rt' m) = D" "n \<noteq> m \<Longrightarrow> zones_of rt' n = zones_of (w_rt w) n" "rt_abs rt' = rt_abs (w_rt w)" for n
      using ReplaceZones_effect [OF rt] q(2,6) u(1) by auto
    have done': "stepped m (card D) D w w'"
      if "w_rt w' = rt'" "map_of (pendingZoneInfo (w_peer w')) m = None" for w'
      using that z by (simp add: stepped_def assembled_def)
    show ?thesis
      using True len q(4) rt
      by (auto simp: completeZoneInfo_def replaceZones_def noteLoopIndicativeNetwork_def clearPendingZoneInfo_def wp_simps
        delete_conv intro!: done' split: option.split prod.split)
  qed
qed

lemma fragment_step:
  assumes f: "fragment n m k w pkt" and a: "assembling m k D w v" and k: "k \<noteq> 0" "card (D \<union> names pkt) \<le> k" "[] \<notin> D"
  shows "runs (handlePacket E (PZIRsp pkt)) (\<lambda>r w'. r = Inr () \<and> stepped m k (D \<union> names pkt) w w') v"
proof -
  let ?p = "(addToChatLog (env_now E) (PZIRsp pkt) False (w_peer v))"
  let ?v = "v\<lparr>w_peer := ?p\<lparr>lastHeardFrom := env_now E, counters := (counters ?p)\<lparr>k_extendedZIFragments := k_extendedZIFragments (counters ?p) + 1\<rparr>\<rparr>\<rparr>"
  let ?old = "map_of (pendingZoneInfo (w_peer ?v)) m"
  let ?q = "merge_fragment (env_now E) pkt ?old"
  let ?u = "?v\<lparr>w_peer := (w_peer ?v)\<lparr>pendingZoneInfo := AList.update m ?q (pendingZoneInfo (w_peer ?v))\<rparr>\<rparr>"
  have chat: "same_policy (w_peer ?v) (w_peer v)" "p_Transport (w_peer ?v) = p_Transport (w_peer v)"
    "pendingZoneInfo (w_peer ?v) = pendingZoneInfo (w_peer v)"
    by (simp_all add: addToChatLog_def Let_def same_policy_def)
  have av: "assembling m k D w ?v"
    using a by (simp add: assembling_def addToChatLog_def Let_def same_policy_def)
  then have pol: "same_policy (w_peer ?v) (w_peer w)" and tr: "p_Transport (w_peer ?v) = p_Transport (w_peer w)" and rt: "w_rt ?v = w_rt w"
    unfolding assembling_def by blast+
  note q = merge_assembling [OF av f refl, of "env_now E"]
  have upol: "same_policy (w_peer ?u) (w_peer w)"
    using pol by (simp add: same_policy_def)
  have "runs (completeZoneInfo E m ?q) (\<lambda>r w'. (\<exists>x. r = Inr x) \<and> stepped m k (D \<union> names pkt) w w') ?u"
    using q k f upol tr rt by (intro complete_runs) (auto simp: fragment_def update_conv)
  moreover have "find (\<lambda>zt. fst (remapInboundNetwork (w_peer ?v) (zt_Network zt)) \<noteq> m) (zirsp_Zones pkt) = None"
    "fst (remapInboundNetwork (w_peer ?v) (zt_Network (hd (zirsp_Zones pkt)))) = m" "ownsAURPNetwork (w_peer ?v) (w_rt ?v) m"
    "zirsp_TotalTuples pkt \<noteq> 0" "zirsp_Zones pkt \<noteq> []"
    using f k(1) unfolding remap_policy [OF pol] owns_policy [OF pol] rt by (auto intro!: find_not_None simp: fragment_def)
  ultimately have ext: "runs (applyExtendedZIRsp E pkt) (\<lambda>r w'. (\<exists>x. r = Inr x) \<and> stepped m k (D \<union> names pkt) w w') ?v"
    using q unfolding applyExtendedZIRsp_def
    by (simp add: wp_with_table wp_with_peer Let_def wp_bind [of _ "upd_peer _"] wp_upd_peer)
  have "runs (act_catch (applyExtendedZIRsp E pkt) (\<lambda>_. act_ret ()) (\<lambda>(complete, network).
      if complete then PeerState.count (\<lambda>k. k\<lparr>k_extendedZICompleted := k_extendedZICompleted k + 1\<rparr>) else act_ret ()))
      (\<lambda>r w'. r = Inr () \<and> stepped m k (D \<union> names pkt) w w') ?v"
    unfolding wp_catch by (rule wp_mono [OF ext]) (auto simp: wp_simps stepped_count split: prod.split)
  then show ?thesis
    using f tr chat(2)
    by (simp add: handlePacket_def handleZIRsp_def checkLocalConnID_def wp_dropping wp_with_peer wp_if wp_ret count_def
      markReceiverAlive_def wp_bind [of _ "upd_peer _"] wp_upd_peer fragment_def)
qed


section \<open>All fragments\<close>

text \<open>The peer handles the ZI-Rsp packets in the given order.\<close>

fun handle_zones :: "peer_env \<Rightarrow> ZIRspPacket list \<Rightarrow> peer_world \<Rightarrow> peer_world option" where
  "handle_zones E [] w = Some w"
| "handle_zones E (pkt # pkts) w =
     (case handle_turn E (EvPacket (PZIRsp pkt)) w of None \<Rightarrow> None | Some (_, w') \<Rightarrow> handle_zones E pkts w')"

lemma handle_fragments:
  assumes "assembling m k D w v" "k \<noteq> 0" "[] \<notin> D" "card D < k" "finite D"
    and "\<And>pkt. pkt \<in> set pkts \<Longrightarrow> fragment n m k w pkt"
    and "distinct (map zt_Name (concat (map zirsp_Zones pkts)))" "card (D \<union> (\<Union>pkt\<in>set pkts. names pkt)) = k"
    and "D \<inter> (\<Union>pkt\<in>set pkts. names pkt) = {}"
  shows "\<exists>w'. handle_zones E pkts v = Some w' \<and> assembled m (D \<union> (\<Union>pkt\<in>set pkts. names pkt)) w w'"
  using assms
proof (induction pkts arbitrary: D v)
  case (Cons pkt pkts)
  let ?D = "D \<union> names pkt" and ?all = "D \<union> (\<Union>pkt\<in>set (pkt # pkts). names pkt)"
  have f: "fragment n m k w pkt" using Cons.prems(6) by simp
  then have nn: "[] \<notin> ?D" "names pkt \<noteq> {}" using Cons.prems(3) by (auto simp: fragment_def)
  have fin: "finite ?all" using Cons.prems(5) by simp
  have le: "card ?D \<le> k"
    using Cons.prems(8) card_mono [OF fin, of ?D] by auto
  from fragment_step [OF f Cons.prems(1,2) le Cons.prems(3), of E] obtain u where
    u: "handle_turn E (EvPacket (PZIRsp pkt)) v = Some (Inr (), u)" "stepped m k ?D w u"
    by (auto simp: wpx_def act_catch_def act_ret_def split: option.splits)
  show ?case
  proof (cases "pkts = []")
    case True
    with u Cons.prems(8) show ?thesis
      by (simp add: stepped_def Un_commute)
  next
    case False
    then obtain pkt' where pkt': "pkt' \<in> set pkts" by (cases pkts) auto
    then obtain z where z: "z \<in> names pkt'"
      using Cons.prems(6) [of pkt'] by (fastforce simp: fragment_def)
    have disj: "names pkt \<inter> (\<Union>pkt\<in>set pkts. names pkt) = {}"
      using Cons.prems(7) by (auto simp: image_UN)
    let ?rest = "\<Union>pkt\<in>set pkts. names pkt"
    have rest: "z \<in> ?rest" using z pkt' by blast
    have dD: "D \<inter> ?rest = {}" using Cons.prems(9) by (simp add: Int_Un_distrib)
    then have "z \<notin> ?D" using rest disj by blast
    moreover have "?D \<subseteq> ?all" "z \<in> ?all" using rest by simp_all blast+
    ultimately have "?D \<subset> ?all" by blast
    then have "card ?D < k"
      using psubset_card_mono [OF fin] Cons.prems(8) by simp
    moreover from this have "assembling m k ?D w u"
      using u(2) by (simp add: stepped_def)
    moreover have "card (?D \<union> ?rest) = k" "?D \<inter> ?rest = {}" "distinct (map zt_Name (concat (map zirsp_Zones pkts)))"
      using Cons.prems(7,8) dD disj by (simp_all add: Un_assoc Int_Un_distrib2)
    ultimately have "\<exists>w'. handle_zones E pkts u = Some w' \<and> assembled m (?D \<union> ?rest) w w'"
      using Cons.prems(2,5,6) nn(1) by (intro Cons.IH) simp_all
    then show ?thesis
      using u(1) by (simp add: Un_assoc)
  qed
qed simp


section \<open>One packet\<close>

lemma group_zones_more:
  assumes "\<And>zt. zt \<in> set zts \<Longrightarrow> fst (remapInboundNetwork p (zt_Network zt)) = m" "ownsAURPNetwork p rt m"
  shows "group_zones p rt zts ([(m, zs)], i) = ([(m, zs @ map zt_Name zts)], i)"
  using assms by (induction zts arbitrary: zs) (simp_all add: Let_def)

lemma group_zones_one:
  assumes "\<And>zt. zt \<in> set zts \<Longrightarrow> fst (remapInboundNetwork p (zt_Network zt)) = m" "ownsAURPNetwork p rt m" "zts \<noteq> []"
  shows "group_zones p rt zts ([], i) = ([(m, map zt_Name zts)], i)"
  using assms group_zones_more [of "tl zts" p m rt] by (cases zts) (simp_all add: Let_def)

lemma whole_list:
  assumes "conn_of (PZIRsp pkt) = tr_localConnID (p_Transport (w_peer w))" "zirsp_Subcode pkt = SubcodeZoneInfoNonExt"
    and "zirsp_Zones pkt \<noteq> []" "\<And>zt. zt \<in> set (zirsp_Zones pkt) \<Longrightarrow> zt_Network zt = n"
    and "fst (remapInboundNetwork (w_peer w) n) = m" "ownsAURPNetwork (w_peer w) (w_rt w) m"
  shows "runs (handlePacket E (PZIRsp pkt)) (\<lambda>r w'. r = Inr () \<and> assembled m (names pkt - {[]}) w w') w"
proof -
  let ?v = "w\<lparr>w_peer := (addToChatLog (env_now E) (PZIRsp pkt) False (w_peer w))\<lparr>lastHeardFrom := env_now E\<rparr>\<rparr>"
  have pol: "same_policy (w_peer ?v) (w_peer w)" and tr: "p_Transport (addToChatLog (env_now E) (PZIRsp pkt) False (w_peer w)) = p_Transport (w_peer w)"
    by (simp_all add: addToChatLog_def Let_def same_policy_def)
  have g: "group_zones (w_peer ?v) (w_rt ?v) (zirsp_Zones pkt) ([], 0) = ([(m, map zt_Name (zirsp_Zones pkt))], 0)"
    by (rule group_zones_one) (use assms remap_policy [OF pol] owns_policy [OF pol] in simp_all)
  obtain rt' evs where rt: "ReplaceZonesForNetwork (env_now E) m (dedupeSortedZones (map zt_Name (zirsp_Zones pkt))) (w_rt w) = (rt', evs)"
    by fastforce
  have z: "set (zones_of rt' m) = names pkt - {[]}" "k \<noteq> m \<Longrightarrow> zones_of rt' k = zones_of (w_rt w) k" "rt_abs rt' = rt_abs (w_rt w)" for k
    using ReplaceZones_effect [OF rt] by auto
  have done': "assembled m (names pkt - {[]}) w w'" if "w_rt w' = rt'" "map_of (pendingZoneInfo (w_peer w')) m = None" for w'
    using that z by (simp add: assembled_def)
  have "runs (applyNonExtendedZIRsp E pkt) (\<lambda>r w'. (\<exists>x. r = Inr x) \<and> assembled m (names pkt - {[]}) w w') ?v"
    using g rt by (auto simp: applyNonExtendedZIRsp_def replaceZones_def noteLoopIndicativeNetwork_def clearPendingZoneInfo_def
      wp_simps delete_conv intro!: done' split: option.split prod.split)
  then have "runs (act_bind (applyNonExtendedZIRsp E pkt) (\<lambda>(naccepted, ignored).
        PeerState.count (\<lambda>k. k\<lparr>k_zoneTuplesAccepted := k_zoneTuplesAccepted k + of_nat naccepted,
                     k_zoneTuplesIgnored := k_zoneTuplesIgnored k + of_nat ignored\<rparr>)))
      (\<lambda>r w'. r = Inr () \<and> assembled m (names pkt - {[]}) w w') ?v"
    by (rule wp_bindI) (auto simp: wp_simps assembled_def split: prod.split)
  then show ?thesis
    using assms(1,2) tr
    by (simp add: handlePacket_def handleZIRsp_def checkLocalConnID_def wp_dropping wp_with_peer wp_if wp_ret
      markReceiverAlive_def wp_bind [of _ "upd_peer _"] wp_upd_peer)
qed


section \<open>Properties\<close>

lemma zirsp_packets_conn:
  "zirsp_packets tr n zs = Inr pkts \<Longrightarrow> pkt \<in> set pkts \<Longrightarrow> conn_of (PZIRsp pkt) = tr_remoteConnID tr"
  by (auto simp: zirsp_packets_def Let_def NewZIRspPacket_def NewExtendedZIRspPacket_def tr_transaction_def
    split: if_splits sum.splits)



end
