(* ===== verification/Aarp.thy ===== *)
theory Aarp
  imports Forwarding AtalkRouting
begin

text \<open>
  AARP on an EtherTalk port (\<open>src/router/aarp.go\<close>): the address mapping table and the machine that
  probes for an address of the router, defends it, and moves to another range when the cable range
  is learned.

  The run loop waits for a range request, a tick of the probe timer, or a frame; each iteration is
  a turn of the model.  Frames and AARP packets are encoded by other modules, which are arguments.
\<close>

section \<open>Other modules\<close>

type_synonym hwaddr = "byte list"

record AddrPair =
  pr_Proto :: ddp_Addr
  pr_Hardware :: hwaddr

datatype aarp_Opcode = RequestOp | ResponseOp | ProbeOp | OtherOp u16

record aarp_Packet =
  aa_Opcode :: aarp_Opcode
  aa_Src :: AddrPair
  aa_Dst :: AddrPair

datatype SNAPProto = AARPProto | AppleTalkProto | OtherProto "byte list"

record ethertalk_Packet =
  fr_Dst :: hwaddr
  fr_Src :: hwaddr
  fr_SNAPProto :: SNAPProto
  fr_Payload :: "byte list"

text \<open>
  The functions of the \<open>ethertalk\<close> and \<open>aarp\<close> packages that the router calls.
\<close>

record ethertalk_module =
  et_AARP :: "hwaddr \<Rightarrow> aarp_Packet \<Rightarrow> string + ethertalk_Packet"
  et_AppleTalk :: "hwaddr \<Rightarrow> ExtPacket \<Rightarrow> string + ethertalk_Packet"
  et_Marshal :: "ethertalk_Packet \<Rightarrow> string + byte list"
  et_Unmarshal :: "byte list \<Rightarrow> string + ethertalk_Packet"
  et_AppleTalkBroadcast :: hwaddr
  aarp_Unmarshal :: "byte list \<Rightarrow> string + aarp_Packet"
  aarp_Response :: "AddrPair \<Rightarrow> AddrPair \<Rightarrow> aarp_Packet"
  aarp_Probe :: "hwaddr \<Rightarrow> ddp_Addr \<Rightarrow> aarp_Packet"
  aarp_Request :: "AddrPair \<Rightarrow> ddp_Addr \<Rightarrow> aarp_Packet"


section \<open>Address mapping table\<close>

definition maxAMTEntryAge :: time where
  "maxAMTEntryAge = 30 * 1000000000"

text \<open>
  \<open>time.Since\<close>: the zero time is so long ago that the difference is the largest duration.
\<close>

definition time_Since :: "time \<Rightarrow> time \<Rightarrow> time" where
  "time_Since now t = (if t = 0 then 2 ^ 63 - 1 else now - t)"

text \<open>A channel is a number; the table counts the channels made and lists the closed ones.\<close>

type_synonym chan = nat

record AMTEntry =
  am_HWAddr :: hwaddr
  am_LastUpdated :: time
  am_updated :: chan

record addressMappingTable =
  amt_table :: "(ddp_Addr \<times> AMTEntry) list"
  amt_made :: nat
  amt_closed :: "chan list"

definition AMTEntry_Valid :: "time \<Rightarrow> AMTEntry \<Rightarrow> bool" where
  "AMTEntry_Valid now e \<longleftrightarrow> time_Since now (am_LastUpdated e) < maxAMTEntryAge"

definition empty_amt :: addressMappingTable where
  "empty_amt = \<lparr>amt_table = [], amt_made = 0, amt_closed = []\<rparr>"

definition learn :: "time \<Rightarrow> ddp_Addr \<Rightarrow> hwaddr \<Rightarrow> addressMappingTable \<Rightarrow> addressMappingTable" where
  "learn now ddpAddr hwAddr t =
     (let ch = amt_made t;
          ent = \<lparr>am_HWAddr = hwAddr, am_LastUpdated = now, am_updated = ch\<rparr>
      in t\<lparr>amt_table := AList.update ddpAddr ent (amt_table t), amt_made := ch + 1,
           amt_closed := (case map_of (amt_table t) ddpAddr of
              None \<Rightarrow> amt_closed t
            | Some oldEnt \<Rightarrow> am_updated oldEnt # amt_closed t)\<rparr>)"

text \<open>The result is an address, and a channel to wait on unless the address is valid.\<close>

definition lookupOrWait ::
  "time \<Rightarrow> ddp_Addr \<Rightarrow> addressMappingTable \<Rightarrow> (hwaddr \<times> chan option) \<times> addressMappingTable" where
  "lookupOrWait now ddpAddr t =
     (case map_of (amt_table t) ddpAddr of
        None \<Rightarrow>
          let ch = amt_made t in
          ((replicate 6 0, Some ch),
           t\<lparr>amt_table := AList.update ddpAddr \<lparr>am_HWAddr = replicate 6 0, am_LastUpdated = 0, am_updated = ch\<rparr>
               (amt_table t), amt_made := ch + 1\<rparr>)
      | Some ent \<Rightarrow>
          if \<not> AMTEntry_Valid now ent then ((am_HWAddr ent, Some (am_updated ent)), t)
          else ((am_HWAddr ent, None), t))"


section \<open>The machine\<close>

abbreviation phase2StartupStart :: network where "phase2StartupStart \<equiv> 0xff00"
abbreviation phase2StartupEnd :: network where "phase2StartupEnd \<equiv> 0xfffe"

definition isPhase2StartupRange :: "network \<Rightarrow> network \<Rightarrow> bool" where
  "isPhase2StartupRange start end' \<longleftrightarrow> start \<ge> phase2StartupStart \<and> end' \<le> phase2StartupEnd"

text \<open>
  \<open>ar_ticking\<close> is whether the probe ticker runs; \<open>ar_rangeCh\<close> is the channel of capacity 1; the
  two channels that are closed once are whether they are closed.
\<close>

record AARPMachine =
  ar_amt :: addressMappingTable
  ar_myAddr :: AddrPair
  ar_probes :: nat
  ar_assigned :: bool
  ar_rangeStart :: network
  ar_rangeEnd :: network
  ar_rangeCh :: "(network \<times> network) option"
  ar_ticking :: bool
  ar_assignedCh :: bool
  ar_operational :: bool
  ar_operationalCh :: bool

definition NewAARPMachine :: "hwaddr \<Rightarrow> AARPMachine" where
  "NewAARPMachine myHWAddr =
     \<lparr>ar_amt = empty_amt, ar_myAddr = \<lparr>pr_Proto = \<lparr>ad_Network = 0, ad_Node = 0\<rparr>, pr_Hardware = myHWAddr\<rparr>,
      ar_probes = 0, ar_assigned = False, ar_rangeStart = 0, ar_rangeEnd = 0, ar_rangeCh = None,
      ar_ticking = False, ar_assignedCh = False, ar_operational = False, ar_operationalCh = False\<rparr>"

definition aarp_Address :: "AARPMachine \<Rightarrow> AddrPair \<times> bool" where
  "aarp_Address a = (ar_myAddr a, ar_assigned a)"

definition Rebind :: "network \<Rightarrow> network \<Rightarrow> AARPMachine \<Rightarrow> AARPMachine" where
  "Rebind start end' a =
     (if start = 0 \<or> end' = 0 \<or> start > end' \<or> isPhase2StartupRange start end' then a
      else if ar_rangeCh a = None then a\<lparr>ar_rangeCh := Some (start, end')\<rparr> else a)"

definition OperationalRange :: "AARPMachine \<Rightarrow> network \<times> network \<times> bool" where
  "OperationalRange a = (ar_rangeStart a, ar_rangeEnd a, ar_operational a \<and> ar_assigned a)"

definition set_proto :: "ddp_Addr \<Rightarrow> AARPMachine \<Rightarrow> AARPMachine" where
  "set_proto addr a = a\<lparr>ar_myAddr := (ar_myAddr a)\<lparr>pr_Proto := addr\<rparr>\<rparr>"

text \<open>The start of \<open>Run\<close>, with the range of the port.\<close>

definition aarp_start :: "network \<Rightarrow> network \<Rightarrow> AARPMachine \<Rightarrow> AARPMachine" where
  "aarp_start start end' a =
     set_proto \<lparr>ad_Network = start, ad_Node = 1\<rparr>
       (a\<lparr>ar_probes := 0, ar_rangeStart := start, ar_rangeEnd := end', ar_ticking := True\<rparr>)"


section \<open>Sending\<close>

text \<open>
  What a turn takes from outside: the clock, the random numbers, and the error of writing a frame,
  if any, given the frames written so far, the last one included.  \<open>ae_randNet n\<close> is
  \<open>rand.N\<close> below \<open>n\<close>, and \<open>ae_randNode k\<close> the result of its \<open>k\<close>-th call for a node number.
\<close>

record aarp_env =
  ae_now :: time
  ae_randNet :: "u16 \<Rightarrow> u16"
  ae_randNode :: "nat \<Rightarrow> byte"
  ae_write :: "byte list list \<Rightarrow> string option"

definition pad_frame :: "byte list \<Rightarrow> byte list" where
  "pad_frame raw = raw @ replicate (64 - length raw) 0"

text \<open>The error, if any, and the frames written.\<close>

definition write_frame ::
  "ethertalk_module \<Rightarrow> (byte list list \<Rightarrow> string option) \<Rightarrow> ethertalk_Packet \<Rightarrow> byte list list \<Rightarrow>
   string option \<times> byte list list" where
  "write_frame em wr pkt frames =
     (case et_Marshal em pkt of
        Inl e \<Rightarrow> (Some e, frames)
      | Inr raw \<Rightarrow> let frames' = frames @ [pad_frame raw] in (wr frames', frames'))"

definition heyThatsMe ::
  "ethertalk_module \<Rightarrow> aarp_env \<Rightarrow> AddrPair \<Rightarrow> AARPMachine \<Rightarrow> byte list list \<Rightarrow> string option \<times> byte list list" where
  "heyThatsMe em E targ a frames =
     (case et_AARP em (pr_Hardware (ar_myAddr a)) (aarp_Response em (ar_myAddr a) targ) of
        Inl e \<Rightarrow> (Some e, frames)
      | Inr f \<Rightarrow> write_frame em (ae_write E) (f\<lparr>fr_Dst := pr_Hardware targ\<rparr>) frames)"

definition aarp_probe ::
  "ethertalk_module \<Rightarrow> aarp_env \<Rightarrow> AARPMachine \<Rightarrow> byte list list \<Rightarrow> string option \<times> byte list list" where
  "aarp_probe em E a frames =
     (case et_AARP em (pr_Hardware (ar_myAddr a))
             (aarp_Probe em (pr_Hardware (ar_myAddr a)) (pr_Proto (ar_myAddr a))) of
        Inl e \<Rightarrow> (Some e, frames)
      | Inr f \<Rightarrow> write_frame em (ae_write E) f frames)"

definition aarp_request ::
  "ethertalk_module \<Rightarrow> (byte list list \<Rightarrow> string option) \<Rightarrow> ddp_Addr \<Rightarrow> AARPMachine \<Rightarrow> byte list list \<Rightarrow>
   string option \<times> byte list list" where
  "aarp_request em wr ddpAddr a frames =
     (case et_AARP em (pr_Hardware (ar_myAddr a)) (aarp_Request em (ar_myAddr a) ddpAddr) of
        Inl e \<Rightarrow> (Some e, frames)
      | Inr f \<Rightarrow> write_frame em wr f frames)"


section \<open>Choosing an address\<close>

partial_function (option) reroll_node :: "(nat \<Rightarrow> byte) \<Rightarrow> nat \<Rightarrow> byte \<Rightarrow> byte option" where
  "reroll_node rands k old =
     (let newNode = rands k + 1 in
      if newNode = old then reroll_node rands (k + 1) old else Some newNode)"

text \<open>\<open>None\<close>: \<open>rand.N\<close> panics on an empty range, or never returns a new node number.\<close>

definition reroll :: "aarp_env \<Rightarrow> AARPMachine \<Rightarrow> AARPMachine option" where
  "reroll E a =
     (let width = ar_rangeEnd a - ar_rangeStart a + 1;
          old = pr_Proto (ar_myAddr a)
      in if ar_rangeStart a \<noteq> ar_rangeEnd a \<and> width = 0 then None
         else
           case reroll_node (ae_randNode E) 0 (ad_Node old) of
             None \<Rightarrow> None
           | Some newNode \<Rightarrow>
               Some (set_proto
                 \<lparr>ad_Network = (if ar_rangeStart a \<noteq> ar_rangeEnd a
                                then ae_randNet E width + ar_rangeStart a else ad_Network old),
                  ad_Node = newNode\<rparr>
                 (a\<lparr>ar_probes := 0\<rparr>)))"


section \<open>Turns\<close>

datatype aarp_event =
    EvRange
  | EvTick
  | EvFrame "byte list"
  | EvRebind network network

definition range_turn :: "AARPMachine \<Rightarrow> AARPMachine" where
  "range_turn a0 =
     (case ar_rangeCh a0 of
        None \<Rightarrow> a0
      | Some (start, end') \<Rightarrow>
          let a = a0\<lparr>ar_rangeCh := None\<rparr> in
          if ar_rangeStart a = start \<and> ar_rangeEnd a = end' \<and> ar_operational a then a
          else
            set_proto \<lparr>ad_Network = start, ad_Node = 1\<rparr>
              (a\<lparr>ar_rangeStart := start, ar_rangeEnd := end', ar_probes := 0, ar_assigned := False,
                 ar_operational := False, ar_ticking := True\<rparr>))"

definition assign_address :: "AARPMachine \<Rightarrow> AARPMachine" where
  "assign_address a =
     (let a1 = a\<lparr>ar_assigned := True, ar_assignedCh := True, ar_ticking := False\<rparr> in
      if \<not> isPhase2StartupRange (ar_rangeStart a) (ar_rangeEnd a) \<and> \<not> ar_operational a
      then a1\<lparr>ar_operational := True, ar_operationalCh := True\<rparr> else a1)"

definition tick_turn ::
  "ethertalk_module \<Rightarrow> aarp_env \<Rightarrow> AARPMachine \<Rightarrow> byte list list \<Rightarrow> AARPMachine \<times> byte list list" where
  "tick_turn em E a frames =
     (if \<not> ar_ticking a then (a, frames)
      else if ar_probes a \<ge> 10 then (assign_address a, frames)
      else
        let a1 = a\<lparr>ar_probes := ar_probes a + 1\<rparr> in
        (a1, snd (aarp_probe em E a1 frames)))"

definition learn_turn :: "aarp_env \<Rightarrow> AddrPair \<Rightarrow> AARPMachine \<Rightarrow> AARPMachine" where
  "learn_turn E p a = a\<lparr>ar_amt := learn (ae_now E) (pr_Proto p) (pr_Hardware p) (ar_amt a)\<rparr>"

definition packet_turn ::
  "ethertalk_module \<Rightarrow> aarp_env \<Rightarrow> aarp_Packet \<Rightarrow> AARPMachine \<Rightarrow> byte list list \<Rightarrow>
   (AARPMachine \<times> byte list list) option" where
  "packet_turn em E aapkt a frames =
     (let mine = (pr_Proto (aa_Dst aapkt) = pr_Proto (ar_myAddr a));
          keep = (\<lambda>a. Some (a, frames));
          reply = (\<lambda>a. Some (a, snd (heyThatsMe em E (aa_Src aapkt) a frames)));
          again = (\<lambda>a. map_option (\<lambda>a'. (a', frames)) (reroll E a))
      in case aa_Opcode aapkt of
           RequestOp \<Rightarrow>
             let a1 = learn_turn E (aa_Src aapkt) a in
             if \<not> mine then keep a1 else if \<not> ar_assigned a then keep a1 else reply a1
         | ResponseOp \<Rightarrow>
             let a1 = learn_turn E (aa_Dst aapkt) a in
             if \<not> mine then keep a1 else if \<not> ar_assigned a then again a1 else keep a1
         | ProbeOp \<Rightarrow>
             if \<not> mine then keep a else if \<not> ar_assigned a then again a else reply a
         | OtherOp _ \<Rightarrow> keep a)"

abbreviation aarpBodyLength :: nat where "aarpBodyLength \<equiv> 28"

definition frame_turn ::
  "ethertalk_module \<Rightarrow> aarp_env \<Rightarrow> byte list \<Rightarrow> AARPMachine \<Rightarrow> byte list list \<Rightarrow>
   (AARPMachine \<times> byte list list) option" where
  "frame_turn em E payload a frames =
     (case aarp_Unmarshal em (take aarpBodyLength payload) of
        Inl e \<Rightarrow> Some (a, frames)
      | Inr aapkt \<Rightarrow> packet_turn em E aapkt a frames)"

fun aarp_turn ::
  "ethertalk_module \<Rightarrow> aarp_env \<Rightarrow> aarp_event \<Rightarrow> AARPMachine \<Rightarrow> byte list list \<Rightarrow>
   (AARPMachine \<times> byte list list) option" where
  "aarp_turn em E EvRange a frames = Some (range_turn a, frames)"
| "aarp_turn em E EvTick a frames = Some (tick_turn em E a frames)"
| "aarp_turn em E (EvFrame payload) a frames = frame_turn em E payload a frames"
| "aarp_turn em E (EvRebind start end') a frames = Some (Rebind start end' a, frames)"

fun aarp_run ::
  "ethertalk_module \<Rightarrow> (aarp_env \<times> aarp_event) list \<Rightarrow> AARPMachine \<times> byte list list \<Rightarrow>
   (AARPMachine \<times> byte list list) option" where
  "aarp_run em [] s = Some s"
| "aarp_run em ((E, ev) # evs) s =
     (case aarp_turn em E ev (fst s) (snd s) of None \<Rightarrow> None | Some s' \<Rightarrow> aarp_run em evs s')"

end
