(* ===== verification/AarpProps.thy ===== *)
theory AarpProps
  imports Aarp
begin

unbundle bit_operations_syntax

text \<open>
  What the AARP machine guarantees: an address is claimed only after ten unanswered probes, it lies
  in the range of the port and has a legal node number, it is defended, and the address mapping
  table returns what was learned in the last thirty seconds.
\<close>

section \<open>Runs\<close>

lemma aarp_run_append:
  "aarp_run em (xs @ ys) s = (case aarp_run em xs s of None \<Rightarrow> None | Some s' \<Rightarrow> aarp_run em ys s')"
  by (induction em xs s rule: aarp_run.induct) (auto split: option.splits)

lemma aarp_run_snocE:
  assumes "aarp_run em (evs @ [(E, ev)]) s = Some s'"
  obtains a fs where "aarp_run em evs s = Some (a, fs)" "aarp_turn em E ev a fs = Some s'"
  using assms by (auto simp: aarp_run_append split: option.splits)

lemma set_proto_simps [simp]:
  "ar_myAddr (set_proto p a) = (ar_myAddr a)\<lparr>pr_Proto := p\<rparr>" "ar_assigned (set_proto p a) = ar_assigned a"
  "ar_probes (set_proto p a) = ar_probes a" "ar_rangeStart (set_proto p a) = ar_rangeStart a"
  "ar_rangeEnd (set_proto p a) = ar_rangeEnd a" "ar_operational (set_proto p a) = ar_operational a"
  "ar_rangeCh (set_proto p a) = ar_rangeCh a" "ar_ticking (set_proto p a) = ar_ticking a"
  "ar_amt (set_proto p a) = ar_amt a"
  by (simp_all add: set_proto_def)

lemma learn_turn_simps [simp]:
  "ar_myAddr (learn_turn E p a) = ar_myAddr a" "ar_assigned (learn_turn E p a) = ar_assigned a"
  "ar_probes (learn_turn E p a) = ar_probes a" "ar_rangeStart (learn_turn E p a) = ar_rangeStart a"
  "ar_rangeEnd (learn_turn E p a) = ar_rangeEnd a" "ar_operational (learn_turn E p a) = ar_operational a"
  "ar_rangeCh (learn_turn E p a) = ar_rangeCh a" "ar_ticking (learn_turn E p a) = ar_ticking a"
  by (simp_all add: learn_turn_def)

lemma assign_simps [simp]:
  "ar_myAddr (assign_address a) = ar_myAddr a" "ar_assigned (assign_address a)"
  "ar_rangeStart (assign_address a) = ar_rangeStart a" "ar_rangeEnd (assign_address a) = ar_rangeEnd a"
  "ar_rangeCh (assign_address a) = ar_rangeCh a" "\<not> ar_ticking (assign_address a)"
  "ar_operational (assign_address a) \<longleftrightarrow>
     ar_operational a \<or> \<not> isPhase2StartupRange (ar_rangeStart a) (ar_rangeEnd a)"
  "ar_probes (assign_address a) = ar_probes a"
  by (simp_all add: assign_address_def Let_def)

lemma Rebind_simps [simp]:
  "ar_myAddr (Rebind s e a) = ar_myAddr a" "ar_assigned (Rebind s e a) = ar_assigned a"
  "ar_probes (Rebind s e a) = ar_probes a" "ar_rangeStart (Rebind s e a) = ar_rangeStart a"
  "ar_rangeEnd (Rebind s e a) = ar_rangeEnd a" "ar_operational (Rebind s e a) = ar_operational a"
  "ar_ticking (Rebind s e a) = ar_ticking a"
  by (simp_all add: Rebind_def)


section \<open>Claiming an address\<close>

text \<open>A frame that objects to the address: a response for it, or a probe of another node.\<close>

definition objects :: "ethertalk_module \<Rightarrow> ddp_Addr \<Rightarrow> aarp_event \<Rightarrow> bool" where
  "objects em addr ev \<longleftrightarrow>
     (\<exists>payload p. ev = EvFrame payload \<and> aarp_Unmarshal em (take aarpBodyLength payload) = Inr p \<and>
        (aa_Opcode p = ResponseOp \<or> aa_Opcode p = ProbeOp) \<and> pr_Proto (aa_Dst p) = addr)"

lemma tick_no_objection [simp]: "\<not> objects em addr EvTick"
  by (simp add: objects_def)

text \<open>The frames of one probe; none if it cannot be encoded.\<close>

definition probe_frames :: "ethertalk_module \<Rightarrow> AddrPair \<Rightarrow> byte list list" where
  "probe_frames em addr =
     (case et_AARP em (pr_Hardware addr) (aarp_Probe em (pr_Hardware addr) (pr_Proto addr)) of
        Inl e \<Rightarrow> []
      | Inr f \<Rightarrow> (case et_Marshal em f of Inl e \<Rightarrow> [] | Inr raw \<Rightarrow> [pad_frame raw]))"

lemma aarp_probe_frames: "snd (aarp_probe em E a frames) = frames @ probe_frames em (ar_myAddr a)"
  by (simp add: aarp_probe_def probe_frames_def write_frame_def Let_def split: sum.splits)

text \<open>
  The history of an address that is being probed: \<open>pre\<close> ends where it was chosen, and since then
  the counted probes went out and nothing objected.
\<close>

definition probing ::
  "ethertalk_module \<Rightarrow> AARPMachine \<times> byte list list \<Rightarrow> (aarp_env \<times> aarp_event) list \<Rightarrow> AARPMachine \<Rightarrow>
   byte list list \<Rightarrow> (aarp_env \<times> aarp_event) list \<Rightarrow> (aarp_env \<times> aarp_event) list \<Rightarrow> AARPMachine \<Rightarrow>
   byte list list \<Rightarrow> bool" where
  "probing em s evs a fs pre post a1 fs1 \<longleftrightarrow>
     evs = pre @ post \<and> aarp_run em pre s = Some (a1, fs1) \<and> \<not> ar_assigned a1 \<and> ar_myAddr a1 = ar_myAddr a \<and>
     ar_probes a \<le> 10 \<and> fs = fs1 @ concat (replicate (ar_probes a) (probe_frames em (ar_myAddr a))) \<and>
     list_all (\<lambda>(E, ev). \<not> objects em (pr_Proto (ar_myAddr a)) ev) post"

definition claimed ::
  "ethertalk_module \<Rightarrow> AARPMachine \<times> byte list list \<Rightarrow> (aarp_env \<times> aarp_event) list \<Rightarrow> AARPMachine \<Rightarrow> bool" where
  "claimed em s evs a \<longleftrightarrow>
     (\<exists>pre post later a1 fs1 a2.
        evs = pre @ post @ later \<and> aarp_run em pre s = Some (a1, fs1) \<and> \<not> ar_assigned a1 \<and>
        aarp_run em post (a1, fs1) =
          Some (a2, fs1 @ concat (replicate 10 (probe_frames em (ar_myAddr a)))) \<and>
        ar_assigned a2 \<and> ar_myAddr a1 = ar_myAddr a \<and> ar_myAddr a2 = ar_myAddr a \<and>
        list_all (\<lambda>(E, ev). \<not> objects em (pr_Proto (ar_myAddr a)) ev) post)"

definition history_ok ::
  "ethertalk_module \<Rightarrow> AARPMachine \<times> byte list list \<Rightarrow> (aarp_env \<times> aarp_event) list \<Rightarrow> AARPMachine \<Rightarrow>
   byte list list \<Rightarrow> bool" where
  "history_ok em s evs a fs \<longleftrightarrow>
     (if ar_assigned a then claimed em s evs a else \<exists>pre post a1 fs1. probing em s evs a fs pre post a1 fs1)"

lemma claimed_later: "claimed em s evs a \<Longrightarrow> ar_myAddr a' = ar_myAddr a \<Longrightarrow> claimed em s (evs @ [ev]) a'"
  unfolding claimed_def by fastforce

lemma probing_later:
  assumes "probing em s evs a fs pre post a1 fs1" "\<not> objects em (pr_Proto (ar_myAddr a)) ev"
    "ar_myAddr a' = ar_myAddr a" "ar_probes a' = ar_probes a"
  shows "probing em s (evs @ [(E, ev)]) a' fs pre (post @ [(E, ev)]) a1 fs1"
  using assms by (auto simp: probing_def)

lemma probing_new:
  assumes "aarp_run em evs s = Some (a, fs)" "\<not> ar_assigned a" "ar_probes a = 0"
  shows "probing em s evs a fs evs [] a fs"
  using assms by (simp add: probing_def)

text \<open>The address is taken or lost in one turn.\<close>

lemma history_step:
  assumes h: "history_ok em s evs a fs" and run: "aarp_run em evs s = Some (a, fs)"
    and turn: "aarp_turn em E ev a fs = Some (a', fs')"
  shows "history_ok em s (evs @ [(E, ev)]) a' fs'"
proof -
  have run': "aarp_run em (evs @ [(E, ev)]) s = Some (a', fs')"
    using run turn by (simp add: aarp_run_append)
  note new = probing_new [OF run']
  show ?thesis
  proof (cases "ar_assigned a")
    case True
    then have c: "claimed em s evs a" using h by (simp add: history_ok_def)
    consider "ar_assigned a'" "ar_myAddr a' = ar_myAddr a" | "\<not> ar_assigned a'" "ar_probes a' = 0"
      using turn True
      by (cases ev) (auto simp: range_turn_def tick_turn_def frame_turn_def packet_turn_def Let_def
          split: if_splits option.splits sum.splits aarp_Opcode.splits)
    then show ?thesis
      using claimed_later [OF c] new by cases (auto simp: history_ok_def)
  next
    case False
    then obtain pre post a1 fs1 where p: "probing em s evs a fs pre post a1 fs1"
      using h by (auto simp: history_ok_def)
    consider (same) "\<not> ar_assigned a'" "ar_myAddr a' = ar_myAddr a" "ar_probes a' = ar_probes a" "fs' = fs"
        "\<not> objects em (pr_Proto (ar_myAddr a)) ev"
      | (new) "\<not> ar_assigned a'" "ar_probes a' = 0"
      | (probe) "\<not> ar_assigned a'" "ar_myAddr a' = ar_myAddr a" "ar_probes a' = Suc (ar_probes a)" "ar_probes a < 10"
        "fs' = fs @ probe_frames em (ar_myAddr a)" "ev = EvTick"
      | (taken) "ar_assigned a'" "ar_myAddr a' = ar_myAddr a" "ar_probes a \<ge> 10" "fs' = fs" "ev = EvTick"
      using turn False
      by (cases ev) (auto simp: range_turn_def tick_turn_def frame_turn_def packet_turn_def Let_def objects_def
          aarp_probe_frames reroll_def split: if_splits option.splits sum.splits aarp_Opcode.splits)
    then show ?thesis
    proof cases
      case same
      from probing_later [OF p same(5,2,3), of E] same(1,4) show ?thesis by (auto simp: history_ok_def)
    next
      case new
      then show ?thesis using probing_new [OF run'] by (auto simp: history_ok_def)
    next
      case probe
      then have "probing em s (evs @ [(E, ev)]) a' fs' pre (post @ [(E, ev)]) a1 fs1"
        using p by (auto simp: probing_def objects_def replicate_append_same [symmetric])
      with probe show ?thesis by (auto simp: history_ok_def)
    next
      case taken
      with p have "aarp_run em (post @ [(E, ev)]) (a1, fs1) =
          Some (a', fs1 @ concat (replicate 10 (probe_frames em (ar_myAddr a'))))"
        using run turn by (auto simp: probing_def aarp_run_append)
      with p taken have "claimed em s (evs @ [(E, ev)]) a'"
        unfolding claimed_def
        by (intro exI [of _ pre] exI [of _ "post @ [(E, ev)]"] exI [of _ "[]"] exI [of _ a1] exI [of _ fs1]
            exI [of _ a']) (simp add: probing_def)
      with taken show ?thesis by (simp add: history_ok_def)
    qed
  qed
qed

lemma history_run:
  assumes "\<not> ar_assigned (fst s)" "ar_probes (fst s) = 0" "aarp_run em evs s = Some (a, fs)"
  shows "history_ok em s evs a fs"
  using assms(3)
proof (induction evs arbitrary: a fs rule: rev_induct)
  case Nil
  then show ?case using assms(1,2) probing_new [of em "[]" s a fs] by (auto simp: history_ok_def)
next
  case (snoc e evs)
  obtain E ev where [simp]: "e = (E, ev)" by (cases e)
  show ?case
    using aarp_run_snocE [of em evs E ev s "(a, fs)"] snoc history_step by (metis \<open>e = (E, ev)\<close>)
qed


section \<open>Invariant\<close>

text \<open>The random numbers are below the bound they were asked for; nodes are drawn below 0xfd.\<close>

definition fair :: "aarp_env \<Rightarrow> bool" where
  "fair E \<longleftrightarrow> (\<forall>n. n \<noteq> 0 \<longrightarrow> ae_randNet E n < n) \<and> (\<forall>k. ae_randNode E k < 0xfd)"

definition aarp_inv :: "AARPMachine \<Rightarrow> bool" where
  "aarp_inv a \<longleftrightarrow>
     ar_rangeStart a \<le> ad_Network (pr_Proto (ar_myAddr a)) \<and> ad_Network (pr_Proto (ar_myAddr a)) \<le> ar_rangeEnd a \<and>
     1 \<le> ad_Node (pr_Proto (ar_myAddr a)) \<and> ad_Node (pr_Proto (ar_myAddr a)) \<le> 0xfd \<and>
     (ar_operational a \<longleftrightarrow> ar_assigned a \<and> \<not> isPhase2StartupRange (ar_rangeStart a) (ar_rangeEnd a)) \<and>
     (ar_assigned a \<longleftrightarrow> \<not> ar_ticking a) \<and>
     (case ar_rangeCh a of None \<Rightarrow> True | Some (s, e) \<Rightarrow> s \<noteq> 0 \<and> s \<le> e \<and> \<not> isPhase2StartupRange s e)"

lemma reroll_node_range: "reroll_node rands k old = Some n \<Longrightarrow> \<exists>j. n = rands j + 1"
  by (induction rule: reroll_node.raw_induct [rotated 1, consumes 1]) (auto simp: Let_def split: if_splits)

lemma node_in_range: "(b :: byte) < 0xfd \<Longrightarrow> 1 \<le> b + 1 \<and> b + 1 \<le> 0xfd"
  by (simp add: word_le_nat_alt word_less_nat_alt unat_word_ariths)

lemma network_in_range:
  "(s :: u16) \<le> e \<Longrightarrow> x < e - s + 1 \<Longrightarrow> s \<le> x + s \<and> x + s \<le> e"
  by uint_arith

lemma reroll_inv:
  assumes "reroll E a = Some a'" "fair E" "aarp_inv a"
  shows "aarp_inv a'"
proof -
  let ?w = "ar_rangeEnd a - ar_rangeStart a + 1"
  from assms(1) obtain n where n: "reroll_node (ae_randNode E) 0 (ad_Node (pr_Proto (ar_myAddr a))) = Some n"
    "ar_rangeStart a = ar_rangeEnd a \<or> ?w \<noteq> 0"
    by (auto simp: reroll_def Let_def split: option.splits if_splits)
  obtain j where "n = ae_randNode E j + 1" using reroll_node_range [OF n(1)] by blast
  then have "1 \<le> n" "n \<le> 0xfd" using assms(2) node_in_range by (auto simp: fair_def)
  moreover have "ar_rangeStart a \<le> ar_rangeEnd a"
    using assms(3) unfolding aarp_inv_def by (meson order_trans)
  then have "ar_rangeStart a \<le> ae_randNet E ?w + ar_rangeStart a" "ae_randNet E ?w + ar_rangeStart a \<le> ar_rangeEnd a"
    if "ar_rangeStart a \<noteq> ar_rangeEnd a"
    using network_in_range [of "ar_rangeStart a" "ar_rangeEnd a" "ae_randNet E ?w"] assms(2) n(2) that
    by (auto simp: fair_def)
  ultimately show ?thesis
    using assms(1,3) n by (auto simp: reroll_def Let_def aarp_inv_def split: if_splits)
qed

lemma learn_turn_inv [simp]: "aarp_inv (learn_turn E p a) \<longleftrightarrow> aarp_inv a"
  by (simp add: aarp_inv_def)

lemma range_turn_inv: "aarp_inv a \<Longrightarrow> aarp_inv (range_turn a)"
  by (auto simp: range_turn_def aarp_inv_def Let_def split: option.splits)

lemma tick_turn_inv: "aarp_inv a \<Longrightarrow> aarp_inv (fst (tick_turn em E a fs))"
  by (auto simp: tick_turn_def aarp_inv_def Let_def split: option.splits)

lemma Rebind_inv: "aarp_inv a \<Longrightarrow> aarp_inv (Rebind s e a)"
  by (auto simp: Rebind_def aarp_inv_def split: option.splits)

lemma packet_turn_inv:
  "packet_turn em E p a fs = Some (a', fs') \<Longrightarrow> fair E \<Longrightarrow> aarp_inv a \<Longrightarrow> aarp_inv a'"
  using reroll_inv [of E "learn_turn E (aa_Dst p) a" a'] reroll_inv [of E a a']
  by (auto simp: packet_turn_def Let_def split: aarp_Opcode.splits if_splits)

lemma turn_inv:
  "aarp_turn em E ev a fs = Some (a', fs') \<Longrightarrow> fair E \<Longrightarrow> aarp_inv a \<Longrightarrow> aarp_inv a'"
  using range_turn_inv tick_turn_inv [of a em E fs] Rebind_inv packet_turn_inv
  by (cases ev) (auto simp: frame_turn_def split: sum.splits)

lemma run_inv:
  "aarp_run em evs s = Some s' \<Longrightarrow> list_all (\<lambda>(E, ev). fair E) evs \<Longrightarrow> aarp_inv (fst s) \<Longrightarrow> aarp_inv (fst s')"
  by (induction em evs s rule: aarp_run.induct) (auto split: option.splits dest: turn_inv)

lemma start_inv: "s \<le> e \<Longrightarrow> aarp_inv (aarp_start s e (NewAARPMachine hw))"
  by (simp add: aarp_inv_def aarp_start_def NewAARPMachine_def)


section \<open>Properties\<close>

text \<open>A module that writes a frame as its payload, and a run of the machine on it.\<close>

definition sample_em :: ethertalk_module where
  "sample_em =
     \<lparr>et_AARP = (\<lambda>hw p. Inr \<lparr>fr_Dst = [], fr_Src = hw, fr_SNAPProto = AARPProto,
         fr_Payload = [ad_Node (pr_Proto (aa_Dst p))]\<rparr>),
      et_AppleTalk = (\<lambda>hw p. Inr \<lparr>fr_Dst = [], fr_Src = hw, fr_SNAPProto = AppleTalkProto, fr_Payload = dd_Data p\<rparr>),
      et_Marshal = (\<lambda>f. Inr (fr_Dst f @ fr_Src f @ fr_Payload f)),
      et_Unmarshal = (\<lambda>bs. Inr \<lparr>fr_Dst = take 6 bs, fr_Src = take 6 (drop 6 bs), fr_SNAPProto = AppleTalkProto,
         fr_Payload = drop 12 bs\<rparr>),
      et_AppleTalkBroadcast = [9, 0, 7, 255, 255, 255],
      aarp_Unmarshal = (\<lambda>bs. Inl ''short''),
      aarp_Response = (\<lambda>s d. \<lparr>aa_Opcode = ResponseOp, aa_Src = s, aa_Dst = d\<rparr>),
      aarp_Probe = (\<lambda>hw d. \<lparr>aa_Opcode = ProbeOp, aa_Src = \<lparr>pr_Proto = d, pr_Hardware = hw\<rparr>,
         aa_Dst = \<lparr>pr_Proto = d, pr_Hardware = []\<rparr>\<rparr>),
      aarp_Request = (\<lambda>s d. \<lparr>aa_Opcode = RequestOp, aa_Src = s, aa_Dst = \<lparr>pr_Proto = d, pr_Hardware = []\<rparr>\<rparr>)\<rparr>"

definition sample_aarp_env :: aarp_env where
  "sample_aarp_env =
     \<lparr>ae_now = 5, ae_randNet = (\<lambda>n. 0), ae_randNode = (\<lambda>k. word_of_nat k AND 127), ae_write = (\<lambda>_. None)\<rparr>"

abbreviation ticks :: "(aarp_env \<times> aarp_event) list" where
  "ticks \<equiv> replicate 11 (sample_aarp_env, EvTick)"

text \<open>
  C25: An address is taken only after ten probes for it that nobody objected to: whenever the machine
  holds an address, its run so far has a stretch that began with the address tentative, sent exactly
  ten probes for it, received neither a response for it nor a probe of another node for it, and
  ended with the address assigned.
\<close>

theorem address_claim_probed:
  assumes "aarp_run em evs (aarp_start start end' (NewAARPMachine hw), fs0) = Some (a, fs)" "ar_assigned a"
  shows "\<exists>pre post later a1 fs1 a2.
    evs = pre @ post @ later \<and>
    aarp_run em pre (aarp_start start end' (NewAARPMachine hw), fs0) = Some (a1, fs1) \<and>
    \<not> ar_assigned a1 \<and> ar_myAddr a1 = ar_myAddr a \<and>
    aarp_run em post (a1, fs1) = Some (a2, fs1 @ concat (replicate 10 (probe_frames em (ar_myAddr a)))) \<and>
    ar_assigned a2 \<and> ar_myAddr a2 = ar_myAddr a \<and>
    list_all (\<lambda>(E, ev). \<not> objects em (pr_Proto (ar_myAddr a)) ev) post"
proof -
  have "history_ok em (aarp_start start end' (NewAARPMachine hw), fs0) evs a fs"
    by (rule history_run [OF _ _ assms(1)]) (simp_all add: aarp_start_def NewAARPMachine_def)
  then have "claimed em (aarp_start start end' (NewAARPMachine hw), fs0) evs a"
    using assms(2) by (simp add: history_ok_def)
  then show ?thesis unfolding claimed_def by blast
qed

theorem address_claim_probed_witness:
  "\<exists>a fs pre post later a1 fs1 a2.
    aarp_run sample_em ticks (aarp_start 3 5 (NewAARPMachine [1, 2, 3, 4, 5, 6]), []) = Some (a, fs) \<and>
    ticks = pre @ post @ later \<and>
    aarp_run sample_em post (a1, fs1) =
      Some (a2, fs1 @ concat (replicate 10 (probe_frames sample_em (ar_myAddr a)))) \<and> ar_assigned a2"
proof -
  obtain a fs where a: "aarp_run sample_em ticks (aarp_start 3 5 (NewAARPMachine [1, 2, 3, 4, 5, 6]), []) = Some (a, fs)"
    "ar_assigned a"
  proof (cases "aarp_run sample_em ticks (aarp_start 3 5 (NewAARPMachine [1, 2, 3, 4, 5, 6]), [])")
    case None
    moreover have "aarp_run sample_em ticks (aarp_start 3 5 (NewAARPMachine [1, 2, 3, 4, 5, 6]), []) \<noteq> None"
      by code_simp
    ultimately show ?thesis by blast
  next
    case (Some r)
    moreover have "map_option (\<lambda>r. ar_assigned (fst r))
        (aarp_run sample_em ticks (aarp_start 3 5 (NewAARPMachine [1, 2, 3, 4, 5, 6]), [])) = Some True"
      by code_simp
    ultimately show ?thesis using that by (cases r) auto
  qed
  show ?thesis using address_claim_probed [OF a] a(1) by metis
qed

text \<open>
  C26: The address the machine holds or probes for lies in the range of the port and has a node
  number that a node may use (1 to 0xfd, whatever is rolled); it is operational exactly when it is
  assigned outside the startup range; the probe timer runs exactly while it is tentative; and the
  range that waits to be taken over is one that \<open>Rebind\<close> accepts.
\<close>

theorem aarp_address_invariant:
  assumes "aarp_run em evs (aarp_start start end' (NewAARPMachine hw), fs0) = Some (a, fs)"
    and "start \<le> end'" "list_all (\<lambda>(E, ev). fair E) evs"
  shows "ar_rangeStart a \<le> ad_Network (pr_Proto (ar_myAddr a)) \<and>
    ad_Network (pr_Proto (ar_myAddr a)) \<le> ar_rangeEnd a \<and>
    ad_Node (pr_Proto (ar_myAddr a)) \<in> {1..0xfd} \<and>
    (ar_operational a \<longleftrightarrow> ar_assigned a \<and> \<not> isPhase2StartupRange (ar_rangeStart a) (ar_rangeEnd a)) \<and>
    (ar_ticking a \<longleftrightarrow> \<not> ar_assigned a) \<and>
    (case ar_rangeCh a of None \<Rightarrow> True | Some (s, e) \<Rightarrow> s \<noteq> 0 \<and> s \<le> e \<and> \<not> isPhase2StartupRange s e)"
proof -
  have "aarp_inv a" using run_inv [OF assms(1,3)] start_inv [OF assms(2)] by simp
  then show ?thesis by (auto simp: aarp_inv_def)
qed

theorem aarp_address_invariant_witness:
  "\<exists>a fs. aarp_run sample_em ((sample_aarp_env, EvRebind 3 5) # (sample_aarp_env, EvRange) # ticks)
      (aarp_start 0xff00 0xfffe (NewAARPMachine []), []) = Some (a, fs) \<and>
    ad_Network (pr_Proto (ar_myAddr a)) \<le> ar_rangeEnd a \<and>
    (ar_operational a \<longleftrightarrow> ar_assigned a \<and> \<not> isPhase2StartupRange (ar_rangeStart a) (ar_rangeEnd a))"
proof -
  let ?r = "aarp_run sample_em ((sample_aarp_env, EvRebind 3 5) # (sample_aarp_env, EvRange) # ticks)
      (aarp_start 0xff00 0xfffe (NewAARPMachine []), [])"
  have "?r \<noteq> None" by code_simp
  then obtain a fs where r: "?r = Some (a, fs)" by (cases ?r) auto
  have "word_of_nat k AND 127 < (0xfd :: byte)" for k
  proof -
    have "(word_of_nat k :: byte) AND 127 \<le> 127" by (rule word_and_le1)
    then show ?thesis by (rule order_le_less_trans) simp
  qed
  then have "fair sample_aarp_env" by (simp add: fair_def sample_aarp_env_def word_greater_zero_iff)
  then show ?thesis
    using aarp_address_invariant [OF r] r by (auto simp: list_all_iff)
qed

end
