(* ===== verification/Seed.thy ===== *)
theory Seed
  imports RouterConfig
begin

text \<open>
  The seed controller of an EtherTalk port (\<open>src/router/seed.go\<close>): whether the router is the
  authority for the cable range and zones of the network.  A hard seed is from the start, a soft
  seed becomes one when nobody else is, and both give up for good when what they observe
  contradicts their configuration.
\<close>

section \<open>The controller\<close>

record seedController =
  sd_mode :: string
  sd_delay :: time
  sd_configuredStart :: network
  sd_configuredEnd :: network
  sd_configuredZone :: string
  sd_active :: bool
  sd_externalAuthority :: bool
  sd_conflict :: bool
  sd_observedStart :: network
  sd_observedEnd :: network
  sd_observedZone :: string
  sd_lastObservation :: time
  sd_lastAuthorityObservation :: time

definition newSeedController :: "string \<Rightarrow> time \<Rightarrow> network \<Rightarrow> network \<Rightarrow> string \<Rightarrow> seedController" where
  "newSeedController mode delay start end' zone =
     \<lparr>sd_mode = mode, sd_delay = delay, sd_configuredStart = start, sd_configuredEnd = end',
      sd_configuredZone = zone, sd_active = (mode = SeedModeHard), sd_externalAuthority = False,
      sd_conflict = False, sd_observedStart = 0, sd_observedEnd = 0, sd_observedZone = [],
      sd_lastObservation = 0, sd_lastAuthorityObservation = 0\<rparr>"

definition note_observation ::
  "network \<Rightarrow> network \<Rightarrow> bool \<Rightarrow> string \<Rightarrow> time \<Rightarrow> seedController \<Rightarrow> seedController" where
  "note_observation start end' authority zone now s =
     s\<lparr>sd_observedStart := start, sd_observedEnd := end',
       sd_observedZone := (if zone \<noteq> [] then zone else sd_observedZone s),
       sd_lastObservation := now,
       sd_externalAuthority := (authority \<or> sd_externalAuthority s),
       sd_lastAuthorityObservation := (if authority then now else sd_lastAuthorityObservation s)\<rparr>"

definition contradicts :: "network \<Rightarrow> network \<Rightarrow> string \<Rightarrow> seedController \<Rightarrow> bool" where
  "contradicts start end' zone s \<longleftrightarrow>
     ((sd_configuredStart s \<noteq> 0 \<and> sd_configuredEnd s \<noteq> 0) \<and>
        (start \<noteq> sd_configuredStart s \<or> end' \<noteq> sd_configuredEnd s)) \<or>
     (zone \<noteq> [] \<and> sd_configuredZone s \<noteq> [] \<and> zone \<noteq> sd_configuredZone s)"

definition observeRange ::
  "network \<Rightarrow> network \<Rightarrow> bool \<Rightarrow> string \<Rightarrow> time \<Rightarrow> seedController \<Rightarrow> seedController" where
  "observeRange start end' authority zone now s0 =
     (let s = note_observation start end' authority zone now s0 in
      if contradicts start end' zone s then s\<lparr>sd_conflict := True, sd_active := False\<rparr>
      else if authority \<and> sd_mode s = SeedModeSoft then s\<lparr>sd_active := False\<rparr>
      else s)"

definition promoteSoft :: "seedController \<Rightarrow> bool \<times> seedController" where
  "promoteSoft s =
     (if sd_mode s \<noteq> SeedModeSoft \<or> sd_externalAuthority s \<or> sd_conflict s \<or> sd_active s then (False, s)
      else (True, s\<lparr>sd_active := True\<rparr>))"

definition expireExternalAuthority :: "time \<Rightarrow> time \<Rightarrow> seedController \<Rightarrow> bool \<times> seedController" where
  "expireExternalAuthority now timeout s =
     (if \<not> sd_externalAuthority s \<or> sd_lastAuthorityObservation s = 0 then (False, s)
      else if now - sd_lastAuthorityObservation s \<le> timeout then (False, s)
      else (True, s\<lparr>sd_externalAuthority := False\<rparr>))"

definition activeAuthority :: "seedController \<Rightarrow> bool" where
  "activeAuthority s \<longleftrightarrow> sd_active s \<and> \<not> sd_conflict s"

text \<open>\<open>snapshot\<close> copies the fields and names the state.\<close>

definition seed_Effective :: "seedController \<Rightarrow> string" where
  "seed_Effective s =
     (if sd_conflict s then ''conflict-fail-closed''
      else if sd_active s \<and> sd_mode s = SeedModeHard then ''hard-seed''
      else if sd_active s \<and> sd_mode s = SeedModeSoft then ''soft-seed-active''
      else if sd_mode s = SeedModeSoft \<and> sd_externalAuthority s then ''soft-standby''
      else if sd_mode s = SeedModeSoft then ''soft-waiting''
      else if sd_mode s = SeedModeNone \<and> sd_externalAuthority s then ''non-seed-external''
      else ''non-seed'')"


section \<open>Reachable states\<close>

inductive seed_step :: "seedController \<Rightarrow> seedController \<Rightarrow> bool" where
  seed_observe: "seed_step s (observeRange start end' authority zone now s)"
| seed_promote: "seed_step s (snd (promoteSoft s))"
| seed_expire: "seed_step s (snd (expireExternalAuthority now timeout s))"

inductive_cases seed_stepE: "seed_step s s'"

definition seed_reach :: "seedController \<Rightarrow> bool" where
  "seed_reach s \<longleftrightarrow>
     (\<exists>mode delay start end' zone. seed_step\<^sup>*\<^sup>* (newSeedController mode delay start end' zone) s)"

definition seed_inv :: "seedController \<Rightarrow> bool" where
  "seed_inv s \<longleftrightarrow>
     (sd_active s \<longrightarrow> \<not> sd_conflict s \<and>
        (sd_mode s = SeedModeHard \<or> sd_mode s = SeedModeSoft \<and> \<not> sd_externalAuthority s))"

lemma seed_inv_step: "seed_step s s' \<Longrightarrow> seed_inv s \<Longrightarrow> seed_inv s'"
  by (auto elim!: seed_stepE simp: seed_inv_def observeRange_def Let_def note_observation_def promoteSoft_def
      expireExternalAuthority_def split: if_splits)

lemma seed_inv_steps: "seed_step\<^sup>*\<^sup>* s s' \<Longrightarrow> seed_inv s \<Longrightarrow> seed_inv s'"
  by (induction rule: rtranclp_induct) (auto intro: seed_inv_step)

lemma seed_inv_new: "seed_inv (newSeedController mode delay start end' zone)"
  by (simp add: seed_inv_def newSeedController_def)

lemma seed_inv_reach: "seed_reach s \<Longrightarrow> seed_inv s"
  unfolding seed_reach_def using seed_inv_steps seed_inv_new by blast

text \<open>A conflict is never cleared.\<close>

lemma conflict_step: "seed_step s s' \<Longrightarrow> sd_conflict s \<Longrightarrow> sd_conflict s'"
  by (auto elim!: seed_stepE simp: observeRange_def Let_def note_observation_def promoteSoft_def
      expireExternalAuthority_def)

lemma conflict_persists: "seed_step\<^sup>*\<^sup>* s s' \<Longrightarrow> sd_conflict s \<Longrightarrow> sd_conflict s'"
  by (induction rule: rtranclp_induct) (auto intro: conflict_step)

lemma contradiction_conflicts:
  "contradicts start end' zone s \<Longrightarrow> sd_conflict (observeRange start end' authority zone now s)"
  by (auto simp: observeRange_def Let_def note_observation_def contradicts_def)


section \<open>Properties\<close>

text \<open>
  C27: A soft seed is not the authority for the network while another authority is known, and a
  non-seed never is.  An observation that contradicts the configured range or zone ends the
  authority of the router, and it is not regained whatever is observed, promoted or expires later.
\<close>

theorem seed_authority_exclusive:
  assumes "seed_reach s"
  shows "(activeAuthority s \<longrightarrow> sd_mode s = SeedModeHard \<or> sd_mode s = SeedModeSoft \<and> \<not> sd_externalAuthority s) \<and>
    (contradicts start end' zone s \<longrightarrow>
       seed_step\<^sup>*\<^sup>* (observeRange start end' authority zone now s) s' \<longrightarrow> \<not> activeAuthority s')"
  using seed_inv_reach [OF assms] conflict_persists contradiction_conflicts
  by (auto simp: activeAuthority_def seed_inv_def)

theorem seed_authority_exclusive_witness:
  "\<not> activeAuthority (snd (promoteSoft (observeRange 5 6 False [] 7 (newSeedController SeedModeSoft 1 2 3 ''z''))))"
proof -
  let ?s = "newSeedController SeedModeSoft 1 2 3 ''z''"
  have "seed_reach ?s" unfolding seed_reach_def by blast
  moreover have "contradicts 5 6 [] ?s" by code_simp
  ultimately show ?thesis
    using seed_authority_exclusive [of ?s 5 6 "[]" False 7] seed_promote by blast
qed

end
