(* ===== verification/PeerTable.thy ===== *)
theory PeerTable
  imports PeerExchange
begin

text \<open>
  The table of AURP peers (\<open>src/router/aurp_peer_table.go\<close>): which logical peer an IPv4 address
  or a configured name stands for, DNS retry pacing, the candidate addresses of a configured peer
  and the scan that reconnects configured peers.

  Peers are shared by pointer between the two maps.  They are kept in a list and a pointer is a
  position of the list, which is also the peer's identity among the observers of the route table.
\<close>

section \<open>State\<close>

type_synonym ip = "byte list"
type_synonym peer_ref = nat

text \<open>The bodies of the two channels of capacity 1 are whether a signal is waiting.\<close>

record TablePeer = AURPPeerSM +
  remoteAddr :: "ip option"
  ReceiveCh :: "Packet list"
  reconnectCh :: bool
  loopDetectedCh :: bool
  receiveQueueHighWater :: "64 word"
  ddpPacketsIn :: "64 word"
  ddpBytesIn :: "64 word"

record configuredDNSState =
  dns_failures :: int
  dns_next :: time
  dns_kind :: string

record AURPPeerTable =
  peers :: "TablePeer list"
  peersByIP :: "(ip \<times> peer_ref) list"
  peersByConfigured :: "(string \<times> peer_ref) list"
  dnsByConfigured :: "(string \<times> configuredDNSState) list"
  nextConnID :: u16
  pt_timing :: AURPConfig

datatype table_error =
    ErrNotIPv4 ip
  | ErrPeerCandidateConflict string ip string
  | ErrDNSBackoff
  | ErrNoCandidates string
  | ErrOnlyLocal string
  | ErrNoConfiguredAddress
  | ErrMappingChanged string
  | ErrDNS bool bool bool
  | ErrLookup

text \<open>
  What is taken from outside: the clock, \<open>rand.Int64N\<close>, and \<open>net.LookupIP\<close>.  The flags of
  \<open>ErrDNS\<close> are those of \<open>net.DNSError\<close>: not found, timeout, temporary.
\<close>

record table_env =
  te_now :: time
  te_rand :: "int \<Rightarrow> int"
  te_LookupIP :: "string \<Rightarrow> table_error + ip list"

definition zero_dns :: configuredDNSState where
  "zero_dns = \<lparr>dns_failures = 0, dns_next = 0, dns_kind = []\<rparr>"

definition dns_state :: "string \<Rightarrow> AURPPeerTable \<Rightarrow> configuredDNSState" where
  "dns_state peerAddr t = (case map_of (dnsByConfigured t) peerAddr of None \<Rightarrow> zero_dns | Some s \<Rightarrow> s)"

definition upd_table_peer :: "peer_ref \<Rightarrow> (TablePeer \<Rightarrow> TablePeer) \<Rightarrow> AURPPeerTable \<Rightarrow> AURPPeerTable" where
  "upd_table_peer i f t = t\<lparr>peers := (peers t)[i := f (peers t ! i)]\<rparr>"


section \<open>DNS retry pacing\<close>

text \<open>Durations are in nanoseconds.\<close>

definition dnsBackoffCap :: time where
  "dnsBackoffCap = 30 * 60 * 1000000000"

definition dnsJitterPct :: int where
  "dnsJitterPct = 10"

definition dns_steps :: "time list" where
  "dns_steps = map (\<lambda>s. s * 1000000000) [30, 60, 2 * 60, 5 * 60, 10 * 60, 30 * 60]"

definition dnsBackoff :: "int \<Rightarrow> time" where
  "dnsBackoff failures =
     (if failures \<le> 0 then 0
      else
        let idx = min (failures - 1) (int (length dns_steps) - 1)
        in min (dns_steps ! nat idx) dnsBackoffCap)"

definition jitterDNSBackoff :: "(int \<Rightarrow> int) \<Rightarrow> time \<Rightarrow> time" where
  "jitterDNSBackoff rand d =
     (if d \<le> 0 then 0
      else
        let span = d * dnsJitterPct div 100 in
        if span \<le> 0 then d else d + (rand (2 * span + 1) - span))"

fun dnsErrorKind :: "table_error \<Rightarrow> string" where
  "dnsErrorKind (ErrPeerCandidateConflict _ _ _) = ''identity-conflict''"
| "dnsErrorKind (ErrDNS isNotFound isTimeout isTemporary) =
     (if isNotFound then ''not-found''
      else if isTimeout then ''timeout''
      else if isTemporary then ''temporary''
      else ''dns-error'')"
| "dnsErrorKind _ = ''error''"

definition TrackConfiguredAddress :: "string \<Rightarrow> AURPPeerTable \<Rightarrow> AURPPeerTable" where
  "TrackConfiguredAddress peerAddr t =
     (if peerAddr = [] then t
      else if map_of (dnsByConfigured t) peerAddr \<noteq> None then t
      else t\<lparr>dnsByConfigured := AList.update peerAddr zero_dns (dnsByConfigured t)\<rparr>)"

definition dnsReady :: "string \<Rightarrow> time \<Rightarrow> AURPPeerTable \<Rightarrow> bool" where
  "dnsReady peerAddr now t \<longleftrightarrow>
     time_IsZero (dns_next (dns_state peerAddr t)) \<or> \<not> now < dns_next (dns_state peerAddr t)"

definition noteDNSFailure :: "table_env \<Rightarrow> string \<Rightarrow> table_error \<Rightarrow> AURPPeerTable \<Rightarrow> AURPPeerTable" where
  "noteDNSFailure E peerAddr err t =
     (let failures = dns_failures (dns_state peerAddr t) + 1;
          delay = jitterDNSBackoff (te_rand E) (dnsBackoff failures)
      in t\<lparr>dnsByConfigured := AList.update peerAddr
             \<lparr>dns_failures = failures, dns_next = te_now E + delay, dns_kind = dnsErrorKind err\<rparr>
             (dnsByConfigured t)\<rparr>)"

definition resetDNSBackoff :: "string \<Rightarrow> AURPPeerTable \<Rightarrow> AURPPeerTable" where
  "resetDNSBackoff peerAddr t =
     t\<lparr>dnsByConfigured := AList.update peerAddr zero_dns (dnsByConfigured t)\<rparr>"

definition configuredAddresses :: "AURPPeerTable \<Rightarrow> string list" where
  "configuredAddresses t = map fst (dnsByConfigured t)"

definition configuredPeer :: "string \<Rightarrow> AURPPeerTable \<Rightarrow> peer_ref option" where
  "configuredPeer peerAddr t = map_of (peersByConfigured t) peerAddr"


section \<open>Addresses\<close>

fun decimal :: "nat \<Rightarrow> string" where
  "decimal n = (if n < 10 then [char_of (n + 48)] else decimal (n div 10) @ [char_of (n mod 10 + 48)])"

declare decimal.simps [simp del]

fun dotted :: "byte list \<Rightarrow> string" where
  "dotted [] = []"
| "dotted [b] = decimal (unat b)"
| "dotted (b # bs) = decimal (unat b) @ ''.'' @ dotted bs"

text \<open>The text of a domain identifier; the IP addresses in them have four bytes.\<close>

fun DomainIdentifier_String :: "DomainIdentifier \<Rightarrow> string" where
  "DomainIdentifier_String NullDomainIdentifier = ''(null DI)''"
| "DomainIdentifier_String (IPDomainIdentifier i) = dotted i"

definition normalize_step :: "ip \<Rightarrow> ip list \<Rightarrow> ip list" where
  "normalize_step addr out =
     (case To4 addr of
        None \<Rightarrow> out
      | Some addr4 \<Rightarrow> if addr4 \<in> set out then out else out @ [addr4])"

definition normalizeIPv4Candidates :: "ip list \<Rightarrow> ip list" where
  "normalizeIPv4Candidates addrs = fold normalize_step addrs []"

definition setRemoteAddr :: "ip \<Rightarrow> TablePeer \<Rightarrow> TablePeer" where
  "setRemoteAddr raddr p =
     (case To4 raddr of None \<Rightarrow> p | Some raddr4 \<Rightarrow> p\<lparr>remoteAddr := Some raddr4\<rparr>)"


section \<open>Creating peers and looking them up\<close>

definition zero_aurp_config :: AURPConfig where
  "zero_aurp_config =
     \<lparr>LastHeardFromTimeout = 0, RetryInterval = 0, SendRetryLimit = 0, TickleRetryLimit = 0,
      ZoneInfoRetryInterval = 0, UpdateInterval = 0, HiddenNetworks = [], HopCountReduction = False,
      HopCountWeight = 0, RemapRules = [], HiddenDevices = [], Clusters = [], BackupPeers = [],
      HiddenImportNetworks = [], HiddenExportNetworks = []\<rparr>"

text \<open>
  \<open>rands\<close> are the numbers \<open>rand.UintN\<close> returns; the table starts at the first one that is not 0.
\<close>

partial_function (option) first_conn_id :: "(nat \<Rightarrow> u16) \<Rightarrow> nat \<Rightarrow> u16 \<Rightarrow> u16 option" where
  "first_conn_id rands k n = (if n = 0 then first_conn_id rands (k + 1) (rands k) else Some n)"

definition NewAURPPeerTable :: "(nat \<Rightarrow> u16) \<Rightarrow> AURPConfig option \<Rightarrow> AURPPeerTable option" where
  "NewAURPPeerTable rands config =
     (case first_conn_id rands 0 0 of
        None \<Rightarrow> None
      | Some n \<Rightarrow>
          Some \<lparr>peers = [], peersByIP = [], peersByConfigured = [], dnsByConfigured = [], nextConnID = n,
            pt_timing = applyDefaults (case config of None \<Rightarrow> zero_aurp_config | Some c \<Rightarrow> c)\<rparr>)"

definition uniquePeersLocked :: "AURPPeerTable \<Rightarrow> peer_ref list" where
  "uniquePeersLocked t =
     fold (\<lambda>i out. if i \<in> set out then out else out @ [i]) (map snd (peersByIP t)) []"

definition new_peer ::
  "peer_ref \<Rightarrow> string \<Rightarrow> ip \<Rightarrow> DomainIdentifier \<Rightarrow> DomainIdentifier \<Rightarrow> AURPPeerTable \<Rightarrow> TablePeer" where
  "new_peer i peerAddr raddr4 localDI remoteDI t =
     setRemoteAddr raddr4
       \<lparr>ConfiguredAddr = peerAddr,
        tunnelID = (if peerAddr \<noteq> [] then ''cfg:'' @ strings_ToLower peerAddr
                    else ''di:'' @ DomainIdentifier_String remoteDI),
        timing = pt_timing t,
        p_Transport = NewTransport localDI remoteDI (nextConnID t) 0,
        sstate = SenderUnconnected, suiFlags = 0, pendingEvents = [], pendingRIRsp = [], pendingRIUpd = [],
        self = i, running = False, rstate = ReceiverUnconnected, lastReconnect = 0, lastHeardFrom = 0,
        lastSend = 0, lastUpdate = 0, lastSuccess = 0, sendRetries = 0, reconnectFailures = 0,
        nextReconnect = 0, counters = zero_counters, loopDisabled = False, chatLog = [],
        lastRISent = None, restartProbe = False, pendingZoneInfo = [],
        remoteAddr = None, ReceiveCh = [], reconnectCh = False, loopDetectedCh = False,
        receiveQueueHighWater = 0, ddpPacketsIn = 0, ddpBytesIn = 0\<rparr>"

definition createPeer ::
  "string \<Rightarrow> ip \<Rightarrow> DomainIdentifier \<Rightarrow> DomainIdentifier option \<Rightarrow> AURPPeerTable \<Rightarrow> peer_ref \<times> AURPPeerTable" where
  "createPeer peerAddr key localDI remoteDI t =
     (let di = (case remoteDI of None \<Rightarrow> IPDomainIdentifier key | Some d \<Rightarrow> d);
          i = length (peers t)
      in (i, t\<lparr>peers := peers t @ [new_peer i peerAddr key localDI di t],
               peersByIP := AList.update key i (peersByIP t),
               peersByConfigured :=
                 (if peerAddr \<noteq> [] then AList.update peerAddr i (peersByConfigured t) else peersByConfigured t),
               nextConnID := Succ (nextConnID t)\<rparr>))"

text \<open>The lookup by address, after no peer was found under the configured name.\<close>

definition claimOrCreate ::
  "string \<Rightarrow> ip \<Rightarrow> DomainIdentifier \<Rightarrow> DomainIdentifier option \<Rightarrow> AURPPeerTable \<Rightarrow>
   (table_error + peer_ref) \<times> AURPPeerTable" where
  "claimOrCreate peerAddr key localDI remoteDI t =
     (case map_of (peersByIP t) key of
        Some i \<Rightarrow>
          if peerAddr = [] then (Inr i, t)
          else if ConfiguredAddr (peers t ! i) \<noteq> [] \<and> ConfiguredAddr (peers t ! i) \<noteq> peerAddr then
            (Inl (ErrPeerCandidateConflict peerAddr key (ConfiguredAddr (peers t ! i))), t)
          else
            (Inr i, upd_table_peer i (\<lambda>p. p\<lparr>ConfiguredAddr := peerAddr\<rparr>)
               (t\<lparr>peersByConfigured := AList.update peerAddr i (peersByConfigured t)\<rparr>))
      | None \<Rightarrow> map_prod Inr id (createPeer peerAddr key localDI remoteDI t))"

definition LookupOrCreate ::
  "string \<Rightarrow> ip \<Rightarrow> DomainIdentifier \<Rightarrow> DomainIdentifier option \<Rightarrow> AURPPeerTable \<Rightarrow>
   (table_error + peer_ref) \<times> AURPPeerTable" where
  "LookupOrCreate peerAddr raddr localDI remoteDI t0 =
     (case To4 raddr of
        None \<Rightarrow> (Inl (ErrNotIPv4 raddr), t0)
      | Some key \<Rightarrow>
          let t = TrackConfiguredAddress peerAddr t0 in
          if peerAddr = [] then claimOrCreate peerAddr key localDI remoteDI t
          else
            case configuredPeer peerAddr t of
              None \<Rightarrow> claimOrCreate peerAddr key localDI remoteDI t
            | Some i \<Rightarrow>
                (case map_of (peersByIP t) key of
                   Some j \<Rightarrow>
                     if j \<noteq> i then
                       (Inl (ErrPeerCandidateConflict peerAddr key (ConfiguredAddr (peers t ! j))), t)
                     else (Inr i, t\<lparr>peersByIP := AList.update key i (peersByIP t)\<rparr>)
                 | None \<Rightarrow> (Inr i, t\<lparr>peersByIP := AList.update key i (peersByIP t)\<rparr>)))"

definition table_Lookup :: "ip \<Rightarrow> AURPPeerTable \<Rightarrow> table_error + peer_ref option" where
  "table_Lookup raddr t =
     (case To4 raddr of
        None \<Rightarrow> Inl (ErrNotIPv4 raddr)
      | Some key \<Rightarrow> Inr (map_of (peersByIP t) key))"


section \<open>Resolving configured peers\<close>

text \<open>
  The loop over the candidates: the local address is skipped, the first error ends it, and the
  peer of the first candidate is the result.
\<close>

fun resolve_candidates ::
  "string \<Rightarrow> DomainIdentifier \<Rightarrow> ip option \<Rightarrow> ip list \<Rightarrow> peer_ref option \<Rightarrow> AURPPeerTable \<Rightarrow>
   (table_error + peer_ref option) \<times> AURPPeerTable" where
  "resolve_candidates peerAddr localDI localIP [] peer t = (Inr peer, t)"
| "resolve_candidates peerAddr localDI localIP (raddr4 # rest) peer t =
     (if localIP = Some raddr4 then resolve_candidates peerAddr localDI localIP rest peer t
      else
        case LookupOrCreate peerAddr raddr4 localDI None t of
          (Inl err, t') \<Rightarrow> (Inl err, t')
        | (Inr p, t') \<Rightarrow>
            resolve_candidates peerAddr localDI localIP rest (if peer = None then Some p else peer) t')"

text \<open>\<open>net.IP.Equal\<close> on a local IP of the domain identifier compares the four-byte forms.\<close>

fun local_ip :: "DomainIdentifier \<Rightarrow> ip option" where
  "local_ip (IPDomainIdentifier i) = To4 i"
| "local_ip NullDomainIdentifier = None"

definition ResolveConfiguredPeer ::
  "table_env \<Rightarrow> string \<Rightarrow> DomainIdentifier \<Rightarrow> AURPPeerTable \<Rightarrow> (table_error + peer_ref) \<times> AURPPeerTable" where
  "ResolveConfiguredPeer E peerAddr localDI t =
     (if \<not> dnsReady peerAddr (te_now E) t then (Inl ErrDNSBackoff, t)
      else
        case te_LookupIP E peerAddr of
          Inl err \<Rightarrow> (Inl err, noteDNSFailure E peerAddr err t)
        | Inr resolved \<Rightarrow>
            let candidates = normalizeIPv4Candidates resolved in
            if candidates = [] then
              (Inl (ErrNoCandidates peerAddr), noteDNSFailure E peerAddr (ErrNoCandidates peerAddr) t)
            else
              case resolve_candidates peerAddr localDI (local_ip localDI) candidates None t of
                (Inl err, t') \<Rightarrow> (Inl err, noteDNSFailure E peerAddr err t')
              | (Inr None, t') \<Rightarrow>
                  (Inl (ErrOnlyLocal peerAddr), noteDNSFailure E peerAddr (ErrOnlyLocal peerAddr) t')
              | (Inr (Some p), t') \<Rightarrow> (Inr p, resetDNSBackoff peerAddr t'))"


section \<open>Candidates and reconnecting\<close>

text \<open>
  A world with the route table, from which the routes of a peer that changes its endpoint are
  removed, the notifications of its observers, and the peers whose \<open>Handle\<close> was started.
\<close>

record table_world =
  tw_table :: AURPPeerTable
  tw_rt :: RouteTable
  tw_notes :: "notification list"
  tw_started :: "peer_ref list"

definition find_conflict :: "peer_ref \<Rightarrow> ip list \<Rightarrow> AURPPeerTable \<Rightarrow> (ip \<times> peer_ref) option" where
  "find_conflict i desired t =
     find (\<lambda>(k, j). j \<noteq> i)
       (concat (map (\<lambda>k. case map_of (peersByIP t) k of None \<Rightarrow> [] | Some j \<Rightarrow> [(k, j)]) desired))"

definition replace_candidates :: "peer_ref \<Rightarrow> ip list \<Rightarrow> AURPPeerTable \<Rightarrow> AURPPeerTable" where
  "replace_candidates i desired t =
     t\<lparr>peersByIP :=
         fold (\<lambda>k m. AList.update k i m) desired
           (filter (\<lambda>(k, j). j \<noteq> i \<or> k \<in> set desired) (peersByIP t))\<rparr>"

definition keeps_endpoint :: "TablePeer \<Rightarrow> ip list \<Rightarrow> bool" where
  "keeps_endpoint p desired \<longleftrightarrow>
     (case remoteAddr p of
        None \<Rightarrow> False
      | Some active \<Rightarrow> (case To4 active of None \<Rightarrow> False | Some active4 \<Rightarrow> active4 \<in> set desired))"

definition setConfiguredCandidates ::
  "table_env \<Rightarrow> peer_ref \<Rightarrow> ip list \<Rightarrow> table_world \<Rightarrow> ((table_error + bool) \<times> table_world) option" where
  "setConfiguredCandidates E i addrs w =
     (let candidates = normalizeIPv4Candidates addrs;
          t = tw_table w;
          peer = peers t ! i;
          name = ConfiguredAddr peer
      in if name = [] then Some (Inl ErrNoConfiguredAddress, w)
         else if candidates = [] then Some (Inl (ErrNoCandidates name), w)
         else if configuredPeer name t \<noteq> Some i then Some (Inl (ErrMappingChanged name), w)
         else
           case find_conflict i candidates t of
             Some (k, j) \<Rightarrow> Some (Inl (ErrPeerCandidateConflict name k (ConfiguredAddr (peers t ! j))), w)
           | None \<Rightarrow>
               let t1 = replace_candidates i candidates t in
               if keeps_endpoint peer candidates then Some (Inr False, w\<lparr>tw_table := t1\<rparr>)
               else
                 case DeleteTarget (te_now E) (peer_target peer) (tw_rt w) of
                   None \<Rightarrow> None
                 | Some (rt', evs) \<Rightarrow>
                     Some (Inr True,
                       w\<lparr>tw_table := upd_table_peer i
                            (\<lambda>p. (setRemoteAddr (hd candidates) p)\<lparr>nextReconnect := 0\<rparr>) t1,
                         tw_rt := rt', tw_notes := tw_notes w @ evs\<rparr>))"

definition signalReconnect :: "TablePeer \<Rightarrow> TablePeer" where
  "signalReconnect p = p\<lparr>reconnectCh := True\<rparr>"

definition upd_tw_table :: "(AURPPeerTable \<Rightarrow> AURPPeerTable) \<Rightarrow> table_world \<Rightarrow> table_world" where
  "upd_tw_table f w = w\<lparr>tw_table := f (tw_table w)\<rparr>"

text \<open>The end of \<open>reconnectPeer\<close>: a running handle loop is told, otherwise one is started.\<close>

definition wakePeer :: "peer_ref \<Rightarrow> table_world \<Rightarrow> table_world" where
  "wakePeer i w =
     (if running (peers (tw_table w) ! i) then upd_tw_table (upd_table_peer i signalReconnect) w
      else w\<lparr>tw_started := tw_started w @ [i]\<rparr>)"

definition reconnectPeer :: "table_env \<Rightarrow> peer_ref \<Rightarrow> table_world \<Rightarrow> table_world option" where
  "reconnectPeer E i w =
     (let name = ConfiguredAddr (peers (tw_table w) ! i) in
      if name = [] then Some w
      else if \<not> dnsReady name (te_now E) (tw_table w) then Some w
      else
        case te_LookupIP E name of
          Inl err \<Rightarrow> Some (upd_tw_table (noteDNSFailure E name err) w)
        | Inr resolved \<Rightarrow>
            let candidates = normalizeIPv4Candidates resolved in
            if candidates = [] then Some (upd_tw_table (noteDNSFailure E name (ErrNoCandidates name)) w)
            else
              case setConfiguredCandidates E i candidates w of
                None \<Rightarrow> None
              | Some (Inl err, w') \<Rightarrow> Some (upd_tw_table (noteDNSFailure E name err) w')
              | Some (Inr switched, w') \<Rightarrow> Some (wakePeer i (upd_tw_table (resetDNSBackoff name) w')))"

text \<open>One configured name of the scan every ten seconds, and the whole scan.\<close>

definition scan_one :: "table_env \<Rightarrow> DomainIdentifier \<Rightarrow> string \<Rightarrow> table_world \<Rightarrow> table_world option" where
  "scan_one E localDI peerAddr w =
     (case configuredPeer peerAddr (tw_table w) of
        None \<Rightarrow>
          if \<not> dnsReady peerAddr (te_now E) (tw_table w) then Some w
          else
            (case ResolveConfiguredPeer E peerAddr localDI (tw_table w) of
               (Inl err, t') \<Rightarrow> Some (w\<lparr>tw_table := t'\<rparr>)
             | (Inr i, t') \<Rightarrow>
                 Some (w\<lparr>tw_table := t',
                         tw_started := (if running (peers t' ! i) then tw_started w else tw_started w @ [i])\<rparr>))
      | Some i \<Rightarrow>
          if rstate (peers (tw_table w) ! i) = ReceiverUnconnected then reconnectPeer E i w else Some w)"

fun scan_all :: "table_env \<Rightarrow> DomainIdentifier \<Rightarrow> string list \<Rightarrow> table_world \<Rightarrow> table_world option" where
  "scan_all E localDI [] w = Some w"
| "scan_all E localDI (a # as) w =
     (case scan_one E localDI a w of None \<Rightarrow> None | Some w' \<Rightarrow> scan_all E localDI as w')"

definition scan :: "table_env \<Rightarrow> DomainIdentifier \<Rightarrow> table_world \<Rightarrow> table_world option" where
  "scan E localDI w = scan_all E localDI (configuredAddresses (tw_table w)) w"


section \<open>Summary\<close>

record aurpOperationalSummary =
  os_Configured :: nat
  os_Resolved :: nat
  os_Running :: nat
  os_ReceiverConnected :: nat
  os_SenderConnected :: nat
  os_LoopDisabled :: nat
  os_ReceiveQueue :: nat
  os_ReceiveQueueHighWater :: "64 word"
  os_DDPPacketsIn :: "64 word"
  os_DDPPacketsOut :: "64 word"
  os_DDPBytesIn :: "64 word"
  os_DDPBytesOut :: "64 word"

definition summary_step :: "TablePeer \<Rightarrow> aurpOperationalSummary \<Rightarrow> aurpOperationalSummary" where
  "summary_step p s =
     s\<lparr>os_Resolved := os_Resolved s + 1,
       os_Running := os_Running s + (if running p then 1 else 0),
       os_ReceiverConnected := os_ReceiverConnected s + (if rstate p = ReceiverConnected then 1 else 0),
       os_SenderConnected := os_SenderConnected s + (if sstate p = SenderConnected then 1 else 0),
       os_LoopDisabled := os_LoopDisabled s + (if loopDisabled p then 1 else 0),
       os_ReceiveQueue := os_ReceiveQueue s + length (ReceiveCh p),
       os_ReceiveQueueHighWater := max (os_ReceiveQueueHighWater s) (receiveQueueHighWater p),
       os_DDPPacketsIn := os_DDPPacketsIn s + ddpPacketsIn p,
       os_DDPPacketsOut := os_DDPPacketsOut s + k_ddpPacketsOut (counters p),
       os_DDPBytesIn := os_DDPBytesIn s + ddpBytesIn p,
       os_DDPBytesOut := os_DDPBytesOut s + k_ddpBytesOut (counters p)\<rparr>"

definition operationalSummary :: "AURPPeerTable \<Rightarrow> aurpOperationalSummary" where
  "operationalSummary t =
     fold (\<lambda>i. summary_step (peers t ! i)) (uniquePeersLocked t)
       \<lparr>os_Configured = length (dnsByConfigured t), os_Resolved = 0, os_Running = 0,
        os_ReceiverConnected = 0, os_SenderConnected = 0, os_LoopDisabled = 0, os_ReceiveQueue = 0,
        os_ReceiveQueueHighWater = 0, os_DDPPacketsIn = 0, os_DDPPacketsOut = 0, os_DDPBytesIn = 0,
        os_DDPBytesOut = 0\<rparr>"


section \<open>Invariant\<close>

text \<open>
  Every pointer is a peer of the table; a configured name and the name stored in its peer agree;
  every peer is found under its active endpoint; connection IDs are not 0.
\<close>

definition owner :: "AURPPeerTable \<Rightarrow> ip \<Rightarrow> peer_ref option" where
  "owner t = map_of (peersByIP t)"

definition directory_ok :: "TablePeer list \<Rightarrow> (ip \<rightharpoonup> peer_ref) \<Rightarrow> (string \<rightharpoonup> peer_ref) \<Rightarrow> bool" where
  "directory_ok ps ow cf \<longleftrightarrow>
     (\<forall>k i. ow k = Some i \<longrightarrow> length k = 4 \<and> i < length ps) \<and>
     (\<forall>a i. cf a = Some i \<longleftrightarrow> i < length ps \<and> a \<noteq> [] \<and> ConfiguredAddr (ps ! i) = a) \<and>
     (\<forall>i<length ps. self (ps ! i) = i \<and> (\<exists>k. remoteAddr (ps ! i) = Some k \<and> ow k = Some i))"

lemma directory_okI:
  assumes "\<And>k i. ow k = Some i \<Longrightarrow> length k = 4 \<and> i < length ps"
    "\<And>a i. cf a = Some i \<longleftrightarrow> i < length ps \<and> a \<noteq> [] \<and> ConfiguredAddr (ps ! i) = a"
    "\<And>i. i < length ps \<Longrightarrow> self (ps ! i) = i"
    "\<And>i. i < length ps \<Longrightarrow> \<exists>k. remoteAddr (ps ! i) = Some k \<and> ow k = Some i"
  shows "directory_ok ps ow cf"
  using assms unfolding directory_ok_def by blast

lemma directory_okD:
  assumes "directory_ok ps ow cf"
  shows "ow k = Some i \<Longrightarrow> length k = 4 \<and> i < length ps"
    "cf a = Some i \<longleftrightarrow> i < length ps \<and> a \<noteq> [] \<and> ConfiguredAddr (ps ! i) = a"
    "i < length ps \<Longrightarrow> self (ps ! i) = i"
    "i < length ps \<Longrightarrow> \<exists>k. remoteAddr (ps ! i) = Some k \<and> ow k = Some i"
  using assms unfolding directory_ok_def by blast+

abbreviation configured :: "AURPPeerTable \<Rightarrow> string \<rightharpoonup> peer_ref" where
  "configured t \<equiv> (\<lambda>a. configuredPeer a t)"

definition table_inv :: "AURPPeerTable \<Rightarrow> bool" where
  "table_inv t \<longleftrightarrow>
     nextConnID t \<noteq> 0 \<and> distinct (map fst (peersByIP t)) \<and>
     directory_ok (peers t) (owner t) (configured t) \<and>
     dom (configured t) \<subseteq> set (configuredAddresses t)"

lemma table_invD:
  assumes "table_inv t"
  shows "owner t k = Some i \<Longrightarrow> length k = 4" "owner t k = Some i \<Longrightarrow> i < length (peers t)"
    "configuredPeer a t = Some i \<longleftrightarrow> i < length (peers t) \<and> a \<noteq> [] \<and> ConfiguredAddr (peers t ! i) = a"
    "i < length (peers t) \<Longrightarrow> self (peers t ! i) = i"
    "i < length (peers t) \<Longrightarrow> \<exists>k. remoteAddr (peers t ! i) = Some k \<and> owner t k = Some i"
    "configuredPeer a t = Some i \<Longrightarrow> a \<in> set (configuredAddresses t)"
  using assms unfolding table_inv_def directory_ok_def by blast+

lemma owner_update [simp]: "owner (t\<lparr>peersByIP := AList.update k i (peersByIP t)\<rparr>) = (owner t)(k \<mapsto> i)"
  by (simp add: owner_def update_conv')

lemma configured_update [simp]:
  "configuredPeer b (t\<lparr>peersByConfigured := AList.update a i (peersByConfigured t)\<rparr>) = ((configured t)(a \<mapsto> i)) b"
  by (simp add: configuredPeer_def update_conv')


section \<open>Pacing and tracking\<close>

text \<open>What the invariant reads of a table.\<close>

definition same_directory :: "AURPPeerTable \<Rightarrow> AURPPeerTable \<Rightarrow> bool" where
  "same_directory t t' \<longleftrightarrow>
     peers t' = peers t \<and> peersByIP t' = peersByIP t \<and> peersByConfigured t' = peersByConfigured t \<and>
     nextConnID t' = nextConnID t \<and> pt_timing t' = pt_timing t \<and>
     set (configuredAddresses t) \<subseteq> set (configuredAddresses t')"

lemma inv_same_directory: "same_directory t t' \<Longrightarrow> table_inv t \<Longrightarrow> table_inv t'"
  unfolding table_inv_def same_directory_def owner_def configuredPeer_def by fastforce

lemma same_directory_refl [simp]: "same_directory t t"
  by (simp add: same_directory_def)

lemma set_fst_update: "fst ` set (AList.update k v m) = insert k (fst ` set m)"
  by (induction m) auto

lemma same_directory_dns [simp]:
  "same_directory t (TrackConfiguredAddress a t)" "same_directory t (noteDNSFailure E a err t)"
  "same_directory t (resetDNSBackoff a t)"
  by (auto simp: same_directory_def TrackConfiguredAddress_def noteDNSFailure_def resetDNSBackoff_def
      configuredAddresses_def Let_def set_fst_update)

lemmas inv_dns = inv_same_directory [OF same_directory_dns(1)] inv_same_directory [OF same_directory_dns(2)]
  inv_same_directory [OF same_directory_dns(3)]

lemma tracked: "a \<noteq> [] \<Longrightarrow> a \<in> set (configuredAddresses (TrackConfiguredAddress a t))"
  by (auto simp: TrackConfiguredAddress_def configuredAddresses_def set_fst_update)
    (metis domI dom_map_of_conv_image_fst)

lemma track_simps [simp]:
  "peers (TrackConfiguredAddress a t) = peers t" "owner (TrackConfiguredAddress a t) = owner t"
  "configuredPeer b (TrackConfiguredAddress a t) = configuredPeer b t"
  "peersByIP (TrackConfiguredAddress a t) = peersByIP t"
  "nextConnID (TrackConfiguredAddress a t) = nextConnID t" "pt_timing (TrackConfiguredAddress a t) = pt_timing t"
  by (simp_all add: TrackConfiguredAddress_def owner_def configuredPeer_def)

lemma To4_length: "To4 a = Some k \<Longrightarrow> length k = 4"
  by (auto simp: To4_def split: if_splits)

lemma To4_4 [simp]: "length a = 4 \<Longrightarrow> To4 a = Some a"
  by (simp add: To4_def)


section \<open>Creating and claiming\<close>

lemma directory_alias:
  assumes d: "directory_ok ps ow cf" and "length key = 4" "i < length ps" "ow key = None \<or> ow key = Some i"
  shows "directory_ok ps (ow(key \<mapsto> i)) cf"
proof (rule directory_okI)
  fix j
  assume "j < length ps"
  then obtain k where "remoteAddr (ps ! j) = Some k" "ow k = Some j"
    using directory_okD(4) [OF d] by blast
  with assms(4) show "\<exists>k. remoteAddr (ps ! j) = Some k \<and> (ow(key \<mapsto> i)) k = Some j"
    by (intro exI [of _ k]) auto
next
  fix k j
  assume "(ow(key \<mapsto> i)) k = Some j"
  then show "length k = 4 \<and> j < length ps"
    using assms(2,3) directory_okD(1) [OF d, of k j] by (cases "k = key") auto
qed (use directory_okD(2,3) [OF d] in \<open>blast+\<close>)

lemma configured_unique:
  assumes d: "directory_ok ps ow cf" and "cf a = None \<or> cf a = Some i" "j < length ps" "a \<noteq> []"
    "ConfiguredAddr (ps ! j) = a"
  shows "j = i" "cf a = Some i"
  using directory_okD(2) [OF d, of a j] assms(2-) by auto

lemma directory_claim:
  assumes d: "directory_ok ps ow cf" and "i < length ps" "a \<noteq> []" "cf a = None \<or> cf a = Some i"
    "ConfiguredAddr (ps ! i) = [] \<or> ConfiguredAddr (ps ! i) = a"
  shows "directory_ok (ps[i := (ps ! i)\<lparr>ConfiguredAddr := a\<rparr>]) ow (cf(a \<mapsto> i))"
proof (rule directory_okI)
  fix b j
  show "(cf(a \<mapsto> i)) b = Some j \<longleftrightarrow> j < length (ps[i := (ps ! i)\<lparr>ConfiguredAddr := a\<rparr>]) \<and> b \<noteq> [] \<and>
      ConfiguredAddr (ps[i := (ps ! i)\<lparr>ConfiguredAddr := a\<rparr>] ! j) = b"
  proof (cases "b = a")
    case True
    with assms(2,3) configured_unique [OF d assms(4), of j] show ?thesis
      by (cases "j = i") auto
  next
    case False
    with assms(2,5) directory_okD(2) [OF d, of b j] show ?thesis
      by (cases "j = i") auto
  qed
qed (use assms(2) directory_okD(1,3,4) [OF d] in \<open>simp_all add: nth_list_update\<close>)

lemma directory_create:
  assumes d: "directory_ok ps ow cf" and new: "ow key = None" "length key = 4" "self p = length ps"
    "remoteAddr p = Some key" "ConfiguredAddr p = a" "a = [] \<or> cf a = None"
  shows "directory_ok (ps @ [p]) (ow(key \<mapsto> length ps)) (if a = [] then cf else cf(a \<mapsto> length ps))"
proof (rule directory_okI)
  let ?cf = "if a = [] then cf else cf(a \<mapsto> length ps)"
  fix b j
  show "?cf b = Some j \<longleftrightarrow> j < length (ps @ [p]) \<and> b \<noteq> [] \<and> ConfiguredAddr ((ps @ [p]) ! j) = b"
    using new(5,6) directory_okD(2) [OF d, of b j]
    by (cases "j = length ps"; cases "b = a") (auto simp: nth_append less_Suc_eq)
next
  fix j
  assume j: "j < length (ps @ [p])"
  show "\<exists>k. remoteAddr ((ps @ [p]) ! j) = Some k \<and> (ow(key \<mapsto> length ps)) k = Some j"
  proof (cases "j = length ps")
    case False
    with j obtain k where "remoteAddr (ps ! j) = Some k" "ow k = Some j"
      using directory_okD(4) [OF d, of j] by (auto simp: less_Suc_eq)
    with False j new(1) show ?thesis
      by (intro exI [of _ k]) (auto simp: nth_append)
  qed (simp add: new(4))
next
  fix k j
  assume "(ow(key \<mapsto> length ps)) k = Some j"
  then show "length k = 4 \<and> j < length (ps @ [p])"
    using new(2) directory_okD(1) [OF d, of k j] by (cases "k = key") auto
qed (use new(3) directory_okD(3) [OF d] in \<open>auto simp: nth_append less_Suc_eq\<close>)

text \<open>
  A later table knows what an earlier one knew: no address and no configured name moves to another
  peer, and a peer changes only by taking a configured name.
\<close>

definition renamed :: "TablePeer \<Rightarrow> TablePeer \<Rightarrow> bool" where
  "renamed p q \<longleftrightarrow> (\<exists>a. q = p\<lparr>ConfiguredAddr := a\<rparr>)"

lemma renamed_refl [simp]: "renamed p p"
  unfolding renamed_def by (rule exI [of _ "ConfiguredAddr p"]) simp

lemma renamed_upd [simp]: "renamed p (p\<lparr>ConfiguredAddr := a\<rparr>)"
  by (auto simp: renamed_def)

lemma renamed_trans: "renamed p q \<Longrightarrow> renamed q r \<Longrightarrow> renamed p r"
  by (auto simp: renamed_def)

definition extends :: "AURPPeerTable \<Rightarrow> AURPPeerTable \<Rightarrow> bool" where
  "extends t t' \<longleftrightarrow>
     owner t \<subseteq>\<^sub>m owner t' \<and> configured t \<subseteq>\<^sub>m configured t' \<and> length (peers t) \<le> length (peers t') \<and>
     (\<forall>i<length (peers t). renamed (peers t ! i) (peers t' ! i))"

lemma extends_refl [simp]: "extends t t"
  by (simp add: extends_def)

lemma extends_trans: "extends s t \<Longrightarrow> extends t u \<Longrightarrow> extends s u"
  unfolding extends_def by (meson map_le_trans order_less_le_trans order_trans renamed_trans)

lemma extends_same: "same_directory t t' \<Longrightarrow> extends t t'"
  by (simp add: extends_def same_directory_def owner_def configuredPeer_def)

text \<open>What a successful lookup says about the result.\<close>

definition found :: "string \<Rightarrow> ip \<Rightarrow> peer_ref \<Rightarrow> AURPPeerTable \<Rightarrow> bool" where
  "found a key i t \<longleftrightarrow> owner t key = Some i \<and> (a \<noteq> [] \<longrightarrow> configuredPeer a t = Some i)"

lemma createPeer_ok:
  assumes inv: "table_inv t" and new: "owner t key = None" "length key = 4" "configuredPeer a t = None"
    "a \<noteq> [] \<longrightarrow> a \<in> set (configuredAddresses t)" and res: "createPeer a key l rd t = (i, t')"
  shows "table_inv t' \<and> extends t t' \<and> found a key i t'"
proof -
  let ?p = "new_peer (length (peers t)) a key l (case rd of None \<Rightarrow> IPDomainIdentifier key | Some d \<Rightarrow> d) t"
  have p: "self ?p = length (peers t)" "remoteAddr ?p = Some key" "ConfiguredAddr ?p = a"
    using new(2) by (simp_all add: new_peer_def setRemoteAddr_def)
  have t': "i = length (peers t)" "peers t' = peers t @ [?p]" "owner t' = (owner t)(key \<mapsto> i)"
    "configured t' = (if a = [] then configured t else (configured t)(a \<mapsto> i))"
    "nextConnID t' = Succ (nextConnID t)" "peersByIP t' = AList.update key i (peersByIP t)"
    "configuredAddresses t' = configuredAddresses t"
    using res by (auto simp: createPeer_def Let_def owner_def configuredPeer_def update_conv'
        configuredAddresses_def fun_eq_iff)
  have "directory_ok (peers t') (owner t') (configured t')"
    unfolding t'(1-4) using inv new(3) p new(1,2) by (intro directory_create) (simp_all add: table_inv_def)
  moreover have "extends t t'"
    using new(1,3) unfolding extends_def t'
    by (auto simp: map_le_def nth_append dom_def)
  moreover have "found a key i t'"
    using t'(3) fun_cong [OF t'(4), of a] by (simp add: found_def)
  ultimately show ?thesis
    using inv new(4) t' by (auto simp: table_inv_def Succ_neq_0 distinct_update)
qed

lemma claimOrCreate_ok:
  assumes inv: "table_inv t" and new: "length key = 4" "a \<noteq> [] \<Longrightarrow> configuredPeer a t = None"
    "a \<noteq> [] \<longrightarrow> a \<in> set (configuredAddresses t)" and res: "claimOrCreate a key l rd t = (r, t')"
  shows "table_inv t' \<and> extends t t' \<and> (\<forall>i. r = Inr i \<longrightarrow> found a key i t') \<and> (\<forall>e. r = Inl e \<longrightarrow> t' = t)"
proof (cases "owner t key")
  case None
  have "configuredPeer a t = None"
    using new(2) table_invD(3) [OF inv, of a] by (cases "a = []") auto
  with None res createPeer_ok [OF inv None new(1) _ new(3)] show ?thesis
    by (cases "createPeer a key l rd t") (auto simp: claimOrCreate_def owner_def)
next
  case (Some i)
  let ?p = "peers t ! i"
  note i = table_invD(2) [OF inv Some]
  consider (id) "a = []" | (conflict) "a \<noteq> []" "ConfiguredAddr ?p \<noteq> []" "ConfiguredAddr ?p \<noteq> a"
    | (claim) "a \<noteq> []" "ConfiguredAddr ?p = [] \<or> ConfiguredAddr ?p = a" by blast
  then show ?thesis
  proof cases
    case claim
    with res Some have r: "r = Inr i" "peers t' = (peers t)[i := ?p\<lparr>ConfiguredAddr := a\<rparr>]" "owner t' = owner t"
      "configured t' = (configured t)(a \<mapsto> i)" "configuredAddresses t' = configuredAddresses t"
      "nextConnID t' = nextConnID t" "peersByIP t' = peersByIP t"
      by (auto simp: claimOrCreate_def upd_table_peer_def owner_def configuredPeer_def update_conv'
          configuredAddresses_def fun_eq_iff)
    have "directory_ok (peers t') (owner t') (configured t')"
      unfolding r using inv i claim new(2) by (intro directory_claim) (simp_all add: table_inv_def)
    moreover have "extends t t'"
      using new(2) [OF claim(1)] i unfolding extends_def r
      by (auto simp: map_le_def dom_def nth_list_update)
    moreover have "found a key i t'"
      using Some fun_cong [OF r(4), of a] r(3) by (simp add: found_def)
    ultimately show ?thesis
      using inv new(3) claim(1) r by (auto simp: table_inv_def)
  qed (use res Some inv in \<open>auto simp: claimOrCreate_def owner_def found_def\<close>)
qed

lemma addAddress_ok:
  assumes "table_inv t" "length key = 4" "i < length (peers t)" "owner t key = None \<or> owner t key = Some i"
    and "a \<noteq> [] \<longrightarrow> configuredPeer a t = Some i"
  defines "u \<equiv> t\<lparr>peersByIP := AList.update key i (peersByIP t)\<rparr>"
  shows "table_inv u" "extends t u" "found a key i u"
proof -
  have u: "peers u = peers t" "owner u = (owner t)(key \<mapsto> i)" "configured u = configured t"
    "configuredAddresses u = configuredAddresses t" "nextConnID u = nextConnID t"
    "peersByIP u = AList.update key i (peersByIP t)"
    by (simp_all add: u_def owner_def update_conv' configuredPeer_def configuredAddresses_def)
  show "table_inv u"
    using assms(1-4) directory_alias [of "peers t" "owner t" "configured t" key i] unfolding table_inv_def u
    by (simp add: distinct_update)
  show "extends t u"
    using assms(4) unfolding extends_def u by (auto simp: map_le_def dom_def)
  show "found a key i u"
    using assms(5) fun_cong [OF u(3), of a] by (simp add: found_def u(2))
qed

lemma LookupOrCreate_ok:
  assumes inv: "table_inv t" and res: "LookupOrCreate a raddr l rd t = (r, t')"
  shows "table_inv t' \<and> extends t t' \<and> (\<forall>i. r = Inr i \<longrightarrow> (\<exists>key. To4 raddr = Some key \<and> found a key i t'))"
proof (cases "To4 raddr")
  case (Some key)
  let ?t = "TrackConfiguredAddress a t"
  note inv' = inv_dns(1) [OF inv, of a] and len = To4_length [OF Some]
  have ext: "extends t ?t" by (rule extends_same) simp
  show ?thesis
  proof (cases "a \<noteq> [] \<and> configuredPeer a t \<noteq> None")
    case True
    then obtain i where i: "configuredPeer a t = Some i" "a \<noteq> []" by auto
    note il = table_invD(3) [OF inv, of a i]
    consider (conflict) j where "owner t key = Some j" "j \<noteq> i" | (known) "owner t key = None \<or> owner t key = Some i"
      by (cases "owner t key") auto
    then show ?thesis
    proof cases
      case known
      let ?u = "?t\<lparr>peersByIP := AList.update key i (peersByIP ?t)\<rparr>"
      have r: "r = Inr i" "t' = ?u"
        using known res i Some by (auto simp: LookupOrCreate_def Let_def owner_def split: if_splits)
      have "table_inv ?u" "extends ?t ?u" "found a key i ?u"
        using addAddress_ok [OF inv' len, of i a] il i known by simp_all
      then show ?thesis
        using Some extends_trans [OF ext] unfolding r by simp
    qed (use res i Some inv' ext in \<open>auto simp: LookupOrCreate_def Let_def owner_def\<close>)
  next
    case False
    then have "claimOrCreate a key l rd ?t = (r, t')"
      using res Some by (cases "a = []") (auto simp: LookupOrCreate_def Let_def)
    from claimOrCreate_ok [OF inv' len _ _ this] False tracked Some extends_trans [OF ext] show ?thesis by auto
  qed
qed (use assms in \<open>auto simp: LookupOrCreate_def\<close>)


section \<open>Resolving, candidates and reconnecting\<close>

lemma found_extends: "found a k i t \<Longrightarrow> extends t t' \<Longrightarrow> found a k i t'"
  unfolding found_def extends_def map_le_def dom_def
  by (metis (mono_tags, lifting) mem_Collect_eq option.distinct(1))

lemma resolve_candidates_ok:
  "table_inv t \<Longrightarrow> resolve_candidates a l ip ks q t = (r, t') \<Longrightarrow>
   (\<forall>i. a \<noteq> [] \<longrightarrow> q = Some i \<longrightarrow> configuredPeer a t = Some i) \<Longrightarrow>
   table_inv t' \<and> extends t t' \<and> (\<forall>i. a \<noteq> [] \<longrightarrow> r = Inr (Some i) \<longrightarrow> configuredPeer a t' = Some i)"
proof (induction a l ip ks q t rule: resolve_candidates.induct)
  case (2 a l ip k ks q t)
  show ?case
  proof (cases "ip = Some k")
    case False
    obtain x u where l: "LookupOrCreate a k l None t = (x, u)" by fastforce
    note ok = LookupOrCreate_ok [OF 2(3) l]
    show ?thesis
    proof (cases x)
      case (Inr i)
      then have i: "a \<noteq> [] \<longrightarrow> configuredPeer a u = Some i" using ok by (auto simp: found_def)
      have "resolve_candidates a l ip ks (if q = None then Some i else q) u = (r, t')"
        using 2(4) False l Inr by simp
      moreover have "\<forall>j. a \<noteq> [] \<longrightarrow> (if q = None then Some i else q) = Some j \<longrightarrow> configuredPeer a u = Some j"
        using i 2(5) ok by (auto simp: extends_def map_le_def dom_def split: if_splits)
      ultimately show ?thesis
        using 2(2) [OF False l [symmetric] Inr] ok extends_trans by blast
    qed (use 2(4) False l ok in auto)
  qed (use 2 in auto)
qed auto

lemma ResolveConfiguredPeer_ok:
  assumes inv: "table_inv t" and res: "ResolveConfiguredPeer E a l t = (r, t')"
  shows "table_inv t' \<and> extends t t' \<and> (\<forall>i. a \<noteq> [] \<longrightarrow> r = Inr i \<longrightarrow> configuredPeer a t' = Some i)"
proof -
  have note_ok: "table_inv (noteDNSFailure E a e u) \<and> extends t (noteDNSFailure E a e u)"
    if "table_inv u" "extends t u" for e u
    using that inv_dns(2) extends_trans [OF _ extends_same [OF same_directory_dns(2)]] by blast
  show ?thesis
  proof (cases "\<exists>ips. dnsReady a (te_now E) t \<and> te_LookupIP E a = Inr ips \<and> normalizeIPv4Candidates ips \<noteq> []")
    case True
    then obtain ips where ips: "dnsReady a (te_now E) t" "te_LookupIP E a = Inr ips" "normalizeIPv4Candidates ips \<noteq> []"
      by blast
    obtain x u where u: "resolve_candidates a l (local_ip l) (normalizeIPv4Candidates ips) None t = (x, u)"
      by fastforce
    note ok = resolve_candidates_ok [OF inv u]
    have "table_inv (resetDNSBackoff a u) \<and> extends t (resetDNSBackoff a u)"
      using ok inv_dns(3) extends_trans [OF _ extends_same [OF same_directory_dns(3)]] by blast
    then show ?thesis
      using res ips u ok note_ok [of u]
      by (auto simp: ResolveConfiguredPeer_def resetDNSBackoff_def configuredPeer_def split: sum.splits option.splits)
  next
    case False
    then have "t' = t \<or> (\<exists>e. t' = noteDNSFailure E a e t)" "\<And>i. r \<noteq> Inr i"
      using res by (auto simp: ResolveConfiguredPeer_def Let_def split: sum.splits if_splits)
    then show ?thesis
      using inv note_ok [OF inv] by auto
  qed
qed

lemma normalize_fold:
  "distinct out \<Longrightarrow> distinct (fold normalize_step addrs out) \<and>
     set (fold normalize_step addrs out) = set out \<union> {k. \<exists>a\<in>set addrs. To4 a = Some k}"
  by (induction addrs arbitrary: out) (auto simp: normalize_step_def split: option.splits)

lemma normalize_candidates:
  "distinct (normalizeIPv4Candidates addrs)"
  "set (normalizeIPv4Candidates addrs) = {k. \<exists>a\<in>set addrs. To4 a = Some k}"
  using normalize_fold [of "[]" addrs] by (simp_all add: normalizeIPv4Candidates_def)

lemma candidate_length: "k \<in> set (normalizeIPv4Candidates addrs) \<Longrightarrow> length k = 4"
  by (auto simp: normalize_candidates To4_length)

lemma normalize_fold_id:
  "list_all (\<lambda>a. length a = 4) ks \<Longrightarrow> distinct (out @ ks) \<Longrightarrow> fold normalize_step ks out = out @ ks"
  by (induction ks arbitrary: out) (auto simp: normalize_step_def)

lemma normalize_idem [simp]:
  "normalizeIPv4Candidates (normalizeIPv4Candidates addrs) = normalizeIPv4Candidates addrs"
  using normalize_fold_id [of "normalizeIPv4Candidates addrs" "[]"] candidate_length normalize_candidates(1)
  by (auto simp: normalizeIPv4Candidates_def list_all_iff)

text \<open>The addresses of a peer become the candidates; other addresses keep their peer.\<close>

definition with_candidates :: "peer_ref \<Rightarrow> ip set \<Rightarrow> (ip \<rightharpoonup> peer_ref) \<Rightarrow> (ip \<rightharpoonup> peer_ref)" where
  "with_candidates i K ow = (\<lambda>k. if k \<in> K then Some i else if ow k = Some i then None else ow k)"

lemma map_of_filter_fst:
  "distinct (map fst m) \<Longrightarrow>
   map_of (filter P m) k = (case map_of m k of None \<Rightarrow> None | Some v \<Rightarrow> if P (k, v) then Some v else None)"
  by (induction m) (auto split: option.splits dest: map_of_SomeD simp: rev_image_eqI)

lemma map_of_fold_candidates:
  "map_of (fold (\<lambda>k. AList.update k i) ks m) = (\<lambda>k. if k \<in> set ks then Some i else map_of m k)"
  by (induction ks arbitrary: m) (auto simp: update_conv' fun_eq_iff)

lemma distinct_fold_update: "distinct (map fst m) \<Longrightarrow> distinct (map fst (fold (\<lambda>k. AList.update k i) ks m))"
  by (induction ks arbitrary: m) (simp_all add: distinct_update)

lemma owner_replace:
  "distinct (map fst (peersByIP t)) \<Longrightarrow> owner (replace_candidates i ks t) = with_candidates i (set ks) (owner t)"
  by (auto simp: owner_def replace_candidates_def with_candidates_def map_of_fold_candidates map_of_filter_fst
      fun_eq_iff split: option.splits)

lemma replace_simps [simp]:
  "peers (replace_candidates i ks t) = peers t" "configuredPeer a (replace_candidates i ks t) = configuredPeer a t"
  "configuredAddresses (replace_candidates i ks t) = configuredAddresses t"
  "nextConnID (replace_candidates i ks t) = nextConnID t"
  by (simp_all add: replace_candidates_def configuredPeer_def configuredAddresses_def)

lemma distinct_replace:
  "distinct (map fst (peersByIP t)) \<Longrightarrow> distinct (map fst (peersByIP (replace_candidates i ks t)))"
  by (simp add: replace_candidates_def distinct_fold_update distinct_map_filter)

lemma find_conflict_None:
  "find_conflict i ks t = None \<longleftrightarrow> (\<forall>k\<in>set ks. owner t k = None \<or> owner t k = Some i)"
proof -
  have "find_conflict i ks t = None \<longleftrightarrow> (\<forall>k\<in>set ks. \<forall>j. owner t k = Some j \<longrightarrow> j = i)"
    by (auto simp: find_conflict_def find_None_iff owner_def split: option.splits)
  then show ?thesis
    by (metis not_None_eq option.inject)
qed

text \<open>The directory after a change of candidates, with the peer at one of them.\<close>

lemma directory_candidates:
  assumes d: "directory_ok ps ow cf" and i: "i < length ps" and K: "\<forall>k\<in>K. length k = 4"
    "\<forall>k\<in>K. ow k = None \<or> ow k = Some i" and p: "remoteAddr p = Some key" "key \<in> K" "self p = i"
    "ConfiguredAddr p = ConfiguredAddr (ps ! i)"
  shows "directory_ok (ps[i := p]) (with_candidates i K ow) cf"
proof (rule directory_okI)
  fix k j
  assume "with_candidates i K ow k = Some j"
  then show "length k = 4 \<and> j < length (ps[i := p])"
    using i K(1) directory_okD(1) [OF d, of k j] by (auto simp: with_candidates_def split: if_splits)
next
  fix a j
  show "cf a = Some j \<longleftrightarrow> j < length (ps[i := p]) \<and> a \<noteq> [] \<and> ConfiguredAddr (ps[i := p] ! j) = a"
    using directory_okD(2) [OF d, of a j] i p(4) by (cases "j = i") auto
next
  fix j
  assume j: "j < length (ps[i := p])"
  show "self (ps[i := p] ! j) = j"
    using j i p(3) directory_okD(3) [OF d, of j] by (cases "j = i") auto
  show "\<exists>k. remoteAddr (ps[i := p] ! j) = Some k \<and> with_candidates i K ow k = Some j"
  proof (cases "j = i")
    case False
    with j obtain k where "remoteAddr (ps ! j) = Some k" "ow k = Some j"
      using directory_okD(4) [OF d, of j] by auto
    with False K(2) show ?thesis
      by (intro exI [of _ k]) (auto simp: with_candidates_def)
  qed (use i p(1,2) in \<open>auto simp: with_candidates_def\<close>)
qed

lemma peer_target_ok: "target_ok (peer_target p)"
  by (simp add: target_ok_def peer_target_def class_of_key_def)

definition world_ok :: "table_world \<Rightarrow> bool" where
  "world_ok w \<longleftrightarrow> table_inv (tw_table w) \<and> rt_reach (tw_rt w)"

text \<open>
  The outcome of a successful change of candidates: the peer owns exactly the candidates, is at one
  of them, and changed only if its endpoint was none of them; then its routes are gone.
\<close>

definition candidates_set :: "peer_ref \<Rightarrow> ip list \<Rightarrow> bool \<Rightarrow> table_world \<Rightarrow> table_world \<Rightarrow> bool" where
  "candidates_set i ks switched w w' \<longleftrightarrow>
     (let t = tw_table w; t' = tw_table w'; p = peers t ! i in
      ks \<noteq> [] \<and> (\<forall>k\<in>set ks. owner t k = None \<or> owner t k = Some i) \<and>
      owner t' = with_candidates i (set ks) (owner t) \<and> configured t' = configured t \<and>
      switched = (the (remoteAddr p) \<notin> set ks) \<and>
      peers t' = (if switched then (peers t)[i := p\<lparr>remoteAddr := Some (hd ks), nextReconnect := 0\<rparr>] else peers t) \<and>
      (if switched then
         rt_abs (tw_rt w') = (\<lambda>k. if rk_TargetKey k = tg_RouteTargetKey (peer_target p) then None else rt_abs (tw_rt w) k)
       else tw_rt w' = tw_rt w))"

lemma setConfiguredCandidates_ok:
  assumes w: "world_ok w" and i: "i < length (peers (tw_table w))"
  shows "\<exists>r w'. setConfiguredCandidates E i addrs w = Some (r, w') \<and> world_ok w' \<and> (\<forall>e. r = Inl e \<longrightarrow> w' = w) \<and>
    (\<forall>s. r = Inr s \<longrightarrow> candidates_set i (normalizeIPv4Candidates addrs) s w w' \<and> tw_started w' = tw_started w)"
proof -
  let ?t = "tw_table w" and ?ks = "normalizeIPv4Candidates addrs"
  let ?p = "peers ?t ! i" and ?u = "replace_candidates i ?ks ?t"
  from w have inv: "table_inv ?t" by (simp add: world_ok_def)
  obtain key where key: "remoteAddr ?p = Some key" "owner ?t key = Some i"
    using table_invD(5) [OF inv i] by blast
  have kept: "keeps_endpoint ?p ?ks \<longleftrightarrow> key \<in> set ?ks"
    using key table_invD(1) [OF inv key(2)] by (simp add: keeps_endpoint_def)
  show ?thesis
  proof (cases "ConfiguredAddr ?p = [] \<or> ?ks = [] \<or> configuredPeer (ConfiguredAddr ?p) ?t \<noteq> Some i \<or>
      find_conflict i ?ks ?t \<noteq> None")
    case True
    then have "\<exists>e. setConfiguredCandidates E i addrs w = Some (Inl e, w)"
      by (cases "find_conflict i ?ks ?t") (auto simp: setConfiguredCandidates_def Let_def)
    with w show ?thesis by auto
  next
    case False
    then have clear: "ConfiguredAddr ?p \<noteq> []" "?ks \<noteq> []" "configuredPeer (ConfiguredAddr ?p) ?t = Some i"
      "find_conflict i ?ks ?t = None"
      by blast+
    have free: "\<forall>k\<in>set ?ks. owner ?t k = None \<or> owner ?t k = Some i" and ne: "?ks \<noteq> []"
      using clear(2,4) find_conflict_None by blast+
    have ow: "owner ?u = with_candidates i (set ?ks) (owner ?t)" and di: "distinct (map fst (peersByIP ?u))"
      using inv by (simp_all add: owner_replace distinct_replace table_inv_def)
    have dir: "directory_ok ((peers ?t)[i := q]) (owner ?u) (configured ?t)"
      if "remoteAddr q = Some k" "k \<in> set ?ks" "self q = i" "ConfiguredAddr q = ConfiguredAddr ?p" for q k
      unfolding ow using inv i candidate_length free that
      by (intro directory_candidates) (auto simp: table_inv_def)
    show ?thesis
    proof (cases "key \<in> set ?ks")
      case True
      with dir [of ?p key] key table_invD(4) [OF inv i] di inv have "table_inv ?u"
        by (simp add: table_inv_def)
      moreover have "setConfiguredCandidates E i addrs w = Some (Inr False, w\<lparr>tw_table := ?u\<rparr>)"
        using clear kept True by (simp add: setConfiguredCandidates_def Let_def)
      ultimately show ?thesis
        using w ow True key free ne by (simp add: world_ok_def candidates_set_def)
    next
      case moved: False
      let ?q = "?p\<lparr>remoteAddr := Some (hd ?ks), nextReconnect := 0\<rparr>"
      let ?v = "?u\<lparr>peers := (peers ?t)[i := ?q]\<rparr>"
      from DeleteTarget_ok [OF rt_inv_reach peer_target_ok] w obtain rt evs where
        rt: "DeleteTarget (te_now E) (peer_target ?p) (tw_rt w) = Some (rt, evs)"
          "rt_abs rt = (\<lambda>k. if rk_TargetKey k = tg_RouteTargetKey (peer_target ?p) then None else rt_abs (tw_rt w) k)"
        unfolding world_ok_def by blast
      have v: "owner ?v = owner ?u" "configured ?v = configured ?t" "configuredAddresses ?v = configuredAddresses ?t"
        by (simp_all add: owner_def replace_candidates_def configuredPeer_def configuredAddresses_def)
      have hd: "hd ?ks \<in> set ?ks" "To4 (hd ?ks) = Some (hd ?ks)"
        using ne candidate_length [OF hd_in_set [OF ne]] by simp_all
      have "setConfiguredCandidates E i addrs w =
          Some (Inr True, w\<lparr>tw_table := ?v, tw_rt := rt, tw_notes := tw_notes w @ evs\<rparr>)"
        using clear kept moved rt(1) hd(2) by (simp add: setConfiguredCandidates_def Let_def upd_table_peer_def setRemoteAddr_def)
      moreover have "table_inv ?v"
        using dir [of ?q "hd ?ks"] hd(1) table_invD(4) [OF inv i] di inv unfolding table_inv_def v by simp
      moreover have "rt_reach rt"
        using w reach_step [OF _ step_target [OF peer_target_ok rt(1)]] by (simp add: world_ok_def)
      ultimately show ?thesis
        using v rt(2) ow key moved free ne by (simp add: world_ok_def candidates_set_def)
    qed
  qed
qed

lemma world_dns: "world_ok w \<Longrightarrow> same_directory (tw_table w) (f (tw_table w)) \<Longrightarrow> world_ok (upd_tw_table f w)"
  using inv_same_directory by (auto simp: world_ok_def upd_tw_table_def)

lemma peers_reset [simp]: "peers (tw_table (upd_tw_table (resetDNSBackoff a) w)) = peers (tw_table w)"
  by (simp add: upd_tw_table_def resetDNSBackoff_def)

text \<open>A change of a peer that keeps its identity, name and endpoint.\<close>

definition same_identity :: "TablePeer \<Rightarrow> TablePeer \<Rightarrow> bool" where
  "same_identity p q \<longleftrightarrow> self q = self p \<and> ConfiguredAddr q = ConfiguredAddr p \<and> remoteAddr q = remoteAddr p"

lemma inv_peer_change:
  assumes "table_inv t" "i < length (peers t)" "same_identity (peers t ! i) (f (peers t ! i))"
  shows "table_inv (upd_table_peer i f t)"
proof -
  let ?u = "upd_table_peer i f t"
  have u: "owner ?u = owner t" "configured ?u = configured t" "configuredAddresses ?u = configuredAddresses t"
    "peers ?u = (peers t)[i := f (peers t ! i)]" "nextConnID ?u = nextConnID t" "peersByIP ?u = peersByIP t"
    by (simp_all add: upd_table_peer_def owner_def configuredPeer_def configuredAddresses_def)
  have "directory_ok (peers ?u) (owner t) (configured t)"
    using assms unfolding table_inv_def directory_ok_def same_identity_def u(4)
    by (simp add: nth_list_update)
  with assms(1) show ?thesis unfolding table_inv_def u by simp
qed

lemma wakePeer_ok: "world_ok w \<Longrightarrow> i < length (peers (tw_table w)) \<Longrightarrow> world_ok (wakePeer i w)"
  using inv_peer_change [of "tw_table w" i signalReconnect]
  by (simp add: wakePeer_def world_ok_def upd_tw_table_def same_identity_def signalReconnect_def)

lemma reconnectPeer_ok:
  assumes w: "world_ok w" and i: "i < length (peers (tw_table w))"
  shows "\<exists>w'. reconnectPeer E i w = Some w' \<and> world_ok w'"
proof -
  let ?a = "ConfiguredAddr (peers (tw_table w) ! i)"
  show ?thesis
  proof (cases "\<exists>ips. ?a \<noteq> [] \<and> dnsReady ?a (te_now E) (tw_table w) \<and> te_LookupIP E ?a = Inr ips \<and>
      normalizeIPv4Candidates ips \<noteq> []")
    case True
    then obtain ips where ips: "?a \<noteq> []" "dnsReady ?a (te_now E) (tw_table w)" "te_LookupIP E ?a = Inr ips"
      "normalizeIPv4Candidates ips \<noteq> []" by blast
    obtain r u where u: "setConfiguredCandidates E i (normalizeIPv4Candidates ips) w = Some (r, u)" "world_ok u"
      "\<And>s. r = Inr s \<Longrightarrow> candidates_set i (normalizeIPv4Candidates ips) s w u"
      using setConfiguredCandidates_ok [OF w i, of E "normalizeIPv4Candidates ips"] by auto
    have "length (peers (tw_table u)) = length (peers (tw_table w))" if "r = Inr s" for s
      using u(3) [OF that] by (simp add: candidates_set_def Let_def)
    with ips u w i show ?thesis
      by (cases r) (auto simp: reconnectPeer_def Let_def intro!: world_dns wakePeer_ok)
  next
    case False
    then show ?thesis
      using w by (auto simp: reconnectPeer_def Let_def intro!: world_dns split: sum.splits)
  qed
qed

lemma scan_one_ok:
  assumes w: "world_ok w"
  shows "\<exists>w'. scan_one E l a w = Some w' \<and> world_ok w'"
proof (cases "configuredPeer a (tw_table w)")
  case None
  obtain r t' where t': "ResolveConfiguredPeer E a l (tw_table w) = (r, t')" by fastforce
  with w ResolveConfiguredPeer_ok have "table_inv t'" by (fastforce simp: world_ok_def)
  with None w t' show ?thesis by (cases r) (simp_all add: scan_one_def world_ok_def)
next
  case (Some i)
  moreover have "i < length (peers (tw_table w))"
    using w Some table_invD(3) unfolding world_ok_def by blast
  ultimately show ?thesis
    using w reconnectPeer_ok by (simp add: scan_one_def)
qed

lemma scan_all_ok: "world_ok w \<Longrightarrow> \<exists>w'. scan_all E l as w = Some w' \<and> world_ok w'"
proof (induction as arbitrary: w)
  case (Cons a as)
  then show ?case using scan_one_ok [of w E l a] by fastforce
qed simp

end
