(* ===== verification/LoopProbe.thy ===== *)
theory LoopProbe
  imports Aarp PeerTable
begin

text \<open>
  Investigation of routing loops (\<open>src/router/aurp_loop.go\<close>): when a network learned from a tunnel
  looks like a local one, the router sends probes into the tunnel; a probe that comes back on the
  local port confirms the loop.

  Peers are positions of the peer table and ports are route target keys.  An investigation that runs
  in its own goroutine is a task; each of its turns between two sleeps is a step.
\<close>

section \<open>Probes\<close>

abbreviation loopProbeAttempts :: nat where "loopProbeAttempts \<equiv> 4"

record loopProbeInvestigation =
  lp_key :: string
  lp_token :: "byte list"
  lp_peer :: peer_ref
  lp_port :: string
  lp_remote :: Route
  lp_local :: Route

datatype loop_error =
    LoopOutside network network network
  | LoopExceeds "32 word" network network
  | LoopMarshal atalk_error

definition be64 :: "64 word \<Rightarrow> byte list" where
  "be64 x = map (\<lambda>i. ucast (drop_bit (8 * i) x)) [7, 6, 5, 4, 3, 2, 1, 0]"

text \<open>The clock in nanoseconds and the number that the counter returns.\<close>

definition newLoopProbeToken :: "time \<Rightarrow> 64 word \<Rightarrow> byte list" where
  "newLoopProbeToken now nonce = be64 (word_of_int now) @ be64 nonce"

definition loopProbeDestination :: "ddp_Addr \<Rightarrow> Route \<Rightarrow> Route \<Rightarrow> loop_error + network" where
  "loopProbeDestination localAddr l remote =
     (if ad_Network localAddr < r_NetStart l \<or> ad_Network localAddr > r_NetEnd l
      then Inl (LoopOutside (ad_Network localAddr) (r_NetStart l) (r_NetEnd l))
      else
        let offset = ucast (ad_Network localAddr) - ucast (r_NetStart l) :: 32 word;
            dst = ucast (r_NetStart remote) + offset
        in if dst > ucast (r_NetEnd remote) then Inl (LoopExceeds dst (r_NetStart remote) (r_NetEnd remote))
           else Inr (ucast dst))"

definition buildLoopProbePacket ::
  "byte \<Rightarrow> ddp_Addr \<Rightarrow> Route \<Rightarrow> Route \<Rightarrow> byte list \<Rightarrow> loop_error + ExtPacket" where
  "buildLoopProbePacket protoRTMPReq localAddr l remote token =
     (case loopProbeDestination localAddr l remote of
        Inl e \<Rightarrow> Inl e
      | Inr dstNet \<Rightarrow>
          case rtmp_RequestPacket_Marshal \<lparr>rq_Function = FunctionLoopProbe, rq_Data = token\<rparr> of
            Inl e \<Rightarrow> Inl (LoopMarshal e)
          | Inr body \<Rightarrow>
              Inr \<lparr>dd_Size = word_of_nat (length body) + DDPExtHeaderSize, dd_Cksum = 0,
                   dd_DstNet = dstNet, dd_SrcNet = ad_Network localAddr,
                   dd_DstNode = ad_Node localAddr, dd_SrcNode = ad_Node localAddr,
                   dd_DstSocket = 1, dd_SrcSocket = 1, dd_Proto = protoRTMPReq, dd_Data = body\<rparr>)"


section \<open>The registry\<close>

record loop_task =
  lt_inv :: loopProbeInvestigation
  lt_addr :: ddp_Addr
  lt_attempt :: nat

text \<open>
  The two maps of the router, the counter of the tokens, the tasks that run, the probes that were
  given to a peer, and the peers whose loop was confirmed.
\<close>

record loop_registry =
  loopProbes :: "(byte list \<times> loopProbeInvestigation) list"
  loopProbeByKey :: "(string \<times> byte list) list"
  loopProbeNonce :: "64 word"
  lr_tasks :: "loop_task list"
  lr_sent :: "(peer_ref \<times> ExtPacket) list"
  lr_confirmed :: "peer_ref list"

definition empty_registry :: loop_registry where
  "empty_registry =
     \<lparr>loopProbes = [], loopProbeByKey = [], loopProbeNonce = 0, lr_tasks = [], lr_sent = [], lr_confirmed = []\<rparr>"

definition loop_key :: "string \<Rightarrow> Route \<Rightarrow> string" where
  "loop_key tid remote = tid @ ''|'' @ decimal (unat (r_NetStart remote))"

text \<open>
  \<open>disabled\<close> and \<open>tid\<close> are \<open>LoopDisabled\<close> and \<open>TunnelID\<close> of the peer; \<open>ports\<close> has the AARP machines
  of the ports by route target key.
\<close>

definition startLoopInvestigation ::
  "time \<Rightarrow> (string \<times> AARPMachine) list \<Rightarrow> peer_ref \<Rightarrow> bool \<Rightarrow> string \<Rightarrow> Route \<Rightarrow> Route \<Rightarrow>
   loop_registry \<Rightarrow> loop_registry" where
  "startLoopInvestigation now ports peer disabled tid remote l reg =
     (if disabled \<or> tg_Class (route_target l) \<noteq> TargetClassDirect then reg
      else
        case map_of ports (tg_RouteTargetKey (route_target l)) of
          None \<Rightarrow> reg
        | Some machine \<Rightarrow>
            let (addr, ok) = aarp_Address machine in
            if \<not> ok then reg
            else
              let nonce = loopProbeNonce reg + 1;
                  token = newLoopProbeToken now nonce;
                  key = loop_key tid remote;
                  investigation = \<lparr>lp_key = key, lp_token = token, lp_peer = peer,
                    lp_port = tg_RouteTargetKey (route_target l), lp_remote = remote, lp_local = l\<rparr>;
                  reg1 = reg\<lparr>loopProbeNonce := nonce\<rparr>
              in if map_of (loopProbeByKey reg) key \<noteq> None then reg1
                 else
                   reg1\<lparr>loopProbeByKey := AList.update key token (loopProbeByKey reg),
                        loopProbes := AList.update token investigation (loopProbes reg),
                        lr_tasks := lr_tasks reg @
                          [\<lparr>lt_inv = investigation, lt_addr = pr_Proto addr, lt_attempt = 0\<rparr>]\<rparr>)"

text \<open>A missing key reads as the empty string, which is not a token.\<close>

definition loopInvestigationActive :: "loopProbeInvestigation \<Rightarrow> loop_registry \<Rightarrow> bool" where
  "loopInvestigationActive investigation reg \<longleftrightarrow>
     (case map_of (loopProbeByKey reg) (lp_key investigation) of None \<Rightarrow> [] | Some t \<Rightarrow> t) = lp_token investigation"

definition retireLoopInvestigation :: "loopProbeInvestigation \<Rightarrow> loop_registry \<Rightarrow> loop_registry" where
  "retireLoopInvestigation investigation reg =
     (let tokenKey = lp_token investigation;
          reg1 = (if loopInvestigationActive investigation reg
                  then reg\<lparr>loopProbeByKey := AList.delete (lp_key investigation) (loopProbeByKey reg)\<rparr> else reg)
      in reg1\<lparr>loopProbes := AList.delete tokenKey (loopProbes reg)\<rparr>)"

definition remove_task :: "nat \<Rightarrow> loop_registry \<Rightarrow> loop_registry" where
  "remove_task i reg = reg\<lparr>lr_tasks := take i (lr_tasks reg) @ drop (Suc i) (lr_tasks reg)\<rparr>"

text \<open>
  One turn of \<open>runLoopInvestigation\<close> for the \<open>i\<close>-th task; whether \<open>Forward\<close> of the peer fails makes
  no difference.
\<close>

definition task_turn :: "byte \<Rightarrow> nat \<Rightarrow> loop_registry \<Rightarrow> loop_registry" where
  "task_turn protoRTMPReq i reg =
     (let t = lr_tasks reg ! i; investigation = lt_inv t in
      if \<not> loopInvestigationActive investigation reg then remove_task i reg
      else if lt_attempt t < loopProbeAttempts then
        case buildLoopProbePacket protoRTMPReq (lt_addr t) (lp_local investigation) (lp_remote investigation)
               (lp_token investigation) of
          Inl e \<Rightarrow> reg\<lparr>lr_tasks := (lr_tasks reg)[i := t\<lparr>lt_attempt := loopProbeAttempts\<rparr>]\<rparr>
        | Inr pkt \<Rightarrow>
            reg\<lparr>lr_tasks := (lr_tasks reg)[i := t\<lparr>lt_attempt := lt_attempt t + 1\<rparr>],
                lr_sent := lr_sent reg @ [(lp_peer investigation, pkt)]\<rparr>
      else remove_task i (retireLoopInvestigation investigation reg))"

definition handleLoopProbeReturn :: "string \<Rightarrow> byte list \<Rightarrow> loop_registry \<Rightarrow> bool \<times> loop_registry" where
  "handleLoopProbeReturn port token reg =
     (if length token = 0 then (False, reg)
      else
        case map_of (loopProbes reg) token of
          None \<Rightarrow> (False, reg)
        | Some investigation \<Rightarrow>
            if lp_port investigation \<noteq> port then (False, reg)
            else
              (True, reg\<lparr>loopProbes := AList.delete token (loopProbes reg),
                         loopProbeByKey := AList.delete (lp_key investigation) (loopProbeByKey reg),
                         lr_confirmed := lr_confirmed reg @ [lp_peer investigation]\<rparr>))"


section \<open>Reachable registries\<close>

text \<open>The number counts the investigations asked for, which bounds the counter of the tokens.\<close>

inductive loop_reach :: "nat \<Rightarrow> loop_registry \<Rightarrow> bool" where
  loop_none: "loop_reach 0 empty_registry"
| loop_start:
    "loop_reach n reg \<Longrightarrow> loop_reach (Suc n) (startLoopInvestigation now ports peer disabled tid remote l reg)"
| loop_turn: "loop_reach n reg \<Longrightarrow> i < length (lr_tasks reg) \<Longrightarrow> loop_reach n (task_turn proto i reg)"
| loop_return: "loop_reach n reg \<Longrightarrow> handleLoopProbeReturn port token reg = (b, reg') \<Longrightarrow> loop_reach n reg'"

text \<open>A token is made by one of the first \<open>n\<close> investigations.\<close>

definition token_of :: "nat \<Rightarrow> byte list \<Rightarrow> bool" where
  "token_of k token \<longleftrightarrow> (\<exists>now. token = newLoopProbeToken now (word_of_nat k))"

text \<open>
  The tasks have different tokens; both maps are about the same investigations, and each of those
  has a task.
\<close>

definition tokens_ok :: "nat \<Rightarrow> loopProbeInvestigation set \<Rightarrow> bool" where
  "tokens_ok m vs \<longleftrightarrow> (\<forall>v \<in> vs. \<exists>k. 0 < k \<and> k \<le> m \<and> token_of k (lp_token v))"

definition tasks_ok :: "nat \<Rightarrow> loop_registry \<Rightarrow> bool" where
  "tasks_ok n reg \<longleftrightarrow>
     (\<exists>m \<le> n. loopProbeNonce reg = word_of_nat m \<and> tokens_ok m (lt_inv ` set (lr_tasks reg))) \<and>
     distinct (map (\<lambda>x. lp_token (lt_inv x)) (lr_tasks reg)) \<and>
     (\<forall>x \<in> set (lr_tasks reg). lt_attempt x \<le> loopProbeAttempts)"

definition maps_ok :: "loop_registry \<Rightarrow> bool" where
  "maps_ok reg \<longleftrightarrow>
     (\<forall>t v. map_of (loopProbes reg) t = Some v \<longrightarrow>
        lp_token v = t \<and> map_of (loopProbeByKey reg) (lp_key v) = Some t) \<and>
     (\<forall>k t. map_of (loopProbeByKey reg) k = Some t \<longrightarrow>
        (\<exists>v. map_of (loopProbes reg) t = Some v \<and> lp_key v = k))"

definition all_running :: "loop_registry \<Rightarrow> bool" where
  "all_running reg \<longleftrightarrow>
     (\<forall>t v. map_of (loopProbes reg) t = Some v \<longrightarrow> v \<in> lt_inv ` set (lr_tasks reg))"

lemma be64_eq_iff [simp]: "be64 x = be64 y \<longleftrightarrow> x = y"
proof
  assume eq: "be64 x = be64 y"
  show "x = y"
  proof (rule bit_word_eqI)
    fix n :: nat
    assume "n < LENGTH(64)"
    then have "n div 8 \<in> {7, 6, 5, 4, 3, 2, 1, 0}" by simp arith
    then have "(ucast (drop_bit (8 * (n div 8)) x) :: byte) = ucast (drop_bit (8 * (n div 8)) y)"
      using eq by (auto simp: be64_def)
    then have "bit (ucast (drop_bit (8 * (n div 8)) x) :: byte) (n mod 8) =
        bit (ucast (drop_bit (8 * (n div 8)) y) :: byte) (n mod 8)" by simp
    then show "bit x n = bit y n" by (simp add: bit_simps)
  qed
qed simp

lemma token_unique:
  assumes "token_of j t" "token_of k t" "j < 2 ^ 64" "k < 2 ^ 64"
  shows "j = k"
proof -
  have "length (be64 x) = 8" for x by (simp add: be64_def)
  then have "(word_of_nat j :: 64 word) = word_of_nat k"
    using assms(1,2) by (auto simp: token_of_def newLoopProbeToken_def)
  then have "unat (word_of_nat j :: 64 word) = unat (word_of_nat k :: 64 word)" by simp
  then show ?thesis using assms(3,4) by (simp add: unat_of_nat take_bit_nat_eq_self)
qed

lemma maps_okD:
  assumes "maps_ok reg"
  shows "map_of (loopProbes reg) t = Some v \<Longrightarrow> lp_token v = t"
    "map_of (loopProbes reg) t = Some v \<Longrightarrow> map_of (loopProbeByKey reg) (lp_key v) = Some t"
    "map_of (loopProbeByKey reg) k = Some t \<Longrightarrow> \<exists>v. map_of (loopProbes reg) t = Some v \<and> lp_key v = k"
  using assms unfolding maps_ok_def by blast+

lemma maps_ok_insert:
  assumes ok: "maps_ok reg" and new: "map_of (loopProbeByKey reg) (lp_key v) = None"
    "map_of (loopProbes reg) (lp_token v) = None"
    and p: "map_of (loopProbes reg') = (map_of (loopProbes reg))(lp_token v \<mapsto> v)"
    and q: "map_of (loopProbeByKey reg') = (map_of (loopProbeByKey reg))(lp_key v \<mapsto> lp_token v)"
  shows "maps_ok reg'"
  unfolding maps_ok_def p q
proof (intro conjI allI impI)
  fix t i
  assume "((map_of (loopProbes reg))(lp_token v \<mapsto> v)) t = Some i"
  then show "lp_token i = t" "((map_of (loopProbeByKey reg))(lp_key v \<mapsto> lp_token v)) (lp_key i) = Some t"
    using maps_okD(1,2) [OF ok, of t i] new by (auto split: if_splits)
next
  fix k t
  assume a: "((map_of (loopProbeByKey reg))(lp_key v \<mapsto> lp_token v)) k = Some t"
  show "\<exists>i. ((map_of (loopProbes reg))(lp_token v \<mapsto> v)) t = Some i \<and> lp_key i = k"
  proof (cases "k = lp_key v")
    case True
    with a show ?thesis by auto
  next
    case False
    with a obtain i where "map_of (loopProbes reg) t = Some i" "lp_key i = k"
      using maps_okD(3) [OF ok, of k t] by auto
    then show ?thesis using new(2) by (cases "t = lp_token v") auto
  qed
qed

lemma maps_ok_remove:
  assumes ok: "maps_ok reg" and v: "map_of (loopProbes reg) (lp_token v) = Some v"
    and p: "map_of (loopProbes reg') = (map_of (loopProbes reg))(lp_token v := None)"
    and q: "map_of (loopProbeByKey reg') = (map_of (loopProbeByKey reg))(lp_key v := None)"
  shows "maps_ok reg'"
  unfolding maps_ok_def p q
proof (intro conjI allI impI)
  fix t i
  assume "((map_of (loopProbes reg))(lp_token v := None)) t = Some i"
  then show "lp_token i = t" "((map_of (loopProbeByKey reg))(lp_key v := None)) (lp_key i) = Some t"
    using maps_okD(1,2) [OF ok, of t i] maps_okD(2) [OF ok v] by (auto split: if_splits)
next
  fix k t
  assume a: "((map_of (loopProbeByKey reg))(lp_key v := None)) k = Some t"
  then obtain i where "map_of (loopProbes reg) t = Some i" "lp_key i = k" "k \<noteq> lp_key v"
    using maps_okD(3) [OF ok, of k t] by (auto split: if_splits)
  then show "\<exists>i. ((map_of (loopProbes reg))(lp_token v := None)) t = Some i \<and> lp_key i = k"
    using v by (cases "t = lp_token v") auto
qed

definition loop_inv :: "nat \<Rightarrow> loop_registry \<Rightarrow> bool" where
  "loop_inv n reg \<longleftrightarrow> tasks_ok n reg \<and> maps_ok reg \<and> all_running reg"

text \<open>A registered investigation is active, and an active one is registered under its token.\<close>

lemma registered_active:
  "maps_ok reg \<Longrightarrow> map_of (loopProbes reg) t = Some v \<Longrightarrow> loopInvestigationActive v reg"
  using maps_okD(1,2) [of reg t v] by (simp add: loopInvestigationActive_def)

lemma active_registered:
  assumes ok: "maps_ok reg" and act: "loopInvestigationActive v reg" "lp_token v \<noteq> []"
  obtains u where "map_of (loopProbes reg) (lp_token v) = Some u" "lp_key u = lp_key v"
proof -
  have "map_of (loopProbeByKey reg) (lp_key v) = Some (lp_token v)"
    using act by (auto simp: loopInvestigationActive_def split: option.splits)
  from maps_okD(3) [OF ok this] show ?thesis using that by blast
qed

lemma all_runningI:
  "(\<And>t v. map_of (loopProbes reg) t = Some v \<Longrightarrow> \<exists>x \<in> set (lr_tasks reg). lt_inv x = v) \<Longrightarrow> all_running reg"
  unfolding all_running_def by (simp add: image_iff) metis

lemma all_runningD:
  assumes "all_running reg" "map_of (loopProbes reg) t = Some v"
  obtains x where "x \<in> set (lr_tasks reg)" "lt_inv x = v"
  using assms unfolding all_running_def by blast

lemma remove_nth:
  assumes "i < length xs"
  shows "set (take i xs @ drop (Suc i) xs) \<subseteq> set xs"
    "distinct (map f xs) \<Longrightarrow> distinct (map f (take i xs @ drop (Suc i) xs))"
    "x \<in> set xs \<Longrightarrow> x \<noteq> xs ! i \<Longrightarrow> x \<in> set (take i xs @ drop (Suc i) xs)"
proof -
  have xs: "xs = take i xs @ xs ! i # drop (Suc i) xs" using assms by (rule id_take_nth_drop)
  have "set xs = set (take i xs @ xs ! i # drop (Suc i) xs)"
    "map f xs = map f (take i xs @ xs ! i # drop (Suc i) xs)"
    using xs by (rule arg_cong)+
  then show "set (take i xs @ drop (Suc i) xs) \<subseteq> set xs"
    "distinct (map f xs) \<Longrightarrow> distinct (map f (take i xs @ drop (Suc i) xs))"
    "x \<in> set xs \<Longrightarrow> x \<noteq> xs ! i \<Longrightarrow> x \<in> set (take i xs @ drop (Suc i) xs)"
    by auto
qed

lemma tasks_ok_mono:
  assumes ok: "tasks_ok n reg" and nonce: "loopProbeNonce reg' = loopProbeNonce reg"
    and sub: "lt_inv ` set (lr_tasks reg') \<subseteq> lt_inv ` set (lr_tasks reg)"
    and "distinct (map (\<lambda>x. lp_token (lt_inv x)) (lr_tasks reg'))"
    and "\<forall>x \<in> set (lr_tasks reg'). lt_attempt x \<le> loopProbeAttempts"
  shows "tasks_ok n reg'"
proof -
  have "tokens_ok m (lt_inv ` set (lr_tasks reg')) " if "tokens_ok m (lt_inv ` set (lr_tasks reg))" for m
    using that sub unfolding tokens_ok_def by blast
  then show ?thesis using assms unfolding tasks_ok_def nonce by blast
qed

lemma tasks_ok_remove:
  assumes ok: "tasks_ok n reg" and i: "i < length (lr_tasks reg)"
    and "loopProbeNonce reg' = loopProbeNonce reg"
    and t: "lr_tasks reg' = take i (lr_tasks reg) @ drop (Suc i) (lr_tasks reg)"
  shows "tasks_ok n reg'"
proof (rule tasks_ok_mono [OF ok assms(3)])
  have sub: "set (lr_tasks reg') \<subseteq> set (lr_tasks reg)" unfolding t by (rule remove_nth(1) [OF i])
  then show "lt_inv ` set (lr_tasks reg') \<subseteq> lt_inv ` set (lr_tasks reg)" by (rule image_mono)
  show "distinct (map (\<lambda>x. lp_token (lt_inv x)) (lr_tasks reg'))"
    unfolding t by (rule remove_nth(2) [OF i]) (use ok in \<open>simp add: tasks_ok_def\<close>)
  show "\<forall>x \<in> set (lr_tasks reg'). lt_attempt x \<le> loopProbeAttempts"
    using ok sub unfolding tasks_ok_def by blast
qed

lemma tasks_ok_update:
  assumes ok: "tasks_ok n reg" and i: "i < length (lr_tasks reg)"
    and n: "loopProbeNonce reg' = loopProbeNonce reg"
    and t: "lr_tasks reg' = (lr_tasks reg)[i := y]" "lt_inv y = lt_inv (lr_tasks reg ! i)" "lt_attempt y \<le> loopProbeAttempts"
  shows "tasks_ok n reg'"
proof (rule tasks_ok_mono [OF ok n])
  have sub: "set (lr_tasks reg') \<subseteq> insert y (set (lr_tasks reg))" unfolding t by (rule set_update_subset_insert)
  have y: "lt_inv y \<in> lt_inv ` set (lr_tasks reg)" using t(2) nth_mem [OF i] by simp
  show "lt_inv ` set (lr_tasks reg') \<subseteq> lt_inv ` set (lr_tasks reg)" using sub y by blast
  have "map (\<lambda>x. lp_token (lt_inv x)) (lr_tasks reg') = map (\<lambda>x. lp_token (lt_inv x)) (lr_tasks reg)"
    using i t by (simp add: map_update list_update_same_conv)
  then show "distinct (map (\<lambda>x. lp_token (lt_inv x)) (lr_tasks reg'))" using ok by (simp add: tasks_ok_def)
  show "\<forall>x \<in> set (lr_tasks reg'). lt_attempt x \<le> loopProbeAttempts"
    using ok sub t(3) unfolding tasks_ok_def by blast
qed

lemma task_token:
  assumes "tasks_ok n reg" "x \<in> set (lr_tasks reg)"
  shows "lp_token (lt_inv x) \<noteq> []"
  using assms by (auto simp: tasks_ok_def tokens_ok_def token_of_def newLoopProbeToken_def be64_def)

text \<open>Two tasks with the same token are the same.\<close>

lemma task_unique:
  assumes "tasks_ok n reg" "x \<in> set (lr_tasks reg)" "y \<in> set (lr_tasks reg)"
    "lp_token (lt_inv x) = lp_token (lt_inv y)"
  shows "x = y"
  using assms by (auto simp: tasks_ok_def distinct_map inj_on_def)

lemma tasks_ok_add:
  assumes ok: "tasks_ok n reg" and n: "Suc n < 2 ^ 64"
    and nonce: "loopProbeNonce reg' = loopProbeNonce reg + 1"
    and t: "lr_tasks reg' = lr_tasks reg @ [\<lparr>lt_inv = v, lt_addr = addr, lt_attempt = 0\<rparr>]"
    and v: "lp_token v = newLoopProbeToken now (loopProbeNonce reg + 1)"
  shows "tasks_ok (Suc n) reg'" "\<forall>x \<in> set (lr_tasks reg). lp_token (lt_inv x) \<noteq> lp_token v"
proof -
  obtain m where m: "m \<le> n" "loopProbeNonce reg = word_of_nat m" "tokens_ok m (lt_inv ` set (lr_tasks reg))"
    using ok unfolding tasks_ok_def by blast
  have new: "token_of (Suc m) (lp_token v)" using v m(2) by (auto simp: token_of_def add.commute)
  show fresh: "\<forall>x \<in> set (lr_tasks reg). lp_token (lt_inv x) \<noteq> lp_token v"
  proof
    fix x
    assume "x \<in> set (lr_tasks reg)"
    then obtain k where k: "k \<le> m" "token_of k (lp_token (lt_inv x))" using m(3) by (auto simp: tokens_ok_def)
    show "lp_token (lt_inv x) \<noteq> lp_token v"
    proof
      assume "lp_token (lt_inv x) = lp_token v"
      then have "k = Suc m" using token_unique [OF k(2), of "Suc m"] new k(1) m(1) n by simp
      with k(1) show False by simp
    qed
  qed
  have "tokens_ok (Suc m) (lt_inv ` set (lr_tasks reg'))"
    using m(3) new unfolding t by (auto simp: tokens_ok_def) (meson le_Suc_eq)
  moreover have "loopProbeNonce reg' = word_of_nat (Suc m)" using nonce m(2) by (simp add: add.commute)
  ultimately show "tasks_ok (Suc n) reg'"
    using ok m(1) fresh unfolding tasks_ok_def t by (intro conjI exI [of _ "Suc m"]) auto
qed

definition registered :: "loopProbeInvestigation \<Rightarrow> ddp_Addr \<Rightarrow> loop_registry \<Rightarrow> loop_registry" where
  "registered v addr reg =
     reg\<lparr>loopProbeByKey := AList.update (lp_key v) (lp_token v) (loopProbeByKey reg),
         loopProbes := AList.update (lp_token v) v (loopProbes reg),
         lr_tasks := lr_tasks reg @ [\<lparr>lt_inv = v, lt_addr = addr, lt_attempt = 0\<rparr>]\<rparr>"

lemma start_cases:
  obtains (none) "startLoopInvestigation now ports peer disabled tid remote l reg = reg"
  | (known) "startLoopInvestigation now ports peer disabled tid remote l reg = reg\<lparr>loopProbeNonce := loopProbeNonce reg + 1\<rparr>"
  | (new) v addr where "map_of (loopProbeByKey reg) (lp_key v) = None"
      "lp_token v = newLoopProbeToken now (loopProbeNonce reg + 1)" "lp_key v = loop_key tid remote"
      "lp_peer v = peer" "lp_port v = tg_RouteTargetKey (route_target l)"
      "startLoopInvestigation now ports peer disabled tid remote l reg =
         registered v addr (reg\<lparr>loopProbeNonce := loopProbeNonce reg + 1\<rparr>)"
proof -
  let ?r = "startLoopInvestigation now ports peer disabled tid remote l reg"
  let ?v = "\<lparr>lp_key = loop_key tid remote, lp_token = newLoopProbeToken now (loopProbeNonce reg + 1), lp_peer = peer,
     lp_port = tg_RouteTargetKey (route_target l), lp_remote = remote, lp_local = l\<rparr>"
  have "?r = reg \<or> ?r = reg\<lparr>loopProbeNonce := loopProbeNonce reg + 1\<rparr> \<or>
      (\<exists>addr. map_of (loopProbeByKey reg) (loop_key tid remote) = None \<and>
         ?r = registered ?v addr (reg\<lparr>loopProbeNonce := loopProbeNonce reg + 1\<rparr>))"
    by (simp add: startLoopInvestigation_def registered_def Let_def split: option.split prod.split) blast
  then show thesis using none known new [of ?v] by auto
qed

lemma tasks_ok_nonce:
  assumes "tasks_ok n reg"
  shows "tasks_ok (Suc n) reg" "tasks_ok (Suc n) (reg\<lparr>loopProbeNonce := loopProbeNonce reg + 1\<rparr>)"
proof -
  obtain m where m: "m \<le> n" "loopProbeNonce reg = word_of_nat m" "tokens_ok m (lt_inv ` set (lr_tasks reg))"
    using assms unfolding tasks_ok_def by blast
  have "tokens_ok (Suc m) (lt_inv ` set (lr_tasks reg))" using m(3) unfolding tokens_ok_def by (meson le_SucI)
  with m assms show "tasks_ok (Suc n) (reg\<lparr>loopProbeNonce := loopProbeNonce reg + 1\<rparr>)"
    unfolding tasks_ok_def by (intro conjI exI [of _ "Suc m"]) (auto simp: add.commute)
  show "tasks_ok (Suc n) reg" using m assms unfolding tasks_ok_def by (meson le_SucI)
qed

lemma same_maps:
  "loopProbes reg' = loopProbes reg \<Longrightarrow> loopProbeByKey reg' = loopProbeByKey reg \<Longrightarrow> maps_ok reg' = maps_ok reg"
  by (simp add: maps_ok_def)

lemma start_inv_loop:
  assumes ok: "loop_inv n reg" and n: "Suc n < 2 ^ 64"
  shows "loop_inv (Suc n) (startLoopInvestigation now ports peer disabled tid remote l reg)"
proof -
  have t: "tasks_ok n reg" and m: "maps_ok reg" and r: "all_running reg" using ok by (auto simp: loop_inv_def)
  show ?thesis
  proof (cases rule: start_cases [of now ports peer disabled tid remote l reg])
    case none
    with t m r show ?thesis by (simp add: loop_inv_def tasks_ok_nonce)
  next
    case known
    have "maps_ok (reg\<lparr>loopProbeNonce := loopProbeNonce reg + 1\<rparr>)"
      "all_running (reg\<lparr>loopProbeNonce := loopProbeNonce reg + 1\<rparr>)"
      using m r by (simp_all add: maps_ok_def all_running_def)
    with known t show ?thesis by (simp add: loop_inv_def tasks_ok_nonce)
  next
    case (new v addr)
    let ?r = "registered v addr (reg\<lparr>loopProbeNonce := loopProbeNonce reg + 1\<rparr>)"
    have fields: "loopProbeNonce ?r = loopProbeNonce reg + 1"
      "lr_tasks ?r = lr_tasks reg @ [\<lparr>lt_inv = v, lt_addr = addr, lt_attempt = 0\<rparr>]"
      "map_of (loopProbes ?r) = (map_of (loopProbes reg))(lp_token v \<mapsto> v)"
      "map_of (loopProbeByKey ?r) = (map_of (loopProbeByKey reg))(lp_key v \<mapsto> lp_token v)"
      by (simp_all add: registered_def update_conv')
    note add = tasks_ok_add [OF t n fields(1,2) new(2)]
    have "map_of (loopProbes reg) (lp_token v) = None"
    proof (rule ccontr)
      assume "map_of (loopProbes reg) (lp_token v) \<noteq> None"
      then obtain u where u: "map_of (loopProbes reg) (lp_token v) = Some u" by blast
      obtain x where "x \<in> set (lr_tasks reg)" "lt_inv x = u" using r u by (rule all_runningD)
      then show False using add(2) maps_okD(1) [OF m u] by auto
    qed
    then have "maps_ok ?r" using maps_ok_insert [OF m new(1) _ fields(3,4)] by blast
    moreover have "all_running ?r"
    proof (rule all_runningI)
      fix t u
      assume "map_of (loopProbes ?r) t = Some u"
      then show "\<exists>x\<in>set (lr_tasks ?r). lt_inv x = u"
        unfolding fields(2,3) using all_runningD [OF r, of t u] by (fastforce split: if_splits)
    qed
    ultimately show ?thesis using add(1) new(6) by (simp add: loop_inv_def)
  qed
qed

lemma turn_inv_loop:
  assumes ok: "loop_inv n reg" and i: "i < length (lr_tasks reg)"
  shows "loop_inv n (task_turn proto i reg)"
proof -
  have t: "tasks_ok n reg" and m: "maps_ok reg" and r: "all_running reg" using ok by (auto simp: loop_inv_def)
  let ?x = "lr_tasks reg ! i" and ?v = "lt_inv (lr_tasks reg ! i)"
  have x: "?x \<in> set (lr_tasks reg)" using i by simp
  have other: "\<exists>y \<in> set (take i (lr_tasks reg) @ drop (Suc i) (lr_tasks reg)). lt_inv y = u"
    if u: "map_of (loopProbes reg) k = Some u" and ne: "u \<noteq> ?v" for k u
  proof -
    obtain y where y: "y \<in> set (lr_tasks reg)" "lt_inv y = u" using r u by (rule all_runningD)
    with ne have "y \<noteq> ?x" by auto
    with y show ?thesis using remove_nth(3) [OF i] by blast
  qed
  show ?thesis
  proof (cases "loopInvestigationActive ?v reg")
    case False
    then have ne: "u \<noteq> ?v" if "map_of (loopProbes reg) k = Some u" for k u
      using registered_active [OF m that] by auto
    have "tasks_ok n (remove_task i reg)"
      by (rule tasks_ok_remove [OF t i]) (simp_all add: remove_task_def)
    moreover have "all_running (remove_task i reg)"
      by (rule all_runningI) (use other ne in \<open>simp add: remove_task_def\<close>)
    moreover have "maps_ok (remove_task i reg)" using m by (simp add: maps_ok_def remove_task_def)
    ultimately show ?thesis using False by (simp add: loop_inv_def task_turn_def Let_def)
  next
    case act: True
    show ?thesis
    proof (cases "lt_attempt ?x < loopProbeAttempts")
      case True
      define reg' where "reg' = task_turn proto i reg"
      obtain y where y: "lr_tasks reg' = (lr_tasks reg)[i := y]" "lt_inv y = ?v" "lt_attempt y \<le> loopProbeAttempts"
      proof (cases "buildLoopProbePacket proto (lt_addr ?x) (lp_local ?v) (lp_remote ?v) (lp_token ?v)")
        case (Inl e)
        with True act show ?thesis
          by (intro that [of "?x\<lparr>lt_attempt := loopProbeAttempts\<rparr>"]) (simp_all add: reg'_def task_turn_def Let_def)
      next
        case (Inr pkt)
        with True act show ?thesis
          by (intro that [of "?x\<lparr>lt_attempt := lt_attempt ?x + 1\<rparr>"]) (simp_all add: reg'_def task_turn_def Let_def)
      qed
      have same: "loopProbes reg' = loopProbes reg" "loopProbeByKey reg' = loopProbeByKey reg"
        "loopProbeNonce reg' = loopProbeNonce reg"
        using True act by (auto simp: reg'_def task_turn_def Let_def split: sum.splits)
      have "lt_inv ` set (lr_tasks reg) = lt_inv ` set (lr_tasks reg')"
      proof -
        have "map lt_inv (lr_tasks reg') = map lt_inv (lr_tasks reg)"
          using i y by (simp add: map_update list_update_same_conv)
        then show ?thesis by (metis set_map)
      qed
      then have "all_running reg'" using r same(1) by (simp add: all_running_def)
      moreover have "tasks_ok n reg'" by (rule tasks_ok_update [OF t i same(3) y])
      ultimately have "loop_inv n reg'" using m same_maps [OF same(1,2)] by (simp add: loop_inv_def)
      then show ?thesis by (simp add: reg'_def)
    next
      case False
      define reg' where "reg' = task_turn proto i reg"
      have f: "loopProbes reg' = AList.delete (lp_token ?v) (loopProbes reg)"
        "loopProbeByKey reg' = AList.delete (lp_key ?v) (loopProbeByKey reg)"
        "lr_tasks reg' = take i (lr_tasks reg) @ drop (Suc i) (lr_tasks reg)" "loopProbeNonce reg' = loopProbeNonce reg"
        using False act by (simp_all add: reg'_def task_turn_def Let_def retireLoopInvestigation_def remove_task_def)
      obtain u where u: "map_of (loopProbes reg) (lp_token ?v) = Some u" "lp_key u = lp_key ?v"
        using active_registered [OF m act task_token [OF t x]] by blast
      have uv: "lp_token u = lp_token ?v" using maps_okD(1) [OF m u(1)] .
      have "maps_ok reg'"
        by (rule maps_ok_remove [OF m, of u]) (use u uv f in \<open>simp_all add: delete_conv'\<close>)
      moreover have "all_running reg'"
      proof (rule all_runningI)
        fix k w
        assume "map_of (loopProbes reg') k = Some w"
        then have w: "map_of (loopProbes reg) k = Some w" "k \<noteq> lp_token ?v"
          by (auto simp: f(1) delete_conv' split: if_splits)
        then have "w \<noteq> ?v" using maps_okD(1) [OF m w(1)] by auto
        with other [OF w(1)] show "\<exists>y\<in>set (lr_tasks reg'). lt_inv y = w" by (simp add: f(3))
      qed
      moreover have "tasks_ok n reg'" by (rule tasks_ok_remove [OF t i f(4,3)])
      ultimately show ?thesis by (simp add: loop_inv_def reg'_def)
    qed
  qed
qed

lemma return_inv_loop:
  assumes ok: "loop_inv n reg" and ret: "handleLoopProbeReturn port token reg = (b, reg')"
  shows "loop_inv n reg'"
proof (cases "b")
  case False
  then have "reg' = reg" using ret by (auto simp: handleLoopProbeReturn_def split: if_splits option.splits)
  with ok show ?thesis by simp
next
  case True
  have t: "tasks_ok n reg" and m: "maps_ok reg" and r: "all_running reg" using ok by (auto simp: loop_inv_def)
  from True ret obtain v where v: "map_of (loopProbes reg) token = Some v" "lp_port v = port"
    and f: "loopProbes reg' = AList.delete token (loopProbes reg)"
    "loopProbeByKey reg' = AList.delete (lp_key v) (loopProbeByKey reg)" "lr_tasks reg' = lr_tasks reg"
    "loopProbeNonce reg' = loopProbeNonce reg"
    by (auto simp: handleLoopProbeReturn_def split: if_splits option.splits)
  have k: "lp_token v = token" using maps_okD(1) [OF m v(1)] .
  have "maps_ok reg'" by (rule maps_ok_remove [OF m]) (use v k f in \<open>simp_all add: delete_conv'\<close>)
  moreover have "all_running reg'"
    using r unfolding all_running_def f by (simp add: delete_conv')
  moreover have "tasks_ok n reg'" using t f by (simp add: tasks_ok_def)
  ultimately show ?thesis by (simp add: loop_inv_def)
qed

lemma loop_inv_reach:
  "loop_reach n reg \<Longrightarrow> n < 2 ^ 64 \<Longrightarrow> loop_inv n reg"
proof (induction rule: loop_reach.induct)
  case loop_none
  show ?case by (auto simp: loop_inv_def tasks_ok_def tokens_ok_def maps_ok_def all_running_def empty_registry_def)
next
  case (loop_start n reg)
  then show ?case using start_inv_loop by simp
next
  case (loop_turn n reg i)
  then show ?case using turn_inv_loop by simp
next
  case (loop_return n reg port token b reg')
  then show ?case using return_inv_loop by blast
qed


section \<open>Properties\<close>

text \<open>
  C29: A loop probe goes to the node with the same place in the remote range as the router has in the
  local one, without wrapping, and carries the token: when it comes back, the request parser returns
  a loop probe with exactly that token.
\<close>

theorem loop_probe_wellformed:
  assumes "buildLoopProbePacket proto addr l remote token = Inr pkt"
  shows "r_NetStart remote \<le> dd_DstNet pkt \<and> dd_DstNet pkt \<le> r_NetEnd remote \<and>
    unat (dd_DstNet pkt) - unat (r_NetStart remote) = unat (ad_Network addr) - unat (r_NetStart l) \<and>
    dd_DstNode pkt = ad_Node addr \<and>
    rtmp_UnmarshalRequestPacket (dd_Data pkt) = Inr \<lparr>rq_Function = FunctionLoopProbe, rq_Data = token\<rparr>"
proof -
  obtain d where d: "loopProbeDestination addr l remote = Inr d" "dd_DstNet pkt = d" "dd_DstNode pkt = ad_Node addr"
    "dd_Data pkt = [FunctionLoopProbe, 0, 0, 0, 0] @ token"
    using assms by (auto simp: buildLoopProbePacket_def rtmp_RequestPacket_Marshal_def split: sum.splits if_splits)
  let ?u = "\<lambda>x :: u16. ucast x :: 32 word"
  have lo: "r_NetStart l \<le> ad_Network addr" and hi: "\<not> ?u (r_NetStart remote) + (?u (ad_Network addr) - ?u (r_NetStart l)) > ?u (r_NetEnd remote)"
    and deq: "d = ucast (?u (r_NetStart remote) + (?u (ad_Network addr) - ?u (r_NetStart l)))"
    using d(1) by (auto simp: loopProbeDestination_def Let_def split: if_splits)
  have b: "unat (r_NetStart remote) < 65536" "unat (ad_Network addr) < 65536" "unat (r_NetEnd remote) < 65536"
    "unat (r_NetStart l) \<le> unat (ad_Network addr)"
    using unsigned_less [of "r_NetStart remote"] unsigned_less [of "ad_Network addr"] unsigned_less [of "r_NetEnd remote"] lo
    by (simp_all add: word_le_nat_alt)
  have uu: "unat (?u x) = unat x" for x :: u16
    using unat_u16_less [of x] by (simp add: unsigned_ucast_eq take_bit_nat_eq_self)
  have "?u (r_NetStart l) \<le> ?u (ad_Network addr)" using b(4) by (simp add: word_le_nat_alt uu)
  then have "unat (?u (ad_Network addr) - ?u (r_NetStart l)) = unat (ad_Network addr) - unat (r_NetStart l)"
    by (simp add: unat_sub uu)
  then have s: "unat (?u (r_NetStart remote) + (?u (ad_Network addr) - ?u (r_NetStart l))) =
      unat (r_NetStart remote) + (unat (ad_Network addr) - unat (r_NetStart l))"
    using b by (simp add: unat_word_ariths uu)
  then have "unat (r_NetStart remote) + (unat (ad_Network addr) - unat (r_NetStart l)) \<le> unat (r_NetEnd remote)"
    using hi by (simp add: word_less_nat_alt uu)
  moreover from this have "unat d = unat (r_NetStart remote) + (unat (ad_Network addr) - unat (r_NetStart l))"
    using b s by (simp add: deq unsigned_ucast_eq take_bit_nat_eq_self)
  ultimately show ?thesis
    using d by (simp add: word_le_nat_alt rtmp_UnmarshalRequestPacket_def go_index_def go_from_def)
qed

definition sample_range :: "network \<Rightarrow> network \<Rightarrow> Route" where
  "sample_range s e =
     zero_Route\<lparr>r_RouteKey := \<lparr>rk_TargetKey = ''EtherTalkPort|eth0'', rk_NetStart = s\<rparr>, r_NetEnd := e,
       r_Target := Some \<lparr>tg_Class = TargetClassDirect, tg_RouteTargetKey = ''EtherTalkPort|eth0'', tg_TunnelID = None\<rparr>\<rparr>"

theorem loop_probe_wellformed_witness:
  "\<exists>pkt. buildLoopProbePacket 5 \<lparr>ad_Network = 4, ad_Node = 9\<rparr> (sample_range 3 5)
       (sample_range 30 32) [1, 2] = Inr pkt \<and> 30 \<le> dd_DstNet pkt \<and> dd_DstNet pkt \<le> 32"
proof -
  let ?b = "buildLoopProbePacket 5 \<lparr>ad_Network = 4, ad_Node = 9\<rparr> (sample_range 3 5)
       (sample_range 30 32) [1, 2]"
  have "\<not> isl ?b" by code_simp
  then obtain pkt where b: "?b = Inr pkt" by (cases ?b) auto
  from loop_probe_wellformed [OF b] b show ?thesis by (auto simp: sample_range_def)
qed

text \<open>
  C28: A loop is confirmed at most once and only by the probe of a registered investigation that comes
  back on the port that was compared: the peer is reported, the same token means nothing any more on
  any port, a new investigation of the network may start, and the task sends no further probe.
\<close>

theorem loop_confirmed_once:
  assumes "loop_reach n reg" "n < 2 ^ 64" "handleLoopProbeReturn port token reg = (True, reg')"
  shows "\<exists>v. map_of (loopProbes reg) token = Some v \<and> lp_port v = port \<and> lp_token v = token \<and>
    map_of (loopProbeByKey reg) (lp_key v) = Some token \<and>
    lr_confirmed reg' = lr_confirmed reg @ [lp_peer v] \<and>
    handleLoopProbeReturn port' token reg' = (False, reg') \<and>
    map_of (loopProbeByKey reg') (lp_key v) = None \<and>
    (\<exists>i < length (lr_tasks reg'). lt_inv (lr_tasks reg' ! i) = v \<and>
       lr_sent (task_turn proto i reg') = lr_sent reg' \<and> length (lr_tasks (task_turn proto i reg')) < length (lr_tasks reg'))"
proof -
  have ok: "loop_inv n reg" using loop_inv_reach assms(1,2) by blast
  then have t: "tasks_ok n reg" and m: "maps_ok reg" and r: "all_running reg" by (auto simp: loop_inv_def)
  from assms(3) obtain v where v: "map_of (loopProbes reg) token = Some v" "lp_port v = port"
    and f: "reg' = reg\<lparr>loopProbes := AList.delete token (loopProbes reg),
        loopProbeByKey := AList.delete (lp_key v) (loopProbeByKey reg), lr_confirmed := lr_confirmed reg @ [lp_peer v]\<rparr>"
    by (auto simp: handleLoopProbeReturn_def split: if_splits option.splits)
  obtain x where x: "x \<in> set (lr_tasks reg)" "lt_inv x = v" using r v(1) by (rule all_runningD)
  then obtain i where i: "i < length (lr_tasks reg)" "lr_tasks reg ! i = x" by (metis in_set_conv_nth)
  have "lp_token v \<noteq> []" using task_token [OF t x(1)] x(2) by simp
  then have "\<not> loopInvestigationActive v reg'" by (simp add: loopInvestigationActive_def f delete_conv')
  then have turn: "task_turn proto i reg' = remove_task i reg'" using i x by (simp add: task_turn_def f Let_def)
  show ?thesis
    using v f i x turn maps_okD(1,2) [OF m v(1)]
    by (intro exI [of _ v]) (auto simp: handleLoopProbeReturn_def delete_conv' remove_task_def)
qed


theorem loop_confirmed_once_witness:
  "\<exists>reg token reg'. loop_reach 1 reg \<and> handleLoopProbeReturn ''EtherTalkPort|eth0'' token reg = (True, reg') \<and>
     lr_confirmed reg' = [7] \<and> handleLoopProbeReturn ''EtherTalkPort|eth1'' token reg' = (False, reg')"
proof -
  let ?m = "(NewAARPMachine [])\<lparr>ar_assigned := True\<rparr>"
  let ?reg = "startLoopInvestigation 1 [(''EtherTalkPort|eth0'', ?m)] 7 False ''cfg:x'' (sample_range 30 32)
     (sample_range 3 5) empty_registry"
  let ?tok = "newLoopProbeToken 1 1" and ?port = "''EtherTalkPort|eth0''"
  have reach: "loop_reach 1 ?reg" using loop_start [OF loop_none] by simp
  have "fst (handleLoopProbeReturn ?port ?tok ?reg)" "lr_confirmed (snd (handleLoopProbeReturn ?port ?tok ?reg)) = [7]"
    by code_simp+
  then obtain reg' where r: "handleLoopProbeReturn ?port ?tok ?reg = (True, reg')" "lr_confirmed reg' = [7]"
    by (cases "handleLoopProbeReturn ?port ?tok ?reg") auto
  from loop_confirmed_once [OF reach _ r(1), of "''EtherTalkPort|eth1''"] r reach show ?thesis by auto
qed

end
