(* ===== verification/EtalkPort.thy ===== *)
theory EtalkPort
  imports AarpProps Seed LoopProbe
begin

text \<open>
  An EtherTalk port (\<open>src/router/etalk_port.go\<close>, \<open>src/router/etalk_peer.go\<close>): sending frames,
  the outboxes of packets that wait for an address, the cable range and its route, and the seed
  state loop of \<open>src/router/seed.go\<close>.

  An operation runs on a world of the port, the route table, the loop investigations, and what left
  the router: the frames written to the devices, the packets given to route targets, and the
  notifications for the observers of the route table.  \<open>None\<close> is a run that does not end, which the loops of the route
  table over a range that ends at 65535 cause, or a panic.
\<close>

section \<open>State\<close>

record outbox =
  ob_packets :: "ExtPacket list"
  ob_addr :: ddp_Addr
  ob_lastTS :: time

record EtherTalkPort =
  et_device :: string
  et_ethernetAddr :: hwaddr
  et_netStart :: network
  et_netEnd :: network
  et_defaultZoneName :: string
  et_availableZones :: "string list"
  et_seed :: "seedController option"
  et_aarp :: AARPMachine
  et_myAddr :: ddp_Addr
  et_cableStart :: network
  et_cableEnd :: network
  et_outboxes :: "(chan \<times> outbox) list"
  et_outboxesChanged :: bool

record port_world =
  pw_port :: EtherTalkPort
  pw_rt :: RouteTable
  pw_loops :: loop_registry
  pw_frames :: "(string \<times> byte list) list"
  pw_sent :: "transmission list"
  pw_notes :: "notification list"

text \<open>The protocol numbers and the decoder of the \<open>ddp\<close> package.\<close>

record ddp_protos =
  ProtoRTMPResp :: byte
  ProtoATP :: byte
  ProtoAEP :: byte
  ProtoRTMPReq :: byte
  ProtoZIP :: byte
  ExtUnmarshal :: "byte list \<Rightarrow> string + ExtPacket"

text \<open>
  What an operation takes from outside: the clock, the other modules, the configuration, the ports of
  the router, the error of writing a frame given the frames written so far, the last one included,
  and the errors of \<open>Forward\<close> of route targets.
\<close>

record port_env =
  pe_now :: time
  pe_em :: ethertalk_module
  pe_ddp :: ddp_module
  pe_protos :: ddp_protos
  pe_cfg :: "AURPConfig option"
  pe_NameVersion :: string
  pe_ports :: "EtherTalkPort list"
  pe_write :: "(string \<times> byte list) list \<Rightarrow> string option"
  pe_fwd :: "RouteTarget \<Rightarrow> ExtPacket \<Rightarrow> string option"

datatype port_error =
    PErrFrame string
  | PErrRoute route_error
  | PErrFwd fwd_error
  | PErrBadRange network network
  | PErrParse "atalk_error fault"
  | PErrMarshal atalk_error
  | PErrProto byte
  | PErrFunction byte
  | PErrStartIndex
  | PErrUnsupported

type_synonym 'a pact = "port_world \<Rightarrow> ((port_error + 'a) \<times> port_world) option"

definition pa_ret :: "'a \<Rightarrow> 'a pact" where
  "pa_ret x w = Some (Inr x, w)"

definition pa_fail :: "port_error \<Rightarrow> 'a pact" where
  "pa_fail e w = Some (Inl e, w)"

definition pa_bind :: "'a pact \<Rightarrow> ('a \<Rightarrow> 'b pact) \<Rightarrow> 'b pact" where
  "pa_bind m f w =
     (case m w of None \<Rightarrow> None | Some (Inl e, w') \<Rightarrow> Some (Inl e, w') | Some (Inr x, w') \<Rightarrow> f x w')"

abbreviation pa_seq :: "unit pact \<Rightarrow> 'b pact \<Rightarrow> 'b pact" where
  "pa_seq m k \<equiv> pa_bind m (\<lambda>_. k)"

text \<open>An error that the caller only logs.\<close>

definition pa_ignore :: "unit pact \<Rightarrow> unit pact" where
  "pa_ignore m w = map_option (\<lambda>(r, w'). (Inr (), w')) (m w)"

definition with_port :: "(EtherTalkPort \<Rightarrow> 'a pact) \<Rightarrow> 'a pact" where
  "with_port f w = f (pw_port w) w"

definition with_rt :: "(RouteTable \<Rightarrow> 'a pact) \<Rightarrow> 'a pact" where
  "with_rt f w = f (pw_rt w) w"

definition upd_port :: "(EtherTalkPort \<Rightarrow> EtherTalkPort) \<Rightarrow> unit pact" where
  "upd_port f w = Some (Inr (), w\<lparr>pw_port := f (pw_port w)\<rparr>)"

primrec pa_each :: "('a \<Rightarrow> unit pact) \<Rightarrow> 'a list \<Rightarrow> unit pact" where
  "pa_each f [] = pa_ret ()"
| "pa_each f (x # xs) = pa_seq (f x) (pa_each f xs)"

definition pa_lift :: "('e \<Rightarrow> port_error) \<Rightarrow> 'e + 'a \<Rightarrow> 'a pact" where
  "pa_lift g r = (case r of Inl e \<Rightarrow> pa_fail (g e) | Inr x \<Rightarrow> pa_ret x)"


section \<open>Calls\<close>

text \<open>A frame that a port writes, by the name of its device.\<close>

definition call_write ::
  "port_env \<Rightarrow> EtherTalkPort \<Rightarrow>
   ((byte list list \<Rightarrow> string option) \<Rightarrow> byte list list \<Rightarrow> string option \<times> byte list list) \<Rightarrow> unit pact" where
  "call_write E port f w =
     (case f (\<lambda>fs. pe_write E (pw_frames w @ map (Pair (et_device port)) fs)) [] of
        (err, fs) \<Rightarrow>
          Some (case err of None \<Rightarrow> Inr () | Some e \<Rightarrow> Inl (PErrFrame e),
                w\<lparr>pw_frames := pw_frames w @ map (Pair (et_device port)) fs\<rparr>))"

definition call_rt ::
  "(RouteTable \<Rightarrow> ((route_error + 'a) \<times> RouteTable \<times> notification list) option) \<Rightarrow> 'a pact" where
  "call_rt f w =
     (case f (pw_rt w) of
        None \<Rightarrow> None
      | Some (r, rt', evs) \<Rightarrow>
          Some (map_sum PErrRoute id r, w\<lparr>pw_rt := rt', pw_notes := pw_notes w @ evs\<rparr>))"

definition port_UpsertRoute ::
  "port_env \<Rightarrow> RouteTarget \<Rightarrow> bool \<Rightarrow> network \<Rightarrow> network \<Rightarrow> byte \<Rightarrow> Route pact" where
  "port_UpsertRoute E t ext s e d = call_rt (UpsertRoute (pe_now E) t ext s e d)"

definition port_DeleteRoute :: "port_env \<Rightarrow> RouteTarget \<Rightarrow> network \<Rightarrow> unit pact" where
  "port_DeleteRoute E t n =
     call_rt (\<lambda>rt. map_option (\<lambda>(err, rt', evs). (case err of None \<Rightarrow> Inr () | Some e \<Rightarrow> Inl e, rt', evs))
       (DeleteRoute (pe_now E) t n rt))"

definition port_AddZones :: "port_env \<Rightarrow> network \<Rightarrow> string list \<Rightarrow> unit pact" where
  "port_AddZones E n zs =
     call_rt (\<lambda>rt. case AddZonesToNetwork (pe_now E) n zs rt of (rt', evs) \<Rightarrow> Some (Inr (), rt', evs))"

text \<open>\<open>router.Output\<close> and \<open>router.Forward\<close>.\<close>

definition call_output ::
  "(RouteTable \<Rightarrow> fwd_error option \<times> RouteTable \<times> transmission list) \<Rightarrow> unit pact" where
  "call_output f w =
     (case f (pw_rt w) of
        (err, rt', sent) \<Rightarrow>
          Some (case err of None \<Rightarrow> Inr () | Some e \<Rightarrow> Inl (PErrFwd e),
                w\<lparr>pw_rt := rt', pw_sent := pw_sent w @ sent\<rparr>))"

definition router_Output :: "port_env \<Rightarrow> ExtPacket \<Rightarrow> unit pact" where
  "router_Output E pkt = call_output (Output (pe_ddp E) (pe_fwd E) (pe_now E) pkt)"

definition router_Forward :: "port_env \<Rightarrow> ExtPacket \<Rightarrow> unit pact" where
  "router_Forward E pkt = call_output (Forward (pe_ddp E) (pe_fwd E) (pe_now E) pkt)"


section \<open>Sending and outboxes\<close>

definition maxOutboxSize :: nat where
  "maxOutboxSize = 1000"

definition outboxTimeout :: time where
  "outboxTimeout = 10 * 1000000000"

definition port_send_on :: "port_env \<Rightarrow> EtherTalkPort \<Rightarrow> hwaddr \<Rightarrow> ExtPacket \<Rightarrow> unit pact" where
  "port_send_on E port dstEth pkt =
     call_write E port (\<lambda>wr frames.
       case et_AppleTalk (pe_em E) (et_ethernetAddr port) pkt of
         Inl e \<Rightarrow> (Some e, frames)
       | Inr f \<Rightarrow> write_frame (pe_em E) wr (f\<lparr>fr_Dst := dstEth\<rparr>) frames)"

definition port_send :: "port_env \<Rightarrow> hwaddr \<Rightarrow> ExtPacket \<Rightarrow> unit pact" where
  "port_send E dstEth pkt = with_port (\<lambda>port. port_send_on E port dstEth pkt)"

definition upd_amt :: "(addressMappingTable \<Rightarrow> addressMappingTable) \<Rightarrow> EtherTalkPort \<Rightarrow> EtherTalkPort" where
  "upd_amt f port = port\<lparr>et_aarp := (et_aarp port)\<lparr>ar_amt := f (ar_amt (et_aarp port))\<rparr>\<rparr>"

definition port_lookupOrWait :: "port_env \<Rightarrow> ddp_Addr \<Rightarrow> (hwaddr \<times> chan option) pact" where
  "port_lookupOrWait E addr =
     with_port (\<lambda>port.
       let (r, t') = lookupOrWait (pe_now E) addr (ar_amt (et_aarp port))
       in pa_seq (upd_port (upd_amt (\<lambda>_. t'))) (pa_ret r))"

definition port_request :: "port_env \<Rightarrow> ddp_Addr \<Rightarrow> unit pact" where
  "port_request E addr =
     with_port (\<lambda>port. call_write E port (\<lambda>wr. aarp_request (pe_em E) wr addr (et_aarp port)))"

definition outboxPush :: "port_env \<Rightarrow> chan \<Rightarrow> ddp_Addr \<Rightarrow> ExtPacket \<Rightarrow> unit pact" where
  "outboxPush E waitCh addr pkt =
     with_port (\<lambda>port.
       case map_of (et_outboxes port) waitCh of
         Some ob \<Rightarrow>
           let ps = ob_packets ob @ [pkt];
               ob' = ob\<lparr>ob_packets := drop (length ps - maxOutboxSize) ps, ob_lastTS := pe_now E\<rparr>
           in upd_port (\<lambda>p. p\<lparr>et_outboxes := AList.update waitCh ob' (et_outboxes p)\<rparr>)
       | None \<Rightarrow>
           let ob = \<lparr>ob_packets = [pkt], ob_addr = addr, ob_lastTS = pe_now E\<rparr>
           in pa_seq (upd_port (\<lambda>p. p\<lparr>et_outboxes := AList.update waitCh ob (et_outboxes p)\<rparr>))
               (pa_seq (pa_ignore (port_request E addr))
                 (upd_port (\<lambda>p. p\<lparr>et_outboxesChanged := True\<rparr>))))"

definition etherTalkBroadcastNode :: "byte \<Rightarrow> bool" where
  "etherTalkBroadcastNode node \<longleftrightarrow> node = 0 \<or> node = 0xFF"

text \<open>Sending to an address, as \<open>Send\<close> and \<open>EtherTalkPeer.Forward\<close> do.\<close>

definition sendOrQueue :: "port_env \<Rightarrow> ddp_Addr \<Rightarrow> ExtPacket \<Rightarrow> unit pact" where
  "sendOrQueue E addr pkt =
     pa_bind (port_lookupOrWait E addr) (\<lambda>(destEth, wait).
       case wait of
         None \<Rightarrow> port_send E destEth pkt
       | Some waitCh \<Rightarrow> outboxPush E waitCh addr pkt)"

definition port_Send :: "port_env \<Rightarrow> ExtPacket \<Rightarrow> unit pact" where
  "port_Send E pkt =
     (if etherTalkBroadcastNode (dd_DstNode pkt) then port_send E (et_AppleTalkBroadcast (pe_em E)) pkt
      else sendOrQueue E \<lparr>ad_Network = dd_DstNet pkt, ad_Node = dd_DstNode pkt\<rparr> pkt)"

definition port_Broadcast :: "port_env \<Rightarrow> ExtPacket \<Rightarrow> unit pact" where
  "port_Broadcast E pkt = port_send E (et_AppleTalkBroadcast (pe_em E)) pkt"

definition port_ZoneMulticast :: "port_env \<Rightarrow> EtherTalkPort \<Rightarrow> string \<Rightarrow> ExtPacket \<Rightarrow> unit pact" where
  "port_ZoneMulticast E port zone pkt =
     port_send_on E port (MulticastAddr (et_AppleTalkBroadcast (pe_em E)) zone) pkt"

definition EtherTalkPeer_Forward :: "port_env \<Rightarrow> ddp_Addr \<Rightarrow> ExtPacket \<Rightarrow> unit pact" where
  "EtherTalkPeer_Forward E peerAddr pkt = sendOrQueue E peerAddr pkt"

text \<open>
  \<open>outboxPop\<close>: \<open>ob.addr\<close> is read without a check that there is an outbox, so a missing one
  panics; the \<open>Outbox\<close> loop only passes channels of outboxes that it just listed.
\<close>

definition outboxPop :: "port_env \<Rightarrow> chan \<Rightarrow> (outbox option \<times> hwaddr) pact" where
  "outboxPop E waitCh =
     with_port (\<lambda>port.
       case map_of (et_outboxes port) waitCh of
         None \<Rightarrow> (\<lambda>w. None)
       | Some ob \<Rightarrow>
           pa_seq (upd_port (\<lambda>p. p\<lparr>et_outboxes := AList.delete waitCh (et_outboxes p)\<rparr>))
             (pa_bind (port_lookupOrWait E (ob_addr ob)) (\<lambda>(destEth, wait).
               case wait of
                 None \<Rightarrow> pa_ret (Some ob, destEth)
               | Some newWaitCh \<Rightarrow>
                   if pe_now E - ob_lastTS ob > outboxTimeout then pa_ret (None, destEth)
                   else pa_seq (upd_port (\<lambda>p. p\<lparr>et_outboxes := AList.update newWaitCh ob (et_outboxes p)\<rparr>))
                          (pa_ret (None, destEth)))))"

text \<open>An iteration of \<open>Outbox\<close> whose channel was closed; the error ends the loop.\<close>

definition outbox_turn :: "port_env \<Rightarrow> chan \<Rightarrow> unit pact" where
  "outbox_turn E waitCh =
     pa_bind (outboxPop E waitCh) (\<lambda>(ob, destEth).
       case ob of
         None \<Rightarrow> pa_ret ()
       | Some b \<Rightarrow> pa_each (port_send E destEth) (ob_packets b))"

fun resend_loop :: "port_env \<Rightarrow> (chan \<times> outbox) list \<Rightarrow> unit pact" where
  "resend_loop E [] = pa_ret ()"
| "resend_loop E ((waitCh, ob) # rest) =
     (if pe_now E - ob_lastTS ob > outboxTimeout
      then upd_port (\<lambda>p. p\<lparr>et_outboxes := AList.delete waitCh (et_outboxes p)\<rparr>)
      else pa_seq (port_request E (ob_addr ob)) (resend_loop E rest))"

definition resendAARPRequests :: "port_env \<Rightarrow> unit pact" where
  "resendAARPRequests E = with_port (\<lambda>port. resend_loop E (et_outboxes port))"


section \<open>Cable range\<close>

definition port_target :: "EtherTalkPort \<Rightarrow> RouteTarget" where
  "port_target port =
     \<lparr>tg_Class = TargetClassDirect, tg_RouteTargetKey = ''EtherTalkPort|'' @ et_device port, tg_TunnelID = None\<rparr>"

definition setCableRange :: "network \<Rightarrow> network \<Rightarrow> EtherTalkPort \<Rightarrow> EtherTalkPort" where
  "setCableRange start end' port = port\<lparr>et_cableStart := start, et_cableEnd := end'\<rparr>"

definition cableRange :: "EtherTalkPort \<Rightarrow> network \<times> network" where
  "cableRange port = (et_cableStart port, et_cableEnd port)"

definition seedAuthorityActive :: "EtherTalkPort \<Rightarrow> bool" where
  "seedAuthorityActive port \<longleftrightarrow> (case et_seed port of None \<Rightarrow> False | Some s \<Rightarrow> activeAuthority s)"

definition activateConfiguredZones :: "port_env \<Rightarrow> unit pact" where
  "activateConfiguredZones E =
     with_port (\<lambda>port.
       let (start, end') = cableRange port in
       if start = 0 \<or> start \<ge> phase2StartupStart then pa_ret ()
       else port_AddZones E start (et_availableZones port))"

text \<open>The route of the previous range is removed first.\<close>

definition deactivateOldRange :: "port_env \<Rightarrow> network \<Rightarrow> network \<Rightarrow> unit pact" where
  "deactivateOldRange E start end' =
     with_port (\<lambda>port. with_rt (\<lambda>rt.
       let (oldStart, oldEnd) = cableRange port in
       if oldStart \<noteq> 0 \<and> \<not> isPhase2StartupRange oldStart oldEnd \<and> (oldStart \<noteq> start \<or> oldEnd \<noteq> end') \<and>
          \<not> Route_Zero (find_route (port_target port) oldStart rt)
       then port_DeleteRoute E (port_target port) oldStart
       else pa_ret ()))"

definition activateZones :: "port_env \<Rightarrow> network \<Rightarrow> unit pact" where
  "activateZones E start =
     with_port (\<lambda>port.
       if seedAuthorityActive port then activateConfiguredZones E
       else
         case et_seed port of
           None \<Rightarrow> pa_ret ()
         | Some s \<Rightarrow> if sd_observedZone s \<noteq> [] then port_AddZones E start [sd_observedZone s] else pa_ret ())"

definition activateCableRange :: "port_env \<Rightarrow> network \<Rightarrow> network \<Rightarrow> unit pact" where
  "activateCableRange E start end' =
     (if start = 0 \<or> end' = 0 \<or> isPhase2StartupRange start end' then pa_fail (PErrBadRange start end')
      else
        pa_seq (deactivateOldRange E start end')
          (pa_seq (upd_port (setCableRange start end'))
            (with_port (\<lambda>port.
              pa_bind (port_UpsertRoute E (port_target port) True start end' 0) (\<lambda>_.
                activateZones E start)))))"

text \<open>
  The port as \<open>NewEtherTalkPort\<close> makes it, before a hard seed activates its range.
\<close>

definition NewEtherTalkPort ::
  "string \<Rightarrow> hwaddr \<Rightarrow> network \<Rightarrow> network \<Rightarrow> string \<Rightarrow> string list \<Rightarrow> string \<Rightarrow> time \<Rightarrow> EtherTalkPort" where
  "NewEtherTalkPort device ethernetAddr netStart netEnd defaultZoneName availableZones seedMode softSeedDelay =
     (let port = \<lparr>et_device = device, et_ethernetAddr = ethernetAddr, et_netStart = netStart, et_netEnd = netEnd,
            et_defaultZoneName = defaultZoneName, et_availableZones = availableZones,
            et_seed = Some (newSeedController seedMode softSeedDelay netStart netEnd defaultZoneName),
            et_aarp = NewAARPMachine ethernetAddr, et_myAddr = \<lparr>ad_Network = 0, ad_Node = 0\<rparr>,
            et_cableStart = 0, et_cableEnd = 0, et_outboxes = [], et_outboxesChanged = False\<rparr>
      in if seedMode = SeedModeHard then setCableRange netStart netEnd port
         else setCableRange phase2StartupStart phase2StartupEnd port)"

end
