(* ===== verification/Packing.thy ===== *)
theory Packing
  imports Prelude
begin

text \<open>
  Filling a packet: the loops of the RTMP and ZIP handlers that take entries from the front of a list
  while they fit.
\<close>

locale packer =
  fixes fit :: "nat \<Rightarrow> 'a list \<Rightarrow> 'a list" and weight :: "'a \<Rightarrow> nat" and limit :: nat
  assumes fit_Nil: "fit sz [] = []"
    and fit_Cons: "fit sz (x # xs) = (if sz + weight x > limit then [] else x # fit (sz + weight x) xs)"
begin

lemma fit_prefix: "fit sz xs = take (length (fit sz xs)) xs"
  by (induction xs arbitrary: sz) (simp_all add: fit_Nil fit_Cons)

lemma fit_rest: "fit sz xs @ drop (length (fit sz xs)) xs = xs"
  by (subst fit_prefix) (rule append_take_drop_id)

lemma fit_size: "sz \<le> limit \<Longrightarrow> sz + sum_list (map weight (fit sz xs)) \<le> limit"
proof (induction xs arbitrary: sz)
  case (Cons x xs)
  then show ?case using Cons.IH [of "sz + weight x"] by (simp add: fit_Cons add.assoc)
qed (simp add: fit_Nil)

lemma fit_nonempty: "xs \<noteq> [] \<Longrightarrow> sz + weight (hd xs) \<le> limit \<Longrightarrow> fit sz xs \<noteq> []"
  by (cases xs) (simp_all add: fit_Cons)

lemma fit_length: "length (fit sz xs) \<le> length xs"
  by (subst fit_prefix) simp

lemma fit_whole: "length (fit sz xs) = length xs \<longleftrightarrow> fit sz xs = xs"
  using fit_prefix [of sz xs] by auto

text \<open>Nothing is left out that would have fitted.\<close>

lemma fit_all: "sz + sum_list (map weight xs) \<le> limit \<Longrightarrow> fit sz xs = xs"
  by (induction xs arbitrary: sz) (simp_all add: fit_Nil fit_Cons)

end

end
