(* ===== verification/Rtmp.thy ===== *)
theory Rtmp
  imports EtalkPort Packing
begin

text \<open>
  RTMP on an EtherTalk port (\<open>src/router/rtmp.go\<close>) and the clusters that advertise several networks of
  a tunnel as one (\<open>src/router/aurp_cluster.go\<close>).
\<close>

section \<open>Packets\<close>

abbreviation DDPMaxDataSize :: nat where "DDPMaxDataSize \<equiv> 586"

text \<open>A new packet without a checksum.\<close>

definition ddp_packet ::
  "network \<Rightarrow> byte \<Rightarrow> byte \<Rightarrow> ddp_Addr \<Rightarrow> byte \<Rightarrow> byte \<Rightarrow> byte list \<Rightarrow> ExtPacket" where
  "ddp_packet dstNet dstNode dstSocket src srcSocket proto body =
     \<lparr>dd_Size = word_of_nat (length body) + DDPExtHeaderSize, dd_Cksum = 0,
      dd_DstNet = dstNet, dd_SrcNet = ad_Network src, dd_DstNode = dstNode, dd_SrcNode = ad_Node src,
      dd_DstSocket = dstSocket, dd_SrcSocket = srcSocket, dd_Proto = proto, dd_Data = body\<rparr>"

text \<open>A neighbour router on the network of the port, as a route target.\<close>

definition etherTalkPeer_target :: "EtherTalkPort \<Rightarrow> ddp_Addr \<Rightarrow> RouteTarget" where
  "etherTalkPeer_target port addr =
     \<lparr>tg_Class = TargetClassAppleTalkPeer,
      tg_RouteTargetKey = ''EtherTalkPeer|'' @ et_device port @ ''|'' @
        decimal (unat (ad_Network addr)) @ ''.'' @ decimal (unat (ad_Node addr)),
      tg_TunnelID = None\<rparr>"

text \<open>
  Whether a target is an \<open>EtherTalkPeer\<close> of the port: the part of its key after the name of the
  device is an address.
\<close>

definition is_peer_of :: "EtherTalkPort \<Rightarrow> RouteTarget \<Rightarrow> bool" where
  "is_peer_of port t \<longleftrightarrow>
     (let prefix = ''EtherTalkPeer|'' @ et_device port @ ''|'' in
      tg_Class t = TargetClassAppleTalkPeer \<and> take (length prefix) (tg_RouteTargetKey t) = prefix \<and>
      CHR ''|'' \<notin> set (drop (length prefix) (tg_RouteTargetKey t)))"

definition call_loops :: "(loop_registry \<Rightarrow> 'a \<times> loop_registry) \<Rightarrow> 'a pact" where
  "call_loops f w = (case f (pw_loops w) of (x, reg') \<Rightarrow> Some (Inr x, w\<lparr>pw_loops := reg'\<rparr>))"

text \<open>A packet given to a parser that may panic.\<close>

definition parse :: "'a at_result \<Rightarrow> 'a pact" where
  "parse r = (case r of Inl Panic \<Rightarrow> (\<lambda>w. None) | Inl (Err e) \<Rightarrow> pa_fail (PErrParse (Err e)) | Inr x \<Rightarrow> pa_ret x)"


section \<open>Clusters\<close>

definition cl_containsRoute :: "AURPClusterRule \<Rightarrow> Route \<Rightarrow> bool" where
  "cl_containsRoute c route \<longleftrightarrow> r_NetStart route \<ge> cl_Start c \<and> r_NetEnd route \<le> cl_End c"

definition clusterForNetwork :: "AURPConfig \<Rightarrow> network \<Rightarrow> AURPClusterRule option" where
  "clusterForNetwork c network = find (\<lambda>cluster. cl_contains cluster network) (Clusters c)"

definition rtmpAdvertisedDistance :: "Route \<Rightarrow> bool \<Rightarrow> byte" where
  "rtmpAdvertisedDistance route hopCountReduction =
     (if hopCountReduction \<and> ro_Kind (Route_RouteOrigin route) = RouteOriginAURP then 1 else r_Distance route)"

record clusterState =
  cs_rule :: AURPClusterRule
  cs_members :: "Route list"
  cs_zones :: "string list"
  cs_distance :: byte

definition set_insert :: "'a list \<Rightarrow> 'a list \<Rightarrow> 'a list" where
  "set_insert xs s = fold (\<lambda>x s. if x \<in> set s then s else s @ [x]) xs s"

definition join_cluster :: "RouteTable \<Rightarrow> bool \<Rightarrow> AURPClusterRule \<Rightarrow> Route \<Rightarrow> clusterState option \<Rightarrow> clusterState" where
  "join_cluster rt hopCountReduction rule route old =
     (let d = rtmpAdvertisedDistance route hopCountReduction;
          st = (case old of Some st \<Rightarrow> st
                | None \<Rightarrow> \<lparr>cs_rule = rule, cs_members = [], cs_zones = [], cs_distance = d\<rparr>)
      in st\<lparr>cs_members := cs_members st @ [route], cs_zones := set_insert (Route_ZoneNames rt route) (cs_zones st),
            cs_distance := (if d < cs_distance st then d else cs_distance st)\<rparr>)"

definition cluster_route ::
  "RouteTable \<Rightarrow> AURPConfig \<Rightarrow> bool \<Rightarrow> Route \<Rightarrow> (network \<times> clusterState) list \<times> Route list \<Rightarrow>
   (network \<times> clusterState) list \<times> Route list" where
  "cluster_route rt cfg hopCountReduction route st =
     (case (if ro_Kind (Route_RouteOrigin route) = RouteOriginAURP
            then find (\<lambda>rule. cl_containsRoute rule route) (Clusters cfg) else None) of
        None \<Rightarrow> (fst st, snd st @ [route])
      | Some rule \<Rightarrow>
          (AList.update (cl_Start rule)
             (join_cluster rt hopCountReduction rule route (map_of (fst st) (cl_Start rule))) (fst st), snd st))"

definition route_tuple :: "bool \<Rightarrow> Route \<Rightarrow> rtmp_NetworkTuple" where
  "route_tuple hopCountReduction route =
     \<lparr>rnt_Extended = r_Extended route, rnt_RangeStart = r_NetStart route, rnt_RangeEnd = r_NetEnd route,
      rnt_Distance = rtmpAdvertisedDistance route hopCountReduction\<rparr>"

definition cluster_tuples :: "bool \<Rightarrow> clusterState \<Rightarrow> rtmp_NetworkTuple list" where
  "cluster_tuples hopCountReduction st =
     (if length (cs_zones st) > 255 then map (route_tuple hopCountReduction) (cs_members st)
      else [\<lparr>rnt_Extended = True, rnt_RangeStart = cl_Start (cs_rule st), rnt_RangeEnd = cl_End (cs_rule st),
             rnt_Distance = cs_distance st\<rparr>])"

definition buildRTMPTuplesWithClusters ::
  "RouteTable \<Rightarrow> Route list \<Rightarrow> AURPConfig \<Rightarrow> bool \<Rightarrow> rtmp_NetworkTuple list" where
  "buildRTMPTuplesWithClusters rt routes cfg hopCountReduction =
     (let (clusters, normal) = fold (cluster_route rt cfg hopCountReduction) routes ([], []);
          tuples = map (route_tuple hopCountReduction) normal @
            concat (map (\<lambda>(_, st). cluster_tuples hopCountReduction st) clusters)
      in sort_func (\<lambda>a b. int (unat (rnt_RangeStart a)) - int (unat (rnt_RangeStart b))) tuples)"


section \<open>Data packets\<close>

definition rtmp_routes :: "port_env \<Rightarrow> bool \<Rightarrow> EtherTalkPort \<Rightarrow> RouteTable \<Rightarrow> Route list" where
  "rtmp_routes E splitHorizon port rt =
     filter (\<lambda>r. tg_RouteTargetKey (route_target r) \<noteq> tg_RouteTargetKey (port_target port) \<and>
                 \<not> (splitHorizon \<and> is_peer_of port (route_target r)))
       (ValidRoutes (pe_now E) rt)"

fun fitting :: "nat \<Rightarrow> rtmp_NetworkTuple list \<Rightarrow> rtmp_NetworkTuple list" where
  "fitting sz [] = []"
| "fitting sz (nt # rem) =
     (let sz' = sz + rtmp_NetworkTuple_Size nt in
      if sz' > DDPMaxDataSize then [] else nt # fitting sz' rem)"

interpretation tuples: packer fitting rtmp_NetworkTuple_Size DDPMaxDataSize
  by unfold_locales (simp_all add: Let_def)

lemma fitting_nonempty: "nts \<noteq> [] \<Longrightarrow> fitting 10 nts \<noteq> []"
  by (rule tuples.fit_nonempty) (simp_all add: rtmp_NetworkTuple_Size_def)

function rtmp_chunks :: "rtmp_NetworkTuple \<Rightarrow> rtmp_NetworkTuple list \<Rightarrow> rtmp_NetworkTuple list list" where
  "rtmp_chunks first rem =
     (if rem = [] then []
      else
        let chunk = first # fitting 10 rem
        in chunk # rtmp_chunks first (drop (length chunk - 1) rem))"
  by auto

termination
  by (relation "measure (length \<circ> snd)") (auto simp: fitting_nonempty)

declare rtmp_chunks.simps [simp del]

definition rtmpDataPackets :: "port_env \<Rightarrow> bool \<Rightarrow> EtherTalkPort \<Rightarrow> RouteTable \<Rightarrow> rtmp_DataPacket list" where
  "rtmpDataPackets E splitHorizon port rt =
     (let cfg = (case pe_cfg E of None \<Rightarrow> zero_aurp_config | Some c \<Rightarrow> c);
          tuples = buildRTMPTuplesWithClusters rt (rtmp_routes E splitHorizon port rt) cfg
            (pe_cfg E \<noteq> None \<and> HopCountReduction cfg);
          (cableStart, cableEnd) = cableRange port;
          first = \<lparr>rnt_Extended = True, rnt_RangeStart = cableStart, rnt_RangeEnd = cableEnd, rnt_Distance = 0\<rparr>;
          packet = (\<lambda>chunk. \<lparr>dp_RouterAddr = et_myAddr port, dp_Extended = True, dp_NetworkTuples = chunk\<rparr>)
      in if tuples = [] then [packet [first]] else map packet (rtmp_chunks first tuples))"


section \<open>Queries for zones\<close>

function zip_query_chunks :: "network list \<Rightarrow> atalk_error + byte list list" where
  "zip_query_chunks networks =
     (if networks = [] then Inr []
      else
        case zip_QueryPacket_Marshal \<lparr>zq_Networks = take 255 networks\<rparr> of
          Inl e \<Rightarrow> Inl e
        | Inr bs \<Rightarrow> (case zip_query_chunks (drop 255 networks) of Inl e \<Rightarrow> Inl e | Inr ps \<Rightarrow> Inr (bs # ps)))"
  by auto

termination
  by (relation "measure length") auto

declare zip_query_chunks.simps [simp del]

definition buildZIPQueryPackets :: "network list \<Rightarrow> atalk_error + byte list list" where
  "buildZIPQueryPackets networks = zip_query_chunks (remdups_adj (sort networks))"


section \<open>Handling packets\<close>

definition observeCableConfig :: "port_env \<Rightarrow> network \<Rightarrow> network \<Rightarrow> string \<Rightarrow> bool \<Rightarrow> unit pact" where
  "observeCableConfig E start end' zone authority =
     upd_port (\<lambda>p. p\<lparr>et_seed := map_option (observeRange start end' authority zone (pe_now E)) (et_seed p)\<rparr>)"

definition observeCableRange :: "port_env \<Rightarrow> network \<Rightarrow> network \<Rightarrow> bool \<Rightarrow> unit pact" where
  "observeCableRange E start end' authority = observeCableConfig E start end' [] authority"

text \<open>The route table learns the tuples; the result are the networks whose zones are not known.\<close>

primrec upsert_tuples :: "port_env \<Rightarrow> RouteTarget \<Rightarrow> network list \<Rightarrow> rtmp_NetworkTuple list \<Rightarrow> network list pact" where
  "upsert_tuples E peer noZones [] = pa_ret noZones"
| "upsert_tuples E peer noZones (nt # nts) =
     pa_bind (port_UpsertRoute E peer (rnt_Extended nt) (rnt_RangeStart nt) (rnt_RangeEnd nt) (rnt_Distance nt + 1))
       (\<lambda>route. with_rt (\<lambda>rt.
          upsert_tuples E peer
            (if zones_of rt (rnt_RangeStart nt) = [] then noZones @ [r_NetStart route] else noZones) nts))"

definition rtmp_reply :: "port_env \<Rightarrow> ExtPacket \<Rightarrow> byte list \<Rightarrow> unit pact" where
  "rtmp_reply E pkt body =
     with_port (\<lambda>port.
       router_Output E (ddp_packet (dd_SrcNet pkt) (dd_SrcNode pkt) 1 (et_myAddr port) 1 (ProtoRTMPResp (pe_protos E)) body))"

definition HandleRTMP_request :: "port_env \<Rightarrow> ExtPacket \<Rightarrow> rtmp_RequestPacket \<Rightarrow> unit pact" where
  "HandleRTMP_request E pkt req =
     with_port (\<lambda>port. with_rt (\<lambda>rt.
       if rq_Function req = FunctionRequest then
         pa_bind (pa_lift PErrMarshal (rtmp_ResponsePacket_Marshal
           \<lparr>rs_SenderAddr = et_myAddr port, rs_Extended = True,
            rs_RangeStart = fst (cableRange port), rs_RangeEnd = snd (cableRange port)\<rparr>)) (rtmp_reply E pkt)
       else if rq_Function req = FunctionRDRSplitHorizon \<or> rq_Function req = FunctionRDRComplete then
         pa_each (\<lambda>dataPkt. pa_bind (pa_lift PErrMarshal (rtmp_DataPacket_Marshal dataPkt)) (rtmp_reply E pkt))
           (rtmpDataPackets E (rq_Function req = FunctionRDRSplitHorizon) port rt)
       else if rq_Function req = FunctionLoopProbe then
         pa_bind (call_loops (handleLoopProbeReturn (tg_RouteTargetKey (port_target port)) (rq_Data req)))
           (\<lambda>_. pa_ret ())
       else pa_ret ()))"

definition HandleRTMP_data :: "port_env \<Rightarrow> ExtPacket \<Rightarrow> rtmp_DataPacket \<Rightarrow> unit pact" where
  "HandleRTMP_data E pkt dataPkt =
     pa_seq
       (case dp_NetworkTuples dataPkt of
          [] \<Rightarrow> pa_ret ()
        | first # _ \<Rightarrow> observeCableRange E (rnt_RangeStart first) (rnt_RangeEnd first) False)
       (with_port (\<lambda>port.
          pa_bind (upsert_tuples E (etherTalkPeer_target port (dp_RouterAddr dataPkt)) [] (dp_NetworkTuples dataPkt))
            (\<lambda>noZones.
              pa_bind (pa_lift PErrMarshal (buildZIPQueryPackets noZones)) (\<lambda>queries.
                pa_each (\<lambda>qryPkt.
                  port_Send E (ddp_packet (dd_SrcNet pkt) (dd_SrcNode pkt) 6 (et_myAddr port) 6
                    (ProtoZIP (pe_protos E)) qryPkt)) queries))))"

definition HandleRTMP :: "port_env \<Rightarrow> ExtPacket \<Rightarrow> unit pact" where
  "HandleRTMP E pkt =
     (if dd_Proto pkt = ProtoRTMPReq (pe_protos E) then
        with_port (\<lambda>port.
          let (_, _, operational) = OperationalRange (et_aarp port) in
          if \<not> operational then pa_ret ()
          else pa_bind (parse (rtmp_UnmarshalRequestPacket (dd_Data pkt))) (HandleRTMP_request E pkt))
      else if dd_Proto pkt = ProtoRTMPResp (pe_protos E) then
        pa_bind (parse (rtmp_UnmarshalDataPacket (dd_Data pkt))) (HandleRTMP_data E pkt)
      else pa_fail (PErrProto (dd_Proto pkt)))"


section \<open>Broadcasts\<close>

text \<open>The port takes the address of the AARP machine, if it is assigned.\<close>

definition refresh_address :: "EtherTalkPort \<Rightarrow> EtherTalkPort" where
  "refresh_address port =
     (let (addr, ok) = aarp_Address (et_aarp port) in if ok then port\<lparr>et_myAddr := pr_Proto addr\<rparr> else port)"

definition broadcastRTMPData :: "port_env \<Rightarrow> unit pact" where
  "broadcastRTMPData E =
     with_port (\<lambda>port.
       let (start, end', operational) = OperationalRange (et_aarp port) in
       if \<not> operational then pa_ret ()
       else
         pa_seq (upd_port (\<lambda>p. setCableRange start end' (refresh_address p)))
           (with_port (\<lambda>port. with_rt (\<lambda>rt.
             pa_each (\<lambda>dataPkt.
               pa_bind (pa_lift PErrMarshal (rtmp_DataPacket_Marshal dataPkt)) (\<lambda>body.
                 port_Broadcast E (ddp_packet 0 0xff 1 (et_myAddr port) 1 (ProtoRTMPResp (pe_protos E)) body)))
               (rtmpDataPackets E True port rt)))))"

text \<open>\<open>RunRTMP\<close> starts when the address is operational; an error of a broadcast is only logged.\<close>

definition RunRTMP_start :: "unit pact" where
  "RunRTMP_start = upd_port refresh_address"

definition RunRTMP_turn :: "port_env \<Rightarrow> unit pact" where
  "RunRTMP_turn E = pa_ignore (broadcastRTMPData E)"

end
