(* ===== verification/SeedLoop.thy ===== *)
theory SeedLoop
  imports Rtmp
begin

text \<open>
  The seed state loop of an EtherTalk port (\<open>RunSeedState\<close> in \<open>src/router/seed.go\<close>): the port asks for
  the configuration of its cable, moves to the range it observes, and a soft seed takes over when
  nobody answers.
\<close>

section \<open>The loop\<close>

definition sendSeedDiscovery :: "port_env \<Rightarrow> unit pact" where
  "sendSeedDiscovery E =
     with_port (\<lambda>port.
       if et_seed port = None then pa_ret ()
       else
         let (myAddr, ok) = aarp_Address (et_aarp port) in
         if \<not> ok then pa_ret ()
         else
           pa_seq (upd_port (\<lambda>p. p\<lparr>et_myAddr := pr_Proto myAddr\<rparr>))
             (pa_bind (pa_lift PErrMarshal (zip_GetNetInfoPacket_Marshal \<lparr>gni_ZoneName = et_defaultZoneName port\<rparr>))
               (\<lambda>body. port_Broadcast E (ddp_packet 0 0xff 6 (pr_Proto myAddr) 6 (ProtoZIP (pe_protos E)) body))))"

text \<open>The variables of the loop; the zero time is 0.\<close>

record seed_loop =
  promotionEligibleAt :: time
  promotionRequested :: bool

definition authorityTimeout :: "seedController \<Rightarrow> time" where
  "authorityTimeout s = max (3 * sd_delay s) (90 * 1000000000)"

definition upd_aarp :: "(AARPMachine \<Rightarrow> AARPMachine) \<Rightarrow> unit pact" where
  "upd_aarp f = upd_port (\<lambda>p. p\<lparr>et_aarp := f (et_aarp p)\<rparr>)"

definition upd_seed :: "seedController \<Rightarrow> unit pact" where
  "upd_seed s = upd_port (\<lambda>p. p\<lparr>et_seed := Some s\<rparr>)"

text \<open>The port adopts a range once AARP owns an address in it; the result is whether it does.\<close>

definition adoptRange :: "port_env \<Rightarrow> network \<Rightarrow> network \<Rightarrow> bool pact" where
  "adoptRange E start' end' =
     with_port (\<lambda>port.
       if OperationalRange (et_aarp port) = (start', end', True) then
         pa_seq (upd_port refresh_address) (pa_seq (activateCableRange E start' end') (pa_ret True))
       else pa_ret False)"

definition adoptObserved :: "port_env \<Rightarrow> seedController \<Rightarrow> unit pact" where
  "adoptObserved E s =
     (if sd_observedStart s \<noteq> 0 \<and> sd_observedEnd s \<noteq> 0 then
        pa_seq (upd_aarp (Rebind (sd_observedStart s) (sd_observedEnd s)))
          (pa_bind (adoptRange E (sd_observedStart s) (sd_observedEnd s)) (\<lambda>_. pa_ret ()))
      else pa_ret ())"

definition promoteRequested :: "port_env \<Rightarrow> seedController \<Rightarrow> seed_loop \<Rightarrow> seed_loop pact" where
  "promoteRequested E s sl =
     pa_bind (adoptRange E (sd_configuredStart s) (sd_configuredEnd s)) (\<lambda>adopted.
       if \<not> adopted then pa_ret sl
       else
         pa_seq (upd_seed (snd (promoteSoft s)))
           (pa_seq (if fst (promoteSoft s) then activateConfiguredZones E else pa_ret ())
             (pa_ret (sl\<lparr>promotionRequested := False\<rparr>))))"

definition considerPromotion :: "port_env \<Rightarrow> seedController \<Rightarrow> seed_loop \<Rightarrow> seed_loop pact" where
  "considerPromotion E s sl =
     (if sd_mode s \<noteq> SeedModeSoft \<or> seed_Effective s = ''soft-seed-active'' then pa_ret sl
      else if promotionRequested sl then promoteRequested E s sl
      else if promotionEligibleAt sl = 0 then pa_ret (sl\<lparr>promotionEligibleAt := pe_now E + sd_delay s\<rparr>)
      else if pe_now E < promotionEligibleAt sl \<or> sd_configuredStart s = 0 \<or> sd_configuredEnd s = 0 then pa_ret sl
      else
        pa_seq (upd_aarp (Rebind (sd_configuredStart s) (sd_configuredEnd s)))
          (pa_ret \<lparr>promotionEligibleAt = 0, promotionRequested = True\<rparr>))"

definition expireAuthority :: "port_env \<Rightarrow> seedController \<Rightarrow> seed_loop \<Rightarrow> seedController \<times> seed_loop" where
  "expireAuthority E s sl =
     (if sd_mode s = SeedModeSoft then
        let (expired, s') = expireExternalAuthority (pe_now E) (authorityTimeout s) s in
        if expired then (s', \<lparr>promotionEligibleAt = pe_now E + sd_delay s, promotionRequested = False\<rparr>) else (s', sl)
      else (s, sl))"

text \<open>A tick of the probe timer; an error ends the loop.\<close>

definition RunSeedState_tick :: "port_env \<Rightarrow> seed_loop \<Rightarrow> seed_loop pact" where
  "RunSeedState_tick E sl0 =
     pa_seq (pa_ignore (sendSeedDiscovery E))
       (with_port (\<lambda>port.
          case et_seed port of
            None \<Rightarrow> pa_ret sl0
          | Some s0 \<Rightarrow>
              let (s, sl) = expireAuthority E s0 sl0 in
              pa_seq (upd_seed s)
                (if sd_conflict s then pa_ret sl
                 else
                   pa_seq (adoptObserved E s)
                     (if sd_observedStart s \<noteq> 0 \<and> sd_observedEnd s \<noteq> 0 \<and> sd_externalAuthority s
                      then pa_ret \<lparr>promotionEligibleAt = 0, promotionRequested = False\<rparr>
                      else considerPromotion E s sl))))"

text \<open>
  The start of the loop, after an address is assigned; \<open>None\<close> when it ends at once.
\<close>

definition RunSeedState_start :: "port_env \<Rightarrow> seed_loop option pact" where
  "RunSeedState_start E =
     with_port (\<lambda>port.
       case et_seed port of
         None \<Rightarrow> pa_ret None
       | Some s \<Rightarrow>
           pa_seq (pa_ignore (sendSeedDiscovery E))
             (if sd_mode s = SeedModeHard then pa_ret None
              else pa_ret (Some \<lparr>promotionEligibleAt = pe_now E + sd_delay s, promotionRequested = False\<rparr>)))"

end
