(* ===== verification/Outbox.thy ===== *)
theory Outbox
  imports EtalkPort
begin

text \<open>
  The outboxes of an EtherTalk port: packets that wait for an address are never forgotten, and are
  sent in order, the latest thousand, once the address is learned.
\<close>

section \<open>Invariant\<close>

text \<open>Each entry of the address mapping table has a channel of its own that is still open.\<close>

definition amt_inv :: "addressMappingTable \<Rightarrow> bool" where
  "amt_inv t \<longleftrightarrow>
     (\<forall>ch\<in>set (amt_closed t). ch < amt_made t) \<and>
     (\<forall>a e. map_of (amt_table t) a = Some e \<longrightarrow> am_updated e < amt_made t \<and> am_updated e \<notin> set (amt_closed t)) \<and>
     (\<forall>a b e f. map_of (amt_table t) a = Some e \<longrightarrow> map_of (amt_table t) b = Some f \<longrightarrow>
        am_updated e = am_updated f \<longrightarrow> a = b)"

text \<open>An outbox waits on the channel of its address, or its channel is closed already.\<close>

definition waits_for :: "addressMappingTable \<Rightarrow> chan \<Rightarrow> ddp_Addr \<Rightarrow> bool" where
  "waits_for t ch addr \<longleftrightarrow>
     ch < amt_made t \<and>
     (ch \<in> set (amt_closed t) \<or> (\<exists>e. map_of (amt_table t) addr = Some e \<and> am_updated e = ch))"

definition outbox_ok :: "addressMappingTable \<Rightarrow> (chan \<rightharpoonup> outbox) \<Rightarrow> bool" where
  "outbox_ok t obs \<longleftrightarrow>
     amt_inv t \<and> (\<forall>ch ob. obs ch = Some ob \<longrightarrow> waits_for t ch (ob_addr ob) \<and> length (ob_packets ob) \<le> maxOutboxSize)"

abbreviation amt_of :: "EtherTalkPort \<Rightarrow> addressMappingTable" where
  "amt_of port \<equiv> ar_amt (et_aarp port)"

abbreviation boxes :: "EtherTalkPort \<Rightarrow> chan \<rightharpoonup> outbox" where
  "boxes port \<equiv> map_of (et_outboxes port)"

definition outbox_inv :: "EtherTalkPort \<Rightarrow> bool" where
  "outbox_inv port \<longleftrightarrow> distinct (map fst (et_outboxes port)) \<and> outbox_ok (amt_of port) (boxes port)"

lemma learn_table:
  "map_of (amt_table (learn now a hw t)) =
     (map_of (amt_table t))(a \<mapsto> \<lparr>am_HWAddr = hw, am_LastUpdated = now, am_updated = amt_made t\<rparr>)"
  "amt_made (learn now a hw t) = Suc (amt_made t)"
  "set (amt_closed (learn now a hw t)) =
     set (amt_closed t) \<union> (case map_of (amt_table t) a of None \<Rightarrow> {} | Some e \<Rightarrow> {am_updated e})"
  by (auto simp: learn_def Let_def update_conv' split: option.splits)

lemma amt_invD:
  assumes "amt_inv t"
  shows "ch \<in> set (amt_closed t) \<Longrightarrow> ch < amt_made t"
    "map_of (amt_table t) a = Some e \<Longrightarrow> am_updated e < amt_made t"
    "map_of (amt_table t) a = Some e \<Longrightarrow> am_updated e \<notin> set (amt_closed t)"
    "map_of (amt_table t) a = Some e \<Longrightarrow> map_of (amt_table t) b = Some f \<Longrightarrow> am_updated e = am_updated f \<Longrightarrow> a = b"
  using assms unfolding amt_inv_def by blast+

lemma amt_inv_learn:
  assumes inv: "amt_inv t"
  shows "amt_inv (learn now a hw t)"
  unfolding amt_inv_def learn_table
proof (intro conjI allI impI ballI)
  fix ch
  assume "ch \<in> set (amt_closed t) \<union> (case map_of (amt_table t) a of None \<Rightarrow> {} | Some e \<Rightarrow> {am_updated e})"
  then show "ch < Suc (amt_made t)"
    using amt_invD(1,2) [OF inv] by (fastforce split: option.splits)
next
  fix b e
  assume "((map_of (amt_table t))(a \<mapsto> \<lparr>am_HWAddr = hw, am_LastUpdated = now, am_updated = amt_made t\<rparr>)) b = Some e"
  then show "am_updated e < Suc (amt_made t)"
    "am_updated e \<notin> set (amt_closed t) \<union> (case map_of (amt_table t) a of None \<Rightarrow> {} | Some e \<Rightarrow> {am_updated e})"
    using amt_invD [OF inv] by (fastforce split: if_splits option.splits)+
next
  fix b c e f
  assume "((map_of (amt_table t))(a \<mapsto> \<lparr>am_HWAddr = hw, am_LastUpdated = now, am_updated = amt_made t\<rparr>)) b = Some e"
    "((map_of (amt_table t))(a \<mapsto> \<lparr>am_HWAddr = hw, am_LastUpdated = now, am_updated = amt_made t\<rparr>)) c = Some f"
    "am_updated e = am_updated f"
  then show "b = c"
    using amt_invD(2) [OF inv, of b e] amt_invD(2) [OF inv, of c f] amt_invD(4) [OF inv, of b e c f]
    by (auto split: if_splits)
qed

lemma waits_for_learn: "waits_for t ch b \<Longrightarrow> waits_for (learn now a hw t) ch b"
  by (auto simp: waits_for_def learn_table split: option.splits)

lemma outbox_ok_learn: "outbox_ok t obs \<Longrightarrow> outbox_ok (learn now a hw t) obs"
  by (auto simp: outbox_ok_def amt_inv_learn waits_for_learn)

text \<open>
  A lookup that has to wait returns the channel of the entry, which is made if there was none.
\<close>

lemma lookup_cases:
  assumes inv: "amt_inv t" and res: "lookupOrWait now a t = ((hw, wait), t')"
  shows "amt_inv t'" "\<And>ch b. waits_for t ch b \<Longrightarrow> waits_for t' ch b"
    "\<And>ch. wait = Some ch \<Longrightarrow> (\<exists>e. map_of (amt_table t') a = Some e \<and> am_updated e = ch)"
proof -
  have "amt_inv t' \<and> (\<forall>ch b. waits_for t ch b \<longrightarrow> waits_for t' ch b) \<and>
      (\<forall>ch. wait = Some ch \<longrightarrow> (\<exists>e. map_of (amt_table t') a = Some e \<and> am_updated e = ch))"
  proof (cases "map_of (amt_table t) a")
    case None
    then have t': "map_of (amt_table t') = (map_of (amt_table t))
        (a \<mapsto> \<lparr>am_HWAddr = replicate 6 0, am_LastUpdated = 0, am_updated = amt_made t\<rparr>)"
      "amt_made t' = Suc (amt_made t)" "amt_closed t' = amt_closed t" "wait = Some (amt_made t)"
      using res by (auto simp: lookupOrWait_def Let_def update_conv')
    have "amt_inv t'"
      using inv unfolding amt_inv_def t' by (fastforce split: if_splits dest: less_irrefl_nat)
    with t' None show ?thesis by (auto simp: waits_for_def)
  next
    case (Some e)
    with res inv show ?thesis by (auto simp: lookupOrWait_def split: if_splits)
  qed
  then show "amt_inv t'" "\<And>ch b. waits_for t ch b \<Longrightarrow> waits_for t' ch b"
    "\<And>ch. wait = Some ch \<Longrightarrow> (\<exists>e. map_of (amt_table t') a = Some e \<and> am_updated e = ch)"
    by blast+
qed


section \<open>Operations\<close>

named_theorems pa_simps

lemma pa_rules [pa_simps]:
  "pa_ret x w = Some (Inr x, w)" "pa_fail e w = Some (Inl e, w)"
  "upd_port f w = Some (Inr (), w\<lparr>pw_port := f (pw_port w)\<rparr>)"
  "with_port g w = g (pw_port w) w" "with_rt h w = h (pw_rt w) w"
  by (simp_all add: pa_ret_def pa_fail_def upd_port_def with_port_def with_rt_def)

lemma pa_bind_Inr [pa_simps]: "m w = Some (Inr x, w') \<Longrightarrow> pa_bind m f w = f x w'"
  by (simp add: pa_bind_def)

text \<open>An operation keeps a property of the port in every outcome.\<close>

definition pkeeps :: "(EtherTalkPort \<Rightarrow> bool) \<Rightarrow> 'a pact \<Rightarrow> bool" where
  "pkeeps P m \<longleftrightarrow> (\<forall>w r w'. P (pw_port w) \<longrightarrow> m w = Some (r, w') \<longrightarrow> P (pw_port w'))"

lemma pkeepsD: "pkeeps P m \<Longrightarrow> m w = Some (r, w') \<Longrightarrow> P (pw_port w) \<Longrightarrow> P (pw_port w')"
  unfolding pkeeps_def by blast

lemma pkeeps_bind: "pkeeps P m \<Longrightarrow> (\<And>x. pkeeps P (f x)) \<Longrightarrow> pkeeps P (pa_bind m f)"
  unfolding pkeeps_def
proof (intro allI impI)
  fix w r w'
  assume m: "\<forall>w r w'. P (pw_port w) \<longrightarrow> m w = Some (r, w') \<longrightarrow> P (pw_port w')"
    and f: "\<And>x. \<forall>w r w'. P (pw_port w) \<longrightarrow> f x w = Some (r, w') \<longrightarrow> P (pw_port w')"
    and w: "P (pw_port w)" "pa_bind m f w = Some (r, w')"
  from w(2) obtain y u where y: "m w = Some (y, u)" by (auto simp: pa_bind_def split: option.splits)
  then have "P (pw_port u)" using m w(1) by blast
  with y w(2) f show "P (pw_port w')" by (cases y) (auto simp: pa_bind_def)
qed

lemma pkeeps_ret [simp]: "pkeeps P (pa_ret x)" "pkeeps P (pa_fail e)"
  by (auto simp: pkeeps_def pa_simps)

lemma pkeeps_each: "(\<And>x. pkeeps P (f x)) \<Longrightarrow> pkeeps P (pa_each f xs)"
  by (induction xs) (auto intro: pkeeps_bind)

lemma pkeeps_ignore: "pkeeps P m \<Longrightarrow> pkeeps P (pa_ignore m)"
  by (fastforce simp: pkeeps_def pa_ignore_def)

lemma pkeeps_with: "(\<And>p. pkeeps P (f p)) \<Longrightarrow> pkeeps P (with_port f)"
  by (simp add: pkeeps_def pa_simps)

lemma pkeeps_write [simp]: "pkeeps P (call_write E port f)"
  by (auto simp: pkeeps_def call_write_def split: prod.splits)

lemma pkeeps_send [simp]: "pkeeps P (port_send E hw pkt)" "pkeeps P (port_request E addr)"
  by (simp_all add: port_send_def port_send_on_def port_request_def pkeeps_with)

lemma lookup_run [pa_simps]:
  "port_lookupOrWait E a w =
     Some (Inr (fst (lookupOrWait (pe_now E) a (amt_of (pw_port w)))),
       w\<lparr>pw_port := upd_amt (\<lambda>_. snd (lookupOrWait (pe_now E) a (amt_of (pw_port w)))) (pw_port w)\<rparr>)"
  by (simp add: port_lookupOrWait_def pa_simps Let_def split: prod.split)

lemma upd_amt_simps [simp]:
  "amt_of (upd_amt f port) = f (amt_of port)" "et_outboxes (upd_amt f port) = et_outboxes port"
  "et_ethernetAddr (upd_amt f port) = et_ethernetAddr port" "et_device (upd_amt f port) = et_device port"
  by (simp_all add: upd_amt_def)

lemma ignore_request_run:
  "\<exists>fs. pa_ignore (port_request E addr) w = Some (Inr (), w\<lparr>pw_frames := fs\<rparr>)"
  by (auto simp: pa_ignore_def port_request_def call_write_def pa_simps split: prod.splits)

text \<open>The outboxes after a packet was put into one.\<close>

definition pushed :: "time \<Rightarrow> ddp_Addr \<Rightarrow> ExtPacket \<Rightarrow> outbox option \<Rightarrow> outbox" where
  "pushed now addr pkt old =
     (case old of
        None \<Rightarrow> \<lparr>ob_packets = [pkt], ob_addr = addr, ob_lastTS = now\<rparr>
      | Some ob \<Rightarrow>
          ob\<lparr>ob_packets := drop (length (ob_packets ob @ [pkt]) - maxOutboxSize) (ob_packets ob @ [pkt]),
             ob_lastTS := now\<rparr>)"

lemma push_run:
  "\<exists>fs ch. outboxPush E waitCh addr pkt w =
     Some (Inr (), w\<lparr>pw_port := (pw_port w)\<lparr>et_outboxes :=
       AList.update waitCh (pushed (pe_now E) addr pkt (boxes (pw_port w) waitCh)) (et_outboxes (pw_port w)),
       et_outboxesChanged := ch\<rparr>, pw_frames := fs\<rparr>)"
proof (cases "boxes (pw_port w) waitCh")
  case None
  obtain fs where fs: "pa_ignore (port_request E addr) (w\<lparr>pw_port := (pw_port w)\<lparr>et_outboxes :=
       AList.update waitCh (pushed (pe_now E) addr pkt None) (et_outboxes (pw_port w))\<rparr>\<rparr>) =
     Some (Inr (), w\<lparr>pw_port := (pw_port w)\<lparr>et_outboxes :=
       AList.update waitCh (pushed (pe_now E) addr pkt None) (et_outboxes (pw_port w))\<rparr>, pw_frames := fs\<rparr>)"
    using ignore_request_run [of E addr "w\<lparr>pw_port := (pw_port w)\<lparr>et_outboxes :=
       AList.update waitCh (pushed (pe_now E) addr pkt None) (et_outboxes (pw_port w))\<rparr>\<rparr>"] by auto
  with None show ?thesis
    by (intro exI [of _ fs] exI [of _ True])
      (simp add: outboxPush_def pa_simps Let_def pushed_def)
next
  case (Some ob)
  then show ?thesis
    by (intro exI [of _ "pw_frames w"] exI [of _ "et_outboxesChanged (pw_port w)"])
      (simp add: outboxPush_def pa_simps Let_def pushed_def)
qed

lemma outbox_ok_push:
  assumes ok: "outbox_ok t obs" and e: "map_of (amt_table t) addr = Some e" "am_updated e = ch"
  shows "outbox_ok t (obs(ch \<mapsto> pushed now addr pkt (obs ch)))"
proof -
  have inv: "amt_inv t" using ok by (simp add: outbox_ok_def)
  have "waits_for t ch addr"
    using e amt_invD(2) [OF inv e(1)] by (auto simp: waits_for_def)
  moreover have "maxOutboxSize \<ge> 1" by (simp add: maxOutboxSize_def)
  ultimately show ?thesis
    using ok by (auto simp: outbox_ok_def pushed_def split: option.splits)
qed

text \<open>All packets of an outbox are for the address it waits for.\<close>

lemma outbox_address:
  assumes ok: "outbox_ok t obs" and e: "map_of (amt_table t) addr = Some e" and ob: "obs (am_updated e) = Some ob"
  shows "ob_addr ob = addr"
proof -
  have inv: "amt_inv t" and "waits_for t (am_updated e) (ob_addr ob)" using ok ob by (auto simp: outbox_ok_def)
  then obtain f where "map_of (amt_table t) (ob_addr ob) = Some f" "am_updated f = am_updated e"
    using amt_invD(3) [OF inv e] by (auto simp: waits_for_def)
  then show ?thesis using amt_invD(4) [OF inv _ e] by blast
qed

lemma pkeeps_sendOrQueue: "pkeeps outbox_inv (sendOrQueue E addr pkt)"
  unfolding pkeeps_def
proof (intro allI impI)
  fix w r w'
  assume inv: "outbox_inv (pw_port w)" and run: "sendOrQueue E addr pkt w = Some (r, w')"
  obtain hw wait t' where l: "lookupOrWait (pe_now E) addr (amt_of (pw_port w)) = ((hw, wait), t')"
    by (metis surj_pair)
  let ?w = "w\<lparr>pw_port := upd_amt (\<lambda>_. t') (pw_port w)\<rparr>"
  from inv have ok: "outbox_ok (amt_of (pw_port w)) (boxes (pw_port w))" by (simp add: outbox_inv_def)
  then have t': "outbox_ok t' (boxes (pw_port w))"
    using lookup_cases [OF _ l] by (auto simp: outbox_ok_def)
  with inv have inv': "outbox_inv (pw_port ?w)" by (simp add: outbox_inv_def)
  show "outbox_inv (pw_port w')"
  proof (cases wait)
    case None
    then have "port_send E hw pkt ?w = Some (r, w')"
      using run l by (simp add: sendOrQueue_def pa_simps)
    then show ?thesis using inv' pkeepsD [OF pkeeps_send(1)] by blast
  next
    case (Some ch)
    then have "outboxPush E ch addr pkt ?w = Some (r, w')"
      using run l by (simp add: sendOrQueue_def pa_simps)
    moreover obtain e where "map_of (amt_table t') addr = Some e" "am_updated e = ch"
      using lookup_cases(3) [OF _ l Some] ok by (auto simp: outbox_ok_def)
    ultimately show ?thesis
      using push_run [of E ch addr pkt ?w] outbox_ok_push [OF t'] inv'
      by (auto simp: outbox_inv_def distinct_update update_conv')
  qed
qed

lemma outbox_ok_remove: "outbox_ok t obs \<Longrightarrow> outbox_ok t (obs(ch := None))"
  by (auto simp: outbox_ok_def)

lemma outbox_inv_delete:
  "outbox_inv port \<Longrightarrow> outbox_inv (port\<lparr>et_outboxes := AList.delete ch (et_outboxes port)\<rparr>)"
  by (simp add: outbox_inv_def distinct_delete delete_conv' outbox_ok_remove)

lemma pkeeps_outboxPop: "pkeeps outbox_inv (outboxPop E ch)"
  unfolding pkeeps_def
proof (intro allI impI)
  fix w r w'
  assume inv: "outbox_inv (pw_port w)" and run: "outboxPop E ch w = Some (r, w')"
  from run obtain ob where ob: "boxes (pw_port w) ch = Some ob"
    by (cases "boxes (pw_port w) ch") (auto simp: outboxPop_def pa_simps)
  let ?p = "(pw_port w)\<lparr>et_outboxes := AList.delete ch (et_outboxes (pw_port w))\<rparr>"
  obtain hw wait t' where l: "lookupOrWait (pe_now E) (ob_addr ob) (amt_of (pw_port w)) = ((hw, wait), t')"
    by (metis surj_pair)
  have p: "outbox_inv ?p" using inv by (rule outbox_inv_delete)
  then have t': "outbox_ok t' (boxes ?p)" and a: "amt_inv (amt_of (pw_port w))"
    using lookup_cases [OF _ l] by (auto simp: outbox_ok_def outbox_inv_def)
  with p have keep: "outbox_inv (upd_amt (\<lambda>_. t') ?p)" by (simp add: outbox_inv_def)
  have again: "outbox_inv ((upd_amt (\<lambda>_. t') ?p)\<lparr>et_outboxes := AList.update new ob (et_outboxes ?p)\<rparr>)"
    if wt: "wait = Some new" for new
  proof -
    obtain e where "map_of (amt_table t') (ob_addr ob) = Some e" "am_updated e = new"
      using lookup_cases(3) [OF a l wt] by blast
    moreover have "length (ob_packets ob) \<le> maxOutboxSize"
      using inv ob by (auto simp: outbox_inv_def outbox_ok_def)
    moreover have "amt_inv t'" using t' by (simp add: outbox_ok_def)
    ultimately have "outbox_ok t' ((boxes ?p)(new \<mapsto> ob))"
      using t' amt_invD(2) [of t' "ob_addr ob" e] by (auto simp: outbox_ok_def waits_for_def)
    with p show ?thesis by (simp add: outbox_inv_def distinct_update update_conv')
  qed
  show "outbox_inv (pw_port w')"
    using run ob l keep again
    by (cases wait) (auto simp: outboxPop_def pa_simps split: if_splits)
qed

lemma pkeeps_turn: "pkeeps outbox_inv (outbox_turn E ch)"
  unfolding outbox_turn_def
  by (rule pkeeps_bind [OF pkeeps_outboxPop]) (auto intro: pkeeps_each split: option.splits prod.splits)

lemma pkeeps_Send: "pkeeps outbox_inv (port_Send E pkt)" "pkeeps outbox_inv (EtherTalkPeer_Forward E a pkt)"
  by (simp_all add: port_Send_def EtherTalkPeer_Forward_def pkeeps_sendOrQueue)

lemma pkeeps_drop:
  "pkeeps outbox_inv (upd_port (\<lambda>port. port\<lparr>et_outboxes := AList.delete ch (et_outboxes port)\<rparr>))"
  by (auto simp: pkeeps_def upd_port_def outbox_inv_delete)

lemma pkeeps_resend: "pkeeps outbox_inv (resendAARPRequests E)"
proof -
  have "pkeeps outbox_inv (resend_loop E obs)" for obs
    by (induction E obs rule: resend_loop.induct)
      (auto intro!: pkeeps_bind pkeeps_drop)
  then show ?thesis by (auto simp: resendAARPRequests_def intro: pkeeps_with)
qed

text \<open>A turn of the AARP machine changes the address mapping table by learning, if at all.\<close>

definition learns :: "addressMappingTable \<Rightarrow> addressMappingTable \<Rightarrow> bool" where
  "learns t t' \<longleftrightarrow> t' = t \<or> (\<exists>now addr hw. t' = learn now addr hw t)"

lemma learns_intros [simp]: "learns t t" "learns t (learn now addr hw t)"
  by (auto simp: learns_def)

lemma aarp_turn_amt:
  assumes "aarp_turn em E ev a fs = Some (a', fs')"
  shows "learns (ar_amt a) (ar_amt a')"
  using assms
  by (cases ev) (auto simp: range_turn_def tick_turn_def frame_turn_def packet_turn_def Let_def learn_turn_def
      Rebind_def assign_address_def reroll_def split: if_splits option.splits sum.splits aarp_Opcode.splits)


section \<open>Reachable ports\<close>

text \<open>
  The steps that touch outboxes or the address mapping table; a frame that arrives teaches the
  address of its sender.
\<close>

inductive outbox_reach :: "port_world \<Rightarrow> bool" where
  port_start: "et_outboxes (pw_port w) = [] \<Longrightarrow> amt_of (pw_port w) = empty_amt \<Longrightarrow> outbox_reach w"
| port_sends: "outbox_reach w \<Longrightarrow> port_Send E pkt w = Some (r, w') \<Longrightarrow> outbox_reach w'"
| port_forwards: "outbox_reach w \<Longrightarrow> EtherTalkPeer_Forward E a pkt w = Some (r, w') \<Longrightarrow> outbox_reach w'"
| port_pops: "outbox_reach w \<Longrightarrow> outbox_turn E ch w = Some (r, w') \<Longrightarrow> outbox_reach w'"
| port_resends: "outbox_reach w \<Longrightarrow> resendAARPRequests E w = Some (r, w') \<Longrightarrow> outbox_reach w'"
| port_aarp:
    "outbox_reach w \<Longrightarrow> aarp_turn em AE ev (et_aarp (pw_port w)) [] = Some (a', fs') \<Longrightarrow>
     outbox_reach (w\<lparr>pw_port := (pw_port w)\<lparr>et_aarp := a'\<rparr>,
       pw_frames := pw_frames w @ map (Pair (et_device (pw_port w))) fs'\<rparr>)"
| port_gleans: "outbox_reach w \<Longrightarrow> outbox_reach (w\<lparr>pw_port := upd_amt (learn now addr hw) (pw_port w)\<rparr>)"

lemma outbox_inv_reach: "outbox_reach w \<Longrightarrow> outbox_inv (pw_port w)"
proof (induction rule: outbox_reach.induct)
  case (port_start w)
  then show ?case by (simp add: outbox_inv_def outbox_ok_def amt_inv_def empty_amt_def)
next
  case (port_aarp w em AE ev a' fs')
  then show ?case using aarp_turn_amt [OF port_aarp(2)] outbox_ok_learn by (auto simp: outbox_inv_def learns_def)
next
  case (port_gleans w now addr hw)
  then show ?case by (simp add: outbox_inv_def outbox_ok_learn)
qed (use pkeepsD [OF pkeeps_Send(1)] pkeepsD [OF pkeeps_Send(2)] pkeepsD [OF pkeeps_turn] pkeepsD [OF pkeeps_resend]
     in \<open>blast+\<close>)



section \<open>Delivery\<close>

text \<open>The packets that wait for an address, and whether a packet for it has to wait.\<close>

definition queued_for :: "ddp_Addr \<Rightarrow> EtherTalkPort \<Rightarrow> ExtPacket list" where
  "queued_for addr port =
     (case map_of (amt_table (amt_of port)) addr of
        None \<Rightarrow> []
      | Some e \<Rightarrow> (case boxes port (am_updated e) of None \<Rightarrow> [] | Some ob \<Rightarrow> ob_packets ob))"

definition must_wait :: "time \<Rightarrow> ddp_Addr \<Rightarrow> addressMappingTable \<Rightarrow> bool" where
  "must_wait now addr t \<longleftrightarrow>
     (case map_of (amt_table t) addr of None \<Rightarrow> True | Some e \<Rightarrow> \<not> AMTEntry_Valid now e)"

definition latest :: "nat \<Rightarrow> 'a list \<Rightarrow> 'a list" where
  "latest n xs = drop (length xs - n) xs"

lemma latest_append: "latest n (latest n xs @ ys) = latest n (xs @ ys)"
proof (cases "length xs \<le> n")
  case False
  then show ?thesis by (simp add: latest_def drop_append add.commute)
qed (simp add: latest_def)

lemma latest_short: "length xs \<le> n \<Longrightarrow> latest n xs = xs"
  by (simp add: latest_def)

text \<open>
  The state in which \<open>qs\<close> wait on the channel \<open>ch\<close> for an address, whatever the time is.
\<close>

definition queue_state :: "ddp_Addr \<Rightarrow> chan \<Rightarrow> AMTEntry \<Rightarrow> ExtPacket list \<Rightarrow> EtherTalkPort \<Rightarrow> bool" where
  "queue_state addr ch e qs port \<longleftrightarrow>
     map_of (amt_table (amt_of port)) addr = Some e \<and> am_updated e = ch \<and>
     (\<exists>ob. boxes port ch = Some ob \<and> ob_addr ob = addr \<and> ob_packets ob = qs)"

lemma send_waits_known:
  assumes e: "map_of (amt_table (amt_of (pw_port w))) addr = Some e" "\<not> AMTEntry_Valid (pe_now E) e"
    and inv: "outbox_inv (pw_port w)"
  shows "\<exists>w'. sendOrQueue E addr pkt w = Some (Inr (), w') \<and>
     queue_state addr (am_updated e) e (latest maxOutboxSize (queued_for addr (pw_port w) @ [pkt])) (pw_port w')"
proof -
  have "lookupOrWait (pe_now E) addr (amt_of (pw_port w)) =
      ((am_HWAddr e, Some (am_updated e)), amt_of (pw_port w))"
    using e by (simp add: lookupOrWait_def)
  moreover have "upd_amt (\<lambda>_. amt_of (pw_port w)) (pw_port w) = pw_port w" by (simp add: upd_amt_def)
  ultimately have "sendOrQueue E addr pkt w = outboxPush E (am_updated e) addr pkt w"
    by (simp add: sendOrQueue_def pa_simps)
  moreover have "ob_addr ob = addr" if "boxes (pw_port w) (am_updated e) = Some ob" for ob
    using outbox_address [of _ _ addr e ob] e(1) that inv by (auto simp: outbox_inv_def)
  moreover have "1 \<le> maxOutboxSize" by (simp add: maxOutboxSize_def)
  ultimately show ?thesis
    using push_run [of E "am_updated e" addr pkt w] e(1)
    by (auto simp: queue_state_def update_conv' pushed_def queued_for_def latest_def split: option.splits)
qed

lemma send_waits_new:
  assumes e: "map_of (amt_table (amt_of (pw_port w))) addr = None" and inv: "outbox_inv (pw_port w)"
  shows "\<exists>w' e. sendOrQueue E addr pkt w = Some (Inr (), w') \<and> am_LastUpdated e = 0 \<and>
     queue_state addr (am_updated e) e (latest maxOutboxSize (queued_for addr (pw_port w) @ [pkt])) (pw_port w')"
proof -
  let ?t = "amt_of (pw_port w)"
  let ?e = "\<lparr>am_HWAddr = replicate 6 0, am_LastUpdated = 0, am_updated = amt_made ?t\<rparr>"
  let ?w = "w\<lparr>pw_port := upd_amt (\<lambda>_. snd (lookupOrWait (pe_now E) addr ?t)) (pw_port w)\<rparr>"
  have "sendOrQueue E addr pkt w = outboxPush E (amt_made ?t) addr pkt ?w"
    using e by (simp add: sendOrQueue_def pa_simps) (simp add: lookupOrWait_def Let_def)
  moreover have none: "boxes (pw_port w) (amt_made ?t) = None"
  proof (rule ccontr)
    assume "boxes (pw_port w) (amt_made ?t) \<noteq> None"
    then obtain ob where "boxes (pw_port w) (amt_made ?t) = Some ob" by blast
    then have "waits_for ?t (amt_made ?t) (ob_addr ob)" using inv by (simp add: outbox_inv_def outbox_ok_def)
    then show False by (simp add: waits_for_def)
  qed
  moreover have tab: "map_of (amt_table (snd (lookupOrWait (pe_now E) addr ?t))) addr = Some ?e"
    using e by (simp add: lookupOrWait_def Let_def update_conv')
  moreover obtain fs c where "outboxPush E (amt_made ?t) addr pkt ?w =
     Some (Inr (), ?w\<lparr>pw_port := (pw_port ?w)\<lparr>et_outboxes :=
       AList.update (amt_made ?t) (pushed (pe_now E) addr pkt (boxes (pw_port ?w) (amt_made ?t)))
         (et_outboxes (pw_port ?w)), et_outboxesChanged := c\<rparr>, pw_frames := fs\<rparr>)" (is "_ = Some (_, ?w')")
    using push_run [of E "amt_made ?t" addr pkt ?w] by blast
  moreover have "queue_state addr (am_updated ?e) ?e [pkt] (pw_port ?w')"
    using none tab by (simp add: queue_state_def update_conv' pushed_def)
  moreover have "latest maxOutboxSize (queued_for addr (pw_port w) @ [pkt]) = [pkt]"
    using e by (simp add: latest_def queued_for_def maxOutboxSize_def)
  ultimately show ?thesis by (intro exI [of _ ?w'] exI [of _ ?e]) simp
qed

lemma queue_state_queued: "queue_state addr ch e qs port \<Longrightarrow> queued_for addr port = qs"
  by (auto simp: queue_state_def queued_for_def)

abbreviation send_each :: "ddp_Addr \<Rightarrow> (port_env \<times> ExtPacket) list \<Rightarrow> unit pact" where
  "send_each addr \<equiv> pa_each (\<lambda>(E, pkt). sendOrQueue E addr pkt)"

lemma sends_wait:
  assumes "queue_state addr ch e qs (pw_port w)" "outbox_inv (pw_port w)"
    and "\<forall>(E, p)\<in>set eps. \<not> AMTEntry_Valid (pe_now E) e"
  shows "\<exists>w'. send_each addr eps w = Some (Inr (), w') \<and>
     queue_state addr ch e (latest maxOutboxSize (qs @ map snd eps)) (pw_port w')"
  using assms
proof (induction eps arbitrary: w qs)
  case Nil
  then have "length qs \<le> maxOutboxSize"
    by (auto simp: queue_state_def outbox_inv_def outbox_ok_def)
  with Nil show ?case by (simp add: pa_simps latest_short)
next
  case (Cons x eps)
  obtain E p where x: "x = (E, p)" by fastforce
  from Cons.prems(1) have e: "map_of (amt_table (amt_of (pw_port w))) addr = Some e" "am_updated e = ch"
    by (auto simp: queue_state_def)
  obtain u where u: "sendOrQueue E addr p w = Some (Inr (), u)"
    and q: "queue_state addr ch e (latest maxOutboxSize (qs @ [p])) (pw_port u)"
    using send_waits_known [OF e(1) _ Cons.prems(2), of E p] e(2) Cons.prems(3) x
      queue_state_queued [OF Cons.prems(1)] by auto
  have "outbox_inv (pw_port u)" using pkeepsD [OF pkeeps_sendOrQueue u] Cons.prems(2) by blast
  from Cons.IH [OF q this] Cons.prems(3) obtain w' where
    "send_each addr eps u = Some (Inr (), w')"
    "queue_state addr ch e (latest maxOutboxSize (latest maxOutboxSize (qs @ [p]) @ map snd eps)) (pw_port w')"
    by auto
  with u x show ?case by (auto simp: latest_append pa_bind_def)
qed

lemma zero_entry_invalid: "am_LastUpdated e = 0 \<Longrightarrow> \<not> AMTEntry_Valid now e"
  by (simp add: AMTEntry_Valid_def time_Since_def maxAMTEntryAge_def)

lemma all_sends_wait:
  assumes inv: "outbox_inv (pw_port w)" and ne: "eps \<noteq> []"
    and wt: "\<forall>(E, p)\<in>set eps. must_wait (pe_now E) addr (amt_of (pw_port w))"
  shows "\<exists>w' e. send_each addr eps w = Some (Inr (), w') \<and>
     queue_state addr (am_updated e) e
       (latest maxOutboxSize (queued_for addr (pw_port w) @ map snd eps)) (pw_port w')"
proof -
  obtain E p rest where eps: "eps = (E, p) # rest" using ne by (cases eps) auto
  have "\<exists>u e. sendOrQueue E addr p w = Some (Inr (), u) \<and> (\<forall>(E, p)\<in>set rest. \<not> AMTEntry_Valid (pe_now E) e) \<and>
     queue_state addr (am_updated e) e (latest maxOutboxSize (queued_for addr (pw_port w) @ [p])) (pw_port u)"
  proof (cases "map_of (amt_table (amt_of (pw_port w))) addr")
    case None
    from send_waits_new [OF None inv, of E p] obtain u e where
      "sendOrQueue E addr p w = Some (Inr (), u)" "am_LastUpdated e = 0"
      "queue_state addr (am_updated e) e (latest maxOutboxSize (queued_for addr (pw_port w) @ [p])) (pw_port u)"
      by blast
    then show ?thesis by (intro exI [of _ u] exI [of _ e]) (simp add: zero_entry_invalid split_beta)
  next
    case (Some e)
    have "\<forall>(E, p)\<in>set eps. \<not> AMTEntry_Valid (pe_now E) e" using wt Some by (simp add: must_wait_def)
    then show ?thesis using send_waits_known [OF Some _ inv, of E p] eps by auto
  qed
  then obtain u e where u: "sendOrQueue E addr p w = Some (Inr (), u)"
    and r: "\<forall>(E, p)\<in>set rest. \<not> AMTEntry_Valid (pe_now E) e"
    and q: "queue_state addr (am_updated e) e (latest maxOutboxSize (queued_for addr (pw_port w) @ [p])) (pw_port u)"
    by blast
  have "outbox_inv (pw_port u)" using pkeepsD [OF pkeeps_sendOrQueue u] inv by blast
  from sends_wait [OF q this r] obtain w' where
    "send_each addr rest u = Some (Inr (), w')"
    "queue_state addr (am_updated e) e
       (latest maxOutboxSize (latest maxOutboxSize (queued_for addr (pw_port w) @ [p]) @ map snd rest)) (pw_port w')"
    by blast
  with u eps show ?thesis by (auto simp: latest_append pa_bind_def)
qed

text \<open>Sending changes neither the hardware address of the port nor anything but the frames.\<close>

lemma pkeeps_eth: "pkeeps (\<lambda>port. et_ethernetAddr port = src \<and> et_device port = dev) (sendOrQueue E addr pkt)"
proof -
  let ?P = "\<lambda>port. et_ethernetAddr port = src \<and> et_device port = dev"
  have "pkeeps ?P (port_lookupOrWait E addr)"
    by (simp add: pkeeps_def pa_simps)
  moreover have "pkeeps ?P (outboxPush E ch addr pkt)" for ch
    unfolding pkeeps_def
  proof (intro allI impI)
    fix w r w'
    assume "?P (pw_port w)" "outboxPush E ch addr pkt w = Some (r, w')"
    then show "?P (pw_port w')" using push_run [of E ch addr pkt w] by auto
  qed
  ultimately show ?thesis
    unfolding sendOrQueue_def by (auto intro!: pkeeps_bind split: option.split)
qed

definition port_frame :: "ethertalk_module \<Rightarrow> hwaddr \<Rightarrow> hwaddr \<Rightarrow> ExtPacket \<Rightarrow> byte list option" where
  "port_frame em src dst pkt =
     (case et_AppleTalk em src pkt of
        Inl e \<Rightarrow> None
      | Inr f \<Rightarrow> (case et_Marshal em (f\<lparr>fr_Dst := dst\<rparr>) of Inl e \<Rightarrow> None | Inr raw \<Rightarrow> Some (pad_frame raw)))"

lemma send_run:
  assumes "port_frame (pe_em E) (et_ethernetAddr (pw_port w)) dst pkt = Some raw" "\<forall>fs. pe_write E fs = None"
  shows "port_send E dst pkt w = Some (Inr (), w\<lparr>pw_frames := pw_frames w @ [(et_device (pw_port w), raw)]\<rparr>)"
  using assms
  by (auto simp: port_frame_def port_send_def port_send_on_def call_write_def write_frame_def Let_def pa_simps
      split: sum.splits)

lemma sends_run:
  assumes "\<forall>p\<in>set ps. port_frame (pe_em E) (et_ethernetAddr (pw_port w)) dst p = Some (raw p)"
    "\<forall>fs. pe_write E fs = None"
  shows "pa_each (port_send E dst) ps w = Some (Inr (), w\<lparr>pw_frames := pw_frames w @ map (\<lambda>p. (et_device (pw_port w), raw p)) ps\<rparr>)"
  using assms by (induction ps arbitrary: w) (auto simp: pa_simps send_run pa_bind_def)

lemma learned_turn:
  assumes q: "queue_state addr ch e qs (pw_port w)"
    and fr: "\<forall>p\<in>set qs. port_frame (pe_em E) (et_ethernetAddr (pw_port w)) hw p = Some (raw p)"
    and wr: "\<forall>fs. pe_write E fs = None"
    and t: "0 < t" "pe_now E - t < maxAMTEntryAge"
  shows "ch \<in> set (amt_closed (learn t addr hw (amt_of (pw_port w))))"
    and "\<exists>w'. outbox_turn E ch (w\<lparr>pw_port := upd_amt (learn t addr hw) (pw_port w)\<rparr>) = Some (Inr (), w') \<and>
       pw_frames w' = pw_frames w @ map (\<lambda>p. (et_device (pw_port w), raw p)) qs \<and> boxes (pw_port w') ch = None"
proof -
  from q show "ch \<in> set (amt_closed (learn t addr hw (amt_of (pw_port w))))"
    by (auto simp: queue_state_def learn_table)
  let ?t = "learn t addr hw (amt_of (pw_port w))"
  let ?w = "w\<lparr>pw_port := upd_amt (learn t addr hw) (pw_port w)\<rparr>"
  have l: "lookupOrWait (pe_now E) addr ?t = ((hw, None), ?t)"
    using t by (simp add: lookupOrWait_def learn_table AMTEntry_Valid_def time_Since_def)
  show "\<exists>w'. outbox_turn E ch ?w = Some (Inr (), w') \<and>
       pw_frames w' = pw_frames w @ map (\<lambda>p. (et_device (pw_port w), raw p)) qs \<and> boxes (pw_port w') ch = None"
  proof -
    obtain ob where ob: "boxes (pw_port w) ch = Some ob" "ob_addr ob = addr" "ob_packets ob = qs"
      using q by (auto simp: queue_state_def)
    let ?p = "(upd_amt (learn t addr hw) (pw_port w))\<lparr>et_outboxes := AList.delete ch (et_outboxes (pw_port w))\<rparr>"
    have "outboxPop E ch ?w = Some (Inr (Some ob, hw), w\<lparr>pw_port := upd_amt (\<lambda>_. ?t) ?p\<rparr>)"
      using ob l by (simp add: outboxPop_def pa_simps)
    then have "outbox_turn E ch ?w = pa_each (port_send E hw) qs (w\<lparr>pw_port := upd_amt (\<lambda>_. ?t) ?p\<rparr>)"
      using ob by (simp add: outbox_turn_def pa_simps)
    also have "\<dots> = Some (Inr (), w\<lparr>pw_port := upd_amt (\<lambda>_. ?t) ?p, 
        pw_frames := pw_frames w @ map (\<lambda>p. (et_device (pw_port w), raw p)) qs\<rparr>)"
      using sends_run [of qs E "w\<lparr>pw_port := upd_amt (\<lambda>_. ?t) ?p\<rparr>" hw raw] fr wr by simp
    finally show ?thesis by (simp add: delete_conv')
  qed
qed


section \<open>Properties\<close>

text \<open>
  No packet is forgotten in an outbox: in every state a port can reach, an outbox holds at most
  a thousand packets, and either the channel it waits on is closed already or the next time its
  address is learned closes it.
\<close>

theorem outbox_never_stranded:
  assumes "outbox_reach w" "map_of (et_outboxes (pw_port w)) ch = Some ob"
  shows "length (ob_packets ob) \<le> maxOutboxSize \<and>
    ch \<in> set (amt_closed (learn now (ob_addr ob) hw (ar_amt (et_aarp (pw_port w)))))"
proof -
  have "waits_for (amt_of (pw_port w)) ch (ob_addr ob)" "length (ob_packets ob) \<le> maxOutboxSize"
    using outbox_inv_reach [OF assms(1)] assms(2) by (auto simp: outbox_inv_def outbox_ok_def)
  then show ?thesis by (auto simp: waits_for_def learn_table)
qed

definition sample_protos :: ddp_protos where
  "sample_protos =
     \<lparr>ProtoRTMPResp = 1, ProtoATP = 3, ProtoAEP = 4, ProtoRTMPReq = 5, ProtoZIP = 6, ExtUnmarshal = (\<lambda>_. Inl ''short'')\<rparr>"

definition sample_port_env :: port_env where
  "sample_port_env =
     \<lparr>pe_now = 7, pe_em = sample_em, pe_ddp = sample_ddp, pe_protos = sample_protos, pe_cfg = None,
      pe_NameVersion = ''r'', pe_ports = [], pe_write = (\<lambda>_. None), pe_fwd = (\<lambda>_ _. None)\<rparr>"

definition sample_port_world :: port_world where
  "sample_port_world =
     \<lparr>pw_port = NewEtherTalkPort ''eth0'' [1, 2, 3, 4, 5, 6] 3 5 ''z'' [''z''] SeedModeHard 0,
      pw_rt = NewRouteTable, pw_loops = empty_registry, pw_frames = [], pw_sent = [], pw_notes = []\<rparr>"

lemma sample_port_reach: "outbox_reach sample_port_world"
  by (rule port_start)
    (simp_all add: sample_port_world_def NewEtherTalkPort_def NewAARPMachine_def setCableRange_def Let_def)

text \<open>
  C24: Packets for an address that has to be resolved are delivered once it is: they are queued
  behind those that wait for it already, learning the address closes the channel of the outbox, and
  the turn of the loop that follows sends the latest thousand of them to the learned hardware
  address, each once and in the order they came, and removes the outbox.
\<close>

theorem queued_packets_delivered:
  fixes raw :: "ExtPacket \<Rightarrow> byte list"
  assumes "outbox_reach w" "eps \<noteq> []"
    and "\<forall>(E, p)\<in>set eps. must_wait (pe_now E) addr (ar_amt (et_aarp (pw_port w)))"
    and "\<forall>p. port_frame (pe_em E') (et_ethernetAddr (pw_port w)) hw p = Some (raw p)"
    and "\<forall>fs. pe_write E' fs = None"
    and "0 < t" "pe_now E' - t < maxAMTEntryAge"
  shows "\<exists>w1 ch w2.
    pa_each (\<lambda>(E, p). sendOrQueue E addr p) eps w = Some (Inr (), w1) \<and>
    ch \<in> set (amt_closed (learn t addr hw (ar_amt (et_aarp (pw_port w1))))) \<and>
    outbox_turn E' ch (w1\<lparr>pw_port := upd_amt (learn t addr hw) (pw_port w1)\<rparr>) = Some (Inr (), w2) \<and>
    pw_frames w2 = pw_frames w1 @
      map (\<lambda>p. (et_device (pw_port w), raw p))
        (latest maxOutboxSize (queued_for addr (pw_port w) @ map snd eps)) \<and>
    map_of (et_outboxes (pw_port w2)) ch = None"
proof -
  have inv: "outbox_inv (pw_port w)" using assms(1) by (rule outbox_inv_reach)
  obtain w1 e where w1: "send_each addr eps w = Some (Inr (), w1)"
    and q: "queue_state addr (am_updated e) e
       (latest maxOutboxSize (queued_for addr (pw_port w) @ map snd eps)) (pw_port w1)"
    using all_sends_wait [OF inv assms(2,3)] by blast
  have k: "pkeeps (\<lambda>port. et_ethernetAddr port = et_ethernetAddr (pw_port w) \<and> et_device port = et_device (pw_port w))
      (send_each addr eps)"
    by (rule pkeeps_each) (simp add: pkeeps_eth split_beta)
  have same: "et_ethernetAddr (pw_port w1) = et_ethernetAddr (pw_port w)" "et_device (pw_port w1) = et_device (pw_port w)"
    using pkeepsD [OF k w1] by blast+
  then have "\<forall>p\<in>set (latest maxOutboxSize (queued_for addr (pw_port w) @ map snd eps)).
      port_frame (pe_em E') (et_ethernetAddr (pw_port w1)) hw p = Some (raw p)"
    using assms(4) by simp
  from learned_turn [OF q this assms(5-7)] w1 same(2) show ?thesis by auto
qed


theorem queued_packets_delivered_witness:
  "\<exists>w1 ch w2.
    pa_each (\<lambda>(E, p). sendOrQueue E \<lparr>ad_Network = 3, ad_Node = 9\<rparr> p)
      [(sample_port_env, sample_datagram), (sample_port_env, sample_datagram)] sample_port_world = Some (Inr (), w1) \<and>
    outbox_turn sample_port_env ch
      (w1\<lparr>pw_port := upd_amt (learn 6 \<lparr>ad_Network = 3, ad_Node = 9\<rparr> [6, 5, 4, 3, 2, 1]) (pw_port w1)\<rparr>) = Some (Inr (), w2) \<and>
    length (pw_frames w2) = length (pw_frames w1) + 2"
proof -
  let ?a = "\<lparr>ad_Network = 3, ad_Node = 9\<rparr> :: ddp_Addr"
  let ?raw = "\<lambda>p. pad_frame ([6, 5, 4, 3, 2, 1] @ [1, 2, 3, 4, 5, 6] @ dd_Data p)"
  have eth: "et_ethernetAddr (pw_port sample_port_world) = [1, 2, 3, 4, 5, 6]"
    and amt: "amt_of (pw_port sample_port_world) = empty_amt"
    by (simp_all add: sample_port_world_def NewEtherTalkPort_def NewAARPMachine_def setCableRange_def Let_def)
  let ?eps = "[(sample_port_env, sample_datagram), (sample_port_env, sample_datagram)]"
  have fr: "\<forall>p. port_frame (pe_em sample_port_env) (et_ethernetAddr (pw_port sample_port_world)) [6, 5, 4, 3, 2, 1] p =
      Some (?raw p)"
    unfolding eth by (simp add: port_frame_def sample_port_env_def sample_em_def)
  have wt: "\<forall>(E, p)\<in>set ?eps. must_wait (pe_now E) ?a (amt_of (pw_port sample_port_world))"
    by (simp add: must_wait_def amt empty_amt_def)
  have wr: "\<forall>fs. pe_write sample_port_env fs = None" and t: "pe_now sample_port_env - 6 < maxAMTEntryAge"
    by (simp_all add: sample_port_env_def maxAMTEntryAge_def)
  have n: "length (latest maxOutboxSize (queued_for ?a (pw_port sample_port_world) @ map snd ?eps)) = 2"
    by (simp add: queued_for_def amt empty_amt_def latest_def maxOutboxSize_def)
  obtain w1 ch w2 where w: "pa_each (\<lambda>(E, p). sendOrQueue E ?a p) ?eps sample_port_world = Some (Inr (), w1)"
    "outbox_turn sample_port_env ch
       (w1\<lparr>pw_port := upd_amt (learn 6 ?a [6, 5, 4, 3, 2, 1]) (pw_port w1)\<rparr>) = Some (Inr (), w2)"
    and fs: "pw_frames w2 = pw_frames w1 @ map (\<lambda>p. (et_device (pw_port sample_port_world), ?raw p)) (latest maxOutboxSize (queued_for ?a (pw_port sample_port_world) @ map snd ?eps))"
    using queued_packets_delivered [OF sample_port_reach _ wt fr wr _ t] by auto
  have "length (pw_frames w2) = length (pw_frames w1) + 2" unfolding fs length_append length_map n ..
  with w show ?thesis by blast
qed

theorem outbox_never_stranded_witness:
  "\<exists>w1 ch ob. sendOrQueue sample_port_env \<lparr>ad_Network = 3, ad_Node = 9\<rparr> sample_datagram sample_port_world = Some (Inr (), w1) \<and>
     map_of (et_outboxes (pw_port w1)) ch = Some ob \<and> ob_packets ob = [sample_datagram] \<and>
     ch \<in> set (amt_closed (learn 6 (ob_addr ob) [] (ar_amt (et_aarp (pw_port w1)))))"
proof -
  let ?a = "\<lparr>ad_Network = 3, ad_Node = 9\<rparr> :: ddp_Addr"
  have t: "amt_of (pw_port sample_port_world) = empty_amt"
    by (simp add: sample_port_world_def NewEtherTalkPort_def NewAARPMachine_def setCableRange_def Let_def)
  then have a: "map_of (amt_table (amt_of (pw_port sample_port_world))) ?a = None"
    by (simp add: empty_amt_def)
  obtain w1 e where w1: "sendOrQueue sample_port_env ?a sample_datagram sample_port_world = Some (Inr (), w1)"
    "queue_state ?a (am_updated e) e (latest maxOutboxSize (queued_for ?a (pw_port sample_port_world) @ [sample_datagram]))
       (pw_port w1)"
    using send_waits_new [OF a outbox_inv_reach [OF sample_port_reach]] by blast
  then obtain ob where ob: "map_of (et_outboxes (pw_port w1)) (am_updated e) = Some ob" "ob_packets ob = [sample_datagram]"
    using a by (auto simp: queue_state_def queued_for_def latest_def maxOutboxSize_def)
  have "outbox_reach w1"
    using port_forwards [OF sample_port_reach, of sample_port_env ?a sample_datagram] w1(1)
    by (simp add: EtherTalkPeer_Forward_def)
  from outbox_never_stranded [OF this ob(1)] w1(1) ob show ?thesis by blast
qed

end
