(* ===== verification/RtmpProps.thy ===== *)
theory RtmpProps
  imports Rtmp Outbox
begin

text \<open>
  What RTMP on a port guarantees: the advertisements cover exactly the valid routes that do not lead
  back to the port, in packets that fit, and a neighbour's Data packet changes the route table by
  exactly its tuples.
\<close>

section \<open>Packets\<close>

lemma rtmp_chunks_concat: "concat (map tl (rtmp_chunks first rem)) = rem"
proof (induction first rem rule: rtmp_chunks.induct)
  case (1 first rem)
  with tuples.fit_rest [of 10 rem] show ?case
    by (subst rtmp_chunks.simps) (simp add: Let_def)
qed

lemma rtmp_chunks_each:
  "c \<in> set (rtmp_chunks first rem) \<Longrightarrow>
   \<exists>ts. c = first # ts \<and> 10 + sum_list (map rtmp_NetworkTuple_Size ts) \<le> DDPMaxDataSize"
proof (induction first rem rule: rtmp_chunks.induct)
  case (1 first rem)
  from 1(2) consider "c = first # fitting 10 rem" | "rem \<noteq> []" "c \<in> set (rtmp_chunks first (drop (length (fitting 10 rem)) rem))"
    unfolding rtmp_chunks.simps [of first rem] by (auto simp: Let_def split: if_splits)
  then show ?case
    using 1(1) tuples.fit_size [of 10 rem] by cases auto
qed

lemma length_tuple_bytes: "length (rtmp_tuple_bytes nt) = rtmp_NetworkTuple_Size nt"
  by (simp add: rtmp_tuple_bytes_def rtmp_NetworkTuple_Size_def)

lemma length_data_packet:
  assumes "dp_Extended dp"
  shows "\<exists>body. rtmp_DataPacket_Marshal dp = Inr body \<and>
     length body = 4 + sum_list (map rtmp_NetworkTuple_Size (dp_NetworkTuples dp))"
  using assms by (simp add: rtmp_DataPacket_Marshal_def length_concat comp_def length_tuple_bytes)


section \<open>Clusters\<close>

abbreviation adv :: "bool \<Rightarrow> Route \<Rightarrow> byte" where
  "adv hop r \<equiv> rtmpAdvertisedDistance r hop"

definition cluster_ok :: "AURPConfig \<Rightarrow> bool \<Rightarrow> Route set \<Rightarrow> network \<Rightarrow> clusterState \<Rightarrow> bool" where
  "cluster_ok cfg hop rs k st \<longleftrightarrow>
     cs_rule st \<in> set (Clusters cfg) \<and> cl_Start (cs_rule st) = k \<and> cs_members st \<noteq> [] \<and>
     (\<forall>m \<in> set (cs_members st). m \<in> rs \<and> ro_Kind (Route_RouteOrigin m) = RouteOriginAURP \<and>
        cl_containsRoute (cs_rule st) m \<and> cs_distance st \<le> adv hop m) \<and>
     (\<exists>m \<in> set (cs_members st). cs_distance st = adv hop m)"

lemma cluster_ok_mono: "cluster_ok cfg hop rs k st \<Longrightarrow> rs \<subseteq> rs' \<Longrightarrow> cluster_ok cfg hop rs' k st"
  unfolding cluster_ok_def by blast

lemma join_new:
  assumes "rule \<in> set (Clusters cfg)" "cl_containsRoute rule r" "r \<in> rs" "ro_Kind (Route_RouteOrigin r) = RouteOriginAURP"
  shows "cluster_ok cfg hop rs (cl_Start rule) (join_cluster rt hop rule r None)"
  using assms by (simp add: cluster_ok_def join_cluster_def Let_def)

lemma join_old:
  assumes ok: "cluster_ok cfg hop rs (cl_Start rule) st" and r: "cl_containsRoute (cs_rule st) r" "r \<in> rs"
    "ro_Kind (Route_RouteOrigin r) = RouteOriginAURP"
  shows "cluster_ok cfg hop rs (cl_Start rule) (join_cluster rt hop rule r (Some st))"
proof (cases "adv hop r < cs_distance st")
  case True
  with ok r show ?thesis by (fastforce simp: cluster_ok_def join_cluster_def Let_def)
next
  case False
  with ok r show ?thesis by (auto simp: cluster_ok_def join_cluster_def Let_def)
qed

definition grouped :: "AURPConfig \<Rightarrow> bool \<Rightarrow> Route set \<Rightarrow> (network \<times> clusterState) list \<times> Route list \<Rightarrow> bool" where
  "grouped cfg hop rs g \<longleftrightarrow>
     distinct (map fst (fst g)) \<and>
     (\<forall>k st. map_of (fst g) k = Some st \<longrightarrow> cluster_ok cfg hop rs k st) \<and>
     set (snd g) \<subseteq> rs \<and>
     (\<forall>r \<in> rs. r \<in> set (snd g) \<or> (\<exists>k st. map_of (fst g) k = Some st \<and> r \<in> set (cs_members st)))"

lemma join_members:
  "set (cs_members (join_cluster rt hop rule r old)) =
     insert r (case old of None \<Rightarrow> {} | Some st \<Rightarrow> set (cs_members st))"
  by (auto simp: join_cluster_def Let_def split: option.split)

lemma grouped_step:
  assumes g: "grouped cfg hop rs g" and d: "distinct (map cl_Start (Clusters cfg))"
  shows "grouped cfg hop (insert r rs) (cluster_route rt cfg hop r g)"
proof (cases "if ro_Kind (Route_RouteOrigin r) = RouteOriginAURP
     then find (\<lambda>rule. cl_containsRoute rule r) (Clusters cfg) else None")
  case None
  have old: "cluster_ok cfg hop (insert r rs) k st" if "map_of (fst g) k = Some st" for k st
    using g that cluster_ok_mono [of cfg hop rs k st "insert r rs"] by (auto simp: grouped_def)
  from None g old show ?thesis
    unfolding cluster_route_def grouped_def by auto
next
  case (Some rule)
  then have rule: "rule \<in> set (Clusters cfg)" "cl_containsRoute rule r" "ro_Kind (Route_RouteOrigin r) = RouteOriginAURP"
    by (auto simp: find_Some_iff split: if_splits)
  let ?old = "map_of (fst g) (cl_Start rule)"
  let ?st = "join_cluster rt hop rule r ?old"
  have old: "cluster_ok cfg hop (insert r rs) k st" if "map_of (fst g) k = Some st" for k st
    using g that cluster_ok_mono [of cfg hop rs k st "insert r rs"] by (auto simp: grouped_def)
  have st: "cluster_ok cfg hop (insert r rs) (cl_Start rule) ?st"
  proof (cases ?old)
    case None
    with rule show ?thesis by (simp add: join_new)
  next
    case (Some st)
    from old [OF Some] have "cs_rule st = rule"
      using rule(1) d by (auto simp: cluster_ok_def distinct_map inj_on_def)
    with Some rule old show ?thesis by (simp add: join_old)
  qed
  have eq: "cluster_route rt cfg hop r g = (AList.update (cl_Start rule) ?st (fst g), snd g)"
    using Some by (simp add: cluster_route_def)
  have in_st: "x \<in> set (cs_members ?st)" if "x = r \<or> (\<exists>st. ?old = Some st \<and> x \<in> set (cs_members st))" for x
    using that by (auto simp: join_members)
  show ?thesis
    unfolding grouped_def eq fst_conv snd_conv
  proof (intro conjI allI impI ballI)
    show "distinct (map fst (AList.update (cl_Start rule) ?st (fst g)))"
      using g by (simp add: grouped_def distinct_update)
    show "set (snd g) \<subseteq> insert r rs" using g by (auto simp: grouped_def)
  next
    fix k s
    assume "map_of (AList.update (cl_Start rule) ?st (fst g)) k = Some s"
    then show "cluster_ok cfg hop (insert r rs) k s"
      using st old by (auto simp: update_conv' split: if_splits)
  next
    fix x
    assume x: "x \<in> insert r rs"
    show "x \<in> set (snd g) \<or> (\<exists>k s. map_of (AList.update (cl_Start rule) ?st (fst g)) k = Some s \<and> x \<in> set (cs_members s))"
    proof (cases "x = r \<or> (\<exists>st. ?old = Some st \<and> x \<in> set (cs_members st))")
      case True
      then show ?thesis using in_st by (intro disjI2 exI [of _ "cl_Start rule"] exI [of _ ?st]) (simp add: update_conv')
    next
      case False
      with x g consider "x \<in> set (snd g)" | k s where "map_of (fst g) k = Some s" "x \<in> set (cs_members s)"
        unfolding grouped_def by blast
      then show ?thesis
      proof cases
        case 2
        with False have "k \<noteq> cl_Start rule" by auto
        with 2 show ?thesis by (intro disjI2 exI [of _ k] exI [of _ s]) (simp add: update_conv')
      qed blast
    qed
  qed
qed

lemma grouped_fold:
  assumes "distinct (map cl_Start (Clusters cfg))"
  shows "grouped cfg hop rs g \<Longrightarrow> grouped cfg hop (rs \<union> set routes) (fold (cluster_route rt cfg hop) routes g)"
proof (induction routes arbitrary: rs g)
  case (Cons r routes)
  from Cons.IH [OF grouped_step [OF Cons.prems assms, of r rt]] show ?case by simp
qed simp


text \<open>Every route is covered by a tuple that is not further away, and every tuple stands for a route.\<close>

definition covers_route :: "bool \<Rightarrow> rtmp_NetworkTuple \<Rightarrow> Route \<Rightarrow> bool" where
  "covers_route hop t r \<longleftrightarrow>
     rnt_RangeStart t \<le> r_NetStart r \<and> r_NetEnd r \<le> rnt_RangeEnd t \<and> rnt_Distance t \<le> adv hop r"

definition stands_for :: "AURPConfig \<Rightarrow> bool \<Rightarrow> rtmp_NetworkTuple \<Rightarrow> Route \<Rightarrow> bool" where
  "stands_for cfg hop t r \<longleftrightarrow>
     t = route_tuple hop r \<or>
     ro_Kind (Route_RouteOrigin r) = RouteOriginAURP \<and> rnt_Distance t = adv hop r \<and> rnt_Extended t \<and>
     (\<exists>c \<in> set (Clusters cfg). cl_containsRoute c r \<and> rnt_RangeStart t = cl_Start c \<and> rnt_RangeEnd t = cl_End c)"

lemma route_tuple_covers: "covers_route hop (route_tuple hop r) r"
  by (simp add: covers_route_def route_tuple_def)

lemma cluster_covers:
  assumes ok: "cluster_ok cfg hop rs k st" and m: "m \<in> set (cs_members st)"
  shows "\<exists>t \<in> set (cluster_tuples hop st). covers_route hop t m"
proof (cases "length (cs_zones st) > 255")
  case True
  with m show ?thesis using route_tuple_covers by (auto simp: cluster_tuples_def)
next
  case False
  with ok m show ?thesis by (auto simp: cluster_tuples_def cluster_ok_def covers_route_def cl_containsRoute_def)
qed

lemma cluster_stands:
  assumes ok: "cluster_ok cfg hop rs k st" and t: "t \<in> set (cluster_tuples hop st)"
  shows "\<exists>r \<in> rs. stands_for cfg hop t r"
proof (cases "length (cs_zones st) > 255")
  case True
  with ok t show ?thesis by (auto simp: cluster_tuples_def cluster_ok_def stands_for_def)
next
  case False
  obtain m where "m \<in> set (cs_members st)" "cs_distance st = adv hop m" using ok by (auto simp: cluster_ok_def)
  with False ok t show ?thesis
    by (intro bexI [of _ m]) (auto simp: cluster_tuples_def cluster_ok_def stands_for_def)
qed

lemma built_tuples:
  assumes d: "distinct (map cl_Start (Clusters cfg))"
  shows "\<forall>r \<in> set routes. \<exists>t \<in> set (buildRTMPTuplesWithClusters rt routes cfg hop). covers_route hop t r"
    "\<forall>t \<in> set (buildRTMPTuplesWithClusters rt routes cfg hop). \<exists>r \<in> set routes. stands_for cfg hop t r"
    "sorted (map rnt_RangeStart (buildRTMPTuplesWithClusters rt routes cfg hop))"
proof -
  obtain cl normal where f: "fold (cluster_route rt cfg hop) routes ([], []) = (cl, normal)" by fastforce
  have "grouped cfg hop {} ([], [])" by (simp add: grouped_def)
  from grouped_fold [OF d this, of routes rt] have "grouped cfg hop (set routes) (cl, normal)" by (simp add: f)
  then have g: "distinct (map fst cl)" "\<And>k st. map_of cl k = Some st \<Longrightarrow> cluster_ok cfg hop (set routes) k st"
    and sub: "set normal \<subseteq> set routes"
    and cov: "\<And>r. r \<in> set routes \<Longrightarrow> r \<in> set normal \<or> (\<exists>k st. map_of cl k = Some st \<and> r \<in> set (cs_members st))"
    unfolding grouped_def fst_conv snd_conv by blast+
  have ok: "cluster_ok cfg hop (set routes) k st" if "(k, st) \<in> set cl" for k st
    using g that by simp
  have all: "r \<in> set normal \<or> (\<exists>k st. (k, st) \<in> set cl \<and> r \<in> set (cs_members st))" if "r \<in> set routes" for r
    using cov [OF that] map_of_SomeD [of cl] by blast
  let ?ts = "buildRTMPTuplesWithClusters rt routes cfg hop"
  have set_ts: "set ?ts = route_tuple hop ` set normal \<union> (\<Union>(k, st) \<in> set cl. set (cluster_tuples hop st))"
    by (auto simp: buildRTMPTuplesWithClusters_def f)
  show "\<forall>r \<in> set routes. \<exists>t \<in> set ?ts. covers_route hop t r"
  proof
    fix r
    assume "r \<in> set routes"
    from all [OF this] show "\<exists>t \<in> set ?ts. covers_route hop t r"
    proof
      assume "r \<in> set normal"
      then show ?thesis using route_tuple_covers unfolding set_ts by blast
    next
      assume "\<exists>k st. (k, st) \<in> set cl \<and> r \<in> set (cs_members st)"
      then show ?thesis using cluster_covers [OF ok] unfolding set_ts by fast
    qed
  qed
  show "\<forall>t \<in> set ?ts. \<exists>r \<in> set routes. stands_for cfg hop t r"
    using cluster_stands [OF ok] sub unfolding set_ts by (fastforce simp: stands_for_def)
  have "sort_func (\<lambda>a b. int (unat (rnt_RangeStart a)) - int (unat (rnt_RangeStart b))) xs = sort_key rnt_RangeStart xs" for xs
    by (rule sort_func_eq_sort_key) (simp add: word_le_def)
  note sorts = this
  show "sorted (map rnt_RangeStart ?ts)"
    unfolding buildRTMPTuplesWithClusters_def f Let_def prod.case sorts by (rule sorted_sort_key)
qed


section \<open>Learning\<close>

text \<open>An operation that returns and leaves the route table alone.\<close>

definition quiet :: "'a pact \<Rightarrow> bool" where
  "quiet m \<longleftrightarrow> (\<forall>w. \<exists>r w'. m w = Some (r, w') \<and> pw_rt w' = pw_rt w)"

lemma quietE:
  assumes "quiet m"
  obtains r w' where "m w = Some (r, w')" "pw_rt w' = pw_rt w"
  using assms unfolding quiet_def by blast

lemma quiet_basic [simp]:
  "quiet (pa_ret x)" "quiet (pa_fail e)" "quiet (upd_port f)" "quiet (call_write E port g)"
  by (auto simp: quiet_def pa_simps call_write_def split: prod.splits)

lemma quiet_bind: "quiet m \<Longrightarrow> (\<And>x. quiet (f x)) \<Longrightarrow> quiet (pa_bind m f)"
  unfolding quiet_def
proof
  fix w
  assume m: "\<forall>w. \<exists>r w'. m w = Some (r, w') \<and> pw_rt w' = pw_rt w"
    and f: "\<And>x. \<forall>w. \<exists>r w'. f x w = Some (r, w') \<and> pw_rt w' = pw_rt w"
  from m obtain r u where u: "m w = Some (r, u)" "pw_rt u = pw_rt w" by blast
  show "\<exists>r w'. pa_bind m f w = Some (r, w') \<and> pw_rt w' = pw_rt w"
  proof (cases r)
    case (Inl e)
    with u show ?thesis by (simp add: pa_bind_def)
  next
    case (Inr x)
    from f [of x] obtain r' w' where "f x u = Some (r', w')" "pw_rt w' = pw_rt u" by blast
    with u Inr show ?thesis by (simp add: pa_bind_def)
  qed
qed

lemma quiet_each: "(\<And>x. quiet (f x)) \<Longrightarrow> quiet (pa_each f xs)"
  by (induction xs) (auto intro: quiet_bind)

lemma quiet_with: "(\<And>p. quiet (f p)) \<Longrightarrow> quiet (with_port f)"
  by (simp add: quiet_def pa_simps)

lemma quiet_ignore: "quiet m \<Longrightarrow> quiet (pa_ignore m)"
  unfolding quiet_def pa_ignore_def by fastforce

lemma quiet_sends [simp]: "quiet (port_send_on E port hw pkt)" "quiet (port_send E hw pkt)" "quiet (port_request E addr)"
  by (simp_all add: port_send_on_def port_send_def port_request_def quiet_with)

lemma quiet_queue [simp]: "quiet (sendOrQueue E addr pkt)" "quiet (port_Send E pkt)" "quiet (port_Broadcast E pkt)"
proof -
  have "quiet (port_lookupOrWait E addr)" for addr
    by (simp add: quiet_def pa_simps)
  moreover have "quiet (outboxPush E ch addr pkt)" for ch addr
    unfolding outboxPush_def by (intro quiet_with) (auto intro!: quiet_bind quiet_ignore simp: Let_def split: option.split)
  ultimately have q: "quiet (sendOrQueue E addr pkt)" for addr
    unfolding sendOrQueue_def by (intro quiet_bind) (auto split: prod.split option.split)
  then show "quiet (sendOrQueue E addr pkt)" "quiet (port_Send E pkt)" by (simp_all add: port_Send_def)
  show "quiet (port_Broadcast E pkt)" by (simp add: port_Broadcast_def)
qed

text \<open>What the table knows of a target, and how a tuple changes it.\<close>

definition known :: "RouteTarget \<Rightarrow> RouteTable \<Rightarrow> network \<rightharpoonup> bool \<times> network \<times> byte" where
  "known t rt n = map_option (\<lambda>r. (r_Extended r, r_NetEnd r, r_Distance r)) (rt_abs rt (target_key t n))"

definition tuple_good :: "rtmp_NetworkTuple \<Rightarrow> bool" where
  "tuple_good nt \<longleftrightarrow>
     rnt_RangeStart nt \<le> rnt_RangeEnd nt \<and> (rnt_Extended nt \<or> rnt_RangeStart nt = rnt_RangeEnd nt) \<and>
     rnt_Distance nt + 1 \<le> maxRouteDistance"

definition learn_tuple ::
  "rtmp_NetworkTuple \<Rightarrow> (network \<rightharpoonup> bool \<times> network \<times> byte) \<Rightarrow> (network \<rightharpoonup> bool \<times> network \<times> byte)" where
  "learn_tuple nt m = m(rnt_RangeStart nt \<mapsto> (rnt_Extended nt, rnt_RangeEnd nt, rnt_Distance nt + 1))"

definition other_targets :: "RouteTarget \<Rightarrow> RouteTable \<Rightarrow> RouteTable \<Rightarrow> bool" where
  "other_targets t rt rt' \<longleftrightarrow> (\<forall>k. rk_TargetKey k \<noteq> tg_RouteTargetKey t \<longrightarrow> rt_abs rt' k = rt_abs rt k)"

lemma known_upd:
  assumes "rt_abs rt' = (rt_abs rt)(target_key t s \<mapsto> new)" "r_Extended new = ext" "r_NetEnd new = e" "r_Distance new = d"
  shows "known t rt' = (known t rt)(s \<mapsto> (ext, e, d))" "other_targets t rt rt'"
  using assms by (auto simp: known_def other_targets_def target_key_def)

lemma upsert_good:
  assumes inv: "rt_inv (pw_rt w)" and t: "target_ok t" and g: "tuple_good nt" "rnt_RangeEnd nt \<noteq> 65535"
  shows "\<exists>route w'.
    port_UpsertRoute E t (rnt_Extended nt) (rnt_RangeStart nt) (rnt_RangeEnd nt) (rnt_Distance nt + 1) w = Some (Inr route, w') \<and>
    rt_inv (pw_rt w') \<and> known t (pw_rt w') = learn_tuple nt (known t (pw_rt w)) \<and>
    other_targets t (pw_rt w) (pw_rt w') \<and> pw_port w' = pw_port w"
proof -
  from UpsertRoute_ok [OF inv t, of "rnt_RangeStart nt" "rnt_RangeEnd nt" "rnt_Extended nt" "rnt_Distance nt + 1" "pe_now E"] g
  obtain new rt' evs where u: "UpsertRoute (pe_now E) t (rnt_Extended nt) (rnt_RangeStart nt) (rnt_RangeEnd nt)
      (rnt_Distance nt + 1) (pw_rt w) = Some (Inr new, rt', evs)" "rt_inv rt'"
    "rt_abs rt' = (rt_abs (pw_rt w))(target_key t (rnt_RangeStart nt) \<mapsto> new)"
    "r_Extended new = rnt_Extended nt" "r_NetEnd new = rnt_RangeEnd nt" "r_Distance new = rnt_Distance nt + 1"
    by (auto simp: tuple_good_def)
  show ?thesis
    by (rule exI [of _ new], rule exI [of _ "w\<lparr>pw_rt := rt', pw_notes := pw_notes w @ evs\<rparr>"])
      (use u known_upd [OF u(3,4,5,6)] in \<open>simp add: port_UpsertRoute_def call_rt_def learn_tuple_def\<close>)
qed

lemma upsert_bad:
  assumes "\<not> tuple_good nt"
  shows "\<exists>e. port_UpsertRoute E t (rnt_Extended nt) (rnt_RangeStart nt) (rnt_RangeEnd nt) (rnt_Distance nt + 1) w = Some (Inl e, w)"
  using assms UpsertRoute_errors [of "rnt_RangeEnd nt" "rnt_RangeStart nt"]
  by (cases "rnt_RangeStart nt \<le> rnt_RangeEnd nt"; cases "rnt_Extended nt \<or> rnt_RangeStart nt = rnt_RangeEnd nt")
    (auto simp: tuple_good_def port_UpsertRoute_def call_rt_def UpsertRoute_errors not_le)

text \<open>The tuples are learned up to the first one that is refused.\<close>

definition tuples_learned :: "RouteTarget \<Rightarrow> rtmp_NetworkTuple list \<Rightarrow> RouteTable \<Rightarrow> RouteTable \<Rightarrow> bool" where
  "tuples_learned t nts rt rt' \<longleftrightarrow>
     rt_inv rt' \<and> known t rt' = fold learn_tuple nts (known t rt) \<and> other_targets t rt rt'"

lemma upsert_tuples_run:
  assumes "rt_inv (pw_rt w)" and t: "target_ok t" and "\<forall>nt \<in> set (takeWhile tuple_good nts). rnt_RangeEnd nt \<noteq> 65535"
  shows "\<exists>r w'. upsert_tuples E t nz nts w = Some (r, w') \<and>
     tuples_learned t (takeWhile tuple_good nts) (pw_rt w) (pw_rt w') \<and> pw_port w' = pw_port w \<and>
     (isl r \<longleftrightarrow> takeWhile tuple_good nts \<noteq> nts)"
  using assms(1,3)
proof (induction nts arbitrary: w nz)
  case Nil
  then show ?case by (simp add: pa_simps tuples_learned_def other_targets_def)
next
  case (Cons nt nts)
  show ?case
  proof (cases "tuple_good nt")
    case True
    obtain route u where u: "port_UpsertRoute E t (rnt_Extended nt) (rnt_RangeStart nt) (rnt_RangeEnd nt) (rnt_Distance nt + 1) w = Some (Inr route, u)"
      "rt_inv (pw_rt u)" "known t (pw_rt u) = learn_tuple nt (known t (pw_rt w))"
      "other_targets t (pw_rt w) (pw_rt u)" "pw_port u = pw_port w"
      using upsert_good [OF Cons.prems(1) t True, of E] Cons.prems(2) True by auto
    from Cons.IH [OF u(2), of "if zones_of (pw_rt u) (rnt_RangeStart nt) = [] then nz @ [r_NetStart route] else nz"] Cons.prems(2) True
    obtain r w' where "upsert_tuples E t (if zones_of (pw_rt u) (rnt_RangeStart nt) = [] then nz @ [r_NetStart route] else nz) nts u = Some (r, w')"
      "tuples_learned t (takeWhile tuple_good nts) (pw_rt u) (pw_rt w')" "pw_port w' = pw_port u"
      "isl r \<longleftrightarrow> takeWhile tuple_good nts \<noteq> nts"
      by auto
    with u True show ?thesis
      by (auto simp: pa_bind_def pa_simps tuples_learned_def other_targets_def)
  next
    case False
    with upsert_bad [OF False, of E t w] Cons.prems(1) show ?thesis
      by (auto simp: pa_bind_def tuples_learned_def other_targets_def)
  qed
qed

lemma query_chunks_ok: "\<exists>ps. zip_query_chunks ns = Inr ps"
proof (induction ns rule: zip_query_chunks.induct)
  case (1 ns)
  show ?case
  proof (cases "ns = []")
    case True
    then show ?thesis by (simp add: zip_query_chunks.simps [of "[]"])
  next
    case False
    obtain bs where bs: "zip_QueryPacket_Marshal \<lparr>zq_Networks = take 255 ns\<rparr> = Inr bs"
      by (simp add: zip_QueryPacket_Marshal_def)
    with 1 False obtain ps where "zip_query_chunks (drop 255 ns) = Inr ps" by blast
    with bs False show ?thesis by (simp add: zip_query_chunks.simps [of ns])
  qed
qed

lemma peer_target_of_port: "target_ok (etherTalkPeer_target port addr)"
  by (simp add: target_ok_def etherTalkPeer_target_def class_of_key_def)

text \<open>The observed range goes into the seed state, which the name of the peer does not depend on.\<close>

lemma observe_run:
  "\<exists>u. (case nts of [] \<Rightarrow> pa_ret () | first # _ \<Rightarrow> observeCableRange E (rnt_RangeStart first) (rnt_RangeEnd first) a) w
        = Some (Inr (), u) \<and>
      pw_rt u = pw_rt w \<and> et_device (pw_port u) = et_device (pw_port w)"
  by (cases nts) (simp_all add: observeCableRange_def observeCableConfig_def pa_simps)

lemma data_run:
  assumes inv: "rt_inv (pw_rt w)"
    and ends: "\<forall>nt \<in> set (takeWhile tuple_good (dp_NetworkTuples dp)). rnt_RangeEnd nt \<noteq> 65535"
  shows "\<exists>r w'. HandleRTMP_data E pkt dp w = Some (r, w') \<and>
     tuples_learned (etherTalkPeer_target (pw_port w) (dp_RouterAddr dp)) (takeWhile tuple_good (dp_NetworkTuples dp))
       (pw_rt w) (pw_rt w') \<and>
     (takeWhile tuple_good (dp_NetworkTuples dp) \<noteq> dp_NetworkTuples dp \<longrightarrow> isl r)"
proof -
  obtain u where u: "(case dp_NetworkTuples dp of [] \<Rightarrow> pa_ret ()
      | first # _ \<Rightarrow> observeCableRange E (rnt_RangeStart first) (rnt_RangeEnd first) False) w = Some (Inr (), u)"
    "pw_rt u = pw_rt w" "et_device (pw_port u) = et_device (pw_port w)"
    using observe_run by blast
  let ?t = "etherTalkPeer_target (pw_port u) (dp_RouterAddr dp)"
  have t: "?t = etherTalkPeer_target (pw_port w) (dp_RouterAddr dp)" by (simp add: etherTalkPeer_target_def u(3))
  obtain r v where v: "upsert_tuples E ?t [] (dp_NetworkTuples dp) u = Some (r, v)"
    "tuples_learned ?t (takeWhile tuple_good (dp_NetworkTuples dp)) (pw_rt u) (pw_rt v)"
    "isl r \<longleftrightarrow> takeWhile tuple_good (dp_NetworkTuples dp) \<noteq> dp_NetworkTuples dp"
    using upsert_tuples_run [OF _ peer_target_of_port, of u "dp_NetworkTuples dp" E] inv ends u(2) by fastforce
  show ?thesis
  proof (cases r)
    case (Inl e)
    with u v t show ?thesis
      by (simp add: HandleRTMP_data_def pa_simps pa_bind_def)
  next
    case (Inr nz)
    define rest where "rest = (\<lambda>noZones. pa_bind (pa_lift PErrMarshal (buildZIPQueryPackets noZones)) (\<lambda>queries.
      pa_each (\<lambda>qryPkt. port_Send E (ddp_packet (dd_SrcNet pkt) (dd_SrcNode pkt) 6 (et_myAddr (pw_port u)) 6
        (ProtoZIP (pe_protos E)) qryPkt)) queries))"
    obtain qs where "buildZIPQueryPackets nz = Inr qs"
      unfolding buildZIPQueryPackets_def using query_chunks_ok by blast
    then have "quiet (rest nz)"
      by (auto simp: rest_def pa_lift_def intro!: quiet_bind quiet_each)
    then obtain r' w' where "rest nz v = Some (r', w')" "pw_rt w' = pw_rt v" by (rule quietE)
    moreover have "HandleRTMP_data E pkt dp w = rest nz v"
      using u(1) v(1) Inr by (simp add: HandleRTMP_data_def rest_def pa_simps)
    ultimately show ?thesis using u v t Inr by simp
  qed
qed

section \<open>Properties\<close>

abbreviation own_tuple :: "EtherTalkPort \<Rightarrow> rtmp_NetworkTuple" where
  "own_tuple port \<equiv>
     \<lparr>rnt_Extended = True, rnt_RangeStart = et_cableStart port, rnt_RangeEnd = et_cableEnd port, rnt_Distance = 0\<rparr>"

text \<open>The tuples of the packets without the first, which is the range of the network itself.\<close>

definition advertised :: "rtmp_DataPacket list \<Rightarrow> rtmp_NetworkTuple list" where
  "advertised pkts = concat (map (\<lambda>p. tl (dp_NetworkTuples p)) pkts)"

definition config_of :: "port_env \<Rightarrow> AURPConfig" where
  "config_of E = (case pe_cfg E of None \<Rightarrow> zero_aurp_config | Some c \<Rightarrow> c)"

definition reduces_hops :: "port_env \<Rightarrow> bool" where
  "reduces_hops E \<longleftrightarrow> pe_cfg E \<noteq> None \<and> HopCountReduction (config_of E)"

text \<open>The valid routes that do not lead back to the port.\<close>

definition outward :: "port_env \<Rightarrow> bool \<Rightarrow> EtherTalkPort \<Rightarrow> RouteTable \<Rightarrow> Route set" where
  "outward E splitHorizon port rt =
     {r \<in> set (ValidRoutes (pe_now E) rt).
        tg_RouteTargetKey (route_target r) \<noteq> tg_RouteTargetKey (port_target port) \<and>
        \<not> (splitHorizon \<and> is_peer_of port (route_target r))}"

text \<open>
  C18: The RTMP Data packets of a port advertise exactly the valid routes that do not lead back to the
  port, with split horizon also none of a neighbour on its network: every such route is covered by a
  tuple that is not further away, every tuple is a route or a configured cluster with a member route at
  its distance, the tuples are sorted, and each packet starts with the range of the network and fits
  into a datagram.
\<close>

theorem rtmp_advertisement_exact:
  assumes "\<forall>c. pe_cfg E = Some c \<longrightarrow> distinct (map cl_Start (Clusters c))"
  shows "(\<forall>p \<in> set (rtmpDataPackets E splitHorizon port rt). dp_RouterAddr p = et_myAddr port \<and>
       (\<exists>ts. dp_NetworkTuples p = own_tuple port # ts) \<and>
       (\<exists>body. rtmp_DataPacket_Marshal p = Inr body \<and> length body \<le> DDPMaxDataSize)) \<and>
     sorted (map rnt_RangeStart (advertised (rtmpDataPackets E splitHorizon port rt))) \<and>
     (\<forall>r \<in> outward E splitHorizon port rt.
       \<exists>t \<in> set (advertised (rtmpDataPackets E splitHorizon port rt)). covers_route (reduces_hops E) t r) \<and>
     (\<forall>t \<in> set (advertised (rtmpDataPackets E splitHorizon port rt)).
       \<exists>r \<in> outward E splitHorizon port rt. stands_for (config_of E) (reduces_hops E) t r)"
proof -
  let ?ts = "buildRTMPTuplesWithClusters rt (rtmp_routes E splitHorizon port rt) (config_of E) (reduces_hops E)"
  have d: "distinct (map cl_Start (Clusters (config_of E)))"
    using assms(1) by (auto simp: config_of_def zero_aurp_config_def split: option.split)
  let ?p = "\<lambda>chunk. \<lparr>dp_RouterAddr = et_myAddr port, dp_Extended = True, dp_NetworkTuples = chunk\<rparr>"
  have pkts: "rtmpDataPackets E splitHorizon port rt = (if ?ts = [] then [?p [own_tuple port]] else map ?p (rtmp_chunks (own_tuple port) ?ts))"
    by (simp add: rtmpDataPackets_def config_of_def reduces_hops_def Let_def cableRange_def)
  have adv: "advertised (rtmpDataPackets E splitHorizon port rt) = ?ts"
    unfolding pkts advertised_def using rtmp_chunks_concat [of "own_tuple port" ?ts] by (simp add: comp_def)
  have chunk: "\<exists>ts. dp_NetworkTuples p = own_tuple port # ts \<and> 10 + sum_list (map rtmp_NetworkTuple_Size ts) \<le> DDPMaxDataSize"
    and fields: "dp_RouterAddr p = et_myAddr port" "dp_Extended p" if "p \<in> set (rtmpDataPackets E splitHorizon port rt)" for p
    using that rtmp_chunks_each [of _ "own_tuple port" ?ts] unfolding pkts by (auto split: if_splits)
  have "\<exists>body. rtmp_DataPacket_Marshal p = Inr body \<and> length body \<le> DDPMaxDataSize" if "p \<in> set (rtmpDataPackets E splitHorizon port rt)" for p
    using length_data_packet [OF fields(2) [OF that]] chunk [OF that]
    by (auto simp: rtmp_NetworkTuple_Size_def)
  moreover have "set (rtmp_routes E splitHorizon port rt) = outward E splitHorizon port rt"
    by (auto simp: rtmp_routes_def outward_def)
  ultimately show ?thesis
    using fields chunk built_tuples [OF d, where routes = "rtmp_routes E splitHorizon port rt" and rt = rt and hop = "reduces_hops E"]
    unfolding adv by blast
qed


definition sample_cluster_env :: port_env where
  "sample_cluster_env =
     sample_port_env\<lparr>pe_cfg := Some (zero_aurp_config\<lparr>Clusters := [\<lparr>cl_Start = 30, cl_End = 40\<rparr>]\<rparr>)\<rparr>"

theorem rtmp_advertisement_exact_witness:
  "sorted (map rnt_RangeStart (advertised
     (rtmpDataPackets sample_cluster_env True ((pw_port sample_port_world)\<lparr>et_device := ''eth1''\<rparr>) sample_table))) \<and>
   (\<exists>r t. r \<in> outward sample_cluster_env True ((pw_port sample_port_world)\<lparr>et_device := ''eth1''\<rparr>) sample_table \<and>
      t \<in> set (advertised (rtmpDataPackets sample_cluster_env True ((pw_port sample_port_world)\<lparr>et_device := ''eth1''\<rparr>) sample_table)) \<and>
      covers_route (reduces_hops sample_cluster_env) t r)"
proof -
  let ?port = "(pw_port sample_port_world)\<lparr>et_device := ''eth1''\<rparr>"
  have "\<forall>c. pe_cfg sample_cluster_env = Some c \<longrightarrow> distinct (map cl_Start (Clusters c))"
    by (simp add: sample_cluster_env_def)
  note t = rtmp_advertisement_exact [OF this, of True ?port sample_table]
  have "rtmp_routes sample_cluster_env True ?port sample_table \<noteq> []" by code_simp
  then obtain r where "r \<in> outward sample_cluster_env True ?port sample_table"
    using hd_in_set by (fastforce simp: rtmp_routes_def outward_def filter_empty_conv)
  with t show ?thesis by blast
qed

text \<open>
  C19: an RTMP Data packet that arrives is processed to the end of its tuples or to the first one
  that the route table refuses (an inverted range, a range on a nonextended network, or a distance
  of fifteen and more, as a poisoned entry has): of the router that sent it the table then knows
  exactly what it knew before, overwritten in order by the accepted tuples with one hop added, the
  routes of all other targets are untouched, the invariant of the route table holds, and a refused
  tuple makes the handler fail.
\<close>

theorem rtmp_data_learned:
  assumes "rt_inv (pw_rt w)" "dd_Proto pkt = ProtoRTMPResp (pe_protos E)" "ProtoRTMPReq (pe_protos E) \<noteq> ProtoRTMPResp (pe_protos E)"
    and "rtmp_data_ok dp" "rtmp_DataPacket_Marshal dp = Inr (dd_Data pkt)"
    and "\<forall>nt \<in> set (takeWhile tuple_good (dp_NetworkTuples dp)). rnt_RangeEnd nt \<noteq> 65535"
  shows "\<exists>r w'. HandleRTMP E pkt w = Some (r, w') \<and>
     tuples_learned (etherTalkPeer_target (pw_port w) (dp_RouterAddr dp)) (takeWhile tuple_good (dp_NetworkTuples dp))
       (pw_rt w) (pw_rt w') \<and>
     (takeWhile tuple_good (dp_NetworkTuples dp) \<noteq> dp_NetworkTuples dp \<longrightarrow> isl r)"
  using data_run [OF assms(1,6), of E pkt] rtmp_data_roundtrip_ok [OF assms(4,5)] assms(2,3)
  by (simp add: HandleRTMP_def parse_def pa_simps)

theorem rtmp_data_learned_witness:
  "\<exists>body r w' m. rtmp_DataPacket_Marshal sample_rtmp = Inr body \<and>
     HandleRTMP sample_port_env
       (ddp_packet 0 0xff 1 (dp_RouterAddr sample_rtmp) 1 (ProtoRTMPResp sample_protos) body) sample_port_world = Some (r, w') \<and>
     known (etherTalkPeer_target (pw_port sample_port_world) (dp_RouterAddr sample_rtmp)) (pw_rt w') =
       fold learn_tuple (dp_NetworkTuples sample_rtmp) m"
proof -
  obtain body where b: "rtmp_DataPacket_Marshal sample_rtmp = Inr body"
    by (simp add: rtmp_DataPacket_Marshal_def)
  have good: "takeWhile tuple_good (dp_NetworkTuples sample_rtmp) = dp_NetworkTuples sample_rtmp"
    by (simp add: sample_rtmp_def tuple_good_def)
  let ?pkt = "ddp_packet 0 0xff 1 (dp_RouterAddr sample_rtmp) 1 (ProtoRTMPResp sample_protos) body"
  have "rt_inv (pw_rt sample_port_world)" "dd_Proto ?pkt = ProtoRTMPResp (pe_protos sample_port_env)"
    "ProtoRTMPReq (pe_protos sample_port_env) \<noteq> ProtoRTMPResp (pe_protos sample_port_env)" "rtmp_data_ok sample_rtmp"
    "rtmp_DataPacket_Marshal sample_rtmp = Inr (dd_Data ?pkt)"
    "\<forall>nt \<in> set (takeWhile tuple_good (dp_NetworkTuples sample_rtmp)). rnt_RangeEnd nt \<noteq> 65535"
    using b rt_inv_init unfolding good
    by (auto simp: sample_port_world_def sample_port_env_def sample_protos_def ddp_packet_def
      rtmp_data_ok_def rtmp_tuple_ok_def sample_rtmp_def)
  from rtmp_data_learned [OF this] b show ?thesis by (auto simp: good tuples_learned_def)
qed

end
