(* ===== verification/SeedProps.thy ===== *)
theory SeedProps
  imports SeedLoop RtmpProps
begin

text \<open>
  The cable of an EtherTalk port: a soft seed that nobody answers takes its range over, and what
  becomes of the route to the previous range.
\<close>

section \<open>Activating a range\<close>

lemma port_target_ok: "target_ok (port_target port)"
  by (simp add: target_ok_def port_target_def class_of_key_def)

lemma known_cong: "rt_abs rt' = rt_abs rt \<Longrightarrow> known t rt' = known t rt" "rt_abs rt' = rt_abs rt \<Longrightarrow> other_targets t rt rt'"
  by (simp_all add: known_def other_targets_def fun_eq_iff)

lemma other_targets_trans: "other_targets t a b \<Longrightarrow> other_targets t b c \<Longrightarrow> other_targets t a c"
  by (simp add: other_targets_def)

text \<open>Adding zones keeps the routes.\<close>

definition keeps_routes :: "port_world \<Rightarrow> port_world \<Rightarrow> bool" where
  "keeps_routes w w' \<longleftrightarrow> rt_inv (pw_rt w') \<and> rt_abs (pw_rt w') = rt_abs (pw_rt w) \<and> pw_port w' = pw_port w"

lemma add_zones_run:
  assumes "rt_inv (pw_rt w)"
  shows "\<exists>w'. port_AddZones E n zs w = Some (Inr (), w') \<and> keeps_routes w w' \<and> set zs \<subseteq> set (zones_of (pw_rt w') n)"
proof -
  obtain rt' evs where a: "AddZonesToNetwork (pe_now E) n zs (pw_rt w) = (rt', evs)" by fastforce
  then have rt': "rt' = fst (AddZonesToNetwork (pe_now E) n zs (pw_rt w))" by simp
  have "rt_inv rt'" unfolding rt' by (rule rt_inv_zones [OF assms])
  moreover have "byClass rt' = byClass (pw_rt w)" "set zs \<subseteq> set (zones_of rt' n)"
    using new_zones_props [of "zones_of (pw_rt w) n" zs] unfolding rt' by (auto simp: AddZonesToNetwork_def Let_def)
  ultimately show ?thesis
    using a abs_cong [of rt' "pw_rt w"] by (simp add: port_AddZones_def call_rt_def keeps_routes_def)
qed

lemma configured_zones_run:
  assumes "rt_inv (pw_rt w)"
  shows "\<exists>w'. activateConfiguredZones E w = Some (Inr (), w') \<and> keeps_routes w w' \<and>
    (0 < et_cableStart (pw_port w) \<and> et_cableStart (pw_port w) < phase2StartupStart \<longrightarrow>
       set (et_availableZones (pw_port w)) \<subseteq> set (zones_of (pw_rt w') (et_cableStart (pw_port w))))"
  using add_zones_run [OF assms, of E "et_cableStart (pw_port w)" "et_availableZones (pw_port w)"] assms
  by (auto simp: activateConfiguredZones_def cableRange_def pa_simps keeps_routes_def word_neq_0_conv)

lemma activate_zones_run:
  assumes "rt_inv (pw_rt w)"
  shows "\<exists>w'. activateZones E n w = Some (Inr (), w') \<and> keeps_routes w w'"
proof (cases "seedAuthorityActive (pw_port w)")
  case True
  with configured_zones_run [OF assms, of E] show ?thesis by (auto simp: activateZones_def pa_simps)
next
  case False
  have "\<exists>w'. port_AddZones E n zs w = Some (Inr (), w') \<and> keeps_routes w w'" for zs
    using add_zones_run [OF assms] by blast
  moreover have "keeps_routes w w" using assms by (simp add: keeps_routes_def)
  ultimately show ?thesis using False by (simp add: activateZones_def pa_simps split: option.split)
qed

text \<open>The range that the port leaves.\<close>

definition left_range :: "network \<Rightarrow> network \<Rightarrow> EtherTalkPort \<Rightarrow> network option" where
  "left_range s e port =
     (let (oldStart, oldEnd) = cableRange port in
      if oldStart \<noteq> 0 \<and> \<not> isPhase2StartupRange oldStart oldEnd \<and> (oldStart \<noteq> s \<or> oldEnd \<noteq> e) then Some oldStart else None)"

lemma deactivate_run:
  assumes inv: "rt_inv (pw_rt w)"
  shows "\<exists>w'. deactivateOldRange E s e w = Some (Inr (), w') \<and> rt_inv (pw_rt w') \<and> pw_port w' = pw_port w \<and>
    known (port_target (pw_port w)) (pw_rt w') =
      (case left_range s e (pw_port w) of None \<Rightarrow> known (port_target (pw_port w)) (pw_rt w)
       | Some old \<Rightarrow> (known (port_target (pw_port w)) (pw_rt w))(old := None)) \<and>
    other_targets (port_target (pw_port w)) (pw_rt w) (pw_rt w')"
proof (cases "left_range s e (pw_port w)")
  case None
  then have "deactivateOldRange E s e w = Some (Inr (), w)"
    by (auto simp: left_range_def deactivateOldRange_def cableRange_def pa_simps split: if_splits)
  with None inv show ?thesis by (simp add: other_targets_def)
next
  case (Some old)
  let ?t = "port_target (pw_port w)"
  from Some have d: "deactivateOldRange E s e w =
      (if Route_Zero (find_route ?t old (pw_rt w)) then Some (Inr (), w) else port_DeleteRoute E ?t old w)"
    by (auto simp: left_range_def deactivateOldRange_def cableRange_def pa_simps split: if_splits)
  show ?thesis
  proof (cases "rt_abs (pw_rt w) (target_key ?t old)")
    case None
    then have "Route_Zero (find_route ?t old (pw_rt w))"
      using find_route_Zero [of "pw_rt w" ?t old] inv port_target_ok by (simp add: rt_inv_def)
    moreover have "known ?t (pw_rt w) old = None" using None by (simp add: known_def)
    ultimately show ?thesis using d Some inv by (auto simp: other_targets_def)
  next
    case (Some r)
    then have "\<not> Route_Zero (find_route ?t old (pw_rt w))"
      using find_route_Zero [of "pw_rt w" ?t old] inv port_target_ok by (simp add: rt_inv_def)
    moreover from DeleteRoute_ok [OF inv port_target_ok Some, of "pe_now E"] obtain rt' evs where
      "DeleteRoute (pe_now E) ?t old (pw_rt w) = Some (None, rt', evs)" "rt_inv rt'"
      "rt_abs rt' = (rt_abs (pw_rt w))(target_key ?t old := None)" by blast
    ultimately show ?thesis
      using d \<open>left_range s e (pw_port w) = Some old\<close>
      by (auto simp: port_DeleteRoute_def call_rt_def known_def other_targets_def fun_eq_iff target_key_def)
  qed
qed


text \<open>Afterwards the port has the range, a direct route to it, and no route to the one it left.\<close>

definition activated :: "network \<Rightarrow> network \<Rightarrow> port_world \<Rightarrow> port_world \<Rightarrow> bool" where
  "activated s e w w' \<longleftrightarrow>
     rt_inv (pw_rt w') \<and>
     known (port_target (pw_port w)) (pw_rt w') =
       (case left_range s e (pw_port w) of None \<Rightarrow> known (port_target (pw_port w)) (pw_rt w)
        | Some old \<Rightarrow> (known (port_target (pw_port w)) (pw_rt w))(old := None))(s \<mapsto> (True, e, 0)) \<and>
     other_targets (port_target (pw_port w)) (pw_rt w) (pw_rt w')"

definition usable_range :: "network \<Rightarrow> network \<Rightarrow> bool" where
  "usable_range s e \<longleftrightarrow> 0 < s \<and> s < phase2StartupStart \<and> s \<le> e \<and> e \<noteq> 65535"

lemma activate_run:
  assumes inv: "rt_inv (pw_rt w)" and r: "usable_range s e"
  shows "\<exists>w'. activateCableRange E s e w = Some (Inr (), w') \<and> activated s e w w' \<and>
    pw_port w' = setCableRange s e (pw_port w)"
proof -
  let ?t = "port_target (pw_port w)"
  obtain u where u: "deactivateOldRange E s e w = Some (Inr (), u)" "rt_inv (pw_rt u)" "pw_port u = pw_port w"
    "known ?t (pw_rt u) = (case left_range s e (pw_port w) of None \<Rightarrow> known ?t (pw_rt w) | Some old \<Rightarrow> (known ?t (pw_rt w))(old := None))"
    "other_targets ?t (pw_rt w) (pw_rt u)"
    using deactivate_run [OF inv] by blast
  have t: "port_target (setCableRange s e (pw_port w)) = ?t" by (simp add: port_target_def setCableRange_def)
  from UpsertRoute_ok [OF u(2) port_target_ok, of s e True 0 "pe_now E" "pw_port w"] r
  obtain new rt' evs where n: "UpsertRoute (pe_now E) ?t True s e 0 (pw_rt u) = Some (Inr new, rt', evs)" "rt_inv rt'"
    "rt_abs rt' = (rt_abs (pw_rt u))(target_key ?t s \<mapsto> new)" "r_Extended new = True" "r_NetEnd new = e" "r_Distance new = 0"
    by (auto simp: usable_range_def)
  let ?v = "u\<lparr>pw_port := setCableRange s e (pw_port u), pw_rt := rt', pw_notes := pw_notes u @ evs\<rparr>"
  obtain w' where w': "activateZones E s ?v = Some (Inr (), w')" "keeps_routes ?v w'"
    using activate_zones_run [of ?v E s] n(2) by auto
  have "activateCableRange E s e w = Some (Inr (), w')"
    using r u(1,3) n(1) w'(1) t
    by (auto simp: activateCableRange_def usable_range_def isPhase2StartupRange_def pa_simps port_UpsertRoute_def call_rt_def)
  moreover have "known ?t (pw_rt w') = (known ?t (pw_rt u))(s \<mapsto> (True, e, 0))" "other_targets ?t (pw_rt u) (pw_rt w')"
    using known_upd [OF n(3-6)] w'(2) known_cong [of "pw_rt w'" rt'] other_targets_trans [of ?t "pw_rt u" rt' "pw_rt w'"]
    by (auto simp: keeps_routes_def)
  ultimately show ?thesis
    using u w'(2) other_targets_trans [of ?t "pw_rt w" "pw_rt u" "pw_rt w'"]
    by (auto simp: activated_def keeps_routes_def)
qed


section \<open>The loop\<close>

lemma discovery_run:
  "\<exists>u a. pa_ignore (sendSeedDiscovery E) w = Some (Inr (), u) \<and> pw_rt u = pw_rt w \<and> pw_port u = (pw_port w)\<lparr>et_myAddr := a\<rparr>"
proof (cases "et_seed (pw_port w) = None \<or> \<not> ar_assigned (et_aarp (pw_port w))")
  case True
  then have "pa_ignore (sendSeedDiscovery E) w = Some (Inr (), w)"
    by (auto simp: sendSeedDiscovery_def pa_ignore_def aarp_Address_def pa_simps)
  moreover have "pw_port w = (pw_port w)\<lparr>et_myAddr := et_myAddr (pw_port w)\<rparr>" by simp
  ultimately show ?thesis by blast
next
  case False
  let ?a = "pr_Proto (ar_myAddr (et_aarp (pw_port w)))"
  let ?u = "w\<lparr>pw_port := (pw_port w)\<lparr>et_myAddr := ?a\<rparr>\<rparr>"
  have b: "\<exists>r f. port_Broadcast E pkt ?u = Some (r, ?u\<lparr>pw_frames := f\<rparr>)" for pkt
    by (auto simp: port_Broadcast_def port_send_def port_send_on_def pa_simps call_write_def split: prod.split)
  have "\<exists>r f. sendSeedDiscovery E w = Some (r, ?u\<lparr>pw_frames := f\<rparr>)"
  proof (cases "zip_GetNetInfoPacket_Marshal \<lparr>gni_ZoneName = et_defaultZoneName (pw_port w)\<rparr>")
    case (Inl e)
    with False have "sendSeedDiscovery E w = Some (Inl (PErrMarshal e), ?u\<lparr>pw_frames := pw_frames ?u\<rparr>)"
      by (auto simp: sendSeedDiscovery_def aarp_Address_def pa_simps pa_bind_def pa_lift_def)
    then show ?thesis by blast
  next
    case (Inr body)
    with False b [of "ddp_packet 0 0xff 6 ?a 6 (ProtoZIP (pe_protos E)) body"] show ?thesis
      by (auto simp: sendSeedDiscovery_def aarp_Address_def pa_simps pa_lift_def)
  qed
  then obtain r f where d: "sendSeedDiscovery E w = Some (r, ?u\<lparr>pw_frames := f\<rparr>)" by blast
  show ?thesis
    by (rule exI [of _ "?u\<lparr>pw_frames := f\<rparr>"], rule exI [of _ ?a]) (simp add: pa_ignore_def d)
qed

text \<open>A soft seed to which nobody has answered, and whose cable has shown no range.\<close>

definition unopposed :: "seedController \<Rightarrow> bool" where
  "unopposed s \<longleftrightarrow>
     sd_mode s = SeedModeSoft \<and> \<not> sd_active s \<and> \<not> sd_conflict s \<and> \<not> sd_externalAuthority s \<and> sd_observedStart s = 0 \<and>
     usable_range (sd_configuredStart s) (sd_configuredEnd s)"

lemma unopposed_tick:
  assumes "et_seed (pw_port w) = Some s" "unopposed s"
  shows "\<exists>u a. RunSeedState_tick E sl w = considerPromotion E s sl u \<and> pw_rt u = pw_rt w \<and> pw_port u = (pw_port w)\<lparr>et_myAddr := a\<rparr>"
proof -
  obtain u a where u: "pa_ignore (sendSeedDiscovery E) w = Some (Inr (), u)" "pw_rt u = pw_rt w" "pw_port u = (pw_port w)\<lparr>et_myAddr := a\<rparr>"
    using discovery_run by blast
  have "expireAuthority E s sl = (s, sl)"
    using assms(2) by (simp add: expireAuthority_def expireExternalAuthority_def unopposed_def)
  moreover have "(pw_port u)\<lparr>et_seed := Some s\<rparr> = pw_port u" using u(3) assms(1) by simp
  then have "upd_seed s u = Some (Inr (), u)" by (simp add: upd_seed_def pa_simps)
  ultimately have "RunSeedState_tick E sl w = considerPromotion E s sl u"
    using u(1,3) assms by (simp add: RunSeedState_tick_def adoptObserved_def unopposed_def pa_simps)
  with u show ?thesis by blast
qed

lemma considering:
  assumes "unopposed s"
  shows "promotionRequested sl \<Longrightarrow> considerPromotion E s sl = promoteRequested E s sl"
    "\<not> promotionRequested sl \<Longrightarrow> promotionEligibleAt sl \<noteq> 0 \<Longrightarrow> promotionEligibleAt sl \<le> pe_now E \<Longrightarrow>
     considerPromotion E s sl =
       pa_seq (upd_aarp (Rebind (sd_configuredStart s) (sd_configuredEnd s)))
         (pa_ret \<lparr>promotionEligibleAt = 0, promotionRequested = True\<rparr>)"
  using assms by (auto simp: considerPromotion_def unopposed_def seed_Effective_def usable_range_def)

lemma refresh_frame:
  "pw_rt w = pw_rt v \<Longrightarrow> pw_port w = (pw_port v)\<lparr>et_myAddr := a\<rparr> \<Longrightarrow> activated s e w w' = activated s e v w'"
  by (simp add: activated_def port_target_def left_range_def cableRange_def)

lemma adopt_run:
  assumes inv: "rt_inv (pw_rt w)" and r: "usable_range s e" and op: "OperationalRange (et_aarp (pw_port w)) = (s, e, True)"
  shows "\<exists>w'. adoptRange E s e w = Some (Inr True, w') \<and> activated s e w w' \<and>
    pw_port w' = setCableRange s e ((pw_port w)\<lparr>et_myAddr := pr_Proto (ar_myAddr (et_aarp (pw_port w)))\<rparr>)"
proof -
  let ?p = "(pw_port w)\<lparr>et_myAddr := pr_Proto (ar_myAddr (et_aarp (pw_port w)))\<rparr>"
  let ?u = "w\<lparr>pw_port := ?p\<rparr>"
  have u: "refresh_address (pw_port w) = ?p"
    using op by (simp add: refresh_address_def aarp_Address_def OperationalRange_def)
  obtain w' where w': "activateCableRange E s e ?u = Some (Inr (), w')" "activated s e ?u w'" "pw_port w' = setCableRange s e ?p"
    using activate_run [of ?u s e E] inv r by auto
  moreover have "activated s e w w'" using w'(2) refresh_frame [of ?u w] by simp
  moreover have "adoptRange E s e w = Some (Inr True, w')"
    using op w'(1) by (simp add: adoptRange_def pa_simps u)
  ultimately show ?thesis by blast
qed

text \<open>The seed is the authority on its configured range: the port has it, the table routes to it, its zones are known.\<close>

definition in_charge :: "seedController \<Rightarrow> port_world \<Rightarrow> port_world \<Rightarrow> bool" where
  "in_charge s w w' \<longleftrightarrow>
     seedAuthorityActive (pw_port w') \<and>
     cableRange (pw_port w') = (sd_configuredStart s, sd_configuredEnd s) \<and>
     et_myAddr (pw_port w') = pr_Proto (ar_myAddr (et_aarp (pw_port w))) \<and>
     activated (sd_configuredStart s) (sd_configuredEnd s) w w' \<and>
     set (et_availableZones (pw_port w)) \<subseteq> set (zones_of (pw_rt w') (sd_configuredStart s))"

lemma promote_run:
  assumes inv: "rt_inv (pw_rt w)" and s: "unopposed s"
    and op: "OperationalRange (et_aarp (pw_port w)) = (sd_configuredStart s, sd_configuredEnd s, True)"
  shows "\<exists>w'. promoteRequested E s sl w = Some (Inr (sl\<lparr>promotionRequested := False\<rparr>), w') \<and> in_charge s w w'"
proof -
  let ?s = "sd_configuredStart s" and ?e = "sd_configuredEnd s"
  have r: "usable_range ?s ?e" using s by (simp add: unopposed_def)
  obtain u where u: "adoptRange E ?s ?e w = Some (Inr True, u)" "activated ?s ?e w u"
    "pw_port u = setCableRange ?s ?e ((pw_port w)\<lparr>et_myAddr := pr_Proto (ar_myAddr (et_aarp (pw_port w)))\<rparr>)"
    using adopt_run [OF inv r op] by blast
  have p: "promoteSoft s = (True, s\<lparr>sd_active := True\<rparr>)" using s by (simp add: promoteSoft_def unopposed_def)
  let ?v = "u\<lparr>pw_port := (pw_port u)\<lparr>et_seed := Some (s\<lparr>sd_active := True\<rparr>)\<rparr>\<rparr>"
  obtain w' where w': "activateConfiguredZones E ?v = Some (Inr (), w')" "keeps_routes ?v w'"
    "set (et_availableZones (pw_port ?v)) \<subseteq> set (zones_of (pw_rt w') ?s)"
    using configured_zones_run [of ?v E] u(2,3) r by (auto simp: activated_def setCableRange_def usable_range_def)
  have "promoteRequested E s sl w = Some (Inr (sl\<lparr>promotionRequested := False\<rparr>), w')"
    using u(1) w'(1) p by (simp add: promoteRequested_def pa_simps upd_seed_def)
  moreover have "activated ?s ?e w w'"
    using u(2) w'(2) known_cong [of "pw_rt w'" "pw_rt u"] other_targets_trans [of _ "pw_rt w" "pw_rt u" "pw_rt w'"]
    by (auto simp: activated_def keeps_routes_def)
  then have "in_charge s w w'"
    using w'(2,3) u(3) s
    by (simp add: in_charge_def keeps_routes_def seedAuthorityActive_def activeAuthority_def unopposed_def cableRange_def setCableRange_def)
  ultimately show ?thesis by blast
qed


section \<open>Properties\<close>

text \<open>
  C22: a soft seed that nobody answers takes over.  When its delay is over, a turn of the loop asks AARP for
  an address in the configured range and leaves the routes alone; once AARP holds one, the next turn
  makes the seed the authority of the cable: the port has the configured range and the claimed
  address, the table has a direct route to the range at distance 0 and none to the range the port
  had before, the routes of all other targets are as they were, and the configured zones belong to
  the network.
\<close>

theorem soft_seed_takes_over:
  assumes "rt_inv (pw_rt w)" "et_seed (pw_port w) = Some s" "unopposed s"
  shows "(\<not> promotionRequested sl \<and> promotionEligibleAt sl \<noteq> 0 \<and> promotionEligibleAt sl \<le> pe_now E \<and>
            ar_rangeCh (et_aarp (pw_port w)) = None \<longrightarrow>
            (\<exists>w'. RunSeedState_tick E sl w = Some (Inr \<lparr>promotionEligibleAt = 0, promotionRequested = True\<rparr>, w') \<and>
               ar_rangeCh (et_aarp (pw_port w')) = Some (sd_configuredStart s, sd_configuredEnd s) \<and> pw_rt w' = pw_rt w)) \<and>
         (promotionRequested sl \<and>
            OperationalRange (et_aarp (pw_port w)) = (sd_configuredStart s, sd_configuredEnd s, True) \<longrightarrow>
            (\<exists>w'. RunSeedState_tick E sl w = Some (Inr (sl\<lparr>promotionRequested := False\<rparr>), w') \<and> in_charge s w w'))"
proof -
  obtain u a where u: "RunSeedState_tick E sl w = considerPromotion E s sl u" "pw_rt u = pw_rt w"
    "pw_port u = (pw_port w)\<lparr>et_myAddr := a\<rparr>"
    using unopposed_tick [OF assms(2,3)] by blast
  have frame: "in_charge s u w' = in_charge s w w'" for w'
    using refresh_frame [OF u(2,3)] u(3) by (simp add: in_charge_def)
  show ?thesis
  proof (intro conjI impI)
    assume "\<not> promotionRequested sl \<and> promotionEligibleAt sl \<noteq> 0 \<and> promotionEligibleAt sl \<le> pe_now E \<and>
      ar_rangeCh (et_aarp (pw_port w)) = None"
    with considering(2) [OF assms(3), of sl E] assms(3) u
    show "\<exists>w'. RunSeedState_tick E sl w = Some (Inr \<lparr>promotionEligibleAt = 0, promotionRequested = True\<rparr>, w') \<and>
        ar_rangeCh (et_aarp (pw_port w')) = Some (sd_configuredStart s, sd_configuredEnd s) \<and> pw_rt w' = pw_rt w"
      by (auto simp: upd_aarp_def pa_simps Rebind_def unopposed_def usable_range_def isPhase2StartupRange_def)
  next
    assume "promotionRequested sl \<and> OperationalRange (et_aarp (pw_port w)) = (sd_configuredStart s, sd_configuredEnd s, True)"
    with considering(1) [OF assms(3), of sl E] promote_run [of u s E sl] assms u
    show "\<exists>w'. RunSeedState_tick E sl w = Some (Inr (sl\<lparr>promotionRequested := False\<rparr>), w') \<and> in_charge s w w'"
      by (simp add: frame)
  qed
qed

definition sample_seed :: seedController where
  "sample_seed = newSeedController SeedModeSoft 5 3 5 ''z''"

definition sample_seed_port :: EtherTalkPort where
  "sample_seed_port =
     (let port = NewEtherTalkPort ''eth0'' [1, 2, 3, 4, 5, 6] 3 5 ''z'' [''z''] SeedModeSoft 5 in
      port\<lparr>et_aarp := (et_aarp port)\<lparr>ar_rangeStart := 3, ar_rangeEnd := 5, ar_operational := True, ar_assigned := True\<rparr>\<rparr>)"

lemma sample_seed_port:
  "et_seed sample_seed_port = Some sample_seed" "OperationalRange (et_aarp sample_seed_port) = (3, 5, True)"
  "ar_rangeCh (et_aarp sample_seed_port) = None"
  by (simp_all add: sample_seed_port_def sample_seed_def NewEtherTalkPort_def NewAARPMachine_def setCableRange_def Let_def OperationalRange_def)

lemma sample_seed_unopposed: "unopposed sample_seed"
  by (simp add: sample_seed_def newSeedController_def unopposed_def usable_range_def)

theorem soft_seed_takes_over_witness:
  "(\<exists>w'. RunSeedState_tick sample_port_env \<lparr>promotionEligibleAt = 5, promotionRequested = False\<rparr>
       (sample_port_world\<lparr>pw_port := sample_seed_port\<rparr>) =
       Some (Inr \<lparr>promotionEligibleAt = 0, promotionRequested = True\<rparr>, w') \<and>
     ar_rangeCh (et_aarp (pw_port w')) = Some (3, 5)) \<and>
   (\<exists>w'. RunSeedState_tick sample_port_env \<lparr>promotionEligibleAt = 0, promotionRequested = True\<rparr>
       (sample_port_world\<lparr>pw_port := sample_seed_port\<rparr>) =
       Some (Inr \<lparr>promotionEligibleAt = 0, promotionRequested = False\<rparr>, w') \<and>
     in_charge sample_seed (sample_port_world\<lparr>pw_port := sample_seed_port\<rparr>) w')"
proof -
  let ?w = "sample_port_world\<lparr>pw_port := sample_seed_port\<rparr>"
  have "rt_inv (pw_rt ?w)" using rt_inv_init by (simp add: sample_port_world_def)
  moreover have "et_seed (pw_port ?w) = Some sample_seed" by (simp add: sample_seed_port)
  moreover have "sd_configuredStart sample_seed = 3" "sd_configuredEnd sample_seed = 5" "pe_now sample_port_env = 7"
    by (simp_all add: sample_seed_def newSeedController_def sample_port_env_def)
  ultimately show ?thesis
    using soft_seed_takes_over [of ?w sample_seed "\<lparr>promotionEligibleAt = 5, promotionRequested = False\<rparr>" sample_port_env]
      soft_seed_takes_over [of ?w sample_seed "\<lparr>promotionEligibleAt = 0, promotionRequested = True\<rparr>" sample_port_env]
      sample_seed_unopposed
    by (auto simp: sample_seed_port)
qed

lemma broadcast_run:
  assumes op: "OperationalRange (et_aarp (pw_port w)) = (s, e, True)"
  shows "\<exists>r u. broadcastRTMPData E w = Some (r, u) \<and> pw_rt u = pw_rt w \<and>
    pw_port u = setCableRange s e ((pw_port w)\<lparr>et_myAddr := pr_Proto (ar_myAddr (et_aarp (pw_port w)))\<rparr>)"
proof -
  let ?p = "setCableRange s e ((pw_port w)\<lparr>et_myAddr := pr_Proto (ar_myAddr (et_aarp (pw_port w)))\<rparr>)"
  define send where "send = pa_each (\<lambda>dataPkt.
      pa_bind (pa_lift PErrMarshal (rtmp_DataPacket_Marshal dataPkt)) (\<lambda>body.
        port_Broadcast E (ddp_packet 0 0xff 1 (et_myAddr ?p) 1 (ProtoRTMPResp (pe_protos E)) body)))
    (rtmpDataPackets E True ?p (pw_rt w))"
  have lift: "quiet (pa_lift g r)" "pkeeps P (pa_lift g r)" for g :: "atalk_error \<Rightarrow> port_error" and r P
    by (simp_all add: pa_lift_def split: sum.split)
  have "quiet send" unfolding send_def by (intro quiet_each quiet_bind lift) simp
  then obtain r u where u: "send (w\<lparr>pw_port := ?p\<rparr>) = Some (r, u)" "pw_rt u = pw_rt (w\<lparr>pw_port := ?p\<rparr>)" by (rule quietE)
  have "pkeeps (\<lambda>p. p = ?p) send" unfolding send_def by (intro pkeeps_each pkeeps_bind lift) (simp add: port_Broadcast_def)
  then have "pw_port u = ?p" using u(1) by (rule pkeepsD) simp
  moreover have "refresh_address (pw_port w) = (pw_port w)\<lparr>et_myAddr := pr_Proto (ar_myAddr (et_aarp (pw_port w)))\<rparr>"
    using op by (simp add: refresh_address_def aarp_Address_def OperationalRange_def)
  then have "broadcastRTMPData E w = send (w\<lparr>pw_port := ?p\<rparr>)"
    using op by (simp add: broadcastRTMPData_def pa_simps send_def)
  ultimately show ?thesis using u by simp
qed

text \<open>
  C23: a port that moves to another range can keep routing to the one it left.  The range is taken
  over by the seed loop, which deletes the direct route to the previous range, and by the RTMP
  broadcast, which only sets the range: when a broadcast comes first, the seed loop no longer sees
  the previous range, and its direct route stays in the table.
\<close>

theorem moved_port_stale_route:
  assumes "rt_inv (pw_rt w)" "usable_range s e" "OperationalRange (et_aarp (pw_port w)) = (s, e, True)"
    and "left_range s e (pw_port w) = Some old" "old \<noteq> s"
  shows "(\<exists>w'. adoptRange E s e w = Some (Inr True, w') \<and> known (port_target (pw_port w)) (pw_rt w') old = None) \<and>
         (\<exists>r u w'. broadcastRTMPData E w = Some (r, u) \<and> adoptRange E s e u = Some (Inr True, w') \<and>
            known (port_target (pw_port w)) (pw_rt w') old = known (port_target (pw_port w)) (pw_rt w) old)"
proof
  show "\<exists>w'. adoptRange E s e w = Some (Inr True, w') \<and> known (port_target (pw_port w)) (pw_rt w') old = None"
    using adopt_run [OF assms(1,2,3), of E] assms(4,5) by (auto simp: activated_def)
  obtain r u where u: "broadcastRTMPData E w = Some (r, u)" "pw_rt u = pw_rt w"
    "pw_port u = setCableRange s e ((pw_port w)\<lparr>et_myAddr := pr_Proto (ar_myAddr (et_aarp (pw_port w)))\<rparr>)"
    using broadcast_run [OF assms(3)] by blast
  have "left_range s e (pw_port u) = None" "port_target (pw_port u) = port_target (pw_port w)"
    by (simp_all add: u(3) left_range_def cableRange_def setCableRange_def port_target_def)
  moreover have "OperationalRange (et_aarp (pw_port u)) = (s, e, True)" using assms(3) by (simp add: u(3) setCableRange_def)
  ultimately show "\<exists>r u w'. broadcastRTMPData E w = Some (r, u) \<and> adoptRange E s e u = Some (Inr True, w') \<and>
      known (port_target (pw_port w)) (pw_rt w') old = known (port_target (pw_port w)) (pw_rt w) old"
    using adopt_run [of u s e E] assms(1,2,5) u(1,2) by (auto simp: activated_def)
qed

theorem moved_port_stale_route_witness:
  "\<exists>rt r u w'. rt_inv rt \<and>
     broadcastRTMPData sample_port_env
       (sample_port_world\<lparr>pw_port := setCableRange 20 29 sample_seed_port, pw_rt := rt\<rparr>) = Some (r, u) \<and>
     adoptRange sample_port_env 3 5 u = Some (Inr True, w') \<and>
     known (port_target sample_seed_port) (pw_rt w') 20 = Some (True, 29, 0)"
proof -
  let ?t = "port_target sample_seed_port"
  from UpsertRoute_ok [OF rt_inv_init port_target_ok, of 20 29 True 0 0 sample_seed_port]
  obtain new rt where rt: "rt_inv rt" "rt_abs rt = (rt_abs NewRouteTable)(target_key ?t 20 \<mapsto> new)"
    "r_Extended new = True" "r_NetEnd new = 29" "r_Distance new = 0" by auto
  have k: "known ?t rt 20 = Some (True, 29, 0)" using known_upd(1) [OF rt(2-5)] by simp
  let ?p = "setCableRange 20 29 sample_seed_port"
  let ?w = "sample_port_world\<lparr>pw_port := ?p, pw_rt := rt\<rparr>"
  have p: "port_target ?p = ?t" "et_aarp ?p = et_aarp sample_seed_port"
    by (simp_all add: port_target_def setCableRange_def)
  have "rt_inv (pw_rt ?w)" "usable_range 3 5" "OperationalRange (et_aarp (pw_port ?w)) = (3, 5, True)"
    "left_range 3 5 (pw_port ?w) = Some 20"
    using rt(1) by (simp_all add: usable_range_def sample_seed_port p(2))
      (simp add: left_range_def cableRange_def setCableRange_def isPhase2StartupRange_def)
  from moved_port_stale_route [OF this, of sample_port_env] rt(1) k show ?thesis
    by (auto simp: p(1))
qed

end
