(* ===== verification/Zip.thy ===== *)
theory Zip
  imports Rtmp
begin

text \<open>
  ZIP on an EtherTalk port (\<open>src/router/zip.go\<close>) and the zones of clusters
  (\<open>src/router/aurp_cluster.go\<close>): queries for the zones of networks, the configuration of a node that
  starts, and the lists of zones for choosers.
\<close>

section \<open>Zones of networks\<close>

definition clusterZones :: "time \<Rightarrow> AURPClusterRule \<Rightarrow> RouteTable \<Rightarrow> string list" where
  "clusterZones now cluster rt =
     sort (fold (\<lambda>route. set_insert (Route_ZoneNames rt route))
       (filter (cl_containsRoute cluster) (ValidRoutesForClass now TargetClassAURPPeer rt)) [])"

definition zones_for_network ::
  "port_env \<Rightarrow> RouteTable \<Rightarrow> network \<Rightarrow> (network \<times> string list) list \<Rightarrow> (network \<times> string list) list" where
  "zones_for_network E rt network result =
     (case Option.bind (pe_cfg E) (\<lambda>c. clusterForNetwork c network) of
        Some cluster \<Rightarrow>
          let zones = clusterZones (pe_now E) cluster rt in
          if length zones > 0 then AList.update (cl_Start cluster) zones result else result
      | None \<Rightarrow>
          fold (\<lambda>(n, zones). AList.update n zones) (ZonesForNetworks (pe_now E) [network] rt) result)"

definition zonesForZIPNetworks :: "port_env \<Rightarrow> RouteTable \<Rightarrow> network list \<Rightarrow> (network \<times> string list) list" where
  "zonesForZIPNetworks E rt networks = fold (zones_for_network E rt) networks []"


section \<open>Queries and replies\<close>

text \<open>An answer to the socket that asked.\<close>

definition zip_answer :: "port_env \<Rightarrow> ExtPacket \<Rightarrow> byte \<Rightarrow> byte list \<Rightarrow> unit pact" where
  "zip_answer E ddpkt proto body =
     with_port (\<lambda>port.
       port_Send E (ddp_packet (dd_SrcNet ddpkt) (dd_SrcNode ddpkt) (dd_SrcSocket ddpkt) (et_myAddr port) 6 proto body))"

definition sendReply :: "port_env \<Rightarrow> ExtPacket \<Rightarrow> zip_ReplyPacket \<Rightarrow> unit pact" where
  "sendReply E ddpkt resp =
     pa_bind (pa_lift PErrMarshal (zip_ReplyPacket_Marshal resp)) (zip_answer E ddpkt (ProtoZIP (pe_protos E)))"

definition zone_size :: "string \<Rightarrow> nat" where
  "zone_size z = 3 + length z"

definition reply_size :: "(network \<times> string list) list \<Rightarrow> nat" where
  "reply_size networks = 2 + sum_list (map (\<lambda>(n, zl). sum_list (map zone_size zl)) networks)"

fun zones_fitting :: "nat \<Rightarrow> string list \<Rightarrow> string list" where
  "zones_fitting sz [] = []"
| "zones_fitting sz (z # zs) =
     (let sz' = sz + zone_size z in if sz' > DDPMaxDataSize then [] else z # zones_fitting sz' zs)"

interpretation zones: packer zones_fitting zone_size DDPMaxDataSize
  by unfold_locales (simp_all add: Let_def)

text \<open>
  The extended replies for one network.  A name that does not fit into any packet would be retried
  for ever; names have at most 255 bytes.
\<close>

function extended_replies :: "port_env \<Rightarrow> ExtPacket \<Rightarrow> network \<Rightarrow> nat \<Rightarrow> string list \<Rightarrow> unit pact" where
  "extended_replies E ddpkt nn nzones rem =
     (if rem = [] then pa_ret ()
      else
        let chunk = zones_fitting 2 rem in
        pa_seq (sendReply E ddpkt
            \<lparr>zr_Extended = True, zr_NetworkCount = word_of_nat nzones, zr_Networks = [(nn, chunk)]\<rparr>)
          (if chunk = [] then (\<lambda>w. None) else extended_replies E ddpkt nn nzones (drop (length chunk) rem)))"
  by auto

termination
  by (relation "measure (\<lambda>(E, d, n, t, rem). length rem)") auto

declare extended_replies.simps [simp del]

definition handleZIPQuery :: "port_env \<Rightarrow> ExtPacket \<Rightarrow> zip_QueryPacket \<Rightarrow> unit pact" where
  "handleZIPQuery E ddpkt zipkt =
     with_rt (\<lambda>rt.
       let networks = zonesForZIPNetworks E rt (zq_Networks zipkt) in
       if reply_size networks \<le> DDPMaxDataSize
       then sendReply E ddpkt
         \<lparr>zr_Extended = False, zr_NetworkCount = word_of_nat (length networks), zr_Networks = networks\<rparr>
       else pa_each (\<lambda>(nn, zl). extended_replies E ddpkt nn (length zl) zl) networks)"

definition handleZIPReply :: "port_env \<Rightarrow> zip_ReplyPacket \<Rightarrow> unit pact" where
  "handleZIPReply E zipkt = pa_each (\<lambda>(n, zs). port_AddZones E n zs) (zr_Networks zipkt)"


section \<open>GetNetInfo\<close>

definition net_info_reply :: "port_env \<Rightarrow> EtherTalkPort \<Rightarrow> zip_GetNetInfoPacket \<Rightarrow> zip_GetNetInfoReplyPacket" where
  "net_info_reply E port zipkt =
     (let zoneValid = (gni_ZoneName zipkt \<in> set (et_availableZones port)) in
      \<lparr>gnr_ZoneInvalid = (\<not> zoneValid), gnr_UseBroadcast = False,
       gnr_OnlyOneZone = (length (et_availableZones port) = 1),
       gnr_NetStart = fst (cableRange port), gnr_NetEnd = snd (cableRange port),
       gnr_ZoneName = gni_ZoneName zipkt,
       gnr_MulticastAddr = MulticastAddr (et_AppleTalkBroadcast (pe_em E))
         (if zoneValid then gni_ZoneName zipkt else et_defaultZoneName port),
       gnr_DefaultZoneName = (if zoneValid then [] else et_defaultZoneName port)\<rparr>)"

definition handleZIPGetNetInfo :: "port_env \<Rightarrow> ExtPacket \<Rightarrow> zip_GetNetInfoPacket \<Rightarrow> unit pact" where
  "handleZIPGetNetInfo E ddpkt zipkt =
     with_port (\<lambda>port.
       if \<not> seedAuthorityActive port then pa_ret ()
       else
         pa_bind (pa_lift PErrMarshal (zip_GetNetInfoReplyPacket_Marshal (net_info_reply E port zipkt)))
           (\<lambda>respRaw.
             port_Send E (ddp_packet
               (if dd_DstNet ddpkt = 0 then 0 else dd_SrcNet ddpkt)
               (if dd_DstNode ddpkt = 0xFF then 0xFF else dd_SrcNode ddpkt)
               (dd_SrcSocket ddpkt) (et_myAddr port) 6 (ProtoZIP (pe_protos E)) respRaw)))"

definition observed_zone :: "zip_GetNetInfoReplyPacket \<Rightarrow> string" where
  "observed_zone p =
     (if gnr_ZoneInvalid p \<and> gnr_DefaultZoneName p \<noteq> [] then gnr_DefaultZoneName p else gnr_ZoneName p)"

fun handleZIPZIP_packet :: "port_env \<Rightarrow> ExtPacket \<Rightarrow> zip_Packet \<Rightarrow> unit pact" where
  "handleZIPZIP_packet E ddpkt (ZQuery p) = handleZIPQuery E ddpkt p"
| "handleZIPZIP_packet E ddpkt (ZReply p) = handleZIPReply E p"
| "handleZIPZIP_packet E ddpkt (ZGetNetInfo p) = handleZIPGetNetInfo E ddpkt p"
| "handleZIPZIP_packet E ddpkt (ZGetNetInfoReply p) =
     observeCableConfig E (gnr_NetStart p) (gnr_NetEnd p) (observed_zone p) True"

definition handleZIPZIP :: "port_env \<Rightarrow> ExtPacket \<Rightarrow> unit pact" where
  "handleZIPZIP E ddpkt = pa_bind (parse (zip_UnmarshalPacket (dd_Data ddpkt))) (handleZIPZIP_packet E ddpkt)"


section \<open>Zone lists\<close>

text \<open>The zones of one answer, and whether they are the last.\<close>

fun page_fitting :: "nat \<Rightarrow> string list \<Rightarrow> string list" where
  "page_fitting sz [] = []"
| "page_fitting sz (z # zs) =
     (let sz' = sz + (1 + length z) in if sz' > atp_MaxDataSize then [] else z # page_fitting sz' zs)"

interpretation page: packer page_fitting "\<lambda>z. 1 + length z" atp_MaxDataSize
  by unfold_locales (simp_all add: Let_def)

definition zone_page :: "u16 \<Rightarrow> string list \<Rightarrow> string list \<times> bool" where
  "zone_page startIndex zones =
     (if unat startIndex > length zones then ([], True)
      else
        let rest = drop (unat startIndex - 1) zones; page = page_fitting 0 rest
        in (page, length page = length rest))"

definition zone_list :: "EtherTalkPort \<Rightarrow> RouteTable \<Rightarrow> byte \<Rightarrow> string list" where
  "zone_list port rt fn =
     (if fn = FunctionGetZoneList then AllZoneNames rt
      else if fn = FunctionGetLocalZones then et_availableZones port
      else if fn = FunctionGetMyZone then [et_defaultZoneName port]
      else [])"

definition handleZIPTReq :: "port_env \<Rightarrow> ExtPacket \<Rightarrow> atp_TReq \<Rightarrow> unit pact" where
  "handleZIPTReq E ddpkt atpkt =
     pa_bind (parse (zip_UnmarshalTReq atpkt)) (\<lambda>gzl.
       if gz_StartIndex gzl = 0 then pa_fail PErrStartIndex
       else
         with_port (\<lambda>port. with_rt (\<lambda>rt.
           if \<not> seedAuthorityActive port \<and>
              (gz_Function gzl = FunctionGetLocalZones \<or> gz_Function gzl = FunctionGetMyZone)
           then pa_ret ()
           else
             let (zones, lastFlag) = zone_page (gz_StartIndex gzl) (zone_list port rt (gz_Function gzl)) in
             pa_bind (pa_lift PErrMarshal (zip_GetZonesReply_MarshalTResp
                 \<lparr>gzr_TID = gz_TID gzl, gzr_LastFlag = lastFlag, gzr_Zones = zones\<rparr>)) (\<lambda>respATP.
               pa_bind (pa_lift PErrMarshal (atp_TResp_Marshal respATP))
                 (zip_answer E ddpkt (ProtoATP (pe_protos E)))))))"

definition handleZIPATP :: "port_env \<Rightarrow> ExtPacket \<Rightarrow> unit pact" where
  "handleZIPATP E ddpkt =
     pa_bind (parse (atp_UnmarshalPacket (dd_Data ddpkt))) (\<lambda>atpkt.
       case atpkt of
         ATReq treq \<Rightarrow> handleZIPTReq E ddpkt treq
       | ATResp _ \<Rightarrow> pa_fail PErrUnsupported
       | ATRel _ \<Rightarrow> pa_fail PErrUnsupported)"

definition HandleZIP :: "port_env \<Rightarrow> ExtPacket \<Rightarrow> unit pact" where
  "HandleZIP E ddpkt =
     (if dd_Proto ddpkt = ProtoATP (pe_protos E) then handleZIPATP E ddpkt
      else if dd_Proto ddpkt = ProtoZIP (pe_protos E) then handleZIPZIP E ddpkt
      else pa_fail (PErrProto (dd_Proto ddpkt)))"

end
