(* ===== verification/ZipProps.thy ===== *)
theory ZipProps
  imports Zip Outbox
begin

text \<open>
  The zone lists of \<open>src/router/zip.go\<close>: a chooser that asks for one page after the other receives the
  whole list.
\<close>

section \<open>Pages\<close>

text \<open>
  A chooser asks from index 1 on, continues behind the zones it has received, and stops at the last
  flag; the first argument bounds its requests.
\<close>

fun read_pages :: "nat \<Rightarrow> string list \<Rightarrow> u16 \<Rightarrow> string list \<times> bool" where
  "read_pages 0 zones i = ([], False)"
| "read_pages (Suc n) zones i =
     (case zone_page i zones of
        (page, True) \<Rightarrow> (page, True)
      | (page, False) \<Rightarrow>
          (case read_pages n zones (i + word_of_nat (length page)) of (rest, done') \<Rightarrow> (page @ rest, done')))"

lemma zone_page_last:
  assumes "zone_page i zones = (page, True)" "1 \<le> unat i"
  shows "page = drop (unat i - 1) zones"
  using assms
  by (auto simp: zone_page_def Let_def page.fit_whole [simplified] split: if_splits)

lemma zone_page_more:
  assumes page: "zone_page i zones = (page, False)" "1 \<le> unat i"
    and short: "\<forall>z \<in> set zones. length z < atp_MaxDataSize" and n: "length zones < 65536"
  shows "page \<noteq> []" "page @ drop (unat (i + word_of_nat (length page)) - 1) zones = drop (unat i - 1) zones"
    "unat (i + word_of_nat (length page)) = unat i + length page" "unat i + length page \<le> length zones"
proof -
  let ?rest = "drop (unat i - 1) zones"
  from page have i: "unat i \<le> length zones" and p: "page = page_fitting 0 ?rest" and l: "length page \<noteq> length ?rest"
    by (auto simp: zone_page_def Let_def split: if_splits)
  have "?rest \<noteq> []" using i page(2) by auto
  moreover from this have "hd ?rest \<in> set zones" by (meson hd_in_set in_set_dropD)
  ultimately show "page \<noteq> []"
    unfolding p using short by (intro page.fit_nonempty) auto
  have "length page < length ?rest"
    using l page.fit_length [of 0 ?rest] p by simp
  then show le: "unat i + length page \<le> length zones" using page(2) by simp
  then show u: "unat (i + word_of_nat (length page)) = unat i + length page"
    using n by (simp add: unat_word_ariths unat_of_nat)
  have "unat i + length page - 1 = length page + (unat i - 1)" using page(2) by simp
  then show "page @ drop (unat (i + word_of_nat (length page)) - 1) zones = ?rest"
    unfolding u using page.fit_rest [of 0 ?rest, folded p] by (simp add: drop_drop)
qed

lemma read_pages_all:
  assumes short: "\<forall>z \<in> set zones. length z < atp_MaxDataSize" and n: "length zones < 65536"
  shows "1 \<le> unat i \<Longrightarrow> length zones + 1 < k + unat i \<Longrightarrow> 0 < k \<Longrightarrow> read_pages k zones i = (drop (unat i - 1) zones, True)"
proof (induction k arbitrary: i)
  case (Suc k)
  obtain page fin where p: "zone_page i zones = (page, fin)" by fastforce
  show ?case
  proof (cases fin)
    case True
    with p zone_page_last [of i zones page] Suc.prems(1) show ?thesis by simp
  next
    case False
    with p have p: "zone_page i zones = (page, False)" by simp
    note more = zone_page_more [OF p Suc.prems(1) short n]
    have "length page > 0" using more(1) by simp
    then have "read_pages k zones (i + word_of_nat (length page)) =
        (drop (unat (i + word_of_nat (length page)) - 1) zones, True)"
      using Suc.prems more by (intro Suc.IH) linarith+
    with p more(2) show ?thesis by simp
  qed
qed simp

text \<open>The page can be put into one ATP response.\<close>

lemma zone_page_marshals:
  assumes "zone_page i zones = (page, fin)" "\<forall>z \<in> set zones. length z \<le> 32"
  shows "\<exists>t. zip_GetZonesReply_MarshalTResp \<lparr>gzr_TID = tid, gzr_LastFlag = fin, gzr_Zones = page\<rparr> = Inr t"
proof -
  from assms(1) have p: "page = [] \<or> page = page_fitting 0 (drop (unat i - 1) zones)"
    by (auto simp: zone_page_def Let_def split: if_splits)
  have "set page \<subseteq> set zones"
    using p page.fit_prefix [of 0 "drop (unat i - 1) zones"] by (metis empty_iff empty_set in_set_dropD in_set_takeD subsetI)
  then have "\<forall>z \<in> set page. length z \<le> 32" using assms(2) by blast
  then have "zip_zones_data page [] = Inr (concat (map lv_bytes page))" by (simp add: zip_zones_data_ok)
  moreover have "length (concat (map lv_bytes zs)) = sum_list (map (\<lambda>z. 1 + length z) zs)" for zs
    by (induction zs) (simp_all add: lv_bytes_def)
  then have "length (concat (map lv_bytes page)) \<le> atp_MaxDataSize"
    using p page.fit_size [of 0 "drop (unat i - 1) zones"] by auto
  ultimately show ?thesis by (simp add: zip_GetZonesReply_MarshalTResp_def)
qed


section \<open>Properties\<close>


definition sample_zone_world :: port_world where
  "sample_zone_world =
     sample_port_world\<lparr>pw_port := NewEtherTalkPort ''eth0'' [1, 2, 3, 4, 5, 6] 3 5 ''beta'' [''alpha'', ''beta''] SeedModeHard 0\<rparr>"

definition sample_zone_request :: ExtPacket where
  "sample_zone_request =
     ddp_packet 3 7 6 \<lparr>ad_Network = 3, ad_Node = 9\<rparr> 6 (ProtoATP sample_protos) [0x40, 1, 0, 5, 9, 0, 0, 2]"


end
