(* ===== verification/Nbp.thy ===== *)
theory Nbp
  imports Zip SeedLoop
begin

text \<open>
  NBP and AEP in the router (\<open>src/router/nbp.go\<close>, \<open>src/router/nbp_aurp.go\<close>, \<open>src/router/aep.go\<close>),
  lookups for clusters (\<open>src/router/aurp_cluster.go\<close>), and the loop that reads the frames of a port
  (\<open>Serve\<close> in \<open>src/router/etalk_port.go\<close>).
\<close>

section \<open>The router as a named entity\<close>

definition matches_router :: "port_env \<Rightarrow> EtherTalkPort \<Rightarrow> nbp_Tuple \<Rightarrow> bool" where
  "matches_router E port tuple \<longleftrightarrow>
     (nbp_Object tuple = pe_NameVersion E \<or> nbp_Object tuple = ''='') \<and>
     (nbp_Type tuple = ''AppleRouter'' \<or> nbp_Type tuple = ''='') \<and>
     (nbp_Zone tuple = et_defaultZoneName port \<or> nbp_Zone tuple = ''*'' \<or> nbp_Zone tuple = [])"

definition router_tuple :: "port_env \<Rightarrow> EtherTalkPort \<Rightarrow> nbp_Tuple" where
  "router_tuple E port =
     \<lparr>nbp_Network = ad_Network (et_myAddr port), nbp_Node = ad_Node (et_myAddr port), nbp_Socket = 253,
      nbp_Enumerator = 0, nbp_Object = pe_NameVersion E, nbp_Type = ''AppleRouter'', nbp_Zone = et_defaultZoneName port\<rparr>"

definition helloWorldThisIsMe ::
  "port_env \<Rightarrow> EtherTalkPort \<Rightarrow> byte \<Rightarrow> nbp_Tuple \<Rightarrow> atalk_error + ExtPacket option" where
  "helloWorldThisIsMe E port nbpID tuple =
     (if \<not> matches_router E port tuple then Inr None
      else
        case nbp_Marshal \<lparr>nbp_Function = FunctionLkUpReply, nbp_NBPID = nbpID, nbp_Tuples = [router_tuple E port]\<rparr> of
          Inl e \<Rightarrow> Inl e
        | Inr respRaw \<Rightarrow>
            Inr (Some (ddp_packet (nbp_Network tuple) (nbp_Node tuple) (nbp_Socket tuple) (et_myAddr port) 2
              (ProtoNBP (pe_ddp E)) respRaw)))"


section \<open>NBP\<close>

text \<open>The ports of the router, the current one as it is now.\<close>

definition ports_now :: "port_env \<Rightarrow> EtherTalkPort \<Rightarrow> EtherTalkPort list" where
  "ports_now E port = map (\<lambda>p. if et_device p = et_device port then port else p) (pe_ports E)"

definition marshal_as :: "byte \<Rightarrow> nbp_Packet \<Rightarrow> byte list pact" where
  "marshal_as fn nbpkt = pa_lift PErrMarshal (nbp_Marshal (nbpkt\<lparr>nbp_Function := fn\<rparr>))"

text \<open>The answer of the router for itself, if it is meant, handed to \<open>k\<close>.\<close>

definition brrq_local :: "port_env \<Rightarrow> EtherTalkPort \<Rightarrow> nbp_Packet \<Rightarrow> nbp_Tuple \<Rightarrow> EtherTalkPort \<Rightarrow> unit pact" where
  "brrq_local E port nbpkt tuple etPort =
     pa_bind (marshal_as FunctionLkUp nbpkt) (\<lambda>nbpRaw.
       pa_seq (port_ZoneMulticast E etPort (nbp_Zone tuple)
           (ddp_packet 0 0xFF 2 (et_myAddr port) 2 (ProtoNBP (pe_ddp E)) nbpRaw))
         (pa_bind (pa_lift PErrMarshal (helloWorldThisIsMe E port (nbp_NBPID nbpkt) tuple)) (\<lambda>out.
            case out of None \<Rightarrow> pa_ret () | Some outDDP2 \<Rightarrow> port_Send E outDDP2)))"

definition brrq_remote :: "port_env \<Rightarrow> ExtPacket \<Rightarrow> nbp_Packet \<Rightarrow> Route \<Rightarrow> unit pact" where
  "brrq_remote E ddpkt nbpkt route =
     pa_bind (marshal_as FunctionFwdReq nbpkt) (\<lambda>nbpRaw.
       router_Output E (ddp_packet (r_NetStart route) 0 2
         \<lparr>ad_Network = dd_SrcNet ddpkt, ad_Node = dd_SrcNode ddpkt\<rparr> (dd_SrcSocket ddpkt) (ProtoNBP (pe_ddp E)) nbpRaw))"

text \<open>Direct routes are those of ports; the route holds its port, so the search does not fail.\<close>

definition brrq_route :: "port_env \<Rightarrow> EtherTalkPort \<Rightarrow> ExtPacket \<Rightarrow> nbp_Packet \<Rightarrow> nbp_Tuple \<Rightarrow> Route \<Rightarrow> unit pact" where
  "brrq_route E port ddpkt nbpkt tuple route =
     (if tg_Class (route_target route) = TargetClassDirect then
        case find (\<lambda>p. tg_RouteTargetKey (port_target p) = tg_RouteTargetKey (route_target route)) (ports_now E port) of
          None \<Rightarrow> (\<lambda>w. None)
        | Some etPort \<Rightarrow> brrq_local E port nbpkt tuple etPort
      else brrq_remote E ddpkt nbpkt route)"

definition handleNBPBrRq :: "port_env \<Rightarrow> ExtPacket \<Rightarrow> nbp_Packet \<Rightarrow> unit pact" where
  "handleNBPBrRq E ddpkt nbpkt =
     (case nbp_Tuples nbpkt of
        [] \<Rightarrow> (\<lambda>w. None)
      | tuple # _ \<Rightarrow>
          with_port (\<lambda>port. with_rt (\<lambda>rt.
            pa_each (brrq_route E port ddpkt nbpkt tuple) (RoutesForZone (pe_now E) (nbp_Zone tuple) rt))))"

text \<open>
  The loop over the ports ends at the first port that has the zone and whose answer for the router
  itself is not asked for.
\<close>

fun fwdreq_ports :: "port_env \<Rightarrow> ExtPacket \<Rightarrow> nbp_Packet \<Rightarrow> nbp_Tuple \<Rightarrow> EtherTalkPort list \<Rightarrow> unit pact" where
  "fwdreq_ports E ddpkt nbpkt tuple [] = pa_ret ()"
| "fwdreq_ports E ddpkt nbpkt tuple (outPort # ports) =
     (if nbp_Zone tuple \<notin> set (et_availableZones outPort) then fwdreq_ports E ddpkt nbpkt tuple ports
      else
        pa_bind (marshal_as FunctionLkUp nbpkt) (\<lambda>nbpRaw.
          let ddpkt' = ddpkt\<lparr>dd_DstNet := 0, dd_DstNode := 0xFF, dd_Data := nbpRaw\<rparr> in
          pa_seq (port_ZoneMulticast E outPort (nbp_Zone tuple) ddpkt')
            (pa_bind (pa_lift PErrMarshal (helloWorldThisIsMe E outPort (nbp_NBPID nbpkt) tuple)) (\<lambda>out.
               case out of
                 None \<Rightarrow> pa_ret ()
               | Some outDDP \<Rightarrow>
                   pa_seq (router_Output E outDDP) (fwdreq_ports E ddpkt' nbpkt tuple ports)))))"

definition handleNBPFwdReq :: "port_env \<Rightarrow> ExtPacket \<Rightarrow> nbp_Packet \<Rightarrow> unit pact" where
  "handleNBPFwdReq E ddpkt nbpkt =
     (case nbp_Tuples nbpkt of
        [] \<Rightarrow> (\<lambda>w. None)
      | tuple # _ \<Rightarrow> with_port (\<lambda>port. fwdreq_ports E ddpkt nbpkt tuple (ports_now E port)))"

definition handleNBPLkUp :: "port_env \<Rightarrow> nbp_Packet \<Rightarrow> unit pact" where
  "handleNBPLkUp E nbpkt =
     (case nbp_Tuples nbpkt of
        [] \<Rightarrow> (\<lambda>w. None)
      | tuple # _ \<Rightarrow>
          with_port (\<lambda>port.
            pa_bind (pa_lift PErrMarshal (helloWorldThisIsMe E port (nbp_NBPID nbpkt) tuple)) (\<lambda>out.
              case out of None \<Rightarrow> pa_ret () | Some outDDP \<Rightarrow> port_Send E outDDP)))"

definition HandleNBP :: "port_env \<Rightarrow> ExtPacket \<Rightarrow> unit pact" where
  "HandleNBP E ddpkt =
     (if dd_Proto ddpkt \<noteq> ProtoNBP (pe_ddp E) then pa_fail (PErrProto (dd_Proto ddpkt))
      else
        pa_bind (parse (nbp_Unmarshal (dd_Data ddpkt))) (\<lambda>nbpkt.
          if nbp_Function nbpkt = FunctionLkUp then handleNBPLkUp E nbpkt
          else if nbp_Function nbpkt = FunctionFwdReq then handleNBPFwdReq E ddpkt nbpkt
          else if nbp_Function nbpkt = FunctionBrRq then handleNBPBrRq E ddpkt nbpkt
          else pa_fail (PErrFunction (nbp_Function nbpkt))))"

definition HandleNBPFromAURP :: "port_env \<Rightarrow> ExtPacket \<Rightarrow> unit pact" where
  "HandleNBPFromAURP E ddpkt =
     (if dd_Proto ddpkt \<noteq> ProtoNBP (pe_ddp E) then pa_fail (PErrProto (dd_Proto ddpkt))
      else
        pa_bind (parse (nbp_Unmarshal (dd_Data ddpkt))) (\<lambda>nbpkt.
          if nbp_Function nbpkt \<noteq> FunctionFwdReq then pa_fail (PErrFunction (nbp_Function nbpkt))
          else handleNBPFwdReq E ddpkt nbpkt))"


section \<open>Clusters\<close>

definition routeHasZone :: "RouteTable \<Rightarrow> Route \<Rightarrow> string \<Rightarrow> bool" where
  "routeHasZone rt route zone \<longleftrightarrow> list_ex (\<lambda>candidate. candidate = zone) (Route_ZoneNames rt route)"

definition cluster_members :: "time \<Rightarrow> AURPClusterRule \<Rightarrow> string \<Rightarrow> RouteTable \<Rightarrow> Route list" where
  "cluster_members now cluster zone rt =
     filter (\<lambda>route. cl_containsRoute cluster route \<and> routeHasZone rt route zone)
       (ValidRoutesForClass now TargetClassAURPPeer rt)"

definition handleClusteredNBPFwdReq :: "port_env \<Rightarrow> ExtPacket \<Rightarrow> bool pact" where
  "handleClusteredNBPFwdReq E packet =
     (case Option.bind (pe_cfg E) (\<lambda>c. clusterForNetwork c (dd_DstNet packet)) of
        None \<Rightarrow> pa_ret False
      | Some cluster \<Rightarrow>
          pa_bind (parse (nbp_Unmarshal (dd_Data packet))) (\<lambda>nbpPacket.
            if nbp_Function nbpPacket \<noteq> FunctionFwdReq then pa_ret False
            else
              case nbp_Tuples nbpPacket of
                [tuple] \<Rightarrow>
                  with_rt (\<lambda>rt.
                    pa_seq (pa_each (\<lambda>route. router_Forward E (packet\<lparr>dd_DstNet := r_NetStart route\<rparr>))
                        (cluster_members (pe_now E) cluster (nbp_Zone tuple) rt))
                      (pa_ret True))
              | _ \<Rightarrow> pa_ret False))"


section \<open>AEP\<close>

definition prepareAEPReply :: "ExtPacket \<Rightarrow> ExtPacket" where
  "prepareAEPReply ddpkt =
     ddpkt\<lparr>dd_DstNet := dd_SrcNet ddpkt, dd_SrcNet := dd_DstNet ddpkt,
           dd_DstNode := dd_SrcNode ddpkt, dd_SrcNode := dd_DstNode ddpkt,
           dd_DstSocket := dd_SrcSocket ddpkt, dd_SrcSocket := dd_DstSocket ddpkt,
           dd_Data := (dd_Data ddpkt)[0 := EchoReply], dd_Cksum := 0\<rparr>"

definition HandleAEP :: "port_env \<Rightarrow> ExtPacket \<Rightarrow> unit pact" where
  "HandleAEP E ddpkt =
     (if dd_Proto ddpkt \<noteq> ProtoAEP (pe_protos E) then pa_fail (PErrProto (dd_Proto ddpkt))
      else
        pa_bind (parse (aep_Unmarshal (dd_Data ddpkt))) (\<lambda>ep.
          if aep_Function ep = EchoRequest then router_Output E (prepareAEPReply ddpkt)
          else pa_fail (PErrFunction (aep_Function ep))))"


section \<open>Frames\<close>

text \<open>Addresses are learned from packets of the own network only.\<close>

definition glean :: "port_env \<Rightarrow> ExtPacket \<Rightarrow> hwaddr \<Rightarrow> unit pact" where
  "glean E ddpkt src =
     with_port (\<lambda>port.
       let (cableStart, cableEnd) = cableRange port in
       if dd_SrcNet ddpkt \<ge> cableStart \<and> dd_SrcNet ddpkt \<le> cableEnd
       then upd_port (upd_amt (learn (pe_now E) \<lparr>ad_Network = dd_SrcNet ddpkt, ad_Node = dd_SrcNode ddpkt\<rparr> src))
       else pa_ret ())"

definition serve_foreign :: "port_env \<Rightarrow> ExtPacket \<Rightarrow> unit pact" where
  "serve_foreign E ddpkt =
     pa_bind (if dd_Proto ddpkt = ProtoNBP (pe_ddp E) \<and> dd_DstSocket ddpkt = 2
              then handleClusteredNBPFwdReq E ddpkt else pa_ret False)
       (\<lambda>handled. if handled then pa_ret () else router_Forward E ddpkt)"

definition serve_local :: "port_env \<Rightarrow> ExtPacket \<Rightarrow> unit pact" where
  "serve_local E ddpkt =
     (if dd_DstSocket ddpkt = 1 then HandleRTMP E ddpkt
      else if dd_DstSocket ddpkt = 2 then HandleNBP E ddpkt
      else if dd_DstSocket ddpkt = 4 then HandleAEP E ddpkt
      else if dd_DstSocket ddpkt = 6 then HandleZIP E ddpkt
      else pa_ret ())"

text \<open>The errors of the handlers are logged.\<close>

definition serve_ddp :: "port_env \<Rightarrow> ExtPacket \<Rightarrow> hwaddr \<Rightarrow> unit pact" where
  "serve_ddp E ddpkt src =
     pa_seq (glean E ddpkt src)
       (with_port (\<lambda>port.
          let (cableStart, cableEnd) = cableRange port; (myAddr, ok) = aarp_Address (et_aarp port) in
          if \<not> ok then pa_ret ()
          else
            pa_seq (upd_port (\<lambda>p. p\<lparr>et_myAddr := pr_Proto myAddr\<rparr>))
              (if dd_DstNet ddpkt \<noteq> 0 \<and> \<not> (dd_DstNet ddpkt \<ge> cableStart \<and> dd_DstNet ddpkt \<le> cableEnd)
               then pa_ignore (serve_foreign E ddpkt)
               else if dd_DstNode ddpkt \<noteq> 0 \<and> dd_DstNode ddpkt \<noteq> 0xff \<and> dd_DstNode ddpkt \<noteq> ad_Node (pr_Proto myAddr)
               then pa_ret ()
               else pa_ignore (serve_local E ddpkt))))"

text \<open>
  The payload of an AppleTalk frame, cut to the length in its header.  One that is shorter than two
  bytes is only logged, and the slice then panics.
\<close>

definition trim_payload :: "byte list \<Rightarrow> (byte list, atalk_error) go" where
  "trim_payload payload =
     go_bind (go_bind (go_upto payload 2) BigEndian_Uint16) (\<lambda>x.
       let sz = unat (x AND 0x3ff) in if length payload > sz then go_upto payload sz else Inr payload)"

text \<open>
  One frame of the loop of \<open>Serve\<close>; the result is the payload handed to the AARP machine, if any.
\<close>

definition serve_frame :: "port_env \<Rightarrow> byte list \<Rightarrow> byte list option pact" where
  "serve_frame E rawPkt =
     with_port (\<lambda>port.
       case et_Unmarshal (pe_em E) rawPkt of
         Inl e \<Rightarrow> pa_ret None
       | Inr ethFrame \<Rightarrow>
           if fr_Src ethFrame = et_ethernetAddr port then pa_ret None
           else
             case fr_SNAPProto ethFrame of
               AARPProto \<Rightarrow> pa_ret (Some (fr_Payload ethFrame))
             | AppleTalkProto \<Rightarrow>
                 pa_bind (parse (trim_payload (fr_Payload ethFrame))) (\<lambda>payload.
                   case ExtUnmarshal (pe_protos E) payload of
                     Inl e \<Rightarrow> pa_ret None
                   | Inr ddpkt \<Rightarrow> pa_seq (serve_ddp E ddpkt (fr_Src ethFrame)) (pa_ret None))
             | OtherProto _ \<Rightarrow> pa_ret None)"

end
