(* ===== verification/AurpInput.thy ===== *)
theory AurpInput
  imports Nbp
begin

text \<open>
  The datagrams that arrive at the AURP socket (\<open>AURPInput\<close> in \<open>src/router/aurp.go\<close>): the peer is
  found or made, routing packets go to the queue of its goroutine, and encapsulated AppleTalk packets
  are filtered, renumbered and delivered.

  The world has the peer table, the world of the ports, the counters that \<open>OutputFromAURP\<close> keeps for a
  peer, and the peers whose goroutine was started.  In the world of the ports there is no current port
  for these packets; \<open>pw_port\<close> is one of the ports of the router.
\<close>

section \<open>World\<close>

record aurp_world =
  aw_table :: AURPPeerTable
  aw_ports :: port_world
  aw_ingress :: "peer_ref \<Rightarrow> ingress_counters"
  aw_started :: "peer_ref list"

text \<open>The configuration that the loop reads: open peering and the identity of the router.\<close>

record aurp_input_env =
  ai_port :: port_env
  ai_OpenPeering :: bool
  ai_Identity :: DomainIdentifier

definition upd_world_peer :: "peer_ref \<Rightarrow> (TablePeer \<Rightarrow> TablePeer) \<Rightarrow> aurp_world \<Rightarrow> aurp_world" where
  "upd_world_peer i f w =
     w\<lparr>aw_table := (aw_table w)\<lparr>peers := (peers (aw_table w))[i := f (peers (aw_table w) ! i)]\<rparr>\<rparr>"

abbreviation peer_at :: "aurp_world \<Rightarrow> peer_ref \<Rightarrow> TablePeer" where
  "peer_at w i \<equiv> peers (aw_table w) ! i"


section \<open>Encapsulated packets\<close>

text \<open>What the filters of the peer leave of a packet; \<open>None\<close> if it is dropped.\<close>

definition import_ddp :: "port_env \<Rightarrow> TablePeer \<Rightarrow> ExtPacket \<Rightarrow> ExtPacket option" where
  "import_ddp E p ddpkt =
     (if importNetworkHidden p (dd_SrcNet ddpkt) then None
      else
        case remapInboundDDP (pe_ddp E) p ddpkt of
          Inl e \<Rightarrow> None
        | Inr remapped \<Rightarrow>
            case filterDeviceNBP (pe_ddp E) p remapped ''import'' of
              Inl e \<Rightarrow> None
            | Inr Drop \<Rightarrow> None
            | Inr (Keep filtered) \<Rightarrow>
                if (case pe_cfg E of None \<Rightarrow> False | Some c \<Rightarrow> networkHidden c (dd_DstNet filtered)) then None
                else Some filtered)"

text \<open>The port whose configured range has the destination.\<close>

definition local_port :: "port_env \<Rightarrow> ExtPacket \<Rightarrow> EtherTalkPort option" where
  "local_port E ddpkt =
     find (\<lambda>port. dd_DstNet ddpkt \<ge> et_netStart port \<and> dd_DstNet ddpkt \<le> et_netEnd port) (pe_ports E)"

definition output_from_aurp :: "port_env \<Rightarrow> peer_ref \<Rightarrow> ExtPacket \<Rightarrow> aurp_world \<Rightarrow> aurp_world" where
  "output_from_aurp E i ddpkt w =
     (case OutputFromAURP (pe_ddp E) (pe_fwd E) (pe_now E) (pe_cfg E) (peer_at w i) ddpkt (pw_rt (aw_ports w))
             (aw_ingress w i) of
        (err, rt', k', sent) \<Rightarrow>
          w\<lparr>aw_ports := (aw_ports w)\<lparr>pw_rt := rt', pw_sent := pw_sent (aw_ports w) @ sent\<rparr>,
            aw_ingress := (aw_ingress w)(i := k')\<rparr>)"

definition deliver_ddp :: "port_env \<Rightarrow> peer_ref \<Rightarrow> ExtPacket \<Rightarrow> aurp_world \<Rightarrow> aurp_world option" where
  "deliver_ddp E i ddpkt w =
     (if dd_DstNode ddpkt = 0 \<and> local_port E ddpkt \<noteq> None then
        if dd_DstSocket ddpkt \<noteq> 2 then Some w
        else map_option (\<lambda>(r, pw'). w\<lparr>aw_ports := pw'\<rparr>) (HandleNBPFromAURP E ddpkt (aw_ports w))
      else Some (output_from_aurp E i ddpkt w))"

definition input_appletalk :: "port_env \<Rightarrow> peer_ref \<Rightarrow> byte list \<Rightarrow> aurp_world \<Rightarrow> aurp_world option" where
  "input_appletalk E i data w =
     (case ExtUnmarshal (pe_protos E) data of
        Inl e \<Rightarrow> Some w
      | Inr ddpkt \<Rightarrow>
          let w1 = upd_world_peer i (\<lambda>p. p\<lparr>ddpPacketsIn := ddpPacketsIn p + 1,
                                          ddpBytesIn := ddpBytesIn p + word_of_nat (length data)\<rparr>) w
          in case import_ddp E (peer_at w1 i) ddpkt of
               None \<Rightarrow> Some w1
             | Some ddpkt' \<Rightarrow> deliver_ddp E i ddpkt' w1)"


section \<open>Datagrams\<close>

definition noteReceiveQueueDepth :: "nat \<Rightarrow> TablePeer \<Rightarrow> TablePeer" where
  "noteReceiveQueueDepth depth p =
     (let want = word_of_nat depth in
      if want \<le> receiveQueueHighWater p then p else p\<lparr>receiveQueueHighWater := want\<rparr>)"

abbreviation receiveQueueSize :: nat where "receiveQueueSize \<equiv> 1024"

text \<open>\<open>None\<close>: the queue is full, and the loop blocks.\<close>

definition input_routing :: "peer_ref \<Rightarrow> Packet \<Rightarrow> aurp_world \<Rightarrow> aurp_world option" where
  "input_routing i pkt w =
     (if length (ReceiveCh (peer_at w i)) \<ge> receiveQueueSize then None
      else
        Some (upd_world_peer i
          (\<lambda>p. noteReceiveQueueDepth (length (ReceiveCh p @ [pkt])) (p\<lparr>ReceiveCh := ReceiveCh p @ [pkt]\<rparr>)) w))"

definition input_peer :: "aurp_input_env \<Rightarrow> ip \<Rightarrow> DomainHeader \<Rightarrow> AURPPeerTable \<Rightarrow> peer_ref option \<times> AURPPeerTable" where
  "input_peer A raddr dh t =
     (if ai_OpenPeering A then
        case LookupOrCreate [] raddr (ai_Identity A) (Some (SourceDI dh)) t of
          (Inl e, t') \<Rightarrow> (None, t')
        | (Inr i, t') \<Rightarrow> (Some i, t')
      else
        case table_Lookup raddr t of
          Inl e \<Rightarrow> (None, t)
        | Inr p \<Rightarrow> (p, t))"

definition contact :: "DomainHeader \<Rightarrow> peer_ref \<Rightarrow> aurp_world \<Rightarrow> aurp_world" where
  "contact dh i w =
     (let w1 = upd_world_peer i (\<lambda>p. p\<lparr>p_Transport := SetRemoteDI (SourceDI dh) (p_Transport p)\<rparr>) w
      in if running (peer_at w i) then w1 else w1\<lparr>aw_started := aw_started w1 @ [i]\<rparr>)"

definition input_datagram :: "aurp_input_env \<Rightarrow> ip \<Rightarrow> byte list \<Rightarrow> aurp_world \<Rightarrow> aurp_world option" where
  "input_datagram A raddr pktbuf w =
     (case ParsePacket pktbuf of
        Inl Panic \<Rightarrow> None
      | Inl (Err e) \<Rightarrow> Some w
      | Inr (dh, pkt) \<Rightarrow>
          case input_peer A raddr dh (aw_table w) of
            (None, t') \<Rightarrow> Some (w\<lparr>aw_table := t'\<rparr>)
          | (Some i, t') \<Rightarrow>
              let w1 = contact dh i (w\<lparr>aw_table := t'\<rparr>) in
              case pkt of
                PAppleTalk a \<Rightarrow>
                  if PacketType dh \<noteq> PacketTypeAppleTalk then Some w1
                  else input_appletalk (ai_port A) i (at_Data a) w1
              | _ \<Rightarrow> if PacketType dh \<noteq> PacketTypeRouting then Some w1 else input_routing i pkt w1)"

end
