(* ===== verification/PeerTableReach.thy ===== *)
theory PeerTableReach
  imports PeerTable
begin

text \<open>
  The reachable peer tables and what holds of them: which peer an address or a configured name
  stands for, change of endpoint, DNS retry pacing, and that new peers start the peer state
  machine of \<open>PeerInv\<close>.
\<close>

section \<open>Reachable tables\<close>

text \<open>
  A datagram from an unknown address with open peering, the resolution of configured names at
  startup and in the scan, and the changes that the handle loops make to their own peers.
\<close>

inductive table_reach :: "table_world \<Rightarrow> bool" where
  reach_new:
    "NewAURPPeerTable rands c = Some t \<Longrightarrow> rt_reach rt \<Longrightarrow>
     table_reach \<lparr>tw_table = t, tw_rt = rt, tw_notes = [], tw_started = []\<rparr>"
| reach_track: "table_reach w \<Longrightarrow> table_reach (upd_tw_table (TrackConfiguredAddress a) w)"
| reach_datagram:
    "table_reach w \<Longrightarrow> LookupOrCreate [] raddr localDI (Some remoteDI) (tw_table w) = (r, t') \<Longrightarrow>
     table_reach (w\<lparr>tw_table := t'\<rparr>)"
| reach_resolve:
    "table_reach w \<Longrightarrow> ResolveConfiguredPeer E a localDI (tw_table w) = (r, t') \<Longrightarrow>
     table_reach (w\<lparr>tw_table := t'\<rparr>)"
| reach_scan: "table_reach w \<Longrightarrow> scan E localDI w = Some w' \<Longrightarrow> table_reach w'"
| reach_peer:
    "table_reach w \<Longrightarrow> i < length (peers (tw_table w)) \<Longrightarrow>
     same_identity (peers (tw_table w) ! i) (f (peers (tw_table w) ! i)) \<Longrightarrow> rt_reach rt \<Longrightarrow>
     table_reach (upd_tw_table (upd_table_peer i f) w\<lparr>tw_rt := rt\<rparr>)"

lemma first_conn_id_nonzero: "first_conn_id rands k n = Some m \<Longrightarrow> m \<noteq> 0"
  by (induction rule: first_conn_id.raw_induct [rotated 1, consumes 1]) (auto split: if_splits)

lemma world_ok_reach: "table_reach w \<Longrightarrow> world_ok w"
proof (induction rule: table_reach.induct)
  case (reach_new rands c t rt)
  then show ?case
    by (auto simp: NewAURPPeerTable_def world_ok_def table_inv_def directory_ok_def owner_def configuredPeer_def
        configuredAddresses_def dest: first_conn_id_nonzero split: option.splits)
next
  case (reach_scan w E l w')
  then show ?case using scan_all_ok [of w E l "configuredAddresses (tw_table w)"] by (simp add: scan_def)
next
  case (reach_peer w i f rt)
  then show ?case using inv_peer_change by (simp add: world_ok_def upd_tw_table_def)
next
  case (reach_datagram w raddr l rd r t')
  then show ?case using LookupOrCreate_ok [of "tw_table w"] by (simp add: world_ok_def)
next
  case (reach_resolve w E a l r t')
  then show ?case using ResolveConfiguredPeer_ok [of "tw_table w"] by (simp add: world_ok_def)
qed (simp add: world_dns)

lemma table_inv_reach: "table_reach w \<Longrightarrow> table_inv (tw_table w)"
  using world_ok_reach by (simp add: world_ok_def)

text \<open>The table has an initial connection ID as soon as one of the random numbers is not 0.\<close>

lemma first_conn_id_hit [simp]: "n \<noteq> 0 \<Longrightarrow> first_conn_id rands k n = Some n"
  by (subst first_conn_id.simps) simp

lemma first_conn_id_0 [simp]: "first_conn_id rands k 0 = first_conn_id rands (Suc k) (rands k)"
  by (subst first_conn_id.simps) simp

lemma first_conn_id_returns: "rands (k + j) \<noteq> 0 \<Longrightarrow> \<exists>m. first_conn_id rands k n = Some m"
proof (induction j arbitrary: k n)
  case 0
  then show ?case by (cases "n = 0") auto
next
  case (Suc j)
  then show ?case by (cases "n = 0") auto
qed


section \<open>Examples\<close>

definition sample_table_env :: table_env where
  "sample_table_env =
     \<lparr>te_now = 1, te_rand = (\<lambda>_. 0), te_LookupIP = (\<lambda>_. Inr [[10, 0, 0, 1], [10, 0, 0, 3]])\<rparr>"

definition sample_peer_table :: AURPPeerTable where
  "sample_peer_table =
     \<lparr>peers = [], peersByIP = [], peersByConfigured = [], dnsByConfigured = [], nextConnID = 9,
      pt_timing = applyDefaults zero_aurp_config\<rparr>"

definition sample_localDI :: DomainIdentifier where
  "sample_localDI = IPDomainIdentifier [10, 0, 0, 2]"

definition sample_resolved :: AURPPeerTable where
  "sample_resolved = snd (ResolveConfiguredPeer sample_table_env ''a.example'' sample_localDI sample_peer_table)"

definition sample_table_world :: table_world where
  "sample_table_world = \<lparr>tw_table = sample_resolved, tw_rt = NewRouteTable, tw_notes = [], tw_started = []\<rparr>"

lemma sample_peer_table_reach:
  "table_reach \<lparr>tw_table = sample_peer_table, tw_rt = NewRouteTable, tw_notes = [], tw_started = []\<rparr>"
proof (rule reach_new [OF _ reach_init])
  show "NewAURPPeerTable (\<lambda>_. 9) None = Some sample_peer_table"
    by (simp add: NewAURPPeerTable_def sample_peer_table_def)
qed

lemma sample_table_reach: "table_reach sample_table_world"
  using reach_resolve [OF sample_peer_table_reach, of sample_table_env "''a.example''" sample_localDI]
  unfolding sample_table_world_def sample_resolved_def by (simp add: prod_eq_iff)


section \<open>Properties\<close>

text \<open>
  C15: In every reachable peer table an address stands for at most one peer of the table, a
  configured name stands for exactly the one peer that carries it, every peer is found under its
  active endpoint, and the next connection ID is not 0.
\<close>

theorem peer_directory_consistent:
  assumes "table_reach w"
  defines "t \<equiv> tw_table w"
  shows "nextConnID t \<noteq> 0 \<and>
    (\<forall>k i. map_of (peersByIP t) k = Some i \<longrightarrow> length k = 4 \<and> i < length (peers t)) \<and>
    (\<forall>a i. map_of (peersByConfigured t) a = Some i \<longleftrightarrow>
       i < length (peers t) \<and> a \<noteq> [] \<and> ConfiguredAddr (peers t ! i) = a) \<and>
    (\<forall>i<length (peers t). \<exists>k. remoteAddr (peers t ! i) = Some k \<and> table_Lookup k t = Inr (Some i))"
proof (intro conjI allI impI)
  note inv = table_inv_reach [OF assms(1), folded t_def]
  show "nextConnID t \<noteq> 0" using inv by (simp add: table_inv_def)
  fix i
  show "map_of (peersByConfigured t) a = Some i \<longleftrightarrow>
      i < length (peers t) \<and> a \<noteq> [] \<and> ConfiguredAddr (peers t ! i) = a" for a
    using table_invD(3) [OF inv] by (simp add: configuredPeer_def)
  show "length k = 4" "i < length (peers t)" if "map_of (peersByIP t) k = Some i" for k
    using table_invD(1,2) [OF inv, of k i] that by (simp_all add: owner_def)
  assume "i < length (peers t)"
  then obtain k where "remoteAddr (peers t ! i) = Some k" "owner t k = Some i"
    using table_invD(5) [OF inv] by blast
  then show "\<exists>k. remoteAddr (peers t ! i) = Some k \<and> table_Lookup k t = Inr (Some i)"
    using table_invD(1) [OF inv, of k i] by (intro exI [of _ k]) (simp add: table_Lookup_def owner_def)
qed

theorem peer_directory_consistent_witness:
  "map_of (peersByConfigured sample_resolved) ''a.example'' = Some 0 \<longleftrightarrow>
     0 < length (peers sample_resolved) \<and> ''a.example'' \<noteq> [] \<and> ConfiguredAddr (peers sample_resolved ! 0) = ''a.example''"
  using peer_directory_consistent [OF sample_table_reach] by (simp add: sample_table_world_def)

lemma update_same: "map_of m k = Some v \<Longrightarrow> AList.update k v m = m"
  by (induction m) (auto split: if_splits)

lemma track_tracked: "a \<in> set (configuredAddresses t) \<Longrightarrow> TrackConfiguredAddress a t = t"
  by (auto simp: TrackConfiguredAddress_def configuredAddresses_def dest: weak_map_of_SomeI)

lemma LookupOrCreate_again:
  assumes inv: "table_inv t" and "To4 raddr = Some key" "found a key i t"
  shows "LookupOrCreate a raddr l rd t = (Inr i, t)"
proof (cases "a = []")
  case True
  with assms show ?thesis
    by (simp add: LookupOrCreate_def claimOrCreate_def found_def owner_def TrackConfiguredAddress_def)
next
  case False
  with assms have "configuredPeer a t = Some i" "owner t key = Some i" by (simp_all add: found_def)
  with False assms(2) track_tracked [OF table_invD(6) [OF inv]] show ?thesis
    by (simp add: LookupOrCreate_def owner_def update_same)
qed

text \<open>
  C16: \<open>LookupOrCreate\<close> never moves an address or a configured name from one peer to another and
  never changes the connection or tunnel of a peer.  The peer it returns is the one later packets
  from the address are given to, is the peer of the configured name, and is returned again by the
  same call, which then changes nothing.
\<close>

theorem peer_identity_stable:
  assumes "table_reach w" and res: "LookupOrCreate a raddr localDI remoteDI (tw_table w) = (r, t')"
  defines "t \<equiv> tw_table w"
  shows "map_of (peersByIP t) \<subseteq>\<^sub>m map_of (peersByIP t') \<and>
    map_of (peersByConfigured t) \<subseteq>\<^sub>m map_of (peersByConfigured t') \<and>
    (\<forall>i<length (peers t). i < length (peers t') \<and> p_Transport (peers t' ! i) = p_Transport (peers t ! i) \<and>
       tunnelID (peers t' ! i) = tunnelID (peers t ! i) \<and> remoteAddr (peers t' ! i) = remoteAddr (peers t ! i)) \<and>
    (\<forall>i. r = Inr i \<longrightarrow> table_Lookup raddr t' = Inr (Some i) \<and> (a \<noteq> [] \<longrightarrow> configuredPeer a t' = Some i) \<and>
       LookupOrCreate a raddr localDI remoteDI t' = (Inr i, t'))"
proof -
  note ok = LookupOrCreate_ok [OF table_inv_reach [OF assms(1)] res, folded t_def]
  then have ext: "extends t t'" and inv: "table_inv t'" by blast+
  have "map_of (peersByIP t) \<subseteq>\<^sub>m map_of (peersByIP t')"
    "map_of (peersByConfigured t) \<subseteq>\<^sub>m map_of (peersByConfigured t')"
    using ext by (simp_all add: extends_def owner_def configuredPeer_def)
  moreover have "\<forall>i<length (peers t). i < length (peers t') \<and> p_Transport (peers t' ! i) = p_Transport (peers t ! i) \<and>
       tunnelID (peers t' ! i) = tunnelID (peers t ! i) \<and> remoteAddr (peers t' ! i) = remoteAddr (peers t ! i)"
    using ext by (auto simp: extends_def renamed_def)
  moreover have "table_Lookup raddr t' = Inr (Some i) \<and> (a \<noteq> [] \<longrightarrow> configuredPeer a t' = Some i) \<and>
      LookupOrCreate a raddr localDI remoteDI t' = (Inr i, t')" if i: "r = Inr i" for i
  proof -
    obtain key where "To4 raddr = Some key" "found a key i t'" using ok i by blast
    then show ?thesis
      using LookupOrCreate_again [OF inv] by (simp add: table_Lookup_def found_def owner_def)
  qed
  ultimately show ?thesis by blast
qed

theorem peer_identity_stable_witness:
  "LookupOrCreate ''a.example'' [10, 0, 0, 1] sample_localDI None sample_resolved = (Inr 0, sample_resolved) \<and>
   table_Lookup [10, 0, 0, 1] sample_resolved = Inr (Some 0)"
proof -
  let ?r = "LookupOrCreate ''a.example'' [10, 0, 0, 1] sample_localDI None (tw_table sample_table_world)"
  have "fst ?r = Inr 0" "snd ?r = sample_resolved" by code_simp+
  then have "?r = (Inr 0, sample_resolved)" by (simp add: prod_eq_iff)
  from peer_identity_stable [OF sample_table_reach this] show ?thesis by simp
qed

text \<open>
  C17: New DNS candidates of a configured peer are taken over as a whole or not at all.  When they
  are, the peer answers at exactly the candidates, other peers keep their addresses, its connection
  and tunnel stay, and its endpoint changes only when it is no longer a candidate; in that case,
  and in no other, the routes learned from the peer are withdrawn.
\<close>

theorem endpoint_failover:
  fixes addrs :: "ip list"
  assumes "table_reach w" "i < length (peers (tw_table w))"
  defines "t \<equiv> tw_table w" and "ks \<equiv> set (normalizeIPv4Candidates addrs)"
  shows "\<exists>r w'. setConfiguredCandidates E i addrs w = Some (r, w') \<and> (\<forall>e. r = Inl e \<longrightarrow> w' = w) \<and>
    (\<forall>switched. r = Inr switched \<longrightarrow>
       (let t' = tw_table w'; p = peers t ! i; p' = peers t' ! i in
        (\<forall>k. map_of (peersByIP t') k = Some i \<longleftrightarrow> k \<in> ks) \<and>
        (\<forall>k j. j \<noteq> i \<longrightarrow> map_of (peersByIP t') k = Some j \<longleftrightarrow> map_of (peersByIP t) k = Some j) \<and>
        p_Transport p' = p_Transport p \<and> tunnelID p' = tunnelID p \<and> the (remoteAddr p') \<in> ks \<and>
        (switched \<longleftrightarrow> remoteAddr p' \<noteq> remoteAddr p) \<and>
        rt_abs (tw_rt w') =
          (\<lambda>k. if switched \<and> rk_TargetKey k = tg_RouteTargetKey (peer_target p) then None else rt_abs (tw_rt w) k)))"
proof -
  let ?p = "peers t ! i" and ?ks = "normalizeIPv4Candidates addrs"
  obtain key where key: "remoteAddr ?p = Some key"
    using table_invD(5) [OF table_inv_reach [OF assms(1)] assms(2)] unfolding t_def by blast
  obtain r w' where c: "setConfiguredCandidates E i addrs w = Some (r, w')" "\<forall>e. r = Inl e \<longrightarrow> w' = w"
    "\<forall>s. r = Inr s \<longrightarrow> candidates_set i ?ks s w w'"
    using setConfiguredCandidates_ok [OF world_ok_reach [OF assms(1)] assms(2), of E addrs] by blast
  show ?thesis
  proof (intro exI conjI allI impI, rule c(1), use c(2) in blast)
    fix switched
    assume "r = Inr switched"
    with c(3) have cs: "candidates_set i ?ks switched w w'" by blast
    then have ow: "map_of (peersByIP (tw_table w')) = with_candidates i ks (map_of (peersByIP t))"
      and free: "k \<in> ks \<Longrightarrow> map_of (peersByIP t) k = None \<or> map_of (peersByIP t) k = Some i"
      and ne: "?ks \<noteq> []" and sw: "switched \<longleftrightarrow> key \<notin> ks" for k
      using key by (simp_all add: candidates_set_def Let_def owner_def t_def ks_def)
    have "(map_of (peersByIP (tw_table w')) k = Some i \<longleftrightarrow> k \<in> ks) \<and>
        (j \<noteq> i \<longrightarrow> map_of (peersByIP (tw_table w')) k = Some j \<longleftrightarrow> map_of (peersByIP t) k = Some j)" for k j
      using free [of k] by (auto simp: ow with_candidates_def)
    moreover have "hd ?ks \<in> ks" using ne by (simp add: ks_def)
    ultimately show "let t' = tw_table w'; p = ?p; p' = peers t' ! i in
        (\<forall>k. map_of (peersByIP t') k = Some i \<longleftrightarrow> k \<in> ks) \<and>
        (\<forall>k j. j \<noteq> i \<longrightarrow> map_of (peersByIP t') k = Some j \<longleftrightarrow> map_of (peersByIP t) k = Some j) \<and>
        p_Transport p' = p_Transport p \<and> tunnelID p' = tunnelID p \<and> the (remoteAddr p') \<in> ks \<and>
        (switched \<longleftrightarrow> remoteAddr p' \<noteq> remoteAddr p) \<and>
        rt_abs (tw_rt w') =
          (\<lambda>k. if switched \<and> rk_TargetKey k = tg_RouteTargetKey (peer_target p) then None else rt_abs (tw_rt w) k)"
      using cs sw key assms(2) by (cases switched) (auto simp: candidates_set_def Let_def t_def)
  qed
qed

theorem endpoint_failover_witness:
  "\<exists>r w'. setConfiguredCandidates sample_table_env 0 [[10, 0, 0, 7]] sample_table_world = Some (r, w') \<and>
    (\<forall>e. r = Inl e \<longrightarrow> w' = sample_table_world)"
proof -
  have "0 < length (peers (tw_table sample_table_world))" by code_simp
  from endpoint_failover [OF sample_table_reach this, of sample_table_env "[[10, 0, 0, 7]]"] show ?thesis by blast
qed

text \<open>
  After a DNS failure the name is not looked up again for at least 27 seconds and is looked up
  again after at most 33 minutes, however often it failed before.
\<close>

theorem dns_retry_bounds:
  assumes rand: "\<And>n. 0 < n \<Longrightarrow> 0 \<le> te_rand E n \<and> te_rand E n < n" and "0 < te_now E"
    and "0 \<le> dns_failures (dns_state a t)"
  shows "(now < te_now E + 27 * 1000000000 \<longrightarrow> \<not> dnsReady a now (noteDNSFailure E a err t)) \<and>
    (te_now E + 33 * 60 * 1000000000 \<le> now \<longrightarrow> dnsReady a now (noteDNSFailure E a err t))"
proof -
  let ?f = "dns_failures (dns_state a t) + 1"
  let ?d = "dnsBackoff ?f" and ?j = "jitterDNSBackoff (te_rand E) (dnsBackoff ?f)"
  have "?d \<in> set dns_steps"
    using assms(3) by (auto simp: dnsBackoff_def dns_steps_def dnsBackoffCap_def Let_def nth_Cons' min_def)
  then have d: "30 * 1000000000 \<le> ?d" "?d \<le> 30 * 60 * 1000000000"
    by (auto simp: dns_steps_def)
  let ?s = "?d * dnsJitterPct div 100"
  have s: "0 < ?s" "10 * ?s \<le> ?d" using d by (simp_all add: dnsJitterPct_def)
  then have "?j = ?d + (te_rand E (2 * ?s + 1) - ?s)" using d by (simp add: jitterDNSBackoff_def Let_def)
  then have "27 * 1000000000 \<le> ?j" "?j \<le> 33 * 60 * 1000000000"
    using rand [of "2 * ?s + 1"] s d by linarith+
  moreover have "dns_next (dns_state a (noteDNSFailure E a err t)) = te_now E + ?j"
    by (simp add: dns_state_def noteDNSFailure_def Let_def update_conv')
  ultimately show ?thesis
    using assms(2) by (auto simp: dnsReady_def time_IsZero_def)
qed

theorem dns_retry_bounds_witness:
  "\<not> dnsReady ''a'' 100 (noteDNSFailure sample_table_env ''a'' ErrLookup sample_peer_table)"
proof -
  have "0 < te_now sample_table_env" "0 \<le> dns_failures (dns_state ''a'' sample_peer_table)" by code_simp+
  moreover have "0 \<le> te_rand sample_table_env n \<and> te_rand sample_table_env n < n" if "0 < n" for n
    using that by (simp add: sample_table_env_def)
  moreover have "(100 :: int) < te_now sample_table_env + 27 * 1000000000" by code_simp
  ultimately show ?thesis
    using dns_retry_bounds [of sample_table_env "''a''" sample_peer_table 100] by blast
qed

text \<open>A new peer starts the peer state machine: its run is one of those \<open>PeerInv\<close> is about.\<close>

lemma created_peer_reach:
  assumes "table_inv t" "createPeer a key l rd t = (i, t')" "di_ok l" "length key = 4"
    "case rd of None \<Rightarrow> True | Some d \<Rightarrow> di_ok d" "rt_reach rt"
  shows "peer_reach \<lparr>w_peer = AURPPeerSM.truncate (peers t' ! i), w_rt = rt, w_sent = [], w_notes = [], w_loops = []\<rparr>"
proof -
  have "nextConnID t \<noteq> 0" using assms(1) by (simp add: table_inv_def)
  then show ?thesis
    using assms(2-) by (intro start)
      (auto simp: fresh_peer_def createPeer_def Let_def new_peer_def setRemoteAddr_def AURPPeerSM.defs
        transport_ok_init split: option.splits)
qed

end
