(* ===== verification/PortSafety.thy ===== *)
theory PortSafety
  imports RtmpProps ZipProps AurpInput PeerTableReach
begin

text \<open>
  The handlers of received frames and datagrams return, whatever they are given, and keep the route
  table in order: no handler panics, blocks or runs for ever, but for the cases that the properties
  at the end name.
\<close>

section \<open>The route table\<close>

text \<open>
  What the handlers rely on: the invariant of the table, names of zones as a packet can carry them,
  and a port of the router for each direct route.
\<close>

definition names_short :: "RouteTable \<Rightarrow> bool" where
  "names_short rt \<longleftrightarrow> (\<forall>n. \<forall>z \<in> set (zones_of rt n). length z \<le> 255)"

definition has_port :: "port_env \<Rightarrow> RouteTarget \<Rightarrow> bool" where
  "has_port E t \<longleftrightarrow> list_ex (\<lambda>p. tg_RouteTargetKey (port_target p) = tg_RouteTargetKey t) (pe_ports E)"

definition direct_known :: "port_env \<Rightarrow> RouteTable \<Rightarrow> bool" where
  "direct_known E rt \<longleftrightarrow>
     (\<forall>k r. rt_abs rt k = Some r \<longrightarrow> tg_Class (route_target r) = TargetClassDirect \<longrightarrow> has_port E (route_target r))"

definition router_inv :: "port_env \<Rightarrow> RouteTable \<Rightarrow> bool" where
  "router_inv E rt \<longleftrightarrow> rt_inv rt \<and> names_short rt \<and> direct_known E rt"

lemma router_invI: "rt_inv rt \<Longrightarrow> names_short rt \<Longrightarrow> direct_known E rt \<Longrightarrow> router_inv E rt"
  by (simp add: router_inv_def)

lemma router_invD:
  assumes "router_inv E rt"
  shows "rt_inv rt" "names_short rt" "direct_known E rt"
  using assms by (auto simp: router_inv_def)

lemma router_inv_frame:
  assumes "router_inv E rt" "byClass rt' = byClass rt" "byNetwork rt' = byNetwork rt" "networksByZone rt' = networksByZone rt"
  shows "router_inv E rt'"
  using rt_inv_frame [OF router_invD(1) [OF assms(1)] assms(2,3,4)] assms abs_cong [OF assms(2)]
  by (simp add: router_inv_def names_short_def direct_known_def)

lemma router_inv_init: "router_inv E NewRouteTable"
  by (rule router_invI [OF rt_inv_init]) (simp_all add: names_short_def direct_known_def rt_abs_def NewRouteTable_def)

text \<open>Counting traffic.\<close>

lemma noteRouteTraffic_frame:
  "byClass (noteRouteTraffic now p r i rt) = byClass rt" "byNetwork (noteRouteTraffic now p r i rt) = byNetwork rt"
  "networksByZone (noteRouteTraffic now p r i rt) = networksByZone rt"
  by (simp_all add: noteRouteTraffic_def Let_def noteDDPBytesIn_def noteDDPBytesOut_def split: option.split)

lemma router_inv_traffic: "router_inv E rt \<Longrightarrow> router_inv E (noteRouteTraffic now p r i rt)"
  by (erule router_inv_frame) (simp_all add: noteRouteTraffic_frame)

text \<open>Zones disappear with the last route of a network, and appear when they are added.\<close>

definition zones_within :: "RouteTable \<Rightarrow> RouteTable \<Rightarrow> bool" where
  "zones_within rt' rt \<longleftrightarrow> (\<forall>n. set (zones_of rt' n) \<subseteq> set (zones_of rt n))"

lemma zones_within_refl [simp]: "zones_within rt rt"
  by (simp add: zones_within_def)

lemma zones_within_trans: "zones_within a b \<Longrightarrow> zones_within b c \<Longrightarrow> zones_within a c"
  by (meson zones_within_def subset_trans)

lemma zones_within_fold: "(\<And>n rt. zones_within (g n rt) rt) \<Longrightarrow> zones_within (fold g ns rt) rt"
  by (induction ns arbitrary: rt) (auto intro: zones_within_trans)

lemma zones_within_loop:
  assumes g: "\<And>n rt. zones_within (g n rt) rt" and run: "net_for s e g rt = Some rt'"
  shows "zones_within rt' rt"
proof (cases "e = 65535")
  case True
  with run show ?thesis by (simp add: net_for_65535)
next
  case False
  with run zones_within_fold [of g, OF g] show ?thesis by (auto simp: net_for_eq_fold)
qed

lemma zones_within_loops:
  assumes "(case (if u then net_for a b g rt else Some rt) of
      None \<Rightarrow> None
    | Some rt1 \<Rightarrow>
        (case net_for c d h rt1 of None \<Rightarrow> None | Some rt2 \<Rightarrow> if u then net_for a b k rt2 else Some rt2)) = Some rt'"
    and g: "\<And>n rt. zones_within (g n rt) rt" and h: "\<And>n rt. zones_within (h n rt) rt" and k: "\<And>n rt. zones_within (k n rt) rt"
  shows "zones_within rt' rt"
proof -
  from assms(1) obtain rt1 rt2 where l: "(if u then net_for a b g rt else Some rt) = Some rt1"
    "net_for c d h rt1 = Some rt2" "(if u then net_for a b k rt2 else Some rt2) = Some rt'"
    by (auto split: option.splits)
  have "zones_within rt1 rt" using l(1) zones_within_loop [of g, OF g] by (cases u) auto
  moreover have "zones_within rt2 rt1" using l(2) zones_within_loop [of h, OF h] by blast
  moreover have "zones_within rt' rt2" using l(3) zones_within_loop [of k, OF k] by (cases u) auto
  ultimately show ?thesis using zones_within_trans by blast
qed

lemma zones_within_upsert:
  assumes "upsert_index old new rt = Some rt'"
  shows "zones_within rt' rt"
  using assms unfolding upsert_index_def Let_def
  by (rule zones_within_loops) (auto simp: zones_within_def delete_key_at_def insert_route_at_def clear_zones)

lemma UpsertRoute_zones:
  assumes "UpsertRoute now t ext s e d rt = Some (Inr new, rt', evs)"
  shows "zones_within rt' rt"
proof -
  from assms obtain a rt0 where "alloc_traffic (find_route t s rt) rt = (a, rt0)"
    and u: "upsert_index (find_route t s rt) new (set_class (tg_Class t) (AList.update (target_key t s) new) rt0) = Some rt'"
    by (auto simp: UpsertRoute_def Let_def split: if_splits prod.splits option.splits)
  then have "byNetwork rt0 = byNetwork rt" by (auto simp: alloc_traffic_def split: option.splits)
  with zones_within_upsert [OF u] show ?thesis by (simp add: zones_within_def set_class_def)
qed

lemma names_within: "zones_within rt' rt \<Longrightarrow> names_short rt \<Longrightarrow> names_short rt'"
  by (auto simp: zones_within_def names_short_def)

text \<open>A route through a neighbour or to the cable of a port is learned, or refused without a change.\<close>

lemma router_inv_upsert:
  assumes J: "router_inv E rt" and t: "target_ok t" "tg_Class t \<noteq> TargetClassDirect \<or> has_port E t" and e: "e \<noteq> 65535"
  shows "\<exists>res rt' evs. UpsertRoute now t ext s e d rt = Some (res, rt', evs) \<and> router_inv E rt'"
proof (cases "s \<le> e \<and> (ext \<or> s = e) \<and> d \<le> maxRouteDistance")
  case True
  with UpsertRoute_ok [OF router_invD(1) [OF J] t(1), of s e ext d now] e
  obtain new rt' evs where u: "UpsertRoute now t ext s e d rt = Some (Inr new, rt', evs)" "rt_inv rt'"
    "rt_abs rt' = (rt_abs rt)(target_key t s \<mapsto> new)" "r_Target new = Some t" by blast
  have "direct_known E rt'"
    unfolding direct_known_def
  proof (intro allI impI)
    fix k r
    assume r: "rt_abs rt' k = Some r" "tg_Class (route_target r) = TargetClassDirect"
    show "has_port E (route_target r)"
    proof (cases "k = target_key t s")
      case True
      with r u(3,4) t(2) show ?thesis by (auto simp: route_target_def)
    next
      case False
      with r u(3) router_invD(3) [OF J] show ?thesis unfolding direct_known_def by auto
    qed
  qed
  with u names_within [OF UpsertRoute_zones [OF u(1)] router_invD(2) [OF J]] show ?thesis
    by (auto intro: router_invI)
next
  case False
  then consider "s > e" | "s < e" "\<not> ext" | "s \<le> e" "ext \<or> s = e" "d > maxRouteDistance"
    by (meson not_le_imp_less order_neq_le_trans)
  then show ?thesis using J by cases (auto simp: UpsertRoute_errors)
qed

lemma router_inv_AddZones:
  assumes J: "router_inv E rt" and zs: "\<forall>z \<in> set zs. length z \<le> 255"
  shows "router_inv E (fst (AddZonesToNetwork now n zs rt))"
proof (rule router_invI)
  let ?rt = "fst (AddZonesToNetwork now n zs rt)"
  show "rt_inv ?rt" by (rule rt_inv_zones [OF router_invD(1) [OF J]])
  have "byClass ?rt = byClass rt" by (simp add: AddZonesToNetwork_def Let_def)
  then have "rt_abs ?rt = rt_abs rt" by (rule abs_cong)
  then show "direct_known E ?rt" using router_invD(3) [OF J] unfolding direct_known_def by (simp only:)
  have "set (zones_of ?rt m) \<subseteq> set (zones_of rt m) \<union> set zs" for m
    using new_zones_props [of "zones_of rt n" zs] by (auto simp: AddZonesToNetwork_def Let_def)
  then show "names_short ?rt" using router_invD(2) [OF J] zs unfolding names_short_def by blast
qed


section \<open>Operations that return\<close>

definition sound :: "port_env \<Rightarrow> 'a pact \<Rightarrow> bool" where
  "sound E m \<longleftrightarrow>
     (\<forall>w. router_inv E (pw_rt w) \<longrightarrow> (\<exists>r w'. m w = Some (r, w') \<and> router_inv E (pw_rt w')))"

lemma soundI: "(\<And>w. router_inv E (pw_rt w) \<Longrightarrow> \<exists>r w'. m w = Some (r, w') \<and> router_inv E (pw_rt w')) \<Longrightarrow> sound E m"
  by (simp add: sound_def)

lemma soundE:
  assumes "sound E m" "router_inv E (pw_rt w)"
  obtains r w' where "m w = Some (r, w')" "router_inv E (pw_rt w')"
  using assms unfolding sound_def by blast

lemma sound_quiet: "quiet m \<Longrightarrow> sound E m"
  by (rule soundI) (metis quiet_def)

lemma sound_bind:
  assumes m: "sound E m" and f: "\<And>x. sound E (f x)"
  shows "sound E (pa_bind m f)"
proof (rule soundI)
  fix w :: port_world
  assume "router_inv E (pw_rt w)"
  then obtain r u where u: "m w = Some (r, u)" "router_inv E (pw_rt u)" by (rule soundE [OF m])
  show "\<exists>r w'. pa_bind m f w = Some (r, w') \<and> router_inv E (pw_rt w')"
  proof (cases r)
    case (Inr x)
    from u(2) obtain r' w' where "f x u = Some (r', w')" "router_inv E (pw_rt w')" by (rule soundE [OF f])
    with u Inr show ?thesis by (simp add: pa_bind_def)
  qed (use u in \<open>simp add: pa_bind_def\<close>)
qed

lemma sound_basic [simp]: "sound E (pa_ret x)" "sound E (pa_fail e)" "sound E (upd_port g)" "sound E (call_loops h)"
  by (auto simp: sound_def pa_simps call_loops_def split: prod.splits)

lemma sound_with_port: "(\<And>p. sound E (f p)) \<Longrightarrow> sound E (with_port f)"
  by (simp add: sound_def pa_simps)

lemma sound_with_rt: "(\<And>rt. router_inv E rt \<Longrightarrow> sound E (f rt)) \<Longrightarrow> sound E (with_rt f)"
  by (auto simp: sound_def pa_simps)

lemma sound_each: "(\<And>x. x \<in> set xs \<Longrightarrow> sound E (f x)) \<Longrightarrow> sound E (pa_each f xs)"
  by (induction xs) (auto intro: sound_bind)

lemma sound_ignore: "sound E m \<Longrightarrow> sound E (pa_ignore m)"
  unfolding sound_def pa_ignore_def by fastforce

lemma sound_lift [simp]: "sound E (pa_lift g r)"
  by (simp add: pa_lift_def split: sum.split)

lemma sound_parse: "safe r \<Longrightarrow> sound E (parse r)"
  by (auto simp: parse_def safe_def split: sum.split fault.split)

lemma sound_parsed:
  assumes "safe r" "\<And>x. r = Inr x \<Longrightarrow> sound E (f x)"
  shows "sound E (pa_bind (parse r) f)"
proof (cases r)
  case (Inr x)
  then have "pa_bind (parse r) f = f x" by (simp add: fun_eq_iff parse_def pa_simps)
  with assms(2) Inr show ?thesis by simp
next
  case (Inl e)
  then obtain a where "parse r = pa_fail a" using assms(1) by (cases e) (simp_all add: parse_def safe_def)
  then show ?thesis by (simp add: sound_def pa_bind_def pa_simps)
qed

lemma sound_sends [simp]:
  "sound E (port_send_on E port hw pkt)" "sound E (port_Send E pkt)" "sound E (port_Broadcast E pkt)"
  "sound E (port_ZoneMulticast E port zone pkt)"
  by (simp_all add: sound_quiet port_ZoneMulticast_def)

lemma sound_output [simp]: "sound E (router_Output E pkt)" "sound E (router_Forward E pkt)"
proof -
  have "router_inv E rt \<Longrightarrow> Output ddp fwd now p rt = (err, rt', sent) \<Longrightarrow> router_inv E rt'" for ddp fwd now p rt err rt' sent
    by (auto simp: Output_def Let_def router_inv_traffic split: sum.splits option.splits)
  then show "sound E (router_Output E pkt)" "sound E (router_Forward E pkt)"
    by (auto simp: sound_def router_Output_def router_Forward_def call_output_def Forward_def Let_def
      split: prod.splits if_splits)
qed

lemma sound_upsert:
  "target_ok t \<Longrightarrow> tg_Class t \<noteq> TargetClassDirect \<or> has_port E t \<Longrightarrow> e \<noteq> 65535 \<Longrightarrow> sound E (port_UpsertRoute E t ext s e d)"
  using router_inv_upsert [of E _ t e "pe_now E" ext s d]
  by (fastforce simp: sound_def port_UpsertRoute_def call_rt_def)

lemma sound_AddZones: "\<forall>z \<in> set zs. length z \<le> 255 \<Longrightarrow> sound E (port_AddZones E n zs)"
  using router_inv_AddZones [of E _ zs "pe_now E" n]
  by (fastforce simp: sound_def port_AddZones_def call_rt_def split: prod.splits)

lemmas sound_rules = sound_bind sound_with_port sound_with_rt sound_each sound_ignore sound_parse


section \<open>RTMP\<close>

lemma sound_tuples:
  "target_ok t \<Longrightarrow> tg_Class t \<noteq> TargetClassDirect \<Longrightarrow> \<forall>nt \<in> set nts. rnt_RangeEnd nt \<noteq> 65535 \<Longrightarrow>
   sound E (upsert_tuples E t nz nts)"
  by (induction nts arbitrary: nz) (auto intro!: sound_bind sound_with_rt sound_upsert)

lemma sound_rtmp_reply [simp]: "sound E (rtmp_reply E pkt body)"
  by (simp add: rtmp_reply_def sound_with_port)

lemma sound_observe [simp]: "sound E (observeCableConfig E s e z a)" "sound E (observeCableRange E s e a)"
  by (simp_all add: observeCableRange_def observeCableConfig_def)

lemma sound_rtmp_request [simp]: "sound E (HandleRTMP_request E pkt req)"
  unfolding HandleRTMP_request_def by (auto intro!: sound_rules)

text \<open>An RTMP Data packet that announces a range up to network 65535.\<close>

definition announces_65535 :: "ExtPacket \<Rightarrow> bool" where
  "announces_65535 pkt \<longleftrightarrow>
     (case rtmp_UnmarshalDataPacket (dd_Data pkt) of
        Inl _ \<Rightarrow> False
      | Inr dp \<Rightarrow> list_ex (\<lambda>nt. rnt_RangeEnd nt = 65535) (dp_NetworkTuples dp))"

lemma sound_rtmp_data:
  assumes "\<forall>nt \<in> set (dp_NetworkTuples dp). rnt_RangeEnd nt \<noteq> 65535"
  shows "sound E (HandleRTMP_data E pkt dp)"
proof -
  have "tg_Class (etherTalkPeer_target p a) \<noteq> TargetClassDirect" for p a by (simp add: etherTalkPeer_target_def)
  moreover have "sound E (case nts of [] \<Rightarrow> pa_ret () | first # _ \<Rightarrow> observeCableRange E (rnt_RangeStart first) (rnt_RangeEnd first) False)" for nts
    by (simp split: list.split)
  ultimately show ?thesis
    unfolding HandleRTMP_data_def using assms by (auto intro!: sound_rules sound_tuples peer_target_of_port)
qed

lemma sound_HandleRTMP: "\<not> announces_65535 pkt \<Longrightarrow> sound E (HandleRTMP E pkt)"
  unfolding HandleRTMP_def
  by (auto intro!: sound_with_port sound_parsed sound_rtmp_data simp: announces_65535_def list_ex_iff split: prod.split)


section \<open>ZIP\<close>

definition short_lists :: "(network \<times> string list) list \<Rightarrow> bool" where
  "short_lists l \<longleftrightarrow> (\<forall>(n, zs) \<in> set l. \<forall>z \<in> set zs. length z \<le> 255)"

lemma short_update: "short_lists l \<Longrightarrow> \<forall>z \<in> set zs. length z \<le> 255 \<Longrightarrow> short_lists (AList.update n zs l)"
  using set_AList_update_subset [of n zs l] unfolding short_lists_def by blast

lemma short_lookup: "short_lists l \<Longrightarrow> \<forall>z \<in> set (case map_of l n of Some zs \<Rightarrow> zs | None \<Rightarrow> []). length z \<le> 255"
  by (cases "map_of l n") (auto simp: short_lists_def dest: map_of_SomeD)

lemma short_fold: "(\<And>x l. x \<in> set xs \<Longrightarrow> short_lists l \<Longrightarrow> short_lists (f x l)) \<Longrightarrow> short_lists l \<Longrightarrow> short_lists (fold f xs l)"
  by (induction xs arbitrary: l) auto

lemma short_ZonesForNetworks:
  assumes "names_short rt"
  shows "short_lists (ZonesForNetworks now ns rt)"
proof -
  have loop: "short_lists l \<Longrightarrow> short_lists (ZonesForNetworks_loop now rt ns l)" for l
  proof (induction ns arbitrary: l)
    case (Cons n ns)
    have "\<forall>z \<in> set ((case map_of l n of Some z \<Rightarrow> z | None \<Rightarrow> []) @ zones_of rt n). length z \<le> 255"
      using assms short_lookup [OF Cons.prems, of n] by (auto simp: names_short_def)
    then show ?case by (auto intro!: Cons.IH Cons.prems short_update)
  qed simp
  show ?thesis unfolding ZonesForNetworks_def by (rule loop) (simp add: short_lists_def)
qed

lemma set_set_insert [simp]: "set (set_insert xs s) = set s \<union> set xs"
proof -
  have "set (fold (\<lambda>x s. if x \<in> set s then s else s @ [x]) xs s) = set s \<union> set xs"
    by (induction xs arbitrary: s) auto
  then show ?thesis by (simp add: set_insert_def)
qed

lemma short_clusterZones:
  assumes "names_short rt" "z \<in> set (clusterZones now cluster rt)"
  shows "length z \<le> 255"
proof -
  have "set (fold (\<lambda>route. set_insert (Route_ZoneNames rt route)) rs acc) = set acc \<union> (\<Union>r \<in> set rs. set (Route_ZoneNames rt r))" for rs acc
    by (induction rs arbitrary: acc) auto
  with assms show ?thesis
    by (auto simp: clusterZones_def names_short_def Route_ZoneNames_def split: if_splits)
qed

lemma short_zonesForZIPNetworks:
  assumes "names_short rt"
  shows "short_lists (zonesForZIPNetworks E rt ns)"
proof -
  have "short_lists l \<Longrightarrow> short_lists (zones_for_network E rt n l)" for n l
    using assms short_ZonesForNetworks [OF assms, of "pe_now E" "[n]"]
    by (auto simp: zones_for_network_def Let_def short_clusterZones short_lists_def [of "ZonesForNetworks _ _ _"]
      intro!: short_update short_fold split: option.split)
  then show ?thesis
    unfolding zonesForZIPNetworks_def by (intro short_fold) (simp_all add: short_lists_def)
qed

lemma sound_sendReply [simp]: "sound E (zip_answer E pkt proto body)" "sound E (sendReply E pkt resp)"
  by (simp_all add: zip_answer_def sendReply_def sound_with_port sound_bind)

lemma sound_extended: "\<forall>z \<in> set rem. length z \<le> 255 \<Longrightarrow> sound E (extended_replies E pkt nn k rem)"
proof (induction E pkt nn k rem rule: extended_replies.induct)
  case (1 E pkt nn k rem)
  show ?case
  proof (cases "rem = []")
    case True
    then show ?thesis by (simp add: extended_replies.simps)
  next
    case False
    then have "length (hd rem) \<le> 255" using 1 by simp
    with False have n: "zones_fitting 2 rem \<noteq> []"
      by (intro zones.fit_nonempty) (simp_all add: zone_size_def)
    moreover have "sound E (extended_replies E pkt nn k (drop (length (zones_fitting 2 rem)) rem))"
      using 1 False n by (intro 1) (auto dest: in_set_dropD)
    ultimately show ?thesis
      by (subst extended_replies.simps) (auto simp: False Let_def intro!: sound_bind)
  qed
qed

lemma sound_query [simp]: "sound E (handleZIPQuery E pkt q)"
proof -
  have "sound E (pa_each (\<lambda>(nn, zl). extended_replies E pkt nn (length zl) zl) (zonesForZIPNetworks E rt ns))"
    if "router_inv E rt" for rt ns
    using short_zonesForZIPNetworks [OF router_invD(2) [OF that], of E ns]
    by (intro sound_each) (auto simp: short_lists_def intro!: sound_extended)
  then show ?thesis unfolding handleZIPQuery_def Let_def by (intro sound_with_rt) simp
qed

text \<open>The names of a parsed reply are length-prefixed.\<close>

lemma short_reply_loop:
  "zip_UnmarshalReplyPacket_loop m d = Inr m' \<Longrightarrow> short_lists m \<Longrightarrow> short_lists m'"
proof (induction m d rule: zip_UnmarshalReplyPacket_loop.induct)
  case (1 m d)
  show ?case
  proof (cases "d = []")
    case True
    with 1 show ?thesis by (simp add: zip_UnmarshalReplyPacket_loop.simps [of m "[]"])
  next
    case False
    with 1(2) obtain n slen d' z r where p: "\<not> length d < 3"
      "(go_bind (go_upto d 2) BigEndian_Uint16 :: network at_result) = Inr n" "(go_index d 2 :: byte at_result) = Inr slen"
      "(go_from d 3 :: byte list at_result) = Inr d'" "\<not> length d' < unat slen"
      "(go_upto d' (unat slen) :: byte list at_result) = Inr z" "(go_from d' (unat slen) :: byte list at_result) = Inr r"
      "zip_UnmarshalReplyPacket_loop
         (AList.update n ((case map_of m n of Some zs \<Rightarrow> zs | None \<Rightarrow> []) @ [bytes_str z]) m) r = Inr m'"
      by (subst (asm) zip_UnmarshalReplyPacket_loop.simps) (auto simp: go_bind_eq_Inr split: if_splits)
    have "length z \<le> 255" using p(6) unsigned_less [where 'a = nat, of slen] by (auto simp: go_upto_def split: if_splits)
    then have "\<forall>s \<in> set ((case map_of m n of Some zs \<Rightarrow> zs | None \<Rightarrow> []) @ [bytes_str z]). length s \<le> 255"
      using short_lookup [OF 1(3), of n] by auto
    from short_update [OF 1(3) this] 1(1) [OF _ p(1-7)] False p(8) show ?thesis by blast
  qed
qed

lemma short_reply:
  assumes "zip_UnmarshalPacket d = Inr (ZReply p)"
  shows "short_lists (zr_Networks p)"
proof -
  have "zip_UnmarshalReplyPacket d = Inr p"
    using assms by (auto simp: zip_UnmarshalPacket_def go_bind_eq_Inr split: if_splits)
  then show ?thesis
    by (auto simp: zip_UnmarshalReplyPacket_def go_bind_eq_Inr short_lists_def [of "[]"]
      intro: short_reply_loop split: if_splits)
qed

lemma sound_zip_packet:
  assumes "zip_UnmarshalPacket d = Inr p"
  shows "sound E (handleZIPZIP_packet E pkt p)"
proof (cases p)
  case (ZReply r)
  with short_reply [of d r] assms show ?thesis
    by (auto simp: handleZIPReply_def short_lists_def intro!: sound_each sound_AddZones)
next
  case (ZGetNetInfo i)
  then show ?thesis by (auto simp: handleZIPGetNetInfo_def intro!: sound_rules)
qed simp_all

lemma sound_treq [simp]: "atp_UnmarshalPacket d = Inr (ATReq t) \<Longrightarrow> sound E (handleZIPTReq E pkt t)"
  unfolding handleZIPTReq_def
  by (auto intro!: sound_rules sound_parsed simp: safe_treq_of_atp Let_def split: prod.split)

lemma sound_HandleZIP: "sound E (HandleZIP E pkt)"
  unfolding HandleZIP_def handleZIPATP_def handleZIPZIP_def
  by (auto intro!: sound_parsed sound_zip_packet split: atp_Packet.split)


section \<open>NBP and AEP\<close>

lemma nbp_tuples_nonempty:
  assumes "nbp_Unmarshal d = Inr p"
  shows "nbp_Tuples p \<noteq> []"
proof -
  have loop: "nbp_Unmarshal_loop k ts d = Inr ts' \<Longrightarrow> length ts' = length ts + k" for k ts d ts'
    by (induction k arbitrary: ts d) (auto simp: go_bind_eq_Inr)
  from assms show ?thesis
    by (auto simp: nbp_Unmarshal_def Let_def go_bind_eq_Inr unat_eq_0 dest!: loop split: if_splits)
qed

lemma sound_marshal [simp]: "sound E (marshal_as fn p)"
  by (simp add: marshal_as_def)

lemma find_port:
  assumes "has_port E t"
  shows "\<exists>p. find (\<lambda>p. tg_RouteTargetKey (port_target p) = tg_RouteTargetKey t) (ports_now E port) = Some p"
proof -
  from assms obtain p where p: "p \<in> set (pe_ports E)" "tg_RouteTargetKey (port_target p) = tg_RouteTargetKey t"
    by (auto simp: has_port_def list_ex_iff)
  let ?p = "if et_device p = et_device port then port else p"
  have "?p \<in> set (ports_now E port)" unfolding ports_now_def set_map using p(1) by (rule imageI)
  moreover have "port_target ?p = port_target p" by (simp add: port_target_def)
  ultimately have "find (\<lambda>p. tg_RouteTargetKey (port_target p) = tg_RouteTargetKey t) (ports_now E port) \<noteq> None"
    using p(2) unfolding find_None_iff by metis
  then show ?thesis by blast
qed

lemma zone_routes_direct:
  assumes J: "router_inv E rt" and "r \<in> set (RoutesForZone now zone rt)" "tg_Class (route_target r) = TargetClassDirect"
  shows "has_port E (route_target r)"
proof -
  from assms(2) obtain n where n: "r = Lookup now n rt" "\<not> Route_Zero r" by (auto simp: RoutesForZone_def)
  then have "find (Route_Valid rt now) (routes_of rt n) = Some r"
    by (auto simp: Lookup_def first_route_def split: option.splits)
  then have "r \<in> set (routes_of rt n)" by (auto simp: find_Some_iff)
  then have "rt_abs rt (r_RouteKey r) = Some r"
    using router_invD(1) [OF J] by (auto simp: rt_inv_def index_inv_def)
  with router_invD(3) [OF J] assms(3) show ?thesis by (auto simp: direct_known_def)
qed

lemma sound_brrq_route:
  assumes "tg_Class (route_target r) = TargetClassDirect \<longrightarrow> has_port E (route_target r)"
  shows "sound E (brrq_route E port pkt nbpkt tuple r)"
  using assms find_port [of E "route_target r" port]
  by (auto simp: brrq_route_def brrq_local_def brrq_remote_def intro!: sound_rules split: option.split)

lemma sound_fwdreq_ports: "sound E (fwdreq_ports E pkt nbpkt tuple ports)"
  by (induction ports arbitrary: pkt) (auto simp: Let_def intro!: sound_rules split: option.split)

lemma sound_fwdreq: "nbp_Unmarshal d = Inr p \<Longrightarrow> sound E (handleNBPFwdReq E pkt p)"
  using nbp_tuples_nonempty [of d p]
  by (auto simp: handleNBPFwdReq_def intro!: sound_with_port sound_fwdreq_ports split: list.split)

lemma sound_brrq: "nbp_Unmarshal d = Inr p \<Longrightarrow> sound E (handleNBPBrRq E pkt p)"
  using nbp_tuples_nonempty [of d p]
  by (auto simp: handleNBPBrRq_def intro!: sound_with_port sound_with_rt sound_each sound_brrq_route
    dest: zone_routes_direct split: list.split)

lemma sound_lkup: "nbp_Unmarshal d = Inr p \<Longrightarrow> sound E (handleNBPLkUp E p)"
  using nbp_tuples_nonempty [of d p]
  by (auto simp: handleNBPLkUp_def intro!: sound_rules split: list.split option.split)

lemma sound_HandleNBP: "sound E (HandleNBP E pkt)"
  unfolding HandleNBP_def by (auto intro!: sound_parsed elim: sound_fwdreq sound_brrq sound_lkup)

lemma sound_HandleNBPFromAURP: "sound E (HandleNBPFromAURP E pkt)"
  unfolding HandleNBPFromAURP_def by (auto intro!: sound_parsed elim: sound_fwdreq)

lemma sound_HandleAEP: "sound E (HandleAEP E pkt)"
  unfolding HandleAEP_def by (auto intro!: sound_parsed)

lemma sound_clustered: "sound E (handleClusteredNBPFwdReq E pkt)"
  unfolding handleClusteredNBPFwdReq_def
  by (auto intro!: sound_parsed sound_rules split: option.split list.split)


section \<open>Frames\<close>

lemma sound_serve_ddp: "\<not> announces_65535 pkt \<Longrightarrow> sound E (serve_ddp E pkt src)"
  unfolding serve_ddp_def glean_def serve_foreign_def serve_local_def
  by (auto intro!: sound_rules sound_HandleRTMP sound_HandleNBP sound_HandleAEP sound_HandleZIP sound_clustered
    simp: Let_def split: prod.split)

lemma trim_payload_safe: "2 \<le> length payload \<Longrightarrow> safe (trim_payload payload)"
  by (auto simp: trim_payload_def Let_def)

lemma trim_payload_panics: "length payload < 2 \<Longrightarrow> trim_payload payload = Inl Panic"
  by (simp add: trim_payload_def go_upto_def)

text \<open>
  A frame that the port can handle: an AppleTalk frame has the two bytes of the length, and no route
  to a range that ends at network 65535.
\<close>

definition frame_ok :: "port_env \<Rightarrow> byte list \<Rightarrow> bool" where
  "frame_ok E payload \<longleftrightarrow>
     2 \<le> length payload \<and>
     (\<forall>p pkt. trim_payload payload = Inr p \<longrightarrow> ExtUnmarshal (pe_protos E) p = Inr pkt \<longrightarrow> \<not> announces_65535 pkt)"

definition appletalk_payload :: "port_env \<Rightarrow> EtherTalkPort \<Rightarrow> byte list \<Rightarrow> byte list option" where
  "appletalk_payload E port raw =
     (case et_Unmarshal (pe_em E) raw of
        Inl e \<Rightarrow> None
      | Inr fr \<Rightarrow>
          if fr_Src fr \<noteq> et_ethernetAddr port \<and> fr_SNAPProto fr = AppleTalkProto then Some (fr_Payload fr) else None)"

lemma serve_frame_returns:
  assumes J: "router_inv E (pw_rt w)" and ok: "\<forall>p. appletalk_payload E (pw_port w) raw = Some p \<longrightarrow> frame_ok E p"
  shows "\<exists>r w'. serve_frame E raw w = Some (r, w') \<and> router_inv E (pw_rt w')"
proof (cases "appletalk_payload E (pw_port w) raw")
  case None
  with J show ?thesis
    by (auto simp: serve_frame_def appletalk_payload_def pa_simps split: sum.splits if_splits SNAPProto.splits)
next
  case (Some p)
  then obtain fr where fr: "et_Unmarshal (pe_em E) raw = Inr fr" "fr_Src fr \<noteq> et_ethernetAddr (pw_port w)"
    "fr_SNAPProto fr = AppleTalkProto" "fr_Payload fr = p"
    by (auto simp: appletalk_payload_def split: sum.splits if_splits)
  let ?m = "pa_bind (parse (trim_payload p)) (\<lambda>payload.
      case ExtUnmarshal (pe_protos E) payload of
        Inl e \<Rightarrow> pa_ret None
      | Inr ddpkt \<Rightarrow> pa_seq (serve_ddp E ddpkt (fr_Src fr)) (pa_ret (None :: byte list option)))"
  have "sound E ?m"
  proof (rule sound_parsed)
    show "safe (trim_payload p)" using ok Some by (simp add: frame_ok_def trim_payload_safe)
  next
    fix payload
    assume "trim_payload p = Inr payload"
    then have "ExtUnmarshal (pe_protos E) payload = Inr pkt \<Longrightarrow> \<not> announces_65535 pkt" for pkt
      using ok Some by (auto simp: frame_ok_def)
    then show "sound E (case ExtUnmarshal (pe_protos E) payload of
        Inl e \<Rightarrow> pa_ret None
      | Inr ddpkt \<Rightarrow> pa_seq (serve_ddp E ddpkt (fr_Src fr)) (pa_ret (None :: byte list option)))"
      by (auto intro!: sound_bind sound_serve_ddp split: sum.split)
  qed
  moreover have "serve_frame E raw w = ?m w"
    using fr by (simp add: serve_frame_def pa_simps)
  ultimately show ?thesis using J by (auto elim: soundE)
qed


section \<open>Datagrams\<close>

lemma router_inv_OutputFromAURP:
  assumes "router_inv E rt" "OutputFromAURP ddp fwd now cfg ingress pkt rt k = (err, rt', k', sent)"
  shows "router_inv E rt'"
  using assms
  by (auto simp: OutputFromAURP_def OutputFromAURP_send_def Let_def router_inv_traffic
    split: if_splits sum.splits prod.splits option.splits)

lemma deliver_returns:
  assumes "router_inv E (pw_rt (aw_ports w))"
  shows "\<exists>w'. deliver_ddp E i pkt w = Some w' \<and> router_inv E (pw_rt (aw_ports w'))"
proof -
  obtain r pw' where "HandleNBPFromAURP E pkt (aw_ports w) = Some (r, pw')" "router_inv E (pw_rt pw')"
    by (rule soundE [OF sound_HandleNBPFromAURP assms])
  moreover have "router_inv E (pw_rt (aw_ports (output_from_aurp E i pkt w)))"
    using assms by (auto simp: output_from_aurp_def split: prod.split intro: router_inv_OutputFromAURP)
  ultimately show ?thesis using assms by (simp add: deliver_ddp_def)
qed

lemma upd_world_peer_ports [simp]: "aw_ports (upd_world_peer i f w) = aw_ports w"
  by (simp add: upd_world_peer_def)

lemma appletalk_returns:
  assumes "router_inv E (pw_rt (aw_ports w))"
  shows "\<exists>w'. input_appletalk E i data w = Some w' \<and> router_inv E (pw_rt (aw_ports w'))"
  using assms deliver_returns [of E]
  by (auto simp: input_appletalk_def Let_def split: sum.split option.split)

lemma contact_frame:
  "aw_ports (contact dh i w) = aw_ports w" "ReceiveCh (peer_at (contact dh i w) i) = ReceiveCh (peer_at w i)"
  by (cases "i < length (peers (aw_table w))"; simp add: contact_def Let_def upd_world_peer_def list_update_beyond)+

lemma routing_returns:
  "input_routing i pkt w = None \<longleftrightarrow> receiveQueueSize \<le> length (ReceiveCh (peer_at w i))"
  "input_routing i pkt w = Some w' \<Longrightarrow> aw_ports w' = aw_ports w"
  by (auto simp: input_routing_def split: if_splits)

definition input_dispatch :: "port_env \<Rightarrow> DomainHeader \<Rightarrow> peer_ref \<Rightarrow> Packet \<Rightarrow> aurp_world \<Rightarrow> aurp_world option" where
  "input_dispatch E dh i pkt w =
     (case pkt of
        PAppleTalk a \<Rightarrow> if PacketType dh \<noteq> PacketTypeAppleTalk then Some w else input_appletalk E i (at_Data a) w
      | _ \<Rightarrow> if PacketType dh \<noteq> PacketTypeRouting then Some w else input_routing i pkt w)"

lemma input_dispatch_returns:
  assumes "router_inv E (pw_rt (aw_ports w))"
  shows "case input_dispatch E dh i pkt w of
      Some w' \<Rightarrow> router_inv E (pw_rt (aw_ports w'))
    | None \<Rightarrow> PacketType dh = PacketTypeRouting \<and> receiveQueueSize \<le> length (ReceiveCh (peer_at w i))"
proof (cases "\<exists>a. pkt = PAppleTalk a")
  case True
  then obtain a where "pkt = PAppleTalk a" by blast
  with appletalk_returns [OF assms, of i "at_Data a"] assms show ?thesis by (auto simp: input_dispatch_def)
next
  case False
  then have "input_dispatch E dh i pkt w = (if PacketType dh \<noteq> PacketTypeRouting then Some w else input_routing i pkt w)"
    by (cases pkt) (auto simp: input_dispatch_def)
  with assms routing_returns [of i pkt w] show ?thesis by (simp split: option.split)
qed

lemma input_datagram_is_dispatch:
  assumes "ParsePacket buf = Inr (dh, pkt)" "input_peer A raddr dh (aw_table w) = (Some i, t)"
  shows "input_datagram A raddr buf w = input_dispatch (ai_port A) dh i pkt (contact dh i (w\<lparr>aw_table := t\<rparr>))"
  using assms by (simp add: input_datagram_def input_dispatch_def Let_def)

lemma closed_peer: "input_peer A raddr dh t = (Some i, t') \<Longrightarrow> \<not> ai_OpenPeering A \<Longrightarrow> table_Lookup raddr t = Inr (Some i)"
  by (simp add: input_peer_def split: sum.splits)


section \<open>Properties\<close>


definition sample_rtmp_packet :: ExtPacket where
  "sample_rtmp_packet =
     ddp_packet 0 0xff 1 (dp_RouterAddr sample_rtmp) 1 (ProtoRTMPResp sample_protos)
       (case rtmp_DataPacket_Marshal sample_rtmp of Inl _ \<Rightarrow> [] | Inr b \<Rightarrow> b)"

definition sample_frame_env :: port_env where
  "sample_frame_env = sample_port_env\<lparr>pe_protos := sample_protos\<lparr>ExtUnmarshal := (\<lambda>_. Inr sample_rtmp_packet)\<rparr>\<rparr>"

lemma sample_rtmp_packet_ok: "\<not> announces_65535 sample_rtmp_packet"
proof -
  obtain b where b: "rtmp_DataPacket_Marshal sample_rtmp = Inr b" by (simp add: rtmp_DataPacket_Marshal_def)
  have "rtmp_data_ok sample_rtmp" by (simp add: sample_rtmp_def rtmp_data_ok_def rtmp_tuple_ok_def)
  from rtmp_data_roundtrip_ok [OF this b] b show ?thesis
    by (simp add: announces_65535_def sample_rtmp_packet_def ddp_packet_def) (simp add: sample_rtmp_def)
qed



definition sample_aurp_world :: aurp_world where
  "sample_aurp_world =
     \<lparr>aw_table = sample_peer_table, aw_ports = sample_port_world, aw_ingress = (\<lambda>_. no_counters), aw_started = []\<rparr>"

definition sample_input_env :: aurp_input_env where
  "sample_input_env = \<lparr>ai_port = sample_port_env, ai_OpenPeering = False, ai_Identity = sample_localDI\<rparr>"


end
