(* ===== verification/NbpProps.thy ===== *)
theory NbpProps
  imports PortSafety
begin

text \<open>
  Name lookups: a browse request reaches every network of its zone that the router can reach.
\<close>

section \<open>What is sent stays sent\<close>

definition grown :: "port_world \<Rightarrow> port_world \<Rightarrow> bool" where
  "grown w u \<longleftrightarrow>
     set (pw_sent w) \<subseteq> set (pw_sent u) \<and> set (pw_frames w) \<subseteq> set (pw_frames u) \<and>
     byNetwork (pw_rt u) = byNetwork (pw_rt w)"

lemma grown_refl [simp]: "grown w w"
  by (simp add: grown_def)

lemma grown_trans: "grown w u \<Longrightarrow> grown u v \<Longrightarrow> grown w v"
  by (auto simp: grown_def)

definition grows :: "'a pact \<Rightarrow> bool" where
  "grows m \<longleftrightarrow> (\<forall>w r u. m w = Some (r, u) \<longrightarrow> grown w u)"

lemma growsD: "grows m \<Longrightarrow> m w = Some (r, u) \<Longrightarrow> grown w u"
  by (simp add: grows_def)

lemma grows_bind:
  assumes m: "grows m" and f: "\<And>x. grows (f x)"
  shows "grows (pa_bind m f)"
  unfolding grows_def
proof (intro allI impI)
  fix w r u
  assume "pa_bind m f w = Some (r, u)"
  then consider (failed) e where "m w = Some (Inl e, u)" | (ran) x v where "m w = Some (Inr x, v)" "f x v = Some (r, u)"
    by (auto simp: pa_bind_def split: option.splits prod.splits sum.splits)
  then show "grown w u" by cases (auto dest: growsD [OF m] growsD [OF f] intro: grown_trans)
qed

lemma grows_basic [simp]:
  "grows (pa_ret x)" "grows (pa_fail e)" "grows (upd_port g)" "grows (pa_lift h y)" "grows (call_write E port k)"
  "grows (\<lambda>w. None)"
  by (auto simp: grows_def pa_simps pa_lift_def grown_def call_write_def split: sum.splits prod.splits)

lemma grows_with: "(\<And>p. grows (f p)) \<Longrightarrow> grows (with_port f)" "(\<And>rt. grows (g rt)) \<Longrightarrow> grows (with_rt g)"
  by (simp_all add: grows_def pa_simps)

lemma grows_ignore: "grows m \<Longrightarrow> grows (pa_ignore m)"
  by (auto simp: grows_def pa_ignore_def)

lemma grows_output [simp]: "grows (router_Output E pkt)"
  by (auto simp: grows_def router_Output_def call_output_def Output_def Let_def grown_def noteRouteTraffic_frame
    split: sum.splits option.splits prod.splits)

lemma grows_sends [simp]: "grows (port_send_on E port hw pkt)" "grows (port_ZoneMulticast E port zone pkt)" "grows (port_Send E pkt)"
proof -
  show s: "grows (port_send_on E port hw pkt)" "grows (port_ZoneMulticast E port zone pkt)" for port hw pkt
    by (simp_all add: port_send_on_def port_ZoneMulticast_def)
  have q: "grows (port_request E addr)" "grows (port_lookupOrWait E addr)" for addr
    by (auto simp: port_request_def port_lookupOrWait_def intro!: grows_with grows_bind split: prod.split)
  have "grows (outboxPush E ch addr pkt)" for ch addr
    unfolding outboxPush_def using q by (auto simp: Let_def intro!: grows_with grows_bind grows_ignore split: option.split)
  then show "grows (port_Send E pkt)"
    using s q by (auto simp: port_Send_def sendOrQueue_def port_send_def intro!: grows_with grows_bind split: prod.split option.split)
qed

text \<open>In a loop that ends without an error every body has run without one.\<close>

lemma each_ran:
  assumes "pa_each f xs w = Some (Inr (), w')" "\<And>x. grows (f x)" "x \<in> set xs"
  shows "\<exists>u v. f x u = Some (Inr (), v) \<and> grown w u \<and> grown v w'"
  using assms(1,3)
proof (induction xs arbitrary: w)
  case (Cons y xs)
  from Cons.prems(1) obtain v where v: "f y w = Some (Inr (), v)" "pa_each f xs v = Some (Inr (), w')"
    by (auto simp: pa_bind_def split: option.splits prod.splits sum.splits)
  have "grows (pa_each f xs)" using assms(2) by (induction xs) (auto intro: grows_bind)
  then have e: "grown w v" "grown v w'" using v assms(2) growsD by blast+
  show ?case
  proof (cases "x = y")
    case True
    with v(1) e(2) show ?thesis using grown_refl by blast
  next
    case False
    with Cons.prems(2) Cons.IH [OF v(2)] e show ?thesis by (metis grown_trans set_ConsD)
  qed
qed simp



section \<open>Browse requests\<close>

text \<open>The frame of a lookup, to the multicast address of the zone.\<close>

definition lookup_frame :: "port_env \<Rightarrow> EtherTalkPort \<Rightarrow> string \<Rightarrow> ExtPacket \<Rightarrow> byte list \<Rightarrow> bool" where
  "lookup_frame E etPort zone pkt raw \<longleftrightarrow>
     (\<exists>f bs. et_AppleTalk (pe_em E) (et_ethernetAddr etPort) pkt = Inr f \<and>
        et_Marshal (pe_em E) (f\<lparr>fr_Dst := MulticastAddr (et_AppleTalkBroadcast (pe_em E)) zone\<rparr>) = Inr bs \<and> raw = pad_frame bs)"

text \<open>What a network of the zone receives: the lookup on its port, or the forward request on its route.\<close>

definition asked :: "port_env \<Rightarrow> EtherTalkPort \<Rightarrow> ExtPacket \<Rightarrow> nbp_Packet \<Rightarrow> nbp_Tuple \<Rightarrow> RouteTable \<Rightarrow> port_world \<Rightarrow> Route \<Rightarrow> bool" where
  "asked E port pkt nbpkt tuple rt w' route \<longleftrightarrow>
     (if tg_Class (route_target route) = TargetClassDirect then
        \<exists>etPort body raw. etPort \<in> set (ports_now E port) \<and>
          tg_RouteTargetKey (port_target etPort) = tg_RouteTargetKey (route_target route) \<and>
          nbp_Marshal (nbpkt\<lparr>nbp_Function := FunctionLkUp\<rparr>) = Inr body \<and>
          lookup_frame E etPort (nbp_Zone tuple) (ddp_packet 0 0xFF 2 (et_myAddr port) 2 (ProtoNBP (pe_ddp E)) body) raw \<and>
          (et_device etPort, raw) \<in> set (pw_frames w')
      else
        \<exists>body. nbp_Marshal (nbpkt\<lparr>nbp_Function := FunctionFwdReq\<rparr>) = Inr body \<and>
          (let best = Lookup (pe_now E) (r_NetStart route) rt;
               q = ddp_packet (r_NetStart route) 0 2 \<lparr>ad_Network = dd_SrcNet pkt, ad_Node = dd_SrcNode pkt\<rparr>
                 (dd_SrcSocket pkt) (ProtoNBP (pe_ddp E)) body
           in \<not> Route_Zero best \<and> (route_target best, prepareOutboundForRoute (pe_ddp E) q best) \<in> set (pw_sent w')))"

lemma asked_grown: "asked E port pkt nbpkt tuple rt u route \<Longrightarrow> grown u v \<Longrightarrow> asked E port pkt nbpkt tuple rt v route"
  unfolding asked_def grown_def Let_def by (auto split: if_splits; blast)

lemma bind_Inr:
  assumes "pa_bind m f w = Some (Inr y, w')"
  obtains x v where "m w = Some (Inr x, v)" "f x v = Some (Inr y, w')"
  using assms by (auto simp: pa_bind_def split: option.splits prod.splits sum.splits)

lemma lift_Inr: "pa_lift g r w = Some (Inr x, v) \<longleftrightarrow> r = Inr x \<and> v = w"
  by (auto simp: pa_lift_def pa_simps split: sum.splits)

lemma Lookup_frame: "byNetwork rt' = byNetwork rt \<Longrightarrow> Lookup now n rt' = Lookup now n rt"
proof -
  assume "byNetwork rt' = byNetwork rt"
  then have "Route_Valid rt' now = Route_Valid rt now" by (simp add: fun_eq_iff Route_Valid_def validIgnoringAge_def)
  with \<open>byNetwork rt' = byNetwork rt\<close> show ?thesis by (simp add: Lookup_def)
qed

lemma multicast_written:
  assumes "port_ZoneMulticast E etPort zone pkt w = Some (Inr (), w')"
  shows "\<exists>raw. lookup_frame E etPort zone pkt raw \<and> (et_device etPort, raw) \<in> set (pw_frames w')"
  using assms
  by (auto simp: port_ZoneMulticast_def port_send_on_def call_write_def write_frame_def lookup_frame_def Let_def
    split: sum.splits prod.splits option.splits)

lemma output_sent:
  assumes "router_Output E pkt w = Some (Inr (), w')"
  shows "\<not> Route_Zero (Lookup (pe_now E) (dd_DstNet pkt) (pw_rt w)) \<and>
    (route_target (Lookup (pe_now E) (dd_DstNet pkt) (pw_rt w)),
     prepareOutboundForRoute (pe_ddp E) pkt (Lookup (pe_now E) (dd_DstNet pkt) (pw_rt w))) \<in> set (pw_sent w')"
  using assms
  by (auto simp: router_Output_def call_output_def Output_def outputRoute_def Let_def split: sum.splits option.splits if_splits)

lemma grows_brrq: "grows (brrq_route E port pkt nbpkt tuple route)"
  by (auto simp: brrq_route_def brrq_local_def brrq_remote_def marshal_as_def intro!: grows_bind split: option.split)

lemma brrq_asks:
  assumes run: "brrq_route E port pkt nbpkt tuple route w = Some (Inr (), w')" and rt: "byNetwork (pw_rt w) = byNetwork rt"
  shows "asked E port pkt nbpkt tuple rt w' route"
proof (cases "tg_Class (route_target route) = TargetClassDirect")
  case True
  with run obtain etPort where p: "find (\<lambda>p. tg_RouteTargetKey (port_target p) = tg_RouteTargetKey (route_target route))
      (ports_now E port) = Some etPort" "brrq_local E port nbpkt tuple etPort w = Some (Inr (), w')"
    by (auto simp: brrq_route_def split: option.splits)
  from p(2) obtain body v out where b: "nbp_Marshal (nbpkt\<lparr>nbp_Function := FunctionLkUp\<rparr>) = Inr body"
    "port_ZoneMulticast E etPort (nbp_Zone tuple) (ddp_packet 0 0xFF 2 (et_myAddr port) 2 (ProtoNBP (pe_ddp E)) body) w = Some (Inr (), v)"
    "(case out of None \<Rightarrow> pa_ret () | Some outDDP2 \<Rightarrow> port_Send E outDDP2) v = Some (Inr (), w')"
    unfolding brrq_local_def marshal_as_def by (auto elim!: bind_Inr simp: lift_Inr)
  have "grown v w'" using b(3) by (rule growsD [rotated]) (simp split: option.split)
  then obtain raw where "lookup_frame E etPort (nbp_Zone tuple) (ddp_packet 0 0xFF 2 (et_myAddr port) 2 (ProtoNBP (pe_ddp E)) body) raw"
    "(et_device etPort, raw) \<in> set (pw_frames w')"
    using multicast_written [OF b(2)] by (auto simp: grown_def)
  moreover have "etPort \<in> set (ports_now E port)" "tg_RouteTargetKey (port_target etPort) = tg_RouteTargetKey (route_target route)"
    using p(1) by (auto simp: find_Some_iff)
  ultimately show ?thesis unfolding asked_def if_P [OF True] using b(1) by blast
next
  case False
  with run obtain body where "nbp_Marshal (nbpkt\<lparr>nbp_Function := FunctionFwdReq\<rparr>) = Inr body"
    "router_Output E (ddp_packet (r_NetStart route) 0 2 \<lparr>ad_Network = dd_SrcNet pkt, ad_Node = dd_SrcNode pkt\<rparr>
       (dd_SrcSocket pkt) (ProtoNBP (pe_ddp E)) body) w = Some (Inr (), w')"
    by (auto simp: brrq_route_def brrq_remote_def marshal_as_def lift_Inr elim!: bind_Inr)
  with False output_sent show ?thesis
    by (fastforce simp: asked_def Let_def ddp_packet_def Lookup_frame [OF rt])
qed


section \<open>Properties\<close>

text \<open>
  C20: a browse request reaches the whole zone.  The handler returns, and unless it reports an error
  every network with the zone that has a valid route was asked: where the best route is direct the
  lookup was multicast to the zone on its port, otherwise a forward request with the address and
  socket of the requester was sent towards the start of the range, by the best route there.
\<close>

theorem browse_request_reaches_zone:
  assumes "router_inv E (pw_rt w)" "dd_Proto pkt = ProtoNBP (pe_ddp E)" "nbp_Unmarshal (dd_Data pkt) = Inr p"
    and "nbp_Function p = FunctionBrRq"
  shows "\<exists>r w'. HandleNBP E pkt w = Some (r, w') \<and>
    (r = Inr () \<longrightarrow>
      (\<forall>n. nbp_Zone (hd (nbp_Tuples p)) \<in> set (zones_of (pw_rt w) n) \<longrightarrow> \<not> Route_Zero (Lookup (pe_now E) n (pw_rt w)) \<longrightarrow>
         asked E (pw_port w) pkt p (hd (nbp_Tuples p)) (pw_rt w) w' (Lookup (pe_now E) n (pw_rt w))))"
proof -
  obtain tuple ts where t: "nbp_Tuples p = tuple # ts" using nbp_tuples_nonempty [OF assms(3)] by (cases "nbp_Tuples p") auto
  obtain r w' where run: "HandleNBP E pkt w = Some (r, w')" by (rule soundE [OF sound_HandleNBP assms(1)])
  have eq: "HandleNBP E pkt w = pa_each (brrq_route E (pw_port w) pkt p tuple) (RoutesForZone (pe_now E) (nbp_Zone tuple) (pw_rt w)) w"
    using assms(2-4) t by (simp add: HandleNBP_def parse_def pa_simps handleNBPBrRq_def)
  have "asked E (pw_port w) pkt p tuple (pw_rt w) w' (Lookup (pe_now E) n (pw_rt w))"
    if "r = Inr ()" and z: "nbp_Zone tuple \<in> set (zones_of (pw_rt w) n)" "\<not> Route_Zero (Lookup (pe_now E) n (pw_rt w))" for n
  proof -
    have "n \<in> set (networksForZone (nbp_Zone tuple) (pw_rt w))"
      using z(1) router_invD(1) [OF assms(1)] by (simp add: rt_inv_def zone_inv_def)
    then have "Lookup (pe_now E) n (pw_rt w) \<in> set (RoutesForZone (pe_now E) (nbp_Zone tuple) (pw_rt w))"
      using z by (auto simp: RoutesForZone_def)
    from each_ran [of "brrq_route E (pw_port w) pkt p tuple", OF _ grows_brrq this, of w w'] run eq \<open>r = Inr ()\<close> obtain u v where
      uv: "brrq_route E (pw_port w) pkt p tuple (Lookup (pe_now E) n (pw_rt w)) u = Some (Inr (), v)" "grown w u" "grown v w'"
      by auto
    then have "byNetwork (pw_rt u) = byNetwork (pw_rt w)" by (simp add: grown_def)
    from asked_grown [OF brrq_asks [OF uv(1) this] uv(3)] show ?thesis .
  qed
  with run t show ?thesis by auto
qed

definition sample_browse :: nbp_Packet where
  "sample_browse = \<lparr>nbp_Function = FunctionBrRq, nbp_NBPID = 7, nbp_Tuples =
     [\<lparr>nbp_Network = 5, nbp_Node = 3, nbp_Socket = 4, nbp_Enumerator = 0,
       nbp_Object = ''='', nbp_Type = ''AFPServer'', nbp_Zone = ''Lab''\<rparr>]\<rparr>"

definition sample_nbp_env :: port_env where
  "sample_nbp_env = sample_port_env\<lparr>pe_ports := [pw_port sample_port_world]\<rparr>"

lemma sample_router_inv: "router_inv sample_nbp_env sample_table"
proof (rule router_invI)
  show "rt_inv sample_table" by (rule rt_inv_reach [OF sample_reach])
  from UpsertRoute_ok [OF rt_inv_init sample_port_ok, of 5 6 True 0 0]
  obtain new rt' evs where u: "UpsertRoute 0 sample_port True 5 6 0 NewRouteTable = Some (Inr new, rt', evs)"
    "rt_abs rt' = (rt_abs NewRouteTable)(target_key sample_port 5 \<mapsto> new)" "r_Target new = Some sample_port" by auto
  then have t: "sample_table = fst (AddZonesToNetwork 0 5 [''Lab''] rt')" by (simp add: sample_table_def sample_routes_def)
  have "names_short rt'"
    using names_within [OF UpsertRoute_zones [OF u(1)]] by (simp add: names_short_def NewRouteTable_def)
  then show "names_short sample_table"
    by (auto simp: t names_short_def AddZonesToNetwork_def Let_def)
  have "byClass sample_table = byClass rt'" by (simp add: t AddZonesToNetwork_def Let_def)
  then have "rt_abs sample_table = (rt_abs NewRouteTable)(target_key sample_port 5 \<mapsto> new)" using abs_cong u(2) by metis
  moreover have "has_port sample_nbp_env sample_port"
    by (simp add: has_port_def sample_nbp_env_def sample_port_world_def NewEtherTalkPort_def setCableRange_def Let_def
      port_target_def sample_port_def)
  ultimately show "direct_known sample_nbp_env sample_table"
    using u(3) by (auto simp: direct_known_def route_target_def rt_abs_def NewRouteTable_def split: if_splits)
qed

theorem browse_request_reaches_zone_witness:
  "\<exists>body r w'. nbp_Marshal sample_browse = Inr body \<and>
     HandleNBP sample_nbp_env (ddp_packet 3 7 2 \<lparr>ad_Network = 5, ad_Node = 3\<rparr> 4 (ProtoNBP (pe_ddp sample_nbp_env)) body)
       (sample_port_world\<lparr>pw_rt := sample_table\<rparr>) = Some (r, w')"
proof -
  obtain b where b: "nbp_Marshal sample_browse = Inr b"
    by (simp add: sample_browse_def nbp_Marshal_def nbp_Tuple_writeTo_def)
  then have "nbp_Unmarshal b = Inr sample_browse"
    by (rule nbp_roundtrip_ok) (simp add: sample_browse_def nbp_shape_ok_def)
  moreover have "nbp_Function sample_browse = FunctionBrRq" by (simp add: sample_browse_def)
  ultimately have "\<exists>r w'. HandleNBP sample_nbp_env
      (ddp_packet 3 7 2 \<lparr>ad_Network = 5, ad_Node = 3\<rparr> 4 (ProtoNBP (pe_ddp sample_nbp_env)) b)
      (sample_port_world\<lparr>pw_rt := sample_table\<rparr>) = Some (r, w')"
    using browse_request_reaches_zone [of sample_nbp_env "sample_port_world\<lparr>pw_rt := sample_table\<rparr>"
      "ddp_packet 3 7 2 \<lparr>ad_Network = 5, ad_Node = 3\<rparr> 4 (ProtoNBP (pe_ddp sample_nbp_env)) b" sample_browse]
      sample_router_inv
    by (auto simp: ddp_packet_def)
  with b show ?thesis by blast
qed

end
