(* ===== verification/Metrics.thy ===== *)
theory Metrics
  imports AurpInput PeerTableReach
begin

text \<open>
  What the router reports about itself: the health snapshot (\<open>src/router/health.go\<close>) and the
  metrics of the peers (\<open>src/router/aurp_peer_metrics.go\<close>).
\<close>

section \<open>Health\<close>

record AURPPolicySummary =
  po_HiddenNetworks :: nat
  po_HiddenImportNetworks :: nat
  po_HiddenExportNetworks :: nat
  po_HiddenDevices :: nat
  po_RemapRules :: nat
  po_Clusters :: nat
  po_BackupPeers :: nat
  po_HopCountReduction :: bool
  po_HopCountWeight :: byte

record RouterHealthSnapshot =
  hs_Status :: string
  hs_Ready :: bool
  hs_Version :: string
  hs_Build :: string
  hs_EtherTalkPorts :: nat
  hs_OperationalPorts :: nat
  hs_Routes :: nat
  hs_AURP :: aurpOperationalSummary
  hs_Policies :: AURPPolicySummary

text \<open>The parts of the router that the snapshot reads; the two strings are those of \<open>meta\<close>.\<close>

record router_view =
  rv_Ports :: "EtherTalkPort list"
  rv_RouteTable :: "RouteTable option"
  rv_AURPPeers :: "AURPPeerTable option"
  rv_AURPConfig :: "AURPConfig option"
  rv_Version :: string
  rv_Build :: string

definition zero_summary :: aurpOperationalSummary where
  "zero_summary =
     \<lparr>os_Configured = 0, os_Resolved = 0, os_Running = 0, os_ReceiverConnected = 0, os_SenderConnected = 0,
      os_LoopDisabled = 0, os_ReceiveQueue = 0, os_ReceiveQueueHighWater = 0, os_DDPPacketsIn = 0,
      os_DDPPacketsOut = 0, os_DDPBytesIn = 0, os_DDPBytesOut = 0\<rparr>"

definition policy_summary :: "AURPConfig option \<Rightarrow> AURPPolicySummary" where
  "policy_summary config =
     (case config of
        None \<Rightarrow>
          \<lparr>po_HiddenNetworks = 0, po_HiddenImportNetworks = 0, po_HiddenExportNetworks = 0, po_HiddenDevices = 0,
           po_RemapRules = 0, po_Clusters = 0, po_BackupPeers = 0, po_HopCountReduction = False, po_HopCountWeight = 0\<rparr>
      | Some cfg \<Rightarrow>
          \<lparr>po_HiddenNetworks = length (HiddenNetworks cfg),
           po_HiddenImportNetworks = length (HiddenImportNetworks cfg),
           po_HiddenExportNetworks = length (HiddenExportNetworks cfg),
           po_HiddenDevices = length (HiddenDevices cfg), po_RemapRules = length (RemapRules cfg),
           po_Clusters = length (Clusters cfg), po_BackupPeers = length (BackupPeers cfg),
           po_HopCountReduction = HopCountReduction cfg, po_HopCountWeight = HopCountWeight cfg\<rparr>)"

definition HealthSnapshot :: "router_view \<Rightarrow> RouterHealthSnapshot" where
  "HealthSnapshot rv =
     (let aurp = (case rv_AURPPeers rv of None \<Rightarrow> zero_summary | Some t \<Rightarrow> operationalSummary t);
          operational = length (filter (\<lambda>port. snd (snd (OperationalRange (et_aarp port)))) (rv_Ports rv));
          ready = (length (rv_Ports rv) > 0 \<and> operational > 0 \<and> os_LoopDisabled aurp = 0)
      in \<lparr>hs_Status = (if ready then ''ok'' else ''not-ready''), hs_Ready = ready,
          hs_Version = rv_Version rv, hs_Build = rv_Build rv, hs_EtherTalkPorts = length (rv_Ports rv),
          hs_OperationalPorts = operational,
          hs_Routes = (case rv_RouteTable rv of None \<Rightarrow> 0 | Some rt \<Rightarrow> length (Dump rt)),
          hs_AURP = aurp, hs_Policies = policy_summary (rv_AURPConfig rv)\<rparr>)"

text \<open>The HTTP status and the value that the handlers encode.\<close>

definition HealthHandler :: "router_view \<Rightarrow> nat \<times> RouterHealthSnapshot" where
  "HealthHandler rv = (200, HealthSnapshot rv)"

definition ReadyHandler :: "router_view \<Rightarrow> nat \<times> RouterHealthSnapshot" where
  "ReadyHandler rv = (let snapshot = HealthSnapshot rv in (if hs_Ready snapshot then 200 else 503, snapshot))"

definition AURPSummaryHandler :: "router_view \<Rightarrow> nat \<times> string \<times> string \<times> aurpOperationalSummary \<times> AURPPolicySummary" where
  "AURPSummaryHandler rv =
     (let snapshot = HealthSnapshot rv
      in (200, hs_Version snapshot, hs_Build snapshot, hs_AURP snapshot, hs_Policies snapshot))"


section \<open>Metrics\<close>

text \<open>
  A sample: the name of its descriptor, its type, the value of its label, and the number, before it
  is converted to a floating point number.
\<close>

datatype ValueType = GaugeValue | CounterValue

type_synonym sample = "string \<times> ValueType \<times> int"

record metric =
  mt_name :: string
  mt_type :: ValueType
  mt_label :: string
  mt_value :: int

text \<open>\<open>String\<close> of an address that is nil, before a peer has an endpoint, is \<open>''<nil>''\<close>.\<close>

definition RemoteAddrString :: "TablePeer \<Rightarrow> string" where
  "RemoteAddrString p = (case remoteAddr p of None \<Rightarrow> ''<nil>'' | Some a \<Rightarrow> dotted a)"

definition metricPeerLabel :: "TablePeer \<Rightarrow> string" where
  "metricPeerLabel p =
     (if tunnelID p \<noteq> [] then tunnelID p
      else if RemoteAddrString p \<noteq> [] \<and> RemoteAddrString p \<noteq> ''<nil>'' then ''endpoint:'' @ RemoteAddrString p
      else ''unknown'')"

definition ReceiverConnected_simple :: "TablePeer \<Rightarrow> bool" where
  "ReceiverConnected_simple p \<longleftrightarrow> rstate p \<noteq> ReceiverUnconnected \<and> rstate p \<noteq> ReceiverWaitForOpenRsp"

definition SenderConnected_simple :: "TablePeer \<Rightarrow> bool" where
  "SenderConnected_simple p \<longleftrightarrow> sstate p \<noteq> SenderUnconnected \<and> sstate p \<noteq> SenderWaitForRDAck"

text \<open>Times are in nanoseconds; the zero time is 0.\<close>

definition metricTimestamp :: "time \<Rightarrow> int" where
  "metricTimestamp t = (if time_IsZero t then 0 else t div 1000000000)"

definition connection_metrics :: "TablePeer \<Rightarrow> sample list" where
  "connection_metrics p =
     [(''jrouter_aurp_peer_receiver_connected'', GaugeValue, if ReceiverConnected_simple p then 1 else 0),
      (''jrouter_aurp_peer_sender_connected'', GaugeValue, if SenderConnected_simple p then 1 else 0),
      (''jrouter_aurp_peer_send_retries'', GaugeValue, sendRetries p),
      (''jrouter_aurp_peer_last_heard_from_timestamp_seconds'', GaugeValue, metricTimestamp (lastHeardFrom p)),
      (''jrouter_aurp_peer_last_reconnect_timestamp_seconds'', GaugeValue, metricTimestamp (lastReconnect p)),
      (''jrouter_aurp_peer_last_send_timestamp_seconds'', GaugeValue, metricTimestamp (lastSend p)),
      (''jrouter_aurp_peer_last_update_timestamp_seconds'', GaugeValue, metricTimestamp (lastUpdate p)),
      (''jrouter_aurp_peer_last_success_timestamp_seconds'', GaugeValue, metricTimestamp (lastSuccess p)),
      (''jrouter_aurp_peer_reconnect_failures'', GaugeValue, reconnectFailures p),
      (''jrouter_aurp_peer_next_reconnect_timestamp_seconds'', GaugeValue, metricTimestamp (nextReconnect p))]"

definition sequence_metrics :: "TablePeer \<Rightarrow> sample list" where
  "sequence_metrics p =
     [(''jrouter_aurp_peer_duplicate_routing_packets_total'', CounterValue, uint (k_duplicateRoutingPackets (counters p))),
      (''jrouter_aurp_peer_reacks_sent_total'', CounterValue, uint (k_reacksSent (counters p))),
      (''jrouter_aurp_peer_stale_routing_packets_total'', CounterValue, uint (k_staleRoutingPackets (counters p))),
      (''jrouter_aurp_peer_future_routing_packets_total'', CounterValue, uint (k_futureRoutingPackets (counters p))),
      (''jrouter_aurp_peer_connection_id_mismatches_total'', CounterValue, uint (k_connectionIDMismatches (counters p)))]"

definition traffic_metrics :: "TablePeer \<Rightarrow> sample list" where
  "traffic_metrics p =
     [(''jrouter_aurp_peer_receive_queue_length'', GaugeValue, int (length (ReceiveCh p))),
      (''jrouter_aurp_peer_receive_queue_high_water'', GaugeValue, uint (receiveQueueHighWater p)),
      (''jrouter_aurp_peer_ddp_packets_in_total'', CounterValue, uint (ddpPacketsIn p)),
      (''jrouter_aurp_peer_ddp_packets_out_total'', CounterValue, uint (k_ddpPacketsOut (counters p))),
      (''jrouter_aurp_peer_ddp_bytes_in_total'', CounterValue, uint (ddpBytesIn p)),
      (''jrouter_aurp_peer_ddp_bytes_out_total'', CounterValue, uint (k_ddpBytesOut (counters p)))]"

definition exchange_metrics :: "TablePeer \<Rightarrow> sample list" where
  "exchange_metrics p =
     [(''jrouter_aurp_peer_late_tickle_acks_total'', CounterValue, uint (k_lateTickleAcks (counters p))),
      (''jrouter_aurp_peer_sender_router_downs_total'', CounterValue, uint (k_senderRouterDowns (counters p))),
      (''jrouter_aurp_peer_receiver_router_downs_total'', CounterValue, uint (k_receiverRouterDowns (counters p))),
      (''jrouter_aurp_peer_router_down_acks_total'', CounterValue, uint (k_routerDownAcks (counters p))),
      (''jrouter_aurp_peer_early_ri_updates_total'', CounterValue, uint (k_earlyRIUpdates (counters p))),
      (''jrouter_aurp_peer_early_ri_update_acks_total'', CounterValue, uint (k_earlyRIUpdateAcks (counters p))),
      (''jrouter_aurp_peer_extended_zi_fragments_total'', CounterValue, uint (k_extendedZIFragments (counters p))),
      (''jrouter_aurp_peer_extended_zi_completed_total'', CounterValue, uint (k_extendedZICompleted (counters p))),
      (''jrouter_aurp_peer_zone_tuples_accepted_total'', CounterValue, uint (k_zoneTuplesAccepted (counters p))),
      (''jrouter_aurp_peer_zone_tuples_ignored_total'', CounterValue, uint (k_zoneTuplesIgnored (counters p))),
      (''jrouter_aurp_peer_loop_indicative_routes_total'', CounterValue, uint (k_loopIndicativeRoutes (counters p)))]"

text \<open>\<open>k\<close> are the counters of forwarded packets that came from the peer.\<close>

definition hop_metrics :: "ingress_counters \<Rightarrow> TablePeer \<Rightarrow> sample list" where
  "hop_metrics k p =
     [(''jrouter_aurp_peer_hop_count_reductions_total'', CounterValue, uint (hopCountReductions k)),
      (''jrouter_aurp_peer_hop_count_weighted_packets_total'', CounterValue, uint (k_hopCountWeightedPackets (counters p))),
      (''jrouter_aurp_peer_alternative_path_forwards_total'', CounterValue, uint (alternativePathForwards k)),
      (''jrouter_aurp_peer_reflection_drops_total'', CounterValue, uint (reflectionDrops k)),
      (''jrouter_aurp_peer_hop_count_reduction_enabled'', GaugeValue, if HopCountReduction (timing p) then 1 else 0),
      (''jrouter_aurp_peer_hop_count_weight'', GaugeValue, uint (HopCountWeight (timing p)))]"

definition peer_metrics :: "ingress_counters \<Rightarrow> TablePeer \<Rightarrow> sample list" where
  "peer_metrics k p =
     connection_metrics p @ sequence_metrics p @ traffic_metrics p @ exchange_metrics p @ hop_metrics k p"

definition dns_metrics :: "configuredDNSState \<Rightarrow> sample list" where
  "dns_metrics dns =
     [(''jrouter_aurp_configured_peer_dns_failures'', GaugeValue, dns_failures dns),
      (''jrouter_aurp_configured_peer_next_dns_retry_timestamp_seconds'', GaugeValue, metricTimestamp (dns_next dns))]"

definition labelled :: "string \<Rightarrow> sample list \<Rightarrow> metric list" where
  "labelled l = map (\<lambda>(n, k, v). \<lparr>mt_name = n, mt_type = k, mt_label = l, mt_value = v\<rparr>)"

definition Collect_metrics :: "(peer_ref \<Rightarrow> ingress_counters) \<Rightarrow> AURPPeerTable \<Rightarrow> metric list" where
  "Collect_metrics K t =
     concat (map (\<lambda>i. labelled (metricPeerLabel (peers t ! i)) (peer_metrics (K i) (peers t ! i))) (uniquePeersLocked t)) @
     concat (map (\<lambda>(configuredPeer, dns). labelled configuredPeer (dns_metrics dns)) (dnsByConfigured t))"

text \<open>The descriptors that \<open>Describe\<close> announces, of peers and of configured names.\<close>

definition connection_descs :: "string list" where
  "connection_descs =
     [''jrouter_aurp_peer_receiver_connected'',
      ''jrouter_aurp_peer_sender_connected'',
      ''jrouter_aurp_peer_send_retries'',
      ''jrouter_aurp_peer_last_heard_from_timestamp_seconds'',
      ''jrouter_aurp_peer_last_reconnect_timestamp_seconds'',
      ''jrouter_aurp_peer_last_send_timestamp_seconds'',
      ''jrouter_aurp_peer_last_update_timestamp_seconds'',
      ''jrouter_aurp_peer_last_success_timestamp_seconds'',
      ''jrouter_aurp_peer_reconnect_failures'',
      ''jrouter_aurp_peer_next_reconnect_timestamp_seconds'']"

definition sequence_descs :: "string list" where
  "sequence_descs =
     [''jrouter_aurp_peer_duplicate_routing_packets_total'',
      ''jrouter_aurp_peer_reacks_sent_total'',
      ''jrouter_aurp_peer_stale_routing_packets_total'',
      ''jrouter_aurp_peer_future_routing_packets_total'',
      ''jrouter_aurp_peer_connection_id_mismatches_total'']"

definition traffic_descs :: "string list" where
  "traffic_descs =
     [''jrouter_aurp_peer_receive_queue_length'',
      ''jrouter_aurp_peer_receive_queue_high_water'',
      ''jrouter_aurp_peer_ddp_packets_in_total'',
      ''jrouter_aurp_peer_ddp_packets_out_total'',
      ''jrouter_aurp_peer_ddp_bytes_in_total'',
      ''jrouter_aurp_peer_ddp_bytes_out_total'']"

definition exchange_descs :: "string list" where
  "exchange_descs =
     [''jrouter_aurp_peer_late_tickle_acks_total'',
      ''jrouter_aurp_peer_sender_router_downs_total'',
      ''jrouter_aurp_peer_receiver_router_downs_total'',
      ''jrouter_aurp_peer_router_down_acks_total'',
      ''jrouter_aurp_peer_early_ri_updates_total'',
      ''jrouter_aurp_peer_early_ri_update_acks_total'',
      ''jrouter_aurp_peer_extended_zi_fragments_total'',
      ''jrouter_aurp_peer_extended_zi_completed_total'',
      ''jrouter_aurp_peer_zone_tuples_accepted_total'',
      ''jrouter_aurp_peer_zone_tuples_ignored_total'',
      ''jrouter_aurp_peer_loop_indicative_routes_total'']"

definition hop_descs :: "string list" where
  "hop_descs =
     [''jrouter_aurp_peer_hop_count_reductions_total'',
      ''jrouter_aurp_peer_hop_count_weighted_packets_total'',
      ''jrouter_aurp_peer_alternative_path_forwards_total'',
      ''jrouter_aurp_peer_reflection_drops_total'',
      ''jrouter_aurp_peer_hop_count_reduction_enabled'',
      ''jrouter_aurp_peer_hop_count_weight'']"

definition peer_descs :: "string list" where
  "peer_descs = connection_descs @ sequence_descs @ traffic_descs @ exchange_descs @ hop_descs"

definition dns_descs :: "string list" where
  "dns_descs =
     [''jrouter_aurp_configured_peer_dns_failures'',
      ''jrouter_aurp_configured_peer_next_dns_retry_timestamp_seconds'']"

definition Describe :: "string list" where
  "Describe = peer_descs @ dns_descs"


section \<open>Series\<close>

text \<open>
  A series is the name and the label of a sample; a scrape must not have two samples of one series.
\<close>

definition series :: "metric \<Rightarrow> string \<times> string" where
  "series m = (mt_name m, mt_label m)"

lemmas metrics_defs =
  peer_metrics_def connection_metrics_def sequence_metrics_def traffic_metrics_def exchange_metrics_def hop_metrics_def

lemmas descs_defs =
  peer_descs_def connection_descs_def sequence_descs_def traffic_descs_def exchange_descs_def hop_descs_def

lemma described: "map fst (peer_metrics k p) = peer_descs" "map fst (dns_metrics d) = dns_descs"
  by (simp_all add: metrics_defs descs_defs dns_metrics_def dns_descs_def)

lemma series_labelled: "map series (labelled l xs) = map (\<lambda>n. (n, l)) (map fst xs)"
  by (simp add: labelled_def series_def split_def)

lemma descs_distinct: "distinct (peer_descs @ dns_descs)"
  by code_simp

lemma distinct_descs: "distinct peer_descs" "distinct dns_descs" "set peer_descs \<inter> set dns_descs = {}"
  using descs_distinct by simp_all

lemma distinct_series:
  assumes "distinct N" "N \<noteq> []"
  shows "distinct (concat (map (\<lambda>l. map (\<lambda>n. (n, l)) N) ls)) \<longleftrightarrow> distinct ls"
proof (induction ls)
  case (Cons l ls)
  have "distinct (map (\<lambda>n. (n, l)) N)" using assms(1) by (simp add: distinct_map inj_on_def)
  moreover have "set (map (\<lambda>n. (n, l)) N) \<inter> set (concat (map (\<lambda>l. map (\<lambda>n. (n, l)) N) ls)) = {} \<longleftrightarrow> l \<notin> set ls"
    using assms(2) by (auto simp: neq_Nil_conv)
  ultimately show ?case using Cons.IH by (auto simp del: set_map)
qed simp

lemma series_Collect:
  "map series (Collect_metrics K t) =
     concat (map (\<lambda>l. map (\<lambda>n. (n, l)) peer_descs) (map (\<lambda>i. metricPeerLabel (peers t ! i)) (uniquePeersLocked t))) @
     concat (map (\<lambda>l. map (\<lambda>n. (n, l)) dns_descs) (configuredAddresses t))"
  by (simp add: Collect_metrics_def map_concat comp_def series_labelled described configuredAddresses_def split_def)

lemma distinct_Collect:
  assumes "distinct (configuredAddresses t)"
  shows "distinct (map series (Collect_metrics K t)) \<longleftrightarrow> distinct (map (\<lambda>i. metricPeerLabel (peers t ! i)) (uniquePeersLocked t))"
proof -
  have ne: "peer_descs \<noteq> []" "dns_descs \<noteq> []" by (simp_all add: descs_defs dns_descs_def)
  have "set (concat (map (\<lambda>l. map (\<lambda>n. (n, l)) peer_descs) ls)) \<inter> set (concat (map (\<lambda>l. map (\<lambda>n. (n, l)) dns_descs) ls')) = {}" for ls ls' :: "string list"
    using distinct_descs(3) by auto
  then show ?thesis
    unfolding series_Collect distinct_append
      distinct_series [OF distinct_descs(1) ne(1)] distinct_series [OF distinct_descs(2) ne(2)]
    using assms by blast
qed

text \<open>Every peer of a reachable table is collected, once.\<close>

lemma unique_peers:
  assumes "table_inv t"
  shows "distinct (uniquePeersLocked t)" "set (uniquePeersLocked t) = {..<length (peers t)}"
proof -
  have "distinct out \<Longrightarrow> distinct (fold (\<lambda>i out. if i \<in> set out then out else out @ [i]) is out) \<and>
      set (fold (\<lambda>i out. if i \<in> set out then out else out @ [i]) is out) = set out \<union> set is" for "is" out :: "nat list"
    by (induction "is" arbitrary: out) auto
  from this [of "[]" "map snd (peersByIP t)"]
  have u: "distinct (uniquePeersLocked t)" "set (uniquePeersLocked t) = snd ` set (peersByIP t)"
    by (simp_all add: uniquePeersLocked_def)
  show "distinct (uniquePeersLocked t)" by (rule u)
  have d: "distinct (map fst (peersByIP t))" using assms by (simp add: table_inv_def)
  have "i \<in> snd ` set (peersByIP t) \<longleftrightarrow> (\<exists>k. owner t k = Some i)" for i
  proof
    assume "i \<in> snd ` set (peersByIP t)"
    then obtain k where "(k, i) \<in> set (peersByIP t)" by auto
    then show "\<exists>k. owner t k = Some i" unfolding owner_def using map_of_is_SomeI [OF d] by blast
  next
    assume "\<exists>k. owner t k = Some i"
    then show "i \<in> snd ` set (peersByIP t)" unfolding owner_def by (metis map_of_SomeD image_eqI snd_conv)
  qed
  moreover have "(\<exists>k. owner t k = Some i) \<longleftrightarrow> i < length (peers t)" for i
    using table_invD(2) [OF assms, of _ i] table_invD(5) [OF assms, of i] by auto
  ultimately show "set (uniquePeersLocked t) = {..<length (peers t)}" unfolding u(2) by (auto simp: set_eq_iff)
qed



section \<open>Properties\<close>


text \<open>A table with two open peers that claim to be the same.\<close>

definition sample_twins :: AURPPeerTable where
  "sample_twins =
     (let di = Some (IPDomainIdentifier [10, 0, 0, 9]);
          t = snd (LookupOrCreate [] [192, 0, 2, 1] sample_localDI di sample_peer_table)
      in snd (LookupOrCreate [] [192, 0, 2, 2] sample_localDI di t))"


end
