(* ===== verification/Startup.thy ===== *)
theory Startup
  imports SeedProps PortSafety
begin

text \<open>
  The start of the program (\<open>src/main.go\<close>): the identity of the router, its ports
  (\<open>NewEtherTalkPort\<close> in \<open>src/router/etalk_port.go\<close>), the list of peers and their addresses, up to
  the point where the loops are started.
\<close>

section \<open>Sets\<close>

text \<open>A set is a Go map without values: a list without repetition in the order of its iteration.\<close>

definition MakeSet :: "'a list \<Rightarrow> 'a list" where
  "MakeSet ss = set_insert ss []"

definition Set_Contains :: "'a list \<Rightarrow> 'a \<Rightarrow> bool" where
  "Set_Contains s x \<longleftrightarrow> x \<in> set s"

definition Set_Add :: "'a list \<Rightarrow> 'a list \<Rightarrow> 'a list" where
  "Set_Add t s = set_insert t s"

definition ToSlice :: "'a list \<Rightarrow> 'a list" where
  "ToSlice s = s"


section \<open>Addresses\<close>

text \<open>\<open>net.ParseMAC\<close> of the standard library: 6, 8 or 20 bytes in one of three notations.\<close>

definition hex_digit :: "char \<Rightarrow> nat option" where
  "hex_digit c =
     (let n = of_char c :: nat in
      if 48 \<le> n \<and> n \<le> 57 then Some (n - 48)
      else if 97 \<le> n \<and> n \<le> 102 then Some (n - 87)
      else if 65 \<le> n \<and> n \<le> 70 then Some (n - 55)
      else None)"

definition xtoi2 :: "string \<Rightarrow> char \<Rightarrow> byte option" where
  "xtoi2 s e =
     (if length s > 2 \<and> s ! 2 \<noteq> e then None
      else case take 2 s of
        [a, b] \<Rightarrow> (case (hex_digit a, hex_digit b) of (Some x, Some y) \<Rightarrow> Some (word_of_nat (16 * x + y)) | _ \<Rightarrow> None)
      | _ \<Rightarrow> None)"

definition ParseMAC :: "string \<Rightarrow> byte list option" where
  "ParseMAC s =
     (if length s < 14 then None
      else if s ! 2 = CHR '':'' \<or> s ! 2 = CHR ''-'' then
        let n = (length s + 1) div 3 in
        if (length s + 1) mod 3 \<noteq> 0 \<or> n \<notin> set [6, 8, 20] then None
        else those (map (\<lambda>i. xtoi2 (drop (3 * i) s) (s ! 2)) [0..<n])
      else if s ! 4 = CHR ''.'' then
        let n = 2 * (length s + 1) div 5 in
        if (length s + 1) mod 5 \<noteq> 0 \<or> n \<notin> set [6, 8, 20] then None
        else those (concat (map (\<lambda>i.
               [xtoi2 (take 2 (drop (5 * i) s)) (CHR 0x00), xtoi2 (drop (5 * i + 2) s) (s ! 4)]) [0..<n div 2]))
      else None)"

text \<open>
  \<open>ethernet.Addr\<close> is an array of six bytes: the conversion of a shorter slice panics, and of a longer
  one takes its first six bytes.
\<close>

definition ethernet_Addr :: "byte list \<Rightarrow> hwaddr option" where
  "ethernet_Addr bs = (if length bs < 6 then None else Some (take 6 bs))"

text \<open>\<open>IsGlobalUnicast\<close> of the standard library.\<close>

definition IP_Equal :: "ip \<Rightarrow> ip \<Rightarrow> bool" where
  "IP_Equal a b \<longleftrightarrow> a = b \<or> (To4 a \<noteq> None \<and> To4 a = To4 b)"

definition IsGlobalUnicast :: "ip \<Rightarrow> bool" where
  "IsGlobalUnicast ip \<longleftrightarrow>
     (length ip = 4 \<or> length ip = 16) \<and>
     \<not> IP_Equal ip [255, 255, 255, 255] \<and>
     \<not> IP_Equal ip [0, 0, 0, 0] \<and> ip \<noteq> replicate 16 0 \<and>
     (case To4 ip of
        Some ip4 \<Rightarrow> ip4 ! 0 \<noteq> 127 \<and> ip4 ! 0 AND 0xf0 \<noteq> 0xe0 \<and> \<not> (ip4 ! 0 = 169 \<and> ip4 ! 1 = 254)
      | None \<Rightarrow>
          ip \<noteq> replicate 15 0 @ [1] \<and> ip ! 0 \<noteq> 0xff \<and> \<not> (ip ! 0 = 0xfe \<and> ip ! 1 AND 0xc0 = 0x80))"


section \<open>The environment\<close>

datatype iface_addr = IPNet ip | OtherAddr

record net_Interface =
  ni_Name :: string
  ni_HardwareAddr :: "byte list"

text \<open>
  The operating system and the packages that \<open>main\<close> calls: the addresses of the interfaces (\<open>None\<close>
  if they cannot be read), \<open>net.ParseIP\<close>, interfaces by name, whether a capture can be opened and
  its filter set, whether the UDP port is free, the text of a hardware address, the body of an HTTP
  response (\<open>None\<close> if the request fails) and whether reading it failed at its end, the order in which
  the resolvers finish, and what the tables of ports and peers take from outside.
\<close>

record startup_env =
  su_InterfaceAddrs :: "iface_addr list option"
  su_ParseIP :: "string \<Rightarrow> ip option"
  su_InterfaceByName :: "string \<Rightarrow> net_Interface option"
  su_OpenLive :: "string \<Rightarrow> bool"
  su_SetBPFFilter :: "string \<Rightarrow> string \<Rightarrow> bool"
  su_ListenUDP :: "u16 \<Rightarrow> bool"
  su_Addr_String :: "hwaddr \<Rightarrow> string"
  su_Get :: "string \<Rightarrow> (string \<times> bool) option"
  su_schedule :: "string list \<Rightarrow> string list"
  su_rands :: "nat \<Rightarrow> u16"
  su_table :: table_env
  su_port :: port_env

text \<open>The calls of \<open>os.Exit(1)\<close>.  \<open>None\<close> is a panic, or a call that does not return.\<close>

datatype startup_exit =
    ExitConfig "config_error list"
  | ExitInterfaceAddrs
  | ExitNoAddress
  | ExitListen u16
  | ExitNoPorts
  | ExitInterface string
  | ExitParseMAC string
  | ExitOpenLive string
  | ExitFilter string
  | ExitRoute port_error
  | ExitGet string
  | ExitScan string

type_synonym 'a startup = "(startup_exit + 'a) option"

record Router =
  rtr_Config :: Config
  rtr_Ports :: "EtherTalkPort list"
  rtr_RouteTable :: RouteTable
  rtr_AURPPeers :: AURPPeerTable
  rtr_Identity :: DomainIdentifier


section \<open>Ports\<close>

text \<open>
  The whole of \<open>NewEtherTalkPort\<close>: a hard seed activates its range.  Nobody observes the route table
  yet, so there are no notifications.
\<close>

definition port_world_of :: "EtherTalkPort \<Rightarrow> Router \<Rightarrow> port_world" where
  "port_world_of port r =
     \<lparr>pw_port = port, pw_rt = rtr_RouteTable r, pw_loops = empty_registry, pw_frames = [], pw_sent = [], pw_notes = []\<rparr>"

definition Router_NewEtherTalkPort ::
  "port_env \<Rightarrow> string \<Rightarrow> hwaddr \<Rightarrow> network \<Rightarrow> network \<Rightarrow> string \<Rightarrow> string list \<Rightarrow> string \<Rightarrow> time \<Rightarrow> Router \<Rightarrow> Router startup" where
  "Router_NewEtherTalkPort E device ethernetAddr netStart netEnd defaultZoneName availableZones seedMode softSeedDelay r =
     (let port = NewEtherTalkPort device ethernetAddr netStart netEnd defaultZoneName availableZones seedMode softSeedDelay in
      if seedMode = SeedModeHard then
        case activateCableRange E netStart netEnd (port_world_of port r) of
          None \<Rightarrow> None
        | Some (Inl err, _) \<Rightarrow> Some (Inl (ExitRoute err))
        | Some (Inr _, w) \<Rightarrow>
            Some (Inr (r\<lparr>rtr_Ports := rtr_Ports r @ [pw_port w], rtr_RouteTable := pw_rt w\<rparr>))
      else Some (Inr (r\<lparr>rtr_Ports := rtr_Ports r @ [port]\<rparr>)))"

definition pcapDeviceName :: "net_Interface \<Rightarrow> string" where
  "pcapDeviceName iface = ni_Name iface"

definition bpfFilter :: "startup_env \<Rightarrow> hwaddr \<Rightarrow> string" where
  "bpfFilter su hw =
     ''(atalk or aarp) and (ether multicast or ether dst '' @ su_Addr_String su hw @ '')''"

text \<open>The hardware address is converted before the configured one is looked at.\<close>

definition port_hwaddr :: "net_Interface \<Rightarrow> EtherTalkConfig \<Rightarrow> hwaddr startup" where
  "port_hwaddr iface etcfg =
     (case ethernet_Addr (ni_HardwareAddr iface) of
        None \<Rightarrow> None
      | Some hw \<Rightarrow>
          if ec_EthAddr etcfg = [] then Some (Inr hw)
          else
            case ParseMAC (ec_EthAddr etcfg) of
              None \<Rightarrow> Some (Inl (ExitParseMAC (ec_EthAddr etcfg)))
            | Some bs \<Rightarrow> map_option Inr (ethernet_Addr bs))"

definition port_zones :: "EtherTalkConfig \<Rightarrow> string list" where
  "port_zones etcfg =
     (let zones = MakeSet (ec_ExtraZones etcfg)
      in if ec_DefaultZoneName etcfg \<noteq> [] then set_insert [ec_DefaultZoneName etcfg] zones else zones)"

definition createEtherTalkPort :: "startup_env \<Rightarrow> EtherTalkConfig \<Rightarrow> Router \<Rightarrow> Router startup" where
  "createEtherTalkPort su etcfg r =
     (case su_InterfaceByName su (ec_Device etcfg) of
        None \<Rightarrow> Some (Inl (ExitInterface (ec_Device etcfg)))
      | Some iface \<Rightarrow>
          case port_hwaddr iface etcfg of
            None \<Rightarrow> None
          | Some (Inl e) \<Rightarrow> Some (Inl e)
          | Some (Inr myHWAddr) \<Rightarrow>
              let captureDevice = pcapDeviceName iface in
              if \<not> su_OpenLive su captureDevice then Some (Inl (ExitOpenLive captureDevice))
              else if \<not> su_SetBPFFilter su captureDevice (bpfFilter su myHWAddr)
              then Some (Inl (ExitFilter captureDevice))
              else
                Router_NewEtherTalkPort (su_port su) (ec_Device etcfg) myHWAddr (ec_NetStart etcfg) (ec_NetEnd etcfg)
                  (ec_DefaultZoneName etcfg) (port_zones etcfg) (ec_SeedMode etcfg) (ec_SoftSeedDelay etcfg) r)"

fun createEtherTalkPorts :: "startup_env \<Rightarrow> EtherTalkConfig list \<Rightarrow> Router \<Rightarrow> Router startup" where
  "createEtherTalkPorts su [] r = Some (Inr r)"
| "createEtherTalkPorts su (etcfg # rest) r =
     (case createEtherTalkPort su etcfg r of
        None \<Rightarrow> None
      | Some (Inl e) \<Rightarrow> Some (Inl e)
      | Some (Inr r') \<Rightarrow> createEtherTalkPorts su rest r')"


section \<open>Peers\<close>

text \<open>
  \<open>bufio.Scanner\<close> with its default split function and buffer: lines without the line feed and one
  carriage return before it, and an error at a line that does not fit into the buffer of 65536 bytes.
\<close>

definition MaxScanTokenSize :: int where
  "MaxScanTokenSize = 65536"

definition dropCR :: "string \<Rightarrow> string" where
  "dropCR s = (if s \<noteq> [] \<and> last s = CHR 0x0D then butlast s else s)"

function scan_lines :: "string \<Rightarrow> string list \<times> bool" where
  "scan_lines [] = ([], False)"
| "scan_lines (c # cs) =
     (let line = takeWhile (\<lambda>c. c \<noteq> CHR 0x0A) (c # cs) in
      if int (length line) \<ge> MaxScanTokenSize then ([], True)
      else
        let (ls, tooLong) = scan_lines (drop (length line) cs)
        in (dropCR line # ls, tooLong))"
  by pat_completeness auto
termination
  by (relation "measure length") auto

definition fetchPeerListURL :: "startup_env \<Rightarrow> Router \<Rightarrow> Router startup" where
  "fetchPeerListURL su r =
     (let url = PeerListURL (rtr_Config r) in
      if url = [] then Some (Inr r)
      else
        case su_Get su url of
          None \<Rightarrow> Some (Inl (ExitGet url))
        | Some (body, failed) \<Rightarrow>
            let (ls, tooLong) = scan_lines body;
                ps = filter (\<lambda>p. p \<noteq> []) (map strings_TrimSpace ls)
            in if tooLong \<or> failed then Some (Inl (ExitScan url))
               else Some (Inr (r\<lparr>rtr_Config := (rtr_Config r)\<lparr>cfg_Peers := cfg_Peers (rtr_Config r) @ ps\<rparr>\<rparr>)))"

text \<open>
  Several goroutines resolve the names; each call of the peer table is atomic, and \<open>su_schedule\<close> is
  the order in which they come.
\<close>

definition resolve_name :: "table_env \<Rightarrow> DomainIdentifier \<Rightarrow> string \<Rightarrow> AURPPeerTable \<Rightarrow> AURPPeerTable" where
  "resolve_name E identity peerStr t = snd (ResolveConfiguredPeer E peerStr identity (TrackConfiguredAddress peerStr t))"

definition resolvePeerHostnames :: "startup_env \<Rightarrow> Router \<Rightarrow> Router" where
  "resolvePeerHostnames su r =
     r\<lparr>rtr_AURPPeers :=
         fold (resolve_name (su_table su) (rtr_Identity r))
           (su_schedule su (filter (\<lambda>p. p \<noteq> []) (cfg_Peers (rtr_Config r)))) (rtr_AURPPeers r)\<rparr>"


section \<open>Main\<close>

fun first_unicast :: "iface_addr list \<Rightarrow> ip option" where
  "first_unicast [] = None"
| "first_unicast (OtherAddr # rest) = first_unicast rest"
| "first_unicast (IPNet addr # rest) =
     (if \<not> IsGlobalUnicast addr then first_unicast rest
      else case To4 addr of None \<Rightarrow> first_unicast rest | Some ip4 \<Rightarrow> Some ip4)"

definition defaultDomainIdentifier :: "startup_env \<Rightarrow> startup_exit + ip option" where
  "defaultDomainIdentifier su =
     (case su_InterfaceAddrs su of None \<Rightarrow> Inl ExitInterfaceAddrs | Some iaddrs \<Rightarrow> Inr (first_unicast iaddrs))"

definition local_identity :: "startup_env \<Rightarrow> Config \<Rightarrow> startup_exit + DomainIdentifier" where
  "local_identity su cfg =
     (case Option.bind (su_ParseIP su (LocalIP cfg)) To4 of
        Some ip4 \<Rightarrow> Inr (IPDomainIdentifier ip4)
      | None \<Rightarrow>
          (case defaultDomainIdentifier su of
             Inl e \<Rightarrow> Inl e
           | Inr None \<Rightarrow> Inl ExitNoAddress
           | Inr (Some ip4) \<Rightarrow> Inr (IPDomainIdentifier ip4)))"

definition startup_bind :: "'a startup \<Rightarrow> ('a \<Rightarrow> 'b startup) \<Rightarrow> 'b startup" where
  "startup_bind m f = (case m of None \<Rightarrow> None | Some (Inl e) \<Rightarrow> Some (Inl e) | Some (Inr x) \<Rightarrow> f x)"

text \<open>\<open>main\<close> from the decoded configuration to the start of the loops.\<close>

definition new_router :: "startup_env \<Rightarrow> Config \<Rightarrow> Router startup" where
  "new_router su cfg =
     (case local_identity su cfg of
        Inl e \<Rightarrow> Some (Inl e)
      | Inr localDI \<Rightarrow>
          if \<not> su_ListenUDP su (ListenPort cfg) then Some (Inl (ExitListen (ListenPort cfg)))
          else
            case NewAURPPeerTable (su_rands su) (Some (cfg_AURP cfg)) of
              None \<Rightarrow> None
            | Some t \<Rightarrow>
                Some (Inr \<lparr>rtr_Config = cfg, rtr_Ports = [], rtr_RouteTable = NewRouteTable, rtr_AURPPeers = t,
                           rtr_Identity = localDI\<rparr>))"

definition main_startup :: "startup_env \<Rightarrow> Config \<Rightarrow> Router startup" where
  "main_startup su cfg0 =
     (let (cfg, errs) = LoadConfig cfg0 in
      if errs \<noteq> [] then Some (Inl (ExitConfig errs))
      else
        startup_bind (new_router su cfg) (\<lambda>r.
          if EtherTalk cfg = [] then Some (Inl ExitNoPorts)
          else
            startup_bind (createEtherTalkPorts su (EtherTalk cfg) r) (\<lambda>r.
              map_option (map_sum id (resolvePeerHostnames su)) (fetchPeerListURL su r))))"

end
