(* ===== verification/StartupProps.thy ===== *)
theory StartupProps
  imports Startup
begin

text \<open>
  What the start of the program establishes: for every accepted configuration the ports are those of
  the configuration, the route table has the cables of the hard seeds and nothing else, and all peers
  are known to the peer table.
\<close>

section \<open>One port\<close>

lemma set_MakeSet [simp]: "set (MakeSet ss) = set ss"
  by (simp add: MakeSet_def)

lemma set_port_zones: "set (port_zones c) = set (ec_ExtraZones c) \<union> (if ec_DefaultZoneName c = [] then {} else {ec_DefaultZoneName c})"
  by (auto simp: port_zones_def Let_def)

text \<open>A new route leaves the zones of all networks as they are.\<close>

lemma UpsertRoute_new_zones:
  assumes "UpsertRoute now t ext s e d rt = Some (Inr new, rt', evs)" "Route_Zero (find_route t s rt)"
  shows "zones_of rt' n = zones_of rt n"
proof -
  from assms(1) obtain a rt0 where "alloc_traffic (find_route t s rt) rt = (a, rt0)"
    and u: "upsert_index (find_route t s rt) new (set_class (tg_Class t) (AList.update (target_key t s) new) rt0) = Some rt'"
    by (auto simp: UpsertRoute_def Let_def split: if_splits prod.splits option.splits)
  then have 0: "byNetwork rt0 = byNetwork rt" by (auto simp: alloc_traffic_def split: option.splits)
  have fold: "zones_of (fold (insert_route_at new) ns r) n = zones_of r n" for ns r
    by (induction ns arbitrary: r) (simp_all add: insert_route_at_def)
  have "r_NetEnd new \<noteq> 65535"
  proof
    assume "r_NetEnd new = 65535"
    from upsert_index_65535 [OF this] u show False by simp
  qed
  with u assms(2) have "rt' = fold (insert_route_at new) (net_range (r_NetStart new) (r_NetEnd new))
      (set_class (tg_Class t) (AList.update (target_key t s) new) rt0)"
    by (simp add: upsert_index_def Let_def net_for_eq_fold split: option.splits)
  then show ?thesis using 0 fold by (simp add: set_class_def)
qed

lemma zones_added:
  "set (zones_of (fst (AddZonesToNetwork now n zs rt)) m) = set (zones_of rt m) \<union> (if m = n then set zs else {})"
proof (cases "m = n")
  case True
  with new_zones_props [of "zones_of rt n" zs] show ?thesis by (simp add: AddZonesToNetwork_def Let_def)
next
  case False
  then show ?thesis by (simp add: AddZonesToNetwork_def Let_def)
qed

definition summary :: "RouteTable \<Rightarrow> RouteKey \<rightharpoonup> bool \<times> network \<times> byte" where
  "summary rt k = map_option (\<lambda>r. (r_Extended r, r_NetEnd r, r_Distance r)) (rt_abs rt k)"

text \<open>The range of a hard seed is activated with its zones, when the port has no route yet.\<close>

lemma activate_new_port:
  assumes J: "router_inv E rt" and reach: "rt_reach rt" and p: "has_port E (port_target port)" and r: "usable_range s e"
    and zs: "\<forall>z \<in> set (et_availableZones port). length z \<le> 255"
    and new: "rt_abs rt (target_key (port_target port) s) = None"
    and port: "cableRange port = (s, e)" "seedAuthorityActive port" and w: "pw_port w = port" "pw_rt w = rt"
  shows "\<exists>w'. activateCableRange F s e w = Some (Inr (), w') \<and> pw_port w' = port \<and> router_inv E (pw_rt w') \<and> rt_reach (pw_rt w') \<and>
    summary (pw_rt w') = (summary rt)(target_key (port_target port) s \<mapsto> (True, e, 0)) \<and>
    (\<forall>n. set (zones_of (pw_rt w') n) = set (zones_of rt n) \<union> (if n = s then set (et_availableZones port) else {}))"
proof -
  let ?t = "port_target port"
  note inv = router_invD(1) [OF J]
  from UpsertRoute_ok [OF inv port_target_ok, of s e True 0 "pe_now F" port] r
  obtain new rt1 evs where n: "UpsertRoute (pe_now F) ?t True s e 0 rt = Some (Inr new, rt1, evs)" "rt_inv rt1"
    "rt_abs rt1 = (rt_abs rt)(target_key ?t s \<mapsto> new)" "r_Extended new = True" "r_NetEnd new = e" "r_Distance new = 0"
    by (auto simp: usable_range_def)
  have J1: "router_inv E rt1"
  proof -
    have "e \<noteq> 65535" using r by (simp add: usable_range_def)
    from router_inv_upsert [OF J port_target_ok, of port e "pe_now F" True s 0, OF disjI2 [OF p] this] n(1)
    show ?thesis by simp
  qed
  have zero: "Route_Zero (find_route ?t s rt)"
    using find_route_Zero [of rt ?t s] inv port_target_ok new by (simp add: rt_inv_def)
  obtain rt2 evs2 where a: "AddZonesToNetwork (pe_now F) s (et_availableZones port) rt1 = (rt2, evs2)" by fastforce
  then have rt2: "rt2 = fst (AddZonesToNetwork (pe_now F) s (et_availableZones port) rt1)" by simp
  have "rt_abs rt2 = rt_abs rt1" unfolding rt2 by (rule abs_cong) (simp add: AddZonesToNetwork_def Let_def)
  then have "summary rt2 = (summary rt)(target_key ?t s \<mapsto> (True, e, 0))"
    using n(3-6) by (auto simp: summary_def fun_eq_iff)
  moreover have "set (zones_of rt2 m) = set (zones_of rt m) \<union> (if m = s then set (et_availableZones port) else {})" for m
    unfolding rt2 zones_added UpsertRoute_new_zones [OF n(1) zero, of m] ..
  moreover have "router_inv E rt2" unfolding rt2 by (rule router_inv_AddZones [OF J1 zs])
  moreover have "rt_reach rt2"
    using reach_step [OF reach_step [OF reach step_upsert [OF port_target_ok n(1)]] step_add_zones [OF a]] .
  moreover have "setCableRange s e port = port" using port(1) by (simp add: setCableRange_def cableRange_def)
  moreover have "activateCableRange F s e w =
      Some (Inr (), w\<lparr>pw_port := setCableRange s e port, pw_rt := rt2, pw_notes := (pw_notes w @ evs) @ evs2\<rparr>)"
  proof -
    have g: "\<not> (s = 0 \<or> e = 0 \<or> isPhase2StartupRange s e)" "\<not> (s = 0 \<or> s \<ge> phase2StartupStart)"
      using r by (auto simp: usable_range_def isPhase2StartupRange_def)
    have "deactivateOldRange F s e w = Some (Inr (), w)"
      using port(1) w by (simp add: deactivateOldRange_def cableRange_def pa_simps)
    with g n(1) a w port show ?thesis
      by (simp add: activateCableRange_def activateZones_def activateConfiguredZones_def port_UpsertRoute_def
          port_AddZones_def call_rt_def pa_simps seedAuthorityActive_def cableRange_def setCableRange_def port_target_def)
  qed
  ultimately show ?thesis by auto
qed


section \<open>All ports\<close>

lemma accepted_port:
  assumes "port_errors c = []"
  shows "ec_SeedMode c = SeedModeHard \<Longrightarrow> usable_range (ec_NetStart c) (ec_NetEnd c)"
    "z \<in> set (port_zones c) \<Longrightarrow> length z \<le> 32"
proof -
  from assms have e: "port_range_errors c = []" "port_zone_errors c = []" by (simp_all add: port_errors_def)
  show "usable_range (ec_NetStart c) (ec_NetEnd c)" if "ec_SeedMode c = SeedModeHard"
  proof -
    from e(1) that have n: "ec_NetStart c \<noteq> 0" "ec_NetEnd c \<noteq> 0"
      by (auto simp: port_range_errors_def Let_def split: if_splits)
    with e(1) have "\<not> ec_NetStart c > ec_NetEnd c" "ec_NetStart c \<noteq> 0xffff" "ec_NetEnd c \<noteq> 0xffff"
      "\<not> (ec_NetStart c \<ge> 0xff00 \<and> ec_NetStart c \<le> 0xfffe)"
      unfolding port_range_errors_def Let_def by (simp_all split: if_split_asm)
    moreover have "x < 0xff00" if "\<not> (x \<ge> 0xff00 \<and> x \<le> 0xfffe)" "x \<noteq> 0xffff" for x :: network
      using that u16_less_max [of x] by (simp add: word_less_nat_alt word_le_nat_alt)
    ultimately show ?thesis
      using n by (simp add: usable_range_def word_neq_0_conv linorder_not_less)
  qed
  show "z \<in> set (port_zones c) \<Longrightarrow> length z \<le> 32"
  proof -
    from e(2) have "length (ec_DefaultZoneName c) \<le> 32" "\<forall>zn \<in> set (ec_ExtraZones c). length zn \<le> 32"
      unfolding port_zone_errors_def Let_def
      by (fastforce simp: concat_eq_Nil_conv linorder_not_less split: if_split_asm)+
    then show "z \<in> set (port_zones c) \<Longrightarrow> length z \<le> 32" by (auto simp: set_port_zones split: if_split_asm)
  qed
qed

definition port_made :: "EtherTalkConfig \<Rightarrow> EtherTalkPort \<Rightarrow> bool" where
  "port_made c p \<longleftrightarrow>
     (\<exists>hw. length hw = 6 \<and>
        p = NewEtherTalkPort (ec_Device c) hw (ec_NetStart c) (ec_NetEnd c) (ec_DefaultZoneName c) (port_zones c)
              (ec_SeedMode c) (ec_SoftSeedDelay c))"

definition hard_seeds :: "EtherTalkConfig list \<Rightarrow> EtherTalkConfig list" where
  "hard_seeds cs = filter (\<lambda>c. ec_SeedMode c = SeedModeHard) cs"

text \<open>The key of the direct route of a port.\<close>

definition cable_key :: "EtherTalkConfig \<Rightarrow> RouteKey" where
  "cable_key c = target_key \<lparr>tg_Class = TargetClassDirect, tg_RouteTargetKey = ''EtherTalkPort|'' @ ec_Device c,
     tg_TunnelID = None\<rparr> (ec_NetStart c)"

definition brought_up :: "port_env \<Rightarrow> EtherTalkConfig list \<Rightarrow> EtherTalkPort list \<Rightarrow> RouteTable \<Rightarrow> bool" where
  "brought_up E cs ports rt \<longleftrightarrow>
     list_all2 port_made cs ports \<and> router_inv (E\<lparr>pe_ports := ports\<rparr>) rt \<and> rt_reach rt \<and>
     summary rt = map_of (map (\<lambda>c. (cable_key c, (True, ec_NetEnd c, 0))) (hard_seeds cs)) \<and>
     (\<forall>n. set (zones_of rt n) = (\<Union>c \<in> {c \<in> set (hard_seeds cs). ec_NetStart c = n}. set (port_zones c)))"

lemma has_port_append: "has_port (E\<lparr>pe_ports := ps\<rparr>) t \<Longrightarrow> has_port (E\<lparr>pe_ports := ps @ qs\<rparr>) t"
  by (simp add: has_port_def)

lemma router_inv_append: "router_inv (E\<lparr>pe_ports := ps\<rparr>) rt \<Longrightarrow> router_inv (E\<lparr>pe_ports := ps @ qs\<rparr>) rt"
  unfolding router_inv_def direct_known_def using has_port_append by blast

lemma brought_up_none: "brought_up E [] [] NewRouteTable"
proof -
  have "summary NewRouteTable = Map.empty" "zones_of NewRouteTable n = []" for n
    by (simp_all add: summary_def rt_abs_def NewRouteTable_def fun_eq_iff)
  then show ?thesis by (simp add: brought_up_def router_inv_init reach_init hard_seeds_def)
qed

lemma made_target:
  "port_target (NewEtherTalkPort d hw s e z zs m dl) =
     \<lparr>tg_Class = TargetClassDirect, tg_RouteTargetKey = ''EtherTalkPort|'' @ d, tg_TunnelID = None\<rparr>"
  "et_availableZones (NewEtherTalkPort d hw s e z zs m dl) = zs"
  by (simp_all add: port_target_def NewEtherTalkPort_def setCableRange_def Let_def)

lemma made_hard:
  "cableRange (NewEtherTalkPort d hw s e z zs SeedModeHard dl) = (s, e)"
  "seedAuthorityActive (NewEtherTalkPort d hw s e z zs SeedModeHard dl)"
  by (simp_all add: cableRange_def NewEtherTalkPort_def setCableRange_def Let_def seedAuthorityActive_def newSeedController_def
      activeAuthority_def)

lemma new_device_key:
  assumes "summary rt = map_of (map (\<lambda>c. (cable_key c, (True, ec_NetEnd c, 0))) (hard_seeds cs))"
    "ec_Device c \<notin> ec_Device ` set cs"
  shows "summary rt (cable_key c) = None"
proof -
  have "cable_key c' \<noteq> cable_key c" if "c' \<in> set (hard_seeds cs)" for c'
  proof -
    have "ec_Device c' \<noteq> ec_Device c" using that assms(2) by (auto simp: hard_seeds_def image_iff)
    then show ?thesis by (simp add: cable_key_def target_key_def)
  qed
  then have "cable_key c \<notin> cable_key ` set (hard_seeds cs)" by (metis imageE)
  then show ?thesis unfolding assms(1) by (simp add: map_of_eq_None_iff image_image)
qed

lemma brought_up_port:
  assumes up: "brought_up E cs ports (rtr_RouteTable r)" and ports: "rtr_Ports r = ports" and c: "port_errors c = []"
    and new: "ec_Device c \<notin> ec_Device ` set cs" and hw: "length hw = 6"
  shows "\<exists>rt'. Router_NewEtherTalkPort F (ec_Device c) hw (ec_NetStart c) (ec_NetEnd c) (ec_DefaultZoneName c)
      (port_zones c) (ec_SeedMode c) (ec_SoftSeedDelay c) r =
      Some (Inr (r\<lparr>rtr_Ports := ports @ [NewEtherTalkPort (ec_Device c) hw (ec_NetStart c) (ec_NetEnd c)
        (ec_DefaultZoneName c) (port_zones c) (ec_SeedMode c) (ec_SoftSeedDelay c)], rtr_RouteTable := rt'\<rparr>)) \<and>
      brought_up E (cs @ [c]) (ports @ [NewEtherTalkPort (ec_Device c) hw (ec_NetStart c) (ec_NetEnd c)
        (ec_DefaultZoneName c) (port_zones c) (ec_SeedMode c) (ec_SoftSeedDelay c)]) rt'"
proof -
  let ?p = "NewEtherTalkPort (ec_Device c) hw (ec_NetStart c) (ec_NetEnd c)
        (ec_DefaultZoneName c) (port_zones c) (ec_SeedMode c) (ec_SoftSeedDelay c)"
  let ?rt = "rtr_RouteTable r"
  let ?E = "E\<lparr>pe_ports := ports @ [?p]\<rparr>"
  from up have u: "list_all2 port_made cs ports" "router_inv (E\<lparr>pe_ports := ports\<rparr>) ?rt" "rt_reach ?rt"
    "summary ?rt = map_of (map (\<lambda>c. (cable_key c, (True, ec_NetEnd c, 0))) (hard_seeds cs))"
    "\<And>n. set (zones_of ?rt n) = (\<Union>c \<in> {c \<in> set (hard_seeds cs). ec_NetStart c = n}. set (port_zones c))"
    by (simp_all add: brought_up_def)
  have made: "list_all2 port_made (cs @ [c]) (ports @ [?p])"
    using u(1) hw by (auto simp: port_made_def intro!: list_all2_appendI)
  note J = router_inv_append [OF u(2), of "[?p]"]
  show ?thesis
  proof (cases "ec_SeedMode c = SeedModeHard")
    case False
    then have "brought_up E (cs @ [c]) (ports @ [?p]) ?rt"
      using made J u(3-5) by (simp add: brought_up_def hard_seeds_def)
    moreover have "Router_NewEtherTalkPort F (ec_Device c) hw (ec_NetStart c) (ec_NetEnd c) (ec_DefaultZoneName c)
      (port_zones c) (ec_SeedMode c) (ec_SoftSeedDelay c) r = Some (Inr (r\<lparr>rtr_Ports := ports @ [?p]\<rparr>))"
      using False ports by (simp add: Router_NewEtherTalkPort_def)
    moreover have "r\<lparr>rtr_Ports := ports @ [?p], rtr_RouteTable := ?rt\<rparr> = r\<lparr>rtr_Ports := ports @ [?p]\<rparr>" by simp
    ultimately show ?thesis by metis
  next
    case True
    have key: "target_key (port_target ?p) (ec_NetStart c) = cable_key c" by (simp add: made_target cable_key_def)
    have "has_port ?E (port_target ?p)" by (simp add: has_port_def)
    moreover have "\<forall>z \<in> set (et_availableZones ?p). length z \<le> 255"
      using accepted_port(2) [OF c] by (fastforce simp: made_target)
    moreover have "rt_abs ?rt (target_key (port_target ?p) (ec_NetStart c)) = None"
      using new_device_key [OF u(4) new] unfolding key summary_def by simp
    moreover have "cableRange ?p = (ec_NetStart c, ec_NetEnd c)" "seedAuthorityActive ?p"
      using made_hard True by simp_all
    ultimately obtain w where w: "activateCableRange F (ec_NetStart c) (ec_NetEnd c) (port_world_of ?p r) = Some (Inr (), w)"
      "pw_port w = ?p" "router_inv ?E (pw_rt w)" "rt_reach (pw_rt w)"
      "summary (pw_rt w) = (summary ?rt)(target_key (port_target ?p) (ec_NetStart c) \<mapsto> (True, ec_NetEnd c, 0))"
      "\<And>n. set (zones_of (pw_rt w) n) = set (zones_of ?rt n) \<union> (if n = ec_NetStart c then set (et_availableZones ?p) else {})"
      using activate_new_port [OF J u(3) _ accepted_port(1) [OF c True], where port = ?p and w = "port_world_of ?p r" and F = F]
      by (auto simp: port_world_of_def)
    have "summary (pw_rt w) = map_of (map (\<lambda>c. (cable_key c, (True, ec_NetEnd c, 0))) (hard_seeds (cs @ [c])))"
      using True new_device_key [OF u(4) new] unfolding w(5) key u(4)
      by (auto simp: hard_seeds_def map_add_def fun_eq_iff split: option.split)
    moreover have "set (zones_of (pw_rt w) n) = (\<Union>d \<in> {d \<in> set (hard_seeds (cs @ [c])). ec_NetStart d = n}. set (port_zones d))" for n
      using True unfolding w(6) u(5) by (auto simp: hard_seeds_def made_target)
    ultimately have "brought_up E (cs @ [c]) (ports @ [?p]) (pw_rt w)"
      using made w(3,4) by (simp add: brought_up_def)
    moreover have "Router_NewEtherTalkPort F (ec_Device c) hw (ec_NetStart c) (ec_NetEnd c) (ec_DefaultZoneName c)
      (port_zones c) (ec_SeedMode c) (ec_SoftSeedDelay c) r = Some (Inr (r\<lparr>rtr_Ports := ports @ [?p], rtr_RouteTable := pw_rt w\<rparr>))"
      using True ports w(1,2) by (simp add: Router_NewEtherTalkPort_def Let_def)
    ultimately show ?thesis by blast
  qed
qed

text \<open>The interfaces have hardware addresses of at least six bytes.\<close>

definition interfaces_ok :: "startup_env \<Rightarrow> EtherTalkConfig list \<Rightarrow> bool" where
  "interfaces_ok su cs \<longleftrightarrow>
     (\<forall>c \<in> set cs. \<forall>iface. su_InterfaceByName su (ec_Device c) = Some iface \<longrightarrow> 6 \<le> length (ni_HardwareAddr iface))"

lemma those_length: "those xs = Some ys \<Longrightarrow> length ys = length xs"
  by (induction xs arbitrary: ys) (auto split: option.splits)

lemma ParseMAC_length: "ParseMAC s = Some bs \<Longrightarrow> 6 \<le> length bs"
  by (auto simp: ParseMAC_def Let_def length_concat comp_def sum_list_triv dest!: those_length split: if_splits)

lemma port_hwaddr_total:
  assumes "6 \<le> length (ni_HardwareAddr iface)"
  shows "\<exists>res. port_hwaddr iface c = Some res \<and> (\<forall>hw. res = Inr hw \<longrightarrow> length hw = 6)"
  using assms ParseMAC_length [of "ec_EthAddr c"]
  by (auto simp: port_hwaddr_def ethernet_Addr_def split: option.split)

text \<open>What the operating system must grant: the interface, a legal hardware address, the capture.\<close>

definition port_usable :: "startup_env \<Rightarrow> EtherTalkConfig \<Rightarrow> bool" where
  "port_usable su c \<longleftrightarrow>
     (case su_InterfaceByName su (ec_Device c) of
        None \<Rightarrow> False
      | Some iface \<Rightarrow>
          (case port_hwaddr iface c of
             Some (Inr hw) \<Rightarrow>
               su_OpenLive su (pcapDeviceName iface) \<and> su_SetBPFFilter su (pcapDeviceName iface) (bpfFilter su hw)
           | _ \<Rightarrow> False))"

text \<open>The result of creating ports: an exit, or a router that has them.\<close>

definition creates :: "port_env \<Rightarrow> EtherTalkConfig list \<Rightarrow> bool \<Rightarrow> Router \<Rightarrow> Router startup \<Rightarrow> bool" where
  "creates E cs ok r res \<longleftrightarrow>
     (if ok then \<exists>ps rt. res = Some (Inr (r\<lparr>rtr_Ports := ps, rtr_RouteTable := rt\<rparr>)) \<and> brought_up E cs ps rt
      else \<exists>e. res = Some (Inl e))"

lemma create_port:
  assumes up: "brought_up E cs (rtr_Ports r) (rtr_RouteTable r)" and c: "port_errors c = []"
    and new: "ec_Device c \<notin> ec_Device ` set cs"
    and hw: "\<And>iface. su_InterfaceByName su (ec_Device c) = Some iface \<Longrightarrow> 6 \<le> length (ni_HardwareAddr iface)"
  shows "creates E (cs @ [c]) (port_usable su c) r (createEtherTalkPort su c r)"
proof (cases "su_InterfaceByName su (ec_Device c)")
  case (Some iface)
  from port_hwaddr_total [OF hw [OF Some], of c] obtain res where res: "port_hwaddr iface c = Some res"
    "\<forall>hw. res = Inr hw \<longrightarrow> length hw = 6" by blast
  show ?thesis
  proof (cases res)
    case (Inr hw)
    with res(2) have "length hw = 6" by simp
    from brought_up_port [OF up refl c new this, of "su_port su"] show ?thesis
      using Some res(1) Inr by (auto simp: createEtherTalkPort_def port_usable_def creates_def Let_def)
  qed (use Some res(1) in \<open>simp add: createEtherTalkPort_def port_usable_def creates_def\<close>)
qed (simp add: createEtherTalkPort_def port_usable_def creates_def)

lemma create_ports:
  assumes "brought_up E done (rtr_Ports r) (rtr_RouteTable r)" "\<forall>c \<in> set cs. port_errors c = []"
    "distinct (map ec_Device (done @ cs))" "interfaces_ok su cs"
  shows "creates E (done @ cs) (list_all (port_usable su) cs) r (createEtherTalkPorts su cs r)"
  using assms
proof (induction cs arbitrary: "done" r)
  case Nil
  then show ?case by (auto simp: creates_def intro!: exI [of _ "rtr_Ports r"] exI [of _ "rtr_RouteTable r"])
next
  case (Cons c cs)
  have "ec_Device c \<notin> ec_Device ` set done" using Cons.prems(3) by auto
  moreover have "\<And>iface. su_InterfaceByName su (ec_Device c) = Some iface \<Longrightarrow> 6 \<le> length (ni_HardwareAddr iface)"
    using Cons.prems(4) by (auto simp: interfaces_ok_def)
  ultimately have c: "creates E (done @ [c]) (port_usable su c) r (createEtherTalkPort su c r)"
    using create_port [OF Cons.prems(1)] Cons.prems(2) by simp
  show ?case
  proof (cases "port_usable su c")
    case True
    with c obtain ps rt where p: "createEtherTalkPort su c r = Some (Inr (r\<lparr>rtr_Ports := ps, rtr_RouteTable := rt\<rparr>))"
      "brought_up E (done @ [c]) ps rt" by (auto simp: creates_def)
    have "interfaces_ok su cs" using Cons.prems(4) by (simp add: interfaces_ok_def)
    with Cons.IH [of "done @ [c]" "r\<lparr>rtr_Ports := ps, rtr_RouteTable := rt\<rparr>"] p Cons.prems(2,3) True
    show ?thesis by (auto simp: creates_def split: if_splits)
  qed (use c in \<open>auto simp: creates_def\<close>)
qed


section \<open>Peers\<close>

lemma tracked_mono: "set (configuredAddresses t) \<subseteq> set (configuredAddresses (TrackConfiguredAddress a t))"
  "set (configuredAddresses t) \<subseteq> set (configuredAddresses (noteDNSFailure E a err t))"
  "set (configuredAddresses t) \<subseteq> set (configuredAddresses (resetDNSBackoff a t))"
  by (auto simp: TrackConfiguredAddress_def noteDNSFailure_def resetDNSBackoff_def Let_def configuredAddresses_def set_fst_update)

lemma tracked_LookupOrCreate:
  "set (configuredAddresses t) \<subseteq> set (configuredAddresses (snd (LookupOrCreate a raddr l rd t)))"
proof -
  have claim: "dnsByConfigured (snd (claimOrCreate b key l rd t')) = dnsByConfigured t'" for b key t'
    by (auto simp: claimOrCreate_def createPeer_def upd_table_peer_def Let_def split: option.splits)
  have "dnsByConfigured (snd (LookupOrCreate a raddr l rd t)) \<in> {dnsByConfigured t, dnsByConfigured (TrackConfiguredAddress a t)}"
    by (simp add: LookupOrCreate_def Let_def claim split: option.split)
  then consider "dnsByConfigured (snd (LookupOrCreate a raddr l rd t)) = dnsByConfigured t"
    | "dnsByConfigured (snd (LookupOrCreate a raddr l rd t)) = dnsByConfigured (TrackConfiguredAddress a t)" by blast
  then show ?thesis using tracked_mono(1) [of t a] by cases (simp_all add: configuredAddresses_def)
qed

lemma tracked_candidates:
  "set (configuredAddresses t) \<subseteq> set (configuredAddresses (snd (resolve_candidates a l lip cs peer t)))"
proof (induction cs arbitrary: peer t)
  case (Cons c cs)
  obtain res t' where lc: "LookupOrCreate a c l None t = (res, t')" by fastforce
  with tracked_LookupOrCreate [of t a c l None] have "set (configuredAddresses t) \<subseteq> set (configuredAddresses t')" by simp
  with Cons.IH lc show ?case by (cases res) (auto dest: subset_trans)
qed simp

lemma tracked_resolve:
  "set (configuredAddresses t) \<subseteq> set (configuredAddresses (snd (ResolveConfiguredPeer E a l t)))"
proof (cases "dnsReady a (te_now E) t")
  case True
  show ?thesis
  proof (cases "te_LookupIP E a")
    case (Inl err)
    with True tracked_mono(2) [of t E a err] show ?thesis by (simp add: ResolveConfiguredPeer_def)
  next
    case (Inr resolved)
    show ?thesis
    proof (cases "normalizeIPv4Candidates resolved = []")
      case False
      obtain res t' where r: "resolve_candidates a l (local_ip l) (normalizeIPv4Candidates resolved) None t = (res, t')" by fastforce
      then have sub: "set (configuredAddresses t) \<subseteq> set (configuredAddresses t')"
        using tracked_candidates [of t a l "local_ip l" "normalizeIPv4Candidates resolved" None] by simp
      have "\<exists>e. snd (ResolveConfiguredPeer E a l t) \<in> {noteDNSFailure E a e t', resetDNSBackoff a t'}"
        using True Inr False r by (auto simp: ResolveConfiguredPeer_def split: sum.split option.split)
      with sub tracked_mono(2,3) [where t = t'] show ?thesis by (metis insertE singletonD subset_trans)
    qed (use True Inr tracked_mono(2) [of t E a] in \<open>simp add: ResolveConfiguredPeer_def\<close>)
  qed
qed (simp add: ResolveConfiguredPeer_def)

lemma resolved_names:
  assumes "table_reach w"
  shows "table_reach (w\<lparr>tw_table := fold (resolve_name E l) names (tw_table w)\<rparr>) \<and>
    set (configuredAddresses (tw_table w)) \<union> {a \<in> set names. a \<noteq> []}
      \<subseteq> set (configuredAddresses (fold (resolve_name E l) names (tw_table w)))"
  using assms
proof (induction names arbitrary: w)
  case (Cons a names)
  let ?t = "TrackConfiguredAddress a (tw_table w)"
  let ?w = "w\<lparr>tw_table := resolve_name E l a (tw_table w)\<rparr>"
  have "table_reach (upd_tw_table (TrackConfiguredAddress a) w)" by (rule reach_track [OF Cons.prems])
  then have "table_reach ?w"
    using reach_resolve [of "upd_tw_table (TrackConfiguredAddress a) w" E a l]
    by (simp add: upd_tw_table_def resolve_name_def prod_eq_iff)
  note IH = Cons.IH [OF this]
  have "set (configuredAddresses (tw_table w)) \<union> {b. b = a \<and> b \<noteq> []} \<subseteq> set (configuredAddresses (resolve_name E l a (tw_table w)))"
  proof -
    have "set (configuredAddresses (tw_table w)) \<union> {b. b = a \<and> b \<noteq> []} \<subseteq> set (configuredAddresses ?t)"
      using tracked_mono(1) [of "tw_table w" a] tracked [of a "tw_table w"] by blast
    also have "\<dots> \<subseteq> set (configuredAddresses (resolve_name E l a (tw_table w)))"
      using tracked_resolve [of ?t E a l] by (simp add: resolve_name_def)
    finally show ?thesis .
  qed
  with IH show ?case by auto
qed simp


section \<open>Properties\<close>

lemma first_conn_id_some: "rands k \<noteq> 0 \<Longrightarrow> j \<le> k \<Longrightarrow> \<exists>m. first_conn_id rands j n = Some m"
proof (induction "k - j" arbitrary: j n)
  case 0
  then show ?case by (cases "n = 0") (simp_all add: first_conn_id_0 [of _ k])
next
  case (Suc d)
  show ?case
  proof (cases "n = 0")
    case True
    with Suc.hyps(1) [of "Suc j"] Suc.hyps(2) Suc.prems show ?thesis by auto
  qed simp
qed

text \<open>The conditions for a start.\<close>

definition peer_list_read :: "startup_env \<Rightarrow> string \<Rightarrow> bool" where
  "peer_list_read su url \<longleftrightarrow>
     url = [] \<or> (case su_Get su url of None \<Rightarrow> False | Some (body, failed) \<Rightarrow> \<not> failed \<and> \<not> snd (scan_lines body))"

definition starts :: "startup_env \<Rightarrow> Config \<Rightarrow> bool" where
  "starts su cfg0 \<longleftrightarrow>
     (let (cfg, errs) = LoadConfig cfg0 in
      errs = [] \<and> EtherTalk cfg \<noteq> [] \<and> \<not> isl (local_identity su cfg) \<and> su_ListenUDP su (ListenPort cfg) \<and>
      list_all (port_usable su) (EtherTalk cfg) \<and> peer_list_read su (PeerListURL cfg))"

lemma new_router_total:
  assumes "su_rands su k \<noteq> 0"
  shows "if \<not> isl (local_identity su cfg) \<and> su_ListenUDP su (ListenPort cfg)
    then \<exists>t l. new_router su cfg = Some (Inr \<lparr>rtr_Config = cfg, rtr_Ports = [], rtr_RouteTable = NewRouteTable,
        rtr_AURPPeers = t, rtr_Identity = l\<rparr>) \<and> NewAURPPeerTable (su_rands su) (Some (cfg_AURP cfg)) = Some t \<and>
        local_identity su cfg = Inr l
    else \<exists>e. new_router su cfg = Some (Inl e)"
  using first_conn_id_some [of "su_rands su" k 0 0] assms
  by (auto simp: new_router_def NewAURPPeerTable_def split: sum.split)

lemma LoadConfig_ports:
  assumes "LoadConfig cfg0 = (cfg, [])"
  shows "\<forall>c \<in> set (EtherTalk cfg). port_errors c = []" "map ec_Device (EtherTalk cfg) = map ec_Device (EtherTalk cfg0)"
proof -
  let ?ports = "map port_defaults (EtherTalk cfg0)"
  from assms have c: "EtherTalk cfg = ?ports" and "concat (map port_errors ?ports) = []"
    by (simp_all only: LoadConfig_def Let_def prod.inject append_is_Nil_conv) auto
  then show "\<forall>c \<in> set (EtherTalk cfg). port_errors c = []" by simp
  show "map ec_Device (EtherTalk cfg) = map ec_Device (EtherTalk cfg0)" using c by (simp add: port_defaults_def)
qed

lemma fetch_total:
  "if peer_list_read su (PeerListURL (rtr_Config r))
   then \<exists>ps. fetchPeerListURL su r = Some (Inr (r\<lparr>rtr_Config := (rtr_Config r)\<lparr>cfg_Peers := cfg_Peers (rtr_Config r) @ ps\<rparr>\<rparr>))
   else \<exists>e. fetchPeerListURL su r = Some (Inl e)"
proof (cases "PeerListURL (rtr_Config r) = []")
  case True
  then show ?thesis by (auto simp: fetchPeerListURL_def peer_list_read_def intro!: exI [of _ "[]"])
qed (auto simp: fetchPeerListURL_def peer_list_read_def Let_def split: option.split prod.split)

lemma main_with_router:
  assumes c: "createEtherTalkPorts su (EtherTalk cfg) r = Some (Inr (r\<lparr>rtr_Ports := ps, rtr_RouteTable := rt\<rparr>))"
    and f: "fetchPeerListURL su (r\<lparr>rtr_Ports := ps, rtr_RouteTable := rt\<rparr>) =
      Some (Inr (r\<lparr>rtr_Ports := ps, rtr_RouteTable := rt, rtr_Config := (rtr_Config r)\<lparr>cfg_Peers := names\<rparr>\<rparr>))"
    and r: "new_router su cfg = Some (Inr r)" and "LoadConfig cfg0 = (cfg, [])" "EtherTalk cfg \<noteq> []"
    and t: "table_reach \<lparr>tw_table = rtr_AURPPeers r, tw_rt = rt, tw_notes = [], tw_started = []\<rparr>"
    and s: "\<forall>ns. set (su_schedule su ns) = set ns"
  shows "\<exists>t'. main_startup su cfg0 = Some (Inr (r\<lparr>rtr_Ports := ps, rtr_RouteTable := rt,
      rtr_Config := (rtr_Config r)\<lparr>cfg_Peers := names\<rparr>, rtr_AURPPeers := t'\<rparr>)) \<and>
    table_reach \<lparr>tw_table = t', tw_rt = rt, tw_notes = [], tw_started = []\<rparr> \<and>
    {a \<in> set names. a \<noteq> []} \<subseteq> set (configuredAddresses t')"
proof -
  let ?ns = "su_schedule su (filter (\<lambda>p. p \<noteq> []) names)"
  let ?t = "fold (resolve_name (su_table su) (rtr_Identity r)) ?ns (rtr_AURPPeers r)"
  have "set ?ns = {a \<in> set names. a \<noteq> []}" using s by simp
  with resolved_names [OF t, of "su_table su" "rtr_Identity r" ?ns]
  have "table_reach \<lparr>tw_table = ?t, tw_rt = rt, tw_notes = [], tw_started = []\<rparr>"
    "{a \<in> set names. a \<noteq> []} \<subseteq> set (configuredAddresses ?t)" by auto
  moreover have "main_startup su cfg0 = Some (Inr (r\<lparr>rtr_Ports := ps, rtr_RouteTable := rt,
      rtr_Config := (rtr_Config r)\<lparr>cfg_Peers := names\<rparr>, rtr_AURPPeers := ?t\<rparr>))"
    using assms(1-5) by (simp add: main_startup_def startup_bind_def resolvePeerHostnames_def)
  ultimately show ?thesis by blast
qed

lemma accepted_start:
  assumes ok: "LoadConfig cfg0 = (cfg, [])" and id: "su_ListenUDP su (ListenPort cfg)" "EtherTalk cfg \<noteq> []"
    and r: "new_router su cfg = Some (Inr r)" "rtr_Config r = cfg" "rtr_Ports r = []" "rtr_RouteTable r = NewRouteTable"
      "NewAURPPeerTable (su_rands su) (Some (cfg_AURP cfg)) = Some (rtr_AURPPeers r)" "local_identity su cfg = Inr (rtr_Identity r)"
    and "interfaces_ok su (EtherTalk cfg)" "distinct (map ec_Device (EtherTalk cfg))"
    and sched: "\<forall>ns. set (su_schedule su ns) = set ns"
  shows "if list_all (port_usable su) (EtherTalk cfg) \<and> peer_list_read su (PeerListURL cfg)
    then \<exists>r'. main_startup su cfg0 = Some (Inr r') \<and>
       brought_up (su_port su) (EtherTalk cfg) (rtr_Ports r') (rtr_RouteTable r') \<and> rtr_Identity r' = rtr_Identity r \<and>
       table_reach \<lparr>tw_table = rtr_AURPPeers r', tw_rt = rtr_RouteTable r', tw_notes = [], tw_started = []\<rparr> \<and>
       {a \<in> set (cfg_Peers (rtr_Config r')). a \<noteq> []} \<subseteq> set (configuredAddresses (rtr_AURPPeers r')) \<and>
       set (cfg_Peers cfg) \<subseteq> set (cfg_Peers (rtr_Config r'))
    else \<exists>e. main_startup su cfg0 = Some (Inl e)"
proof (cases "list_all (port_usable su) (EtherTalk cfg)")
  case False
  have "creates (su_port su) (EtherTalk cfg) False r (createEtherTalkPorts su (EtherTalk cfg) r)"
    using create_ports [of "su_port su" "[]" r "EtherTalk cfg" su] LoadConfig_ports [OF ok] assms False by (simp add: brought_up_none)
  with False r ok id show ?thesis by (auto simp: main_startup_def startup_bind_def creates_def)
next
  case usable: True
  have "creates (su_port su) (EtherTalk cfg) True r (createEtherTalkPorts su (EtherTalk cfg) r)"
    using create_ports [of "su_port su" "[]" r "EtherTalk cfg" su] LoadConfig_ports [OF ok] assms usable by (simp add: brought_up_none)
  then obtain ps rt where p: "createEtherTalkPorts su (EtherTalk cfg) r = Some (Inr (r\<lparr>rtr_Ports := ps, rtr_RouteTable := rt\<rparr>))"
    "brought_up (su_port su) (EtherTalk cfg) ps rt" using r by (auto simp: creates_def)
  have reach: "table_reach \<lparr>tw_table = rtr_AURPPeers r, tw_rt = rt, tw_notes = [], tw_started = []\<rparr>"
    using reach_new [OF r(5)] p(2) by (simp add: brought_up_def)
  note F = fetch_total [of su "r\<lparr>rtr_Ports := ps, rtr_RouteTable := rt\<rparr>"]
  show ?thesis
  proof (cases "peer_list_read su (PeerListURL cfg)")
    case False
    with F r p ok id show ?thesis by (auto simp: main_startup_def startup_bind_def)
  next
    case True
    with F r obtain us where us: "fetchPeerListURL su (r\<lparr>rtr_Ports := ps, rtr_RouteTable := rt\<rparr>) =
        Some (Inr (r\<lparr>rtr_Ports := ps, rtr_RouteTable := rt, rtr_Config := (rtr_Config r)\<lparr>cfg_Peers := cfg_Peers cfg @ us\<rparr>\<rparr>))"
      by auto
    from main_with_router [OF p(1) us r(1) ok id(2) reach sched] True usable p(2) r(2) show ?thesis by fastforce
  qed
qed

lemma startup_result:
  assumes "interfaces_ok su (EtherTalk cfg0)" "distinct (map ec_Device (EtherTalk cfg0))" "su_rands su k \<noteq> 0"
    "\<forall>ns. set (su_schedule su ns) = set ns"
  shows "if starts su cfg0
    then \<exists>r. main_startup su cfg0 = Some (Inr r) \<and>
       brought_up (su_port su) (EtherTalk (fst (LoadConfig cfg0))) (rtr_Ports r) (rtr_RouteTable r) \<and>
       local_identity su (fst (LoadConfig cfg0)) = Inr (rtr_Identity r) \<and>
       table_reach \<lparr>tw_table = rtr_AURPPeers r, tw_rt = rtr_RouteTable r, tw_notes = [], tw_started = []\<rparr> \<and>
       {a \<in> set (cfg_Peers (rtr_Config r)). a \<noteq> []} \<subseteq> set (configuredAddresses (rtr_AURPPeers r)) \<and>
       set (cfg_Peers cfg0) \<subseteq> set (cfg_Peers (rtr_Config r))
    else \<exists>e. main_startup su cfg0 = Some (Inl e)"
proof (cases "snd (LoadConfig cfg0) = []")
  case False
  then show ?thesis by (auto simp: main_startup_def starts_def split: prod.split)
next
  case True
  then obtain cfg where ok: "LoadConfig cfg0 = (cfg, [])" by (metis prod.collapse)
  note ports = LoadConfig_ports [OF ok]
  have peers: "cfg_Peers cfg = cfg_Peers cfg0" using ok by (simp add: LoadConfig_def Let_def) auto
  note N = new_router_total [OF assms(3), of cfg]
  show ?thesis
  proof (cases "\<not> isl (local_identity su cfg) \<and> su_ListenUDP su (ListenPort cfg) \<and> EtherTalk cfg \<noteq> []")
    case False
    with N ok show ?thesis by (auto simp: main_startup_def starts_def startup_bind_def split: if_splits)
  next
    case id: True
    let ?r = "\<lambda>t l. \<lparr>rtr_Config = cfg, rtr_Ports = [], rtr_RouteTable = NewRouteTable, rtr_AURPPeers = t, rtr_Identity = l\<rparr>"
    from N id obtain t l where r: "new_router su cfg = Some (Inr (?r t l))"
      "NewAURPPeerTable (su_rands su) (Some (cfg_AURP cfg)) = Some t" "local_identity su cfg = Inr l" by auto
    have "interfaces_ok su (EtherTalk cfg)"
      using assms(1) ports(2) unfolding interfaces_ok_def by (metis imageE image_eqI list.set_map)
    from accepted_start [OF ok _ _ r(1) _ _ _ _ _ this _ assms(4)] id ports(2) assms(2) r(2,3) show ?thesis
      using ok peers by (auto simp: starts_def)
  qed
qed


text \<open>A router with a hard seed and a port that learns its range.\<close>

definition sample_startup_env :: startup_env where
  "sample_startup_env =
     \<lparr>su_InterfaceAddrs = Some [OtherAddr, IPNet [127, 0, 0, 1], IPNet [192, 0, 2, 7]], su_ParseIP = (\<lambda>_. None),
      su_InterfaceByName = (\<lambda>d. Some \<lparr>ni_Name = d, ni_HardwareAddr = [2, 0, 0, 0, 0, 1]\<rparr>), su_OpenLive = (\<lambda>_. True),
      su_SetBPFFilter = (\<lambda>_ _. True), su_ListenUDP = (\<lambda>_. True), su_Addr_String = (\<lambda>_. ''02:00:00:00:00:01''),
      su_Get = (\<lambda>_. Some (''a.example'' @ [CHR 0x0D, CHR 0x0A, CHR 0x0A] @ '' b.example'', False)),
      su_schedule = rev, su_rands = (\<lambda>_. 7),
      su_table = \<lparr>te_now = 1, te_rand = (\<lambda>_. 0), te_LookupIP = (\<lambda>_. Inl (ErrDNS True False False))\<rparr>,
      su_port = sample_port_env\<rparr>"

definition sample_startup_config :: Config where
  "sample_startup_config =
     \<lparr>ListenPort = 0, MonitoringAddr = [], LocalIP = [],
      EtherTalk =
        [\<lparr>ec_SeedMode = [], ec_SoftSeedDelay = 0, ec_EthAddr = ''02:00:00:00:00:0f'', ec_Device = ''eth0'',
          ec_DefaultZoneName = ''Main'', ec_ExtraZones = [''Lab''], ec_NetStart = 3, ec_NetEnd = 5\<rparr>,
         \<lparr>ec_SeedMode = ''None'', ec_SoftSeedDelay = 0, ec_EthAddr = [], ec_Device = ''eth1'',
          ec_DefaultZoneName = [], ec_ExtraZones = [], ec_NetStart = 0, ec_NetEnd = 0\<rparr>],
      OpenPeering = False, cfg_AURP = zero_aurp_config, cfg_Peers = [''c.example''], PeerListURL = ''http://p''\<rparr>"


end
