(* ===== verification/RouterRun.thy ===== *)
theory RouterRun
  imports StartupProps
begin

text \<open>
  The running router: the loops of all ports (\<open>Serve\<close>, \<open>RunRTMP\<close>, \<open>RunSeedState\<close>, \<open>Outbox\<close> and the
  AARP machine, started by \<open>main\<close> for each port), the loops of the AURP peers and the maintenance of
  the route table they share, as events in any order; and that the events of a port are handled.
\<close>

section \<open>Events of a port\<close>

text \<open>
  What the loops of a port wait for.  The channels of the \<open>Outbox\<close> loop are those of the outboxes it
  just listed, and nothing else removes an outbox.  The loop ends after a turn with an error; the
  states below include those in which it would go on.
\<close>

datatype outbox_event =
    OutboxesChanged
  | ResolveTick
  | OutboxReady chan

fun Outbox_turn :: "port_env \<Rightarrow> outbox_event \<Rightarrow> unit pact" where
  "Outbox_turn E OutboxesChanged = upd_port (\<lambda>p. p\<lparr>et_outboxesChanged := False\<rparr>)"
| "Outbox_turn E ResolveTick = resendAARPRequests E"
| "Outbox_turn E (OutboxReady waitCh) = outbox_turn E waitCh"

definition aarp_act :: "port_env \<Rightarrow> aarp_env \<Rightarrow> aarp_event \<Rightarrow> unit pact" where
  "aarp_act E AE ev w =
     (case aarp_turn (pe_em E) AE ev (et_aarp (pw_port w)) [] of
        None \<Rightarrow> None
      | Some (a', fs) \<Rightarrow>
          Some (Inr (), w\<lparr>pw_port := (pw_port w)\<lparr>et_aarp := a'\<rparr>,
            pw_frames := pw_frames w @ map (Pair (et_device (pw_port w))) fs\<rparr>))"

datatype port_event =
    ServeFrame "byte list"
  | RTMPTick
  | SeedTick
  | OutboxEvent outbox_event
  | AARPEvent aarp_env aarp_event
  | SendPacket ExtPacket
  | ForwardTo ddp_Addr ExtPacket
  | FromAURP ExtPacket

text \<open>One event; the result are the variables of the seed loop.\<close>

fun port_turn :: "port_env \<Rightarrow> seed_loop \<Rightarrow> port_event \<Rightarrow> seed_loop pact" where
  "port_turn E sl (ServeFrame raw) = pa_bind (serve_frame E raw) (\<lambda>_. pa_ret sl)"
| "port_turn E sl RTMPTick = pa_seq (RunRTMP_turn E) (pa_ret sl)"
| "port_turn E sl SeedTick = RunSeedState_tick E sl"
| "port_turn E sl (OutboxEvent ev) = pa_seq (Outbox_turn E ev) (pa_ret sl)"
| "port_turn E sl (AARPEvent AE ev) = pa_seq (aarp_act E AE ev) (pa_ret sl)"
| "port_turn E sl (SendPacket pkt) = pa_seq (port_Send E pkt) (pa_ret sl)"
| "port_turn E sl (ForwardTo addr pkt) = pa_seq (EtherTalkPeer_Forward E addr pkt) (pa_ret sl)"
| "port_turn E sl (FromAURP pkt) = pa_seq (HandleNBPFromAURP E pkt) (pa_ret sl)"


section \<open>Events of a peer\<close>

text \<open>The entry points of a peer: its handle loop, the loop of its shutdown, and \<open>Forward\<close>.\<close>

datatype peer_event =
    HandleBegin
  | HandleEvent handle_event
  | ShutdownEvent "Packet option"
  | ForwardPacket ddp_module ExtPacket

fun peer_act :: "peer_env \<Rightarrow> peer_event \<Rightarrow> unit act" where
  "peer_act E HandleBegin = Handle_begin E"
| "peer_act E (HandleEvent ev) = handle_turn E ev"
| "peer_act E (ShutdownEvent ev) = act_bind (shutdown_turn E ev) (\<lambda>_. act_ret ())"
| "peer_act E (ForwardPacket ddp pkt) = Forward_act ddp E pkt"


section \<open>The router\<close>

text \<open>
  The ports with the variables of their seed loops, the peers with what they sent, and what they
  share.  The route table in the record of a peer is not used: it is that of the router.
\<close>

record router_state =
  run_ports :: "EtherTalkPort list"
  run_seeds :: "seed_loop list"
  run_peers :: "peer_world list"
  run_rt :: RouteTable
  run_loops :: loop_registry

text \<open>Each peer hears the notifications that are for it.\<close>

definition hears :: "notification list \<Rightarrow> peer_world \<Rightarrow> peer_world" where
  "hears evs w = fold deliver (filter (\<lambda>n. notified n = self (w_peer w)) evs) w"

text \<open>The operations of a port see the other ports as they are.\<close>

definition env_of :: "port_env \<Rightarrow> router_state \<Rightarrow> port_env" where
  "env_of E s = E\<lparr>pe_ports := run_ports s\<rparr>"

definition world_at :: "nat \<Rightarrow> router_state \<Rightarrow> port_world" where
  "world_at i s =
     \<lparr>pw_port = run_ports s ! i, pw_rt = run_rt s, pw_loops = run_loops s, pw_frames = [], pw_sent = [], pw_notes = []\<rparr>"

definition router_turn :: "port_env \<Rightarrow> nat \<Rightarrow> port_event \<Rightarrow> router_state \<Rightarrow> (router_state \<times> port_world) option" where
  "router_turn E i ev s =
     (case port_turn (env_of E s) (run_seeds s ! i) ev (world_at i s) of
        None \<Rightarrow> None
      | Some (r, w) \<Rightarrow>
          Some (\<lparr>run_ports = (run_ports s)[i := pw_port w],
                 run_seeds = (case r of Inl e \<Rightarrow> run_seeds s | Inr sl \<Rightarrow> (run_seeds s)[i := sl]),
                 run_peers = map (hears (pw_notes w)) (run_peers s),
                 run_rt = pw_rt w, run_loops = pw_loops w\<rparr>, w))"

definition peer_turn :: "peer_env \<Rightarrow> nat \<Rightarrow> peer_event \<Rightarrow> router_state \<Rightarrow> router_state option" where
  "peer_turn E j ev s =
     (let w = (run_peers s ! j)\<lparr>w_rt := run_rt s\<rparr> in
      case peer_act E ev w of
        None \<Rightarrow> None
      | Some (r, w') \<Rightarrow>
          Some (s\<lparr>run_peers := (map (hears (drop (length (w_notes w)) (w_notes w'))) (run_peers s))[j := w'],
                  run_rt := w_rt w'\<rparr>))"

text \<open>A tick of \<open>RunMaintenance\<close>.\<close>

definition RunMaintenance_turn :: "time \<Rightarrow> router_state \<Rightarrow> router_state option" where
  "RunMaintenance_turn now s =
     (case PruneExpiredRoutes now (run_rt s) of
        None \<Rightarrow> None
      | Some (k, rt, evs) \<Rightarrow> Some (s\<lparr>run_rt := rt, run_peers := map (hears evs) (run_peers s)\<rparr>))"

text \<open>
  What is done to the route table for AURP peers: their own routes, zones with names as a packet can
  carry them, observers and traffic counters.
\<close>

inductive peer_change :: "RouteTable \<Rightarrow> notification list \<Rightarrow> RouteTable \<Rightarrow> bool" where
  peer_upsert:
    "target_ok t \<Longrightarrow> tg_Class t = TargetClassAURPPeer \<Longrightarrow>
     UpsertRoute now t ext n e d rt = Some (res, rt', evs) \<Longrightarrow> peer_change rt evs rt'"
| peer_distance:
    "target_ok t \<Longrightarrow> tg_Class t = TargetClassAURPPeer \<Longrightarrow>
     UpdateDistance now t n d rt = Some (err, rt', evs) \<Longrightarrow> peer_change rt evs rt'"
| peer_delete:
    "target_ok t \<Longrightarrow> tg_Class t = TargetClassAURPPeer \<Longrightarrow>
     DeleteRoute now t n rt = Some (err, rt', evs) \<Longrightarrow> peer_change rt evs rt'"
| peer_lost:
    "target_ok t \<Longrightarrow> tg_Class t = TargetClassAURPPeer \<Longrightarrow>
     DeleteTarget now t rt = Some (rt', evs) \<Longrightarrow> peer_change rt evs rt'"
| peer_zones:
    "\<forall>z \<in> set zs. length z \<le> 255 \<Longrightarrow> ReplaceZonesForNetwork now n zs rt = (rt', evs) \<Longrightarrow> peer_change rt evs rt'"
| peer_observes: "peer_change rt [] (AddObserver ob rt)"
| peer_leaves: "peer_change rt [] (RemoveObserver ob rt)"
| peer_traffic: "peer_change rt [] (noteRouteTraffic now p r i rt)"

text \<open>
  A frame or a range of AARP that the code survives: see \<open>frame_ok\<close>; a reply to \<open>GetNetInfo\<close> with a
  range up to network 65535 would be adopted.
\<close>

definition offers_65535 :: "ExtPacket \<Rightarrow> bool" where
  "offers_65535 pkt \<longleftrightarrow>
     (case zip_UnmarshalPacket (dd_Data pkt) of Inr (ZGetNetInfoReply p) \<Rightarrow> gnr_NetEnd p = 65535 | _ \<Rightarrow> False)"

definition payload_ok :: "port_env \<Rightarrow> byte list \<Rightarrow> bool" where
  "payload_ok E payload \<longleftrightarrow>
     2 \<le> length payload \<and>
     (case trim_payload payload of
        Inl _ \<Rightarrow> True
      | Inr p \<Rightarrow>
          (case ExtUnmarshal (pe_protos E) p of
             Inl _ \<Rightarrow> True | Inr pkt \<Rightarrow> \<not> announces_65535 pkt \<and> \<not> offers_65535 pkt))"

fun event_ok :: "port_env \<Rightarrow> EtherTalkPort \<Rightarrow> port_event \<Rightarrow> bool" where
  "event_ok E port (ServeFrame raw) = (case appletalk_payload E port raw of None \<Rightarrow> True | Some p \<Rightarrow> payload_ok E p)"
| "event_ok E port (OutboxEvent (OutboxReady ch)) = (map_of (et_outboxes port) ch \<noteq> None)"
| "event_ok E port (AARPEvent AE ev) = (aarp_turn (pe_em E) AE ev (et_aarp port) [] \<noteq> None)"
| "event_ok E port _ = True"

text \<open>The names in a packet of zone information; those of parsed packets are length-prefixed.\<close>

definition packet_short :: "Packet \<Rightarrow> bool" where
  "packet_short pkt \<longleftrightarrow> (case pkt of PZIRsp p \<Rightarrow> \<forall>zt \<in> set (zirsp_Zones p). length (zt_Name zt) \<le> 255 | _ \<Rightarrow> True)"

fun peer_event_ok :: "peer_event \<Rightarrow> bool" where
  "peer_event_ok (HandleEvent (EvPacket pkt)) = packet_short pkt"
| "peer_event_ok (ShutdownEvent (Some pkt)) = packet_short pkt"
| "peer_event_ok _ = True"

definition running_start :: "Router \<Rightarrow> seed_loop list \<Rightarrow> router_state" where
  "running_start r sls =
     \<lparr>run_ports = rtr_Ports r, run_seeds = sls, run_peers = [], run_rt = rtr_RouteTable r, run_loops = empty_registry\<rparr>"

text \<open>
  The states of a router that was started, with events in any order.  Peers join as they are created;
  changes of the route table outside their loops are those of reconnecting and of forwarded packets.
\<close>

inductive router_reach :: "Router \<Rightarrow> router_state \<Rightarrow> bool" for r where
  router_start: "length sls = length (rtr_Ports r) \<Longrightarrow> router_reach r (running_start r sls)"
| router_event:
    "router_reach r s \<Longrightarrow> i < length (run_ports s) \<Longrightarrow> event_ok E (run_ports s ! i) ev \<Longrightarrow>
     router_turn E i ev s = Some (s', w) \<Longrightarrow> router_reach r s'"
| router_peer_event:
    "router_reach r s \<Longrightarrow> j < length (run_peers s) \<Longrightarrow> peer_event_ok pev \<Longrightarrow>
     peer_turn PE j pev s = Some s' \<Longrightarrow> router_reach r s'"
| router_maintenance: "router_reach r s \<Longrightarrow> RunMaintenance_turn now s = Some s' \<Longrightarrow> router_reach r s'"
| router_join:
    "router_reach r s \<Longrightarrow> fresh_peer p \<Longrightarrow>
     router_reach r (s\<lparr>run_peers := run_peers s @
       [\<lparr>w_peer = p, w_rt = run_rt s, w_sent = [], w_notes = [], w_loops = []\<rparr>]\<rparr>)"
| router_change:
    "router_reach r s \<Longrightarrow> peer_change (run_rt s) evs rt \<Longrightarrow>
     router_reach r (s\<lparr>run_rt := rt, run_peers := map (hears evs) (run_peers s)\<rparr>)"


section \<open>What operations keep\<close>

text \<open>
  An operation of a port keeps a property of the port and makes steps of the route table only.
\<close>

definition moves :: "(EtherTalkPort \<Rightarrow> bool) \<Rightarrow> 'a pact \<Rightarrow> bool" where
  "moves P m \<longleftrightarrow>
     (\<forall>w r w'. m w = Some (r, w') \<longrightarrow> (P (pw_port w) \<longrightarrow> P (pw_port w')) \<and> rt_step\<^sup>*\<^sup>* (pw_rt w) (pw_rt w'))"

lemma movesD:
  assumes "moves P m" "m w = Some (r, w')"
  shows "P (pw_port w) \<Longrightarrow> P (pw_port w')" "rt_step\<^sup>*\<^sup>* (pw_rt w) (pw_rt w')"
  using assms unfolding moves_def by blast+

lemma moves_bind:
  assumes m: "moves P m" and f: "\<And>x. moves P (f x)"
  shows "moves P (pa_bind m f)"
  unfolding moves_def
proof (intro allI impI)
  fix w r w'
  assume w: "pa_bind m f w = Some (r, w')"
  then obtain y u where y: "m w = Some (y, u)" by (auto simp: pa_bind_def split: option.splits)
  note u = movesD [OF m y]
  show "(P (pw_port w) \<longrightarrow> P (pw_port w')) \<and> rt_step\<^sup>*\<^sup>* (pw_rt w) (pw_rt w')"
  proof (cases y)
    case (Inr x)
    with w y have "f x u = Some (r, w')" by (simp add: pa_bind_def)
    from movesD [OF f this] u show ?thesis by auto
  qed (use u w y in \<open>auto simp: pa_bind_def\<close>)
qed

lemma moves_basic [simp]:
  "moves P (pa_ret x)" "moves P (pa_fail e)" "moves P (\<lambda>w. None)" "moves P (call_write E port g)" "moves P (call_loops k)"
  "moves P (pa_lift h r)"
  by (auto simp: moves_def pa_simps call_write_def call_loops_def pa_lift_def split: prod.splits sum.splits)

lemma moves_each: "(\<And>x. moves P (f x)) \<Longrightarrow> moves P (pa_each f xs)"
  by (induction xs) (auto intro: moves_bind)

lemma moves_ignore: "moves P m \<Longrightarrow> moves P (pa_ignore m)"
  by (fastforce simp: moves_def pa_ignore_def)

lemma moves_with: "(\<And>p. moves P (f p)) \<Longrightarrow> moves P (with_port f)" "(\<And>rt. moves P (g rt)) \<Longrightarrow> moves P (with_rt g)"
  by (simp_all add: moves_def pa_simps)

lemma moves_upd: "(\<And>p. P p \<Longrightarrow> P (g p)) \<Longrightarrow> moves P (upd_port g)"
  by (simp add: moves_def pa_simps)

lemma moves_parsed: "(\<And>x. r = Inr x \<Longrightarrow> moves P (f x)) \<Longrightarrow> moves P (pa_bind (parse r) f)"
  by (cases r) (auto simp: parse_def moves_def pa_bind_def pa_simps split: fault.splits)

lemma moves_send [simp]: "moves P (port_send E hw pkt)" "moves P (port_request E addr)"
  "moves P (port_send_on E port hw pkt)" "moves P (port_Broadcast E pkt)" "moves P (port_ZoneMulticast E port z pkt)"
  "moves P (marshal_as fn nbpkt)"
  by (simp_all add: port_send_def port_request_def port_send_on_def port_Broadcast_def port_ZoneMulticast_def marshal_as_def moves_with)

text \<open>The calls of the route table.\<close>

lemma steps_traffic: "rt_step\<^sup>*\<^sup>* rt (noteRouteTraffic now p r i rt)"
  by (auto simp: noteRouteTraffic_def Let_def split: option.split
    intro: step_bytes_in step_bytes_out converse_rtranclp_into_rtranclp)

lemma moves_output [simp]: "moves P (router_Output E pkt)" "moves P (router_Forward E pkt)"
proof -
  have "Output ddp fwd now p rt = (err, rt', sent) \<Longrightarrow> rt_step\<^sup>*\<^sup>* rt rt'" for ddp fwd now p rt err rt' sent
    by (auto simp: Output_def Let_def steps_traffic split: sum.splits option.splits)
  then show "moves P (router_Output E pkt)" "moves P (router_Forward E pkt)"
    by (auto simp: moves_def router_Output_def router_Forward_def call_output_def Forward_def Let_def
      split: prod.splits if_splits)
qed

lemma moves_table:
  "target_ok t \<Longrightarrow> moves P (port_UpsertRoute E t ext n e d)" "target_ok t \<Longrightarrow> moves P (port_DeleteRoute E t n)"
  "moves P (port_AddZones E n zs)"
  unfolding port_UpsertRoute_def port_DeleteRoute_def port_AddZones_def
  by (auto simp: moves_def call_rt_def split: option.splits prod.splits
    intro: step_upsert step_delete step_add_zones)

lemmas moves_rules = moves_bind moves_with moves_each moves_ignore moves_table

text \<open>
  Properties that do not depend on the address, the mapping table and the outboxes of a port.
\<close>

definition lasting :: "(EtherTalkPort \<Rightarrow> bool) \<Rightarrow> bool" where
  "lasting P \<longleftrightarrow>
     (\<forall>p p'. P p \<longrightarrow> et_device p' = et_device p \<longrightarrow> et_availableZones p' = et_availableZones p \<longrightarrow>
        et_seed p' = et_seed p \<longrightarrow> P p')"

lemma lasting_upd:
  "lasting P \<Longrightarrow> (\<And>p. et_device (g p) = et_device p \<and> et_availableZones (g p) = et_availableZones p \<and> et_seed (g p) = et_seed p) \<Longrightarrow>
   moves P (upd_port g)"
  by (rule moves_upd) (auto simp: lasting_def)

lemma lasting_send:
  assumes "lasting P"
  shows "moves P (sendOrQueue E addr pkt)" "moves P (port_Send E pkt)"
proof -
  have "moves P (port_lookupOrWait E addr)" for addr
    unfolding port_lookupOrWait_def
    by (auto intro!: moves_rules lasting_upd [OF assms] simp: upd_amt_def Let_def split: prod.split)
  moreover have "moves P (outboxPush E ch addr pkt)" for ch addr
    unfolding outboxPush_def
    by (auto intro!: moves_rules lasting_upd [OF assms] simp: Let_def split: option.split)
  ultimately have q: "moves P (sendOrQueue E addr pkt)" for addr
    unfolding sendOrQueue_def by (auto intro!: moves_bind split: option.split)
  then show "moves P (sendOrQueue E addr pkt)" "moves P (port_Send E pkt)" by (simp_all add: port_Send_def)
qed

lemma lasting_handlers:
  assumes L: "lasting P"
  shows "moves P (HandleRTMP_request E pkt req)" "target_ok t \<Longrightarrow> moves P (upsert_tuples E t nz nts)"
    "moves P (HandleNBP E pkt)" "moves P (HandleAEP E pkt)" "moves P (serve_foreign E pkt)" "moves P (glean E pkt src)"
    "moves P (HandleNBPFromAURP E pkt)"
proof -
  note rules = moves_rules moves_parsed lasting_upd [OF L] lasting_send [OF L]
  show "moves P (HandleRTMP_request E pkt req)"
    unfolding HandleRTMP_request_def rtmp_reply_def by (auto intro!: rules)
  show "target_ok t \<Longrightarrow> moves P (upsert_tuples E t nz nts)"
    by (induction nts arbitrary: nz) (auto intro!: rules)
  have "moves P (fwdreq_ports E p nbpkt tuple ports)" for p nbpkt tuple ports
    by (induction ports arbitrary: p) (auto intro!: rules simp: Let_def split: option.split)
  then have fwd: "moves P (handleNBPFwdReq E p nbpkt)" for p nbpkt
    unfolding handleNBPFwdReq_def by (auto intro!: rules split: list.split)
  then show "moves P (HandleNBPFromAURP E pkt)" unfolding HandleNBPFromAURP_def by (auto intro!: rules)
  note fwd
  moreover have "moves P (handleNBPBrRq E p nbpkt)" for p nbpkt
    unfolding handleNBPBrRq_def brrq_route_def brrq_local_def brrq_remote_def
    by (auto intro!: rules split: list.split option.split)
  moreover have "moves P (handleNBPLkUp E nbpkt)" for nbpkt
    unfolding handleNBPLkUp_def by (auto intro!: rules split: list.split option.split)
  ultimately show "moves P (HandleNBP E pkt)" unfolding HandleNBP_def by (auto intro!: rules)
  show "moves P (HandleAEP E pkt)" unfolding HandleAEP_def by (auto intro!: rules)
  show "moves P (serve_foreign E pkt)"
    unfolding serve_foreign_def handleClusteredNBPFwdReq_def by (auto intro!: rules split: option.split list.split)
  show "moves P (glean E pkt src)"
    unfolding glean_def by (auto intro!: rules simp: Let_def upd_amt_def split: prod.split)
qed

lemma lasting_zip:
  assumes L: "lasting P"
  shows "moves P (handleZIPATP E pkt)" "moves P (handleZIPQuery E pkt q)" "moves P (handleZIPGetNetInfo E pkt i)"
    "moves P (handleZIPReply E r)"
proof -
  note rules = moves_rules moves_parsed lasting_upd [OF L] lasting_send [OF L]
  have answer: "moves P (zip_answer E p proto body)" for E p proto body
    unfolding zip_answer_def by (auto intro!: rules)
  then show "moves P (handleZIPATP E pkt)"
    unfolding handleZIPATP_def handleZIPTReq_def by (auto intro!: rules simp: Let_def split: atp_Packet.split prod.split)
  have reply: "moves P (sendReply E p resp)" for E p resp
    unfolding sendReply_def by (auto intro!: rules answer)
  have "moves P (extended_replies E pkt nn k rem)" for nn k rem
  proof (induction E pkt nn k rem rule: extended_replies.induct)
    case (1 E pkt nn k rem)
    show ?case
      by (subst extended_replies.simps) (auto simp: Let_def intro!: rules reply 1)
  qed
  then show "moves P (handleZIPQuery E pkt q)"
    unfolding handleZIPQuery_def by (auto intro!: rules reply simp: Let_def)
  show "moves P (handleZIPGetNetInfo E pkt i)" unfolding handleZIPGetNetInfo_def by (auto intro!: rules)
  show "moves P (handleZIPReply E r)" unfolding handleZIPReply_def by (auto intro!: rules)
qed


section \<open>A port in order\<close>

text \<open>
  The port is that of the device and one of the router, its zones and what it observed fit into packets, and no range ends at
  network 65535.
\<close>

definition seed_fit :: "seedController \<Rightarrow> bool" where
  "seed_fit s \<longleftrightarrow> sd_configuredEnd s \<noteq> 65535 \<and> sd_observedEnd s \<noteq> 65535 \<and> length (sd_observedZone s) \<le> 255"

definition port_fit :: "port_env \<Rightarrow> string \<Rightarrow> EtherTalkPort \<Rightarrow> bool" where
  "port_fit E dev p \<longleftrightarrow>
     et_device p = dev \<and> has_port E (port_target p) \<and> (\<forall>z \<in> set (et_availableZones p). length z \<le> 255) \<and>
     pred_option seed_fit (et_seed p)"

lemma lasting_fit: "lasting (port_fit E dev)"
  by (auto simp: lasting_def port_fit_def port_target_def)

lemma fit_observe: "e \<noteq> 65535 \<Longrightarrow> length z \<le> 255 \<Longrightarrow> moves (port_fit E dev) (observeCableConfig E' n e z a)"
  unfolding observeCableConfig_def
  by (rule moves_upd)
    (auto simp: port_fit_def port_target_def seed_fit_def observeRange_def note_observation_def Let_def option.pred_map o_def
      elim: option.pred_mono_strong)

lemma short_net_info:
  assumes "zip_UnmarshalPacket d = Inr (ZGetNetInfoReply p)"
  shows "length (observed_zone p) \<le> 255"
proof -
  have "zip_UnmarshalGetNetInfoReplyPacket d = Inr p"
    using assms by (auto simp: zip_UnmarshalPacket_def go_bind_eq_Inr split: if_splits)
  moreover have "unat b \<le> 255" for b :: byte using unat_byte_less [of b] by simp
  ultimately have "length (gnr_ZoneName p) \<le> 255 \<and> length (gnr_DefaultZoneName p) \<le> 255"
    by (auto simp: zip_UnmarshalGetNetInfoReplyPacket_def zip_GetNetInfoReply_tail_def go_bind_eq_Inr go_upto_def
      split: if_splits)
  then show ?thesis by (simp add: observed_zone_def)
qed

lemma fit_rtmp:
  assumes "\<not> announces_65535 pkt"
  shows "moves (port_fit E dev) (HandleRTMP E' pkt)"
proof -
  note L = lasting_fit [of E dev]
  note rules = moves_rules moves_parsed lasting_send [OF L] lasting_handlers [OF L]
  have "moves (port_fit E dev) (HandleRTMP_data E' pkt dp)" if "rtmp_UnmarshalDataPacket (dd_Data pkt) = Inr dp" for dp
    using assms that unfolding HandleRTMP_data_def
    by (auto intro!: rules fit_observe peer_target_of_port simp: observeCableRange_def announces_65535_def list_ex_iff split: list.split)
  then show ?thesis
    unfolding HandleRTMP_def by (auto intro!: rules split: prod.split)
qed

lemma fit_zip:
  assumes "\<not> offers_65535 pkt"
  shows "moves (port_fit E dev) (HandleZIP E' pkt)"
proof -
  have "moves (port_fit E dev) (handleZIPZIP_packet E' pkt p)" if "zip_UnmarshalPacket (dd_Data pkt) = Inr p" for p
    using that assms short_net_info [of "dd_Data pkt"]
    by (cases p) (auto simp: offers_65535_def intro!: fit_observe lasting_zip lasting_fit)
  then show ?thesis
    unfolding HandleZIP_def handleZIPZIP_def by (auto intro!: moves_parsed lasting_zip lasting_fit)
qed

lemma fit_serve_ddp:
  assumes "\<not> announces_65535 pkt" "\<not> offers_65535 pkt"
  shows "moves (port_fit E dev) (serve_ddp E' pkt src)"
  unfolding serve_ddp_def serve_local_def using assms
  by (auto intro!: moves_rules lasting_upd lasting_handlers lasting_fit fit_rtmp fit_zip simp: Let_def split: prod.split)

lemma fit_serve_frame:
  assumes "case appletalk_payload E' (pw_port w) raw of None \<Rightarrow> True | Some p \<Rightarrow> payload_ok E' p"
    and run: "serve_frame E' raw w = Some (r, w')"
  shows "port_fit E dev (pw_port w) \<Longrightarrow> port_fit E dev (pw_port w')" "rt_step\<^sup>*\<^sup>* (pw_rt w) (pw_rt w')"
proof -
  have "(port_fit E dev (pw_port w) \<longrightarrow> port_fit E dev (pw_port w')) \<and> rt_step\<^sup>*\<^sup>* (pw_rt w) (pw_rt w')"
  proof (cases "appletalk_payload E' (pw_port w) raw")
    case None
    with run show ?thesis
      by (auto simp: serve_frame_def appletalk_payload_def pa_simps split: sum.splits if_splits SNAPProto.splits)
  next
    case (Some p)
    then obtain fr where fr: "et_Unmarshal (pe_em E') raw = Inr fr" "fr_Src fr \<noteq> et_ethernetAddr (pw_port w)"
      "fr_SNAPProto fr = AppleTalkProto" "fr_Payload fr = p"
      by (auto simp: appletalk_payload_def split: sum.splits if_splits)
    let ?m = "pa_bind (parse (trim_payload p)) (\<lambda>payload.
        case ExtUnmarshal (pe_protos E') payload of
          Inl e \<Rightarrow> pa_ret None
        | Inr ddpkt \<Rightarrow> pa_seq (serve_ddp E' ddpkt (fr_Src fr)) (pa_ret (None :: byte list option)))"
    have "payload_ok E' p" using assms(1) Some by simp
    then have "moves (port_fit E dev) ?m"
      by (auto intro!: moves_parsed moves_bind fit_serve_ddp simp: payload_ok_def split: sum.split)
    moreover have "serve_frame E' raw w = ?m w" using fr by (simp add: serve_frame_def pa_simps)
    ultimately show ?thesis using movesD [of "port_fit E dev" ?m w r w'] run by simp
  qed
  then show "port_fit E dev (pw_port w) \<Longrightarrow> port_fit E dev (pw_port w')" "rt_step\<^sup>*\<^sup>* (pw_rt w) (pw_rt w')" by blast+
qed


section \<open>The route table\<close>

lemma router_inv_fewer:
  assumes "router_inv E rt" "rt_inv rt'" "zones_within rt' rt"
    and "\<And>k r. rt_abs rt' k = Some r \<Longrightarrow> \<exists>k' r'. rt_abs rt k' = Some r' \<and> route_target r' = route_target r"
  shows "router_inv E rt'"
proof (rule router_invI [OF assms(2) names_within [OF assms(3) router_invD(2) [OF assms(1)]]])
  show "direct_known E rt'"
    using assms(4) router_invD(3) [OF assms(1)] unfolding direct_known_def by metis
qed

lemma zones_within_bodies:
  "zones_within (delete_and_clear_at k n rt) rt" "zones_within (delete_target_at key n rt) rt"
  "zones_within (prune_at expired n rt) rt" "zones_within (replace_route_at r n rt) rt"
  by (auto simp: zones_within_def delete_and_clear_at_def delete_key_at_def delete_target_at_def prune_at_def
    replace_route_at_def clear_zones)

lemma zones_within_class: "zones_within rt' (set_class c g rt) \<Longrightarrow> zones_within rt' rt"
  by (simp add: zones_within_def set_class_def)

lemma removal_zones:
  "DeleteRoute now t n rt = Some (err, rt', evs) \<Longrightarrow> zones_within rt' rt"
  "UpdateDistance now t n d rt = Some (err, rt', evs) \<Longrightarrow> zones_within rt' rt"
  "DeleteTarget now t rt = Some (rt', evs) \<Longrightarrow> zones_within rt' rt"
  "PruneExpiredRoutes now rt = Some (k, rt', evs) \<Longrightarrow> zones_within rt' rt"
  unfolding DeleteRoute_def UpdateDistance_def DeleteTarget_def PruneExpiredRoutes_def Let_def
  by (auto split: option.splits if_splits
    intro: zones_within_class [OF zones_within_refl] zones_within_class [OF zones_within_loop] zones_within_class [OF zones_within_fold] zones_within_class zones_within_bodies)

lemma router_inv_DeleteRoute:
  assumes J: "router_inv E rt" and t: "target_ok t"
  shows "\<exists>err rt' evs. DeleteRoute now t n rt = Some (err, rt', evs) \<and> router_inv E rt'"
proof (cases "rt_abs rt (target_key t n)")
  case None
  have "class_inv rt" using router_invD(1) [OF J] by (simp add: rt_inv_def)
  from DeleteRoute_missing [OF this t None] J show ?thesis by auto
next
  case (Some old)
  from DeleteRoute_ok [OF router_invD(1) [OF J] t Some, of now] obtain rt' evs where
    d: "DeleteRoute now t n rt = Some (None, rt', evs)" "rt_inv rt'" "rt_abs rt' = (rt_abs rt)(target_key t n := None)" by blast
  have "router_inv E rt'"
    by (rule router_inv_fewer [OF J d(2) removal_zones(1) [OF d(1)]]) (auto simp: d(3) split: if_splits)
  with d show ?thesis by blast
qed

lemma router_inv_UpdateDistance:
  assumes J: "router_inv E rt" and t: "target_ok t" and u: "UpdateDistance now t n d rt = Some (err, rt', evs)"
  shows "router_inv E rt'"
proof (cases "err")
  case None
  with u have d: "d \<le> maxRouteDistance" "\<not> Route_Zero (find_route t n rt)"
    by (auto simp: UpdateDistance_def Let_def split: if_splits)
  have "class_inv rt" using router_invD(1) [OF J] by (simp add: rt_inv_def)
  with d(2) t obtain old where old: "rt_abs rt (target_key t n) = Some old" by (auto simp: find_route_Zero)
  from UpdateDistance_ok [OF router_invD(1) [OF J] t d(1) old, of now] u
  have "rt_inv rt'" "rt_abs rt' = (rt_abs rt)(target_key t n \<mapsto> old\<lparr>r_LastSeen := now, r_Distance := d\<rparr>)" by auto
  note upd = this
  show ?thesis
  proof (rule router_inv_fewer [OF J upd(1) removal_zones(2) [OF u]])
    fix k r
    assume "rt_abs rt' k = Some r"
    with upd(2) old show "\<exists>k' r'. rt_abs rt k' = Some r' \<and> route_target r' = route_target r"
      by (cases "k = target_key t n") (force simp: route_target_def)+
  qed
next
  case (Some e)
  with u have "rt' = rt" by (auto simp: UpdateDistance_def Let_def split: if_splits option.splits)
  with J show ?thesis by simp
qed

lemma router_inv_DeleteTarget:
  assumes J: "router_inv E rt" and "target_ok t" "DeleteTarget now t rt = Some (rt', evs)"
  shows "router_inv E rt'"
proof -
  from DeleteTarget_ok [OF router_invD(1) [OF J] assms(2), of now] assms(3)
  have "rt_inv rt'" "rt_abs rt' = (\<lambda>k. if rk_TargetKey k = tg_RouteTargetKey t then None else rt_abs rt k)" by auto
  then show ?thesis by (intro router_inv_fewer [OF J _ removal_zones(3) [OF assms(3)]]) (auto split: if_splits)
qed

lemma router_inv_Prune:
  assumes J: "router_inv E rt"
  shows "\<exists>k rt' evs. PruneExpiredRoutes now rt = Some (k, rt', evs) \<and> router_inv E rt'"
proof -
  from PruneExpiredRoutes_ok [OF router_invD(1) [OF J], of now] obtain k rt' evs where
    p: "PruneExpiredRoutes now rt = Some (k, rt', evs)" "rt_inv rt'"
      "rt_abs rt' = (\<lambda>k. case rt_abs rt k of Some r \<Rightarrow> if expiredAt now r then None else Some r | None \<Rightarrow> None)" by blast
  have "router_inv E rt'"
    by (rule router_inv_fewer [OF J p(2) removal_zones(4) [OF p(1)]]) (auto simp: p(3) split: option.splits if_splits)
  with p show ?thesis by blast
qed

lemma router_inv_ReplaceZones:
  assumes J: "router_inv E rt" and zs: "\<forall>z \<in> set zs. length z \<le> 255"
  shows "router_inv E (fst (ReplaceZonesForNetwork now n zs rt))"
proof (rule router_invI)
  let ?rt = "fst (ReplaceZonesForNetwork now n zs rt)"
  show "rt_inv ?rt" by (rule rt_inv_zones [OF router_invD(1) [OF J]])
  have "byClass ?rt = byClass rt" by (simp add: ReplaceZonesForNetwork_def Let_def)
  then have "rt_abs ?rt = rt_abs rt" by (rule abs_cong)
  then show "direct_known E ?rt" using router_invD(3) [OF J] unfolding direct_known_def by (simp only:)
  have "set (zones_of ?rt m) \<subseteq> set (zones_of rt m) \<union> set zs" for m
    by (auto simp: ReplaceZonesForNetwork_def Let_def)
  then show "names_short ?rt" using router_invD(2) [OF J] zs unfolding names_short_def by blast
qed

lemma router_inv_peer_change:
  assumes "peer_change rt evs rt'" "router_inv E rt"
  shows "router_inv E rt'"
  using assms
proof (induction rule: peer_change.induct)
  case (peer_upsert t now ext n e d rt res rt' evs)
  show ?case
  proof (cases "e = 65535")
    case True
    with peer_upsert(3) UpsertRoute_65535 [of n ext d now t rt] have "n \<noteq> 65535 \<and> \<not> ext \<or> d > maxRouteDistance" by fastforce
    with peer_upsert(3) True have "rt' = rt" by (auto simp: UpsertRoute_def Let_def split: if_splits)
    with peer_upsert show ?thesis by simp
  next
    case False
    with peer_upsert show ?thesis using router_inv_upsert [of E rt t e now ext n d] by auto
  qed
next
  case (peer_delete t now n rt err rt' evs)
  then show ?case using router_inv_DeleteRoute [of E rt t now n] by auto
next
  case (peer_zones zs now n rt rt' evs)
  then show ?case using router_inv_ReplaceZones [of E rt zs now n] by simp
qed (auto intro: router_inv_UpdateDistance router_inv_DeleteTarget router_inv_traffic
  elim: router_inv_frame simp: AddObserver_def RemoveObserver_def)

lemma steps_peer_change: "peer_change rt evs rt' \<Longrightarrow> rt_step\<^sup>*\<^sup>* rt rt'"
  by (induction rule: peer_change.induct)
    (auto intro: step_upsert step_update step_delete step_target step_replace_zones step_observe step_unobserve steps_traffic)


section \<open>Operations of a port in order\<close>

definition handled :: "port_env \<Rightarrow> string \<Rightarrow> 'a pact \<Rightarrow> port_world \<Rightarrow> bool" where
  "handled E dev m w \<longleftrightarrow>
     (\<exists>r w'. m w = Some (r, w') \<and> port_fit E dev (pw_port w') \<and> router_inv E (pw_rt w') \<and> rt_step\<^sup>*\<^sup>* (pw_rt w) (pw_rt w'))"

definition port_runs :: "port_env \<Rightarrow> string \<Rightarrow> 'a pact \<Rightarrow> bool" where
  "port_runs E dev m \<longleftrightarrow> (\<forall>w. port_fit E dev (pw_port w) \<longrightarrow> router_inv E (pw_rt w) \<longrightarrow> handled E dev m w)"

lemma runsD: "port_runs E dev m \<Longrightarrow> port_fit E dev (pw_port w) \<Longrightarrow> router_inv E (pw_rt w) \<Longrightarrow> handled E dev m w"
  by (simp add: port_runs_def)

lemma runs_both:
  assumes "sound E m" "moves (port_fit E dev) m"
  shows "port_runs E dev m"
  unfolding port_runs_def handled_def by (metis assms soundE movesD)

lemma handled_bind:
  assumes m: "handled E dev m w" and f: "\<And>x. port_runs E dev (f x)"
  shows "handled E dev (pa_bind m f) w"
proof -
  from m obtain r u where u: "m w = Some (r, u)" "port_fit E dev (pw_port u)" "router_inv E (pw_rt u)" "rt_step\<^sup>*\<^sup>* (pw_rt w) (pw_rt u)"
    unfolding handled_def by blast
  show ?thesis
  proof (cases r)
    case (Inr x)
    from runsD [OF f u(2,3), of x] u(1,4) Inr show ?thesis by (auto simp: handled_def pa_bind_def)
  qed (use u in \<open>simp add: handled_def pa_bind_def\<close>)
qed

lemma runs_bind: "port_runs E dev m \<Longrightarrow> (\<And>x. port_runs E dev (f x)) \<Longrightarrow> port_runs E dev (pa_bind m f)"
  unfolding port_runs_def [of E dev m] port_runs_def [of E dev "pa_bind m f"] by (blast intro: handled_bind)

lemma runs_basic [simp]: "port_runs E dev (pa_ret x)" "port_runs E dev (pa_fail e)" "port_runs E dev (pa_lift g r)"
  by (simp_all add: runs_both)

lemma runs_with_port: "(\<And>p. port_fit E dev p \<Longrightarrow> port_runs E dev (f p)) \<Longrightarrow> port_runs E dev (with_port f)"
  by (simp add: port_runs_def handled_def pa_simps)

lemma runs_with_rt: "(\<And>rt. port_runs E dev (f rt)) \<Longrightarrow> port_runs E dev (with_rt f)"
  by (simp add: port_runs_def handled_def pa_simps)

lemma runs_ignore: "port_runs E dev m \<Longrightarrow> port_runs E dev (pa_ignore m)"
  unfolding port_runs_def handled_def pa_ignore_def by fastforce

lemma runs_upd:
  "(\<And>p. et_device (g p) = et_device p \<and> et_availableZones (g p) = et_availableZones p \<and> et_seed (g p) = et_seed p) \<Longrightarrow>
   port_runs E dev (upd_port g)"
  by (rule runs_both) (auto intro: lasting_upd lasting_fit)

lemma runs_upd_seed: "seed_fit s \<Longrightarrow> port_runs E dev (upd_seed s)"
  unfolding upd_seed_def
  by (rule runs_both) (auto intro!: moves_upd simp: port_fit_def port_target_def)

lemma runs_AddZones: "\<forall>z \<in> set zs. length z \<le> 255 \<Longrightarrow> port_runs E dev (port_AddZones E n zs)"
  by (rule runs_both [OF sound_AddZones]) (simp_all add: moves_table)

lemma runs_DeleteRoute: "port_runs E dev (port_DeleteRoute E (port_target p) n)"
proof (rule runs_both)
  show "sound E (port_DeleteRoute E (port_target p) n)"
    using router_inv_DeleteRoute [of E _ "port_target p" "pe_now E" n]
    by (fastforce simp: sound_def port_DeleteRoute_def call_rt_def port_target_ok)
qed (simp add: moves_table port_target_ok)

lemma runs_Upsert: "port_fit E dev p \<Longrightarrow> e \<noteq> 65535 \<Longrightarrow> port_runs E dev (port_UpsertRoute E (port_target p) ext n e d)"
  by (rule runs_both [OF sound_upsert moves_table(1)]) (simp_all add: port_target_ok port_fit_def)

lemma runs_Broadcast: "port_runs E dev (port_Broadcast E pkt)"
  by (rule runs_both) simp_all

lemmas runs_rules = runs_bind runs_with_port runs_with_rt runs_ignore runs_upd

lemma fit_zones: "port_fit E dev p \<Longrightarrow> \<forall>z \<in> set (et_availableZones p). length z \<le> 255"
  by (simp add: port_fit_def)

lemma fit_seed:
  assumes "port_fit E dev p" "et_seed p = Some s"
  shows "seed_fit s" "length (sd_observedZone s) \<le> 255"
  using assms by (simp_all add: port_fit_def seed_fit_def)

lemma runs_configured_zones: "port_runs E dev (activateConfiguredZones E)"
  unfolding activateConfiguredZones_def
  by (auto intro!: runs_rules runs_AddZones simp: Let_def fit_zones split: prod.split dest: fit_zones)

lemma runs_activate: "e \<noteq> 65535 \<Longrightarrow> port_runs E dev (activateCableRange E n e)"
  unfolding activateCableRange_def deactivateOldRange_def activateZones_def
  by (auto intro!: runs_rules runs_DeleteRoute runs_Upsert runs_configured_zones runs_AddZones
    simp: Let_def setCableRange_def fit_seed split: prod.split option.split)

lemma runs_adopt: "e \<noteq> 65535 \<Longrightarrow> port_runs E dev (adoptRange E n e)"
  unfolding adoptRange_def refresh_address_def
  by (auto intro!: runs_rules runs_activate simp: Let_def split: prod.split)

lemma runs_rebind: "port_runs E dev (upd_aarp g)"
  unfolding upd_aarp_def by (simp add: runs_upd)

lemma runs_promotion:
  assumes "seed_fit s"
  shows "port_runs E dev (considerPromotion E s sl)" "port_runs E dev (adoptObserved E s)"
proof -
  have "seed_fit (snd (promoteSoft s))" using assms by (simp add: promoteSoft_def seed_fit_def)
  then show "port_runs E dev (considerPromotion E s sl)"
    unfolding considerPromotion_def promoteRequested_def using assms
    by (auto intro!: runs_rules runs_rebind runs_adopt runs_upd_seed runs_configured_zones simp: seed_fit_def)
  show "port_runs E dev (adoptObserved E s)"
    unfolding adoptObserved_def using assms by (auto intro!: runs_rules runs_rebind runs_adopt simp: seed_fit_def)
qed

lemma runs_seed_tick: "port_runs E dev (RunSeedState_tick E sl)"
proof -
  have fit: "port_fit E dev p \<Longrightarrow> et_seed p = Some s \<Longrightarrow> expireAuthority E s sl = (s', sl') \<Longrightarrow> seed_fit s'" for p s s' sl'
    by (auto dest!: fit_seed(1) simp: expireAuthority_def expireExternalAuthority_def seed_fit_def Let_def split: if_splits prod.splits)
  show ?thesis
    unfolding RunSeedState_tick_def sendSeedDiscovery_def
    by (auto intro!: runs_rules runs_Broadcast runs_upd_seed runs_promotion simp: Let_def
      split: prod.split option.split intro: fit)
qed

lemma runs_rtmp_tick: "port_runs E dev (RunRTMP_turn E)"
proof -
  have "port_runs E dev (pa_each (\<lambda>p. pa_bind (pa_lift PErrMarshal (rtmp_DataPacket_Marshal p)) (\<lambda>body. port_Broadcast E (f body))) ps)" for f ps
    by (induction ps) (auto intro!: runs_rules runs_Broadcast)
  then show ?thesis
    unfolding RunRTMP_turn_def broadcastRTMPData_def
    by (auto intro!: runs_rules simp: Let_def setCableRange_def refresh_address_def split: prod.split)
qed

lemma runs_quiet: "quiet m \<Longrightarrow> moves (port_fit E dev) m \<Longrightarrow> port_runs E dev m"
  by (rule runs_both [OF sound_quiet])

lemma runs_send: "port_runs E dev (port_Send E' pkt)" "port_runs E dev (EtherTalkPeer_Forward E' a pkt)"
  by (simp_all add: EtherTalkPeer_Forward_def runs_quiet lasting_send lasting_fit)

lemma runs_from_aurp: "port_runs E dev (HandleNBPFromAURP E pkt)"
  by (rule runs_both [OF sound_HandleNBPFromAURP lasting_handlers(7) [OF lasting_fit]])

lemma runs_request: "port_runs E dev (port_request E' a)" "port_runs E dev (port_send E' hw pkt)"
  by (simp_all add: runs_quiet)

lemma runs_resend: "port_runs E dev (resendAARPRequests E')"
proof -
  have "port_runs E dev (resend_loop E' obs)" for obs
    by (induction obs) (auto intro!: runs_rules runs_request split: prod.split)
  then show ?thesis by (simp add: resendAARPRequests_def runs_with_port)
qed

lemma runs_pop:
  assumes "map_of (et_outboxes (pw_port w)) ch = Some ob" "port_fit E dev (pw_port w)" "router_inv E (pw_rt w)"
  shows "handled E dev (outbox_turn E' ch) w"
proof -
  let ?m = "pa_seq (upd_port (\<lambda>p. p\<lparr>et_outboxes := AList.delete ch (et_outboxes p)\<rparr>))
    (pa_bind (port_lookupOrWait E' (ob_addr ob)) (\<lambda>(destEth, wait).
      case wait of
        None \<Rightarrow> pa_ret (Some ob, destEth)
      | Some newWaitCh \<Rightarrow>
          if pe_now E' - ob_lastTS ob > outboxTimeout then pa_ret (None, destEth)
          else pa_seq (upd_port (\<lambda>p. p\<lparr>et_outboxes := AList.update newWaitCh ob (et_outboxes p)\<rparr>))
                 (pa_ret (None, destEth))))"
  have "port_runs E dev (port_lookupOrWait E' a)" for a
    unfolding port_lookupOrWait_def by (auto intro!: runs_rules simp: Let_def upd_amt_def split: prod.split)
  then have "port_runs E dev ?m" by (auto intro!: runs_rules split: option.split prod.split)
  moreover have "port_runs E dev (pa_each (port_send E' hw) ps)" for hw ps
    by (induction ps) (auto intro!: runs_bind runs_request)
  ultimately have "port_runs E dev (pa_bind ?m (\<lambda>(ob, destEth).
      case ob of None \<Rightarrow> pa_ret () | Some b \<Rightarrow> pa_each (port_send E' destEth) (ob_packets b)))" (is "port_runs E dev ?n")
    by (auto intro!: runs_bind split: option.split)
  then have "handled E dev ?n w" using assms(2,3) by (rule runsD)
  moreover have "outbox_turn E' ch w = ?n w"
    using assms(1) by (simp add: outbox_turn_def outboxPop_def pa_bind_def pa_simps)
  ultimately show ?thesis by (simp add: handled_def)
qed

lemma serve_frame_handled:
  assumes ok: "event_ok E (pw_port w) (ServeFrame raw)" and fit: "port_fit E dev (pw_port w)" "router_inv E (pw_rt w)"
  shows "handled E dev (serve_frame E raw) w"
proof -
  from ok have "\<forall>p. appletalk_payload E (pw_port w) raw = Some p \<longrightarrow> frame_ok E p"
    by (auto simp: payload_ok_def frame_ok_def)
  from serve_frame_returns [OF fit(2) this] obtain r w' where r: "serve_frame E raw w = Some (r, w')" "router_inv E (pw_rt w')" by blast
  with ok fit(1) fit_serve_frame(1) [OF _ r(1), of E dev] fit_serve_frame(2) [OF _ r(1)] show ?thesis by (auto simp: handled_def)
qed

lemma aarp_act_handled:
  assumes "event_ok E (pw_port w) (AARPEvent AE ev)" "port_fit E dev (pw_port w)" "router_inv E (pw_rt w)"
  shows "handled E dev (aarp_act E AE ev) w"
  using assms by (auto simp: handled_def aarp_act_def port_fit_def port_target_def)

lemma Outbox_handled:
  assumes "event_ok E (pw_port w) (OutboxEvent ev)" and fit: "port_fit E dev (pw_port w)" "router_inv E (pw_rt w)"
  shows "handled E dev (Outbox_turn E ev) w"
proof (cases ev)
  case (OutboxReady ch)
  with assms obtain ob where "map_of (et_outboxes (pw_port w)) ch = Some ob" by auto
  with OutboxReady fit show ?thesis by (simp add: runs_pop)
qed (auto intro!: runsD [OF _ fit] runs_resend runs_upd)

text \<open>Every event that the code survives is handled, and leaves the port and the route table in order.\<close>

lemma port_turn_handled:
  assumes ok: "event_ok E (pw_port w) ev" and fit: "port_fit E dev (pw_port w)" "router_inv E (pw_rt w)"
  shows "handled E dev (port_turn E sl ev) w"
proof -
  note runs = handled_bind runs_basic runsD [OF _ fit] runs_bind runs_rtmp_tick runs_seed_tick runs_send runs_from_aurp
    serve_frame_handled [OF _ fit] aarp_act_handled [OF _ fit] Outbox_handled [OF _ fit]
  show ?thesis using ok by (cases ev) (simp_all only: port_turn.simps, (intro runs; simp)+)
qed

end
