(* ===== verification/PeerChanges.thy ===== *)
theory PeerChanges
  imports RouterRun
begin

text \<open>
  What the loops of an AURP peer do to the route table of the router: they change the routes of the
  peer, its zones and its registration as an observer, and nothing else.
\<close>

section \<open>The invariant of a turn\<close>

definition short_pending :: "AURPPeerSM \<Rightarrow> bool" where
  "short_pending p \<longleftrightarrow> (\<forall>q \<in> snd ` set (pendingZoneInfo p). \<forall>z \<in> set (pz_zones q). length z \<le> 255)"

definition peer_changes :: "RouteTable \<Rightarrow> RouteTable \<Rightarrow> bool" where
  "peer_changes = (\<lambda>rt rt'. \<exists>evs. peer_change rt evs rt')\<^sup>*\<^sup>*"

definition changing :: "RouteTable \<Rightarrow> peer_world \<Rightarrow> bool" where
  "changing rt0 w \<longleftrightarrow> peer_changes rt0 (w_rt w) \<and> short_pending (w_peer w)"

lemma changing_step: "peer_changes rt0 rt \<Longrightarrow> peer_change rt evs rt' \<Longrightarrow> peer_changes rt0 rt'"
  unfolding peer_changes_def by (rule rtranclp.rtrancl_into_rtrancl) auto

lemma short_emptied [simp]: "pendingZoneInfo p = [] \<Longrightarrow> short_pending p"
  by (simp add: short_pending_def)

named_theorems changes

lemma changes_with [changes]:
  "(\<And>p. short_pending p \<Longrightarrow> keeps (changing rt0) (f p)) \<Longrightarrow> keeps (changing rt0) (with_peer f)"
  "(\<And>rt. keeps (changing rt0) (g rt)) \<Longrightarrow> keeps (changing rt0) (with_table g)"
  by (auto simp: keeps_def wp_simps changing_def)

lemma changes_case:
  "(\<And>a b. ab = (a, b) \<Longrightarrow> keeps I (f a b)) \<Longrightarrow> keeps I (case ab of (a, b) \<Rightarrow> f a b)"
  "(v = None \<Longrightarrow> keeps I m) \<Longrightarrow> (\<And>x. v = Some x \<Longrightarrow> keeps I (g x)) \<Longrightarrow> keeps I (case v of None \<Rightarrow> m | Some x \<Rightarrow> g x)"
  "(\<And>e. r = Inl e \<Longrightarrow> keeps I (h e)) \<Longrightarrow> (\<And>x. r = Inr x \<Longrightarrow> keeps I (g x)) \<Longrightarrow> keeps I (case r of Inl e \<Rightarrow> h e | Inr x \<Rightarrow> g x)"
  by (simp_all split: prod.split option.split sum.split)

lemmas changes_structure [changes] =
  keeps_ret keeps_fail keeps_catch keeps_bind keeps_dropping keeps_ignoring keeps_if changes_case keeps_states

lemma changes_upd: "(\<And>p. short_pending p \<Longrightarrow> short_pending (f p)) \<Longrightarrow> keeps (changing rt0) (upd_peer f)"
  by (auto simp: keeps_def wp_simps changing_def)

lemma changes_same [changes]: "(\<And>p. pendingZoneInfo (f p) = pendingZoneInfo p) \<Longrightarrow> keeps (changing rt0) (upd_peer f)"
  by (rule changes_upd) (simp add: short_pending_def)

lemma changes_const: "short_pending p \<Longrightarrow> keeps (changing rt0) (upd_peer (\<lambda>_. p))"
  by (rule changes_upd)

lemma changes_table [changes]:
  "(\<And>rt x rt' evs. op rt = Some (x, rt', evs) \<Longrightarrow> peer_change rt evs rt') \<Longrightarrow> keeps (changing rt0) (table_call op)"
proof (rule keepsI)
  fix w
  assume op: "\<And>rt x rt' evs. op rt = Some (x, rt', evs) \<Longrightarrow> peer_change rt evs rt'" and w: "changing rt0 w"
  then have "op (w_rt w) = Some (x, rt', evs) \<Longrightarrow> peer_changes rt0 rt'" for x rt' evs
    unfolding changing_def using changing_step by blast
  with w show "wp (table_call op) (\<lambda>_. changing rt0) w"
    by (auto simp: wp_simps changing_def short_pending_def split: option.splits)
qed

lemma changes_send [changes]: "keeps (changing rt0) (send E pkt)"
  by (rule keepsI) (auto simp: wp_simps changing_def short_pending_def)

lemma changes_small [changes]:
  "keeps (changing rt0) (upd_transport g)" "keeps (changing rt0) (setRState rs)" "keeps (changing rt0) (setSState ss)"
  "keeps (changing rt0) (setSendRetries n)" "keeps (changing rt0) addSendRetry" "keeps (changing rt0) (storeLastSend E)"
  "keeps (changing rt0) (markReceiverAlive E)" "keeps (changing rt0) (count k)" "keeps (changing rt0) (cacheRISent new)"
  "keeps (changing rt0) (upd_peer (noteReconnectFailure E))" "keeps (changing rt0) (upd_peer (setSUIFlags fl))"
  unfolding upd_transport_def setRState_def setSState_def setSendRetries_def addSendRetry_def storeLastSend_def
    markReceiverAlive_def count_def cacheRISent_def
  by (rule changes_same; simp add: noteReconnectFailure_def setSUIFlags_def Let_def)+

lemma changes_observers [changes]: "keeps (changing rt0) table_AddObserver" "keeps (changing rt0) table_RemoveObserver"
  by (auto simp: keeps_def wp_simps changing_def intro: changing_step peer_observes peer_leaves)

lemma peer_class [simp]: "tg_Class (peer_target p) = TargetClassAURPPeer"
  by (simp add: peer_target_def)

lemmas peer_ops =
  peer_upsert [OF target_ok_peer peer_class] peer_distance [OF target_ok_peer peer_class]
  peer_delete [OF target_ok_peer peer_class] peer_lost [OF target_ok_peer peer_class]

lemma changes_routes [changes]:
  "keeps (changing rt0) (table_DeleteTarget E)" "keeps (changing rt0) (table_UpsertRoute E ext n e d)"
  "keeps (changing rt0) (table_DeleteRoute E n)" "keeps (changing rt0) (table_UpdateDistance E n d)"
  unfolding table_DeleteTarget_def table_UpsertRoute_def table_DeleteRoute_def table_UpdateDistance_def
  by (auto intro!: changes intro: peer_ops split: option.splits sum.splits prod.splits)

lemma changes_zones: "\<forall>z \<in> set zs. length z \<le> 255 \<Longrightarrow> keeps (changing rt0) (replaceZones E n zs)"
  unfolding replaceZones_def by (intro changes) (auto intro: peer_zones split: prod.splits)


section \<open>Handlers\<close>

lemma changes_checks [changes]:
  "keeps (changing rt0) (checkLocalConnID th)" "keeps (changing rt0) (checkRemoteConnID th)"
  "keeps (changing rt0) (disconnectReceiver E)" "keeps (changing rt0) disconnectSender" "keeps (changing rt0) (disconnect E)"
  "keeps (changing rt0) (send_new E new)"
proof -
  show d: "keeps (changing rt0) (disconnectReceiver E)" and n: "keeps (changing rt0) (send_new E new)" for E new
    unfolding disconnectReceiver_def send_new_def by (intro changes changes_upd; simp)+
  show s: "keeps (changing rt0) disconnectSender" unfolding disconnectSender_def by (intro changes) simp
  show "keeps (changing rt0) (disconnect E)" unfolding disconnect_def by (intro changes d s)
  show "keeps (changing rt0) (checkLocalConnID th)" "keeps (changing rt0) (checkRemoteConnID th)"
    unfolding checkLocalConnID_def checkRemoteConnID_def Let_def by (intro changes)+
qed

lemma changes_checks2 [changes]:
  "keeps (changing rt0) (checkRemoteSeqWithAckFlags E th fl)" "keeps (changing rt0) (checkRemoteSeq E th)"
  "keeps (changing rt0) (sendRIAck E th fl)"
  unfolding checkRemoteSeq_def checkRemoteSeqWithAckFlags_def sendRIAck_def Let_def by (intro changes)+

lemma changes_sends [changes]: "keeps (changing rt0) (send_all E pkts)" "keeps (changing rt0) (sendZIRspPackets E zl)" "keeps (changing rt0) (send_cached E)"
proof -
  show all: "keeps (changing rt0) (send_all E pkts)" for pkts
    by (induction pkts) (auto intro!: changes)
  show "keeps (changing rt0) (sendZIRspPackets E zl)"
    unfolding sendZIRspPackets_def by (auto intro!: changes all split: sum.split)
  show "keeps (changing rt0) (send_cached E)" unfolding send_cached_def by (intro changes)
qed

text \<open>Zone information.\<close>

lemma set_delete_subset: "set (AList.delete k xs) \<subseteq> set xs"
  by (auto simp: AList.delete_eq)

lemma set_update_pair: "x \<in> set (AList.update k v xs) \<Longrightarrow> x = (k, v) \<or> x \<in> set xs"
  by (induction xs) (auto split: if_splits)

lemma snd_update: "snd ` set (AList.update k v xs) \<subseteq> insert v (snd ` set xs)"
  by (auto dest: set_update_pair)

lemma all_update: "P v \<Longrightarrow> \<forall>x \<in> snd ` set xs. P x \<Longrightarrow> \<forall>x \<in> snd ` set (AList.update k v xs). P x"
  using snd_update [of k v xs] by blast

lemma changes_pending [changes]:
  "keeps (changing rt0) (markZoneInfoPending E n)" "keeps (changing rt0) (clearPendingZoneInfo n)"
  "keeps (changing rt0) (noteLoopIndicativeNetwork E n)" "keeps (changing rt0) (ask_needsZoneInfo n)"
proof -
  show "keeps (changing rt0) (markZoneInfoPending E n)"
    unfolding markZoneInfoPending_def
    by (rule changes_upd) (auto simp: short_pending_def split: option.splits dest!: set_update_pair)
  show "keeps (changing rt0) (clearPendingZoneInfo n)"
    unfolding clearPendingZoneInfo_def
    by (rule changes_upd) (auto simp: short_pending_def dest!: subsetD [OF set_delete_subset])
  show "keeps (changing rt0) (noteLoopIndicativeNetwork E n)"
    by (rule keepsI) (auto simp: noteLoopIndicativeNetwork_def wp_simps changing_def short_pending_def split: option.split)
  show "keeps (changing rt0) (ask_needsZoneInfo n)" unfolding ask_needsZoneInfo_def by (intro changes)
qed

lemma changes_retry_zones [changes]: "keeps (changing rt0) (retryIncompleteZoneInfo E)"
proof -
  have "keeps (changing rt0) (upd_peer (\<lambda>p. p\<lparr>pendingZoneInfo := filter (\<lambda>(n, _). ownsAURPNetwork p rt n) (pendingZoneInfo p)\<rparr>))" for rt
    by (rule changes_upd) (auto simp: short_pending_def)
  moreover have "keeps (changing rt0) (upd_peer (touch_pending now ns))" for now ns
    by (rule changes_upd) (auto simp: short_pending_def touch_pending_def split: if_splits)
  ultimately show ?thesis
    unfolding retryIncompleteZoneInfo_def Let_def by (auto intro!: changes_with changes_structure changes_sends split: sum.split)
qed

lemma short_groups:
  assumes "\<forall>zt \<in> set zts. length (zt_Name zt) \<le> 255" "\<forall>zs \<in> snd ` set g. \<forall>z \<in> set zs. length z \<le> 255"
    "group_zones p rt zts (g, k) = (g', k')"
  shows "\<forall>zs \<in> snd ` set g'. \<forall>z \<in> set zs. length z \<le> 255"
  using assms
proof (induction zts arbitrary: g k)
  case (Cons zt zts)
  let ?n = "fst (remapInboundNetwork p (zt_Network zt))"
  let ?zs = "(case map_of g ?n of Some zs \<Rightarrow> zs | None \<Rightarrow> []) @ [zt_Name zt]"
  have "map_of g ?n = Some zs \<Longrightarrow> \<forall>z \<in> set zs. length z \<le> 255" for zs
    using Cons(3) by (auto dest!: map_of_SomeD)
  then have "\<forall>z \<in> set ?zs. length z \<le> 255" using Cons(2) by (cases "map_of g ?n") auto
  then have upd: "\<forall>zs \<in> snd ` set (AList.update ?n ?zs g). \<forall>z \<in> set zs. length z \<le> 255"
    using Cons(3) by (rule all_update)
  have rest: "\<forall>zt \<in> set zts. length (zt_Name zt) \<le> 255" using Cons(2) by simp
  show ?case
  proof (cases "ownsAURPNetwork p rt ?n")
    case True
    with Cons(4) have "group_zones p rt zts (AList.update ?n ?zs g, k) = (g', k')" by (simp add: Let_def)
    with Cons(1) [OF rest upd] show ?thesis by blast
  next
    case False
    with Cons(4) have "group_zones p rt zts (g, k + 1) = (g', k')" by (simp add: Let_def)
    with Cons(1) [OF rest Cons(3)] show ?thesis by blast
  qed
qed simp

lemma changes_groups:
  "\<forall>zs \<in> snd ` set gs. \<forall>z \<in> set zs. length z \<le> 255 \<Longrightarrow> keeps (changing rt0) (apply_groups E gs k)"
proof (induction gs arbitrary: k)
  case (Cons g gs)
  then show ?case
    by (cases g) (auto intro!: changes changes_zones simp: dedupeSortedZones_def)
qed (auto intro: changes)

lemma changes_complete:
  "\<forall>z \<in> set (pz_zones q). length z \<le> 255 \<Longrightarrow> keeps (changing rt0) (completeZoneInfo E n q)"
  unfolding completeZoneInfo_def by (intro changes changes_zones) simp

lemma short_merge:
  assumes "short_pending p" "\<forall>zt \<in> set (zirsp_Zones pkt). length (zt_Name zt) \<le> 255"
  shows "\<forall>z \<in> set (pz_zones (merge_fragment now pkt (map_of (pendingZoneInfo p) n))). length z \<le> 255"
proof -
  have fold: "set (fold (\<lambda>zt zs. if zt_Name zt \<noteq> [] then List.insert (zt_Name zt) zs else zs) zts zs) \<subseteq> set zs \<union> zt_Name ` set zts" for zts zs
  proof (induction zts arbitrary: zs)
    case (Cons a zts)
    show ?case using Cons [of "if zt_Name a \<noteq> [] then List.insert (zt_Name a) zs else zs"] by (auto split: if_splits)
  qed simp
  have "map_of (pendingZoneInfo p) n = Some q \<Longrightarrow> \<forall>z \<in> set (pz_zones q). length z \<le> 255" for q
    using assms(1) by (auto simp: short_pending_def dest!: map_of_SomeD)
  with assms(2) show ?thesis
    by (cases "map_of (pendingZoneInfo p) n") (auto simp: merge_fragment_def Let_def dest!: subsetD [OF fold])
qed

lemma changes_ZIRsp:
  assumes zs: "\<forall>zt \<in> set (zirsp_Zones pkt). length (zt_Name zt) \<le> 255"
  shows "keeps (changing rt0) (handleZIRsp E pkt)"
proof -
  have upd: "keeps (changing rt0) (upd_peer (\<lambda>p. p\<lparr>pendingZoneInfo := AList.update n q (pendingZoneInfo p)\<rparr>))"
    if "\<forall>z \<in> set (pz_zones q). length z \<le> 255" for n q
    using that by (intro changes_upd) (auto simp: short_pending_def dest!: set_update_pair)
  have "keeps (changing rt0) (applyExtendedZIRsp E pkt)"
    unfolding applyExtendedZIRsp_def Let_def
    by (intro changes_with changes_structure changes_complete upd short_merge zs)
  moreover have "keeps (changing rt0) (applyNonExtendedZIRsp E pkt)"
    unfolding applyNonExtendedZIRsp_def
    by (intro changes_with changes_structure changes_groups, erule short_groups [OF zs, rotated]) simp
  ultimately show ?thesis unfolding handleZIRsp_def by (intro changes)
qed

text \<open>Routing information.\<close>

lemma changes_apply [changes]:
  "keeps (changing rt0) (validateAURPRouteTuple b n m)" "keeps (changing rt0) (applyRIRspNetworkTuple E nt)"
  "keeps (changing rt0) (applyRIUpdEvent E et)" "keeps (changing rt0) (apply_networks E nts fl)"
  "keeps (changing rt0) (apply_events E ets fl)"
proof -
  show v: "keeps (changing rt0) (validateAURPRouteTuple b n m)" for b n m
    unfolding validateAURPRouteTuple_def by (intro changes)
  show n: "keeps (changing rt0) (applyRIRspNetworkTuple E nt)" for nt
    unfolding applyRIRspNetworkTuple_def Let_def by (intro changes v)
  show e: "keeps (changing rt0) (applyRIUpdEvent E et)" for et
    unfolding applyRIUpdEvent_def applyNDC_def upsertEvent_def removeIfPresent_def Let_def by (intro changes v)
  show "keeps (changing rt0) (apply_networks E nts fl)"
    by (induction nts arbitrary: fl) (auto intro!: changes n)
  show "keeps (changing rt0) (apply_events E ets fl)"
    by (induction ets arbitrary: fl) (auto intro!: changes e)
qed

lemma changes_receiver [changes]:
  "keeps (changing rt0) (handleOpenRsp E orsp)" "keeps (changing rt0) (handleRIRsp E rirsp)" "keeps (changing rt0) (acceptRIUpd E riupd)"
  "keeps (changing rt0) (skipEarlyRIUpd E riupd)" "keeps (changing rt0) (resyncReceiver E)"
  "keeps (changing rt0) (handleGDZLRsp gdzl)" "keeps (changing rt0) (handleGZNRsp gzn)" "keeps (changing rt0) countEarly"
  "keeps (changing rt0) countLateTickleAck" "keeps (changing rt0) (openReceiver E)" "keeps (changing rt0) (receiverFailed E)"
  "keeps (changing rt0) closeSender" "keeps (changing rt0) (handleRD E rd)"
  unfolding handleOpenRsp_def handleRIRsp_def acceptRIRsp_def acceptRIUpd_def skipEarlyRIUpd_def
    resyncReceiver_def handleGDZLRsp_def handleGZNRsp_def countEarly_def countLateTickleAck_def openReceiver_def
    receiverFailed_def closeSender_def handleRD_def Let_def resetReconnectBackoff_def
  by (intro changes; simp add: noteReconnectFailure_def Let_def)+

lemma changes_receiver2 [changes]:
  "keeps (changing rt0) (handleRIUpd E riupd)" "keeps (changing rt0) (handleTickleAck E tack)"
  unfolding handleRIUpd_def handleTickleAck_def Let_def by (intro changes)+

text \<open>The sender.\<close>

lemma changes_next [changes]: "keeps (changing rt0) (sendNextRIRsp E b)" "keeps (changing rt0) (sendNextRIUpd E b)"
proof -
  have "nextRIRspPacket b p = Some (pkt, p') \<Longrightarrow> short_pending p \<Longrightarrow> short_pending (p'\<lparr>lastRISent := x\<rparr>)"
    "nextRIUpdPacket b p = Some (pkt', p') \<Longrightarrow> short_pending p \<Longrightarrow> short_pending (p'\<lparr>lastRISent := x\<rparr>)" for p pkt pkt' p' x
    by (auto simp: nextRIRspPacket_def nextRIUpdPacket_def short_pending_def Let_def split: list.splits)
  note short = this
  show "keeps (changing rt0) (sendNextRIRsp E b)" "keeps (changing rt0) (sendNextRIUpd E b)"
    unfolding sendNextRIRsp_def sendNextRIUpd_def
    by (intro changes_with changes_structure changes_const changes_send changes_small; blast intro: short)+
qed

lemma changes_shutdown [changes]:
  "keeps (changing rt0) (startSenderShutdown E)" "keeps (changing rt0) (handleConfirmedRoutingLoop E)"
  "keeps (changing rt0) (probeRestartedPeer E)" "keeps (changing rt0) (acceptOpenReq E oreq)"
  "keeps (changing rt0) (advanceSender E ss)"
  unfolding startSenderShutdown_def handleConfirmedRoutingLoop_def probeRestartedPeer_def acceptOpenReq_def advanceSender_def Let_def
  by (intro changes; simp)+

lemma changes_requests [changes]:
  "keeps (changing rt0) (handleOpenReq E oreq)" "keeps (changing rt0) (handleRIAck E riack)" "keeps (changing rt0) (handleZIReq E zireq)"
  "keeps (changing rt0) (handleGDZLReq E gdzl)" "keeps (changing rt0) (handleGZNReq E gzn)" "keeps (changing rt0) (handleTickle E tickle)"
  unfolding handleOpenReq_def handleRIAck_def handleZIReq_def handleGDZLReq_def handleGZNReq_def handleTickle_def Let_def
  by (intro changes; simp)+

lemma changes_RIReq [changes]: "keeps (changing rt0) (handleRIReq E pkt)"
proof -
  have short: "prepareRIRsp now rt p = Inr p' \<Longrightarrow> short_pending p \<Longrightarrow> short_pending p'" for now rt p p'
    by (auto simp: prepareRIRsp_def short_pending_def Let_def split: sum.splits)
  show ?thesis
    unfolding handleRIReq_def
    by (intro changes_with changes_structure changes_const changes_checks changes_small changes_next) (blast intro: short)
qed

lemma changes_packet:
  assumes "packet_short pkt"
  shows "keeps (changing rt0) (handlePacket E pkt)"
proof -
  have "keeps (changing rt0) (dispatch E pkt)"
    using assms by (cases pkt) (auto intro!: changes changes_ZIRsp simp: packet_short_def)
  then show ?thesis unfolding handlePacket_def by (intro changes) (simp add: addToChatLog_def Let_def)
qed

text \<open>The periodic tasks and the loop.\<close>

lemma changes_retry [changes]:
  "keeps (changing rt0) a \<Longrightarrow> keeps (changing rt0) b \<Longrightarrow> keeps (changing rt0) (retry_tick E limit a b)"
  unfolding retry_tick_def by (intro changes)

lemma changes_rticker [changes]: "keeps (changing rt0) (rtickerTasks E)"
  unfolding rtickerTasks_def rticker_state_def probeSender_def by (intro changes)

lemma changes_events [changes]: "keeps (changing rt0) (sendPendingEvents E)"
proof -
  have take: "pendingZoneInfo (snd (takePendingEvents p)) = pendingZoneInfo p" for p :: AURPPeerSM
    by (simp add: takePendingEvents_def Let_def)
  have short: "prepareRIUpd p = Inr p' \<Longrightarrow> short_pending p \<Longrightarrow> short_pending (p'\<lparr>lastUpdate := t\<rparr>)" for p p' t
    using take [of p] by (auto simp: prepareRIUpd_def short_pending_def Let_def split: sum.splits prod.splits if_splits)
  have "keeps (changing rt0) (upd_peer (\<lambda>p. snd (takePendingEvents p)))" by (rule changes_same) (rule take)
  then show ?thesis
    unfolding sendPendingEvents_def
    by (intro changes_with changes_structure changes_const changes_next) (assumption | erule short)+
qed

lemma changes_sticker [changes]: "keeps (changing rt0) (stickerTasks E)"
  unfolding stickerTasks_def by (intro changes)

lemma changes_loop [changes]:
  "keeps (changing rt0) (handle_start E)" "keeps (changing rt0) (handle_reconnect E)" "keeps (changing rt0) handle_exit"
  "keeps (changing rt0) (sendTickleBeforeDataIfNeeded E)"
  unfolding handle_start_def handle_reconnect_def handle_exit_def sendTickleBeforeDataIfNeeded_def
  by (intro changes; simp)+

lemma changes_Forward [changes]: "keeps (changing rt0) (Forward_act ddp E pkt)"
  unfolding Forward_act_def by (intro changes)

lemma changes_peer_act:
  assumes "peer_event_ok ev"
  shows "keeps (changing rt0) (peer_act E ev)"
proof (cases ev)
  case HandleBegin
  then show ?thesis by (simp add: Handle_begin_def) (intro changes; simp)
next
  case (HandleEvent e)
  with assms show ?thesis by (cases e) (auto intro!: changes changes_packet)
next
  case (ShutdownEvent e)
  with assms show ?thesis
    by (cases e) (auto simp: shutdown_turn_def intro!: changes changes_packet)
next
  case (ForwardPacket ddp pkt)
  then show ?thesis by (simp add: changes)
qed

lemma peer_act_changes:
  assumes "peer_event_ok ev" "short_pending (w_peer w)" "peer_act E ev w = Some (r, w')"
  shows "peer_changes (w_rt w) (w_rt w')" "short_pending (w_peer w')"
proof -
  have "changing (w_rt w) w" using assms(2) by (simp add: changing_def peer_changes_def)
  from wpD [OF keepsD [OF changes_peer_act [OF assms(1)] this] assms(3)]
  show "peer_changes (w_rt w) (w_rt w')" "short_pending (w_peer w')" by (simp_all add: changing_def)
qed

lemma peer_changes_router:
  assumes "peer_changes rt rt'"
  shows "router_inv E rt \<Longrightarrow> router_inv E rt'" "rt_step\<^sup>*\<^sup>* rt rt'"
proof -
  from assms have "(\<lambda>rt rt'. \<exists>evs. peer_change rt evs rt')\<^sup>*\<^sup>* rt rt'" by (simp add: peer_changes_def)
  then have "(router_inv E rt \<longrightarrow> router_inv E rt') \<and> rt_step\<^sup>*\<^sup>* rt rt'"
    by (induction) (auto intro: router_inv_peer_change dest: steps_peer_change)
  then show "router_inv E rt \<Longrightarrow> router_inv E rt'" "rt_step\<^sup>*\<^sup>* rt rt'" by blast+
qed


section \<open>Parsed packets\<close>

text \<open>The names in a packet that was received are short: their lengths are bytes.\<close>

definition yields :: "('a \<Rightarrow> bool) \<Rightarrow> ('e fault + 'a) \<Rightarrow> bool" where
  "yields P r \<longleftrightarrow> (\<forall>x. r = Inr x \<longrightarrow> P x)"

lemma yields_bind: "(\<And>x. r = Inr x \<Longrightarrow> yields P (f x)) \<Longrightarrow> yields P (go_bind r f)"
  by (auto simp: yields_def go_bind_eq_Inr)

lemma yields_basic: "yields P (go_err e)" "yields P (Inr x) \<longleftrightarrow> P x"
  "(c \<Longrightarrow> yields P a) \<Longrightarrow> (\<not> c \<Longrightarrow> yields P b) \<Longrightarrow> yields P (if c then a else b)"
  by (auto simp: yields_def)

definition short_zones :: "ZoneTuples \<Rightarrow> bool" where
  "short_zones zs \<longleftrightarrow> (\<forall>zt \<in> set zs. length (zt_Name zt) \<le> 255)"

lemma taken_short: "short_zones zs \<Longrightarrow> (go_upto p (unat (k :: byte)) :: byte list aurp_result) = Inr name \<Longrightarrow>
    short_zones (zs @ [\<lparr>zt_Network = n, zt_Name = bytes_str name\<rparr>])"
  using unat_byte_less [of k] by (auto simp: go_upto_def short_zones_def split: if_splits)

lemma short_zone_loop: "short_zones zs \<Longrightarrow> yields short_zones (parseZoneTuples_loop zs f p)"
proof (induction zs f p rule: parseZoneTuples_loop.induct)
  case (1 zs f p)
  note short = taken_short [OF 1(3)]
  show ?case
    by (subst parseZoneTuples_loop.simps, unfold Let_def, intro yields_bind yields_basic(1,3))
      ((rule 1(1) 1(2); (assumption | rule refl | erule short)) | simp add: yields_basic 1(3))+
qed

lemma short_ext_loop: "short_zones zs \<Longrightarrow> yields short_zones (parseZIRsp_ext_loop zs n p)"
proof (induction zs n p rule: parseZIRsp_ext_loop.induct)
  case (1 zs n p)
  note short = taken_short [OF 1(2)]
  show ?case
    by (subst parseZIRsp_ext_loop.simps, intro yields_bind yields_basic(1,3))
      ((rule 1(1); (assumption | rule refl | erule short)) | simp add: yields_basic 1(2))+
qed

lemma parsed_packet_short:
  assumes "ParsePacket buf = Inr (dh, pkt)"
  shows "packet_short pkt"
proof (cases pkt)
  case (PZIRsp p)
  have nil: "short_zones []" by (simp add: short_zones_def)
  have "parseZIRspPacket h q sc = Inr p' \<Longrightarrow> short_zones (zirsp_Zones p')" for h q sc p'
    using short_zone_loop [OF nil] short_ext_loop [OF nil]
    by (auto simp: parseZIRspPacket_def parseZoneTuples_def go_bind_eq_Inr yields_def split: if_splits)
  then have "ParsePacket_ZoneRsp h q = Inr (PZIRsp p) \<Longrightarrow> short_zones (zirsp_Zones p)" for h q
    by (fastforce simp: ParsePacket_ZoneRsp_def go_bind_eq_Inr split: if_splits)
  moreover obtain h q where "ParsePacket_command h q = Inr (PZIRsp p)"
    using assms PZIRsp by (auto simp: ParsePacket_def go_bind_eq_Inr Let_def split: if_splits prod.splits)
  then have "ParsePacket_ZoneRsp h q = Inr (PZIRsp p)"
    by (auto simp: ParsePacket_command_def ParsePacket_ZoneReq_def Let_def go_bind_eq_Inr split: if_splits prod.splits)
  ultimately show ?thesis using PZIRsp by (auto simp: packet_short_def short_zones_def)
qed (simp_all add: packet_short_def)

end
