(* ===== verification/RouterReach.thy ===== *)
theory RouterReach
  imports PeerChanges
begin

text \<open>
  The reachable states of a router that was started: the invariants of the ports, of the peers and of
  the route table they share hold in all of them, and the events of the ports are handled.
\<close>

section \<open>The invariant\<close>

definition peers_fit :: "RouteTable \<Rightarrow> peer_world list \<Rightarrow> bool" where
  "peers_fit rt ws \<longleftrightarrow> (\<forall>w \<in> set ws. peer_reach (w\<lparr>w_rt := rt\<rparr>) \<and> short_pending (w_peer w))"

definition running_inv :: "router_state \<Rightarrow> bool" where
  "running_inv s \<longleftrightarrow>
     length (run_seeds s) = length (run_ports s) \<and> rt_reach (run_rt s) \<and>
     (\<forall>E. router_inv (env_of E s) (run_rt s)) \<and>
     (\<forall>E. \<forall>p \<in> set (run_ports s). port_fit (env_of E s) (et_device p) p) \<and>
     peers_fit (run_rt s) (run_peers s)"

lemma has_port_devices: "has_port (E\<lparr>pe_ports := ps\<rparr>) t \<longleftrightarrow>
    (\<exists>d \<in> set (map et_device ps). ''EtherTalkPort|'' @ d = tg_RouteTargetKey t)"
  by (auto simp: has_port_def list_ex_iff port_target_def)

lemma same_devices:
  assumes "map et_device ps = map et_device qs"
  shows "has_port (E\<lparr>pe_ports := ps\<rparr>) = has_port (E'\<lparr>pe_ports := qs\<rparr>)"
    "router_inv (E\<lparr>pe_ports := ps\<rparr>) = router_inv (E'\<lparr>pe_ports := qs\<rparr>)"
    "port_fit (E\<lparr>pe_ports := ps\<rparr>) = port_fit (E'\<lparr>pe_ports := qs\<rparr>)"
proof -
  show h: "has_port (E\<lparr>pe_ports := ps\<rparr>) = has_port (E'\<lparr>pe_ports := qs\<rparr>)"
    by (simp add: fun_eq_iff has_port_devices assms)
  show "router_inv (E\<lparr>pe_ports := ps\<rparr>) = router_inv (E'\<lparr>pe_ports := qs\<rparr>)"
    "port_fit (E\<lparr>pe_ports := ps\<rparr>) = port_fit (E'\<lparr>pe_ports := qs\<rparr>)"
    unfolding fun_eq_iff router_inv_def direct_known_def port_fit_def h by simp_all
qed

lemma event_ok_ports: "event_ok (E\<lparr>pe_ports := ps\<rparr>) port ev = event_ok E port ev"
  by (cases "(E, port, ev)" rule: event_ok.cases)
    (simp_all add: appletalk_payload_def payload_ok_def split: option.split sum.split)


section \<open>Peers\<close>

lemma reach_steps:
  assumes "rt_reach rt" "rt_step\<^sup>*\<^sup>* rt rt'"
  shows "rt_reach rt'"
  using assms(2,1) by (induction rule: rtranclp_induct) (auto intro: reach_step)

lemma deliver_rt: "deliver n (w\<lparr>w_rt := rt\<rparr>) = (deliver n w)\<lparr>w_rt := rt\<rparr>"
  by (cases w) (simp add: deliver_def)

lemma fold_deliver_rt: "fold deliver evs (w\<lparr>w_rt := rt\<rparr>) = (fold deliver evs w)\<lparr>w_rt := rt\<rparr>"
  by (induction evs arbitrary: w) (simp_all add: deliver_rt)

lemma rt_step_idle: "rt_step rt rt"
  using step_bytes_in [of rt r 0] by (simp add: noteDDPBytesIn_def split: option.splits)

lemma peer_reach_others:
  assumes "peer_reach (w\<lparr>w_rt := rt\<rparr>)" "rt_step\<^sup>*\<^sup>* rt rt'"
  shows "peer_reach ((hears evs w)\<lparr>w_rt := rt'\<rparr>)"
proof -
  from assms(2) have "peer_reach (w\<lparr>w_rt := rt'\<rparr>)"
  proof (induction rule: rtranclp_induct)
    case (step a b)
    from move [OF step(3) step_others [of _ b "[]"]] step(2) show ?case by simp
  qed (use assms(1) in simp)
  from move [OF this step_others [of _ rt']] rt_step_idle [of rt'] show ?thesis
    by (simp add: hears_def fold_deliver_rt)
qed

lemma short_hears: "short_pending (w_peer (hears evs w)) = short_pending (w_peer w)"
  by (simp add: hears_def short_pending_def)

lemma peers_hear: "peers_fit rt ws \<Longrightarrow> rt_step\<^sup>*\<^sup>* rt rt' \<Longrightarrow> peers_fit rt' (map (hears evs) ws)"
  by (auto simp: peers_fit_def short_hears intro: peer_reach_others)

lemma peer_act_reach:
  assumes "peer_reach w" "peer_act E ev w = Some (r, w')"
  shows "peer_reach w'"
proof -
  have "peer_step w w'"
  proof (cases ev)
    case (ShutdownEvent e)
    with assms(2) obtain r' where "shutdown_turn E e w = Some (r', w')"
      by (auto simp: act_bind_def act_ret_def split: option.splits sum.splits)
    then show ?thesis by (rule step_shutdown)
  qed (use assms(2) in \<open>auto intro: step_begin step_turn step_forward\<close>)
  with assms(1) show ?thesis by (rule move)
qed


section \<open>Events\<close>

lemma running_invI:
  assumes "length (run_seeds s) = length (run_ports s)" "rt_reach (run_rt s)" "\<And>E. router_inv (env_of E s) (run_rt s)"
    "\<And>E p. p \<in> set (run_ports s) \<Longrightarrow> port_fit (env_of E s) (et_device p) p" "peers_fit (run_rt s) (run_peers s)"
  shows "running_inv s"
  using assms by (simp add: running_inv_def)

lemma running_invD:
  assumes "running_inv s"
  shows "length (run_seeds s) = length (run_ports s)" "rt_reach (run_rt s)" "router_inv (env_of E s) (run_rt s)"
    "p \<in> set (run_ports s) \<Longrightarrow> port_fit (env_of E s) (et_device p) p" "peers_fit (run_rt s) (run_peers s)"
  using assms by (simp_all add: running_inv_def)

lemma router_turn_inv:
  assumes I: "running_inv s" and i: "i < length (run_ports s)" and ok: "event_ok E (run_ports s ! i) ev"
  shows "\<exists>s' w. router_turn E i ev s = Some (s', w) \<and> running_inv s' \<and>
    map et_device (run_ports s') = map et_device (run_ports s)"
proof -
  let ?E = "env_of E s" and ?d = "et_device (run_ports s ! i)"
  have "event_ok ?E (pw_port (world_at i s)) ev" using ok by (simp add: env_of_def event_ok_ports world_at_def)
  moreover have "port_fit ?E ?d (pw_port (world_at i s))" "router_inv ?E (pw_rt (world_at i s))"
    using running_invD(3,4) [OF I] i by (simp_all add: world_at_def)
  ultimately have "handled ?E ?d (port_turn ?E (run_seeds s ! i) ev) (world_at i s)" by (rule port_turn_handled)
  then obtain r w where w: "port_turn ?E (run_seeds s ! i) ev (world_at i s) = Some (r, w)"
    "port_fit ?E ?d (pw_port w)" "router_inv ?E (pw_rt w)" "rt_step\<^sup>*\<^sup>* (run_rt s) (pw_rt w)"
    by (auto simp: handled_def world_at_def)
  let ?ps = "(run_ports s)[i := pw_port w]"
  have d: "et_device (pw_port w) = ?d" using w(2) by (simp add: port_fit_def)
  then have dev: "map et_device ?ps = map et_device (run_ports s)"
    using i by (simp add: map_update list_update_same_conv)
  note same = same_devices [OF dev]
  have fit: "port_fit (E'\<lparr>pe_ports := ?ps\<rparr>) (et_device p) p" if "p \<in> set ?ps" for E' p
    using set_update_subset_insert [of "run_ports s" i "pw_port w"] that running_invD(4) [OF I, of _ E] w(2) d
    unfolding same(3) [of E' E] by (auto simp: env_of_def)
  have inv: "router_inv (E'\<lparr>pe_ports := ?ps\<rparr>) (pw_rt w)" for E'
    using w(3) unfolding same(2) [of E' E] env_of_def .
  have "running_inv \<lparr>run_ports = ?ps, run_seeds = (case r of Inl e \<Rightarrow> run_seeds s | Inr sl \<Rightarrow> (run_seeds s)[i := sl]),
      run_peers = map (hears (pw_notes w)) (run_peers s), run_rt = pw_rt w, run_loops = pw_loops w\<rparr>"
    using running_invD(1) [OF I] reach_steps [OF running_invD(2) [OF I] w(4)] fit inv peers_hear [OF running_invD(5) [OF I] w(4)]
    by (intro running_invI) (simp_all add: env_of_def split: sum.split)
  with w(1) dev show ?thesis by (simp add: router_turn_def)
qed

text \<open>A change of the route table that the ports do not see.\<close>

lemma running_inv_table:
  assumes I: "running_inv s" and "rt_step\<^sup>*\<^sup>* (run_rt s) rt" "\<And>E. router_inv (env_of E s) rt" "peers_fit rt ws"
  shows "running_inv (s\<lparr>run_rt := rt, run_peers := ws\<rparr>)"
  using running_invD [OF I] reach_steps [OF running_invD(2) [OF I] assms(2)] assms(3,4)
  by (intro running_invI) (simp_all add: env_of_def)

lemma maintenance_inv:
  assumes I: "running_inv s"
  shows "\<exists>s'. RunMaintenance_turn now s = Some s' \<and> running_inv s' \<and> run_ports s' = run_ports s"
proof -
  note J = router_inv_Prune [OF running_invD(3) [OF I], of now]
  then obtain k rt evs where p: "PruneExpiredRoutes now (run_rt s) = Some (k, rt, evs)" by blast
  then have st: "rt_step\<^sup>*\<^sup>* (run_rt s) rt" by (auto intro: step_prune)
  have "router_inv (env_of E s) rt" for E using J [of E] p by auto
  from running_inv_table [OF I st this peers_hear [OF running_invD(5) [OF I] st]] p show ?thesis
    by (simp add: RunMaintenance_turn_def)
qed

lemma change_inv:
  assumes I: "running_inv s" and c: "peer_change (run_rt s) evs rt"
  shows "running_inv (s\<lparr>run_rt := rt, run_peers := map (hears evs) (run_peers s)\<rparr>)"
  using running_inv_table [OF I steps_peer_change [OF c] router_inv_peer_change [OF c running_invD(3) [OF I]]]
    peers_hear [OF running_invD(5) [OF I] steps_peer_change [OF c]] by blast

lemma peer_turn_inv:
  assumes I: "running_inv s" and j: "j < length (run_peers s)" and ok: "peer_event_ok ev" and t: "peer_turn E j ev s = Some s'"
  shows "running_inv s' \<and> run_ports s' = run_ports s"
proof -
  let ?w = "(run_peers s ! j)\<lparr>w_rt := run_rt s\<rparr>"
  from t obtain r w' where w': "peer_act E ev ?w = Some (r, w')" and s': "s' = s\<lparr>run_rt := w_rt w',
      run_peers := (map (hears (drop (length (w_notes ?w)) (w_notes w'))) (run_peers s))[j := w']\<rparr>"
    by (auto simp: peer_turn_def Let_def split: option.splits)
  have fit: "peers_fit (run_rt s) (run_peers s)" by (rule running_invD [OF I])
  then have w: "peer_reach ?w" "short_pending (w_peer ?w)" using j by (auto simp: peers_fit_def)
  note ch = peer_act_changes [OF ok w(2) w']
  have st: "rt_step\<^sup>*\<^sup>* (run_rt s) (w_rt w')" using peer_changes_router(2) [OF ch(1)] by simp
  have "router_inv (env_of E' s) (w_rt w')" for E'
    using peer_changes_router(1) [OF ch(1)] running_invD(3) [OF I] by simp
  moreover have "w'\<lparr>w_rt := w_rt w'\<rparr> = w'" by simp
  then have "peers_fit (w_rt w') ((map (hears (drop (length (w_notes ?w)) (w_notes w'))) (run_peers s))[j := w'])"
    using peers_hear [OF fit st] peer_act_reach [OF w(1) w'] ch(2) unfolding peers_fit_def
    by (metis insertE set_update_subset_insert subsetD)
  ultimately show ?thesis unfolding s' using running_inv_table [OF I st] by simp
qed

lemma join_inv:
  assumes I: "running_inv s" and "fresh_peer p"
  shows "running_inv (s\<lparr>run_peers := run_peers s @ [\<lparr>w_peer = p, w_rt = run_rt s, w_sent = [], w_notes = [], w_loops = []\<rparr>]\<rparr>)"
proof -
  have "peer_reach \<lparr>w_peer = p, w_rt = run_rt s, w_sent = [], w_notes = [], w_loops = []\<rparr>"
    using assms running_invD(2) [OF I] by (intro start) simp_all
  with assms show ?thesis
    using running_invD [OF I] by (intro running_invI) (auto simp: peers_fit_def fresh_peer_def env_of_def)
qed


section \<open>The start\<close>

lemma accepted_range_end:
  assumes "port_errors c = []"
  shows "ec_NetEnd c \<noteq> 65535"
proof
  assume e: "ec_NetEnd c = 65535"
  from assms have r: "port_range_errors c = []" by (simp add: port_errors_def)
  then have "ec_NetStart c \<noteq> 0" using e by (auto simp: port_range_errors_def Let_def split: if_splits)
  with r e show False unfolding port_range_errors_def Let_def by (simp split: if_split_asm)
qed

lemma made_fit:
  assumes "port_made c p" "port_errors c = []" "p \<in> set (pe_ports E)"
  shows "port_fit E (et_device p) p"
proof -
  have "length z \<le> 255" if "z \<in> set (port_zones c)" for z using accepted_port(2) [OF assms(2) that] by simp
  moreover have "has_port E (port_target p)" using assms(3) by (auto simp: has_port_def list_ex_iff)
  moreover have "et_availableZones p = port_zones c"
    "et_seed p = Some (newSeedController (ec_SeedMode c) (ec_SoftSeedDelay c) (ec_NetStart c) (ec_NetEnd c) (ec_DefaultZoneName c))"
    using assms(1) by (auto simp: port_made_def NewEtherTalkPort_def setCableRange_def Let_def)
  ultimately show ?thesis
    using accepted_range_end [OF assms(2)] by (auto simp: port_fit_def newSeedController_def seed_fit_def)
qed

lemma start_running:
  assumes up: "brought_up E cs (rtr_Ports r) (rtr_RouteTable r)" and ok: "\<forall>c \<in> set cs. port_errors c = []"
  shows "length sls = length (rtr_Ports r) \<Longrightarrow> running_inv (running_start r sls)" "map et_device (rtr_Ports r) = map ec_Device cs"
proof -
  from up have made: "list_all2 port_made cs (rtr_Ports r)" and J: "router_inv (E\<lparr>pe_ports := rtr_Ports r\<rparr>) (rtr_RouteTable r)"
    and "rt_reach (rtr_RouteTable r)" by (simp_all add: brought_up_def)
  moreover have "router_inv (E'\<lparr>pe_ports := rtr_Ports r\<rparr>) (rtr_RouteTable r)" for E'
    using J same_devices(2) [of "rtr_Ports r" "rtr_Ports r" E E'] by simp
  moreover have "port_fit (E'\<lparr>pe_ports := rtr_Ports r\<rparr>) (et_device p) p" if "p \<in> set (rtr_Ports r)" for E' p
  proof -
    from made that obtain c where "c \<in> set cs" "port_made c p"
      by (metis list_all2_conv_all_nth in_set_conv_nth)
    with ok that show ?thesis by (intro made_fit) auto
  qed
  ultimately show "length sls = length (rtr_Ports r) \<Longrightarrow> running_inv (running_start r sls)"
    by (intro running_invI) (simp_all add: running_start_def env_of_def peers_fit_def)
  from made show "map et_device (rtr_Ports r) = map ec_Device cs"
    by (induction rule: list_all2_induct) (auto simp: port_made_def NewEtherTalkPort_def setCableRange_def Let_def)
qed

lemma running_inv_reach:
  assumes "router_reach r s" and "\<And>sls. length sls = length (rtr_Ports r) \<Longrightarrow> running_inv (running_start r sls)"
  shows "running_inv s \<and> map et_device (run_ports s) = map et_device (rtr_Ports r)"
  using assms
proof (induction rule: router_reach.induct)
  case (router_start sls)
  then show ?case by (simp add: running_start_def)
next
  case (router_event s i E ev s' w)
  then show ?case using router_turn_inv [of s i E ev] by auto
next
  case (router_peer_event s j pev PE s')
  then show ?case using peer_turn_inv [of s j pev PE s'] by auto
next
  case (router_maintenance s now s')
  then show ?case using maintenance_inv [of s now] by auto
next
  case (router_join s p)
  then show ?case by (simp add: join_inv)
next
  case (router_change s evs rt)
  then show ?case by (simp add: change_inv)
qed


section \<open>Properties\<close>



text \<open>
  A port without a configured range that is offered a range up to network 65535 adopts it, and the
  next tick of its seed loop does not return.
\<close>

lemma offered_65535_hangs:
  assumes seed: "et_seed (pw_port w) = Some s" "sd_mode s = SeedModeNone" "\<not> sd_conflict s"
    and obs: "sd_observedStart s = n" "sd_observedEnd s = 65535" "n \<noteq> 0"
    and op: "OperationalRange (et_aarp (pw_port w)) = (n, 65535, True)"
    and new: "isPhase2StartupRange (et_cableStart (pw_port w)) (et_cableEnd (pw_port w))"
  shows "RunSeedState_tick E sl w = None"
proof -
  obtain u a where u: "pa_ignore (sendSeedDiscovery E) w = Some (Inr (), u)" "pw_port u = (pw_port w)\<lparr>et_myAddr := a\<rparr>"
    using discovery_run by blast
  have x: "expireAuthority E s sl = (s, sl)" using seed(2) by (simp add: expireAuthority_def)
  let ?p = "(pw_port u)\<lparr>et_aarp := Rebind n 65535 (et_aarp (pw_port u))\<rparr>"
  have op': "OperationalRange (Rebind n 65535 (et_aarp (pw_port u))) = (n, 65535, True)"
    using op u(2) by (simp add: OperationalRange_def Rebind_def)
  have "adoptRange E n 65535 v = None" if "pw_port v = ?p" for v
    using that op' u(2) new obs(3)
    by (auto simp: adoptRange_def pa_simps activateCableRange_def deactivateOldRange_def cableRange_def isPhase2StartupRange_def
      refresh_address_def Let_def setCableRange_def port_UpsertRoute_def call_rt_def UpsertRoute_65535 pa_bind_def
      split: prod.split)
  then have "adoptObserved E s v = None" if "pw_port v = pw_port u" for v
    using that obs by (simp add: adoptObserved_def upd_aarp_def pa_simps pa_bind_def)
  then have "pa_bind (adoptObserved E s) f u = None" for f :: "unit \<Rightarrow> seed_loop pact" by (simp add: pa_bind_def)
  moreover have "(pw_port u)\<lparr>et_seed := Some s\<rparr> = pw_port u" using u(2) seed(1) by simp
  then have "upd_seed s u = Some (Inr (), u)" by (simp add: upd_seed_def pa_simps)
  ultimately show ?thesis
    using u seed x by (simp add: RunSeedState_tick_def pa_simps)
qed

end
