(* ===== verification/ConfigText.thy ===== *)
theory ConfigText
  imports PeerTable
begin

text \<open>
  The text of the configuration (\<open>src/router/config.go\<close>): how network ranges and durations are
  written, and the methods that the YAML decoder calls.  The decoder itself is another module; it is
  the argument \<open>decode\<close> of the methods that call it back.
\<close>

section \<open>Numbers\<close>

text \<open>\<open>strconv.ParseUint\<close> and \<open>strconv.ParseInt\<close> with base 10.\<close>

datatype num_error = ErrSyntax | ErrRange

definition digit :: "char \<Rightarrow> int option" where
  "digit c = (let n = of_char c :: nat in if 48 \<le> n \<and> n \<le> 57 then Some (int n - 48) else None)"

fun parse_digits :: "int \<Rightarrow> int \<Rightarrow> string \<Rightarrow> num_error + int" where
  "parse_digits maxVal n [] = Inr n"
| "parse_digits maxVal n (c # cs) =
     (case digit c of
        None \<Rightarrow> Inl ErrSyntax
      | Some d \<Rightarrow> if n * 10 + d > maxVal then Inl ErrRange else parse_digits maxVal (n * 10 + d) cs)"

definition ParseUint :: "nat \<Rightarrow> string \<Rightarrow> num_error + int" where
  "ParseUint bitSize s = (if s = [] then Inl ErrSyntax else parse_digits (2 ^ bitSize - 1) 0 s)"

definition ParseInt64 :: "string \<Rightarrow> num_error + int" where
  "ParseInt64 s =
     (let neg = (s \<noteq> [] \<and> hd s = CHR ''-'');
          digits = (if s \<noteq> [] \<and> (hd s = CHR ''-'' \<or> hd s = CHR ''+'') then tl s else s)
      in case ParseUint 64 digits of
           Inl e \<Rightarrow> Inl e
         | Inr un \<Rightarrow>
             if \<not> neg \<and> un \<ge> 2 ^ 63 then Inl ErrRange
             else if neg \<and> un > 2 ^ 63 then Inl ErrRange
             else Inr (if neg then - un else un))"

text \<open>\<open>strings.SplitN(s, "-", 2)\<close>.\<close>

definition SplitN2 :: "string \<Rightarrow> string list" where
  "SplitN2 s =
     (let a = takeWhile (\<lambda>c. c \<noteq> CHR ''-'') s
      in if length a = length s then [s] else [a, drop (length a + 1) s])"


section \<open>YAML\<close>

datatype yaml_Kind = DocumentNode | SequenceNode | MappingNode | ScalarNode | AliasNode

record yaml_Node =
  yn_Kind :: yaml_Kind
  yn_Tag :: string
  yn_Value :: string

datatype text_error =
    ErrKind yaml_Kind
  | ErrNumber string num_error
  | ErrNetwork network
  | ErrReversed network network
  | ErrDuration string
  | ErrDecode string

definition parse_network :: "string \<Rightarrow> text_error + network" where
  "parse_network s =
     (case ParseUint 16 (strings_TrimSpace s) of
        Inl e \<Rightarrow> Inl (ErrNumber s e)
      | Inr v \<Rightarrow>
          let network = word_of_int v in
          if network = 0 \<or> network \<ge> 0xff00 then Inl (ErrNetwork network) else Inr network)"

definition AURPNetworkRange_UnmarshalYAML :: "yaml_Node \<Rightarrow> text_error + AURPNetworkRange" where
  "AURPNetworkRange_UnmarshalYAML n =
     (if yn_Kind n \<noteq> ScalarNode then Inl (ErrKind (yn_Kind n))
      else
        let parts = SplitN2 (strings_TrimSpace (yn_Value n)) in
        case parse_network (parts ! 0) of
          Inl e \<Rightarrow> Inl e
        | Inr start \<Rightarrow>
            (case (if length parts = 2 then parse_network (parts ! 1) else Inr start) of
               Inl e \<Rightarrow> Inl e
             | Inr end' \<Rightarrow>
                 if start > end' then Inl (ErrReversed start end')
                 else Inr \<lparr>nr_Start = start, nr_End = end'\<rparr>))"

text \<open>
  A duration is a number of seconds or a text for \<open>time.ParseDuration\<close>, which is an argument.  The
  product of the seconds is one of 64-bit integers.
\<close>

definition YAMLDuration_UnmarshalYAML :: "(string \<Rightarrow> time option) \<Rightarrow> yaml_Node \<Rightarrow> text_error + time" where
  "YAMLDuration_UnmarshalYAML ParseDuration n =
     (if yn_Kind n \<noteq> ScalarNode then Inl (ErrKind (yn_Kind n))
      else if yn_Tag n = ''!!int'' then
        case ParseInt64 (yn_Value n) of
          Inl e \<Rightarrow> Inl (ErrNumber (yn_Value n) e)
        | Inr seconds \<Rightarrow> Inr (sint (word_of_int (seconds * Second) :: 64 word))
      else
        case ParseDuration (yn_Value n) of
          None \<Rightarrow> Inl (ErrDuration (yn_Value n))
        | Some v \<Rightarrow> Inr v)"

text \<open>The structures that the decoder fills.\<close>

record raw_AURPConfig =
  ra_LastHeardFromTimeout :: time
  ra_RetryInterval :: time
  ra_SendRetryLimit :: int
  ra_TickleRetryLimit :: int
  ra_ZoneInfoRetryInterval :: time
  ra_UpdateInterval :: time
  ra_HiddenNetworks :: "AURPNetworkRange list"
  ra_HopCountReduction :: bool
  ra_HopCountWeight :: byte
  ra_RemapRules :: "AURPRemapRule list"
  ra_HiddenDevices :: "AURPDeviceHideRule list"
  ra_Clusters :: "AURPClusterRule list"
  ra_BackupPeers :: "AURPBackupPeerRule list"
  ra_HiddenImportNetworks :: "AURPImportHideRule list"
  ra_HiddenExportNetworks :: "AURPExportHideRule list"

definition AURPConfig_UnmarshalYAML ::
  "('n \<Rightarrow> text_error + raw_AURPConfig) \<Rightarrow> 'n \<Rightarrow> text_error + AURPConfig" where
  "AURPConfig_UnmarshalYAML decode n =
     (case decode n of
        Inl e \<Rightarrow> Inl e
      | Inr raw \<Rightarrow>
          Inr \<lparr>LastHeardFromTimeout = ra_LastHeardFromTimeout raw, RetryInterval = ra_RetryInterval raw,
               SendRetryLimit = ra_SendRetryLimit raw, TickleRetryLimit = ra_TickleRetryLimit raw,
               ZoneInfoRetryInterval = ra_ZoneInfoRetryInterval raw, UpdateInterval = ra_UpdateInterval raw,
               HiddenNetworks = ra_HiddenNetworks raw, HopCountReduction = ra_HopCountReduction raw,
               HopCountWeight = ra_HopCountWeight raw, RemapRules = ra_RemapRules raw,
               HiddenDevices = ra_HiddenDevices raw, Clusters = ra_Clusters raw, BackupPeers = ra_BackupPeers raw,
               HiddenImportNetworks = ra_HiddenImportNetworks raw,
               HiddenExportNetworks = ra_HiddenExportNetworks raw\<rparr>)"

record raw_EtherTalkConfig =
  re_SeedMode :: string
  re_SoftSeedDelay :: time
  re_EthAddr :: string
  re_Device :: string
  re_DefaultZoneName :: string
  re_ExtraZones :: "string list"
  re_NetStart :: network
  re_NetEnd :: network

definition EtherTalkConfig_UnmarshalYAML ::
  "('n \<Rightarrow> text_error + raw_EtherTalkConfig) \<Rightarrow> 'n \<Rightarrow> text_error + EtherTalkConfig" where
  "EtherTalkConfig_UnmarshalYAML decode n =
     (case decode n of
        Inl e \<Rightarrow> Inl e
      | Inr raw \<Rightarrow>
          Inr \<lparr>ec_SeedMode = re_SeedMode raw, ec_SoftSeedDelay = re_SoftSeedDelay raw, ec_EthAddr = re_EthAddr raw,
               ec_Device = re_Device raw, ec_DefaultZoneName = re_DefaultZoneName raw,
               ec_ExtraZones = re_ExtraZones raw, ec_NetStart = re_NetStart raw, ec_NetEnd = re_NetEnd raw\<rparr>)"

text \<open>One port may be written without a list around it; it is added to the ports there are.\<close>

definition EtherTalkConfigs_UnmarshalYAML ::
  "(yaml_Node \<Rightarrow> text_error + EtherTalkConfig list) \<Rightarrow> (yaml_Node \<Rightarrow> text_error + EtherTalkConfig) \<Rightarrow>
   yaml_Node \<Rightarrow> EtherTalkConfig list \<Rightarrow> text_error + EtherTalkConfig list" where
  "EtherTalkConfigs_UnmarshalYAML decode_list decode_one n cs =
     (case yn_Kind n of
        SequenceNode \<Rightarrow> decode_list n
      | MappingNode \<Rightarrow> (case decode_one n of Inl e \<Rightarrow> Inl e | Inr v \<Rightarrow> Inr (cs @ [v]))
      | k \<Rightarrow> Inl (ErrKind k))"

text \<open>\<open>LoadConfig\<close> of a file: \<open>read\<close> opens and decodes it.\<close>

datatype load_error = LoadFile string | LoadInvalid "config_error list"

definition LoadConfig_file :: "(string \<Rightarrow> string + Config) \<Rightarrow> string \<Rightarrow> load_error + Config" where
  "LoadConfig_file read cfgPath =
     (case read cfgPath of
        Inl e \<Rightarrow> Inl (LoadFile e)
      | Inr c0 \<Rightarrow> (case LoadConfig c0 of (c, errs) \<Rightarrow> if errs = [] then Inr c else Inl (LoadInvalid errs)))"


section \<open>Digits\<close>

lemma digit_char: "n < 10 \<Longrightarrow> digit (char_of (n + 48 :: nat)) = Some (int n)"
  by (simp add: digit_def)

lemma decimal_digits: "decimal n \<noteq> [] \<and> (\<forall>c \<in> set (decimal n). digit c \<noteq> None)"
proof (induction n rule: decimal.induct)
  case (1 n)
  show ?case
  proof (cases "n < 10")
    case True
    then show ?thesis by (simp add: decimal.simps [of n] digit_char)
  next
    case False
    with 1 show ?thesis by (simp add: decimal.simps [of n] digit_char)
  qed
qed

lemma parse_digits_append:
  "parse_digits m n (xs @ ys) = (case parse_digits m n xs of Inl e \<Rightarrow> Inl e | Inr k \<Rightarrow> parse_digits m k ys)"
  by (induction xs arbitrary: n) (auto split: option.split)

lemma parse_decimal: "int n \<le> m \<Longrightarrow> parse_digits m 0 (decimal n) = Inr (int n)"
proof (induction n rule: decimal.induct)
  case (1 n)
  show ?case
  proof (cases "n < 10")
    case True
    with 1 show ?thesis by (simp add: decimal.simps [of n] digit_char)
  next
    case False
    have "int (n div 10) * 10 + int (n mod 10) = int n" by (metis mult_div_mod_eq mult.commute of_nat_add of_nat_mult of_nat_numeral)
    with 1 False show ?thesis by (simp add: decimal.simps [of n] digit_char parse_digits_append)
  qed
qed

lemma digit_not_special: "digit c \<noteq> None \<Longrightarrow> \<not> ascii_space c \<and> c \<noteq> CHR ''-''"
  by (auto simp: digit_def ascii_space_def Let_def split: if_splits)

lemma dropWhile_all: "list_all P xs \<Longrightarrow> dropWhile P (xs @ ys) = dropWhile P ys"
  by (induction xs) auto

lemma dropWhile_hd: "xs \<noteq> [] \<Longrightarrow> \<not> P (hd xs) \<Longrightarrow> dropWhile P (xs @ ys) = xs @ ys"
  by (cases xs) auto

lemma TrimSpace_pad:
  assumes "list_all ascii_space a" "list_all ascii_space b" "t \<noteq> []" "\<not> ascii_space (hd t)" "\<not> ascii_space (last t)"
  shows "strings_TrimSpace (a @ t @ b) = t"
proof -
  have "dropWhile ascii_space (a @ t @ b) = t @ b" using assms by (simp add: dropWhile_all dropWhile_hd)
  moreover have "dropWhile ascii_space (rev b @ rev t) = rev t"
    using assms dropWhile_hd [of "rev t" ascii_space "[]"] by (simp add: dropWhile_all list_all_iff hd_rev)
  ultimately show ?thesis by (simp add: strings_TrimSpace_def)
qed

lemma decimal_ends: "\<not> ascii_space (hd (decimal n))" "\<not> ascii_space (last (decimal n))"
  using decimal_digits [of n] digit_not_special by (meson hd_in_set last_in_set)+

lemma parse_network_decimal:
  assumes "0 < n" "n < 0xff00" "list_all ascii_space a" "list_all ascii_space b"
  shows "parse_network (a @ decimal (unat n) @ b) = Inr n"
proof -
  have "int (unat n) \<le> 65535" using unat_u16_less [of n] by linarith
  then have "ParseUint 16 (decimal (unat n)) = Inr (uint n)"
    using decimal_digits [of "unat n"] parse_decimal [of "unat n" 65535] unfolding ParseUint_def by simp
  moreover have "strings_TrimSpace (a @ decimal (unat n) @ b) = decimal (unat n)"
    using TrimSpace_pad [OF assms(3,4)] decimal_digits decimal_ends by blast
  ultimately show ?thesis using assms(1,2) by (simp add: parse_network_def linorder_not_le word_neq_0_conv)
qed

lemma SplitN2_dash:
  assumes "CHR ''-'' \<notin> set a"
  shows "SplitN2 (a @ CHR ''-'' # b) = [a, b]" "SplitN2 a = [a]"
proof -
  have "takeWhile (\<lambda>c. c \<noteq> CHR ''-'') (a @ CHR ''-'' # b) = a" using assms by (simp add: takeWhile_append)
  then show "SplitN2 (a @ CHR ''-'' # b) = [a, b]" by (simp add: SplitN2_def)
  have "takeWhile (\<lambda>c. c \<noteq> CHR ''-'') a = a" using assms by (auto simp: takeWhile_eq_all_conv)
  then show "SplitN2 a = [a]" by (simp add: SplitN2_def del: takeWhile_eq_all_conv)
qed

lemma no_dash: "list_all ascii_space a \<Longrightarrow> CHR ''-'' \<notin> set (decimal n @ a)"
proof -
  assume "list_all ascii_space a"
  moreover have "\<not> ascii_space (CHR ''-'')" by (simp add: ascii_space_def)
  ultimately have "CHR ''-'' \<notin> set a" by (auto simp: list_all_iff)
  moreover have "CHR ''-'' \<notin> set (decimal n)" using decimal_digits [of n] digit_not_special by blast
  ultimately show ?thesis by simp
qed


section \<open>Ranges and durations\<close>

text \<open>A range is read back from its text, with spaces anywhere around its numbers.\<close>

theorem range_text_roundtrip:
  assumes "0 < s" "s \<le> e" "e < 0xff00" "list_all ascii_space a" "list_all ascii_space b" "list_all ascii_space c" "list_all ascii_space d"
  shows "AURPNetworkRange_UnmarshalYAML \<lparr>yn_Kind = ScalarNode, yn_Tag = tag,
      yn_Value = a @ decimal (unat s) @ b @ ''-'' @ c @ decimal (unat e) @ d\<rparr> = Inr \<lparr>nr_Start = s, nr_End = e\<rparr>"
    "AURPNetworkRange_UnmarshalYAML \<lparr>yn_Kind = ScalarNode, yn_Tag = tag, yn_Value = a @ decimal (unat s) @ b\<rparr> =
      Inr \<lparr>nr_Start = s, nr_End = s\<rparr>"
proof -
  have s: "parse_network (decimal (unat s) @ b) = Inr s" "parse_network (decimal (unat s)) = Inr s"
    using parse_network_decimal [of s "[]" b] parse_network_decimal [of s "[]" "[]"] assms by simp_all
  have e: "parse_network (c @ decimal (unat e)) = Inr e"
    using parse_network_decimal [of e c "[]"] assms by simp
  let ?t = "(decimal (unat s) @ b) @ CHR ''-'' # c @ decimal (unat e)"
  have "hd ?t = hd (decimal (unat s))" "last ?t = last (decimal (unat e))" using decimal_digits by simp_all
  then have "strings_TrimSpace (a @ ?t @ d) = ?t"
    using TrimSpace_pad [OF assms(4,7), of ?t] decimal_ends by simp
  then show "AURPNetworkRange_UnmarshalYAML \<lparr>yn_Kind = ScalarNode, yn_Tag = tag,
      yn_Value = a @ decimal (unat s) @ b @ ''-'' @ c @ decimal (unat e) @ d\<rparr> = Inr \<lparr>nr_Start = s, nr_End = e\<rparr>"
    using s e assms(2) SplitN2_dash(1) [OF no_dash [OF assms(5), of "unat s"], of "c @ decimal (unat e)"]
    by (simp add: AURPNetworkRange_UnmarshalYAML_def)
  have "strings_TrimSpace (a @ decimal (unat s) @ b) = decimal (unat s)"
    using TrimSpace_pad [OF assms(4,5)] decimal_digits decimal_ends by blast
  moreover have "SplitN2 (decimal (unat s)) = [decimal (unat s)]" using SplitN2_dash(2) no_dash [of "[]" "unat s"] by simp
  ultimately show "AURPNetworkRange_UnmarshalYAML \<lparr>yn_Kind = ScalarNode, yn_Tag = tag, yn_Value = a @ decimal (unat s) @ b\<rparr> =
      Inr \<lparr>nr_Start = s, nr_End = s\<rparr>"
    using s by (simp add: AURPNetworkRange_UnmarshalYAML_def)
qed

text \<open>Every range that is accepted is a legal one.\<close>

theorem range_text_legal:
  assumes "AURPNetworkRange_UnmarshalYAML n = Inr r"
  shows "0 < nr_Start r \<and> nr_Start r \<le> nr_End r \<and> nr_End r < 0xff00"
proof -
  have p: "0 < m \<and> m < 0xff00" if "parse_network t = Inr m" for t m
    using that by (auto simp: parse_network_def Let_def word_neq_0_conv split: sum.splits if_splits)
  from assms obtain start end' parts where
    "parse_network (parts ! 0) = Inr start" "(if length parts = 2 then parse_network (parts ! 1) else Inr start) = Inr end'"
    "\<not> start > end'" "r = \<lparr>nr_Start = start, nr_End = end'\<rparr>"
    by (auto simp: AURPNetworkRange_UnmarshalYAML_def Let_def split: sum.splits if_split_asm)
  then show ?thesis using p by (auto split: if_split_asm)
qed

text \<open>Seconds are exact as long as the nanoseconds fit into 64 bits, and wrap silently beyond.\<close>

theorem duration_seconds:
  assumes "n * 1000000000 < 2 ^ 63"
  shows "YAMLDuration_UnmarshalYAML pd \<lparr>yn_Kind = ScalarNode, yn_Tag = ''!!int'', yn_Value = decimal n\<rparr> = Inr (int n * Second)"
proof -
  have d: "hd (decimal n) \<noteq> CHR ''-''" "hd (decimal n) \<noteq> CHR ''+''" "decimal n \<noteq> []"
  proof -
    have "digit (CHR ''-'') = None" "digit (CHR ''+'') = None" by (simp_all add: digit_def)
    with decimal_digits [of n] hd_in_set [of "decimal n"]
    show "hd (decimal n) \<noteq> CHR ''-''" "hd (decimal n) \<noteq> CHR ''+''" "decimal n \<noteq> []" by metis+
  qed
  have n: "int n * Second < 2 ^ 63" using assms by (metis of_nat_less_iff of_nat_mult of_nat_numeral of_nat_power)
  then have "ParseUint 64 (decimal n) = Inr (int n)" using parse_decimal [of n "2 ^ 64 - 1"] d by (simp add: ParseUint_def)
  then have "ParseInt64 (decimal n) = Inr (int n)" using d n by (simp add: ParseInt64_def)
  moreover have "sint (word_of_int (int n * Second) :: 64 word) = int n * Second"
  proof -
    have "signed_take_bit 63 (int n * Second) = int n * Second"
      using n by (simp add: signed_take_bit_int_eq_self_iff)
    then show ?thesis by (simp only: sint_sbintrunc') simp
  qed
  ultimately show ?thesis by (simp add: YAMLDuration_UnmarshalYAML_def)
qed

lemma duration_wraps:
  "YAMLDuration_UnmarshalYAML pd \<lparr>yn_Kind = ScalarNode, yn_Tag = ''!!int'', yn_Value = ''9223372037''\<rparr> =
     Inr (- 9223372036709551616)"
  by (simp add: YAMLDuration_UnmarshalYAML_def ParseInt64_def ParseUint_def digit_def Let_def)

end
