(* ===== verification/StatusPage.thy ===== *)
theory StatusPage
  imports Metrics
begin

text \<open>
  The status pages: the registry of items and its order (\<open>src/status/status.go\<close>), and what the
  router shows there, the rows of the AURP peers (\<open>src/router/aurp_peer_table.go\<close>), the routes, the
  ports and their outboxes.  The rendering of templates is left out.
\<close>

section \<open>Registry\<close>

text \<open>
  Items are shared by pointers: an item is a position in the store, the roots of the two pages are the
  first two.  A templated item has the source of its template and a callback, here the name of one.
\<close>

type_synonym item_ref = nat

datatype item_kind =
    SimpleItem string
  | TemplatedItem string string
  | BrokenItem string string

record item =
  it_items :: "(string \<times> item_ref) list"
  it_kind :: item_kind

type_synonym status_store = "item list"

definition rootItem :: item_ref where
  "rootItem = 0"

definition peeringRootItem :: item_ref where
  "peeringRootItem = 1"

definition new_item :: "item_kind \<Rightarrow> item" where
  "new_item k = \<lparr>it_items = [], it_kind = k\<rparr>"

definition empty_store :: status_store where
  "empty_store = [new_item (SimpleItem []), new_item (SimpleItem [])]"

text \<open>A context carries the item that new items are put under.\<close>

type_synonym item_ctx = "item_ref option"

definition parentItem :: "item_ctx \<Rightarrow> item_ref" where
  "parentItem ctx = (case ctx of None \<Rightarrow> rootItem | Some v \<Rightarrow> v)"

definition PeeringContext :: "item_ctx \<Rightarrow> item_ctx" where
  "PeeringContext ctx = Some peeringRootItem"

definition upd_item :: "item_ref \<Rightarrow> (item \<Rightarrow> item) \<Rightarrow> status_store \<Rightarrow> status_store" where
  "upd_item i f st = st[i := f (st ! i)]"

definition addSubItem :: "item_ref \<Rightarrow> string \<Rightarrow> item_ref \<Rightarrow> status_store \<Rightarrow> status_store" where
  "addSubItem i title sub = upd_item i (\<lambda>x. x\<lparr>it_items := AList.update title sub (it_items x)\<rparr>)"

definition delSubItem :: "item_ref \<Rightarrow> string \<Rightarrow> status_store \<Rightarrow> status_store" where
  "delSubItem i title = upd_item i (\<lambda>x. x\<lparr>it_items := AList.delete title (it_items x)\<rparr>)"

definition Items :: "item_ref \<Rightarrow> status_store \<Rightarrow> (string \<times> item_ref) list" where
  "Items i st = it_items (st ! i)"

definition setStatus :: "item_ref \<Rightarrow> string \<Rightarrow> status_store \<Rightarrow> status_store" where
  "setStatus i s = upd_item i (\<lambda>x. x\<lparr>it_kind := SimpleItem s\<rparr>)"

text \<open>
  The new context and store; the function that removes the item again is \<open>delSubItem\<close> of the parent
  and the title.  A template that does not parse is replaced by the one for errors.
\<close>

definition AddItem ::
  "(string \<Rightarrow> bool) \<Rightarrow> item_ctx \<Rightarrow> string \<Rightarrow> string \<Rightarrow> string \<Rightarrow> status_store \<Rightarrow> item_ctx \<times> status_store" where
  "AddItem parses parent title tmpl cb st =
     (let i = length st;
          x = new_item (if parses tmpl then TemplatedItem tmpl cb else BrokenItem tmpl cb)
      in (Some i, addSubItem (parentItem parent) title i (st @ [x])))"

definition AddSimpleItem :: "item_ctx \<Rightarrow> string \<Rightarrow> status_store \<Rightarrow> item_ctx \<times> status_store" where
  "AddSimpleItem parent title st =
     (let i = length st
      in (Some i, addSubItem (parentItem parent) title i (st @ [new_item (SimpleItem ''Unknown status'')])))"

definition DelItem :: "item_ctx \<Rightarrow> string \<Rightarrow> status_store \<Rightarrow> status_store" where
  "DelItem parent title = delSubItem (parentItem parent) title"

definition HasPrefix :: "string \<Rightarrow> string \<Rightarrow> bool" where
  "HasPrefix s pre \<longleftrightarrow> take (length pre) s = pre"

definition pagePriority :: "string \<Rightarrow> string \<Rightarrow> int" where
  "pagePriority pageName title =
     (if pageName = ''Peering'' then
        if title = ''AURP Peers'' then 10
        else if HasPrefix title ''Inbound on '' then 20
        else if HasPrefix title ''Outbound on '' then 30
        else if HasPrefix title ''RTMP on '' then 40
        else if title = ''Periodically Attempt Connections'' then 50
        else 90
      else if HasPrefix title ''EtherTalk on '' then 10
      else if HasPrefix title ''AARP on '' then 20
      else if title = ''Routing table'' then 30
      else 90)"

definition orderedTitles :: "(string \<times> item_ref) list \<Rightarrow> string \<Rightarrow> string list" where
  "orderedTitles items pageName =
     sort_func (\<lambda>a b.
       let pa = pagePriority pageName a; pb = pagePriority pageName b
       in if pa \<noteq> pb then cmp_compare pa pb else cmp_compare a b) (map fst items)"

text \<open>\<open>strings.ReplaceAll\<close> of a text that does not overlap itself.\<close>

function ReplaceAll :: "string \<Rightarrow> string \<Rightarrow> string \<Rightarrow> string" where
  "ReplaceAll old new [] = []"
| "ReplaceAll old new (c # s) =
     (if old \<noteq> [] \<and> HasPrefix (c # s) old then new @ ReplaceAll old new (drop (length old - 1) s)
      else c # ReplaceAll old new s)"
  by pat_completeness auto
termination
  by (relation "measure (\<lambda>(old, new, s). length s)") auto

definition cleanHTMLFragment :: "string \<Rightarrow> string" where
  "cleanHTMLFragment s = strings_TrimSpace (ReplaceAll [CHR 0x09] '' '' (ReplaceAll ''&#x9;'' '' '' s))"


section \<open>Peers\<close>

fun ReceiverState_String :: "ReceiverState \<Rightarrow> string" where
  "ReceiverState_String ReceiverUnconnected = ''unconnected''"
| "ReceiverState_String ReceiverConnected = ''connected''"
| "ReceiverState_String ReceiverWaitForOpenRsp = ''waiting for Open-Rsp''"
| "ReceiverState_String ReceiverWaitForRIRsp = ''waiting for RI-Rsp''"
| "ReceiverState_String ReceiverWaitForTickleAck = ''waiting for Tickle-Ack''"

fun SenderState_String :: "SenderState \<Rightarrow> string" where
  "SenderState_String SenderUnconnected = ''unconnected''"
| "SenderState_String SenderConnected = ''connected''"
| "SenderState_String SenderWaitForRIRspAck = ''waiting for RI-Ack for RI-Rsp''"
| "SenderState_String SenderWaitForRIUpdAck = ''waiting for RI-Ack for RI-Upd''"
| "SenderState_String SenderWaitForRDAck = ''waiting for RI-Ack for RD''"

definition hex_char :: "nat \<Rightarrow> char" where
  "hex_char n = char_of (if n < 10 then n + 48 else n + 87)"

definition hex_byte :: "byte \<Rightarrow> string" where
  "hex_byte b = [hex_char (unat b div 16), hex_char (unat b mod 16)]"

fun DomainIdentifierDisplay :: "DomainIdentifier \<Rightarrow> string" where
  "DomainIdentifierDisplay NullDomainIdentifier = DomainIdentifier_String NullDomainIdentifier"
| "DomainIdentifierDisplay (IPDomainIdentifier di) =
     (case To4 di of
        Some v4 \<Rightarrow> dotted v4 @ '' (0x'' @ concat (map hex_byte v4) @ '')''
      | None \<Rightarrow> ''IP DI (0x'' @ concat (map hex_byte di) @ '')'')"

fun strings_Join :: "string list \<Rightarrow> string \<Rightarrow> string" where
  "strings_Join [] sep = []"
| "strings_Join [s] sep = s"
| "strings_Join (s # t # ss) sep = s @ sep @ strings_Join (t # ss) sep"

definition ingestSource :: "(string \<Rightarrow> ip option) \<Rightarrow> string \<Rightarrow> string" where
  "ingestSource ParseIP configuredAddr =
     (if configuredAddr = [] then ''aurp-open''
      else if ParseIP configuredAddr \<noteq> None then ''config-ip'' else ''config-dns'')"

record aurpPeerStatusRow =
  row_ConfiguredAddr :: string
  row_IngestSource :: string
  row_TunnelID :: string
  row_RemoteDI :: string
  row_CandidateAddrs :: string
  row_RemoteAddr :: string
  row_HasPeer :: bool
  row_Running :: bool
  row_ReceiverConnected :: bool
  row_SenderConnected :: bool
  row_ReceiverState :: string
  row_SenderState :: string
  row_ReceiveChLen :: int
  row_ReceiveQueueHighWater :: "64 word"
  row_DDPPacketsIn :: "64 word"
  row_DDPPacketsOut :: "64 word"
  row_DDPBytesIn :: "64 word"
  row_DDPBytesOut :: "64 word"
  row_LocalConnID :: u16
  row_RemoteConnID :: u16
  row_TxSeq :: u16
  row_RxSeq :: u16
  row_LastHeardFrom :: time
  row_LastReconnect :: time
  row_LastUpdate :: time
  row_LastSend :: time
  row_LastSuccess :: time
  row_SendRetries :: int
  row_ReconnectFailures :: int
  row_NextReconnect :: time
  row_DNSFailures :: int
  row_DNSErrorKind :: string
  row_NextDNS :: time
  row_DuplicateRoutingPackets :: "64 word"
  row_ReacksSent :: "64 word"
  row_StaleRoutingPackets :: "64 word"
  row_FutureRoutingPackets :: "64 word"
  row_ConnectionIDMismatches :: "64 word"
  row_LateTickleAcks :: "64 word"
  row_SenderRouterDowns :: "64 word"
  row_ReceiverRouterDowns :: "64 word"
  row_RouterDownAcks :: "64 word"
  row_EarlyRIUpdates :: "64 word"
  row_EarlyRIUpdateAcks :: "64 word"
  row_ExtendedZIFragments :: "64 word"
  row_ExtendedZICompleted :: "64 word"
  row_ZoneTuplesAccepted :: "64 word"
  row_ZoneTuplesIgnored :: "64 word"
  row_LoopIndicativeRoutes :: "64 word"
  row_HopCountReductions :: "64 word"
  row_HopCountWeightedPackets :: "64 word"
  row_AlternativePathForwards :: "64 word"
  row_ReflectionDrops :: "64 word"
  row_HopCountReduction :: bool
  row_HopCountWeight :: byte

text \<open>A row without a peer, and one with the peer's fields; \<open>k\<close> are the counters of forwarded packets.\<close>

definition unresolved_row :: "(string \<Rightarrow> ip option) \<Rightarrow> string \<Rightarrow> string list \<Rightarrow> configuredDNSState \<Rightarrow> aurpPeerStatusRow" where
  "unresolved_row ParseIP configuredAddr candidates dns =
     \<lparr>row_ConfiguredAddr = configuredAddr,
      row_IngestSource = ingestSource ParseIP configuredAddr,
      row_TunnelID = [],
      row_RemoteDI = [],
      row_CandidateAddrs = strings_Join candidates '', '',
      row_RemoteAddr = [],
      row_HasPeer = False,
      row_Running = False,
      row_ReceiverConnected = False,
      row_SenderConnected = False,
      row_ReceiverState = ''unresolved'',
      row_SenderState = ''unresolved'',
      row_ReceiveChLen = 0,
      row_ReceiveQueueHighWater = 0,
      row_DDPPacketsIn = 0,
      row_DDPPacketsOut = 0,
      row_DDPBytesIn = 0,
      row_DDPBytesOut = 0,
      row_LocalConnID = 0,
      row_RemoteConnID = 0,
      row_TxSeq = 0,
      row_RxSeq = 0,
      row_LastHeardFrom = 0,
      row_LastReconnect = 0,
      row_LastUpdate = 0,
      row_LastSend = 0,
      row_LastSuccess = 0,
      row_SendRetries = 0,
      row_ReconnectFailures = 0,
      row_NextReconnect = 0,
      row_DNSFailures = dns_failures dns,
      row_DNSErrorKind = dns_kind dns,
      row_NextDNS = dns_next dns,
      row_DuplicateRoutingPackets = 0,
      row_ReacksSent = 0,
      row_StaleRoutingPackets = 0,
      row_FutureRoutingPackets = 0,
      row_ConnectionIDMismatches = 0,
      row_LateTickleAcks = 0,
      row_SenderRouterDowns = 0,
      row_ReceiverRouterDowns = 0,
      row_RouterDownAcks = 0,
      row_EarlyRIUpdates = 0,
      row_EarlyRIUpdateAcks = 0,
      row_ExtendedZIFragments = 0,
      row_ExtendedZICompleted = 0,
      row_ZoneTuplesAccepted = 0,
      row_ZoneTuplesIgnored = 0,
      row_LoopIndicativeRoutes = 0,
      row_HopCountReductions = 0,
      row_HopCountWeightedPackets = 0,
      row_AlternativePathForwards = 0,
      row_ReflectionDrops = 0,
      row_HopCountReduction = False,
      row_HopCountWeight = 0\<rparr>"

definition newAURPPeerStatusRow ::
  "(string \<Rightarrow> ip option) \<Rightarrow> (ingress_counters \<times> TablePeer) option \<Rightarrow> string \<Rightarrow> string list \<Rightarrow> configuredDNSState \<Rightarrow> aurpPeerStatusRow" where
  "newAURPPeerStatusRow ParseIP peer configuredAddr candidates dns =
     (case peer of
        None \<Rightarrow> unresolved_row ParseIP configuredAddr candidates dns
      | Some (k, p) \<Rightarrow>
          \<lparr>row_ConfiguredAddr = configuredAddr,
           row_IngestSource = ingestSource ParseIP configuredAddr,
           row_TunnelID = tunnelID p,
           row_RemoteDI = DomainIdentifierDisplay (tr_remoteDI (p_Transport p)),
           row_CandidateAddrs = strings_Join candidates '', '',
           row_RemoteAddr = RemoteAddrString p,
           row_HasPeer = True,
           row_Running = running p,
           row_ReceiverConnected = rstate p = ReceiverConnected,
           row_SenderConnected = sstate p = SenderConnected,
           row_ReceiverState = ReceiverState_String (rstate p),
           row_SenderState = SenderState_String (sstate p),
           row_ReceiveChLen = int (length (ReceiveCh p)),
           row_ReceiveQueueHighWater = receiveQueueHighWater p,
           row_DDPPacketsIn = ddpPacketsIn p,
           row_DDPPacketsOut = k_ddpPacketsOut (counters p),
           row_DDPBytesIn = ddpBytesIn p,
           row_DDPBytesOut = k_ddpBytesOut (counters p),
           row_LocalConnID = tr_localConnID (p_Transport p),
           row_RemoteConnID = tr_remoteConnID (p_Transport p),
           row_TxSeq = tr_localSeq (p_Transport p),
           row_RxSeq = tr_remoteSeq (p_Transport p),
           row_LastHeardFrom = lastHeardFrom p,
           row_LastReconnect = lastReconnect p,
           row_LastUpdate = lastUpdate p,
           row_LastSend = lastSend p,
           row_LastSuccess = lastSuccess p,
           row_SendRetries = sendRetries p,
           row_ReconnectFailures = reconnectFailures p,
           row_NextReconnect = nextReconnect p,
           row_DNSFailures = dns_failures dns,
           row_DNSErrorKind = dns_kind dns,
           row_NextDNS = dns_next dns,
           row_DuplicateRoutingPackets = k_duplicateRoutingPackets (counters p),
           row_ReacksSent = k_reacksSent (counters p),
           row_StaleRoutingPackets = k_staleRoutingPackets (counters p),
           row_FutureRoutingPackets = k_futureRoutingPackets (counters p),
           row_ConnectionIDMismatches = k_connectionIDMismatches (counters p),
           row_LateTickleAcks = k_lateTickleAcks (counters p),
           row_SenderRouterDowns = k_senderRouterDowns (counters p),
           row_ReceiverRouterDowns = k_receiverRouterDowns (counters p),
           row_RouterDownAcks = k_routerDownAcks (counters p),
           row_EarlyRIUpdates = k_earlyRIUpdates (counters p),
           row_EarlyRIUpdateAcks = k_earlyRIUpdateAcks (counters p),
           row_ExtendedZIFragments = k_extendedZIFragments (counters p),
           row_ExtendedZICompleted = k_extendedZICompleted (counters p),
           row_ZoneTuplesAccepted = k_zoneTuplesAccepted (counters p),
           row_ZoneTuplesIgnored = k_zoneTuplesIgnored (counters p),
           row_LoopIndicativeRoutes = k_loopIndicativeRoutes (counters p),
           row_HopCountReductions = hopCountReductions k,
           row_HopCountWeightedPackets = k_hopCountWeightedPackets (counters p),
           row_AlternativePathForwards = alternativePathForwards k,
           row_ReflectionDrops = reflectionDrops k,
           row_HopCountReduction = HopCountReduction (timing p),
           row_HopCountWeight = HopCountWeight (timing p)\<rparr>)"

definition candidateAddrsLocked :: "peer_ref \<Rightarrow> AURPPeerTable \<Rightarrow> string list" where
  "candidateAddrsLocked i t = sort (map (\<lambda>(key, _). dotted key) (filter (\<lambda>(_, mapped). mapped = i) (peersByIP t)))"

definition bool2Int :: "bool \<Rightarrow> int" where
  "bool2Int b = (if b then 1 else 0)"

definition compare_rows :: "aurpPeerStatusRow \<Rightarrow> aurpPeerStatusRow \<Rightarrow> int" where
  "compare_rows a b =
     cmp_or
       [- cmp_compare (bool2Int (row_ReceiverConnected a)) (bool2Int (row_ReceiverConnected b)),
        - cmp_compare (bool2Int (row_SenderConnected a)) (bool2Int (row_SenderConnected b)),
        cmp_compare (row_ConfiguredAddr a) (row_ConfiguredAddr b),
        cmp_compare (row_RemoteAddr a) (row_RemoteAddr b)]"

text \<open>
  The peers of the rows, in order: one row for each configured name, with its peer if it is resolved,
  then the other peers.
\<close>

definition row_peers :: "AURPPeerTable \<Rightarrow> (string \<times> configuredDNSState \<times> peer_ref option) list" where
  "row_peers t =
     (let configured = map (\<lambda>(a, dns). (a, dns, configuredPeer a t)) (dnsByConfigured t);
          seen = concat (map (\<lambda>(a, dns, p). case p of None \<Rightarrow> [] | Some i \<Rightarrow> [i]) configured)
      in configured @
         map (\<lambda>i. (ConfiguredAddr (peers t ! i), zero_dns, Some i)) (filter (\<lambda>i. i \<notin> set seen) (uniquePeersLocked t)))"

definition status_rows ::
  "(string \<Rightarrow> ip option) \<Rightarrow> (peer_ref \<Rightarrow> ingress_counters) \<Rightarrow> AURPPeerTable \<Rightarrow> aurpPeerStatusRow list" where
  "status_rows ParseIP K t =
     sort_func compare_rows
       (map (\<lambda>(a, dns, p).
          newAURPPeerStatusRow ParseIP (map_option (\<lambda>i. (K i, peers t ! i)) p) a
            (case p of None \<Rightarrow> [] | Some i \<Rightarrow> candidateAddrsLocked i t) dns) (row_peers t))"

text \<open>The chat log of a peer: the status of the response, and the peer whose log is shown.\<close>

definition ServeHTTP :: "(string \<Rightarrow> ip option) \<Rightarrow> string \<Rightarrow> AURPPeerTable \<Rightarrow> nat \<times> peer_ref option" where
  "ServeHTTP ParseIP ipStr t =
     (case table_Lookup (case ParseIP ipStr of None \<Rightarrow> [] | Some a \<Rightarrow> a) t of
        Inl err \<Rightarrow> (404, None)
      | Inr None \<Rightarrow> (404, None)
      | Inr (Some peer) \<Rightarrow> (200, Some peer))"


section \<open>Routes and ports\<close>

definition compare_talkers :: "RouteTable \<Rightarrow> Route \<Rightarrow> Route \<Rightarrow> int" where
  "compare_talkers rt ra rb =
     (let aIn = DDPBytesIn rt ra; aOut = DDPBytesOut rt ra; bIn = DDPBytesIn rt rb; bOut = DDPBytesOut rt rb
      in cmp_or
        [cmp_compare (bIn + bOut) (aIn + aOut), cmp_compare bIn aIn, cmp_compare bOut aOut,
         cmp_compare (r_NetStart ra) (r_NetStart rb), cmp_compare (r_TargetKey ra) (r_TargetKey rb)])"

definition routes_page :: "RouteTable \<Rightarrow> Route list" where
  "routes_page rt = sort_func (compare_talkers rt) (Dump rt)"

record outboxSummary =
  obs_Addr :: ddp_Addr
  obs_LastTS :: time
  obs_Len :: nat

definition dumpOutboxes :: "EtherTalkPort \<Rightarrow> outboxSummary list" where
  "dumpOutboxes port =
     map (\<lambda>(_, ob). \<lparr>obs_Addr = ob_addr ob, obs_LastTS = ob_lastTS ob, obs_Len = length (ob_packets ob)\<rparr>) (et_outboxes port)"

record port_status =
  ps_Device :: string
  ps_EthernetAddr :: hwaddr
  ps_NetStart :: network
  ps_NetEnd :: network
  ps_ConfiguredStart :: network
  ps_ConfiguredEnd :: network
  ps_HasConfiguredRange :: bool
  ps_DefaultZone :: string
  ps_AvailZones :: "string list"
  ps_Seed :: "seedController option"

definition StatusCtx :: "EtherTalkPort \<Rightarrow> port_status" where
  "StatusCtx port =
     (let (cableStart, cableEnd) = cableRange port
      in \<lparr>ps_Device = et_device port, ps_EthernetAddr = et_ethernetAddr port, ps_NetStart = cableStart, ps_NetEnd = cableEnd,
          ps_ConfiguredStart = et_netStart port, ps_ConfiguredEnd = et_netEnd port,
          ps_HasConfiguredRange = (et_netStart port \<noteq> 0 \<and> et_netEnd port \<noteq> 0),
          ps_DefaultZone = et_defaultZoneName port, ps_AvailZones = et_availableZones port, ps_Seed = et_seed port\<rparr>)"

record aarp_status =
  as_RangeStart :: network
  as_RangeEnd :: network
  as_Startup :: bool
  as_Operational :: bool
  as_AMT :: "(ddp_Addr \<times> AMTEntry) list"

definition aarp_status_page :: "AARPMachine \<Rightarrow> aarp_status" where
  "aarp_status_page a =
     \<lparr>as_RangeStart = ar_rangeStart a, as_RangeEnd = ar_rangeEnd a,
      as_Startup = isPhase2StartupRange (ar_rangeStart a) (ar_rangeEnd a),
      as_Operational = (ar_operational a \<and> ar_assigned a), as_AMT = amt_table (ar_amt a)\<rparr>"


section \<open>Order and completeness\<close>

text \<open>Titles are ordered by the sections of the page, and by name within a section.\<close>

lemma orderedTitles_sorted:
  "orderedTitles items pageName = sort_key (\<lambda>t. (pagePriority pageName t, t)) (map fst items)"
  unfolding orderedTitles_def by (rule sort_func_eq_sort_key) (auto simp: cmp_compare_def Let_def)

text \<open>Connected receivers come first, then connected senders.\<close>

lemma compare_rows_le:
  "compare_rows a b \<le> 0 \<longleftrightarrow>
     (\<not> row_ReceiverConnected a, \<not> row_SenderConnected a, row_ConfiguredAddr a, row_RemoteAddr a) \<le>
     (\<not> row_ReceiverConnected b, \<not> row_SenderConnected b, row_ConfiguredAddr b, row_RemoteAddr b)"
  by (auto simp: compare_rows_def cmp_or_def cmp_compare_def bool2Int_def)

lemma status_rows_sorted:
  "sorted (map (\<lambda>r. (\<not> row_ReceiverConnected r, \<not> row_SenderConnected r, row_ConfiguredAddr r, row_RemoteAddr r))
     (status_rows ParseIP K t))"
  unfolding status_rows_def sort_func_eq_sort_key [OF compare_rows_le] by (rule sorted_sort_key)

text \<open>Every configured name and every peer has exactly one row.\<close>

definition shown :: "AURPPeerTable \<Rightarrow> peer_ref list" where
  "shown t = concat (map (\<lambda>(a, dns, p). case p of None \<Rightarrow> [] | Some i \<Rightarrow> [i]) (row_peers t))"

lemma configured_shown:
  assumes "table_inv t" "distinct (map fst ds)"
  shows "distinct (concat (map (\<lambda>(a, dns). case configuredPeer a t of None \<Rightarrow> [] | Some i \<Rightarrow> [i]) ds)) \<and>
    set (concat (map (\<lambda>(a, dns). case configuredPeer a t of None \<Rightarrow> [] | Some i \<Rightarrow> [i]) ds)) =
      {i. \<exists>a \<in> fst ` set ds. configuredPeer a t = Some i}"
  using assms(2)
proof (induction ds)
  case (Cons d ds)
  obtain a dns where d: "d = (a, dns)" by fastforce
  have "configuredPeer b t \<noteq> Some i" if "configuredPeer a t = Some i" "b \<in> fst ` set ds" for i b
    using that table_invD(3) [OF assms(1)] Cons.prems d by auto
  with Cons d show ?case by (auto split: option.split)
qed simp

theorem peer_rows_complete:
  assumes "table_reach w" "distinct (configuredAddresses (tw_table w))"
  shows "distinct (shown (tw_table w)) \<and> set (shown (tw_table w)) = {..<length (peers (tw_table w))} \<and>
    take (length (configuredAddresses (tw_table w))) (map fst (row_peers (tw_table w))) = configuredAddresses (tw_table w)"
proof -
  let ?t = "tw_table w"
  note inv = table_inv_reach [OF assms(1)]
  let ?seen = "concat (map (\<lambda>(a, dns). case configuredPeer a ?t of None \<Rightarrow> [] | Some i \<Rightarrow> [i]) (dnsByConfigured ?t))"
  have seen: "distinct ?seen" "set ?seen = {i. \<exists>a \<in> set (configuredAddresses ?t). configuredPeer a ?t = Some i}"
    using configured_shown [OF inv, of "dnsByConfigured ?t"] assms(2) by (auto simp: configuredAddresses_def)
  have comp: "(\<lambda>(a, dns, p). case p of None \<Rightarrow> [] | Some i \<Rightarrow> [i]) \<circ> (\<lambda>(a, dns). (a, dns, configuredPeer a ?t)) =
      (\<lambda>(a, dns). case configuredPeer a ?t of None \<Rightarrow> [] | Some i \<Rightarrow> [i])" by auto
  have "shown ?t = ?seen @ filter (\<lambda>i. i \<notin> set ?seen) (uniquePeersLocked ?t)"
    by (simp add: shown_def row_peers_def Let_def comp map_concat comp_def split_def)
  moreover have "set ?seen \<subseteq> {..<length (peers ?t)}" unfolding seen(2) using table_invD(3) [OF inv] by auto
  ultimately have "distinct (shown ?t) \<and> set (shown ?t) = {..<length (peers ?t)}"
    using seen(1) unique_peers [OF inv] by auto
  moreover have "take (length (configuredAddresses ?t)) (map fst (row_peers ?t)) = configuredAddresses ?t"
    by (simp add: row_peers_def Let_def configuredAddresses_def comp_def split_def)
  ultimately show ?thesis by blast
qed

text \<open>
  An item is found under its title until it is removed; removing goes by the title, so it removes
  whatever was put there last.
\<close>

lemma AddSimpleItem_found:
  assumes "AddSimpleItem ctx title st = (ctx', st')" "parentItem ctx < length st"
  shows "\<exists>i. ctx' = Some i \<and> map_of (Items (parentItem ctx) st') title = Some i \<and>
    (\<forall>u. u \<noteq> title \<longrightarrow> map_of (Items (parentItem ctx) st') u = map_of (Items (parentItem ctx) st) u) \<and>
    map_of (Items (parentItem ctx) (delSubItem (parentItem ctx) title st')) = (map_of (Items (parentItem ctx) st))(title := None)"
  using assms
  by (auto simp: AddSimpleItem_def Let_def addSubItem_def delSubItem_def upd_item_def Items_def nth_append update_conv' delete_conv'
      fun_eq_iff)

end
