(* ===== verification/Spec2Isabelle.thy ===== *)
theory Spec2Isabelle
  imports Forwarding PeerTimers ZoneAssembly SeedProps NbpProps Metrics RouterReach ConfigText StatusPage
begin

text \<open>
  A verification development for jrouter, an AppleTalk router for EtherTalk networks that
  connects to other routers over AURP (RFC 1504) tunnels.  File names below are under \<open>src/\<close>.

  \<^bold>\<open>The program.\<close>  \<open>main.go\<close> loads the configuration, creates the EtherTalk ports and the AURP
  peers and starts the loops.  Each port reads frames: AARP frames go to the machine that claims and
  defends the address of the port (\<open>router/aarp.go\<close>), AppleTalk packets to the handlers of RTMP,
  ZIP, NBP and AEP or to the forwarding (\<open>router/router.go\<close>); packets to a node whose hardware
  address is unknown wait in outboxes (\<open>router/etalk_port.go\<close>).  A port learns or defends its cable
  range (\<open>router/seed.go\<close>) and advertises the routes of the router by RTMP.  One loop reads AURP
  datagrams (\<open>router/aurp.go\<close>), which are parsed (\<open>aurp/\<close>) and go to the peer they came from
  (\<open>router/aurp_peer_table.go\<close>); the handle loop of the peer (\<open>router/aurp_peer.go\<close>,
  \<open>router/aurp_zone.go\<close>) keeps its routes and zones in the route table (\<open>router/route_table.go\<close>,
  \<open>router/zones.go\<close>).  The route table tells its observers, the peers, about changes of the best
  route for a network; each peer turns them into routing updates (\<open>router/aurp_routing.go\<close>).  The
  configuration (\<open>router/config.go\<close>) controls remapping, hiding and weighting per peer.

  \<^bold>\<open>The theories, packets.\<close>

  \<^descr> \<open>Prelude\<close>: Go's outcomes (value, error, panic), slices, big-endian integers, strings,
  counting loops over 16-bit numbers (\<open>net_for\<close>, partial because the counter can wrap) and
  sorting.  \<open>safe\<close> says that an expression does not panic.

  \<^descr> \<open>AurpWire\<close>, \<open>AurpTuples\<close>, \<open>AurpZones\<close>, \<open>AurpPackets\<close>, \<open>AurpParse\<close>, \<open>Transport\<close>: the AURP
  packet formats (\<open>aurp/*.go\<close>).  \<open>..._WriteTo\<close> and \<open>parse...\<close> follow the methods and functions of
  the same names; \<open>Packet\<close> is the sum of the packet types and \<open>ParsePacket\<close> the dispatcher.  The
  locales \<open>tuple_codec\<close> and \<open>tuple_list_codec\<close> state the contract between the writer and the
  parser of one tuple; lists of option, network and event tuples are interpretations.
  \<open>Transport\<close> has the connection state, sequence arithmetic and the packet constructors.  Shown:
  no datagram makes the parser panic, every packet the router constructs parses back to itself,
  zone compression is lossless, sequence numbers skip 0 and have period 65535.

  \<^descr> \<open>AtalkPackets\<close>, \<open>AtalkRouting\<close>, \<open>AtalkCodec\<close>, \<open>Ddp\<close>: the packets of the local protocols
  (\<open>atalk/\<close>), the same results for them, zone multicast addresses, and the fields and the checksum
  of the DDP header (\<open>router/ddp_checksum.go\<close>).

  \<^bold>\<open>The theories, routes.\<close>

  \<^descr> \<open>Routes\<close>, \<open>RouteTable\<close>, \<open>RouteTableInv\<close>, \<open>RouteTableOps\<close>, \<open>RouteTableReach\<close>: the route
  table.  \<open>RouteTable\<close> models every operation on the class index, the forwarding index of 65536
  network entries and the zone indexes.  \<open>rt_abs\<close> is the abstract table, a map from route keys to
  routes, and \<open>rt_inv\<close> says that all indexes mirror it.  The locale \<open>net_op\<close> is the contract of
  the loop bodies that change one network entry.  \<open>rt_step\<close> and \<open>rt_reach\<close> are the steps of the
  program and the reachable tables.  Shown: the invariant holds in every reachable table, each
  operation refines its effect on the abstract table, lookups return best routes, notifications
  keep observers informed, and a range that ends at 65535 makes \<open>UpsertRoute\<close> loop forever.

  \<^descr> \<open>RouterConfig\<close>, \<open>PeerPolicy\<close>, \<open>PeerPolicyProps\<close>: the validation of the configuration and the
  per-peer policies.  Shown for every accepted configuration: remapping is inverted on the way
  back, hidden ranges and hidden networks agree, distances are exact and bounded, filtered NBP
  replies are well-formed.

  \<^descr> \<open>AurpRouting\<close>, \<open>AurpSender\<close>, \<open>AurpZoneInfo\<close>: what is sent to peers.  The locale \<open>chunker\<close> is
  the contract of the loops that divide tuples into datagrams.  Shown: exactly the right routes
  are exported, each event moves the peer's view from the old to the new route, any number of
  changes between two updates is coalesced into one correct event, and the streams of RI-Rsp,
  RI-Upd and ZI-Rsp packets deliver exactly the routes, events or zones in datagrams of at most
  1400 bytes.

  \<^descr> \<open>Forwarding\<close>: hop counts and routes of forwarded packets (\<open>router/router.go\<close>).  Shown: a
  packet from a tunnel never goes back into it and takes the best other route; hop counts are
  raised by one per hop, stay at most 15, and are reduced only as far as needed.

  \<^bold>\<open>The theories, AURP peers.\<close>

  \<^descr> \<open>PeerState\<close>, \<open>ZoneExchange\<close>, \<open>PeerReceiver\<close>, \<open>PeerHandlers\<close>: the state of a peer and its
  operations in a state and error monad over \<open>peer_world\<close>, the peer, the route table, the packets
  sent and the notifications.  Every handler and every periodic task of \<open>router/aurp_peer.go\<close> and
  \<open>router/aurp_zone.go\<close> is one definition; \<open>handle_turn\<close> is one turn of the loop of \<open>Handle\<close>, whose
  tickers and channels are the constructors of its event.

  \<^descr> \<open>PeerLogic\<close>, \<open>PeerInv\<close>, \<open>PeerSequence\<close>, \<open>PeerImport\<close>, \<open>PeerExchange\<close>, \<open>PeerTimers\<close>,
  \<open>ZoneAssembly\<close>: weakest preconditions for that monad, the invariant of the reachable states
  (\<open>peer_reach\<close>), routing packets are applied in sequence and once, what they change refines
  \<open>import_tuple\<close> and \<open>import_event\<close>, a whole exchange over the wire delivers the routing table of
  the sender, silent peers are given up, and zone fragments are assembled in any order.

  \<^descr> \<open>PeerTable\<close>, \<open>PeerTableReach\<close>: the peers by address and by configured name, DNS pacing and
  change of endpoint; \<open>table_reach\<close> are the reachable tables.  Shown: names and addresses stand for
  one peer each and keep it, and candidates are taken over as a whole or not at all.

  \<^descr> \<open>LoopProbe\<close>: the investigation of routing loops.  Shown: a loop is confirmed once, by the probe
  of a registered investigation.

  \<^descr> \<open>AurpInput\<close>: what the socket loop does with one datagram.

  \<^bold>\<open>The theories, EtherTalk ports.\<close>

  \<^descr> \<open>Aarp\<close>, \<open>AarpProps\<close>: the address mapping table and the machine that probes for an address.
  Shown: an address is held only after ten probes without objection and lies in the range.

  \<^descr> \<open>EtalkPort\<close>, \<open>Outbox\<close>: the state of a port, sending, outboxes, cable ranges; operations are in
  the monad \<open>pact\<close> over \<open>port_world\<close>.  Shown: queued packets are sent once the address is learned.

  \<^descr> \<open>Seed\<close>, \<open>SeedLoop\<close>, \<open>SeedProps\<close>: the seed controller, the loop that asks for the cable range,
  adopts or takes over one.  Shown: authority is given up on a contradiction, a soft seed that
  nobody answers takes over, and when a route to the previous range stays behind.

  \<^descr> \<open>Packing\<close>: the locale \<open>packer\<close>, the contract of the loops that fill a packet; interpreted on
  those of RTMP and ZIP.

  \<^descr> \<open>Rtmp\<close>, \<open>RtmpProps\<close>, \<open>Zip\<close>, \<open>ZipProps\<close>, \<open>Nbp\<close>, \<open>NbpProps\<close>: the handlers of the local
  protocols, AURP clusters and the dispatch of frames (\<open>serve_frame\<close>).  Shown: what is advertised
  and what is learned, zone lists page by page, and that a browse request reaches its zone.

  \<^descr> \<open>PortSafety\<close>: frames and datagrams, whatever they hold, are handled and keep the route table in
  order (\<open>router_inv\<close>), except in the cases that the properties name.

  \<^descr> \<open>Startup\<close>, \<open>StartupProps\<close>: the start of the program (\<open>main.go\<close>): the identity of the router,
  the ports, the list of peers and their addresses, the route and peer tables with which the loops
  start.  Shown: an accepted configuration brings up exactly its ports, the cables and zones of its
  hard seeds and its peers, and the invariants of the other theories hold then.

  \<^bold>\<open>The theories, operation of the router.\<close>

  \<^descr> \<open>ConfigText\<close>: how ranges and durations are written in the configuration (the \<open>UnmarshalYAML\<close>
  methods).  Shown: the text of a range reads back as that range, and which texts are refused.

  \<^descr> \<open>StatusPage\<close>: the registry of status items (\<open>status/status.go\<close>) and the rows shown for peers,
  routes and ports.  Shown: pages and rows are sorted and every peer has its rows.

  \<^descr> \<open>RouterRun\<close>, \<open>PeerChanges\<close>, \<open>RouterReach\<close>: the running router, composed of the loops that
  \<open>main\<close> starts: one step is an event of a port (\<open>port_turn\<close>), of a peer (\<open>peer_act\<close>) or a tick of
  \<open>RunMaintenance\<close>, on the ports, the peers and the route table they share; peers hear the
  notifications of every step.  \<open>PeerChanges\<close> shows what the loop of a peer does to the shared
  table.  Shown: a router that was started keeps its invariants in every state it reaches
  (\<open>router_reach\<close>), its peers are in states of \<open>peer_reach\<close>, and the next event of a port is handled;
  a range up to 65535 that is offered to a port stops it.

  \<^descr> \<open>Metrics\<close>: the health snapshot and the metrics of the peers.  Shown: when a scrape is valid.

  \<^bold>\<open>Modelling decisions.\<close>  State is passed explicitly and returned; errors are values, and \<open>None\<close>
  is an operation that does not return: a loop that does not end, a panic, or a send on a full
  channel.  A Go map is an association list in the order of its iteration.  Pointers to shared
  structures that are aliased are references: the traffic counters of a route and the network entry
  it belongs to are addresses into the table, peers are positions in a list, ports are found by
  their key as route targets, channels that are closed are numbers.  The clock is an argument,
  constant during one operation, as are random numbers.  Locks are not modelled: operations are
  atomic, and the interleavings of the loops are the sequences of steps of \<open>rt_reach\<close>,
  \<open>peer_reach\<close>, \<open>table_reach\<close>, \<open>loop_reach\<close> and \<open>outbox_reach\<close>, and for
  the whole router those of \<open>router_reach\<close>.  Observers are called in the order of a list and the calls are part of the result; frames, datagrams and started goroutines
  are recorded.  Code of other modules is an argument: \<open>ddp_module\<close> and \<open>ddp_protos\<close> for the
  \<open>ddp\<close> package, \<open>ethertalk_module\<close> for \<open>ethertalk\<close> and \<open>aarp\<close>, \<open>net.LookupIP\<close>, the error of a
  UDP write (\<open>env_udp\<close>), the \<open>Forward\<close> methods of route targets
  (\<open>pe_fwd\<close>), and what the start of the program asks the system for (\<open>startup_env\<close>).  String comparisons
  that ignore case are modelled on ASCII.  There is no fuel: every loop is structural or has a
  measure, except \<open>net_for\<close>; the theorems that an operation returns are stated as such.

  \<^bold>\<open>Not modelled.\<close>  Logging, the counters of packets that the code only increments, the YAML decoder itself
  and \<open>time.ParseDuration\<close> (arguments of the model), the rendering of the status templates, build
  targets (\<open>magefile.go\<close>), command-line flags, signals and the HTTP server of \<open>main.go\<close>, the lookup
  of adapters on Windows, and the input and output through pcap, UDP and HTTP.
\<close>

end
